(* ===== verification/Prelude.thy ===== *)
theory Prelude
  imports Main "HOL-Library.Word"
begin

text \<open>
  Shared vocabulary of the development: the fixed-width integer types of the C++
  sources, the error codes of \<^verbatim>\<open>include/host/doca_error.h\<close>, and the generic lemmas on
  words and lists that the component theories rest on.  Errors are values: an operation
  that can fail returns a \<open>doca_error\<close>, or a sum whose left side is the error.
\<close>

unbundle bit_operations_syntax

named_theorems doca_simps \<open>unfoldings of the small operations of the model\<close>

section \<open>Machine integers\<close>

type_synonym u8 = "8 word"
type_synonym u16 = "16 word"
type_synonym u32 = "32 word"
type_synonym u64 = "64 word"

section \<open>Error codes\<close>

datatype doca_error =
    DOCA_SUCCESS
  | DOCA_ERROR_UNKNOWN
  | DOCA_ERROR_NOT_PERMITTED
  | DOCA_ERROR_IN_USE
  | DOCA_ERROR_NOT_SUPPORTED
  | DOCA_ERROR_AGAIN
  | DOCA_ERROR_INVALID_VALUE
  | DOCA_ERROR_NO_MEMORY
  | DOCA_ERROR_INITIALIZATION
  | DOCA_ERROR_TIME_OUT
  | DOCA_ERROR_SHUTDOWN
  | DOCA_ERROR_CONNECTION_RESET
  | DOCA_ERROR_CONNECTION_ABORTED
  | DOCA_ERROR_CONNECTION_INPROGRESS
  | DOCA_ERROR_NOT_CONNECTED
  | DOCA_ERROR_NO_LOCK
  | DOCA_ERROR_NOT_FOUND
  | DOCA_ERROR_IO_FAILED
  | DOCA_ERROR_BAD_STATE
  | DOCA_ERROR_UNSUPPORTED_VERSION
  | DOCA_ERROR_OPERATING_SYSTEM
  | DOCA_ERROR_DRIVER
  | DOCA_ERROR_UNEXPECTED
  | DOCA_ERROR_ALREADY_EXIST
  | DOCA_ERROR_FULL
  | DOCA_ERROR_EMPTY
  | DOCA_ERROR_IN_PROGRESS
  | DOCA_ERROR_TOO_BIG
  | DOCA_ERROR_AUTHENTICATION
  | DOCA_ERROR_BAD_CONFIG
  | DOCA_ERROR_SKIPPED
  | DOCA_ERROR_DEVICE_FATAL_ERROR

datatype doca_sdk_wrapper_error =
    DOCA_SDK_WRAPPER_SUCCESS
  | DOCA_SDK_WRAPPER_NOT_FOUND
  | DOCA_SDK_WRAPPER_NOT_SUPPORTED
  | DOCA_SDK_WRAPPER_API_ERROR
  | DOCA_SDK_WRAPPER_API_INVALID_VALUE

section \<open>Words\<close>

lemma word_less_unat: "x < y \<longleftrightarrow> unat x < unat y"
  for x y :: "'a::len word"
  by (simp add: word_less_nat_alt)

lemma word_le_unat: "x \<le> y \<longleftrightarrow> unat x \<le> unat y"
  for x y :: "'a::len word"
  by (simp add: word_le_nat_alt)

lemma unat_lt_2p: "unat x < 2 ^ LENGTH('a)"
  for x :: "'a::len word"
  by (rule unsigned_less)

lemma unat_add_no_overflow:
  "unat x + unat y < 2 ^ LENGTH('a) \<Longrightarrow> unat (x + y) = unat x + unat y"
  for x y :: "'a::len word"
  by (simp add: unat_word_ariths)

lemma unat_mult_no_overflow:
  "unat x * unat y < 2 ^ LENGTH('a) \<Longrightarrow> unat (x * y) = unat x * unat y"
  for x y :: "'a::len word"
  by (simp add: unat_word_ariths)

lemma unat_sub_le: "y \<le> x \<Longrightarrow> unat (x - y) = unat x - unat y"
  for x y :: "'a::len word"
  by (rule unat_sub)

lemma unat_bit_iff: "bit (unat x) n \<longleftrightarrow> bit x n"
  for x :: "'a::len word"
  by (auto simp: bit_unsigned_iff dest: bit_imp_le_length)

text \<open>The low bits of a word, read as a natural number: masking is \<open>mod\<close> a power of two.\<close>

lemma unat_and_mask: "unat (x AND mask n) = unat x mod 2 ^ n"
  for x :: "'a::len word"
  by (metis unsigned_take_bit_eq take_bit_eq_mask take_bit_eq_mod)

lemma unat_drop_bit: "unat (drop_bit n x) = unat x div 2 ^ n"
  for x :: "'a::len word"
proof -
  have "unat (drop_bit n x) = drop_bit n (unat x)"
    by (rule bit_eqI) (auto simp: bit_unsigned_iff bit_drop_bit_eq dest: bit_imp_le_length)
  then show ?thesis
    by (simp add: drop_bit_eq_div)
qed

lemma unat_pow2: "n < LENGTH('a) \<Longrightarrow> unat ((2::'a::len word) ^ n) = 2 ^ n"
proof -
  assume "n < LENGTH('a)"
  then have "unat (of_nat (2 ^ n) :: 'a word) = 2 ^ n"
    by (simp only: unsigned_of_nat) (simp add: take_bit_nat_eq_self_iff)
  then show ?thesis by simp
qed

lemma unat_ucast_mod: "unat (ucast x :: 'b::len word) = unat x mod 2 ^ LENGTH('b)"
  for x :: "'a::len word"
  by (simp add: unsigned_ucast_eq take_bit_eq_mod)

lemma unat_ucast_u32_u64 [simp]: "unat (ucast (x :: u32) :: u64) = unat x"
  using unat_lt_2p [of x] by (simp add: unat_ucast_mod)

lemma unat_ucast_u16_u32 [simp]: "unat (ucast (x :: u16) :: u32) = unat x"
  using unat_lt_2p [of x] by (simp add: unat_ucast_mod)

lemma unat_ucast_u16_u64 [simp]: "unat (ucast (x :: u16) :: u64) = unat x"
  using unat_lt_2p [of x] by (simp add: unat_ucast_mod)

end
