(* ===== verification/Handle.thy ===== *)
theory Handle
  imports Prelude
begin

text \<open>
  The handles of the host API.  A handle of the verbs layer is a tag and a C union of two
  pointers, one to an object of the closed DOCA SDK and one to an object of this library.
  Every API function follows one scheme: reject a null handle, offer the call to the SDK when
  the tag says so, and fall through to the open implementation otherwise.  The scheme is
  modelled once here, and each API function of the component theories is an instance of it.

  The SDK behind \<^verbatim>\<open>src/*_sdk_wrapper.cpp\<close> is loaded at run time and is a parameter: a call
  takes the SDK object (\<open>None\<close> is a null pointer) and gives the wrapper's result and the SDK
  object after the call.  Using the open pointer while the union holds an SDK object (or the
  other way round) has no defined meaning in C++; such a step is the outcome \<open>Misuse\<close>.  The
  comparison of the open pointer with null that comes first uses no object: a check between it
  and the first use may still reject the call (\<open>past_null\<close>).
\<close>

datatype lib_type = LIB_TYPE_OPEN | LIB_TYPE_SDK

datatype ('s, 'o) member = Null | SdkPtr 's | OpenPtr 'o

record ('s, 'o) handle =
  h_type :: lib_type
  h_member :: "('s, 'o) member"

datatype 'a outcome = Ret 'a | Misuse

type_synonym ('s, 'o) api_result = "(doca_error \<times> ('s, 'o) handle) outcome"
type_synonym 's sdk_call = "'s option \<Rightarrow> doca_sdk_wrapper_error \<times> 's option"

definition sdk_ptr :: "'s option \<Rightarrow> ('s, 'o) member" where
  "sdk_ptr p = (case p of None \<Rightarrow> Null | Some s \<Rightarrow> SdkPtr s)"

fun sdk_obj :: "('s, 'o) member \<Rightarrow> 's option outcome" where
  "sdk_obj Null = Ret None"
| "sdk_obj (SdkPtr s) = Ret (Some s)"
| "sdk_obj (OpenPtr ob) = Misuse"

section \<open>The scheme of a setter\<close>

definition on_open :: "('o \<Rightarrow> doca_error \<times> 'o) \<Rightarrow> ('s, 'o) handle \<Rightarrow> ('s, 'o) api_result" where
  "on_open f h =
    (case h_member h of
       Null \<Rightarrow> Ret (DOCA_ERROR_INVALID_VALUE, h)
     | OpenPtr ob \<Rightarrow> (case f ob of (e, ob') \<Rightarrow> Ret (e, h\<lparr>h_member := OpenPtr ob'\<rparr>))
     | SdkPtr s \<Rightarrow> Misuse)"

definition past_null :: "(('s, 'o) handle \<Rightarrow> ('s, 'o) api_result) \<Rightarrow> ('s, 'o) handle
    \<Rightarrow> ('s, 'o) api_result" where
  "past_null k h =
    (case h_member h of Null \<Rightarrow> Ret (DOCA_ERROR_INVALID_VALUE, h) | _ \<Rightarrow> k h)"

definition guarded :: "bool \<Rightarrow> (('s, 'o) handle \<Rightarrow> ('s, 'o) api_result) \<Rightarrow> ('s, 'o) handle
    \<Rightarrow> ('s, 'o) api_result" where
  "guarded ok k h = (if ok then k h else Ret (DOCA_ERROR_INVALID_VALUE, h))"

definition try_sdk :: "'s sdk_call \<Rightarrow> (('s, 'o) handle \<Rightarrow> ('s, 'o) api_result) \<Rightarrow> ('s, 'o) handle
    \<Rightarrow> ('s, 'o) api_result" where
  "try_sdk call fall h =
    (if h_type h = LIB_TYPE_SDK then
       case sdk_obj (h_member h) of
         Misuse \<Rightarrow> Misuse
       | Ret p \<Rightarrow>
           (case call p of (err, p') \<Rightarrow>
             let h' = h\<lparr>h_member := sdk_ptr p'\<rparr> in
             (case err of
                DOCA_SDK_WRAPPER_SUCCESS \<Rightarrow> Ret (DOCA_SUCCESS, h')
              | DOCA_SDK_WRAPPER_API_ERROR \<Rightarrow> Ret (DOCA_ERROR_UNEXPECTED, h')
              | _ \<Rightarrow> fall h'))
     else fall h)"

text \<open>The functions that reject an SDK handle outright.\<close>

definition reject_sdk :: "doca_error \<Rightarrow> (('s, 'o) handle \<Rightarrow> ('s, 'o) api_result) \<Rightarrow> ('s, 'o) handle
    \<Rightarrow> ('s, 'o) api_result" where
  "reject_sdk e k h = (if h_type h = LIB_TYPE_SDK then Ret (e, h) else k h)"

definition on_handle :: "(('s, 'o) handle \<Rightarrow> ('s, 'o) api_result) \<Rightarrow> ('s, 'o) handle option
    \<Rightarrow> (doca_error \<times> ('s, 'o) handle option) outcome" where
  "on_handle k ho =
    (case ho of
       None \<Rightarrow> Ret (DOCA_ERROR_INVALID_VALUE, None)
     | Some h \<Rightarrow> (case k h of Misuse \<Rightarrow> Misuse | Ret (e, h') \<Rightarrow> Ret (e, Some h')))"

section \<open>The scheme of a getter\<close>

text \<open>A getter returns the error code and what it stored through its result pointer, if it did.\<close>

type_synonym ('s, 'v) sdk_get = "'s option \<Rightarrow> doca_sdk_wrapper_error \<times> 'v"

definition get_open :: "('o \<Rightarrow> 'v) \<Rightarrow> ('s, 'o) handle \<Rightarrow> (doca_error \<times> 'v option) outcome" where
  "get_open f h =
    (case h_member h of
       Null \<Rightarrow> Ret (DOCA_ERROR_INVALID_VALUE, None)
     | OpenPtr ob \<Rightarrow> Ret (DOCA_SUCCESS, Some (f ob))
     | SdkPtr s \<Rightarrow> Misuse)"

definition try_sdk_get :: "('s, 'v) sdk_get
    \<Rightarrow> (('s, 'o) handle \<Rightarrow> (doca_error \<times> 'v option) outcome) \<Rightarrow> ('s, 'o) handle
    \<Rightarrow> (doca_error \<times> 'v option) outcome" where
  "try_sdk_get call fall h =
    (if h_type h = LIB_TYPE_SDK then
       case sdk_obj (h_member h) of
         Misuse \<Rightarrow> Misuse
       | Ret p \<Rightarrow>
           (case call p of
              (DOCA_SDK_WRAPPER_SUCCESS, v) \<Rightarrow> Ret (DOCA_SUCCESS, Some v)
            | (DOCA_SDK_WRAPPER_API_ERROR, v) \<Rightarrow> Ret (DOCA_ERROR_UNEXPECTED, None)
            | _ \<Rightarrow> fall h)
     else fall h)"

definition get_handle :: "bool \<Rightarrow> (('s, 'o) handle \<Rightarrow> (doca_error \<times> 'v option) outcome)
    \<Rightarrow> ('s, 'o) handle option \<Rightarrow> (doca_error \<times> 'v option) outcome" where
  "get_handle result_ptrs_ok k ho =
    (case ho of
       None \<Rightarrow> Ret (DOCA_ERROR_INVALID_VALUE, None)
     | Some h \<Rightarrow> (if result_ptrs_ok then k h else Ret (DOCA_ERROR_INVALID_VALUE, None)))"

section \<open>Creation and destruction\<close>

text \<open>
  A create function allocates the handle, asks the SDK, and constructs the open object only if
  the SDK is absent or lacks the function.  On the error path it deletes whatever the union
  holds as an open object.
\<close>

definition api_create :: "bool \<Rightarrow> doca_sdk_wrapper_error \<times> 's option \<Rightarrow> 'o option
    \<Rightarrow> (doca_error \<times> ('s, 'o) handle option) outcome" where
  "api_create calloc_ok sdk new_open =
    (if \<not> calloc_ok then Ret (DOCA_ERROR_NO_MEMORY, None)
     else case sdk of (err, p) \<Rightarrow>
       let fail = (if p = None then Ret (DOCA_ERROR_INITIALIZATION, None) else Misuse) in
       (case err of
          DOCA_SDK_WRAPPER_SUCCESS \<Rightarrow>
            Ret (DOCA_SUCCESS, Some \<lparr>h_type = LIB_TYPE_SDK, h_member = sdk_ptr p\<rparr>)
        | DOCA_SDK_WRAPPER_API_ERROR \<Rightarrow> fail
        | _ \<Rightarrow> (case new_open of
                  Some ob \<Rightarrow> Ret (DOCA_SUCCESS, Some \<lparr>h_type = LIB_TYPE_OPEN, h_member = OpenPtr ob\<rparr>)
                | None \<Rightarrow> fail)))"

text \<open>
  A destroy function frees the handle on every path.  Its exit label deletes the open pointer
  when the union is not null, also after an SDK call that reported an error.
\<close>

definition delete_open :: "doca_error \<Rightarrow> ('s, 'o) member \<Rightarrow> doca_error outcome" where
  "delete_open status m = (case m of SdkPtr s \<Rightarrow> Misuse | _ \<Rightarrow> Ret status)"

definition destroy_open :: "('o \<Rightarrow> doca_error) \<Rightarrow> ('s, 'o) member \<Rightarrow> doca_error outcome" where
  "destroy_open f m =
    (case m of
       Null \<Rightarrow> Ret DOCA_ERROR_INVALID_VALUE
     | OpenPtr ob \<Rightarrow> delete_open (f ob) m
     | SdkPtr s \<Rightarrow> Misuse)"

definition api_destroy :: "'s sdk_call \<Rightarrow> ('o \<Rightarrow> doca_error) \<Rightarrow> ('s, 'o) handle option
    \<Rightarrow> doca_error outcome" where
  "api_destroy call f ho =
    (case ho of
       None \<Rightarrow> Ret DOCA_ERROR_INVALID_VALUE
     | Some h \<Rightarrow>
         if h_type h = LIB_TYPE_SDK then
           case sdk_obj (h_member h) of
             Misuse \<Rightarrow> Misuse
           | Ret p \<Rightarrow>
               (case call p of (err, p') \<Rightarrow>
                 (case err of
                    DOCA_SDK_WRAPPER_SUCCESS \<Rightarrow> delete_open DOCA_SUCCESS (Null :: ('s, 'o) member)
                  | DOCA_SDK_WRAPPER_API_ERROR \<Rightarrow>
                      delete_open DOCA_ERROR_UNEXPECTED (sdk_ptr p' :: ('s, 'o) member)
                  | _ \<Rightarrow> destroy_open f (sdk_ptr p' :: ('s, 'o) member)))
         else destroy_open f (h_member h))"

section \<open>Well-formed handles\<close>

text \<open>
  The invariant of a handle: the union holds a pointer of the kind the tag announces, and an
  open handle has its object.  Every create function establishes it.
\<close>

definition handle_wf :: "('s, 'o) handle \<Rightarrow> bool" where
  "handle_wf h \<longleftrightarrow>
    (case h_member h of Null \<Rightarrow> h_type h = LIB_TYPE_SDK | SdkPtr s \<Rightarrow> h_type h = LIB_TYPE_SDK
     | OpenPtr ob \<Rightarrow> h_type h = LIB_TYPE_OPEN)"

definition open_handle :: "'o \<Rightarrow> ('s, 'o) handle" where
  "open_handle ob = \<lparr>h_type = LIB_TYPE_OPEN, h_member = OpenPtr ob\<rparr>"

text \<open>An SDK that implements the call: the wrapper then reports success or an API error only.\<close>

definition sdk_implements :: "'s sdk_call \<Rightarrow> bool" where
  "sdk_implements call \<longleftrightarrow>
    (\<forall>p. fst (call p) = DOCA_SDK_WRAPPER_SUCCESS \<or> fst (call p) = DOCA_SDK_WRAPPER_API_ERROR)"

lemma on_handle_None [simp]: "on_handle k None = Ret (DOCA_ERROR_INVALID_VALUE, None)"
  by (simp add: on_handle_def)

lemma on_handle_open [simp]:
  "on_handle (try_sdk c k) (Some (open_handle ob)) = on_handle k (Some (open_handle ob))"
  "on_handle (guarded b k) (Some (open_handle ob)) =
    (if b then on_handle k (Some (open_handle ob))
     else Ret (DOCA_ERROR_INVALID_VALUE, Some (open_handle ob)))"
  "on_handle (reject_sdk e k) (Some (open_handle ob)) = on_handle k (Some (open_handle ob))"
  "on_handle (past_null k) (Some (open_handle ob)) = on_handle k (Some (open_handle ob))"
  "on_handle (on_open f) (Some (open_handle ob)) =
    Ret (fst (f ob), Some (open_handle (snd (f ob))))"
  by (auto simp: on_handle_def try_sdk_def guarded_def reject_sdk_def past_null_def on_open_def
      open_handle_def split: prod.splits)

lemma guarded_open [simp]:
  "guarded b k h = (if b then k h else Ret (DOCA_ERROR_INVALID_VALUE, h))"
  by (simp add: guarded_def)

section \<open>Safety of the schemes\<close>

text \<open>
  \<open>open_safe k\<close>: on every well-formed open handle, \<open>k\<close> has a defined outcome and leaves a
  well-formed handle with the same tag.  \<open>api_safe k\<close> asks the same of both tags.
\<close>

definition open_safe :: "(('s, 'o) handle \<Rightarrow> ('s, 'o) api_result) \<Rightarrow> bool" where
  "open_safe k \<longleftrightarrow> (\<forall>h. handle_wf h \<and> h_type h = LIB_TYPE_OPEN \<longrightarrow>
    (\<exists>e h'. k h = Ret (e, h') \<and> handle_wf h' \<and> h_type h' = h_type h))"

definition api_safe :: "(('s, 'o) handle \<Rightarrow> ('s, 'o) api_result) \<Rightarrow> bool" where
  "api_safe k \<longleftrightarrow> (\<forall>h. handle_wf h \<longrightarrow>
    (\<exists>e h'. k h = Ret (e, h') \<and> handle_wf h' \<and> h_type h' = h_type h))"

named_theorems handle_safe \<open>the schemes that keep handles well-formed\<close>

lemma open_safe_on_open [handle_safe]: "open_safe (on_open f)"
  unfolding open_safe_def
proof (intro allI impI)
  fix h :: "('a, 'b) handle"
  assume h: "handle_wf h \<and> h_type h = LIB_TYPE_OPEN"
  show "\<exists>e h'. on_open f h = Ret (e, h') \<and> handle_wf h' \<and> h_type h' = h_type h"
    using h by (cases "h_member h") (auto simp: on_open_def handle_wf_def split: prod.splits)
qed

lemma open_safe_past_null [handle_safe]: "open_safe k \<Longrightarrow> open_safe (past_null k)"
  by (auto simp: open_safe_def past_null_def handle_wf_def split: member.splits)

lemma open_safe_guarded [handle_safe]: "open_safe k \<Longrightarrow> open_safe (guarded b k)"
  by (simp add: open_safe_def)

lemma api_safe_guarded [handle_safe]: "api_safe k \<Longrightarrow> api_safe (guarded b k)"
  by (simp add: api_safe_def)

lemma api_safe_reject_sdk [handle_safe]: "open_safe k \<Longrightarrow> api_safe (reject_sdk e k)"
  unfolding api_safe_def
proof (intro allI impI)
  fix h :: "('a, 'b) handle"
  assume "open_safe k" "handle_wf h"
  then show "\<exists>e' h'. reject_sdk e k h = Ret (e', h') \<and> handle_wf h' \<and> h_type h' = h_type h"
    by (cases "h_type h") (simp_all add: reject_sdk_def open_safe_def)
qed

lemma api_safe_try_sdk [handle_safe]:
  assumes "sdk_implements call" and "open_safe k"
  shows "api_safe (try_sdk call k)"
  unfolding api_safe_def
proof (intro allI impI)
  fix h :: "('a, 'b) handle"
  assume wf: "handle_wf h"
  show "\<exists>e h'. try_sdk call k h = Ret (e, h') \<and> handle_wf h' \<and> h_type h' = h_type h"
  proof (cases "h_type h")
    case LIB_TYPE_OPEN
    then show ?thesis using wf assms(2) by (simp add: try_sdk_def open_safe_def)
  next
    case LIB_TYPE_SDK
    then obtain p where p: "sdk_obj (h_member h) = Ret p"
      using wf by (cases "h_member h") (auto simp: handle_wf_def)
    obtain err p' where c: "call p = (err, p')" by fastforce
    then have "err = DOCA_SDK_WRAPPER_SUCCESS \<or> err = DOCA_SDK_WRAPPER_API_ERROR"
      using assms(1) by (metis fst_conv sdk_implements_def)
    then show ?thesis
      using LIB_TYPE_SDK p c
      by (auto simp: try_sdk_def Let_def handle_wf_def sdk_ptr_def split: option.splits)
  qed
qed

lemma on_handle_safe:
  assumes "api_safe k" "pred_option handle_wf ho"
  shows "\<exists>e ho'. on_handle k ho = Ret (e, ho') \<and> pred_option handle_wf ho'"
  using assms by (cases ho) (fastforce simp: on_handle_def api_safe_def)+

lemma api_create_wf:
  "api_create c sdk new_open = Ret (e, Some h) \<Longrightarrow> e = DOCA_SUCCESS \<and> handle_wf h"
  by (auto simp: api_create_def handle_wf_def sdk_ptr_def Let_def
      split: if_splits prod.splits doca_sdk_wrapper_error.splits option.splits)

lemma handle_wf_open_handle [simp]: "handle_wf (open_handle ob)"
  by (simp add: handle_wf_def open_handle_def)

text \<open>An SDK that lacks the function makes a setter read the SDK object as an open one.\<close>

lemma try_sdk_lacking:
  assumes "call (Some s) = (err, Some s')"
    and "err \<in> {DOCA_SDK_WRAPPER_NOT_FOUND, DOCA_SDK_WRAPPER_NOT_SUPPORTED,
                DOCA_SDK_WRAPPER_API_INVALID_VALUE}"
  shows "on_handle (try_sdk call (on_open f)) (Some \<lparr>h_type = LIB_TYPE_SDK, h_member = SdkPtr s\<rparr>)
    = Misuse"
  using assms by (auto simp: on_handle_def try_sdk_def on_open_def sdk_ptr_def Let_def)

end
