(* ===== verification/VerbsTypes.thy ===== *)
theory VerbsTypes
  imports Prelude
begin

text \<open>
  The data of the verbs layer: the enumerations of \<^verbatim>\<open>include/host/doca_verbs.h\<close>, the
  attribute structures of \<^verbatim>\<open>src/doca_verbs_qp.hpp\<close> and \<^verbatim>\<open>src/doca_verbs_device_attr.hpp\<close>
  and the private state of a QP object.  A C enumeration that the code checks at run time
  has one more constructor for the values outside of its enumerators.  A pointer to an
  object that the model does not look into is a number, and 0 is the null pointer.
\<close>

type_synonym ptr = nat

abbreviation null :: ptr where
  "null \<equiv> 0"

datatype qp_state =
    QP_STATE_RST | QP_STATE_INIT | QP_STATE_RTR | QP_STATE_RTS | QP_STATE_ERR
  | QP_STATE_OTHER u32

datatype addr_type =
    ADDR_TYPE_IPv4 | ADDR_TYPE_IPv6 | ADDR_TYPE_IB_GRH | ADDR_TYPE_IB_NO_GRH
  | ADDR_TYPE_OTHER u32

datatype mtu_size =
    MTU_SIZE_256_BYTES | MTU_SIZE_512_BYTES | MTU_SIZE_1K_BYTES | MTU_SIZE_2K_BYTES
  | MTU_SIZE_4K_BYTES | MTU_SIZE_RAW_ETHERNET | MTU_SIZE_OTHER u32

definition QP_ATOMIC_MODE_NONE :: u32 where
  "QP_ATOMIC_MODE_NONE = 0"

definition QP_TYPE_RC :: u32 where
  "QP_TYPE_RC = 0"

definition SEND_DBR_MODE_DBR_VALID :: u8 where
  "SEND_DBR_MODE_DBR_VALID = 0"

definition SEND_DBR_MODE_NO_DBR_EXT :: u8 where
  "SEND_DBR_MODE_NO_DBR_EXT = 1"

record ah_attr_open =
  ah_gid :: "u8 list"
  ah_addr_type :: addr_type
  ah_dlid :: u32
  ah_sl :: u8
  ah_sgid_index :: u8
  ah_static_rate :: u8
  ah_hop_limit :: u8
  ah_traffic_class :: u8
  ah_is_global :: u8

record qp_attr_open =
  qa_next_state :: qp_state
  qa_current_state :: qp_state
  qa_path_mtu :: mtu_size
  qa_rq_psn :: u32
  qa_sq_psn :: u32
  qa_dest_qp_num :: u32
  qa_allow_remote_write :: u32
  qa_allow_remote_read :: u32
  qa_atomic_mode :: u32
  qa_ah_attr :: ah_attr_open
  qa_ah_attr_enabled :: bool
  qa_pkey_index :: u16
  qa_port_num :: u16
  qa_ack_timeout :: u8
  qa_retry_cnt :: u8
  qa_rnr_retry :: u8
  qa_min_rnr_timer :: u8
  qa_core_direct_master :: u8
  qa_max_rd_atomic :: u8
  qa_max_dest_rd_atomic :: u8
  qa_counter_set_id :: u32

record qp_init_attr_open =
  ia_pd :: ptr
  ia_send_cq :: ptr
  ia_receive_cq :: ptr
  ia_srq :: ptr
  ia_external_umem :: ptr
  ia_external_umem_dbr :: ptr
  ia_external_uar :: ptr
  ia_external_umem_offset :: u64
  ia_external_umem_dbr_offset :: u64
  ia_sq_sig_all :: u32
  ia_sq_wr :: u32
  ia_rq_wr :: u32
  ia_send_max_sges :: u32
  ia_receive_max_sges :: u32
  ia_max_inline_data :: u32
  ia_user_index :: u32
  ia_qp_type :: u32
  ia_qp_context :: ptr
  ia_send_cqn :: u32
  ia_receive_cqn :: u32
  ia_core_direct_master :: u8
  ia_send_dbr_mode :: u8
  ia_emulate_no_dbr_ext :: bool

record device_attr =
  da_max_qp :: u32
  da_max_qp_wr :: u32
  da_max_sge :: u32
  da_max_cq :: u32
  da_max_cqe :: u32
  da_max_mr :: u32
  da_max_pd :: u32
  da_max_ah :: u32
  da_max_srq :: u32
  da_max_srq_wr :: u32
  da_max_srq_sge :: u32
  da_max_pkeys :: u32
  da_max_sq_desc_size :: u32
  da_max_rq_desc_size :: u32
  da_max_send_wqebb :: u32
  da_min_udp_sport :: u16
  da_max_udp_sport :: u16
  da_gid_table_size :: u16
  da_is_qp_rc_supported :: u8
  da_port_type :: u8
  da_is_rts2rts_qp_dscp_supported :: u8
  da_phys_port_cnt :: u8
  da_send_dbr_mode_no_dbr_ext :: u8
  da_max_qp_init_rd_atom :: u8
  da_max_qp_rd_atom :: u8

text \<open>The private members of \<^verbatim>\<open>doca_verbs_qp_open\<close>.\<close>

record qp_open =
  m_qp_obj :: ptr
  m_umem_obj :: ptr
  m_uar_obj :: ptr
  m_umem_buf :: ptr
  m_wq_buf :: ptr
  m_pd :: ptr
  m_qp_type :: u32
  m_addr_type :: addr_type
  m_current_state :: qp_state
  m_rcv_wqe_size :: u32
  m_send_wqe_size :: u32
  m_init_attr :: qp_init_attr_open
  m_verbs_device_attr :: "device_attr option"
  m_rcv_max_sges :: u32
  m_log_rcv_wqe_size :: u8
  m_rq_size :: u32
  m_send_max_sges :: u32
  m_sq_size_wqebb :: u32
  m_sq_size_wr :: u32
  m_max_inline_data_length :: u32
  m_uar_db_reg :: ptr
  m_sq_buf :: ptr
  m_rq_buf :: ptr
  m_qp_num :: u32
  m_db_buffer :: ptr
  m_srq :: ptr

section \<open>Values of freshly constructed objects\<close>

definition new_ah_attr :: ah_attr_open where
  "new_ah_attr = \<lparr>ah_gid = replicate 16 0, ah_addr_type = ADDR_TYPE_IPv4, ah_dlid = 0, ah_sl = 0,
     ah_sgid_index = 0, ah_static_rate = 0, ah_hop_limit = 0, ah_traffic_class = 0,
     ah_is_global = 0\<rparr>"

definition new_qp_attr :: qp_attr_open where
  "new_qp_attr = \<lparr>qa_next_state = QP_STATE_RST, qa_current_state = QP_STATE_RST,
     qa_path_mtu = MTU_SIZE_256_BYTES, qa_rq_psn = 0, qa_sq_psn = 0, qa_dest_qp_num = 0,
     qa_allow_remote_write = 0, qa_allow_remote_read = 0, qa_atomic_mode = QP_ATOMIC_MODE_NONE,
     qa_ah_attr = new_ah_attr, qa_ah_attr_enabled = False, qa_pkey_index = 0, qa_port_num = 0,
     qa_ack_timeout = 0, qa_retry_cnt = 0, qa_rnr_retry = 0, qa_min_rnr_timer = 0,
     qa_core_direct_master = 0, qa_max_rd_atomic = 0, qa_max_dest_rd_atomic = 0,
     qa_counter_set_id = 0\<rparr>"

definition new_qp_init_attr :: qp_init_attr_open where
  "new_qp_init_attr = \<lparr>ia_pd = null, ia_send_cq = null, ia_receive_cq = null, ia_srq = null,
     ia_external_umem = null, ia_external_umem_dbr = null, ia_external_uar = null,
     ia_external_umem_offset = 0, ia_external_umem_dbr_offset = 0, ia_sq_sig_all = 0,
     ia_sq_wr = 0, ia_rq_wr = 0, ia_send_max_sges = 0, ia_receive_max_sges = 0,
     ia_max_inline_data = 0, ia_user_index = 0, ia_qp_type = 0, ia_qp_context = null,
     ia_send_cqn = 0, ia_receive_cqn = 0, ia_core_direct_master = 0, ia_send_dbr_mode = 0,
     ia_emulate_no_dbr_ext = False\<rparr>"

definition new_device_attr :: device_attr where
  "new_device_attr = \<lparr>da_max_qp = 0, da_max_qp_wr = 0, da_max_sge = 0, da_max_cq = 0,
     da_max_cqe = 0, da_max_mr = 0, da_max_pd = 0, da_max_ah = 0, da_max_srq = 0,
     da_max_srq_wr = 0, da_max_srq_sge = 0, da_max_pkeys = 0, da_max_sq_desc_size = 0,
     da_max_rq_desc_size = 0, da_max_send_wqebb = 0, da_min_udp_sport = 0, da_max_udp_sport = 0,
     da_gid_table_size = 0, da_is_qp_rc_supported = 0, da_port_type = 0,
     da_is_rts2rts_qp_dscp_supported = 0, da_phys_port_cnt = 0, da_send_dbr_mode_no_dbr_ext = 0,
     da_max_qp_init_rd_atom = 0, da_max_qp_rd_atom = 0\<rparr>"

definition new_qp :: qp_open where
  "new_qp = \<lparr>m_qp_obj = null, m_umem_obj = null, m_uar_obj = null, m_umem_buf = null,
     m_wq_buf = null, m_pd = null, m_qp_type = QP_TYPE_RC, m_addr_type = ADDR_TYPE_IPv4,
     m_current_state = QP_STATE_RST, m_rcv_wqe_size = 0, m_send_wqe_size = 0,
     m_init_attr = new_qp_init_attr, m_verbs_device_attr = None, m_rcv_max_sges = 0,
     m_log_rcv_wqe_size = 0, m_rq_size = 0, m_send_max_sges = 0, m_sq_size_wqebb = 0,
     m_sq_size_wr = 0, m_max_inline_data_length = 0, m_uar_db_reg = null, m_sq_buf = null,
     m_rq_buf = null, m_qp_num = 0, m_db_buffer = null, m_srq = null\<rparr>"

end
