(* ===== verification/Utils.thy ===== *)
theory Utils
  imports Prelude
begin

text \<open>
  The arithmetic helpers of \<^verbatim>\<open>src/doca_internal.hpp\<close> (powers of two, alignment) and of
  \<^verbatim>\<open>include/device/doca_gpunetio_dev_verbs_common.cuh\<close> (byte swaps, ceiling division,
  the copy loops).  The theorems give each helper its arithmetic meaning over the
  natural number a word stands for, with the inputs on which it wraps made explicit.
\<close>

section \<open>Powers of two (doca_internal.hpp)\<close>

definition is_power_of_two :: "u64 \<Rightarrow> bool" where
  "is_power_of_two x = (x \<noteq> 0 \<and> x AND (x - 1) = 0)"

definition smear :: "nat \<Rightarrow> u64 \<Rightarrow> u64" where
  "smear k x = x OR drop_bit k x"

definition next_power_of_two :: "u64 \<Rightarrow> u64" where
  "next_power_of_two x =
    (let x = x - 1;
         x = smear 1 x;
         x = smear 2 x;
         x = smear 4 x;
         x = smear 8 x;
         x = smear 16 x;
         x = smear 32 x
     in x + 1)"

fun floor_log2 :: "nat \<Rightarrow> nat" where
  "floor_log2 n = (if n < 2 then 0 else Suc (floor_log2 (n div 2)))"

declare floor_log2.simps [simp del]

definition log2_u32 :: "u32 \<Rightarrow> u32" where
  "log2_u32 x = (if x = 0 then 0 else of_nat (floor_log2 (unat x)))"

definition align_up_uint64 :: "u64 \<Rightarrow> u64 \<Rightarrow> u64" where
  "align_up_uint64 value alignment =
    (let remainder = value mod alignment
     in if remainder = 0 then value else value + (alignment - remainder))"

definition align_up_uint32 :: "u32 \<Rightarrow> u32 \<Rightarrow> u32" where
  "align_up_uint32 value alignment = ucast (align_up_uint64 (ucast value) (ucast alignment))"

text \<open>The specification \<open>next_power_of_two\<close> refines: the least power of two at or above.\<close>

definition least_pow2_above :: "nat \<Rightarrow> nat \<Rightarrow> bool" where
  "least_pow2_above n p \<longleftrightarrow> (\<exists>k. p = 2 ^ k) \<and> n \<le> p \<and> (\<forall>k. n \<le> 2 ^ k \<longrightarrow> p \<le> 2 ^ k)"

subsection \<open>The bit smear\<close>

text \<open>\<open>smeared y w s\<close>: bit \<open>n\<close> of \<open>s\<close> tells whether \<open>y\<close> has a bit among \<open>n .. n + w - 1\<close>.\<close>

definition smeared :: "u64 \<Rightarrow> nat \<Rightarrow> u64 \<Rightarrow> bool" where
  "smeared y w s \<longleftrightarrow> (\<forall>n. bit s n \<longleftrightarrow> (\<exists>k<w. bit y (n + k)))"

lemma smeared_start: "smeared y 1 y"
  by (simp add: smeared_def)

lemma smeared_step:
  assumes "smeared y w s" "v = w + w"
  shows "smeared y v (smear w s)"
proof -
  have "(\<exists>k<w + w. bit y (n + k)) \<longleftrightarrow> (\<exists>k<w. bit y (n + k)) \<or> (\<exists>k<w. bit y (w + n + k))" for n
  proof
    assume "\<exists>k<w + w. bit y (n + k)"
    then obtain k where k: "k < w + w" "bit y (n + k)" by blast
    show "(\<exists>k<w. bit y (n + k)) \<or> (\<exists>k<w. bit y (w + n + k))"
    proof (cases "k < w")
      case False
      then have "k - w < w" "w + n + (k - w) = n + k" using k by auto
      then show ?thesis using k by metis
    qed (use k in blast)
  next
    assume "(\<exists>k<w. bit y (n + k)) \<or> (\<exists>k<w. bit y (w + n + k))"
    then show "\<exists>k<w + w. bit y (n + k)"
      by (metis add.assoc add.commute nat_add_left_cancel_less trans_less_add1)
  qed
  then show ?thesis
    using assms by (simp add: smeared_def smear_def bit_or_iff bit_drop_bit_eq)
qed

lemma smear_all:
  "smeared y 64 (smear 32 (smear 16 (smear 8 (smear 4 (smear 2 (smear 1 y))))))"
  by (rule smeared_step smeared_start | simp)+

text \<open>A word with highest bit \<open>h\<close> smears to the mask of \<open>h + 1\<close> ones.\<close>

lemma smear_mask:
  assumes "bit y h" and top: "\<And>k. bit y k \<Longrightarrow> k \<le> h" and "smeared y 64 s"
  shows "s = mask (Suc h)"
proof (rule bit_word_eqI)
  fix n :: nat
  assume "n < LENGTH(64)"
  have h: "h < 64" using bit_imp_le_length [OF assms(1)] by simp
  have "(\<exists>k<64. bit y (n + k)) \<longleftrightarrow> n \<le> h"
  proof
    assume "n \<le> h"
    then have "h - n < 64" "n + (h - n) = h" using h by auto
    then show "\<exists>k<64. bit y (n + k)" using assms(1) by metis
  qed (use top in fastforce)
  then show "bit s n \<longleftrightarrow> bit (mask (Suc h) :: u64) n"
    using assms(3) \<open>n < LENGTH(64)\<close> by (simp add: smeared_def bit_mask_iff less_Suc_eq_le)
qed

lemma top_bit_exists:
  fixes y :: "'a::len word"
  assumes "y \<noteq> 0"
  obtains h where "h < LENGTH('a)" "bit y h" "\<And>k. bit y k \<Longrightarrow> k \<le> h"
    "2 ^ h \<le> unat y" "unat y < 2 ^ Suc h"
proof -
  have ex: "\<exists>n. bit y n" using assms by (auto simp: bit_eq_iff [of y 0])
  define h where "h = (GREATEST n. bit y n)"
  have bnd: "bit y k \<Longrightarrow> k \<le> LENGTH('a)" for k
    using bit_imp_le_length [of y k] by simp
  have h: "bit y h" unfolding h_def by (rule GreatestI_ex_nat [OF ex bnd])
  have top: "bit y k \<Longrightarrow> k \<le> h" for k
    unfolding h_def by (rule Greatest_le_nat [OF _ bnd])
  have "drop_bit (Suc h) (unat y) = 0"
    by (rule bit_eqI) (use top in \<open>auto simp: bit_drop_bit_eq unat_bit_iff dest: top\<close>)
  then have "unat y div 2 ^ Suc h = 0" by (simp add: drop_bit_eq_div)
  then have up: "unat y < 2 ^ Suc h" by (simp add: div_eq_0_iff)
  have "odd (unat y div 2 ^ h)" using h by (simp flip: unat_bit_iff add: bit_iff_odd)
  then have "2 ^ h \<le> unat y" by (metis div_less even_zero not_le)
  with h top up show thesis using bit_imp_le_length [OF h] that by blast
qed

subsection \<open>What the helpers compute\<close>

lemma next_power_of_two_smear:
  "next_power_of_two x = smear 32 (smear 16 (smear 8 (smear 4 (smear 2 (smear 1 (x - 1)))))) + 1"
  by (simp add: next_power_of_two_def Let_def)

lemma least_pow2_above_unique:
  "least_pow2_above n p \<Longrightarrow> least_pow2_above n q \<Longrightarrow> p = q"
  unfolding least_pow2_above_def by (metis antisym)

lemma least_pow2_above_le: "least_pow2_above n p \<Longrightarrow> n \<le> 2 ^ k \<Longrightarrow> p \<le> 2 ^ k"
  by (simp add: least_pow2_above_def)

lemma next_power_of_two_eq:
  assumes "x \<noteq> 0"
  shows "x = 1 \<and> next_power_of_two x = 1 \<or>
    (\<exists>h<64. 2 ^ h \<le> unat x - 1 \<and> unat x - 1 < 2 ^ Suc h \<and> next_power_of_two x = 2 ^ Suc h)"
proof (cases "x = 1")
  case True
  then show ?thesis by (simp add: next_power_of_two_smear smear_def)
next
  case False
  then have "x - 1 \<noteq> 0" by simp
  then obtain h where h: "h < 64" "bit (x - 1) h" "\<And>k. bit (x - 1) k \<Longrightarrow> k \<le> h"
    "2 ^ h \<le> unat (x - 1)" "unat (x - 1) < 2 ^ Suc h"
    using top_bit_exists [of "x - 1"] by auto
  have "next_power_of_two x = mask (Suc h) + 1"
    unfolding next_power_of_two_smear
    by (rule arg_cong [where f = "\<lambda>w. w + 1"], rule smear_mask [OF h(2,3) smear_all])
  then have "next_power_of_two x = 2 ^ Suc h" by (simp add: mask_eq_decr_exp)
  moreover have "unat (x - 1) = unat x - 1"
    using assms by (metis unat_minus_one)
  ultimately show ?thesis using h by auto
qed

lemma next_power_of_two_least:
  assumes "x \<noteq> 0" and "unat x \<le> 2 ^ 63"
  shows "least_pow2_above (unat x) (unat (next_power_of_two x))"
proof (cases "x = 1")
  case True
  then show ?thesis
    using next_power_of_two_eq [OF assms(1)]
    by (auto simp: least_pow2_above_def intro: exI [of _ 0])
next
  case False
  then obtain h where h: "h < 64" "2 ^ h \<le> unat x - 1" "unat x - 1 < 2 ^ Suc h"
    "next_power_of_two x = 2 ^ Suc h"
    using next_power_of_two_eq [OF assms(1)] by auto
  have lt: "(2::nat) ^ h < 2 ^ 63" using h(2) assms by (cases "unat x") auto
  have "h < 63" by (rule power_less_imp_less_exp [OF _ lt]) simp
  then have n: "unat (next_power_of_two x) = 2 ^ Suc h"
    unfolding h(4) by (intro unat_pow2) simp
  have "2 ^ Suc h \<le> (2::nat) ^ k" if "unat x \<le> 2 ^ k" for k
  proof -
    have pos: "(0::nat) < 2 ^ h" by simp
    have lt: "(2::nat) ^ h < 2 ^ k" using h(2) that pos by linarith
    have "h < k" by (rule power_less_imp_less_exp [OF _ lt]) simp
    then show ?thesis by (intro power_increasing) simp_all
  qed
  moreover have "unat x \<le> 2 ^ Suc h" using h(3) by linarith
  ultimately show ?thesis unfolding n least_pow2_above_def by blast
qed

lemma next_power_of_two_zero: "next_power_of_two 0 = 0"
  unfolding next_power_of_two_smear
  using smear_mask [of "-1" 63, OF _ _ smear_all]
  by (simp add: mask_eq_decr_exp) 

lemma next_power_of_two_too_big:
  assumes "2 ^ 63 < unat x"
  shows "next_power_of_two x = 0"
proof -
  have "x \<noteq> 0" using assms by auto
  moreover have "x \<noteq> 1" using assms by auto
  ultimately obtain h where h: "h < 64" "unat x - 1 < 2 ^ Suc h"
    "next_power_of_two x = 2 ^ Suc h"
    using next_power_of_two_eq by auto
  have lt: "(2::nat) ^ 63 < 2 ^ Suc h" using h(2) assms by linarith
  have "63 < Suc h" by (rule power_less_imp_less_exp [OF _ lt]) simp
  then have "h = 63" using h(1) by simp
  then show ?thesis using h(3) by simp
qed

text \<open>The power-of-two test accepts exactly the 64 powers of two.\<close>

lemma is_power_of_two_pow2:
  assumes "k < 64"
  shows "is_power_of_two (2 ^ k)"
proof -
  have "unat ((2::u64) ^ k) \<noteq> 0" using assms by (simp add: unat_pow2)
  then have "(2::u64) ^ k \<noteq> 0" by (metis unat_0)
  moreover have "(2::u64) ^ k AND mask k = 0"
    by (rule bit_word_eqI) (auto simp: bit_and_iff bit_exp_iff bit_mask_iff)
  ultimately show ?thesis
    by (simp add: is_power_of_two_def mask_eq_decr_exp)
qed

lemma is_power_of_two_imp:
  assumes "is_power_of_two x"
  shows "\<exists>k<64. x = 2 ^ k"
proof -
  have nz: "x \<noteq> 0" and and0: "x AND (x - 1) = 0"
    using assms by (auto simp: is_power_of_two_def)
  obtain h where h: "h < LENGTH(64)" "bit x h" "2 ^ h \<le> unat x" "unat x < 2 ^ Suc h"
    using top_bit_exists [OF nz] by metis
  have "\<not> bit (x - 1) h" using and0 h(2) by (metis bit_and_iff bit_0_eq bot_apply bot_bool_def)
  then have "even (unat (x - 1) div 2 ^ h)"
    by (simp add: unat_bit_iff [symmetric] bit_iff_odd)
  moreover have "unat (x - 1) = unat x - 1" using nz by (metis unat_minus_one)
  ultimately have ev: "even ((unat x - 1) div 2 ^ h)" by simp
  have "unat x = 2 ^ h"
  proof (rule ccontr)
    assume "unat x \<noteq> 2 ^ h"
    then have "1 * 2 ^ h \<le> unat x - 1" "unat x - 1 < (1 + 1) * 2 ^ h" using h by auto
    then have "(unat x - 1) div 2 ^ h = 1"
      by (intro div_nat_eqI) (auto simp: algebra_simps)
    then show False using ev by simp
  qed
  then have "x = 2 ^ h" using h(1) by (metis unat_pow2 word_unat_eq_iff)
  then show ?thesis using h(1) by auto
qed

lemma is_power_of_two_iff: "is_power_of_two x \<longleftrightarrow> (\<exists>k<64. x = 2 ^ k)"
  using is_power_of_two_imp is_power_of_two_pow2 by blast

lemma is_power_of_two_unat: "is_power_of_two x \<longleftrightarrow> (\<exists>k. unat x = 2 ^ k)"
proof
  assume "\<exists>k. unat x = 2 ^ k"
  then obtain k where k: "unat x = 2 ^ k" by blast
  have lt: "(2::nat) ^ k < 2 ^ 64" using unat_lt_2p [of x] k by simp
  have "k < 64" by (rule power_less_imp_less_exp [OF _ lt]) simp
  then have "x = 2 ^ k" using k unat_pow2 [of k, where 'a = 64]
    by (simp add: word_unat_eq_iff)
  then show "is_power_of_two x" using \<open>k < 64\<close> is_power_of_two_iff by blast
qed (auto simp: is_power_of_two_iff unat_pow2)

section \<open>Alignment\<close>

lemma align_up_uint64_unat:
  assumes "a \<noteq> 0" and "unat v + unat a \<le> 2 ^ 64"
  shows "unat (align_up_uint64 v a) =
    (if unat v mod unat a = 0 then unat v else unat v + (unat a - unat v mod unat a))"
proof -
  have r: "unat (v mod a) = unat v mod unat a" by (simp add: unat_mod)
  have pos: "0 < unat a" using assms(1) by (simp add: unat_gt_0)
  have le: "v mod a \<le> a"
    using pos by (simp add: word_le_unat r less_imp_le)
  show ?thesis
  proof (cases "unat v mod unat a = 0")
    case True
    then have "v mod a = 0" using r by (metis unat_eq_zero)
    then show ?thesis using True by (simp add: align_up_uint64_def)
  next
    case False
    then have nz: "v mod a \<noteq> 0" using r by (metis unat_0)
    have sub: "unat (a - v mod a) = unat a - unat v mod unat a"
      using unat_sub_le [OF le] r by simp
    have "unat v + (unat a - unat v mod unat a) < 2 ^ 64"
      using assms(2) False pos by (simp add: mod_less_divisor less_imp_le)
    then show ?thesis
      using nz False sub unat_add_no_overflow [of v "a - v mod a"]
      by (simp add: align_up_uint64_def Let_def)
  qed
qed

lemma align_up_uint64_props:
  assumes "a \<noteq> 0" and "unat v + unat a \<le> 2 ^ 64"
  shows "unat a dvd unat (align_up_uint64 v a)"
    and "unat v \<le> unat (align_up_uint64 v a)"
    and "unat (align_up_uint64 v a) < unat v + unat a"
proof -
  have pos: "0 < unat a" using assms(1) by (simp add: unat_gt_0)
  let ?r = "unat v mod unat a"
  have lt: "?r < unat a" using pos by simp
  have "unat v = unat a * (unat v div unat a) + ?r" by simp
  then have up: "unat v + (unat a - ?r) = unat a * (unat v div unat a) + unat a"
    using lt by linarith
  show "unat a dvd unat (align_up_uint64 v a)"
    unfolding align_up_uint64_unat [OF assms] up by auto
  show "unat v \<le> unat (align_up_uint64 v a)"
    unfolding align_up_uint64_unat [OF assms] by simp
  show "unat (align_up_uint64 v a) < unat v + unat a"
    unfolding align_up_uint64_unat [OF assms] using lt pos by auto
qed

lemma align_up_uint64_id: "unat a dvd unat v \<Longrightarrow> align_up_uint64 v a = v"
  by (simp add: align_up_uint64_def Let_def unat_mod word_unat_eq_iff)

lemma floor_log2_pow2: "floor_log2 (2 ^ k) = k"
proof (induction k)
  case 0
  then show ?case by (subst floor_log2.simps) simp
next
  case (Suc k)
  then show ?case by (subst floor_log2.simps) simp
qed

section \<open>Byte order (common.cuh)\<close>

definition byte_of :: "nat \<Rightarrow> 'a::len word \<Rightarrow> 'a word" where
  "byte_of i x = take_bit 8 (drop_bit (8 * i) x)"

text \<open>\<^verbatim>\<open>prmt.b32\<close> with selector \<open>0x0123\<close>: byte \<open>i\<close> of the result is byte \<open>3 - i\<close>.\<close>

definition bswap32 :: "u32 \<Rightarrow> u32" where
  "bswap32 x = byte_of 3 x OR push_bit 8 (byte_of 2 x) OR push_bit 16 (byte_of 1 x)
     OR push_bit 24 (byte_of 0 x)"

definition bswap64 :: "u64 \<Rightarrow> u64" where
  "bswap64 x =
    (let lo = (ucast x :: u32);
         hi = (ucast (drop_bit 32 x) :: u32);
         new_hi = bswap32 lo;
         new_lo = bswap32 hi
     in (ucast new_lo :: u64) OR push_bit 32 (ucast new_hi))"

definition bswap16 :: "u16 \<Rightarrow> u16" where
  "bswap16 x = byte_of 1 x OR push_bit 8 (byte_of 0 x)"

lemma bit_byte_of: "bit (byte_of i x) n \<longleftrightarrow> n < 8 \<and> bit x (8 * i + n)"
  for x :: "'a::len word"
  by (auto simp: byte_of_def bit_take_bit_iff bit_drop_bit_eq)

lemma bit_bswap32: "bit (bswap32 x) n \<longleftrightarrow> n < 32 \<and> bit x (8 * (3 - n div 8) + n mod 8)"
proof (cases "n < 32")
  case True
  define q r where "q = n div 8" and "r = n mod 8"
  then have n: "n = 8 * q + r" and r: "r < 8"
    and dm: "(8 * q + r) div 8 = q" "(8 * q + r) mod 8 = r" by simp_all
  have "q < 4" using True unfolding q_def by linarith
  then consider "q = 0" | "q = 1" | "q = 2" | "q = 3" by linarith
  then show ?thesis
    using r dm by cases (simp_all add: n bswap32_def bit_or_iff bit_push_bit_iff bit_byte_of)
qed (auto dest: bit_imp_le_length)

lemma bswap_digit: "8 * (3 - (8 * (3 - n div 8) + n mod 8) div 8) + n mod 8 = n"
  "8 * (3 - n div 8) + n mod 8 < 32" if "n < 32" for n :: nat
proof -
  have "n div 8 \<le> 3" "n mod 8 < 8" using that by linarith+
  then show "8 * (3 - n div 8) + n mod 8 < 32" by linarith
  have "(8 * (3 - n div 8) + n mod 8) div 8 = 3 - n div 8" by simp
  then show "8 * (3 - (8 * (3 - n div 8) + n mod 8) div 8) + n mod 8 = n"
    using \<open>n div 8 \<le> 3\<close> by simp
qed

lemma bswap32_bswap32 [simp]: "bswap32 (bswap32 x) = x"
proof (rule bit_word_eqI)
  fix n assume "n < LENGTH(32)"
  then have n: "n < 32" by simp
  then show "bit (bswap32 (bswap32 x)) n = bit x n"
    using bswap_digit [OF n] by (simp add: bit_bswap32)
qed

lemma bswap32_inj [simp]: "bswap32 x = bswap32 y \<longleftrightarrow> x = y"
  by (metis bswap32_bswap32)

lemma bswap64_words:
  "(ucast (bswap64 x) :: u32) = bswap32 (ucast (drop_bit 32 x))"
  "(ucast (drop_bit 32 (bswap64 x)) :: u32) = bswap32 (ucast x)"
  by (auto simp: bswap64_def Let_def bit_eq_iff bit_or_iff bit_push_bit_iff bit_drop_bit_eq
      bit_ucast_iff dest: bit_imp_le_length)

lemma u64_eq_halves:
  "(x::u64) = y \<longleftrightarrow> (ucast x :: u32) = ucast y \<and> (ucast (drop_bit 32 x) :: u32) = ucast (drop_bit 32 y)"
proof
  assume h: "(ucast x :: u32) = ucast y \<and> (ucast (drop_bit 32 x) :: u32) = ucast (drop_bit 32 y)"
  show "x = y"
  proof (rule bit_word_eqI)
    fix n assume "n < LENGTH(64)"
    show "bit x n = bit y n"
    proof (cases "n < 32")
      case True
      then have "bit (ucast x :: u32) n = bit (ucast y :: u32) n" using h by simp
      then show ?thesis using True by (simp add: bit_ucast_iff)
    next
      case False
      then obtain m where m: "n = 32 + m" by (metis le_Suc_ex not_less)
      have "bit (ucast (drop_bit 32 x) :: u32) m = bit (ucast (drop_bit 32 y) :: u32) m"
        using h by simp
      then show ?thesis using m \<open>n < LENGTH(64)\<close> by (simp add: bit_ucast_iff bit_drop_bit_eq)
    qed
  qed
qed simp

lemma bswap64_bswap64 [simp]: "bswap64 (bswap64 x) = x"
  unfolding u64_eq_halves [of "bswap64 (bswap64 x)"] by (simp add: bswap64_words)

lemma bswap16_bswap16 [simp]: "bswap16 (bswap16 x) = x"
proof (rule bit_word_eqI)
  fix n assume "n < LENGTH(16)"
  then have "n < 8 \<or> (\<exists>m<8. n = 8 + m)" by simp presburger
  then show "bit (bswap16 (bswap16 x)) n = bit x n"
    by (auto simp: bswap16_def bit_or_iff bit_push_bit_iff bit_byte_of)
qed

section \<open>Ceiling division by a power of two (common.cuh)\<close>

definition div_ceil_aligned_pow2 :: "u64 \<Rightarrow> nat \<Rightarrow> u64" where
  "div_ceil_aligned_pow2 x denominator_shift =
    (let y = push_bit denominator_shift 1
     in drop_bit denominator_shift (x AND NOT (y - 1)) + (if x AND (y - 1) \<noteq> 0 then 1 else 0))"

text \<open>\<^verbatim>\<open>__funnelshift_r(lo, hi, shift)\<close>: the low word of \<open>hi:lo\<close> shifted by \<open>shift mod 32\<close>.\<close>

definition funnelshift_r :: "u32 \<Rightarrow> u32 \<Rightarrow> nat \<Rightarrow> u32" where
  "funnelshift_r lo hi shift =
    ucast (drop_bit (shift mod 32) ((push_bit 32 (ucast hi) OR ucast lo) :: u64))"

definition div_ceil_aligned_pow2_32bits :: "u64 \<Rightarrow> nat \<Rightarrow> u32" where
  "div_ceil_aligned_pow2_32bits x denominator_shift =
    ucast (drop_bit denominator_shift x)
    + (if funnelshift_r 0 (ucast x) denominator_shift \<noteq> 0 then 1 else 0)"

lemma push_bit_one_minus: "push_bit s 1 - 1 = (mask s :: u64)"
  by (simp add: mask_eq_decr_exp push_bit_eq_mult)

lemma div_ceil_nat: "(n + 2 ^ s - 1) div 2 ^ s = n div 2 ^ s + (if n mod 2 ^ s = 0 then 0 else 1)"
  for n :: nat
proof -
  let ?p = "(2::nat) ^ s"
  have p: "0 < ?p" by simp
  have n: "n = n div ?p * ?p + n mod ?p"
    by (rule div_mult_mod_eq [symmetric])
  show ?thesis
  proof (cases "n mod ?p = 0")
    case True
    then have "n + ?p - 1 = n div ?p * ?p + (?p - 1)" using n p by linarith
    then have "(n + ?p - 1) div ?p = n div ?p + (?p - 1) div ?p"
      by (metis div_mult_self3 p add.commute less_not_refl)
    then show ?thesis using True p by simp
  next
    case False
    then have "n + ?p - 1 = (n div ?p + 1) * ?p + (n mod ?p - 1)" using n by simp
    moreover have "(n mod ?p - 1) div ?p = 0" using p by (simp add: less_imp_diff_less)
    ultimately have "(n + ?p - 1) div ?p = n div ?p + 1"
      by (metis add.right_neutral add.commute div_mult_self3 less_not_refl p)
    then show ?thesis using False by simp
  qed
qed

lemma unat_and_mask_eq_0: "x AND mask s = 0 \<longleftrightarrow> unat x mod 2 ^ s = 0" for x :: "'a::len word"
  by (metis unat_and_mask unat_eq_zero unat_0)

lemma div_ceil_word:
  "div_ceil_aligned_pow2 x s = drop_bit s x + (if unat x mod 2 ^ s = 0 then 0 else 1)"
proof -
  have eq: "drop_bit s (x AND NOT (mask s)) = drop_bit s x"
    by (rule bit_word_eqI) (auto simp: bit_drop_bit_eq bit_and_iff bit_not_iff bit_mask_iff
        dest: bit_imp_le_length)
  show ?thesis
    unfolding div_ceil_aligned_pow2_def Let_def push_bit_one_minus unat_and_mask_eq_0 eq by simp
qed

lemma funnelshift_zero: "funnelshift_r 0 (ucast x) s \<noteq> 0 \<longleftrightarrow> unat x mod 2 ^ s \<noteq> 0"
  if "s < 32" for x :: u64
proof -
  have "funnelshift_r 0 (ucast x) s = 0 \<longleftrightarrow> x AND mask s = 0"
  proof
    assume z: "funnelshift_r 0 (ucast x) s = 0"
    show "x AND mask s = 0"
    proof (rule bit_word_eqI)
      fix n assume "n < LENGTH(64)"
      have "\<not> bit x n" if "n < s"
      proof -
        have "\<not> bit (funnelshift_r 0 (ucast x) s) (32 - s + n)" using z by simp
        then show ?thesis using that \<open>s < 32\<close>
          by (simp add: funnelshift_r_def bit_ucast_iff bit_drop_bit_eq bit_push_bit_iff)
      qed
      then show "bit (x AND mask s) n = bit 0 n" by (auto simp: bit_and_iff bit_mask_iff)
    qed
  next
    assume z: "x AND mask s = 0"
    have nb: "\<not> bit x n" if "n < s" for n
    proof -
      have "\<not> bit (x AND mask s) n" using z by simp
      then show ?thesis using that \<open>s < 32\<close> by (simp add: bit_and_iff bit_mask_iff)
    qed
    show "funnelshift_r 0 (ucast x) s = 0"
      by (rule bit_word_eqI)
        (use \<open>s < 32\<close> in \<open>auto simp: funnelshift_r_def bit_ucast_iff bit_drop_bit_eq bit_push_bit_iff nb\<close>)
  qed
  then show ?thesis by (simp add: unat_and_mask_eq_0)
qed

lemma div_ceil_unat: "unat (div_ceil_aligned_pow2 x s) = (unat x + 2 ^ s - 1) div 2 ^ s"
proof (cases "s = 0")
  case True
  then show ?thesis by (simp add: div_ceil_word)
next
  case False
  have "unat x div 2 ^ s \<le> unat x div 2"
    using False by (metis div_le_mono2 self_le_power one_le_numeral neq0_conv zero_less_numeral)
  then have "unat x div 2 ^ s + 1 < 2 ^ LENGTH(64)" using unat_lt_2p [of x] by simp
  then show ?thesis
    unfolding div_ceil_nat div_ceil_word
    using unat_add_no_overflow [of "drop_bit s x" 1] by (simp add: unat_drop_bit)
qed

lemma div_ceil_32_unat:
  assumes "s < 32" and "(unat x + 2 ^ s - 1) div 2 ^ s < 2 ^ 32"
  shows "unat (div_ceil_aligned_pow2_32bits x s) = (unat x + 2 ^ s - 1) div 2 ^ s"
proof -
  have lt: "unat x div 2 ^ s + (if unat x mod 2 ^ s = 0 then 0 else 1) < 2 ^ 32"
    using assms(2) unfolding div_ceil_nat .
  then have "unat x div 2 ^ s < 2 ^ 32" by simp
  then have q: "unat (ucast (drop_bit s x) :: u32) = unat x div 2 ^ s"
    by (simp add: unsigned_ucast_eq take_bit_nat_eq_self_iff unat_drop_bit)
  show ?thesis
    unfolding div_ceil_nat div_ceil_aligned_pow2_32bits_def funnelshift_zero [OF assms(1)]
    using lt q unat_add_no_overflow [of "ucast (drop_bit s x) :: u32" 1] by (simp split: if_splits)
qed

section \<open>Copy loops (common.cuh)\<close>

text \<open>
  Memory is a map from byte addresses to bytes.  A store of \<open>k\<close> bytes reads the source word
  first and writes it as a whole, as the load and store instructions of one iteration do.
\<close>

type_synonym memory = "nat \<Rightarrow> u8"

definition copy_word :: "memory \<Rightarrow> nat \<Rightarrow> nat \<Rightarrow> nat \<Rightarrow> memory" where
  "copy_word m dst src k = (\<lambda>a. if dst \<le> a \<and> a < dst + k then m (src + (a - dst)) else m a)"

definition isaligned :: "nat \<Rightarrow> nat \<Rightarrow> bool" where
  "isaligned ptr alignment = (ptr AND (alignment - 1) = 0)"

lemma isaligned_pow2: "isaligned p (2 ^ k) \<longleftrightarrow> 2 ^ k dvd p"
  unfolding isaligned_def mask_eq_exp_minus_1 [symmetric] take_bit_eq_mask [symmetric]
  by (simp add: dvd_eq_mod_eq_0 take_bit_eq_mod)

lemma isaligned_2: "isaligned p 2 \<longleftrightarrow> 2 dvd p"
  and isaligned_4: "isaligned p 4 \<longleftrightarrow> 4 dvd p"
  and isaligned_8: "isaligned p 8 \<longleftrightarrow> 8 dvd p"
  using isaligned_pow2 [of p 1] isaligned_pow2 [of p 2] isaligned_pow2 [of p 3] by simp_all

definition chunk_aligned :: "nat \<Rightarrow> nat" where
  "chunk_aligned remaining = (if remaining \<ge> 4 then 4 else if remaining \<ge> 2 then 2 else 1)"

definition chunk_any :: "nat \<Rightarrow> nat \<Rightarrow> nat \<Rightarrow> nat" where
  "chunk_any dst src remaining =
    (if isaligned dst 8 \<and> isaligned src 8 \<and> remaining \<ge> 8 then 8
     else if isaligned dst 4 \<and> isaligned src 4 \<and> remaining \<ge> 4 then 4
     else if isaligned dst 2 \<and> isaligned src 2 \<and> remaining \<ge> 2 then 2
     else 1)"

function memcpy_aligned_data :: "memory \<Rightarrow> nat \<Rightarrow> nat \<Rightarrow> nat \<Rightarrow> memory" where
  "memcpy_aligned_data m dst src remaining =
    (if remaining = 0 then m
     else let copied = chunk_aligned remaining
          in memcpy_aligned_data (copy_word m dst src copied) (dst + copied) (src + copied)
               (remaining - copied))"
  by auto
termination
  by (relation "measure (\<lambda>(m, d, s, n). n)") (auto simp: chunk_aligned_def)

function memcpy_data :: "memory \<Rightarrow> nat \<Rightarrow> nat \<Rightarrow> nat \<Rightarrow> memory" where
  "memcpy_data m dst src remaining =
    (if remaining = 0 then m
     else let copied = chunk_any dst src remaining
          in memcpy_data (copy_word m dst src copied) (dst + copied) (src + copied)
               (remaining - copied))"
  by auto
termination
  by (relation "measure (\<lambda>(m, d, s, n). n)") (auto simp: chunk_any_def)

text \<open>
  \<open>memcpy_inl_aligned_data\<close> advances both pointers without ever storing through them.
  With a size that is no multiple of the element size, \<open>remaining_bytes\<close> wraps below zero.
  It is recorded here with a number of iterations; no caller of it exists in the sources.
\<close>

fun memcpy_inl_aligned_data :: "nat \<Rightarrow> nat \<Rightarrow> memory \<Rightarrow> u64 \<Rightarrow> memory option" where
  "memcpy_inl_aligned_data size_T 0 m remaining = (if remaining = 0 then Some m else None)"
| "memcpy_inl_aligned_data size_T (Suc fuel) m remaining =
    (if remaining = 0 then Some m
     else memcpy_inl_aligned_data size_T fuel m (remaining - of_nat size_T))"

declare memcpy_aligned_data.simps [simp del] memcpy_data.simps [simp del]

text \<open>
  The contract both loops share: they peel off a chunk of at least one and at most the
  remaining number of bytes.  Any such loop is a block copy when the ranges do not overlap.
\<close>

locale chunked_copy =
  fixes cp :: "memory \<Rightarrow> nat \<Rightarrow> nat \<Rightarrow> nat \<Rightarrow> memory"
    and chunk :: "nat \<Rightarrow> nat \<Rightarrow> nat \<Rightarrow> nat"
  assumes cp_step: "cp m d s n =
      (if n = 0 then m
       else cp (copy_word m d s (chunk d s n)) (d + chunk d s n) (s + chunk d s n) (n - chunk d s n))"
    and chunk_bounds: "n \<noteq> 0 \<Longrightarrow> 0 < chunk d s n \<and> chunk d s n \<le> n"
begin

lemma cp_block:
  assumes "d + n \<le> s \<or> s + n \<le> d"
  shows "cp m d s n = copy_word m d s n"
  using assms
proof (induction n arbitrary: m d s rule: less_induct)
  case (less n)
  show ?case
  proof (cases "n = 0")
    case True
    have "copy_word m d s 0 = m" by (auto simp: copy_word_def fun_eq_iff)
    then show ?thesis using True cp_step [of m d s n] by simp
  next
    case False
    define c where "c = chunk d s n"
    have c: "0 < c" "c \<le> n" using chunk_bounds [OF False] by (auto simp: c_def)
    have "cp m d s n = cp (copy_word m d s c) (d + c) (s + c) (n - c)"
      using cp_step [of m d s n] False by (simp add: c_def)
    also have "\<dots> = copy_word (copy_word m d s c) (d + c) (s + c) (n - c)"
      using less c by auto
    also have "\<dots> = copy_word m d s n"
      using c less.prems by (auto simp: copy_word_def fun_eq_iff)
    finally show ?thesis .
  qed
qed

lemma cp_dst:
  assumes "d + n \<le> s \<or> s + n \<le> d"
  shows "map (cp m d s n) [d ..< d + n] = map m [s ..< s + n]"
  unfolding cp_block [OF assms] by (rule nth_equalityI) (auto simp: copy_word_def)

lemma cp_frame:
  assumes "d + n \<le> s \<or> s + n \<le> d" and "a < d \<or> d + n \<le> a"
  shows "cp m d s n a = m a"
  unfolding cp_block [OF assms(1)] using assms(2) by (auto simp: copy_word_def)

end

interpretation aligned: chunked_copy memcpy_aligned_data "\<lambda>_ _. chunk_aligned"
proof
  show "memcpy_aligned_data m d s n = (if n = 0 then m
     else memcpy_aligned_data (copy_word m d s (chunk_aligned n)) (d + chunk_aligned n)
       (s + chunk_aligned n) (n - chunk_aligned n))" for m d s n
    by (subst memcpy_aligned_data.simps) (simp add: Let_def)
qed (simp add: chunk_aligned_def)

interpretation any: chunked_copy memcpy_data chunk_any
proof
  show "memcpy_data m d s n = (if n = 0 then m
     else memcpy_data (copy_word m d s (chunk_any d s n)) (d + chunk_any d s n)
       (s + chunk_any d s n) (n - chunk_any d s n))" for m d s n
    by (subst memcpy_data.simps) (simp add: Let_def)
qed (simp add: chunk_any_def)

text \<open>Every access of \<open>memcpy_data\<close> is naturally aligned, whatever the two pointers are.\<close>

lemma chunk_any_aligned: "chunk_any d s n dvd d \<and> chunk_any d s n dvd s"
  by (simp add: chunk_any_def isaligned_2 isaligned_4 isaligned_8)

lemma memcpy_inl_keeps_memory:
  "memcpy_inl_aligned_data size_T fuel m n = Some m' \<Longrightarrow> m' = m"
  by (induction size_T fuel m n rule: memcpy_inl_aligned_data.induct) (auto split: if_splits)

end
