(* ===== verification/VerbsAttr.thy ===== *)
theory VerbsAttr
  imports Handle VerbsTypes Utils
begin

text \<open>
  The attribute objects of the host API: the setters and getters of QP creation attributes,
  QP modification attributes, address-handle attributes (\<^verbatim>\<open>src/doca_verbs_qp.cpp\<close>) and CQ
  attributes (\<^verbatim>\<open>src/doca_verbs_cq.cpp\<close>).  Each definition is one API function: which
  arguments it rejects before and after offering the call to the SDK, and which field of the
  open object it stores.  Sequences of setters are related to plain record updates.
\<close>

type_synonym 's qp_init_attr = "('s, qp_init_attr_open) handle option"
type_synonym 's qp_attr = "('s, qp_attr_open) handle option"
type_synonym 's ah_attr = "('s, ah_attr_open) handle option"
type_synonym 's set_result_init = "(doca_error \<times> 's qp_init_attr) outcome"
type_synonym 's set_result_qp = "(doca_error \<times> 's qp_attr) outcome"
type_synonym 's set_result_ah = "(doca_error \<times> 's ah_attr) outcome"

record cq_attr_open =
  ca_cq_size :: u32
  ca_cq_context :: ptr
  ca_external_umem :: ptr
  ca_external_umem_offset :: u32
  ca_external_uar :: ptr
  ca_cq_overrun :: u32
  ca_cq_collapsed :: u8

type_synonym 's cq_attr = "('s, cq_attr_open) handle option"
type_synonym 's set_result_cq = "(doca_error \<times> 's cq_attr) outcome"

definition new_cq_attr :: cq_attr_open where
  "new_cq_attr = \<lparr>ca_cq_size = 0, ca_cq_context = null, ca_external_umem = null,
     ca_external_umem_offset = 0, ca_external_uar = null, ca_cq_overrun = 0, ca_cq_collapsed = 0\<rparr>"

section \<open>QP creation attributes\<close>

definition qp_init_attr_create :: "bool \<Rightarrow> doca_sdk_wrapper_error \<times> 's option \<Rightarrow> bool
    \<Rightarrow> (doca_error \<times> 's qp_init_attr) outcome" where
  "qp_init_attr_create calloc_ok sdk new_ok =
    api_create calloc_ok sdk (if new_ok then Some new_qp_init_attr else None)"

definition qp_init_attr_destroy :: "'s sdk_call \<Rightarrow> 's qp_init_attr \<Rightarrow> doca_error outcome" where
  "qp_init_attr_destroy sdk = api_destroy sdk (\<lambda>_. DOCA_SUCCESS)"

text \<open>The device argument of \<open>set_pd\<close>: null, an SDK device, or an open device with its PD.\<close>

datatype net_dev = NoDev | SdkDev | OpenDev ptr

fun net_dev_pd :: "net_dev \<Rightarrow> ptr option" where
  "net_dev_pd (OpenDev pd) = Some pd"
| "net_dev_pd dev = None"

definition qp_init_attr_set_pd :: "(net_dev \<Rightarrow> 's sdk_call) \<Rightarrow> net_dev \<Rightarrow> 's qp_init_attr \<Rightarrow> 's set_result_init" where
  "qp_init_attr_set_pd sdk dev =
    on_handle (try_sdk (sdk dev) (past_null (guarded (net_dev_pd dev \<noteq> None)
      (on_open (\<lambda>a. (DOCA_SUCCESS, a\<lparr>ia_pd := the (net_dev_pd dev)\<rparr>))))))"

definition qp_init_attr_set_send_cq :: "(ptr \<Rightarrow> 's sdk_call) \<Rightarrow> ptr \<Rightarrow> 's qp_init_attr \<Rightarrow> 's set_result_init" where
  "qp_init_attr_set_send_cq sdk v =
    on_handle (guarded (v \<noteq> null) (try_sdk (sdk v) (on_open (\<lambda>a. (DOCA_SUCCESS, a\<lparr>ia_send_cq := v\<rparr>)))))"

definition qp_init_attr_set_receive_cq :: "(ptr \<Rightarrow> 's sdk_call) \<Rightarrow> ptr \<Rightarrow> 's qp_init_attr \<Rightarrow> 's set_result_init" where
  "qp_init_attr_set_receive_cq sdk v =
    on_handle (guarded (v \<noteq> null) (try_sdk (sdk v) (on_open (\<lambda>a. (DOCA_SUCCESS, a\<lparr>ia_receive_cq := v\<rparr>)))))"

definition qp_init_attr_set_sq_sig_all :: "(u32 \<Rightarrow> 's sdk_call) \<Rightarrow> u32 \<Rightarrow> 's qp_init_attr \<Rightarrow> 's set_result_init" where
  "qp_init_attr_set_sq_sig_all sdk v =
    on_handle (try_sdk (sdk v) (on_open (\<lambda>a. (DOCA_SUCCESS, a\<lparr>ia_sq_sig_all := v\<rparr>))))"

definition qp_init_attr_set_sq_wr :: "(u32 \<Rightarrow> 's sdk_call) \<Rightarrow> u32 \<Rightarrow> 's qp_init_attr \<Rightarrow> 's set_result_init" where
  "qp_init_attr_set_sq_wr sdk v =
    on_handle (try_sdk (sdk v) (on_open (\<lambda>a. (DOCA_SUCCESS, a\<lparr>ia_sq_wr := v\<rparr>))))"

definition qp_init_attr_set_rq_wr :: "(u32 \<Rightarrow> 's sdk_call) \<Rightarrow> u32 \<Rightarrow> 's qp_init_attr \<Rightarrow> 's set_result_init" where
  "qp_init_attr_set_rq_wr sdk v =
    on_handle (try_sdk (sdk v) (on_open (\<lambda>a. (DOCA_SUCCESS, a\<lparr>ia_rq_wr := v\<rparr>))))"

definition qp_init_attr_set_send_max_sges :: "(u32 \<Rightarrow> 's sdk_call) \<Rightarrow> u32 \<Rightarrow> 's qp_init_attr \<Rightarrow> 's set_result_init" where
  "qp_init_attr_set_send_max_sges sdk v =
    on_handle (try_sdk (sdk v) (on_open (\<lambda>a. (DOCA_SUCCESS, a\<lparr>ia_send_max_sges := v\<rparr>))))"

definition qp_init_attr_set_receive_max_sges :: "(u32 \<Rightarrow> 's sdk_call) \<Rightarrow> u32 \<Rightarrow> 's qp_init_attr \<Rightarrow> 's set_result_init" where
  "qp_init_attr_set_receive_max_sges sdk v =
    on_handle (try_sdk (sdk v) (on_open (\<lambda>a. (DOCA_SUCCESS, a\<lparr>ia_receive_max_sges := v\<rparr>))))"

definition qp_init_attr_set_max_inline_data :: "(u32 \<Rightarrow> 's sdk_call) \<Rightarrow> u32 \<Rightarrow> 's qp_init_attr \<Rightarrow> 's set_result_init" where
  "qp_init_attr_set_max_inline_data sdk v =
    on_handle (try_sdk (sdk v) (on_open (\<lambda>a. (DOCA_SUCCESS, a\<lparr>ia_max_inline_data := v\<rparr>))))"

definition qp_init_attr_set_user_index :: "(u32 \<Rightarrow> 's sdk_call) \<Rightarrow> u32 \<Rightarrow> 's qp_init_attr \<Rightarrow> 's set_result_init" where
  "qp_init_attr_set_user_index sdk v =
    on_handle (try_sdk (sdk v) (on_open (\<lambda>a. (DOCA_SUCCESS, a\<lparr>ia_user_index := v\<rparr>))))"

definition qp_init_attr_set_qp_type :: "(u32 \<Rightarrow> 's sdk_call) \<Rightarrow> u32 \<Rightarrow> 's qp_init_attr \<Rightarrow> 's set_result_init" where
  "qp_init_attr_set_qp_type sdk v =
    on_handle (try_sdk (sdk v) (on_open (\<lambda>a. (DOCA_SUCCESS, a\<lparr>ia_qp_type := v\<rparr>))))"

definition qp_init_attr_set_external_umem :: "(ptr \<Rightarrow> u64 \<Rightarrow> 's sdk_call) \<Rightarrow> ptr \<Rightarrow> u64 \<Rightarrow> 's qp_init_attr \<Rightarrow> 's set_result_init" where
  "qp_init_attr_set_external_umem sdk v off =
    on_handle (guarded (v \<noteq> null) (try_sdk (sdk v off) (on_open (\<lambda>a.
      (DOCA_SUCCESS, a\<lparr>ia_external_umem := v, ia_external_umem_offset := off\<rparr>)))))"

definition qp_init_attr_set_external_umem_dbr :: "(ptr \<Rightarrow> u64 \<Rightarrow> 's sdk_call) \<Rightarrow> ptr \<Rightarrow> u64 \<Rightarrow> 's qp_init_attr \<Rightarrow> 's set_result_init" where
  "qp_init_attr_set_external_umem_dbr sdk v off =
    on_handle (guarded (v \<noteq> null) (try_sdk (sdk v off) (on_open (\<lambda>a.
      (DOCA_SUCCESS, a\<lparr>ia_external_umem_dbr := v, ia_external_umem_dbr_offset := off\<rparr>)))))"

definition qp_init_attr_set_external_uar :: "(ptr \<Rightarrow> 's sdk_call) \<Rightarrow> ptr \<Rightarrow> 's qp_init_attr \<Rightarrow> 's set_result_init" where
  "qp_init_attr_set_external_uar sdk v =
    on_handle (guarded (v \<noteq> null) (try_sdk (sdk v) (on_open (\<lambda>a. (DOCA_SUCCESS, a\<lparr>ia_external_uar := v\<rparr>)))))"

definition qp_init_attr_set_qp_context :: "(ptr \<Rightarrow> 's sdk_call) \<Rightarrow> ptr \<Rightarrow> 's qp_init_attr \<Rightarrow> 's set_result_init" where
  "qp_init_attr_set_qp_context sdk v =
    on_handle (try_sdk (sdk v) (on_open (\<lambda>a. (DOCA_SUCCESS, a\<lparr>ia_qp_context := v\<rparr>))))"

definition qp_init_attr_set_core_direct_master :: "(u8 \<Rightarrow> 's sdk_call) \<Rightarrow> u8 \<Rightarrow> 's qp_init_attr \<Rightarrow> 's set_result_init" where
  "qp_init_attr_set_core_direct_master sdk v =
    on_handle (guarded (\<not> (v \<noteq> 0 \<and> v \<noteq> 1))
      (try_sdk (sdk v) (on_open (\<lambda>a. (DOCA_SUCCESS, a\<lparr>ia_core_direct_master := v\<rparr>)))))"

text \<open>The enumeration argument is stored in an 8-bit member.\<close>

definition qp_init_attr_set_send_dbr_mode :: "(u32 \<Rightarrow> 's sdk_call) \<Rightarrow> u32 \<Rightarrow> 's qp_init_attr \<Rightarrow> 's set_result_init" where
  "qp_init_attr_set_send_dbr_mode sdk v =
    on_handle (try_sdk (sdk v) (on_open (\<lambda>a. (DOCA_SUCCESS, a\<lparr>ia_send_dbr_mode := ucast v\<rparr>))))"

definition qp_init_attr_get_send_dbr_mode :: "('s, u32) sdk_get \<Rightarrow> 's qp_init_attr \<Rightarrow> (doca_error \<times> u32 option) outcome" where
  "qp_init_attr_get_send_dbr_mode sdk =
    get_handle True (try_sdk_get sdk (get_open (\<lambda>a. ucast (ia_send_dbr_mode a))))"

text \<open>
  The emulation flag and the SRQ exist in open mode only.  These functions follow the open
  pointer without a check, and the SRQ functions do not look at the tag either.
\<close>

definition deref_open :: "('o \<Rightarrow> doca_error \<times> 'o) \<Rightarrow> ('s, 'o) handle \<Rightarrow> ('s, 'o) api_result" where
  "deref_open f h =
    (case h_member h of
       OpenPtr ob \<Rightarrow> (case f ob of (e, ob') \<Rightarrow> Ret (e, h\<lparr>h_member := OpenPtr ob'\<rparr>))
     | _ \<Rightarrow> Misuse)"

definition qp_init_attr_set_emulate_no_dbr_ext :: "bool \<Rightarrow> 's qp_init_attr \<Rightarrow> 's set_result_init" where
  "qp_init_attr_set_emulate_no_dbr_ext v =
    on_handle (reject_sdk DOCA_ERROR_INVALID_VALUE
      (deref_open (\<lambda>a. (DOCA_SUCCESS, a\<lparr>ia_emulate_no_dbr_ext := v\<rparr>))))"

definition qp_init_attr_get_emulate_no_dbr_ext :: "'s qp_init_attr \<Rightarrow> (doca_error \<times> bool option) outcome" where
  "qp_init_attr_get_emulate_no_dbr_ext ho =
    (case ho of
       None \<Rightarrow> Ret (DOCA_ERROR_INVALID_VALUE, None)
     | Some h \<Rightarrow>
         if h_type h = LIB_TYPE_SDK then Ret (DOCA_ERROR_INVALID_VALUE, None)
         else case h_member h of
                OpenPtr a \<Rightarrow> Ret (DOCA_SUCCESS, Some (ia_emulate_no_dbr_ext a))
              | _ \<Rightarrow> Misuse)"

definition qp_init_attr_set_srq :: "ptr \<Rightarrow> 's qp_init_attr \<Rightarrow> 's set_result_init" where
  "qp_init_attr_set_srq srq =
    on_handle (guarded (srq \<noteq> null) (deref_open (\<lambda>a. (DOCA_SUCCESS, a\<lparr>ia_srq := srq\<rparr>))))"

definition qp_init_attr_get_srq :: "'s qp_init_attr \<Rightarrow> ptr outcome" where
  "qp_init_attr_get_srq ho =
    (case ho of
       None \<Rightarrow> Ret null
     | Some h \<Rightarrow> (case h_member h of OpenPtr a \<Rightarrow> Ret (ia_srq a) | _ \<Rightarrow> Misuse))"

text \<open>
  The ordering semantic is known to the SDK only.  A wrapper result other than the three that
  are tested falls out of the conditional to the final \<^verbatim>\<open>return DOCA_SUCCESS\<close>.
\<close>

definition qp_init_attr_set_ordering_semantic :: "(u32 \<Rightarrow> 's sdk_call) \<Rightarrow> u32 \<Rightarrow> 's qp_init_attr \<Rightarrow> 's set_result_init" where
  "qp_init_attr_set_ordering_semantic sdk v =
    on_handle (\<lambda>h.
      if h_type h = LIB_TYPE_SDK then
        (case sdk_obj (h_member h) of
           Misuse \<Rightarrow> Misuse
         | Ret p \<Rightarrow>
             (case sdk v p of (err, p') \<Rightarrow>
               Ret (case err of
                      DOCA_SDK_WRAPPER_SUCCESS \<Rightarrow> DOCA_SUCCESS
                    | DOCA_SDK_WRAPPER_API_ERROR \<Rightarrow> DOCA_ERROR_UNEXPECTED
                    | DOCA_SDK_WRAPPER_NOT_SUPPORTED \<Rightarrow> DOCA_ERROR_NOT_SUPPORTED
                    | _ \<Rightarrow> DOCA_SUCCESS,
                    h\<lparr>h_member := sdk_ptr p'\<rparr>)))
      else Ret (DOCA_ERROR_NOT_SUPPORTED, h))"

definition qp_init_attr_get_ordering_semantic :: "('s, u32) sdk_get \<Rightarrow> bool \<Rightarrow> 's qp_init_attr \<Rightarrow> (doca_error \<times> u32 option) outcome" where
  "qp_init_attr_get_ordering_semantic sdk result_ptr_ok =
    get_handle result_ptr_ok (\<lambda>h.
      if h_type h = LIB_TYPE_SDK then
        (case sdk_obj (h_member h) of
           Misuse \<Rightarrow> Misuse
         | Ret p \<Rightarrow>
             (case sdk p of
                (DOCA_SDK_WRAPPER_SUCCESS, v) \<Rightarrow> Ret (DOCA_SUCCESS, Some v)
              | (DOCA_SDK_WRAPPER_API_ERROR, v) \<Rightarrow> Ret (DOCA_ERROR_UNEXPECTED, None)
              | (DOCA_SDK_WRAPPER_NOT_SUPPORTED, v) \<Rightarrow> Ret (DOCA_ERROR_NOT_SUPPORTED, None)
              | _ \<Rightarrow> Ret (DOCA_SUCCESS, None)))
      else Ret (DOCA_ERROR_NOT_SUPPORTED, None))"

section \<open>QP modification attributes\<close>

definition qp_attr_create :: "bool \<Rightarrow> doca_sdk_wrapper_error \<times> 's option \<Rightarrow> bool
    \<Rightarrow> (doca_error \<times> 's qp_attr) outcome" where
  "qp_attr_create calloc_ok sdk new_ok =
    api_create calloc_ok sdk (if new_ok then Some new_qp_attr else None)"

definition qp_attr_destroy :: "'s sdk_call \<Rightarrow> 's qp_attr \<Rightarrow> doca_error outcome" where
  "qp_attr_destroy sdk = api_destroy sdk (\<lambda>_. DOCA_SUCCESS)"

definition qp_attr_set_next_state :: "(qp_state \<Rightarrow> 's sdk_call) \<Rightarrow> qp_state \<Rightarrow> 's qp_attr \<Rightarrow> 's set_result_qp" where
  "qp_attr_set_next_state sdk v =
    on_handle (try_sdk (sdk v) (on_open (\<lambda>a. (DOCA_SUCCESS, a\<lparr>qa_next_state := v\<rparr>))))"

definition qp_attr_set_current_state :: "(qp_state \<Rightarrow> 's sdk_call) \<Rightarrow> qp_state \<Rightarrow> 's qp_attr \<Rightarrow> 's set_result_qp" where
  "qp_attr_set_current_state sdk v =
    on_handle (try_sdk (sdk v) (on_open (\<lambda>a. (DOCA_SUCCESS, a\<lparr>qa_current_state := v\<rparr>))))"

definition qp_attr_get_current_state :: "('s, qp_state) sdk_get \<Rightarrow> 's qp_attr \<Rightarrow> (doca_error \<times> qp_state option) outcome" where
  "qp_attr_get_current_state sdk = get_handle True (try_sdk_get sdk (get_open qa_current_state))"

definition qp_attr_set_path_mtu :: "(mtu_size \<Rightarrow> 's sdk_call) \<Rightarrow> mtu_size \<Rightarrow> 's qp_attr \<Rightarrow> 's set_result_qp" where
  "qp_attr_set_path_mtu sdk v =
    on_handle (try_sdk (sdk v) (on_open (\<lambda>a. (DOCA_SUCCESS, a\<lparr>qa_path_mtu := v\<rparr>))))"

definition qp_attr_set_rq_psn :: "(u32 \<Rightarrow> 's sdk_call) \<Rightarrow> u32 \<Rightarrow> 's qp_attr \<Rightarrow> 's set_result_qp" where
  "qp_attr_set_rq_psn sdk v =
    on_handle (try_sdk (sdk v) (on_open (\<lambda>a. (DOCA_SUCCESS, a\<lparr>qa_rq_psn := v\<rparr>))))"

definition qp_attr_set_sq_psn :: "(u32 \<Rightarrow> 's sdk_call) \<Rightarrow> u32 \<Rightarrow> 's qp_attr \<Rightarrow> 's set_result_qp" where
  "qp_attr_set_sq_psn sdk v =
    on_handle (try_sdk (sdk v) (on_open (\<lambda>a. (DOCA_SUCCESS, a\<lparr>qa_sq_psn := v\<rparr>))))"

definition qp_attr_set_dest_qp_num :: "(u32 \<Rightarrow> 's sdk_call) \<Rightarrow> u32 \<Rightarrow> 's qp_attr \<Rightarrow> 's set_result_qp" where
  "qp_attr_set_dest_qp_num sdk v =
    on_handle (try_sdk (sdk v) (on_open (\<lambda>a. (DOCA_SUCCESS, a\<lparr>qa_dest_qp_num := v\<rparr>))))"

definition qp_attr_set_allow_remote_write :: "(u32 \<Rightarrow> 's sdk_call) \<Rightarrow> u32 \<Rightarrow> 's qp_attr \<Rightarrow> 's set_result_qp" where
  "qp_attr_set_allow_remote_write sdk v =
    on_handle (try_sdk (sdk v) (on_open (\<lambda>a. (DOCA_SUCCESS, a\<lparr>qa_allow_remote_write := v\<rparr>))))"

definition qp_attr_set_allow_remote_read :: "(u32 \<Rightarrow> 's sdk_call) \<Rightarrow> u32 \<Rightarrow> 's qp_attr \<Rightarrow> 's set_result_qp" where
  "qp_attr_set_allow_remote_read sdk v =
    on_handle (try_sdk (sdk v) (on_open (\<lambda>a. (DOCA_SUCCESS, a\<lparr>qa_allow_remote_read := v\<rparr>))))"

definition qp_attr_set_atomic_mode :: "(u32 \<Rightarrow> 's sdk_call) \<Rightarrow> u32 \<Rightarrow> 's qp_attr \<Rightarrow> 's set_result_qp" where
  "qp_attr_set_atomic_mode sdk v =
    on_handle (try_sdk (sdk v) (on_open (\<lambda>a. (DOCA_SUCCESS, a\<lparr>qa_atomic_mode := v\<rparr>))))"

definition qp_attr_set_pkey_index :: "(u16 \<Rightarrow> 's sdk_call) \<Rightarrow> u16 \<Rightarrow> 's qp_attr \<Rightarrow> 's set_result_qp" where
  "qp_attr_set_pkey_index sdk v =
    on_handle (try_sdk (sdk v) (on_open (\<lambda>a. (DOCA_SUCCESS, a\<lparr>qa_pkey_index := v\<rparr>))))"

definition qp_attr_set_port_num :: "(u16 \<Rightarrow> 's sdk_call) \<Rightarrow> u16 \<Rightarrow> 's qp_attr \<Rightarrow> 's set_result_qp" where
  "qp_attr_set_port_num sdk v =
    on_handle (try_sdk (sdk v) (on_open (\<lambda>a. (DOCA_SUCCESS, a\<lparr>qa_port_num := v\<rparr>))))"

text \<open>Four setters take a 16-bit argument and store it in an 8-bit member.\<close>

definition qp_attr_set_ack_timeout :: "(u16 \<Rightarrow> 's sdk_call) \<Rightarrow> u16 \<Rightarrow> 's qp_attr \<Rightarrow> 's set_result_qp" where
  "qp_attr_set_ack_timeout sdk v =
    on_handle (try_sdk (sdk v) (on_open (\<lambda>a. (DOCA_SUCCESS, a\<lparr>qa_ack_timeout := ucast v\<rparr>))))"

definition qp_attr_set_retry_cnt :: "(u16 \<Rightarrow> 's sdk_call) \<Rightarrow> u16 \<Rightarrow> 's qp_attr \<Rightarrow> 's set_result_qp" where
  "qp_attr_set_retry_cnt sdk v =
    on_handle (try_sdk (sdk v) (on_open (\<lambda>a. (DOCA_SUCCESS, a\<lparr>qa_retry_cnt := ucast v\<rparr>))))"

definition qp_attr_set_rnr_retry :: "(u16 \<Rightarrow> 's sdk_call) \<Rightarrow> u16 \<Rightarrow> 's qp_attr \<Rightarrow> 's set_result_qp" where
  "qp_attr_set_rnr_retry sdk v =
    on_handle (try_sdk (sdk v) (on_open (\<lambda>a. (DOCA_SUCCESS, a\<lparr>qa_rnr_retry := ucast v\<rparr>))))"

definition qp_attr_set_min_rnr_timer :: "(u16 \<Rightarrow> 's sdk_call) \<Rightarrow> u16 \<Rightarrow> 's qp_attr \<Rightarrow> 's set_result_qp" where
  "qp_attr_set_min_rnr_timer sdk v =
    on_handle (try_sdk (sdk v) (on_open (\<lambda>a. (DOCA_SUCCESS, a\<lparr>qa_min_rnr_timer := ucast v\<rparr>))))"

definition qp_attr_set_max_rd_atomic :: "(u8 \<Rightarrow> 's sdk_call) \<Rightarrow> u8 \<Rightarrow> 's qp_attr \<Rightarrow> 's set_result_qp" where
  "qp_attr_set_max_rd_atomic sdk v =
    on_handle (try_sdk (sdk v) (guarded (is_power_of_two (ucast v))
      (on_open (\<lambda>a. (DOCA_SUCCESS, a\<lparr>qa_max_rd_atomic := v\<rparr>)))))"

definition qp_attr_set_max_dest_rd_atomic :: "(u8 \<Rightarrow> 's sdk_call) \<Rightarrow> u8 \<Rightarrow> 's qp_attr \<Rightarrow> 's set_result_qp" where
  "qp_attr_set_max_dest_rd_atomic sdk v =
    on_handle (try_sdk (sdk v) (guarded (is_power_of_two (ucast v))
      (on_open (\<lambda>a. (DOCA_SUCCESS, a\<lparr>qa_max_dest_rd_atomic := v\<rparr>)))))"

definition qp_attr_set_counter_set_id :: "u32 \<Rightarrow> 's qp_attr \<Rightarrow> 's set_result_qp" where
  "qp_attr_set_counter_set_id v =
    on_handle (reject_sdk DOCA_ERROR_NOT_SUPPORTED
      (on_open (\<lambda>a. (DOCA_SUCCESS, a\<lparr>qa_counter_set_id := v\<rparr>))))"

text \<open>The address handle is copied field by field; its own handle is not checked.\<close>

definition qp_attr_set_ah_attr :: "('s ah_attr \<Rightarrow> 's sdk_call) \<Rightarrow> 's ah_attr \<Rightarrow> 's qp_attr \<Rightarrow> 's set_result_qp" where
  "qp_attr_set_ah_attr sdk ah =
    on_handle (try_sdk (sdk ah) (\<lambda>h.
      case h_member h of
        Null \<Rightarrow> Ret (DOCA_ERROR_INVALID_VALUE, h)
      | SdkPtr s \<Rightarrow> Misuse
      | OpenPtr a \<Rightarrow>
          (case map_option h_member ah of
             Some (OpenPtr src) \<Rightarrow>
               Ret (DOCA_SUCCESS, h\<lparr>h_member := OpenPtr (a\<lparr>
                 qa_ah_attr := (qa_ah_attr a)\<lparr>ah_gid := ah_gid src, ah_addr_type := ah_addr_type src,
                   ah_dlid := ah_dlid src, ah_sl := ah_sl src, ah_sgid_index := ah_sgid_index src,
                   ah_static_rate := ah_static_rate src, ah_hop_limit := ah_hop_limit src,
                   ah_traffic_class := ah_traffic_class src, ah_is_global := ah_is_global src\<rparr>,
                 qa_ah_attr_enabled := True\<rparr>)\<rparr>)
           | _ \<Rightarrow> Misuse)))"

section \<open>Address-handle attributes\<close>

definition ah_attr_create :: "bool \<Rightarrow> bool \<Rightarrow> doca_sdk_wrapper_error \<times> 's option \<Rightarrow> bool
    \<Rightarrow> (doca_error \<times> 's ah_attr) outcome" where
  "ah_attr_create result_ptr_ok calloc_ok sdk new_ok =
    (if \<not> result_ptr_ok then Ret (DOCA_ERROR_INVALID_VALUE, None)
     else api_create calloc_ok sdk
       (if new_ok then Some (new_ah_attr\<lparr>ah_is_global := 1\<rparr>) else None))"

definition ah_attr_destroy :: "'s sdk_call \<Rightarrow> 's ah_attr \<Rightarrow> doca_error outcome" where
  "ah_attr_destroy sdk = api_destroy sdk (\<lambda>_. DOCA_SUCCESS)"

definition ah_attr_set_gid :: "(u8 list \<Rightarrow> 's sdk_call) \<Rightarrow> u8 list \<Rightarrow> 's ah_attr \<Rightarrow> 's set_result_ah" where
  "ah_attr_set_gid sdk v =
    on_handle (try_sdk (sdk v) (on_open (\<lambda>a. (DOCA_SUCCESS, a\<lparr>ah_gid := v\<rparr>))))"

definition ah_attr_set_addr_type :: "(addr_type \<Rightarrow> 's sdk_call) \<Rightarrow> addr_type \<Rightarrow> 's ah_attr \<Rightarrow> 's set_result_ah" where
  "ah_attr_set_addr_type sdk v =
    on_handle (try_sdk (sdk v) (on_open (\<lambda>a. (DOCA_SUCCESS, a\<lparr>ah_addr_type := v\<rparr>))))"

definition ah_attr_set_dlid :: "(u32 \<Rightarrow> 's sdk_call) \<Rightarrow> u32 \<Rightarrow> 's ah_attr \<Rightarrow> 's set_result_ah" where
  "ah_attr_set_dlid sdk v =
    on_handle (try_sdk (sdk v) (on_open (\<lambda>a. (DOCA_SUCCESS, a\<lparr>ah_dlid := v\<rparr>))))"

definition ah_attr_set_sl :: "(u8 \<Rightarrow> 's sdk_call) \<Rightarrow> u8 \<Rightarrow> 's ah_attr \<Rightarrow> 's set_result_ah" where
  "ah_attr_set_sl sdk v =
    on_handle (try_sdk (sdk v) (on_open (\<lambda>a. (DOCA_SUCCESS, a\<lparr>ah_sl := v\<rparr>))))"

definition ah_attr_set_sgid_index :: "(u8 \<Rightarrow> 's sdk_call) \<Rightarrow> u8 \<Rightarrow> 's ah_attr \<Rightarrow> 's set_result_ah" where
  "ah_attr_set_sgid_index sdk v =
    on_handle (try_sdk (sdk v) (on_open (\<lambda>a. (DOCA_SUCCESS, a\<lparr>ah_sgid_index := v\<rparr>))))"

definition ah_attr_set_static_rate :: "(u8 \<Rightarrow> 's sdk_call) \<Rightarrow> u8 \<Rightarrow> 's ah_attr \<Rightarrow> 's set_result_ah" where
  "ah_attr_set_static_rate sdk v =
    on_handle (try_sdk (sdk v) (on_open (\<lambda>a. (DOCA_SUCCESS, a\<lparr>ah_static_rate := v\<rparr>))))"

definition ah_attr_set_hop_limit :: "(u8 \<Rightarrow> 's sdk_call) \<Rightarrow> u8 \<Rightarrow> 's ah_attr \<Rightarrow> 's set_result_ah" where
  "ah_attr_set_hop_limit sdk v =
    on_handle (try_sdk (sdk v) (on_open (\<lambda>a. (DOCA_SUCCESS, a\<lparr>ah_hop_limit := v\<rparr>))))"

definition ah_attr_set_traffic_class :: "(u8 \<Rightarrow> 's sdk_call) \<Rightarrow> u8 \<Rightarrow> 's ah_attr \<Rightarrow> 's set_result_ah" where
  "ah_attr_set_traffic_class sdk v =
    on_handle (try_sdk (sdk v) (on_open (\<lambda>a. (DOCA_SUCCESS, a\<lparr>ah_traffic_class := v\<rparr>))))"

section \<open>CQ attributes\<close>

definition cq_attr_create :: "bool \<Rightarrow> bool \<Rightarrow> doca_sdk_wrapper_error \<times> 's option \<Rightarrow> bool
    \<Rightarrow> (doca_error \<times> 's cq_attr) outcome" where
  "cq_attr_create result_ptr_ok calloc_ok sdk new_ok =
    (if \<not> result_ptr_ok then Ret (DOCA_ERROR_INVALID_VALUE, None)
     else api_create calloc_ok sdk (if new_ok then Some new_cq_attr else None))"

definition cq_attr_destroy :: "'s sdk_call \<Rightarrow> 's cq_attr \<Rightarrow> doca_error outcome" where
  "cq_attr_destroy sdk = api_destroy sdk (\<lambda>_. DOCA_SUCCESS)"

definition cq_attr_set_cq_size :: "(u32 \<Rightarrow> 's sdk_call) \<Rightarrow> u32 \<Rightarrow> 's cq_attr \<Rightarrow> 's set_result_cq" where
  "cq_attr_set_cq_size sdk v =
    on_handle (try_sdk (sdk v) (on_open (\<lambda>a. (DOCA_SUCCESS, a\<lparr>ca_cq_size := v\<rparr>))))"

definition cq_attr_set_cq_context :: "(ptr \<Rightarrow> 's sdk_call) \<Rightarrow> ptr \<Rightarrow> 's cq_attr \<Rightarrow> 's set_result_cq" where
  "cq_attr_set_cq_context sdk v =
    on_handle (try_sdk (sdk v) (on_open (\<lambda>a. (DOCA_SUCCESS, a\<lparr>ca_cq_context := v\<rparr>))))"

text \<open>The 64-bit offset is stored in a 32-bit member.\<close>

definition cq_attr_set_external_umem :: "(ptr \<Rightarrow> u64 \<Rightarrow> 's sdk_call) \<Rightarrow> ptr \<Rightarrow> u64 \<Rightarrow> 's cq_attr \<Rightarrow> 's set_result_cq" where
  "cq_attr_set_external_umem sdk v off =
    on_handle (guarded (v \<noteq> null) (try_sdk (sdk v off) (on_open (\<lambda>a.
      (DOCA_SUCCESS, a\<lparr>ca_external_umem := v, ca_external_umem_offset := ucast off\<rparr>)))))"

definition cq_attr_set_external_uar :: "(ptr \<Rightarrow> 's sdk_call) \<Rightarrow> ptr \<Rightarrow> 's cq_attr \<Rightarrow> 's set_result_cq" where
  "cq_attr_set_external_uar sdk v =
    on_handle (guarded (v \<noteq> null) (try_sdk (sdk v) (on_open (\<lambda>a. (DOCA_SUCCESS, a\<lparr>ca_external_uar := v\<rparr>)))))"

definition cq_attr_set_cq_overrun :: "(u32 \<Rightarrow> 's sdk_call) \<Rightarrow> u32 \<Rightarrow> 's cq_attr \<Rightarrow> 's set_result_cq" where
  "cq_attr_set_cq_overrun sdk v =
    on_handle (try_sdk (sdk v) (on_open (\<lambda>a. (DOCA_SUCCESS, a\<lparr>ca_cq_overrun := v\<rparr>))))"

definition cq_attr_set_cq_collapsed :: "(u8 \<Rightarrow> 's sdk_call) \<Rightarrow> u8 \<Rightarrow> 's cq_attr \<Rightarrow> 's set_result_cq" where
  "cq_attr_set_cq_collapsed sdk v =
    on_handle (try_sdk (sdk v) (past_null (guarded (\<not> (v \<noteq> 0 \<and> v \<noteq> 1))
      (on_open (\<lambda>a. (DOCA_SUCCESS, a\<lparr>ca_cq_collapsed := v\<rparr>))))))"

end
