(* ===== verification/AttrSession.thy ===== *)
theory AttrSession
  imports VerbsAttr
begin

text \<open>
  Sequences of setter calls on a QP creation attribute object, as a client issues them before
  \<^verbatim>\<open>doca_verbs_qp_create\<close>.  \<open>init_attr_step\<close> dispatches to the API functions of \<open>VerbsAttr\<close>;
  \<open>init_attr_spec\<close> is the contract: which call is rejected and which field it sets.
\<close>

datatype init_cmd =
    Set_pd net_dev
  | Set_send_cq ptr
  | Set_receive_cq ptr
  | Set_sq_sig_all u32
  | Set_sq_wr u32
  | Set_rq_wr u32
  | Set_send_max_sges u32
  | Set_receive_max_sges u32
  | Set_max_inline_data u32
  | Set_user_index u32
  | Set_qp_type u32
  | Set_external_umem ptr u64
  | Set_external_umem_dbr ptr u64
  | Set_external_uar ptr
  | Set_qp_context ptr
  | Set_core_direct_master u8
  | Set_send_dbr_mode u32
  | Set_emulate_no_dbr_ext bool

fun init_attr_step :: "(init_cmd \<Rightarrow> 's sdk_call) \<Rightarrow> init_cmd \<Rightarrow> 's qp_init_attr \<Rightarrow> 's set_result_init" where
  "init_attr_step sdk (Set_pd v) = qp_init_attr_set_pd (\<lambda>v. sdk (Set_pd v)) v"
| "init_attr_step sdk (Set_send_cq v) = qp_init_attr_set_send_cq (\<lambda>v. sdk (Set_send_cq v)) v"
| "init_attr_step sdk (Set_receive_cq v) = qp_init_attr_set_receive_cq (\<lambda>v. sdk (Set_receive_cq v)) v"
| "init_attr_step sdk (Set_sq_sig_all v) = qp_init_attr_set_sq_sig_all (\<lambda>v. sdk (Set_sq_sig_all v)) v"
| "init_attr_step sdk (Set_sq_wr v) = qp_init_attr_set_sq_wr (\<lambda>v. sdk (Set_sq_wr v)) v"
| "init_attr_step sdk (Set_rq_wr v) = qp_init_attr_set_rq_wr (\<lambda>v. sdk (Set_rq_wr v)) v"
| "init_attr_step sdk (Set_send_max_sges v) = qp_init_attr_set_send_max_sges (\<lambda>v. sdk (Set_send_max_sges v)) v"
| "init_attr_step sdk (Set_receive_max_sges v) = qp_init_attr_set_receive_max_sges (\<lambda>v. sdk (Set_receive_max_sges v)) v"
| "init_attr_step sdk (Set_max_inline_data v) = qp_init_attr_set_max_inline_data (\<lambda>v. sdk (Set_max_inline_data v)) v"
| "init_attr_step sdk (Set_user_index v) = qp_init_attr_set_user_index (\<lambda>v. sdk (Set_user_index v)) v"
| "init_attr_step sdk (Set_qp_type v) = qp_init_attr_set_qp_type (\<lambda>v. sdk (Set_qp_type v)) v"
| "init_attr_step sdk (Set_external_umem v off) = qp_init_attr_set_external_umem (\<lambda>v off. sdk (Set_external_umem v off)) v off"
| "init_attr_step sdk (Set_external_umem_dbr v off) = qp_init_attr_set_external_umem_dbr (\<lambda>v off. sdk (Set_external_umem_dbr v off)) v off"
| "init_attr_step sdk (Set_external_uar v) = qp_init_attr_set_external_uar (\<lambda>v. sdk (Set_external_uar v)) v"
| "init_attr_step sdk (Set_qp_context v) = qp_init_attr_set_qp_context (\<lambda>v. sdk (Set_qp_context v)) v"
| "init_attr_step sdk (Set_core_direct_master v) = qp_init_attr_set_core_direct_master (\<lambda>v. sdk (Set_core_direct_master v)) v"
| "init_attr_step sdk (Set_send_dbr_mode v) = qp_init_attr_set_send_dbr_mode (\<lambda>v. sdk (Set_send_dbr_mode v)) v"
| "init_attr_step sdk (Set_emulate_no_dbr_ext v) = qp_init_attr_set_emulate_no_dbr_ext v"

fun init_attr_ok :: "init_cmd \<Rightarrow> bool" where
  "init_attr_ok (Set_pd v) = (case v of OpenDev pd \<Rightarrow> True | _ \<Rightarrow> False)"
| "init_attr_ok (Set_send_cq v) = (v \<noteq> null)"
| "init_attr_ok (Set_receive_cq v) = (v \<noteq> null)"
| "init_attr_ok (Set_sq_sig_all v) = True"
| "init_attr_ok (Set_sq_wr v) = True"
| "init_attr_ok (Set_rq_wr v) = True"
| "init_attr_ok (Set_send_max_sges v) = True"
| "init_attr_ok (Set_receive_max_sges v) = True"
| "init_attr_ok (Set_max_inline_data v) = True"
| "init_attr_ok (Set_user_index v) = True"
| "init_attr_ok (Set_qp_type v) = True"
| "init_attr_ok (Set_external_umem v off) = (v \<noteq> null)"
| "init_attr_ok (Set_external_umem_dbr v off) = (v \<noteq> null)"
| "init_attr_ok (Set_external_uar v) = (v \<noteq> null)"
| "init_attr_ok (Set_qp_context v) = True"
| "init_attr_ok (Set_core_direct_master v) = (v = 0 \<or> v = 1)"
| "init_attr_ok (Set_send_dbr_mode v) = True"
| "init_attr_ok (Set_emulate_no_dbr_ext v) = True"

fun init_attr_store :: "init_cmd \<Rightarrow> qp_init_attr_open \<Rightarrow> qp_init_attr_open" where
  "init_attr_store (Set_pd v) a = a\<lparr>ia_pd := (case v of OpenDev pd \<Rightarrow> pd | _ \<Rightarrow> null)\<rparr>"
| "init_attr_store (Set_send_cq v) a = a\<lparr>ia_send_cq := v\<rparr>"
| "init_attr_store (Set_receive_cq v) a = a\<lparr>ia_receive_cq := v\<rparr>"
| "init_attr_store (Set_sq_sig_all v) a = a\<lparr>ia_sq_sig_all := v\<rparr>"
| "init_attr_store (Set_sq_wr v) a = a\<lparr>ia_sq_wr := v\<rparr>"
| "init_attr_store (Set_rq_wr v) a = a\<lparr>ia_rq_wr := v\<rparr>"
| "init_attr_store (Set_send_max_sges v) a = a\<lparr>ia_send_max_sges := v\<rparr>"
| "init_attr_store (Set_receive_max_sges v) a = a\<lparr>ia_receive_max_sges := v\<rparr>"
| "init_attr_store (Set_max_inline_data v) a = a\<lparr>ia_max_inline_data := v\<rparr>"
| "init_attr_store (Set_user_index v) a = a\<lparr>ia_user_index := v\<rparr>"
| "init_attr_store (Set_qp_type v) a = a\<lparr>ia_qp_type := v\<rparr>"
| "init_attr_store (Set_external_umem v off) a = a\<lparr>ia_external_umem := v, ia_external_umem_offset := off\<rparr>"
| "init_attr_store (Set_external_umem_dbr v off) a = a\<lparr>ia_external_umem_dbr := v, ia_external_umem_dbr_offset := off\<rparr>"
| "init_attr_store (Set_external_uar v) a = a\<lparr>ia_external_uar := v\<rparr>"
| "init_attr_store (Set_qp_context v) a = a\<lparr>ia_qp_context := v\<rparr>"
| "init_attr_store (Set_core_direct_master v) a = a\<lparr>ia_core_direct_master := v\<rparr>"
| "init_attr_store (Set_send_dbr_mode v) a = a\<lparr>ia_send_dbr_mode := ucast v\<rparr>"
| "init_attr_store (Set_emulate_no_dbr_ext v) a = a\<lparr>ia_emulate_no_dbr_ext := v\<rparr>"

definition init_attr_spec :: "init_cmd \<Rightarrow> qp_init_attr_open \<Rightarrow> doca_error \<times> qp_init_attr_open" where
  "init_attr_spec c a =
    (if init_attr_ok c then (DOCA_SUCCESS, init_attr_store c a) else (DOCA_ERROR_INVALID_VALUE, a))"

fun init_attr_run :: "(init_cmd \<Rightarrow> 's sdk_call) \<Rightarrow> init_cmd list \<Rightarrow> 's qp_init_attr
    \<Rightarrow> (doca_error list \<times> 's qp_init_attr) outcome" where
  "init_attr_run sdk [] ho = Ret ([], ho)"
| "init_attr_run sdk (c # cs) ho =
    (case init_attr_step sdk c ho of
       Misuse \<Rightarrow> Misuse
     | Ret (e, ho') \<Rightarrow>
         (case init_attr_run sdk cs ho' of
            Misuse \<Rightarrow> Misuse
          | Ret (es, ho'') \<Rightarrow> Ret (e # es, ho'')))"

fun init_attr_spec_run :: "init_cmd list \<Rightarrow> qp_init_attr_open \<Rightarrow> doca_error list \<times> qp_init_attr_open" where
  "init_attr_spec_run [] a = ([], a)"
| "init_attr_spec_run (c # cs) a =
    (case init_attr_spec c a of (e, a') \<Rightarrow>
      (case init_attr_spec_run cs a' of (es, a'') \<Rightarrow> (e # es, a'')))"

section \<open>Refinement of the contract in open mode\<close>

lemmas init_attr_set_defs =
  qp_init_attr_set_pd_def qp_init_attr_set_emulate_no_dbr_ext_def
  qp_init_attr_set_send_cq_def
  qp_init_attr_set_receive_cq_def
  qp_init_attr_set_sq_sig_all_def
  qp_init_attr_set_sq_wr_def
  qp_init_attr_set_rq_wr_def
  qp_init_attr_set_send_max_sges_def
  qp_init_attr_set_receive_max_sges_def
  qp_init_attr_set_max_inline_data_def
  qp_init_attr_set_user_index_def
  qp_init_attr_set_qp_type_def
  qp_init_attr_set_external_umem_def
  qp_init_attr_set_external_umem_dbr_def
  qp_init_attr_set_external_uar_def
  qp_init_attr_set_qp_context_def
  qp_init_attr_set_core_direct_master_def
  qp_init_attr_set_send_dbr_mode_def

lemma deref_open_handle:
  "deref_open f (open_handle ob) = Ret (fst (f ob), open_handle (snd (f ob)))"
  by (auto simp: deref_open_def open_handle_def split: prod.splits)

lemma on_handle_deref [simp]:
  "on_handle (deref_open f) (Some (open_handle ob)) = Ret (fst (f ob), Some (open_handle (snd (f ob))))"
  by (simp add: on_handle_def deref_open_handle)

lemma init_attr_step_open:
  "init_attr_step sdk c (Some (open_handle a)) =
    Ret (fst (init_attr_spec c a), Some (open_handle (snd (init_attr_spec c a))))"
  by (cases c) (auto simp: init_attr_set_defs init_attr_spec_def split: net_dev.splits)

lemma init_attr_run_open:
  "init_attr_run sdk cs (Some (open_handle a)) =
    Ret (fst (init_attr_spec_run cs a), Some (open_handle (snd (init_attr_spec_run cs a))))"
  by (induction cs arbitrary: a) (auto simp: init_attr_step_open split: prod.splits)

section \<open>No misuse of the union while the SDK implements the setters\<close>

lemma api_safe_reject_deref [handle_safe]: "api_safe (reject_sdk e (deref_open f))"
  unfolding api_safe_def
proof (intro allI impI)
  fix h :: "('a, 'b) handle"
  assume "handle_wf h"
  then show "\<exists>e' h'. reject_sdk e (deref_open f) h = Ret (e', h') \<and> handle_wf h' \<and> h_type h' = h_type h"
    by (cases "h_type h"; cases "h_member h")
      (auto simp: reject_sdk_def deref_open_def handle_wf_def split: prod.splits)
qed

lemma init_attr_step_safe:
  assumes "\<And>c. sdk_implements (sdk c)" and "pred_option handle_wf ho"
  shows "\<exists>e ho'. init_attr_step sdk c ho = Ret (e, ho') \<and> pred_option handle_wf ho'"
  by (cases c)
    (simp_all only: init_attr_step.simps init_attr_set_defs,
     (intro on_handle_safe [OF _ assms(2)] handle_safe assms(1))+)

lemma init_attr_run_safe:
  assumes "\<And>c. sdk_implements (sdk c)" and "pred_option handle_wf ho"
  shows "\<exists>es ho'. init_attr_run sdk cs ho = Ret (es, ho') \<and> length es = length cs
    \<and> pred_option handle_wf ho'"
  using assms(2)
proof (induction cs arbitrary: ho)
  case (Cons c cs)
  obtain e ho1 where s: "init_attr_step sdk c ho = Ret (e, ho1)" "pred_option handle_wf ho1"
    using init_attr_step_safe [of sdk ho c] assms(1) Cons.prems by blast
  then obtain es ho2 where "init_attr_run sdk cs ho1 = Ret (es, ho2)" "length es = length cs"
    "pred_option handle_wf ho2"
    using Cons.IH by blast
  then show ?case using s by simp
qed simp

end
