(* ===== verification/Devx.thy ===== *)
theory Devx
  imports Prelude
begin

text \<open>
  The DevX command buffers: the bit-field accessors of \<^verbatim>\<open>src/doca_verbs_mlx5dv_wrapper.h\<close>.
  A buffer is a sequence of 32-bit words kept in host order (the code converts with
  \<^verbatim>\<open>htobe32\<close>/\<^verbatim>\<open>be32toh\<close> around every access, so only the host-order value is visible).
  A field is the bit offset and the width that \<^verbatim>\<open>mlx5_ifc.h\<close> lays out; bit 0 of a buffer is
  the most significant bit of its first word.
\<close>

type_synonym devx_buf = "nat \<Rightarrow> u32"

datatype devx_field = Field (fld_off: nat) (fld_sz: nat)

definition devx_zero :: devx_buf where
  "devx_zero = (\<lambda>_. 0)"

definition devx_dw_off :: "nat \<Rightarrow> nat" where
  "devx_dw_off bit_off = bit_off div 32"

definition devx_dw_bit_off :: "nat \<Rightarrow> nat \<Rightarrow> nat" where
  "devx_dw_bit_off bit_sz bit_off = 32 - bit_sz - bit_off mod 32"

definition devx_mask :: "nat \<Rightarrow> u32" where
  "devx_mask bit_sz = ucast (push_bit bit_sz 1 - 1 :: u64)"

definition devx_dw_mask :: "nat \<Rightarrow> nat \<Rightarrow> u32" where
  "devx_dw_mask bit_sz bit_off = push_bit (devx_dw_bit_off bit_sz bit_off) (devx_mask bit_sz)"

definition devx_set :: "devx_field \<Rightarrow> u32 \<Rightarrow> devx_buf \<Rightarrow> devx_buf" where
  "devx_set f v p =
    (let i = devx_dw_off (fld_off f);
         dw_mask = devx_dw_mask (fld_sz f) (fld_off f);
         m = devx_mask (fld_sz f)
     in p(i := (p i AND NOT dw_mask) OR push_bit (devx_dw_bit_off (fld_sz f) (fld_off f)) (v AND m)))"

definition devx_get :: "devx_field \<Rightarrow> devx_buf \<Rightarrow> u32" where
  "devx_get f p =
    drop_bit (devx_dw_bit_off (fld_sz f) (fld_off f)) (p (devx_dw_off (fld_off f)))
    AND devx_mask (fld_sz f)"

text \<open>
  The 64-bit accessors address the aligned 64-bit word that holds the field's first bit,
  whatever the width of the field is.
\<close>

definition devx_64_off :: "nat \<Rightarrow> nat" where
  "devx_64_off bit_off = bit_off div 64"

definition devx_set64 :: "devx_field \<Rightarrow> u64 \<Rightarrow> devx_buf \<Rightarrow> devx_buf" where
  "devx_set64 f v p =
    (let i = 2 * devx_64_off (fld_off f)
     in p(i := ucast (drop_bit 32 v), Suc i := ucast v))"

definition devx_get64 :: "devx_field \<Rightarrow> devx_buf \<Rightarrow> u64" where
  "devx_get64 f p =
    (let i = 2 * devx_64_off (fld_off f)
     in push_bit 32 (ucast (p i)) OR ucast (p (Suc i)))"

section \<open>The bit view of a buffer\<close>

definition devx_bit :: "devx_buf \<Rightarrow> nat \<Rightarrow> bool" where
  "devx_bit p n = bit (p (n div 32)) (31 - n mod 32)"

definition devx_wf :: "devx_field \<Rightarrow> bool" where
  "devx_wf f \<longleftrightarrow> 0 < fld_sz f \<and> fld_off f mod 32 + fld_sz f \<le> 32"

definition devx_in :: "devx_field \<Rightarrow> nat \<Rightarrow> bool" where
  "devx_in f n \<longleftrightarrow> fld_off f \<le> n \<and> n < fld_off f + fld_sz f"

definition devx_disjoint :: "devx_field \<Rightarrow> devx_field \<Rightarrow> bool" where
  "devx_disjoint f g \<longleftrightarrow> fld_off f + fld_sz f \<le> fld_off g \<or> fld_off g + fld_sz g \<le> fld_off f"

lemma bit_devx_mask: "bit (devx_mask n) k \<longleftrightarrow> k < n \<and> k < 32"
proof -
  have "(push_bit n 1 - 1 :: u64) = mask n"
    by (simp add: mask_eq_decr_exp push_bit_eq_mult)
  then show ?thesis by (auto simp: devx_mask_def bit_ucast_iff bit_mask_iff)
qed

lemma bit_devx_get:
  "bit (devx_get f p) k \<longleftrightarrow>
    k < fld_sz f \<and> k < 32 \<and> bit (p (fld_off f div 32)) (devx_dw_bit_off (fld_sz f) (fld_off f) + k)"
  by (auto simp: devx_get_def devx_dw_off_def bit_and_iff bit_drop_bit_eq bit_devx_mask)

lemma divmod_word: "n = 32 * q + r \<Longrightarrow> r < 32 \<Longrightarrow> n div 32 = q \<and> n mod 32 = r"
  for n q r :: nat
  by auto

lemma divmod_dword: "n = 64 * q + r \<Longrightarrow> r < 64 \<Longrightarrow> n div 64 = q \<and> n mod 64 = r"
  for n q r :: nat
  by auto

lemma field_window:
  fixes B sz x r :: nat
  assumes "B + sz + x = 32" "r < 32"
  shows "B \<le> 31 - r \<and> 31 - r - B < sz \<longleftrightarrow> x \<le> r \<and> r < x + sz"
  using assms by arith

lemma devx_in_same_word:
  assumes "devx_wf f" "devx_in f n"
  shows "n div 32 = fld_off f div 32" "n mod 32 = fld_off f mod 32 + (n - fld_off f)"
proof -
  obtain k where n: "n = fld_off f + k" and k: "k < fld_sz f"
    using assms(2) unfolding devx_in_def by (metis add_less_cancel_left le_Suc_ex)
  have lt: "fld_off f mod 32 + k < 32" using assms(1) k by (simp add: devx_wf_def)
  have "n = 32 * (fld_off f div 32) + (fld_off f mod 32 + k)" unfolding n by simp
  from divmod_word [OF this lt]
  show "n div 32 = fld_off f div 32" "n mod 32 = fld_off f mod 32 + (n - fld_off f)"
    using n by simp_all
qed

text \<open>Reading a field reads its bits, the first one as the most significant.\<close>

lemma devx_get_bit:
  assumes "devx_wf f" "k < fld_sz f"
  shows "bit (devx_get f p) k \<longleftrightarrow> devx_bit p (fld_off f + fld_sz f - 1 - k)"
proof -
  let ?n = "fld_off f + fld_sz f - 1 - k"
  have inn: "devx_in f ?n" using assms(2) by (auto simp: devx_in_def)
  have "?n - fld_off f = fld_sz f - 1 - k" using assms(2) by simp
  then have md: "?n mod 32 = fld_off f mod 32 + (fld_sz f - 1 - k)"
    using devx_in_same_word(2) [OF assms(1) inn] by simp
  have "fld_off f mod 32 + fld_sz f \<le> 32" using assms(1) by (simp add: devx_wf_def)
  then have "31 - ?n mod 32 = devx_dw_bit_off (fld_sz f) (fld_off f) + k"
    unfolding devx_dw_bit_off_def md using assms(2) by simp
  moreover have "k < 32" using assms by (simp add: devx_wf_def)
  ultimately show ?thesis
    using devx_in_same_word(1) [OF assms(1) inn] assms(2)
    by (simp add: bit_devx_get devx_bit_def)
qed

text \<open>Writing a field changes exactly its own bits.\<close>

lemma devx_bit_set:
  assumes "devx_wf f"
  shows "devx_bit (devx_set f v p) n =
    (if devx_in f n then bit v (fld_off f + fld_sz f - 1 - n) else devx_bit p n)"
proof (cases "n div 32 = fld_off f div 32")
  case False
  then have "\<not> devx_in f n" using devx_in_same_word(1) [OF assms] by blast
  then show ?thesis using False by (simp add: devx_bit_def devx_set_def devx_dw_off_def Let_def)
next
  case True
  define q x sz r where "q = fld_off f div 32" and "x = fld_off f mod 32"
    and "sz = fld_sz f" and "r = n mod 32"
  define B where "B = devx_dw_bit_off sz (fld_off f)"
  have wf: "x + sz \<le> 32" using assms by (simp add: devx_wf_def x_def sz_def)
  have B: "B + sz + x = 32" using wf by (simp add: B_def devx_dw_bit_off_def x_def sz_def)
  have nn: "n = 32 * q + r" unfolding q_def r_def True [symmetric] by simp
  have ff: "fld_off f = 32 * q + x" unfolding q_def x_def by simp
  have r32: "r < 32" by (simp add: r_def)
  have inn: "devx_in f n \<longleftrightarrow> x \<le> r \<and> r < x + sz"
    unfolding devx_in_def nn ff sz_def [symmetric] by auto
  have idx: "31 - r - B = fld_off f + sz - 1 - n" if "x \<le> r"
    unfolding nn ff using B r32 that by simp
  have "devx_bit (devx_set f v p) n \<longleftrightarrow>
      (if B \<le> 31 - r \<and> 31 - r - B < sz then bit v (31 - r - B) else devx_bit p n)"
    using r32 B
    by (auto simp: devx_bit_def devx_set_def Let_def devx_dw_off_def True devx_dw_mask_def
        bit_or_iff bit_and_iff bit_not_iff bit_push_bit_iff bit_devx_mask
        simp flip: B_def sz_def r_def)
  then show ?thesis
    using inn idx field_window [OF B r32] by (simp add: sz_def)
qed

lemma devx_bit_set64:
  "devx_bit (devx_set64 f v p) n =
    (if n div 64 = fld_off f div 64 then bit v (63 - n mod 64) else devx_bit p n)"
proof -
  define q r w where "q = n div 64" and "r = n mod 64" and "w = fld_off f div 64"
  have n: "n = 64 * q + r" and r: "r < 64" by (simp_all add: q_def r_def)
  have par: "2 * a = Suc (2 * b) \<longleftrightarrow> False" "Suc (2 * a) = 2 * b \<longleftrightarrow> False" for a b :: nat
    by presburger+
  show ?thesis
  proof (cases "r < 32")
    case True
    then have "n = 32 * (2 * q) + r" using n by simp
    from divmod_word [OF this True] True show ?thesis
      by (auto simp: devx_bit_def devx_set64_def Let_def devx_64_off_def par bit_ucast_iff
          bit_drop_bit_eq simp flip: q_def r_def w_def)
  next
    case False
    then obtain t where t: "r = 32 + t" "t < 32" using r by (metis add_less_cancel_left le_Suc_ex not_less numeral_Bit0)
    then have "n = 32 * Suc (2 * q) + t" using n by simp
    from divmod_word [OF this t(2)] t show ?thesis
      by (auto simp: devx_bit_def devx_set64_def Let_def devx_64_off_def par bit_ucast_iff
          simp flip: q_def r_def w_def)
  qed
qed

lemma devx_get_cong:
  assumes "devx_wf f" and "\<And>n. devx_in f n \<Longrightarrow> devx_bit p n = devx_bit q n"
  shows "devx_get f p = devx_get f q"
proof (rule bit_word_eqI)
  fix k
  show "bit (devx_get f p) k = bit (devx_get f q) k"
  proof (cases "k < fld_sz f")
    case True
    then have "devx_in f (fld_off f + fld_sz f - 1 - k)" by (auto simp: devx_in_def)
    then show ?thesis using assms True by (simp add: devx_get_bit)
  qed (simp add: bit_devx_get)
qed

section \<open>The laws of the accessors\<close>

text \<open>A field reads back the low bits of what was written, and no other field changes.\<close>

lemma devx_get_set_same:
  assumes "devx_wf f"
  shows "devx_get f (devx_set f v p) = take_bit (fld_sz f) v"
proof (rule bit_word_eqI)
  fix k assume "k < LENGTH(32)"
  show "bit (devx_get f (devx_set f v p)) k = bit (take_bit (fld_sz f) v) k"
  proof (cases "k < fld_sz f")
    case True
    then have "devx_in f (fld_off f + fld_sz f - 1 - k)" by (auto simp: devx_in_def)
    moreover have "fld_off f + fld_sz f - 1 - (fld_off f + fld_sz f - 1 - k) = k"
      using True by simp
    ultimately show ?thesis
      using True assms by (simp add: devx_get_bit devx_bit_set bit_take_bit_iff)
  qed (simp add: bit_devx_get bit_take_bit_iff)
qed

lemma devx_get_set_other:
  assumes "devx_wf f" "devx_wf g" "devx_disjoint f g"
  shows "devx_get g (devx_set f v p) = devx_get g p"
  by (rule devx_get_cong [OF assms(2)])
    (use assms in \<open>auto simp: devx_bit_set devx_in_def devx_disjoint_def\<close>)

lemma devx_get_set64_other:
  assumes "devx_wf g" "fld_off g div 64 \<noteq> fld_off f div 64"
  shows "devx_get g (devx_set64 f v p) = devx_get g p"
proof (rule devx_get_cong [OF assms(1)])
  fix n assume "devx_in g n"
  then have "n div 32 = fld_off g div 32" by (rule devx_in_same_word(1) [OF assms(1)])
  then have "n div 32 div 2 = fld_off g div 32 div 2" by simp
  then have "n div 64 = fld_off g div 64" by (simp flip: div_mult2_eq)
  then show "devx_bit (devx_set64 f v p) n = devx_bit p n"
    using assms(2) by (simp add: devx_bit_set64)
qed

lemma devx_get_zero [simp]: "devx_get f devx_zero = 0"
  by (simp add: devx_get_def devx_zero_def)

end
