(* ===== verification/CoreProps.thy ===== *)
theory CoreProps
  imports AttrSession Utils Devx
begin

text \<open>
  Properties of the helpers and of the attribute objects: integer and copy helpers, DevX fields,
  and sessions of setter calls.
\<close>

section \<open>Integers and bytes\<close>

text \<open>\<^verbatim>\<open>next_power_of_two\<close> gives the least power of two that is not below its argument, as long as
  there is one in 64 bits, and 0 for 0 and for anything above \<^verbatim>\<open>2^63\<close>; \<^verbatim>\<open>is_power_of_two\<close> holds of
  exactly the powers of two, so the first is the identity where the second holds.\<close>

theorem next_power_of_two_spec:
  "(if x = 0 \<or> unat x > 2 ^ 63 then next_power_of_two x = 0
    else least_pow2_above (unat x) (unat (next_power_of_two x))) \<and>
   (is_power_of_two x \<longleftrightarrow> (\<exists>k. unat x = 2 ^ k)) \<and>
   (if is_power_of_two x then next_power_of_two x = x else True)"
proof -
  have "next_power_of_two x = x" if p: "is_power_of_two x"
  proof -
    obtain k where k: "k < 64" "x = 2 ^ k" using p by (auto simp: is_power_of_two_iff)
    then have u: "unat x = 2 ^ k" by (simp add: unat_pow2)
    have "(2 :: nat) ^ k \<le> 2 ^ 63" using k(1) by (intro power_increasing) simp_all
    moreover have "x \<noteq> 0" using u by auto
    ultimately have "least_pow2_above (unat x) (unat (next_power_of_two x))"
      using next_power_of_two_least [of x] u by simp
    moreover have "least_pow2_above (unat x) (unat x)" unfolding u least_pow2_above_def by blast
    ultimately have "unat (next_power_of_two x) = unat x" by (rule least_pow2_above_unique)
    then show ?thesis by (simp add: word_unat_eq_iff)
  qed
  then show ?thesis
    using next_power_of_two_zero next_power_of_two_too_big [of x] next_power_of_two_least [of x]
      is_power_of_two_unat [of x] by auto
qed

text \<open>The two ceiling divisions by a power of two agree with the mathematical ceiling, and with each
  other; the 32-bit one needs a shift below 32 and a result that fits 32 bits.\<close>

theorem div_ceil_is_ceiling:
  assumes "s < 32" and "(unat x + 2 ^ s - 1) div 2 ^ s < 2 ^ 32"
  shows "unat (div_ceil_aligned_pow2 x s) = (unat x + 2 ^ s - 1) div 2 ^ s \<and>
    ucast (div_ceil_aligned_pow2_32bits x s) = div_ceil_aligned_pow2 x s"
  using div_ceil_32_unat [OF assms] div_ceil_unat [of x s]
  by (simp add: word_unat_eq_iff unat_ucast_u32_u64)

text \<open>Aligning up gives the least multiple of the alignment that is not below the value, when the
  next multiple fits 64 bits; a multiple stays as it is.\<close>

theorem align_up_is_least_multiple:
  assumes "a \<noteq> 0" and "unat v + unat a \<le> 2 ^ 64"
  shows "unat a dvd unat (align_up_uint64 v a) \<and> unat v \<le> unat (align_up_uint64 v a) \<and>
    (\<forall>m. unat a dvd m \<longrightarrow> unat v \<le> m \<longrightarrow> unat (align_up_uint64 v a) \<le> m)"
proof -
  note p = align_up_uint64_props [OF assms]
  have "unat (align_up_uint64 v a) \<le> m" if dvd: "unat a dvd m" and ge: "unat v \<le> m" for m
  proof (rule ccontr)
    assume "\<not> ?thesis"
    then have "m < unat (align_up_uint64 v a)" "unat (align_up_uint64 v a) < m + unat a"
      using p(3) ge by simp_all
    moreover obtain i where "m = unat a * i" using dvd unfolding dvd_def by blast
    moreover obtain j where "unat (align_up_uint64 v a) = unat a * j" using p(1) unfolding dvd_def by blast
    ultimately have "unat a * i < unat a * j" "unat a * j < unat a * Suc i" by simp_all
    then have "i < j" "j < Suc i" unfolding mult_less_cancel1 by blast+
    then show False by simp
  qed
  with p show ?thesis by blast
qed

text \<open>The byte swaps are involutions, and the 64-bit one swaps the swapped halves.\<close>

theorem bswap_involutions:
  "bswap16 (bswap16 a) = a \<and> bswap32 (bswap32 b) = b \<and> bswap64 (bswap64 c) = c \<and>
   (ucast (bswap64 c) :: u32) = bswap32 (ucast (drop_bit 32 c)) \<and>
   (\<forall>n. bit (bswap32 b) n \<longleftrightarrow> n < 32 \<and> bit b (8 * (3 - n div 8) + n mod 8))"
  by (simp add: bswap64_words bit_bswap32)

section \<open>Copies\<close>

text \<open>C18: On ranges that do not overlap, the copy that chooses the width of every access from the
  alignment of both pointers and the copy that assumes aligned pointers do the same, and what
  they do is a block copy: the destination gets the source bytes, nothing else changes.\<close>

theorem memcpy_is_block_copy:
  assumes "d + n \<le> s \<or> s + n \<le> d"
  shows "memcpy_data m d s n = memcpy_aligned_data m d s n \<and>
    map (memcpy_data m d s n) [d ..< d + n] = map m [s ..< s + n] \<and>
    (\<forall>a. a < d \<or> d + n \<le> a \<longrightarrow> memcpy_data m d s n a = m a)"
  using any.cp_block [OF assms] aligned.cp_block [OF assms] any.cp_dst [OF assms]
    any.cp_frame [OF assms] by simp

text \<open>\<^verbatim>\<open>memcpy_inl_aligned_data\<close> returns when the element size divides the byte count, after exactly
  their quotient of iterations, and has then copied nothing.\<close>

theorem memcpy_inl_returns_without_copying:
  assumes "0 < size_T" and "size_T < 2 ^ 64" and "unat n = k * size_T"
  shows "memcpy_inl_aligned_data size_T k m n = Some m \<and>
    (\<forall>fuel < k. memcpy_inl_aligned_data size_T fuel m n = None)"
  using assms(3)
proof (induction k arbitrary: n)
  case 0
  then have "n = 0" by (simp add: word_unat_eq_iff)
  then show ?case by simp
next
  case (Suc k)
  have t: "unat (of_nat size_T :: u64) = size_T"
    using assms(2) by (simp add: unat_of_nat take_bit_nat_eq_self_iff)
  then have "of_nat size_T \<le> n" using Suc.prems by (simp add: word_le_unat)
  then have "unat (n - of_nat size_T) = k * size_T" using Suc.prems t by (simp add: unat_sub_le)
  note IH = Suc.IH [OF this]
  have nz: "n \<noteq> 0" using Suc.prems assms(1) by auto
  have "memcpy_inl_aligned_data size_T fuel m n = None" if "fuel < Suc k" for fuel
    using IH nz that by (cases fuel) simp_all
  then show ?case using IH nz by simp
qed

section \<open>Command buffers\<close>

text \<open>A DevX field reads back what was written to it, cut to its width, and writing it leaves every
  field that does not share a bit with it as it was.\<close>

theorem devx_field_roundtrip:
  assumes "devx_wf f"
  shows "devx_get f (devx_set f v p) = take_bit (fld_sz f) v \<and>
    (\<forall>g. devx_wf g \<and> devx_disjoint f g \<longrightarrow> devx_get g (devx_set f v p) = devx_get g p)"
  using devx_get_set_same [OF assms] devx_get_set_other [OF assms] by blast

section \<open>Sessions of setter calls\<close>

text \<open>As long as the SDK implements every setter, a session on any well-tagged handle, open, SDK or
  null, never reads the union as the wrong kind: every call returns a code and the handle stays
  well-tagged.\<close>

theorem init_attr_session_keeps_tag:
  assumes "\<And>c. sdk_implements (sdk c)" and "pred_option handle_wf ho"
  shows "\<exists>es ho'. init_attr_run sdk cs ho = Ret (es, ho') \<and> length es = length cs \<and>
    pred_option handle_wf ho'"
  by (rule init_attr_run_safe [OF assms])

text \<open>When the SDK library lacks a setter (or calls its arguments invalid), the setter falls through
  to the open branch with the SDK handle and uses the SDK's pointer as an open attribute object:
  every setter but the one without SDK counterpart does.\<close>

theorem missing_sdk_setter_misuses_the_handle:
  assumes "sdk c (Some obj) = (err, Some obj')"
    and "err \<in> {DOCA_SDK_WRAPPER_NOT_FOUND, DOCA_SDK_WRAPPER_NOT_SUPPORTED, DOCA_SDK_WRAPPER_API_INVALID_VALUE}"
    and "init_attr_ok c" and "\<forall>b. c \<noteq> Set_emulate_no_dbr_ext b"
  shows "init_attr_step sdk c (Some \<lparr>h_type = LIB_TYPE_SDK, h_member = SdkPtr obj\<rparr>) = Misuse"
  using assms try_sdk_lacking [of "sdk c" obj err obj']
  by (cases c) (auto simp: init_attr_set_defs guarded_def on_handle_def try_sdk_def sdk_ptr_def past_null_def
      on_open_def Let_def split: net_dev.splits)

section \<open>Witnesses\<close>

theorem div_ceil_is_ceiling_witness:
  "unat (div_ceil_aligned_pow2 (2 ^ 30 + 1) 30) = 2"
  using div_ceil_is_ceiling [of 30 "2 ^ 30 + 1"] by simp

theorem align_up_is_least_multiple_witness:
  "unat (64 :: u64) dvd unat (align_up_uint64 100 64) \<and> unat (align_up_uint64 100 64) \<le> 128"
  using align_up_is_least_multiple [of 64 100] by simp

theorem memcpy_is_block_copy_witness:
  "map (memcpy_data (\<lambda>a. of_nat a) 103 8 3) [103 ..< 103 + 3] = map (\<lambda>a. of_nat a :: u8) [8 ..< 8 + 3] \<and>
   memcpy_data (\<lambda>a. of_nat a) 103 8 3 7 = 7"
proof -
  have h: "memcpy_data (\<lambda>a. of_nat a) 103 8 3 = memcpy_aligned_data (\<lambda>a. of_nat a) 103 8 3 \<and>
    map (memcpy_data (\<lambda>a. of_nat a) 103 8 3) [103 ..< 103 + 3] = map (\<lambda>a. of_nat a) [8 ..< 8 + 3] \<and>
    (\<forall>a. a < 103 \<or> 103 + 3 \<le> a \<longrightarrow> memcpy_data (\<lambda>a. of_nat a) 103 8 3 a = of_nat a)"
    by (rule memcpy_is_block_copy) simp
  from h [THEN conjunct2, THEN conjunct2, rule_format, of 7] h [THEN conjunct2, THEN conjunct1]
  show ?thesis by (intro conjI) simp_all
qed

theorem memcpy_inl_returns_without_copying_witness:
  "memcpy_inl_aligned_data 4 3 (\<lambda>_. 9) 12 = Some (\<lambda>_. 9)"
  using memcpy_inl_returns_without_copying [of 4 12 3 "\<lambda>_. 9"] by simp

theorem devx_field_roundtrip_witness:
  "devx_get (Field 40 8) (devx_set (Field 40 8) 0x1ff devx_zero) = 0xff"
  using devx_field_roundtrip [of "Field 40 8" "0x1ff" devx_zero]
  by (simp add: devx_wf_def take_bit_eq_mask mask_eq_exp_minus_1)

theorem init_attr_session_keeps_tag_witness:
  "\<exists>es ho'. init_attr_run (\<lambda>_ p. (DOCA_SDK_WRAPPER_SUCCESS, p)) [Set_sq_wr 64, Set_send_cq 0]
     (Some \<lparr>h_type = LIB_TYPE_SDK, h_member = SdkPtr (5 :: nat)\<rparr>) = Ret (es, ho') \<and> length es = 2"
  using init_attr_session_keeps_tag [of "\<lambda>_ p. (DOCA_SDK_WRAPPER_SUCCESS, p)"
      "Some \<lparr>h_type = LIB_TYPE_SDK, h_member = SdkPtr (5 :: nat)\<rparr>" "[Set_sq_wr 64, Set_send_cq 0]"]
  by (auto simp: sdk_implements_def handle_wf_def)

theorem missing_sdk_setter_misuses_the_handle_witness:
  "init_attr_step (\<lambda>_ p. (DOCA_SDK_WRAPPER_NOT_FOUND, p)) (Set_sq_wr 64)
     (Some \<lparr>h_type = LIB_TYPE_SDK, h_member = SdkPtr (5 :: nat)\<rparr>) = Misuse"
  using missing_sdk_setter_misuses_the_handle [of "\<lambda>_ p. (DOCA_SDK_WRAPPER_NOT_FOUND, p)" "Set_sq_wr 64"
      "5 :: nat" DOCA_SDK_WRAPPER_NOT_FOUND 5] by simp

end
