(* ===== verification/VerbsQp.thy ===== *)
theory VerbsQp
  imports Devx VerbsTypes Handle Utils
begin

text \<open>
  The state machine of a queue pair: \<^verbatim>\<open>doca_verbs_qp_modify\<close>, \<^verbatim>\<open>doca_verbs_qp_query\<close> and the
  transitions of \<^verbatim>\<open>doca_verbs_qp_open\<close> in \<^verbatim>\<open>src/doca_verbs_qp.cpp\<close>.  A transition checks the
  attribute mask against its table, builds a DevX command buffer field by field, hands it to
  the device and records the new state only if the device accepted it.
\<close>

section \<open>Attribute masks\<close>

definition ATTR_ALLOW_REMOTE_WRITE :: u32 where "ATTR_ALLOW_REMOTE_WRITE = push_bit 0 1"
definition ATTR_ALLOW_REMOTE_READ :: u32 where "ATTR_ALLOW_REMOTE_READ = push_bit 1 1"
definition ATTR_PKEY_INDEX :: u32 where "ATTR_PKEY_INDEX = push_bit 2 1"
definition ATTR_MIN_RNR_TIMER :: u32 where "ATTR_MIN_RNR_TIMER = push_bit 3 1"
definition ATTR_PORT_NUM :: u32 where "ATTR_PORT_NUM = push_bit 4 1"
definition ATTR_NEXT_STATE :: u32 where "ATTR_NEXT_STATE = push_bit 5 1"
definition ATTR_CURRENT_STATE :: u32 where "ATTR_CURRENT_STATE = push_bit 6 1"
definition ATTR_PATH_MTU :: u32 where "ATTR_PATH_MTU = push_bit 7 1"
definition ATTR_RQ_PSN :: u32 where "ATTR_RQ_PSN = push_bit 8 1"
definition ATTR_SQ_PSN :: u32 where "ATTR_SQ_PSN = push_bit 9 1"
definition ATTR_DEST_QP_NUM :: u32 where "ATTR_DEST_QP_NUM = push_bit 10 1"
definition ATTR_ACK_TIMEOUT :: u32 where "ATTR_ACK_TIMEOUT = push_bit 11 1"
definition ATTR_RETRY_CNT :: u32 where "ATTR_RETRY_CNT = push_bit 12 1"
definition ATTR_RNR_RETRY :: u32 where "ATTR_RNR_RETRY = push_bit 13 1"
definition ATTR_AH_ATTR :: u32 where "ATTR_AH_ATTR = push_bit 14 1"
definition ATTR_ATOMIC_MODE :: u32 where "ATTR_ATOMIC_MODE = push_bit 15 1"
definition ATTR_MAX_QP_RD_ATOMIC :: u32 where "ATTR_MAX_QP_RD_ATOMIC = push_bit 16 1"
definition ATTR_MAX_DEST_RD_ATOMIC :: u32 where "ATTR_MAX_DEST_RD_ATOMIC = push_bit 17 1"

lemmas attr_bits =
  ATTR_ALLOW_REMOTE_WRITE_def ATTR_ALLOW_REMOTE_READ_def ATTR_PKEY_INDEX_def
  ATTR_MIN_RNR_TIMER_def ATTR_PORT_NUM_def ATTR_NEXT_STATE_def ATTR_CURRENT_STATE_def
  ATTR_PATH_MTU_def ATTR_RQ_PSN_def ATTR_SQ_PSN_def ATTR_DEST_QP_NUM_def ATTR_ACK_TIMEOUT_def
  ATTR_RETRY_CNT_def ATTR_RNR_RETRY_def ATTR_AH_ATTR_def ATTR_ATOMIC_MODE_def
  ATTR_MAX_QP_RD_ATOMIC_def ATTR_MAX_DEST_RD_ATOMIC_def

abbreviation has :: "u32 \<Rightarrow> u32 \<Rightarrow> bool" where
  "has attr_mask bits \<equiv> attr_mask AND bits \<noteq> 0"

text \<open>The tables are indexed by the QP type; the only type is RC, at index 0.\<close>

definition rst2init_requested_attr :: "u32 list" where
  "rst2init_requested_attr =
    [ATTR_PKEY_INDEX OR ATTR_PORT_NUM OR ATTR_ALLOW_REMOTE_WRITE OR ATTR_ALLOW_REMOTE_READ]"

definition init2rtr_requested_attr :: "u32 list" where
  "init2rtr_requested_attr =
    [ATTR_RQ_PSN OR ATTR_DEST_QP_NUM OR ATTR_PATH_MTU OR ATTR_AH_ATTR OR ATTR_MIN_RNR_TIMER]"

definition rtr2rts_requested_attr :: "u32 list" where
  "rtr2rts_requested_attr = [ATTR_SQ_PSN OR ATTR_ACK_TIMEOUT OR ATTR_RETRY_CNT OR ATTR_RNR_RETRY]"

definition init2init_optional_attr :: "u32 list" where
  "init2init_optional_attr =
    [ATTR_CURRENT_STATE OR ATTR_NEXT_STATE OR ATTR_PKEY_INDEX OR ATTR_PORT_NUM OR
     ATTR_ALLOW_REMOTE_WRITE OR ATTR_ALLOW_REMOTE_READ OR ATTR_ATOMIC_MODE]"

definition init2rtr_optional_attr :: "u32 list" where
  "init2rtr_optional_attr =
    [ATTR_CURRENT_STATE OR ATTR_NEXT_STATE OR ATTR_PKEY_INDEX OR ATTR_ALLOW_REMOTE_WRITE OR
     ATTR_ALLOW_REMOTE_READ OR ATTR_ATOMIC_MODE OR ATTR_MAX_DEST_RD_ATOMIC]"

definition rtr2rts_optional_attr :: "u32 list" where
  "rtr2rts_optional_attr =
    [ATTR_CURRENT_STATE OR ATTR_NEXT_STATE OR ATTR_MIN_RNR_TIMER OR ATTR_ALLOW_REMOTE_WRITE OR
     ATTR_ATOMIC_MODE OR ATTR_MAX_QP_RD_ATOMIC]"

definition rts2rts_optional_attr :: "u32 list" where
  "rts2rts_optional_attr =
    [ATTR_CURRENT_STATE OR ATTR_NEXT_STATE OR ATTR_ALLOW_REMOTE_WRITE OR ATTR_ALLOW_REMOTE_READ OR
     ATTR_ATOMIC_MODE OR ATTR_MIN_RNR_TIMER OR ATTR_AH_ATTR]"

definition is_X2rst_attrs_valid :: "u32 \<Rightarrow> bool" where
  "is_X2rst_attrs_valid attr_mask =
    (let valid_attr = ATTR_CURRENT_STATE OR ATTR_NEXT_STATE
     in \<not> has attr_mask (NOT valid_attr))"

definition is_X2err_attrs_valid :: "u32 \<Rightarrow> bool" where
  "is_X2err_attrs_valid attr_mask =
    (let valid_attr = ATTR_CURRENT_STATE OR ATTR_NEXT_STATE
     in \<not> has attr_mask (NOT valid_attr))"

definition is_rst2init_attrs_valid :: "u32 \<Rightarrow> u32 \<Rightarrow> bool" where
  "is_rst2init_attrs_valid attr_mask qp_type =
    (let required_attr = rst2init_requested_attr ! unat qp_type;
         valid_attr = required_attr OR ATTR_CURRENT_STATE OR ATTR_NEXT_STATE OR ATTR_ATOMIC_MODE
     in if has attr_mask (NOT valid_attr) then False
        else if required_attr AND attr_mask \<noteq> required_attr then False
        else True)"

definition is_init2init_attrs_valid :: "u32 \<Rightarrow> u32 \<Rightarrow> bool" where
  "is_init2init_attrs_valid attr_mask qp_type =
    (let valid_attr = init2init_optional_attr ! unat qp_type
     in \<not> has attr_mask (NOT valid_attr))"

definition is_init2rtr_attrs_valid :: "u32 \<Rightarrow> u32 \<Rightarrow> bool" where
  "is_init2rtr_attrs_valid attr_mask qp_type =
    (let required_attr = init2rtr_requested_attr ! unat qp_type;
         valid_attr = required_attr OR (init2rtr_optional_attr ! unat qp_type)
     in if has attr_mask (NOT valid_attr) then False
        else if required_attr AND attr_mask \<noteq> required_attr then False
        else True)"

definition is_rtr2rts_attrs_valid :: "u32 \<Rightarrow> u32 \<Rightarrow> bool" where
  "is_rtr2rts_attrs_valid attr_mask qp_type =
    (let required_attr = rtr2rts_requested_attr ! unat qp_type;
         valid_attr = required_attr OR (rtr2rts_optional_attr ! unat qp_type)
     in if has attr_mask (NOT valid_attr) then False
        else if required_attr AND attr_mask \<noteq> required_attr then False
        else True)"

definition is_rts2rts_attrs_valid :: "u32 \<Rightarrow> u32 \<Rightarrow> bool" where
  "is_rts2rts_attrs_valid attr_mask qp_type =
    (let valid_attr = rts2rts_optional_attr ! unat qp_type
     in \<not> has attr_mask (NOT valid_attr))"

section \<open>The optional-parameter mask of a command\<close>

datatype qp_state_mod = RST2INIT | INIT2INIT | INIT2RTR | RTR2RTS | RTS2RTS

definition MLX5_QP_OPT_PARAM_RRE :: u32 where "MLX5_QP_OPT_PARAM_RRE = push_bit 1 1"
definition MLX5_QP_OPT_PARAM_RAE :: u32 where "MLX5_QP_OPT_PARAM_RAE = push_bit 2 1"
definition MLX5_QP_OPT_PARAM_RWE :: u32 where "MLX5_QP_OPT_PARAM_RWE = push_bit 3 1"
definition MLX5_QP_OPT_PARAM_PKEY_INDEX :: u32 where "MLX5_QP_OPT_PARAM_PKEY_INDEX = push_bit 4 1"
definition MLX5_QP_OPT_PARAM_MIN_RNR_NAK :: u32 where "MLX5_QP_OPT_PARAM_MIN_RNR_NAK = push_bit 6 1"
definition MLX5_QP_OPT_PARAM_PORT_NUM :: u32 where "MLX5_QP_OPT_PARAM_PORT_NUM = push_bit 16 1"
definition MLX5_QP_OPT_DSCP :: u32 where "MLX5_QP_OPT_DSCP = push_bit 17 1"
definition MLX5_QP_OPT_SGID_INDEX :: u32 where "MLX5_QP_OPT_SGID_INDEX = push_bit 23 1"

lemmas opt_bits =
  MLX5_QP_OPT_PARAM_RRE_def MLX5_QP_OPT_PARAM_RAE_def MLX5_QP_OPT_PARAM_RWE_def
  MLX5_QP_OPT_PARAM_PKEY_INDEX_def MLX5_QP_OPT_PARAM_MIN_RNR_NAK_def
  MLX5_QP_OPT_PARAM_PORT_NUM_def MLX5_QP_OPT_DSCP_def MLX5_QP_OPT_SGID_INDEX_def

fun valid_opt_mask :: "qp_state_mod \<Rightarrow> u32" where
  "valid_opt_mask RST2INIT = 0"
| "valid_opt_mask INIT2INIT = ATTR_ALLOW_REMOTE_WRITE OR ATTR_ALLOW_REMOTE_READ OR
     ATTR_ATOMIC_MODE OR ATTR_PKEY_INDEX OR ATTR_PORT_NUM"
| "valid_opt_mask INIT2RTR = ATTR_ALLOW_REMOTE_WRITE OR ATTR_ALLOW_REMOTE_READ OR
     ATTR_ATOMIC_MODE OR ATTR_PKEY_INDEX"
| "valid_opt_mask RTR2RTS = ATTR_ALLOW_REMOTE_WRITE OR ATTR_ATOMIC_MODE OR ATTR_MIN_RNR_TIMER"
| "valid_opt_mask RTS2RTS = ATTR_ALLOW_REMOTE_WRITE OR ATTR_ALLOW_REMOTE_READ OR
     ATTR_ATOMIC_MODE OR ATTR_AH_ATTR OR ATTR_MIN_RNR_TIMER"

definition legal_mlx5_qp_opt_param_mask :: "u32 \<Rightarrow> qp_state_mod \<Rightarrow> u32" where
  "legal_mlx5_qp_opt_param_mask attr_mask state_mod =
    (let m = attr_mask AND valid_opt_mask state_mod;
         add = \<lambda>bits opt acc. if has m bits then acc OR opt else acc
     in add ATTR_ATOMIC_MODE MLX5_QP_OPT_PARAM_RAE
       (add ATTR_ALLOW_REMOTE_READ MLX5_QP_OPT_PARAM_RRE
       (add ATTR_ALLOW_REMOTE_WRITE MLX5_QP_OPT_PARAM_RWE
       (add ATTR_AH_ATTR (MLX5_QP_OPT_SGID_INDEX OR MLX5_QP_OPT_DSCP)
       (add ATTR_PORT_NUM MLX5_QP_OPT_PARAM_PORT_NUM
       (add ATTR_MIN_RNR_TIMER MLX5_QP_OPT_PARAM_MIN_RNR_NAK
       (add ATTR_PKEY_INDEX MLX5_QP_OPT_PARAM_PKEY_INDEX 0)))))))"

section \<open>Conversions to and from the device encoding\<close>

fun convert_doca_mtu_size_to_prm_mtu_size :: "mtu_size \<Rightarrow> doca_error + u32" where
  "convert_doca_mtu_size_to_prm_mtu_size MTU_SIZE_256_BYTES = Inr 1"
| "convert_doca_mtu_size_to_prm_mtu_size MTU_SIZE_512_BYTES = Inr 2"
| "convert_doca_mtu_size_to_prm_mtu_size MTU_SIZE_1K_BYTES = Inr 3"
| "convert_doca_mtu_size_to_prm_mtu_size MTU_SIZE_2K_BYTES = Inr 4"
| "convert_doca_mtu_size_to_prm_mtu_size MTU_SIZE_4K_BYTES = Inr 5"
| "convert_doca_mtu_size_to_prm_mtu_size MTU_SIZE_RAW_ETHERNET = Inr 7"
| "convert_doca_mtu_size_to_prm_mtu_size (MTU_SIZE_OTHER n) = Inl DOCA_ERROR_INVALID_VALUE"

definition convert_prm_mtu_size_to_doca_verbs_mtu_size :: "u32 \<Rightarrow> doca_error + mtu_size" where
  "convert_prm_mtu_size_to_doca_verbs_mtu_size prm =
    (if prm = 1 then Inr MTU_SIZE_256_BYTES
     else if prm = 2 then Inr MTU_SIZE_512_BYTES
     else if prm = 3 then Inr MTU_SIZE_1K_BYTES
     else if prm = 4 then Inr MTU_SIZE_2K_BYTES
     else if prm = 5 then Inr MTU_SIZE_4K_BYTES
     else if prm = 7 then Inr MTU_SIZE_RAW_ETHERNET
     else Inl DOCA_ERROR_INVALID_VALUE)"

definition convert_prm_qp_state_to_doca_verbs_qp_state :: "u32 \<Rightarrow> doca_error + qp_state" where
  "convert_prm_qp_state_to_doca_verbs_qp_state prm =
    (if prm = 0 then Inr QP_STATE_RST
     else if prm = 1 then Inr QP_STATE_INIT
     else if prm = 2 then Inr QP_STATE_RTR
     else if prm = 3 then Inr QP_STATE_RTS
     else if prm = 6 then Inr QP_STATE_ERR
     else Inl DOCA_ERROR_INVALID_VALUE)"

section \<open>Validity of attribute values\<close>

definition is_qp_attr_state_valid :: "qp_state \<Rightarrow> bool" where
  "is_qp_attr_state_valid state = (case state of QP_STATE_OTHER n \<Rightarrow> False | _ \<Rightarrow> True)"

definition is_qp_attr_path_mtu_valid :: "mtu_size \<Rightarrow> bool" where
  "is_qp_attr_path_mtu_valid path_mtu =
    (case path_mtu of MTU_SIZE_RAW_ETHERNET \<Rightarrow> False | MTU_SIZE_OTHER n \<Rightarrow> False | _ \<Rightarrow> True)"

definition is_qp_attr_queue_psn_valid :: "u32 \<Rightarrow> u32" where
  "is_qp_attr_queue_psn_valid psn = (if has psn (NOT 0xffffff) then psn AND 0xffffff else psn)"

definition is_qp_attr_ah_add_type_valid :: "addr_type \<Rightarrow> bool" where
  "is_qp_attr_ah_add_type_valid addr_type =
    (case addr_type of ADDR_TYPE_OTHER n \<Rightarrow> False | _ \<Rightarrow> True)"

definition is_qp_attr_ah_sgid_index_valid :: "device_attr \<Rightarrow> u8 \<Rightarrow> bool" where
  "is_qp_attr_ah_sgid_index_valid dev sgid_index =
    (\<not> unat sgid_index \<ge> unat (da_gid_table_size dev))"

definition is_qp_attr_pkey_index_valid :: "device_attr \<Rightarrow> u16 \<Rightarrow> bool" where
  "is_qp_attr_pkey_index_valid dev pkey_index = (\<not> unat pkey_index > unat (da_max_pkeys dev))"

definition is_qp_attr_port_num_valid :: "device_attr \<Rightarrow> u16 \<Rightarrow> bool" where
  "is_qp_attr_port_num_valid dev port_num =
    (\<not> (unat port_num > unat (da_phys_port_cnt dev) \<or> port_num < 1))"

text \<open>
  The checks run in order and stop at the first failure; the two packet sequence numbers are
  masked in the attribute object on the way.  The result is the verdict and that object.
\<close>

definition mask_psns :: "qp_attr_open \<Rightarrow> u32 \<Rightarrow> qp_attr_open" where
  "mask_psns a attr_mask =
    (let a1 = (if has attr_mask ATTR_RQ_PSN
               then a\<lparr>qa_rq_psn := is_qp_attr_queue_psn_valid (qa_rq_psn a)\<rparr> else a)
     in if has attr_mask ATTR_SQ_PSN
        then a1\<lparr>qa_sq_psn := is_qp_attr_queue_psn_valid (qa_sq_psn a1)\<rparr> else a1)"

definition is_qp_attr_valid :: "device_attr \<Rightarrow> qp_attr_open \<Rightarrow> u32 \<Rightarrow> bool \<times> qp_attr_open" where
  "is_qp_attr_valid dev a attr_mask =
    (if has attr_mask ATTR_CURRENT_STATE \<and> \<not> is_qp_attr_state_valid (qa_current_state a) then (False, a)
     else if has attr_mask ATTR_NEXT_STATE \<and> \<not> is_qp_attr_state_valid (qa_next_state a) then (False, a)
     else if has attr_mask ATTR_PATH_MTU \<and> \<not> is_qp_attr_path_mtu_valid (qa_path_mtu a) then (False, a)
     else
       let a = mask_psns a attr_mask in
       (if has attr_mask ATTR_AH_ATTR \<and>
           \<not> is_qp_attr_ah_add_type_valid (ah_addr_type (qa_ah_attr a)) then (False, a)
        else if has attr_mask ATTR_AH_ATTR \<and>
           \<not> is_qp_attr_ah_sgid_index_valid dev (ah_sgid_index (qa_ah_attr a)) then (False, a)
        else if has attr_mask ATTR_PKEY_INDEX \<and>
           \<not> is_qp_attr_pkey_index_valid dev (qa_pkey_index a) then (False, a)
        else if has attr_mask ATTR_PORT_NUM \<and>
           \<not> is_qp_attr_port_num_valid dev (qa_port_num a) then (False, a)
        else (True, a)))"

section \<open>Command layouts (mlx5_ifc.h)\<close>

text \<open>
  Every command that carries a QP context has it at bit \<open>0xc0\<close>, and the primary address path
  at bit \<open>0xc0\<close> of the context.  \<open>qpc\<close> and \<open>path\<close> turn an offset inside of the context or of the
  path into a field of the command buffer.
\<close>

definition qpc :: "nat \<Rightarrow> nat \<Rightarrow> devx_field" where
  "qpc off sz = Field (0xc0 + off) sz"

definition path :: "nat \<Rightarrow> nat \<Rightarrow> devx_field" where
  "path off sz = qpc (0xc0 + off) sz"

definition cmd_opcode :: devx_field where "cmd_opcode = Field 0 16"
definition cmd_qpn :: devx_field where "cmd_qpn = Field 0x48 24"
definition cmd_opt_param_mask :: devx_field where "cmd_opt_param_mask = Field 0x80 32"

definition qpc_state :: devx_field where "qpc_state = qpc 0x0 4"
definition qpc_st :: devx_field where "qpc_st = qpc 0x8 8"
definition qpc_pm_state :: devx_field where "qpc_pm_state = qpc 0x13 2"
definition qpc_pd :: devx_field where "qpc_pd = qpc 0x28 24"
definition qpc_mtu :: devx_field where "qpc_mtu = qpc 0x40 3"
definition qpc_log_msg_max :: devx_field where "qpc_log_msg_max = qpc 0x43 5"
definition qpc_log_rq_size :: devx_field where "qpc_log_rq_size = qpc 0x49 4"
definition qpc_log_rq_stride :: devx_field where "qpc_log_rq_stride = qpc 0x4d 3"
definition qpc_no_sq :: devx_field where "qpc_no_sq = qpc 0x50 1"
definition qpc_log_sq_size :: devx_field where "qpc_log_sq_size = qpc 0x51 4"
definition qpc_counter_set_id :: devx_field where "qpc_counter_set_id = qpc 0x60 8"
definition qpc_uar_page :: devx_field where "qpc_uar_page = qpc 0x68 24"
definition qpc_send_dbr_mode :: devx_field where "qpc_send_dbr_mode = qpc 0x80 2"
definition qpc_user_index :: devx_field where "qpc_user_index = qpc 0x88 24"
definition qpc_log_page_size :: devx_field where "qpc_log_page_size = qpc 0xa3 5"
definition qpc_remote_qpn :: devx_field where "qpc_remote_qpn = qpc 0xa8 24"
definition qpc_log_ack_req_freq :: devx_field where "qpc_log_ack_req_freq = qpc 0x380 4"
definition qpc_log_sra_max :: devx_field where "qpc_log_sra_max = qpc 0x388 3"
definition qpc_retry_count :: devx_field where "qpc_retry_count = qpc 0x38d 3"
definition qpc_rnr_retry :: devx_field where "qpc_rnr_retry = qpc 0x390 3"
definition qpc_next_send_psn :: devx_field where "qpc_next_send_psn = qpc 0x3c8 24"
definition qpc_cqn_snd :: devx_field where "qpc_cqn_snd = qpc 0x3e8 24"
definition qpc_log_rra_max :: devx_field where "qpc_log_rra_max = qpc 0x488 3"
definition qpc_atomic_mode :: devx_field where "qpc_atomic_mode = qpc 0x48c 4"
definition qpc_rre :: devx_field where "qpc_rre = qpc 0x490 1"
definition qpc_rwe :: devx_field where "qpc_rwe = qpc 0x491 1"
definition qpc_rae :: devx_field where "qpc_rae = qpc 0x492 1"
definition qpc_cd_master :: devx_field where "qpc_cd_master = qpc 0x49f 1"
definition qpc_min_rnr_nak :: devx_field where "qpc_min_rnr_nak = qpc 0x4a3 5"
definition qpc_next_rcv_psn :: devx_field where "qpc_next_rcv_psn = qpc 0x4a8 24"
definition qpc_cqn_rcv :: devx_field where "qpc_cqn_rcv = qpc 0x4e8 24"
definition qpc_dbr_addr :: devx_field where "qpc_dbr_addr = qpc 0x500 64"
definition qpc_rq_type :: devx_field where "qpc_rq_type = qpc 0x565 3"
definition qpc_srqn_rmpn_xrqn :: devx_field where "qpc_srqn_rmpn_xrqn = qpc 0x568 24"
definition qpc_dbr_umem_valid :: devx_field where "qpc_dbr_umem_valid = qpc 0x683 1"
definition qpc_dbr_umem_id :: devx_field where "qpc_dbr_umem_id = qpc 0x720 32"
definition path_pkey_index :: devx_field where "path_pkey_index = path 0x10 16"
definition path_grh :: devx_field where "path_grh = path 0x28 1"
definition path_rlid :: devx_field where "path_rlid = path 0x30 16"
definition path_ack_timeout :: devx_field where "path_ack_timeout = path 0x40 5"
definition path_src_addr_index :: devx_field where "path_src_addr_index = path 0x48 8"
definition path_stat_rate :: devx_field where "path_stat_rate = path 0x54 4"
definition path_hop_limit :: devx_field where "path_hop_limit = path 0x58 8"
definition path_tclass :: devx_field where "path_tclass = path 0x64 8"
definition path_rgid_rip :: devx_field where "path_rgid_rip = path 0x80 128"
definition path_dscp :: devx_field where "path_dscp = path 0x10a 6"
definition path_udp_sport :: devx_field where "path_udp_sport = path 0x110 16"
definition path_sl :: devx_field where "path_sl = path 0x124 4"
definition path_vhca_port_num :: devx_field where "path_vhca_port_num = path 0x128 8"
definition path_rmac_47_32 :: devx_field where "path_rmac_47_32 = path 0x130 16"
definition path_rmac_31_0 :: devx_field where "path_rmac_31_0 = path 0x140 32"

lemmas field_defs = qpc_def path_def cmd_opcode_def cmd_qpn_def cmd_opt_param_mask_def
  qpc_state_def qpc_st_def qpc_pm_state_def qpc_pd_def qpc_mtu_def qpc_log_msg_max_def
  qpc_log_rq_size_def qpc_log_rq_stride_def qpc_no_sq_def qpc_log_sq_size_def
  qpc_counter_set_id_def qpc_uar_page_def qpc_send_dbr_mode_def qpc_user_index_def
  qpc_log_page_size_def qpc_remote_qpn_def qpc_log_ack_req_freq_def qpc_log_sra_max_def
  qpc_retry_count_def qpc_rnr_retry_def qpc_next_send_psn_def qpc_cqn_snd_def
  qpc_log_rra_max_def qpc_atomic_mode_def qpc_rre_def qpc_rwe_def qpc_rae_def qpc_cd_master_def
  qpc_min_rnr_nak_def qpc_next_rcv_psn_def qpc_cqn_rcv_def qpc_dbr_addr_def qpc_rq_type_def
  qpc_srqn_rmpn_xrqn_def qpc_dbr_umem_valid_def qpc_dbr_umem_id_def path_pkey_index_def
  path_grh_def path_rlid_def path_ack_timeout_def path_src_addr_index_def path_stat_rate_def
  path_hop_limit_def path_tclass_def path_rgid_rip_def path_dscp_def path_udp_sport_def
  path_sl_def path_vhca_port_num_def path_rmac_47_32_def path_rmac_31_0_def

text \<open>A block copy into the buffer writes consecutive 8-bit fields.\<close>

fun devx_write_bytes :: "nat \<Rightarrow> u8 list \<Rightarrow> devx_buf \<Rightarrow> devx_buf" where
  "devx_write_bytes off [] p = p"
| "devx_write_bytes off (b # bs) p = devx_write_bytes (off + 8) bs (devx_set (Field off 8) (ucast b) p)"

definition set_if :: "bool \<Rightarrow> devx_field \<Rightarrow> u32 \<Rightarrow> devx_buf \<Rightarrow> devx_buf" where
  "set_if b f v p = (if b then devx_set f v p else p)"

section \<open>The device behind the wrappers\<close>

text \<open>
  The rdma-core and DevX calls (\<^verbatim>\<open>src/doca_verbs_ibv_wrapper.cpp\<close>,
  \<^verbatim>\<open>src/doca_verbs_mlx5dv_wrapper.cpp\<close>) reach code outside of the repository and are parameters
  of the model.  A call takes the device state and may change it.
\<close>

record ibv_ah_attr =
  iah_port_num :: u8
  iah_sgid_index :: u8
  iah_dgid :: "u8 list"
  iah_hop_limit :: u8
  iah_is_global :: u8

record 'd driver =
  drv_obj_modify :: "ptr \<Rightarrow> devx_buf \<Rightarrow> 'd \<Rightarrow> doca_error \<times> 'd"
  drv_obj_query :: "ptr \<Rightarrow> devx_buf \<Rightarrow> 'd \<Rightarrow> doca_error \<times> devx_buf"
  drv_general_cmd :: "devx_buf \<Rightarrow> 'd \<Rightarrow> doca_error \<times> devx_buf"
  drv_create_ah :: "ptr \<Rightarrow> ibv_ah_attr \<Rightarrow> 'd \<Rightarrow> doca_error \<times> ptr \<times> 'd"
  drv_init_obj_ah :: "ptr \<Rightarrow> 'd \<Rightarrow> doca_error \<times> u8 list option"
  drv_destroy_ah :: "ptr \<Rightarrow> 'd \<Rightarrow> doca_error \<times> 'd"
  drv_rand :: "'d \<Rightarrow> int"

definition query_roce_version :: "'d driver \<Rightarrow> u8 \<Rightarrow> 'd \<Rightarrow> doca_error + u8" where
  "query_roce_version drv sgid_index d =
    (let cmd = devx_set (Field 0x40 16) (ucast sgid_index) (devx_set cmd_opcode 0x760 devx_zero)
     in case drv_general_cmd drv cmd d of (ret, out) \<Rightarrow>
          if ret \<noteq> DOCA_SUCCESS then Inl DOCA_ERROR_DRIVER
          else Inr (ucast (devx_get (Field 0x158 8) out)))"

text \<open>
  \<^verbatim>\<open>resolve_remote_mac\<close>: the address handle that it creates is destroyed on every path, and the
  result of the destruction is reported only on the successful one.
\<close>

definition resolve_remote_mac :: "'d driver \<Rightarrow> ptr \<Rightarrow> u8 \<Rightarrow> u8 \<Rightarrow> u8 list \<Rightarrow> u8 \<Rightarrow> u8 \<Rightarrow> 'd
    \<Rightarrow> (doca_error + u8 list) \<times> 'd" where
  "resolve_remote_mac drv pd local_port_num local_gid_index remote_gid hop_limit is_global d =
    (let attr = \<lparr>iah_port_num = local_port_num, iah_sgid_index = local_gid_index,
                 iah_dgid = remote_gid, iah_hop_limit = hop_limit, iah_is_global = is_global\<rparr>
     in case drv_create_ah drv pd attr d of (ah_ret, ah, d1) \<Rightarrow>
       if ah_ret \<noteq> DOCA_SUCCESS then (Inl ah_ret, d1)
       else case drv_init_obj_ah drv ah d1 of (ret, av) \<Rightarrow>
         (case drv_destroy_ah drv ah d1 of (destroy_ret, d2) \<Rightarrow>
            if ret \<noteq> DOCA_SUCCESS then (Inl DOCA_ERROR_DRIVER, d2)
            else case av of
                   None \<Rightarrow> (Inl DOCA_ERROR_DRIVER, d2)
                 | Some rmac \<Rightarrow>
                     if destroy_ret \<noteq> DOCA_SUCCESS then (Inl destroy_ret, d2)
                     else (Inr (take 6 rmac), d2)))"

text \<open>\<^verbatim>\<open>min + rand() % (max - min + 1)\<close> on C integers; a zero modulus is undefined.\<close>

definition random_in_range :: "int \<Rightarrow> int \<Rightarrow> int \<Rightarrow> int outcome" where
  "random_in_range lo hi r =
    (let n = hi - lo + 1
     in if n = 0 then Misuse else Ret (lo + sgn r * (\<bar>r\<bar> mod \<bar>n\<bar>)))"

section \<open>The transitions of a queue pair\<close>

type_synonym 'd qp_result = "(doca_error \<times> qp_open \<times> 'd) outcome"

text \<open>The tail every transition shares: send the command, and record the state on success.\<close>

definition send_cmd :: "'d driver \<Rightarrow> devx_buf \<Rightarrow> (qp_open \<Rightarrow> qp_open) \<Rightarrow> qp_open \<Rightarrow> 'd \<Rightarrow> 'd qp_result" where
  "send_cmd drv cmd record_state qp d =
    (case drv_obj_modify drv (m_qp_obj qp) cmd d of (ret, d') \<Rightarrow>
       if ret \<noteq> DOCA_SUCCESS then Ret (ret, qp, d')
       else Ret (DOCA_SUCCESS, record_state qp, d'))"

definition log2_u8 :: "u8 \<Rightarrow> u32" where
  "log2_u8 x = (if x = 0 then 0 else of_nat (floor_log2 (unat x)))"

definition rst2init_cmd :: "qp_open \<Rightarrow> qp_attr_open \<Rightarrow> u32 \<Rightarrow> devx_buf" where
  "rst2init_cmd qp a attr_mask =
    (let rwe = qa_allow_remote_write a = 1;
         rre = has attr_mask ATTR_ALLOW_REMOTE_READ \<and> qa_allow_remote_read a = 1;
         am = has attr_mask ATTR_ATOMIC_MODE \<and> qa_atomic_mode a \<noteq> QP_ATOMIC_MODE_NONE;
         p = devx_set cmd_opcode 0x502 devx_zero;
         p = devx_set cmd_qpn (m_qp_num qp) p;
         p = devx_set path_vhca_port_num (ucast (qa_port_num a)) p;
         p = devx_set qpc_pm_state 3 p;
         p = devx_set qpc_counter_set_id (qa_counter_set_id a) p;
         p = devx_set path_pkey_index (ucast (qa_pkey_index a)) p;
         p = set_if rwe qpc_rwe 1 p;
         p = set_if rre qpc_rre 1 p;
         p = set_if rwe qpc_rwe 1 p;
         p = set_if am qpc_rae 1 p;
         p = set_if am qpc_atomic_mode (qa_atomic_mode a) p
     in p)"

definition rst2init :: "'d driver \<Rightarrow> qp_attr_open \<Rightarrow> u32 \<Rightarrow> qp_open \<Rightarrow> 'd \<Rightarrow> 'd qp_result" where
  "rst2init drv a attr_mask qp d =
    (if \<not> is_rst2init_attrs_valid attr_mask (m_qp_type qp) then Ret (DOCA_ERROR_INVALID_VALUE, qp, d)
     else send_cmd drv (rst2init_cmd qp a attr_mask)
            (\<lambda>qp. qp\<lparr>m_current_state := QP_STATE_INIT\<rparr>) qp d)"

definition init2init_cmd :: "qp_open \<Rightarrow> qp_attr_open \<Rightarrow> u32 \<Rightarrow> devx_buf" where
  "init2init_cmd qp a attr_mask =
    (let am = has attr_mask ATTR_ATOMIC_MODE \<and> qa_atomic_mode a \<noteq> QP_ATOMIC_MODE_NONE;
         p = devx_set cmd_opcode 0x50e devx_zero;
         p = devx_set cmd_qpn (m_qp_num qp) p;
         p = devx_set path_vhca_port_num (ucast (qa_port_num a)) p;
         p = devx_set path_pkey_index (ucast (qa_pkey_index a)) p;
         p = set_if (qa_allow_remote_write a = 1) qpc_rwe 1 p;
         p = set_if (has attr_mask ATTR_ALLOW_REMOTE_READ \<and> qa_allow_remote_read a = 1) qpc_rre 1 p;
         p = set_if am qpc_rae 1 p;
         p = set_if am qpc_atomic_mode (qa_atomic_mode a) p;
         p = devx_set cmd_opt_param_mask (legal_mlx5_qp_opt_param_mask attr_mask INIT2INIT) p
     in p)"

definition init2init :: "'d driver \<Rightarrow> qp_attr_open \<Rightarrow> u32 \<Rightarrow> qp_open \<Rightarrow> 'd \<Rightarrow> 'd qp_result" where
  "init2init drv a attr_mask qp d =
    (if \<not> is_init2init_attrs_valid attr_mask (m_qp_type qp) then Ret (DOCA_ERROR_INVALID_VALUE, qp, d)
     else send_cmd drv (init2init_cmd qp a attr_mask)
            (\<lambda>qp. qp\<lparr>m_current_state := QP_STATE_INIT\<rparr>) qp d)"

text \<open>
  The command of \<open>init2rtr\<close>, given the values that the earlier and fallible steps produced:
  the MTU code, the remote MAC for RoCE addresses, and the UDP source port for RoCE v2.  A
  block copy that the code skips is a copy of no bytes.
\<close>

definition init2rtr_cmd :: "qp_open \<Rightarrow> qp_attr_open \<Rightarrow> u32 \<Rightarrow> u32 \<Rightarrow> u8 list option \<Rightarrow> u16 option \<Rightarrow> devx_buf" where
  "init2rtr_cmd qp a attr_mask prm_mtu mac sport =
    (let ah = qa_ah_attr a;
         ib = (ah_addr_type ah = ADDR_TYPE_IB_GRH \<or> ah_addr_type ah = ADDR_TYPE_IB_NO_GRH);
         grh = (ah_addr_type ah \<noteq> ADDR_TYPE_IB_NO_GRH);
         am = has attr_mask ATTR_ATOMIC_MODE \<and> qa_atomic_mode a \<noteq> QP_ATOMIC_MODE_NONE;
         p = devx_set cmd_opcode 0x503 devx_zero;
         p = devx_set cmd_qpn (m_qp_num qp) p;
         p = devx_set qpc_next_rcv_psn (qa_rq_psn a) p;
         p = devx_set qpc_remote_qpn (qa_dest_qp_num a) p;
         p = devx_set qpc_log_msg_max 30 p;
         p = devx_set qpc_mtu prm_mtu p;
         p = set_if (has attr_mask ATTR_MIN_RNR_TIMER) qpc_min_rnr_nak (ucast (qa_min_rnr_timer a)) p;
         p = set_if ib path_tclass (ucast (ah_traffic_class ah)) p;
         p = set_if ib path_rlid (ah_dlid ah) p;
         p = set_if ib path_sl (ucast (ah_sl ah)) p;
         p = devx_set path_stat_rate (ucast (ah_static_rate ah)) p;
         p = devx_write_bytes (fld_off path_rgid_rip) (if grh then ah_gid ah else []) p;
         p = set_if grh path_hop_limit (ucast (ah_hop_limit ah)) p;
         p = set_if grh path_src_addr_index (ucast (ah_sgid_index ah)) p;
         p = devx_write_bytes (fld_off path_rmac_47_32) (case mac of None \<Rightarrow> [] | Some m \<Rightarrow> take 2 m) p;
         p = devx_write_bytes (fld_off path_rmac_31_0) (case mac of None \<Rightarrow> [] | Some m \<Rightarrow> drop 2 m) p;
         p = set_if (ah_addr_type ah = ADDR_TYPE_IB_GRH) path_grh 1 p;
         p = set_if (sport \<noteq> None) path_udp_sport (case sport of None \<Rightarrow> 0 | Some u \<Rightarrow> ucast u) p;
         p = set_if (sport \<noteq> None) path_dscp (drop_bit 2 (ucast (ah_traffic_class ah))) p;
         p = devx_set path_pkey_index (ucast (qa_pkey_index a)) p;
         p = set_if (qa_allow_remote_write a = 1) qpc_rwe 1 p;
         p = set_if (has attr_mask ATTR_ALLOW_REMOTE_READ \<and> qa_allow_remote_read a = 1) qpc_rre 1 p;
         p = set_if am qpc_rae 1 p;
         p = set_if am qpc_atomic_mode (qa_atomic_mode a) p;
         p = set_if (has attr_mask ATTR_MAX_DEST_RD_ATOMIC) qpc_log_rra_max
               (log2_u8 (qa_max_dest_rd_atomic a)) p;
         p = devx_set cmd_opt_param_mask (legal_mlx5_qp_opt_param_mask attr_mask INIT2RTR) p
     in p)"

definition init2rtr_mac :: "'d driver \<Rightarrow> qp_open \<Rightarrow> ah_attr_open \<Rightarrow> 'd \<Rightarrow> (doca_error + u8 list option) \<times> 'd" where
  "init2rtr_mac drv qp ah d =
    (if ah_addr_type ah = ADDR_TYPE_IPv4 \<or> ah_addr_type ah = ADDR_TYPE_IPv6 then
       (case resolve_remote_mac drv (m_pd qp) 1 (ah_sgid_index ah) (ah_gid ah) (ah_hop_limit ah)
               (ah_is_global ah) d of
          (Inl e, d') \<Rightarrow> (Inl e, d')
        | (Inr mac, d') \<Rightarrow> (Inr (Some mac), d'))
     else (Inr None, d))"

definition PORT_TYPE_ETH :: u8 where "PORT_TYPE_ETH = 1"
definition ROCE_VERSION_2_0 :: u8 where "ROCE_VERSION_2_0 = 2"

definition init2rtr_sport :: "'d driver \<Rightarrow> device_attr \<Rightarrow> ah_attr_open \<Rightarrow> 'd \<Rightarrow> (doca_error + u16 option) outcome" where
  "init2rtr_sport drv dev ah d =
    (if da_port_type dev = PORT_TYPE_ETH then
       (case query_roce_version drv (ah_sgid_index ah) d of
          Inl e \<Rightarrow> Ret (Inl e)
        | Inr v \<Rightarrow>
            if v \<ge> ROCE_VERSION_2_0 then
              (case random_in_range (uint (da_min_udp_sport dev)) (uint (da_max_udp_sport dev))
                      (drv_rand drv d) of
                 Misuse \<Rightarrow> Misuse
               | Ret x \<Rightarrow> Ret (Inr (Some (word_of_int x))))
            else Ret (Inr None))
     else Ret (Inr None))"

definition init2rtr :: "'d driver \<Rightarrow> qp_attr_open \<Rightarrow> u32 \<Rightarrow> qp_open \<Rightarrow> 'd \<Rightarrow> 'd qp_result" where
  "init2rtr drv a attr_mask qp d =
    (if \<not> is_init2rtr_attrs_valid attr_mask (m_qp_type qp) then Ret (DOCA_ERROR_INVALID_VALUE, qp, d)
     else if has attr_mask ATTR_AH_ATTR \<and> \<not> qa_ah_attr_enabled a then
       Ret (DOCA_ERROR_INVALID_VALUE, qp, d)
     else case convert_doca_mtu_size_to_prm_mtu_size (qa_path_mtu a) of
       Inl e \<Rightarrow> Ret (e, qp, d)
     | Inr prm_mtu \<Rightarrow>
        (case init2rtr_mac drv qp (qa_ah_attr a) d of
           (Inl e, d1) \<Rightarrow> Ret (e, qp, d1)
         | (Inr mac, d1) \<Rightarrow>
            (case m_verbs_device_attr qp of
               None \<Rightarrow> Misuse
             | Some dev \<Rightarrow>
                (case init2rtr_sport drv dev (qa_ah_attr a) d1 of
                   Misuse \<Rightarrow> Misuse
                 | Ret (Inl e) \<Rightarrow> Ret (e, qp, d1)
                 | Ret (Inr sport) \<Rightarrow>
                    send_cmd drv (init2rtr_cmd qp a attr_mask prm_mtu mac sport)
                      (\<lambda>qp. qp\<lparr>m_current_state := QP_STATE_RTR,
                              m_addr_type := ah_addr_type (qa_ah_attr a)\<rparr>) qp d1))))"

definition rtr2rts_cmd :: "qp_open \<Rightarrow> qp_attr_open \<Rightarrow> u32 \<Rightarrow> devx_buf" where
  "rtr2rts_cmd qp a attr_mask =
    (let am = has attr_mask ATTR_ATOMIC_MODE \<and> qa_atomic_mode a \<noteq> QP_ATOMIC_MODE_NONE;
         p = devx_set cmd_opcode 0x504 devx_zero;
         p = devx_set cmd_qpn (m_qp_num qp) p;
         p = devx_set qpc_next_send_psn (qa_sq_psn a) p;
         p = set_if (has attr_mask ATTR_ACK_TIMEOUT) path_ack_timeout (ucast (qa_ack_timeout a)) p;
         p = set_if (has attr_mask ATTR_RETRY_CNT) qpc_retry_count (ucast (qa_retry_cnt a)) p;
         p = set_if (has attr_mask ATTR_RNR_RETRY) qpc_rnr_retry (ucast (qa_rnr_retry a)) p;
         p = set_if (has attr_mask ATTR_MIN_RNR_TIMER) qpc_min_rnr_nak (ucast (qa_min_rnr_timer a)) p;
         p = set_if (qa_allow_remote_write a = 1) qpc_rwe 1 p;
         p = set_if am qpc_rae 1 p;
         p = set_if am qpc_atomic_mode (qa_atomic_mode a) p;
         p = set_if (has attr_mask ATTR_MAX_QP_RD_ATOMIC) qpc_log_sra_max (log2_u8 (qa_max_rd_atomic a)) p;
         p = devx_set qpc_log_ack_req_freq 0 p;
         p = devx_set cmd_opt_param_mask (legal_mlx5_qp_opt_param_mask attr_mask RTR2RTS) p
     in p)"

definition rtr2rts :: "'d driver \<Rightarrow> qp_attr_open \<Rightarrow> u32 \<Rightarrow> qp_open \<Rightarrow> 'd \<Rightarrow> 'd qp_result" where
  "rtr2rts drv a attr_mask qp d =
    (if \<not> is_rtr2rts_attrs_valid attr_mask (m_qp_type qp) then Ret (DOCA_ERROR_INVALID_VALUE, qp, d)
     else send_cmd drv (rtr2rts_cmd qp a attr_mask)
            (\<lambda>qp. qp\<lparr>m_current_state := QP_STATE_RTS\<rparr>) qp d)"

definition rts2rts_cmd :: "qp_open \<Rightarrow> qp_attr_open \<Rightarrow> u32 \<Rightarrow> bool \<Rightarrow> devx_buf" where
  "rts2rts_cmd qp a attr_mask set_dscp =
    (let am = has attr_mask ATTR_ATOMIC_MODE \<and> qa_atomic_mode a \<noteq> QP_ATOMIC_MODE_NONE;
         p = devx_set cmd_opcode 0x505 devx_zero;
         p = devx_set cmd_qpn (m_qp_num qp) p;
         p = set_if (has attr_mask ATTR_MIN_RNR_TIMER) qpc_min_rnr_nak (ucast (qa_min_rnr_timer a)) p;
         p = set_if (qa_allow_remote_write a = 1) qpc_rwe 1 p;
         p = set_if (has attr_mask ATTR_ALLOW_REMOTE_READ \<and> qa_allow_remote_read a = 1) qpc_rre 1 p;
         p = set_if am qpc_rae 1 p;
         p = set_if am qpc_atomic_mode (qa_atomic_mode a) p;
         p = set_if (has attr_mask ATTR_AH_ATTR) path_src_addr_index
               (ucast (ah_sgid_index (qa_ah_attr a))) p;
         p = set_if set_dscp path_dscp (drop_bit 2 (ucast (ah_traffic_class (qa_ah_attr a)))) p;
         p = devx_set cmd_opt_param_mask (legal_mlx5_qp_opt_param_mask attr_mask RTS2RTS) p
     in p)"

definition rts2rts :: "'d driver \<Rightarrow> qp_attr_open \<Rightarrow> u32 \<Rightarrow> qp_open \<Rightarrow> 'd \<Rightarrow> 'd qp_result" where
  "rts2rts drv a attr_mask qp d =
    (let send = \<lambda>set_dscp. send_cmd drv (rts2rts_cmd qp a attr_mask set_dscp)
            (\<lambda>qp. qp\<lparr>m_current_state := QP_STATE_RTS\<rparr>) qp d
     in
     if \<not> is_rts2rts_attrs_valid attr_mask (m_qp_type qp) then Ret (DOCA_ERROR_INVALID_VALUE, qp, d)
     else if has attr_mask ATTR_AH_ATTR \<and> \<not> qa_ah_attr_enabled a then
       Ret (DOCA_ERROR_INVALID_VALUE, qp, d)
     else if has attr_mask ATTR_AH_ATTR then
       (case m_verbs_device_attr qp of
          None \<Rightarrow> Misuse
        | Some dev \<Rightarrow>
           if da_is_rts2rts_qp_dscp_supported dev \<noteq> 0 \<and> da_port_type dev = PORT_TYPE_ETH then
             (case query_roce_version drv (ah_sgid_index (qa_ah_attr a)) d of
                Inl e \<Rightarrow> Ret (e, qp, d)
              | Inr v \<Rightarrow> send (v \<ge> ROCE_VERSION_2_0))
           else send False)
     else send False)"

definition qp2err :: "'d driver \<Rightarrow> qp_attr_open \<Rightarrow> u32 \<Rightarrow> qp_open \<Rightarrow> 'd \<Rightarrow> 'd qp_result" where
  "qp2err drv a attr_mask qp d =
    (if \<not> is_X2err_attrs_valid attr_mask then Ret (DOCA_ERROR_INVALID_VALUE, qp, d)
     else send_cmd drv (devx_set cmd_qpn (m_qp_num qp) (devx_set cmd_opcode 0x507 devx_zero))
            (\<lambda>qp. qp\<lparr>m_current_state := QP_STATE_ERR\<rparr>) qp d)"

definition qp2rst :: "'d driver \<Rightarrow> qp_attr_open \<Rightarrow> u32 \<Rightarrow> qp_open \<Rightarrow> 'd \<Rightarrow> 'd qp_result" where
  "qp2rst drv a attr_mask qp d =
    (if \<not> is_X2rst_attrs_valid attr_mask then Ret (DOCA_ERROR_INVALID_VALUE, qp, d)
     else send_cmd drv (devx_set cmd_qpn (m_qp_num qp) (devx_set cmd_opcode 0x50a devx_zero))
            (\<lambda>qp. qp\<lparr>m_current_state := QP_STATE_RST\<rparr>) qp d)"

section \<open>Modify\<close>

definition qp_dispatch :: "'d driver \<Rightarrow> qp_state \<Rightarrow> qp_state \<Rightarrow> qp_attr_open \<Rightarrow> u32 \<Rightarrow> qp_open \<Rightarrow> 'd \<Rightarrow> 'd qp_result" where
  "qp_dispatch drv current_state next_state a attr_mask qp d =
    (case next_state of
       QP_STATE_RST \<Rightarrow> qp2rst drv a attr_mask qp d
     | QP_STATE_INIT \<Rightarrow>
         if current_state = QP_STATE_RST then rst2init drv a attr_mask qp d
         else if current_state = QP_STATE_INIT then init2init drv a attr_mask qp d
         else Ret (DOCA_ERROR_INVALID_VALUE, qp, d)
     | QP_STATE_RTR \<Rightarrow>
         if current_state = QP_STATE_INIT then init2rtr drv a attr_mask qp d
         else Ret (DOCA_ERROR_INVALID_VALUE, qp, d)
     | QP_STATE_RTS \<Rightarrow>
         if current_state = QP_STATE_RTR then rtr2rts drv a attr_mask qp d
         else if current_state = QP_STATE_RTS then rts2rts drv a attr_mask qp d
         else Ret (DOCA_ERROR_INVALID_VALUE, qp, d)
     | QP_STATE_ERR \<Rightarrow> qp2err drv a attr_mask qp d
     | QP_STATE_OTHER n \<Rightarrow> Ret (DOCA_ERROR_INVALID_VALUE, qp, d))"

text \<open>The open path of the API function; the attribute object keeps its masked sequence numbers.\<close>

definition qp_modify_open :: "'d driver \<Rightarrow> u32 \<Rightarrow> qp_open \<Rightarrow> qp_attr_open \<Rightarrow> 'd
    \<Rightarrow> (doca_error \<times> qp_open \<times> qp_attr_open \<times> 'd) outcome" where
  "qp_modify_open drv attr_mask qp a d =
    (case m_verbs_device_attr qp of
       None \<Rightarrow> Misuse
     | Some dev \<Rightarrow>
        (case is_qp_attr_valid dev a attr_mask of (ok, a') \<Rightarrow>
          if \<not> ok then Ret (DOCA_ERROR_INVALID_VALUE, qp, a', d)
          else
            let current_state = (if \<not> has attr_mask ATTR_CURRENT_STATE then m_current_state qp
                                 else qa_current_state a');
                next_state = (if \<not> has attr_mask ATTR_NEXT_STATE then current_state
                              else qa_next_state a')
            in (case qp_dispatch drv current_state next_state a' attr_mask qp d of
                  Misuse \<Rightarrow> Misuse
                | Ret (e, qp', d') \<Rightarrow> Ret (e, qp', a', d'))))"

type_synonym 's verbs_qp = "('s, qp_open) handle option"
type_synonym 's verbs_qp_attr = "('s, qp_attr_open) handle option"

definition qp_modify :: "'d driver \<Rightarrow> ('s verbs_qp_attr \<Rightarrow> u32 \<Rightarrow> 's sdk_call) \<Rightarrow> u32
    \<Rightarrow> 's verbs_qp \<Rightarrow> 's verbs_qp_attr \<Rightarrow> 'd
    \<Rightarrow> (doca_error \<times> 's verbs_qp \<times> 's verbs_qp_attr \<times> 'd) outcome" where
  "qp_modify drv sdk attr_mask qph ah d =
    (case (qph, ah) of
       (None, _) \<Rightarrow> Ret (DOCA_ERROR_INVALID_VALUE, qph, ah, d)
     | (Some h, None) \<Rightarrow> Ret (DOCA_ERROR_INVALID_VALUE, qph, ah, d)
     | (Some h, Some g) \<Rightarrow>
        (let open_path = \<lambda>h. (case (h_member h, h_member g) of
             (Null, _) \<Rightarrow> Ret (DOCA_ERROR_INVALID_VALUE, Some h, ah, d)
           | (_, Null) \<Rightarrow> Ret (DOCA_ERROR_INVALID_VALUE, Some h, ah, d)
           | (SdkPtr s, _) \<Rightarrow> Misuse
           | (OpenPtr qp, SdkPtr s) \<Rightarrow> Misuse
           | (OpenPtr qp, OpenPtr a) \<Rightarrow>
               (case qp_modify_open drv attr_mask qp a d of
                  Misuse \<Rightarrow> Misuse
                | Ret (e, qp', a', d') \<Rightarrow>
                    Ret (e, Some (h\<lparr>h_member := OpenPtr qp'\<rparr>), Some (g\<lparr>h_member := OpenPtr a'\<rparr>), d')))
         in if h_type h = LIB_TYPE_SDK then
              (case sdk_obj (h_member h) of
                 Misuse \<Rightarrow> Misuse
               | Ret p \<Rightarrow>
                   (case sdk ah attr_mask p of (err, p') \<Rightarrow>
                      let h' = h\<lparr>h_member := sdk_ptr p'\<rparr> in
                      (case err of
                         DOCA_SDK_WRAPPER_SUCCESS \<Rightarrow> Ret (DOCA_SUCCESS, Some h', ah, d)
                       | DOCA_SDK_WRAPPER_API_ERROR \<Rightarrow> Ret (DOCA_ERROR_UNEXPECTED, Some h', ah, d)
                       | _ \<Rightarrow> open_path h')))
            else open_path h))"

section \<open>Query\<close>

definition shl1_u8 :: "u32 \<Rightarrow> u8" where
  "shl1_u8 k = ucast (push_bit (unat k) (1::u32))"

definition query_ah :: "qp_open \<Rightarrow> devx_buf \<Rightarrow> ah_attr_open \<Rightarrow> ah_attr_open" where
  "query_ah qp out ah = ah\<lparr>
     ah_addr_type := m_addr_type qp,
     ah_dlid := devx_get path_rlid out,
     ah_sl := ucast (devx_get path_sl out),
     ah_sgid_index := ucast (devx_get path_src_addr_index out),
     ah_static_rate := ucast (devx_get path_stat_rate out),
     ah_hop_limit := ucast (devx_get path_hop_limit out),
     ah_traffic_class := ucast (devx_get path_tclass out),
     ah_gid := map (\<lambda>i. ucast (devx_get (Field (fld_off path_rgid_rip + 8 * i) 8) out)) [0..<16]\<rparr>"

definition query_attr :: "qp_open \<Rightarrow> devx_buf \<Rightarrow> qp_state \<Rightarrow> mtu_size \<Rightarrow> qp_attr_open \<Rightarrow> qp_attr_open" where
  "query_attr qp out st mtu a =
    (let a = a\<lparr>qa_current_state := st, qa_next_state := st, qa_path_mtu := mtu,
       qa_rq_psn := devx_get qpc_next_rcv_psn out,
       qa_sq_psn := devx_get qpc_next_send_psn out,
       qa_dest_qp_num := devx_get qpc_remote_qpn out,
       qa_pkey_index := ucast (devx_get path_pkey_index out),
       qa_port_num := ucast (devx_get path_vhca_port_num out),
       qa_ack_timeout := ucast (devx_get path_ack_timeout out),
       qa_counter_set_id := devx_get qpc_counter_set_id out,
       qa_retry_cnt := ucast (devx_get qpc_retry_count out),
       qa_rnr_retry := ucast (devx_get qpc_rnr_retry out),
       qa_min_rnr_timer := ucast (devx_get qpc_min_rnr_nak out),
       qa_allow_remote_write := devx_get qpc_rwe out,
       qa_allow_remote_read := devx_get qpc_rre out,
       qa_max_rd_atomic := shl1_u8 (devx_get qpc_log_sra_max out),
       qa_max_dest_rd_atomic := shl1_u8 (devx_get qpc_log_rra_max out)\<rparr>
     in if qa_ah_attr_enabled a then a\<lparr>qa_ah_attr := query_ah qp out (qa_ah_attr a)\<rparr> else a)"

definition query_init_attr :: "qp_open \<Rightarrow> devx_buf \<Rightarrow> qp_init_attr_open \<Rightarrow> qp_init_attr_open" where
  "query_init_attr qp out ia = ia\<lparr>
     ia_send_cq := ia_send_cq (m_init_attr qp),
     ia_receive_cq := ia_receive_cq (m_init_attr qp),
     ia_sq_sig_all := ia_sq_sig_all (m_init_attr qp),
     ia_qp_context := ia_qp_context (m_init_attr qp),
     ia_pd := m_pd qp,
     ia_sq_wr := m_sq_size_wr qp,
     ia_rq_wr := m_rq_size qp,
     ia_receive_max_sges := m_rcv_max_sges qp,
     ia_user_index := devx_get qpc_user_index out,
     ia_qp_type := m_qp_type qp,
     ia_send_max_sges := m_send_max_sges qp,
     ia_max_inline_data := ia_max_inline_data (m_init_attr qp),
     ia_external_umem := ia_external_umem (m_init_attr qp),
     ia_external_umem_offset := ia_external_umem_offset (m_init_attr qp),
     ia_external_uar := ia_external_uar (m_init_attr qp),
     ia_core_direct_master := ia_core_direct_master (m_init_attr qp),
     ia_send_dbr_mode := ia_send_dbr_mode (m_init_attr qp)\<rparr>"

text \<open>
  On a conversion failure the attribute object keeps what was stored before: nothing for an
  unknown state, both state members for an unknown MTU.
\<close>

definition query_qp :: "'d driver \<Rightarrow> qp_open \<Rightarrow> qp_attr_open \<Rightarrow> qp_init_attr_open \<Rightarrow> 'd
    \<Rightarrow> doca_error \<times> qp_attr_open \<times> qp_init_attr_open" where
  "query_qp drv qp a ia d =
    (let cmd = devx_set cmd_qpn (m_qp_num qp) (devx_set cmd_opcode 0x50b devx_zero)
     in case drv_obj_query drv (m_qp_obj qp) cmd d of (ret, out) \<Rightarrow>
       if ret \<noteq> DOCA_SUCCESS then (DOCA_ERROR_DRIVER, a, ia)
       else case convert_prm_qp_state_to_doca_verbs_qp_state (devx_get qpc_state out) of
         Inl e \<Rightarrow> (DOCA_ERROR_UNEXPECTED, a, ia)
       | Inr st \<Rightarrow>
          (case convert_prm_mtu_size_to_doca_verbs_mtu_size (devx_get qpc_mtu out) of
             Inl e \<Rightarrow>
               (DOCA_ERROR_UNEXPECTED, a\<lparr>qa_current_state := st, qa_next_state := st\<rparr>, ia)
           | Inr mtu \<Rightarrow> (DOCA_SUCCESS, query_attr qp out st mtu a, query_init_attr qp out ia)))"

end
