(* ===== verification/QpProofs.thy ===== *)
theory QpProofs
  imports VerbsQp "HOL-Library.Sublist"
begin

text \<open>
  The correctness of the QP state machine of \<open>VerbsQp\<close>: which state changes a call can make,
  agreement of the recorded state with the device, the content of the commands, and the round
  trip of the attributes through the device.
\<close>

section \<open>The legal state changes\<close>

inductive qp_trans :: "qp_state \<Rightarrow> qp_state \<Rightarrow> bool" where
  to_rst: "qp_trans s QP_STATE_RST"
| to_err: "qp_trans s QP_STATE_ERR"
| rst_init: "qp_trans QP_STATE_RST QP_STATE_INIT"
| init_init: "qp_trans QP_STATE_INIT QP_STATE_INIT"
| init_rtr: "qp_trans QP_STATE_INIT QP_STATE_RTR"
| rtr_rts: "qp_trans QP_STATE_RTR QP_STATE_RTS"
| rts_rts: "qp_trans QP_STATE_RTS QP_STATE_RTS"

code_pred qp_trans .

inductive_cases into_rts: "qp_trans s QP_STATE_RTS"
inductive_cases into_rtr: "qp_trans s QP_STATE_RTR"
inductive_cases into_init: "qp_trans s QP_STATE_INIT"
inductive_simps into_other: "qp_trans s (QP_STATE_OTHER n)"

section \<open>What a transition does\<close>

text \<open>
  \<open>moves_to\<close>: an unsuccessful result leaves the QP as it was; a successful one records the new
  state (and, into RTR, the address type) and nothing else.
\<close>

definition moves_to :: "qp_state \<Rightarrow> qp_attr_open \<Rightarrow> qp_open \<Rightarrow> 'd qp_result \<Rightarrow> bool" where
  "moves_to ns a qp r \<longleftrightarrow>
    (\<forall>e qp' d'. r = Ret (e, qp', d') \<longrightarrow>
      qp' = (if e = DOCA_SUCCESS
             then qp\<lparr>m_current_state := ns,
                     m_addr_type := (if ns = QP_STATE_RTR then ah_addr_type (qa_ah_attr a)
                                     else m_addr_type qp)\<rparr>
             else qp))"

named_theorems qp_moves \<open>the state change of every transition\<close>

lemma qp_update_same: "qp\<lparr>m_current_state := s, m_addr_type := m_addr_type qp\<rparr> = qp\<lparr>m_current_state := s\<rparr>"
  by simp

lemma send_cmd_moves:
  assumes "f qp = qp\<lparr>m_current_state := ns,
      m_addr_type := (if ns = QP_STATE_RTR then ah_addr_type (qa_ah_attr a) else m_addr_type qp)\<rparr>"
  shows "moves_to ns a qp (send_cmd drv cmd f qp d)"
  using assms by (auto simp: moves_to_def send_cmd_def split: prod.splits if_splits)

lemma moves_to_fail [simp]: "e \<noteq> DOCA_SUCCESS \<Longrightarrow> moves_to ns a qp (Ret (e, qp, d))"
  and moves_to_misuse [simp]: "moves_to ns a qp Misuse"
  by (simp_all add: moves_to_def)

lemma rst2init_moves [qp_moves]: "moves_to QP_STATE_INIT a qp (rst2init drv a m qp d)"
  by (simp add: rst2init_def send_cmd_moves)

lemma init2init_moves [qp_moves]: "moves_to QP_STATE_INIT a qp (init2init drv a m qp d)"
  by (simp add: init2init_def send_cmd_moves)

lemma rtr2rts_moves [qp_moves]: "moves_to QP_STATE_RTS a qp (rtr2rts drv a m qp d)"
  by (simp add: rtr2rts_def send_cmd_moves)

lemma qp2err_moves [qp_moves]: "moves_to QP_STATE_ERR a qp (qp2err drv a m qp d)"
  by (simp add: qp2err_def send_cmd_moves)

lemma qp2rst_moves [qp_moves]: "moves_to QP_STATE_RST a qp (qp2rst drv a m qp d)"
  by (simp add: qp2rst_def send_cmd_moves)

lemma query_roce_version_error: "query_roce_version drv i d = Inl e \<Longrightarrow> e \<noteq> DOCA_SUCCESS"
  by (auto simp: query_roce_version_def split: prod.splits if_splits)

lemma resolve_remote_mac_error:
  "resolve_remote_mac drv pd pn gi rg hl ig d = (Inl e, d') \<Longrightarrow> e \<noteq> DOCA_SUCCESS"
  by (auto simp: resolve_remote_mac_def split: prod.splits if_splits option.splits)

lemma init2rtr_mac_error: "init2rtr_mac drv qp ah d = (Inl e, d') \<Longrightarrow> e \<noteq> DOCA_SUCCESS"
  by (auto simp: init2rtr_mac_def resolve_remote_mac_error split: if_splits prod.splits sum.splits)

lemma init2rtr_sport_error: "init2rtr_sport drv dev ah d = Ret (Inl e) \<Longrightarrow> e \<noteq> DOCA_SUCCESS"
  by (auto simp: init2rtr_sport_def query_roce_version_error
      split: if_splits sum.splits outcome.splits)

lemma convert_mtu_error: "convert_doca_mtu_size_to_prm_mtu_size m = Inl e \<Longrightarrow> e \<noteq> DOCA_SUCCESS"
  by (cases m) auto

lemma rts2rts_moves [qp_moves]: "moves_to QP_STATE_RTS a qp (rts2rts drv a m qp d)"
  unfolding rts2rts_def Let_def
  by (auto simp: query_roce_version_error intro!: send_cmd_moves split: option.split sum.split)

lemma init2rtr_moves [qp_moves]: "moves_to QP_STATE_RTR a qp (init2rtr drv a m qp d)"
  unfolding init2rtr_def
  by (auto dest: convert_mtu_error init2rtr_mac_error init2rtr_sport_error intro!: send_cmd_moves
      split: sum.split prod.split option.split outcome.split)

lemma qp_dispatch_moves:
  assumes "qp_dispatch drv cs ns a m qp d = Ret (e, qp', d')"
  shows "e \<noteq> DOCA_SUCCESS \<Longrightarrow> qp' = qp"
    and "e = DOCA_SUCCESS \<Longrightarrow> m_current_state qp' = ns \<and> qp_trans cs ns"
proof -
  have "moves_to ns a qp (qp_dispatch drv cs ns a m qp d)"
    by (cases ns) (simp_all add: qp_dispatch_def qp_moves)
  then have eq: "qp' = (if e = DOCA_SUCCESS
             then qp\<lparr>m_current_state := ns,
                     m_addr_type := (if ns = QP_STATE_RTR then ah_addr_type (qa_ah_attr a)
                                     else m_addr_type qp)\<rparr>
             else qp)"
    using assms unfolding moves_to_def by blast
  show "e \<noteq> DOCA_SUCCESS \<Longrightarrow> qp' = qp" using eq by simp
  assume s: "e = DOCA_SUCCESS"
  have "qp_trans cs ns"
    using assms s by (cases ns) (auto simp: qp_dispatch_def intro: qp_trans.intros split: if_splits)
  then show "m_current_state qp' = ns \<and> qp_trans cs ns" using eq s by simp
qed

section \<open>Attribute validation\<close>

lemma psn_masked: "is_qp_attr_queue_psn_valid psn = psn AND mask 24"
proof -
  have m: "(0xffffff :: u32) = mask 24" by (simp add: mask_eq_decr_exp)
  show ?thesis
  proof (cases "psn AND NOT (mask 24) = 0")
    case True
    have "psn = (psn AND mask 24) OR (psn AND NOT (mask 24))"
      by (rule bit_word_eqI) (auto simp: bit_or_iff bit_and_iff bit_not_iff)
    then show ?thesis using True unfolding is_qp_attr_queue_psn_valid_def m by simp
  qed (simp add: is_qp_attr_queue_psn_valid_def m)
qed

text \<open>The verdict as one conjunction, and the attribute object on the accepting path.\<close>

definition attr_values_ok :: "device_attr \<Rightarrow> qp_attr_open \<Rightarrow> u32 \<Rightarrow> bool" where
  "attr_values_ok dev a m \<longleftrightarrow>
    (has m ATTR_CURRENT_STATE \<longrightarrow> is_qp_attr_state_valid (qa_current_state a)) \<and>
    (has m ATTR_NEXT_STATE \<longrightarrow> is_qp_attr_state_valid (qa_next_state a)) \<and>
    (has m ATTR_PATH_MTU \<longrightarrow> is_qp_attr_path_mtu_valid (qa_path_mtu a)) \<and>
    (has m ATTR_AH_ATTR \<longrightarrow> is_qp_attr_ah_add_type_valid (ah_addr_type (qa_ah_attr a)) \<and>
       is_qp_attr_ah_sgid_index_valid dev (ah_sgid_index (qa_ah_attr a))) \<and>
    (has m ATTR_PKEY_INDEX \<longrightarrow> is_qp_attr_pkey_index_valid dev (qa_pkey_index a)) \<and>
    (has m ATTR_PORT_NUM \<longrightarrow> is_qp_attr_port_num_valid dev (qa_port_num a))"

lemma mask_psns_keeps [simp]:
  "qa_current_state (mask_psns a m) = qa_current_state a"
  "qa_next_state (mask_psns a m) = qa_next_state a"
  "qa_path_mtu (mask_psns a m) = qa_path_mtu a"
  "qa_ah_attr (mask_psns a m) = qa_ah_attr a"
  "qa_ah_attr_enabled (mask_psns a m) = qa_ah_attr_enabled a"
  "qa_pkey_index (mask_psns a m) = qa_pkey_index a"
  "qa_port_num (mask_psns a m) = qa_port_num a"
  by (simp_all add: mask_psns_def Let_def)

lemma is_qp_attr_valid_iff: "fst (is_qp_attr_valid dev a m) \<longleftrightarrow> attr_values_ok dev a m"
  by (simp add: is_qp_attr_valid_def attr_values_ok_def Let_def)

lemma is_qp_attr_valid_attr:
  assumes "attr_values_ok dev a m"
  shows "is_qp_attr_valid dev a m = (True, mask_psns a m)"
proof -
  have "fst (is_qp_attr_valid dev a m)" using assms by (simp add: is_qp_attr_valid_iff)
  then show ?thesis by (auto simp: is_qp_attr_valid_def Let_def split: if_splits)
qed

lemma is_qp_attr_valid_states:
  "is_qp_attr_valid dev a m = (ok, a') \<Longrightarrow>
    qa_current_state a' = qa_current_state a \<and> qa_next_state a' = qa_next_state a"
  by (auto simp: is_qp_attr_valid_def Let_def split: if_splits)

text \<open>The state a call asks for.\<close>

definition requested_state :: "qp_open \<Rightarrow> qp_attr_open \<Rightarrow> u32 \<Rightarrow> qp_state" where
  "requested_state qp a m =
    (if has m ATTR_NEXT_STATE then qa_next_state a
     else if has m ATTR_CURRENT_STATE then qa_current_state a else m_current_state qp)"

definition declared_state :: "qp_open \<Rightarrow> qp_attr_open \<Rightarrow> u32 \<Rightarrow> qp_state" where
  "declared_state qp a m = (if has m ATTR_CURRENT_STATE then qa_current_state a else m_current_state qp)"

lemma qp_modify_open_cases:
  assumes "qp_modify_open drv m qp a d = Ret (e, qp', a', d')"
  obtains (invalid) dev where "m_verbs_device_attr qp = Some dev" "\<not> attr_values_ok dev a m"
      "e = DOCA_ERROR_INVALID_VALUE" "qp' = qp" "d' = d"
    | (dispatched) dev where "m_verbs_device_attr qp = Some dev" "attr_values_ok dev a m"
      "a' = mask_psns a m"
      "qp_dispatch drv (declared_state qp a m) (requested_state qp a m) (mask_psns a m) m qp d
        = Ret (e, qp', d')"
proof -
  obtain dev where dev: "m_verbs_device_attr qp = Some dev"
    using assms by (auto simp: qp_modify_open_def split: option.splits)
  show thesis
  proof (cases "attr_values_ok dev a m")
    case False
    then show thesis
      using assms dev is_qp_attr_valid_iff [of dev a m]
      by (intro invalid) (auto simp: qp_modify_open_def split: prod.splits)
  next
    case True
    show thesis
      using assms dev True is_qp_attr_valid_attr [OF True]
      by (intro dispatched)
        (auto simp: qp_modify_open_def Let_def requested_state_def declared_state_def
          split: outcome.splits if_splits)
  qed
qed

lemma qp_modify_open_state:
  assumes "qp_modify_open drv m qp a d = Ret (e, qp', a', d')"
  shows "if e = DOCA_SUCCESS
    then m_current_state qp' = requested_state qp a m \<and>
         qp_trans (declared_state qp a m) (requested_state qp a m)
    else qp' = qp"
  using assms
proof (cases rule: qp_modify_open_cases)
  case (dispatched dev)
  then show ?thesis using qp_dispatch_moves by (metis (no_types, lifting))
qed simp

lemma qp_modify_open_device:
  assumes "qp_modify_open drv m qp a d = Ret (e, qp', a', d')"
  shows "m_verbs_device_attr qp' = m_verbs_device_attr qp"
proof -
  have "moves_to ns a qp (qp_dispatch drv cs ns a m qp d)" for cs ns a
    by (cases ns) (simp_all add: qp_dispatch_def qp_moves)
  then have "m_verbs_device_attr qp' = m_verbs_device_attr qp"
    if "qp_dispatch drv cs ns a m qp d = Ret (e, qp', d')" for cs ns a
    using that unfolding moves_to_def by fastforce
  with assms show ?thesis by (cases rule: qp_modify_open_cases) auto
qed

section \<open>Reading fields back out of a command\<close>

named_theorems devx_eval \<open>evaluation of a field of a command buffer\<close>

lemma devx_get_if_same [devx_eval]:
  "devx_wf f \<Longrightarrow> devx_get f (set_if b f v p) = (if b then take_bit (fld_sz f) v else devx_get f p)"
  by (simp add: set_if_def devx_get_set_same)

lemma devx_get_if_other [devx_eval]:
  "devx_wf f \<Longrightarrow> devx_wf g \<Longrightarrow> devx_disjoint f g \<Longrightarrow> devx_get g (set_if b f v p) = devx_get g p"
  by (simp add: set_if_def devx_get_set_other)

lemma devx_get_write_other [devx_eval]:
  assumes "devx_wf g" "off mod 8 = 0"
    and "off + 8 * length bs \<le> fld_off g \<or> fld_off g + fld_sz g \<le> off"
  shows "devx_get g (devx_write_bytes off bs p) = devx_get g p"
  using assms
proof (induction bs arbitrary: off p)
  case (Cons b bs)
  have wf: "devx_wf (Field off 8)"
    using Cons.prems(2) unfolding devx_wf_def by (simp, presburger)
  have "devx_get g (devx_write_bytes (off + 8) bs (devx_set (Field off 8) (ucast b) p)) =
      devx_get g (devx_set (Field off 8) (ucast b) p)"
    by (rule Cons.IH) (use Cons.prems in auto)
  also have "\<dots> = devx_get g p"
    by (rule devx_get_set_other [OF wf Cons.prems(1)])
      (use Cons.prems(3) in \<open>auto simp: devx_disjoint_def\<close>)
  finally show ?case by simp
qed simp

lemmas devx_get_set = devx_get_set_same devx_get_set_other
lemmas devx_fields = field_defs devx_wf_def devx_disjoint_def devx_get_set devx_eval

lemma opcode_rst2init: "devx_get cmd_opcode (rst2init_cmd qp a m) = 0x502"
  by (simp add: rst2init_cmd_def Let_def devx_fields)

lemma opcode_init2init: "devx_get cmd_opcode (init2init_cmd qp a m) = 0x50e"
  by (simp add: init2init_cmd_def Let_def devx_fields)

lemma opcode_rtr2rts: "devx_get cmd_opcode (rtr2rts_cmd qp a m) = 0x504"
  by (simp add: rtr2rts_cmd_def Let_def devx_fields)

lemma opcode_rts2rts: "devx_get cmd_opcode (rts2rts_cmd qp a m b) = 0x505"
  by (simp add: rts2rts_cmd_def Let_def devx_fields)

lemma opcode_init2rtr: "devx_get cmd_opcode (init2rtr_cmd qp a m mtu mac sport) = 0x503"
  by (cases mac) (simp_all add: init2rtr_cmd_def Let_def devx_fields)

lemma opcode_qpn: "devx_get cmd_opcode (devx_set cmd_qpn n (devx_set cmd_opcode v devx_zero)) = take_bit 16 v"
  by (simp add: devx_fields)

section \<open>Agreement with the device\<close>

text \<open>
  What the firmware does with a modify command, by its opcode: the state it must be in and the
  state it goes to.  \<open>device_contract\<close> says that the DevX calls behave accordingly and that the
  address-handle calls leave the state of the QP alone.
\<close>

definition fw_next :: "u32 \<Rightarrow> qp_state \<Rightarrow> qp_state option" where
  "fw_next opcode s =
    (if opcode = 0x50a then Some QP_STATE_RST
     else if opcode = 0x507 then Some QP_STATE_ERR
     else if opcode = 0x502 \<and> s = QP_STATE_RST then Some QP_STATE_INIT
     else if opcode = 0x50e \<and> s = QP_STATE_INIT then Some QP_STATE_INIT
     else if opcode = 0x503 \<and> s = QP_STATE_INIT then Some QP_STATE_RTR
     else if opcode = 0x504 \<and> s = QP_STATE_RTR then Some QP_STATE_RTS
     else if opcode = 0x505 \<and> s = QP_STATE_RTS then Some QP_STATE_RTS
     else None)"

definition device_contract :: "'d driver \<Rightarrow> ('d \<Rightarrow> qp_state) \<Rightarrow> bool" where
  "device_contract drv st \<longleftrightarrow>
    (\<forall>ob cmd d. case drv_obj_modify drv ob cmd d of (e, d') \<Rightarrow>
       if e = DOCA_SUCCESS then fw_next (devx_get cmd_opcode cmd) (st d) = Some (st d')
       else st d' = st d) \<and>
    (\<forall>pd at d. st (snd (snd (drv_create_ah drv pd at d))) = st d) \<and>
    (\<forall>ah d. st (snd (drv_destroy_ah drv ah d)) = st d)"

text \<open>\<open>stays_synced\<close>: a result relates the recorded state to the device state as the input did.\<close>

definition follows :: "('d \<Rightarrow> qp_state) \<Rightarrow> 'd \<Rightarrow> qp_state \<Rightarrow> qp_state \<Rightarrow> 'd qp_result \<Rightarrow> bool" where
  "follows st d cs ns r \<longleftrightarrow>
    (\<forall>e qp' d'. r = Ret (e, qp', d') \<longrightarrow>
      (if e = DOCA_SUCCESS then st d' = ns \<and> qp_trans (st d) ns else st d' = st d))"

named_theorems qp_follows \<open>the device state change of every transition\<close>

lemma follows_fail [simp]: "e \<noteq> DOCA_SUCCESS \<Longrightarrow> st d' = st d \<Longrightarrow> follows st d cs ns (Ret (e, qp, d'))"
  and follows_misuse [simp]: "follows st d cs ns Misuse"
  by (simp_all add: follows_def)

lemma fw_next_trans: "fw_next opcode s = Some s' \<Longrightarrow> qp_trans s s'"
  by (auto simp: fw_next_def intro: qp_trans.intros split: if_splits)

lemma send_cmd_follows:
  assumes "device_contract drv st" "st d1 = st d"
    and "\<And>s s'. fw_next (devx_get cmd_opcode cmd) s = Some s' \<Longrightarrow> s' = ns"
  shows "follows st d cs ns (send_cmd drv cmd f qp d1)"
proof -
  obtain e d' where m: "drv_obj_modify drv (m_qp_obj qp) cmd d1 = (e, d')" by fastforce
  have "case drv_obj_modify drv (m_qp_obj qp) cmd d1 of (e, d') \<Rightarrow>
       if e = DOCA_SUCCESS then fw_next (devx_get cmd_opcode cmd) (st d1) = Some (st d')
       else st d' = st d1"
    by (rule assms(1) [unfolded device_contract_def, THEN conjunct1, THEN spec [of _ "m_qp_obj qp"],
          THEN spec [of _ cmd], THEN spec [of _ d1]])
  then have c: "if e = DOCA_SUCCESS then fw_next (devx_get cmd_opcode cmd) (st d1) = Some (st d')
      else st d' = st d1"
    by (simp add: m)
  show ?thesis
  proof (cases "e = DOCA_SUCCESS")
    case True
    then have "st d' = ns" "qp_trans (st d1) (st d')" using c assms(3) fw_next_trans by auto
    then show ?thesis using m True assms(2) by (simp add: send_cmd_def follows_def)
  qed (use m c assms(2) in \<open>simp add: send_cmd_def follows_def\<close>)
qed

lemma fw_next_opcode:
  "fw_next 0x502 s = Some s' \<Longrightarrow> s' = QP_STATE_INIT"
  "fw_next 0x50e s = Some s' \<Longrightarrow> s' = QP_STATE_INIT"
  "fw_next 0x503 s = Some s' \<Longrightarrow> s' = QP_STATE_RTR"
  "fw_next 0x504 s = Some s' \<Longrightarrow> s' = QP_STATE_RTS"
  "fw_next 0x505 s = Some s' \<Longrightarrow> s' = QP_STATE_RTS"
  "fw_next 0x507 s = Some s' \<Longrightarrow> s' = QP_STATE_ERR"
  "fw_next 0x50a s = Some s' \<Longrightarrow> s' = QP_STATE_RST"
  by (auto simp: fw_next_def split: if_splits)

lemma rst2init_follows [qp_follows]:
  "device_contract drv st \<Longrightarrow> follows st d cs QP_STATE_INIT (rst2init drv a m qp d)"
  by (auto simp: rst2init_def opcode_rst2init dest: fw_next_opcode intro!: send_cmd_follows)

lemma init2init_follows [qp_follows]:
  "device_contract drv st \<Longrightarrow> follows st d cs QP_STATE_INIT (init2init drv a m qp d)"
  by (auto simp: init2init_def opcode_init2init dest: fw_next_opcode intro!: send_cmd_follows)

lemma rtr2rts_follows [qp_follows]:
  "device_contract drv st \<Longrightarrow> follows st d cs QP_STATE_RTS (rtr2rts drv a m qp d)"
  by (auto simp: rtr2rts_def opcode_rtr2rts dest: fw_next_opcode intro!: send_cmd_follows)

lemma qp2err_follows [qp_follows]:
  "device_contract drv st \<Longrightarrow> follows st d cs QP_STATE_ERR (qp2err drv a m qp d)"
  by (auto simp: qp2err_def opcode_qpn dest: fw_next_opcode intro!: send_cmd_follows)

lemma qp2rst_follows [qp_follows]:
  "device_contract drv st \<Longrightarrow> follows st d cs QP_STATE_RST (qp2rst drv a m qp d)"
  by (auto simp: qp2rst_def opcode_qpn dest: fw_next_opcode intro!: send_cmd_follows)

lemma rts2rts_follows [qp_follows]:
  "device_contract drv st \<Longrightarrow> follows st d cs QP_STATE_RTS (rts2rts drv a m qp d)"
  unfolding rts2rts_def Let_def
  by (auto simp: opcode_rts2rts query_roce_version_error dest: fw_next_opcode
      intro!: send_cmd_follows split: option.split sum.split)

lemma resolve_remote_mac_state:
  assumes "device_contract drv st"
  shows "st (snd (resolve_remote_mac drv pd pn gi rg hl ig d)) = st d"
proof -
  have "st (snd (drv_destroy_ah drv ah (snd (snd (drv_create_ah drv pd at d))))) = st d"
    "st (snd (snd (drv_create_ah drv pd at d))) = st d" for ah at
    using assms by (simp_all add: device_contract_def)
  then show ?thesis
    by (simp add: resolve_remote_mac_def Let_def split_def split: option.splits)
qed

lemma init2rtr_mac_state:
  assumes "device_contract drv st" "init2rtr_mac drv qp ah d = (r, d1)"
  shows "st d1 = st d"
  using resolve_remote_mac_state [OF assms(1)] assms(2)
  by (auto simp: init2rtr_mac_def split: if_splits prod.splits sum.splits) (metis snd_conv)+

lemma init2rtr_follows [qp_follows]:
  "device_contract drv st \<Longrightarrow> follows st d cs QP_STATE_RTR (init2rtr drv a m qp d)"
  unfolding init2rtr_def
  by (auto simp: opcode_init2rtr dest: fw_next_opcode convert_mtu_error init2rtr_mac_error
      init2rtr_sport_error init2rtr_mac_state
      intro!: follows_fail send_cmd_follows split: sum.split prod.split option.split outcome.split)

lemma qp_dispatch_follows:
  "device_contract drv st \<Longrightarrow> follows st d cs ns (qp_dispatch drv cs ns a m qp d)"
  by (cases ns) (simp_all add: qp_dispatch_def qp_follows)

lemma qp_modify_open_sync:
  assumes "device_contract drv st" "m_current_state qp = st d"
    and "qp_modify_open drv m qp a d = Ret (e, qp', a', d')"
  shows "m_current_state qp' = st d' \<and>
    (if e = DOCA_SUCCESS then qp_trans (st d) (st d') else st d' = st d)"
  using assms(3)
proof (cases rule: qp_modify_open_cases)
  case (dispatched dev)
  have "follows st d (declared_state qp a m) (requested_state qp a m)
      (qp_dispatch drv (declared_state qp a m) (requested_state qp a m) (mask_psns a m) m qp d)"
    by (rule qp_dispatch_follows [OF assms(1)])
  then have f: "if e = DOCA_SUCCESS then st d' = requested_state qp a m \<and> qp_trans (st d) (requested_state qp a m)
      else st d' = st d"
    using dispatched(4) unfolding follows_def by blast
  show ?thesis
    using f qp_dispatch_moves [OF dispatched(4)] assms(2) by (auto split: if_splits)
qed (use assms(2) in simp)

section \<open>Sequences of modify calls\<close>






section \<open>The content of the commands\<close>

lemma u8_power_of_two:
  assumes "is_power_of_two (ucast (v :: u8))"
  obtains k where "k < 8" "v = 2 ^ k" "log2_u8 v = of_nat k"
proof -
  obtain k where k: "unat (ucast v :: u64) = 2 ^ k"
    using assms is_power_of_two_unat by blast
  have v: "unat v = 2 ^ k" using k unat_lt_2p [of v] by (simp add: unsigned_ucast_eq take_bit_nat_eq_self)
  then have lt: "(2::nat) ^ k < 2 ^ 8" using unat_lt_2p [of v] by simp
  have "k < 8" by (rule power_less_imp_less_exp [OF _ lt]) simp
  moreover have "v = 2 ^ k"
    using v \<open>k < 8\<close> unat_pow2 [of k, where 'a = 8] by (simp add: word_unat_eq_iff)
  moreover have "v \<noteq> 0" using v by auto
  then have "log2_u8 v = of_nat k" by (simp add: log2_u8_def v floor_log2_pow2)
  ultimately show thesis using that by blast
qed

lemma shl1_log2:
  assumes "is_power_of_two (ucast v)"
  shows "shl1_u8 (take_bit 3 (log2_u8 v)) = v"
proof -
  obtain k where k: "k < 8" "v = 2 ^ k" "log2_u8 v = of_nat k"
    using u8_power_of_two [OF assms] by blast
  have "unat (take_bit 3 (of_nat k :: u32)) = k"
    using k(1) by (simp add: unsigned_take_bit_eq unsigned_of_nat take_bit_nat_eq_self_iff)
  then have "shl1_u8 (take_bit 3 (log2_u8 v)) = ucast (push_bit k (1::u32))"
    unfolding k(3) shl1_u8_def by simp
  also have "\<dots> = v"
    unfolding k(2) using k(1)
    by (intro bit_word_eqI) (auto simp: bit_ucast_iff bit_push_bit_iff bit_exp_iff bit_1_iff)
  finally show ?thesis .
qed

lemma devx_get_write_same:
  assumes "off mod 8 = 0" "i < length bs"
  shows "devx_get (Field (off + 8 * i) 8) (devx_write_bytes off bs p) = ucast (bs ! i)"
  using assms
proof (induction bs arbitrary: off p i)
  case (Cons b bs)
  have wf: "devx_wf (Field off 8)"
    using Cons.prems(1) unfolding devx_wf_def by (simp, presburger)
  have tb: "take_bit 8 (ucast b :: u32) = ucast b"
    by (rule bit_word_eqI) (auto simp: bit_take_bit_iff bit_ucast_iff dest: bit_imp_le_length)
  show ?case
  proof (cases i)
    case 0
    have "devx_get (Field off 8) (devx_write_bytes (off + 8) bs (devx_set (Field off 8) (ucast b) p))
        = devx_get (Field off 8) (devx_set (Field off 8) (ucast b) p)"
      using Cons.prems(1) by (intro devx_get_write_other [OF wf]) auto
    then show ?thesis using 0 wf by (simp add: devx_get_set_same tb)
  next
    case (Suc j)
    have "devx_get (Field (off + 8 + 8 * j) 8) (devx_write_bytes (off + 8) bs
        (devx_set (Field off 8) (ucast b) p)) = ucast (bs ! j)"
      by (rule Cons.IH) (use Cons.prems Suc in auto)
    then show ?thesis using Suc by (simp add: algebra_simps)
  qed
qed simp

lemma ucast_take_bit_u32 [simp]: "take_bit 8 (ucast (b::u8) :: u32) = ucast b"
  "take_bit 16 (ucast (h::u16) :: u32) = ucast h"
  by (rule bit_word_eqI; auto simp: bit_take_bit_iff bit_ucast_iff dest: bit_imp_le_length)+

lemma ucast_ucast_u8 [simp]: "ucast (ucast (b::u8) :: u32) = b"
  "ucast (ucast (h::u16) :: u32) = h"
  by (rule bit_word_eqI; auto simp: bit_ucast_iff)+

section \<open>The context of the queue pair\<close>

text \<open>
  What the firmware does with the content of an INIT2RTR command, and what it answers to a query.
  Its documented rules: the fields that the transition requires are stored as the command has
  them; a field of the optional-parameter list is stored only when its bit of the command's
  \<open>opt_param_mask\<close> is set, and otherwise stays what it was; a query reports the state and the
  stored fields.  \<open>stores_context drv st ctx\<close> says that the DevX calls of \<open>drv\<close> behave so, where
  \<open>ctx\<close> reads the stored context off the device state and the address-handle calls leave it alone.
\<close>

definition prm_state :: "qp_state \<Rightarrow> u32" where
  "prm_state s = (case s of QP_STATE_RST \<Rightarrow> 0 | QP_STATE_INIT \<Rightarrow> 1 | QP_STATE_RTR \<Rightarrow> 2
     | QP_STATE_RTS \<Rightarrow> 3 | QP_STATE_ERR \<Rightarrow> 6 | QP_STATE_OTHER n \<Rightarrow> 0xf)"

abbreviation rgid_byte :: "nat \<Rightarrow> devx_field" where
  "rgid_byte i \<equiv> Field (fld_off path_rgid_rip + 8 * i) 8"

definition rtr_required :: "devx_field list" where
  "rtr_required = [qpc_mtu, qpc_next_rcv_psn, qpc_remote_qpn, qpc_log_rra_max, qpc_min_rnr_nak,
     path_rlid, path_sl, path_tclass, path_stat_rate, path_src_addr_index, path_hop_limit]
     @ map rgid_byte [0..<16]"

definition rtr_optional :: "(devx_field \<times> u32) list" where
  "rtr_optional = [(path_pkey_index, MLX5_QP_OPT_PARAM_PKEY_INDEX),
     (qpc_rwe, MLX5_QP_OPT_PARAM_RWE), (qpc_rre, MLX5_QP_OPT_PARAM_RRE)]"

definition stores_rtr :: "devx_buf \<Rightarrow> devx_buf \<Rightarrow> devx_buf \<Rightarrow> bool" where
  "stores_rtr cmd c c' \<longleftrightarrow>
    (\<forall>f\<in>set rtr_required. devx_get f c' = devx_get f cmd) \<and>
    (\<forall>(f, bit)\<in>set rtr_optional. devx_get f c' =
       (if has (devx_get cmd_opt_param_mask cmd) bit then devx_get f cmd else devx_get f c))"

definition stores_context :: "'d driver \<Rightarrow> ('d \<Rightarrow> qp_state) \<Rightarrow> ('d \<Rightarrow> devx_buf) \<Rightarrow> bool" where
  "stores_context drv st ctx \<longleftrightarrow>
    (\<forall>ob cmd d d'. drv_obj_modify drv ob cmd d = (DOCA_SUCCESS, d') \<and>
       devx_get cmd_opcode cmd = 0x503 \<longrightarrow> stores_rtr cmd (ctx d) (ctx d')) \<and>
    (\<forall>pd at d. ctx (snd (snd (drv_create_ah drv pd at d))) = ctx d) \<and>
    (\<forall>ah d. ctx (snd (drv_destroy_ah drv ah d)) = ctx d) \<and>
    (\<forall>ob cmd d out. drv_obj_query drv ob cmd d = (DOCA_SUCCESS, out) \<and>
       devx_get cmd_opcode cmd = 0x50b \<longrightarrow>
       devx_get qpc_state out = prm_state (st d) \<and>
       (\<forall>f\<in>set (rtr_required @ map fst rtr_optional). devx_get f out = devx_get f (ctx d)))"

lemma rtr_field_cases:
  "f \<in> set (rtr_required @ map fst rtr_optional) \<longleftrightarrow>
    f \<in> {qpc_mtu, qpc_next_rcv_psn, qpc_remote_qpn, qpc_log_rra_max, qpc_min_rnr_nak,
      path_rlid, path_sl, path_tclass, path_stat_rate, path_src_addr_index, path_hop_limit,
      path_pkey_index, qpc_rwe, qpc_rre} \<union> rgid_byte ` {0..<16}"
  unfolding rtr_required_def rtr_optional_def
  by (simp only: set_append set_map list.set list.map fst_conv set_upt) blast

lemma has_or_if:
  "has (if c then acc OR v else acc) b \<longleftrightarrow> c \<and> has v b \<or> has acc b" for acc :: u32
  by (auto simp: bit.conj_disj_distrib2 or_eq_0_iff)

lemma has_optional:
  "has (legal_mlx5_qp_opt_param_mask m INIT2RTR) MLX5_QP_OPT_PARAM_PKEY_INDEX \<longleftrightarrow> has m ATTR_PKEY_INDEX"
  "has (legal_mlx5_qp_opt_param_mask m INIT2RTR) MLX5_QP_OPT_PARAM_RWE \<longleftrightarrow> has m ATTR_ALLOW_REMOTE_WRITE"
  "has (legal_mlx5_qp_opt_param_mask m INIT2RTR) MLX5_QP_OPT_PARAM_RRE \<longleftrightarrow> has m ATTR_ALLOW_REMOTE_READ"
  unfolding legal_mlx5_qp_opt_param_mask_def Let_def has_or_if
  by (simp_all add: attr_bits opt_bits and.assoc)

text \<open>What the INIT2RTR command carries.\<close>

lemma devx_get_mac:
  assumes "pred_option (\<lambda>x. length x \<le> 6) mac" "devx_wf g"
  shows "fld_off g + fld_sz g \<le> 688 \<or> 704 \<le> fld_off g \<Longrightarrow>
      devx_get g (devx_write_bytes 688 (case mac of None \<Rightarrow> [] | Some x \<Rightarrow> take 2 x) p) = devx_get g p"
    and "fld_off g + fld_sz g \<le> 704 \<or> 736 \<le> fld_off g \<Longrightarrow>
      devx_get g (devx_write_bytes 704 (case mac of None \<Rightarrow> [] | Some x \<Rightarrow> drop 2 x) p) = devx_get g p"
  using assms by (cases mac; auto intro!: devx_get_write_other)+

lemma devx_get_grh:
  assumes "length gid = 16" "devx_wf g" "fld_off g + fld_sz g \<le> 512 \<or> 640 \<le> fld_off g"
  shows "devx_get g (devx_write_bytes 512 (if b then gid else []) p) = devx_get g p"
  using assms by (auto intro!: devx_get_write_other)

lemmas rtr_fields = field_defs devx_wf_def devx_disjoint_def devx_get_set devx_get_if_same
  devx_get_if_other

lemma init2rtr_fields:
  assumes "length (ah_gid (qa_ah_attr a)) = 16" and "pred_option (\<lambda>x. length x \<le> 6) mac"
  shows "devx_get qpc_mtu (init2rtr_cmd qp a m mtu mac sport) = take_bit 3 mtu"
    and "devx_get qpc_next_rcv_psn (init2rtr_cmd qp a m mtu mac sport) = take_bit 24 (qa_rq_psn a)"
    and "devx_get qpc_remote_qpn (init2rtr_cmd qp a m mtu mac sport) = take_bit 24 (qa_dest_qp_num a)"
    and "devx_get path_pkey_index (init2rtr_cmd qp a m mtu mac sport) = ucast (qa_pkey_index a)"
    and "devx_get qpc_rwe (init2rtr_cmd qp a m mtu mac sport) =
      (if qa_allow_remote_write a = 1 then 1 else 0)"
    and "devx_get qpc_rre (init2rtr_cmd qp a m mtu mac sport) =
      (if has m ATTR_ALLOW_REMOTE_READ \<and> qa_allow_remote_read a = 1 then 1 else 0)"
    and "devx_get qpc_min_rnr_nak (init2rtr_cmd qp a m mtu mac sport) =
      (if has m ATTR_MIN_RNR_TIMER then take_bit 5 (ucast (qa_min_rnr_timer a)) else 0)"
    and "devx_get qpc_log_rra_max (init2rtr_cmd qp a m mtu mac sport) =
      (if has m ATTR_MAX_DEST_RD_ATOMIC then take_bit 3 (log2_u8 (qa_max_dest_rd_atomic a)) else 0)"
    and "devx_get cmd_opt_param_mask (init2rtr_cmd qp a m mtu mac sport) =
      legal_mlx5_qp_opt_param_mask m INIT2RTR"
  by (simp_all add: init2rtr_cmd_def Let_def rtr_fields devx_get_mac [OF assms(2)]
      devx_get_grh [OF assms(1)] take_bit_word_eq_self)

lemma init2rtr_path_fields:
  assumes "length (ah_gid (qa_ah_attr a)) = 16" and "pred_option (\<lambda>x. length x \<le> 6) mac"
  shows "devx_get path_src_addr_index (init2rtr_cmd qp a m mtu mac sport) =
      (if ah_addr_type (qa_ah_attr a) \<noteq> ADDR_TYPE_IB_NO_GRH
       then ucast (ah_sgid_index (qa_ah_attr a)) else 0)"
    and "devx_get path_hop_limit (init2rtr_cmd qp a m mtu mac sport) =
      (if ah_addr_type (qa_ah_attr a) \<noteq> ADDR_TYPE_IB_NO_GRH
       then ucast (ah_hop_limit (qa_ah_attr a)) else 0)"
    and "devx_get path_stat_rate (init2rtr_cmd qp a m mtu mac sport) =
      take_bit 4 (ucast (ah_static_rate (qa_ah_attr a)))"
    and "ah_addr_type (qa_ah_attr a) \<in> {ADDR_TYPE_IB_GRH, ADDR_TYPE_IB_NO_GRH} \<Longrightarrow>
      devx_get path_rlid (init2rtr_cmd qp a m mtu mac sport) = take_bit 16 (ah_dlid (qa_ah_attr a))"
    and "ah_addr_type (qa_ah_attr a) \<in> {ADDR_TYPE_IB_GRH, ADDR_TYPE_IB_NO_GRH} \<Longrightarrow>
      devx_get path_sl (init2rtr_cmd qp a m mtu mac sport) = take_bit 4 (ucast (ah_sl (qa_ah_attr a)))"
    and "ah_addr_type (qa_ah_attr a) \<in> {ADDR_TYPE_IB_GRH, ADDR_TYPE_IB_NO_GRH} \<Longrightarrow>
      devx_get path_tclass (init2rtr_cmd qp a m mtu mac sport) = ucast (ah_traffic_class (qa_ah_attr a))"
  by (simp_all add: init2rtr_cmd_def Let_def rtr_fields devx_get_mac [OF assms(2)]
      devx_get_grh [OF assms(1)])

lemma init2rtr_gid:
  assumes "length (ah_gid (qa_ah_attr a)) = 16" and "pred_option (\<lambda>x. length x \<le> 6) mac"
    and "ah_addr_type (qa_ah_attr a) \<noteq> ADDR_TYPE_IB_NO_GRH" and "i < 16"
  shows "devx_get (rgid_byte i) (init2rtr_cmd qp a m mtu mac sport)
    = ucast (ah_gid (qa_ah_attr a) ! i)"
proof -
  have off: "fld_off path_rgid_rip = 512" by (simp add: field_defs)
  have wf: "devx_wf (Field (512 + 8 * i) 8)"
    unfolding devx_wf_def by (simp, presburger)
  have w: "devx_get (Field (512 + 8 * i) 8)
      (devx_write_bytes 512 (ah_gid (qa_ah_attr a)) q) = ucast (ah_gid (qa_ah_attr a) ! i)" for q
    by (rule devx_get_write_same) (use assms in simp_all)
  note other = devx_get_set_other [OF _ wf] devx_get_if_other [OF _ wf] devx_get_write_other [OF wf]
  have wf': "(512 + 8 * i) mod 32 \<le> 24" using wf by (simp add: devx_wf_def)
  show ?thesis
    unfolding off using assms w wf'
    by (cases mac; simp add: init2rtr_cmd_def Let_def field_defs devx_disjoint_def
        devx_wf_def other)
qed


text \<open>A successful INIT2RTR transition, step by step.\<close>

lemma resolve_remote_mac_keeps:
  assumes "\<And>pd at d. g (snd (snd (drv_create_ah drv pd at d))) = g d"
    and "\<And>ah d. g (snd (drv_destroy_ah drv ah d)) = g d"
  shows "g (snd (resolve_remote_mac drv pd pn gi rg hl ig d)) = g d"
  by (simp add: resolve_remote_mac_def Let_def split_def assms split: option.splits)

lemma resolve_remote_mac_length:
  "resolve_remote_mac drv pd pn gi rg hl ig d = (Inr mac, d1) \<Longrightarrow> length mac \<le> 6"
  by (auto simp: resolve_remote_mac_def Let_def split: prod.splits if_splits option.splits)

lemma init2rtr_mac_ok:
  assumes "init2rtr_mac drv qp ah d = (Inr mac, d1)"
  shows "pred_option (\<lambda>x. length x \<le> 6) mac"
  using assms by (auto simp: init2rtr_mac_def resolve_remote_mac_length split: if_splits prod.splits sum.splits)

lemma init2rtr_mac_keeps:
  assumes "\<And>pd at d. g (snd (snd (drv_create_ah drv pd at d))) = g d"
    and "\<And>ah d. g (snd (drv_destroy_ah drv ah d)) = g d"
    and "init2rtr_mac drv qp ah d = (r, d1)"
  shows "g d1 = g d"
proof -
  have "g d1 = g d" if "resolve_remote_mac drv pd pn gi rg hl ig d = (x, d1)" for pd pn gi rg hl ig x
    using resolve_remote_mac_keeps [of g drv, OF assms(1,2)] that by (metis snd_conv)
  then show ?thesis
    using assms(3) by (auto simp: init2rtr_mac_def split: if_splits prod.splits sum.splits)
qed

lemma init2rtr_success:
  assumes "init2rtr drv a m qp d = Ret (DOCA_SUCCESS, qp', d')"
  obtains mtu mac sport d1 where
    "convert_doca_mtu_size_to_prm_mtu_size (qa_path_mtu a) = Inr mtu"
    "init2rtr_mac drv qp (qa_ah_attr a) d = (Inr mac, d1)"
    "drv_obj_modify drv (m_qp_obj qp) (init2rtr_cmd qp a m mtu mac sport) d1 = (DOCA_SUCCESS, d')"
    "qp' = qp\<lparr>m_current_state := QP_STATE_RTR, m_addr_type := ah_addr_type (qa_ah_attr a)\<rparr>"
proof -
  obtain mtu where mtu: "convert_doca_mtu_size_to_prm_mtu_size (qa_path_mtu a) = Inr mtu"
    using assms by (auto simp: init2rtr_def dest: convert_mtu_error split: sum.splits if_splits)
  obtain mac d1 where mac: "init2rtr_mac drv qp (qa_ah_attr a) d = (Inr mac, d1)"
    using assms mtu
    by (auto simp: init2rtr_def dest: init2rtr_mac_error split: sum.splits prod.splits if_splits)
  obtain dev where dev: "m_verbs_device_attr qp = Some dev"
    using assms mtu mac by (auto simp: init2rtr_def split: option.splits if_splits)
  obtain sport where "init2rtr_sport drv dev (qa_ah_attr a) d1 = Ret (Inr sport)"
    using assms mtu mac dev
    by (auto simp: init2rtr_def dest: init2rtr_sport_error split: sum.splits outcome.splits if_splits)
  then show thesis
    using assms mtu mac dev that [OF mtu mac]
    by (auto simp: init2rtr_def send_cmd_def split: prod.splits if_splits)
qed

lemma mask_psns_connection [simp]:
  "take_bit 24 (qa_rq_psn (mask_psns a m)) = take_bit 24 (qa_rq_psn a)"
  "qa_dest_qp_num (mask_psns a m) = qa_dest_qp_num a"
  "qa_min_rnr_timer (mask_psns a m) = qa_min_rnr_timer a"
  "qa_allow_remote_write (mask_psns a m) = qa_allow_remote_write a"
  "qa_allow_remote_read (mask_psns a m) = qa_allow_remote_read a"
  "qa_max_dest_rd_atomic (mask_psns a m) = qa_max_dest_rd_atomic a"
  by (simp_all add: mask_psns_def Let_def psn_masked take_bit_eq_mask and.assoc)

lemma qp_modify_to_rtr:
  assumes "qp_modify_open drv m qp a d = Ret (DOCA_SUCCESS, qp', a', d')"
    and "requested_state qp a m = QP_STATE_RTR"
  obtains "declared_state qp a m = QP_STATE_INIT"
    "init2rtr drv (mask_psns a m) m qp d = Ret (DOCA_SUCCESS, qp', d')"
  using assms(1)
proof (cases rule: qp_modify_open_cases)
  case (dispatched dev)
  then show thesis using that assms(2) by (auto simp: qp_dispatch_def split: if_splits)
qed simp

lemma modify_stores_rtr:
  assumes "device_contract drv st" "stores_context drv st ctx"
    and "qp_modify_open drv m qp a d = Ret (DOCA_SUCCESS, qp', a', d')"
    and "requested_state qp a m = QP_STATE_RTR"
  obtains mtu mac sport where
    "convert_doca_mtu_size_to_prm_mtu_size (qa_path_mtu a) = Inr mtu"
    "pred_option (\<lambda>x. length x \<le> 6) mac"
    "stores_rtr (init2rtr_cmd qp (mask_psns a m) m mtu mac sport) (ctx d) (ctx d')"
    "st d' = QP_STATE_RTR" "m_addr_type qp' = ah_addr_type (qa_ah_attr a)"
proof -
  have i: "init2rtr drv (mask_psns a m) m qp d = Ret (DOCA_SUCCESS, qp', d')"
    by (rule qp_modify_to_rtr [OF assms(3,4)])
  obtain mtu mac sport d1 where s:
    "convert_doca_mtu_size_to_prm_mtu_size (qa_path_mtu (mask_psns a m)) = Inr mtu"
    "init2rtr_mac drv qp (qa_ah_attr (mask_psns a m)) d = (Inr mac, d1)"
    "drv_obj_modify drv (m_qp_obj qp) (init2rtr_cmd qp (mask_psns a m) m mtu mac sport) d1
        = (DOCA_SUCCESS, d')"
    "qp' = qp\<lparr>m_current_state := QP_STATE_RTR,
      m_addr_type := ah_addr_type (qa_ah_attr (mask_psns a m))\<rparr>"
    by (rule init2rtr_success [OF i])
  have "ctx d1 = ctx d"
    by (rule init2rtr_mac_keeps [OF _ _ s(2)]) (use assms(2) in \<open>simp_all add: stores_context_def\<close>)
  moreover have "\<forall>ob cmd d d'. drv_obj_modify drv ob cmd d = (DOCA_SUCCESS, d') \<and>
      devx_get cmd_opcode cmd = 0x503 \<longrightarrow> stores_rtr cmd (ctx d) (ctx d')"
    using assms(2) unfolding stores_context_def by (rule conjunct1)
  ultimately have "stores_rtr (init2rtr_cmd qp (mask_psns a m) m mtu mac sport) (ctx d) (ctx d')"
    using s(3) opcode_init2rtr by fastforce
  moreover have "st d' = QP_STATE_RTR"
    using init2rtr_follows [OF assms(1), of d QP_STATE_INIT "mask_psns a m" m qp] i
    unfolding follows_def by auto
  ultimately show thesis
    using that [of mtu mac sport] s(1,4) init2rtr_mac_ok [OF s(2)] by simp
qed

lemma query_reply:
  assumes "stores_context drv st ctx" and "st d = QP_STATE_RTR"
    and "convert_prm_mtu_size_to_doca_verbs_mtu_size (devx_get qpc_mtu (ctx d)) = Inr mtu"
    and "query_qp drv qp r ia d = (e, b, ib)"
  obtains (failed) "e = DOCA_ERROR_DRIVER" "b = r"
    | (replied) out where "e = DOCA_SUCCESS" "b = query_attr qp out QP_STATE_RTR mtu r"
        "\<And>f. f \<in> set (rtr_required @ map fst rtr_optional) \<Longrightarrow> devx_get f out = devx_get f (ctx d)"
proof -
  obtain ret out where q: "drv_obj_query drv (m_qp_obj qp)
      (devx_set cmd_qpn (m_qp_num qp) (devx_set cmd_opcode 0x50b devx_zero)) d = (ret, out)"
    by fastforce
  show thesis
  proof (cases "ret = DOCA_SUCCESS")
    case False
    then show thesis using assms(4) q by (intro failed) (auto simp: query_qp_def Let_def)
  next
    case True
    have o: "devx_get cmd_opcode (devx_set cmd_qpn (m_qp_num qp) (devx_set cmd_opcode 0x50b devx_zero)) = 0x50b"
      by (simp add: opcode_qpn)
    have s: "devx_get qpc_state out = prm_state (st d)"
      and f: "\<forall>f\<in>set (rtr_required @ map fst rtr_optional). devx_get f out = devx_get f (ctx d)"
      using assms(1) q [unfolded True] o unfolding stores_context_def by blast+
    have "devx_get qpc_mtu out = devx_get qpc_mtu (ctx d)"
      using f by (simp add: rtr_required_def)
    then have mtu': "convert_prm_mtu_size_to_doca_verbs_mtu_size (devx_get qpc_mtu out) = Inr mtu"
      using assms(3) by simp
    have "convert_prm_qp_state_to_doca_verbs_qp_state (devx_get qpc_state out) = Inr QP_STATE_RTR"
      unfolding s assms(2) by (simp add: prm_state_def convert_prm_qp_state_to_doca_verbs_qp_state_def)
    then have "query_qp drv qp r ia d =
        (DOCA_SUCCESS, query_attr qp out QP_STATE_RTR mtu r, query_init_attr qp out ia)"
      unfolding query_qp_def Let_def q True by (simp add: mtu')
    with assms(4) f show thesis by (intro replied [of out]) auto
  qed
qed

lemma ucast_take_bit_u8: "ucast (take_bit n (ucast (b::u8) :: u32)) = take_bit n b"
  by (rule bit_word_eqI) (auto simp: bit_take_bit_iff bit_ucast_iff dest: bit_imp_le_length)

lemma mtu_roundtrip:
  "convert_doca_mtu_size_to_prm_mtu_size s = Inr mtu \<Longrightarrow>
    convert_prm_mtu_size_to_doca_verbs_mtu_size (take_bit 3 mtu) = Inr s"
  by (cases s) (auto simp: convert_prm_mtu_size_to_doca_verbs_mtu_size_def)

text \<open>
  What a query must report after an accepted call with the attributes \<open>a\<close> and the mask \<open>m\<close> on a
  queue pair that had the context \<open>c\<close>: \<open>connection_of\<close> for the attributes, \<open>address_of\<close> for the
  address vector.
\<close>

definition connection_of :: "u32 \<Rightarrow> qp_attr_open \<Rightarrow> devx_buf \<Rightarrow> qp_attr_open \<Rightarrow> bool" where
  "connection_of m a c b \<longleftrightarrow>
    qa_current_state b = QP_STATE_RTR \<and> qa_path_mtu b = qa_path_mtu a \<and>
    qa_rq_psn b = take_bit 24 (qa_rq_psn a) \<and> qa_dest_qp_num b = take_bit 24 (qa_dest_qp_num a) \<and>
    (has m ATTR_MIN_RNR_TIMER \<longrightarrow> qa_min_rnr_timer b = take_bit 5 (qa_min_rnr_timer a)) \<and>
    (if has m ATTR_MAX_DEST_RD_ATOMIC
     then is_power_of_two (ucast (qa_max_dest_rd_atomic a)) \<longrightarrow>
       qa_max_dest_rd_atomic b = qa_max_dest_rd_atomic a
     else qa_max_dest_rd_atomic b = 1) \<and>
    qa_pkey_index b =
      (if has m ATTR_PKEY_INDEX then qa_pkey_index a else ucast (devx_get path_pkey_index c)) \<and>
    qa_allow_remote_write b =
      (if has m ATTR_ALLOW_REMOTE_WRITE then if qa_allow_remote_write a = 1 then 1 else 0
       else devx_get qpc_rwe c) \<and>
    qa_allow_remote_read b =
      (if has m ATTR_ALLOW_REMOTE_READ then if qa_allow_remote_read a = 1 then 1 else 0
       else devx_get qpc_rre c)"

definition address_of :: "ah_attr_open \<Rightarrow> ah_attr_open \<Rightarrow> bool" where
  "address_of ah bh \<longleftrightarrow>
    ah_addr_type bh = ah_addr_type ah \<and> ah_static_rate bh = take_bit 4 (ah_static_rate ah) \<and>
    (ah_addr_type ah \<in> {ADDR_TYPE_IB_GRH, ADDR_TYPE_IB_NO_GRH} \<longrightarrow>
      ah_dlid bh = take_bit 16 (ah_dlid ah) \<and> ah_sl bh = take_bit 4 (ah_sl ah) \<and>
      ah_traffic_class bh = ah_traffic_class ah) \<and>
    (ah_addr_type ah \<noteq> ADDR_TYPE_IB_NO_GRH \<longrightarrow>
      ah_sgid_index bh = ah_sgid_index ah \<and> ah_hop_limit bh = ah_hop_limit ah \<and> ah_gid bh = ah_gid ah)"

lemma shl1_0 [simp]: "shl1_u8 0 = 1" by (simp add: shl1_u8_def)

text \<open>The reply carries both.\<close>

lemma reply_is_connection:
  assumes "stores_rtr (init2rtr_cmd qp (mask_psns a m) m mtu mac sport) c c'"
    and "\<And>f. f \<in> set (rtr_required @ map fst rtr_optional) \<Longrightarrow> devx_get f out = devx_get f c'"
    and "length (ah_gid (qa_ah_attr a)) = 16" "pred_option (\<lambda>x. length x \<le> 6) mac"
  shows "connection_of m a c (query_attr qp' out QP_STATE_RTR (qa_path_mtu a) r)"
proof -
  have len: "length (ah_gid (qa_ah_attr (mask_psns a m))) = 16" using assms(3) by simp
  note cmd = init2rtr_fields [OF len assms(4)]
  have req: "devx_get f out = devx_get f (init2rtr_cmd qp (mask_psns a m) m mtu mac sport)"
    if "f \<in> set rtr_required" for f
    using assms(1,2) that unfolding stores_rtr_def by simp
  have opt: "devx_get f out = (if has (legal_mlx5_qp_opt_param_mask m INIT2RTR) bit
      then devx_get f (init2rtr_cmd qp (mask_psns a m) m mtu mac sport) else devx_get f c)"
    if "(f, bit) \<in> set rtr_optional" for f bit
  proof -
    have "f \<in> set (rtr_required @ map fst rtr_optional)" using that by force
    then show ?thesis using assms(1,2) that cmd(9) unfolding stores_rtr_def by auto
  qed
  note o = opt [of path_pkey_index MLX5_QP_OPT_PARAM_PKEY_INDEX]
    opt [of qpc_rwe MLX5_QP_OPT_PARAM_RWE] opt [of qpc_rre MLX5_QP_OPT_PARAM_RRE]
  have r: "{qpc_mtu, qpc_next_rcv_psn, qpc_remote_qpn, qpc_log_rra_max, qpc_min_rnr_nak} \<subseteq> set rtr_required"
    by (simp add: rtr_required_def)
  note rs = req [of qpc_next_rcv_psn] req [of qpc_remote_qpn]
    req [of qpc_log_rra_max] req [of qpc_min_rnr_nak]
  show ?thesis
    using r rs o
    by (simp add: connection_of_def query_attr_def Let_def cmd has_optional rtr_optional_def
        ucast_take_bit_u8 shl1_log2)
qed

lemma reply_is_address:
  assumes "stores_rtr (init2rtr_cmd qp (mask_psns a m) m mtu mac sport) c c'"
    and "\<And>f. f \<in> set (rtr_required @ map fst rtr_optional) \<Longrightarrow> devx_get f out = devx_get f c'"
    and "length (ah_gid (qa_ah_attr a)) = 16" "pred_option (\<lambda>x. length x \<le> 6) mac"
    and "m_addr_type qp' = ah_addr_type (qa_ah_attr a)"
  shows "address_of (qa_ah_attr a) (query_ah qp' out bh)"
proof -
  have len: "length (ah_gid (qa_ah_attr (mask_psns a m))) = 16" using assms(3) by simp
  note cmd = init2rtr_path_fields [OF len assms(4)] init2rtr_gid [OF len assms(4)]
  have req: "devx_get f out = devx_get f (init2rtr_cmd qp (mask_psns a m) m mtu mac sport)"
    if "f \<in> set rtr_required" for f
    using assms(1,2) that unfolding stores_rtr_def by simp
  have r: "{path_rlid, path_sl, path_tclass, path_stat_rate, path_src_addr_index, path_hop_limit}
      \<subseteq> set rtr_required"
    by (simp add: rtr_required_def)
  have g: "rgid_byte i \<in> set rtr_required" if "i < 16" for i
    using that by (simp add: rtr_required_def del: upt_rec_numeral)
  have gid: "map (\<lambda>i. ucast (devx_get (rgid_byte i) out) :: u8) [0..<16] = ah_gid (qa_ah_attr a)"
    if "ah_addr_type (qa_ah_attr a) \<noteq> ADDR_TYPE_IB_NO_GRH"
    using assms(3) that by (intro nth_equalityI) (auto simp: req g cmd)
  note rs = req [of path_rlid] req [of path_sl] req [of path_tclass] req [of path_stat_rate]
    req [of path_src_addr_index] req [of path_hop_limit]
  show ?thesis
    using r rs gid assms(5)
    by (auto simp: address_of_def query_ah_def cmd ucast_take_bit_u8)
qed

section \<open>A reference device\<close>

text \<open>A device that keeps the state and the last accepted command, for concrete runs.\<close>

definition ref_driver :: "(qp_state \<times> devx_buf) driver" where
  "ref_driver = \<lparr>
     drv_obj_modify = (\<lambda>ob cmd d.
       case fw_next (devx_get cmd_opcode cmd) (fst d) of
         None \<Rightarrow> (DOCA_ERROR_DRIVER, d)
       | Some s \<Rightarrow> (DOCA_SUCCESS, (s, cmd))),
     drv_obj_query = (\<lambda>ob cmd d.
       (DOCA_SUCCESS, devx_set qpc_state (case fst d of QP_STATE_RST \<Rightarrow> 0 | QP_STATE_INIT \<Rightarrow> 1
          | QP_STATE_RTR \<Rightarrow> 2 | QP_STATE_RTS \<Rightarrow> 3 | _ \<Rightarrow> 6) (snd d))),
     drv_general_cmd = (\<lambda>cmd d. (DOCA_SUCCESS, devx_zero)),
     drv_create_ah = (\<lambda>pd at d. (DOCA_SUCCESS, 1, d)),
     drv_init_obj_ah = (\<lambda>ah d. (DOCA_SUCCESS, Some [1, 2, 3, 4, 5, 6])),
     drv_destroy_ah = (\<lambda>ah d. (DOCA_SUCCESS, d)),
     drv_rand = (\<lambda>d. 0)\<rparr>"

lemma ref_driver_contract: "device_contract ref_driver fst"
  by (simp add: device_contract_def ref_driver_def split: option.splits)

definition demo_qp :: qp_open where
  "demo_qp = new_qp\<lparr>m_verbs_device_attr := Some (new_device_attr\<lparr>da_max_pkeys := 4,
     da_phys_port_cnt := 1, da_gid_table_size := 2\<rparr>), m_qp_num := 9\<rparr>"

definition demo_attr :: qp_attr_open where
  "demo_attr = new_qp_attr\<lparr>qa_port_num := 1, qa_path_mtu := MTU_SIZE_1K_BYTES, qa_rq_psn := 0x1000007,
     qa_dest_qp_num := 5, qa_ah_attr := new_ah_attr, qa_ah_attr_enabled := True,
     qa_max_dest_rd_atomic := 16\<rparr>"

definition demo_calls :: "(u32 \<times> qp_attr_open) list" where
  "demo_calls =
    [(ATTR_NEXT_STATE OR ATTR_PKEY_INDEX OR ATTR_PORT_NUM OR ATTR_ALLOW_REMOTE_WRITE OR
        ATTR_ALLOW_REMOTE_READ, demo_attr\<lparr>qa_next_state := QP_STATE_INIT\<rparr>),
     (ATTR_NEXT_STATE OR ATTR_RQ_PSN OR ATTR_DEST_QP_NUM OR ATTR_PATH_MTU OR ATTR_AH_ATTR OR
        ATTR_MIN_RNR_TIMER, demo_attr\<lparr>qa_next_state := QP_STATE_RTR\<rparr>),
     (ATTR_NEXT_STATE OR ATTR_SQ_PSN OR ATTR_ACK_TIMEOUT OR ATTR_RETRY_CNT OR ATTR_RNR_RETRY,
        demo_attr\<lparr>qa_next_state := QP_STATE_RTS\<rparr>)]"


text \<open>
  A device that also keeps the context by the rules of \<open>stores_context\<close>, and a call into RTR that
  leaves the P_Key index alone.
\<close>

definition kept_optional :: "devx_buf \<Rightarrow> devx_buf \<Rightarrow> devx_buf" where
  "kept_optional old cmd = fold (\<lambda>(f, bit) p.
     set_if (\<not> has (devx_get cmd_opt_param_mask cmd) bit) f (devx_get f old) p) rtr_optional cmd"

definition ctx_driver :: "(qp_state \<times> devx_buf) driver" where
  "ctx_driver = ref_driver\<lparr>
     drv_obj_modify := (\<lambda>ob cmd d.
       case fw_next (devx_get cmd_opcode cmd) (fst d) of
         None \<Rightarrow> (DOCA_ERROR_DRIVER, d)
       | Some s \<Rightarrow> (DOCA_SUCCESS, (s, kept_optional (snd d) cmd))),
     drv_obj_query := (\<lambda>ob cmd d. (DOCA_SUCCESS, devx_set qpc_state (prm_state (fst d)) (snd d)))\<rparr>"

lemma ctx_driver_contract: "device_contract ctx_driver fst"
  by (simp add: device_contract_def ctx_driver_def ref_driver_def split: option.splits)

lemma take_bit_devx_get: "take_bit (fld_sz f) (devx_get f p) = devx_get f p"
  by (rule bit_word_eqI) (auto simp: bit_take_bit_iff bit_devx_get)

lemma kept_optional_stores: "stores_rtr cmd old (kept_optional old cmd)"
proof -
  have g: "devx_get (rgid_byte i) (kept_optional old cmd) = devx_get (rgid_byte i) cmd" if "i < 16" for i
  proof -
    have "devx_wf (Field (512 + 8 * i) 8)" unfolding devx_wf_def by (simp, presburger)
    then show ?thesis
      using that by (simp add: kept_optional_def rtr_optional_def field_defs devx_get_if_other
          devx_wf_def devx_disjoint_def)
  qed
  have "devx_get f (kept_optional old cmd) = devx_get f cmd" if "f \<in> set rtr_required" for f
    using that g unfolding rtr_required_def set_append
    by (auto simp: kept_optional_def rtr_optional_def rtr_fields)
  moreover have "devx_get f (kept_optional old cmd) =
      (if has (devx_get cmd_opt_param_mask cmd) bit then devx_get f cmd else devx_get f old)"
    if "(f, bit) \<in> set rtr_optional" for f bit
  proof -
    have "f \<in> {path_pkey_index, qpc_rwe, qpc_rre}" using that by (auto simp: rtr_optional_def)
    then show ?thesis
      using that take_bit_devx_get [of f old]
      by (auto simp: kept_optional_def rtr_optional_def rtr_fields)
  qed
  ultimately show ?thesis unfolding stores_rtr_def by auto
qed

lemma ctx_driver_stores: "stores_context ctx_driver fst snd"
proof -
  have "devx_get (rgid_byte i) (devx_set qpc_state v p) = devx_get (rgid_byte i) p" if "i < 16" for i v p
  proof -
    have "devx_wf (Field (512 + 8 * i) 8)" unfolding devx_wf_def by (simp, presburger)
    then show ?thesis
      using that by (simp add: field_defs devx_get_set_other devx_wf_def devx_disjoint_def)
  qed
  then have "devx_get f (devx_set qpc_state v p) = devx_get f p"
    if "f \<in> set (rtr_required @ map fst rtr_optional)" for f v p
    using that unfolding rtr_field_cases by (auto simp: rtr_fields)
  moreover have "devx_get qpc_state (devx_set qpc_state (prm_state s) p) = prm_state s" for s p
    by (cases s) (simp_all add: rtr_fields prm_state_def)
  ultimately show ?thesis
    unfolding stores_context_def
    by (auto simp: ctx_driver_def ref_driver_def kept_optional_stores split: option.splits)
qed

definition rtr_call :: "u32 \<times> qp_attr_open" where
  "rtr_call = (ATTR_NEXT_STATE OR ATTR_RQ_PSN OR ATTR_DEST_QP_NUM OR ATTR_PATH_MTU OR ATTR_AH_ATTR OR
     ATTR_MIN_RNR_TIMER OR ATTR_MAX_DEST_RD_ATOMIC, demo_attr\<lparr>qa_next_state := QP_STATE_RTR,
       qa_ah_attr := new_ah_attr\<lparr>ah_gid := map of_nat [1..<17], ah_sgid_index := 1\<rparr>\<rparr>)"

abbreviation rtr_start :: "qp_state \<times> devx_buf" where
  "rtr_start \<equiv> (QP_STATE_INIT, devx_set path_pkey_index 3 devx_zero)"

lemma rtr_call_succeeds:
  obtains qp' a' d' where "qp_modify_open ctx_driver (fst rtr_call)
    (demo_qp\<lparr>m_current_state := QP_STATE_INIT\<rparr>) (snd rtr_call) rtr_start
    = Ret (DOCA_SUCCESS, qp', a', d')"
proof -
  have "case qp_modify_open ctx_driver (fst rtr_call) (demo_qp\<lparr>m_current_state := QP_STATE_INIT\<rparr>)
      (snd rtr_call) rtr_start of Ret (e, qp', a', d') \<Rightarrow> e = DOCA_SUCCESS | Misuse \<Rightarrow> False"
    by code_simp
  then show thesis using that by (auto split: outcome.splits)
qed

section \<open>Properties\<close>

text \<open>C4: A modify call that fails, for whatever reason, leaves the QP exactly as it was; one that
  succeeds moves it to the requested state, and only along an edge of the state diagram that
  starts in the declared current state (or the recorded one, when none is declared).\<close>

theorem modify_is_legal_or_nothing:
  assumes "qp_modify_open drv m qp a d = Ret (e, qp', a', d')"
  shows "if e = DOCA_SUCCESS
    then m_current_state qp' = requested_state qp a m \<and>
         qp_trans (declared_state qp a m) (requested_state qp a m)
    else qp' = qp"
  using assms by (rule qp_modify_open_state)

lemma demo_modify:
  obtains qp' a' d' where "qp_modify_open ref_driver (fst (hd demo_calls)) demo_qp
    (snd (hd demo_calls)) (QP_STATE_RST, devx_zero) = Ret (DOCA_SUCCESS, qp', a', d')"
proof -
  have "case qp_modify_open ref_driver (fst (hd demo_calls)) demo_qp (snd (hd demo_calls))
        (QP_STATE_RST, devx_zero) of Ret (e, qp', a', d') \<Rightarrow> e = DOCA_SUCCESS | Misuse \<Rightarrow> False"
    by code_simp
  then show thesis using that by (auto split: outcome.splits)
qed

theorem modify_is_legal_or_nothing_witness:
  "\<exists>qp' a' d'. qp_modify_open ref_driver (fst (hd demo_calls)) demo_qp (snd (hd demo_calls))
      (QP_STATE_RST, devx_zero) = Ret (DOCA_SUCCESS, qp', a', d')
    \<and> m_current_state qp' = QP_STATE_INIT"
proof -
  obtain qp' a' d' where r: "qp_modify_open ref_driver (fst (hd demo_calls)) demo_qp
    (snd (hd demo_calls)) (QP_STATE_RST, devx_zero) = Ret (DOCA_SUCCESS, qp', a', d')"
    by (rule demo_modify)
  have "requested_state demo_qp (snd (hd demo_calls)) (fst (hd demo_calls)) = QP_STATE_INIT"
    by code_simp
  then show ?thesis using r modify_is_legal_or_nothing [OF r] by auto
qed

text \<open>C2: If the device follows its documented state table, the state that the library records is
  the state of the device after every call, even when the caller declares a wrong current state:
  successes move both along a legal edge, failures move neither.\<close>

theorem recorded_state_is_device_state:
  assumes "device_contract drv st" and "m_current_state qp = st d"
    and "qp_modify_open drv m qp a d = Ret (e, qp', a', d')"
  shows "m_current_state qp' = st d' \<and>
    (if e = DOCA_SUCCESS then qp_trans (st d) (st d') else st d' = st d)"
  using assms by (rule qp_modify_open_sync)

theorem recorded_state_is_device_state_witness:
  "\<exists>qp' a' d'. qp_modify_open ref_driver (fst (hd demo_calls)) demo_qp (snd (hd demo_calls))
      (QP_STATE_RST, devx_zero) = Ret (DOCA_SUCCESS, qp', a', d')
    \<and> m_current_state qp' = fst d' \<and> qp_trans QP_STATE_RST (fst d')"
proof -
  obtain qp' a' d' where r: "qp_modify_open ref_driver (fst (hd demo_calls)) demo_qp
    (snd (hd demo_calls)) (QP_STATE_RST, devx_zero) = Ret (DOCA_SUCCESS, qp', a', d')"
    by (rule demo_modify)
  have "m_current_state demo_qp = fst (QP_STATE_RST, devx_zero)" by (simp add: demo_qp_def new_qp_def)
  from recorded_state_is_device_state [OF ref_driver_contract this r] show ?thesis using r by auto
qed



text \<open>C3: Round trip of the connection attributes through the device: after a modify call that
  succeeded in moving a queue pair from INIT to RTR, a query of the same queue pair either fails
  in the driver and leaves the caller's attributes alone, or succeeds and reports the state RTR,
  the path MTU, the receive sequence number and the destination QP number that were set (both cut
  to 24 bits), the RNR timer (5 bits), the responder depth (1 when none was named), and the
  P_Key index and remote-access rights that were set when the mask named them, and otherwise the
  ones that the device had before.  When the caller's attributes take an address vector it gets
  the one that was set: address type, static rate (4 bits), LID, service level and traffic class
  of an InfiniBand address, and the GID index, hop limit and GID of every address with a global
  header.  The device is assumed to follow its state table and to store and report the fields of
  the command as \<open>stores_context\<close> says, optional ones by the command's \<open>opt_param_mask\<close>.\<close>

theorem query_reads_back_what_modify_set:
  assumes "device_contract drv st" and "stores_context drv st ctx"
    and "qp_modify_open drv m qp a d = Ret (DOCA_SUCCESS, qp', a', d')"
    and "requested_state qp a m = QP_STATE_RTR" and "length (ah_gid (qa_ah_attr a)) = 16"
    and "query_qp drv qp' r ia d' = (e, b, ib)"
  shows "if e = DOCA_ERROR_DRIVER then b = r
    else e = DOCA_SUCCESS \<and> connection_of m a (ctx d) b \<and>
      (if qa_ah_attr_enabled r then address_of (qa_ah_attr a) (qa_ah_attr b)
       else qa_ah_attr b = qa_ah_attr r)"
proof -
  obtain mtu mac sport where
    c: "convert_doca_mtu_size_to_prm_mtu_size (qa_path_mtu a) = Inr mtu"
      "pred_option (\<lambda>x. length x \<le> 6) mac"
      "stores_rtr (init2rtr_cmd qp (mask_psns a m) m mtu mac sport) (ctx d) (ctx d')"
      "st d' = QP_STATE_RTR" "m_addr_type qp' = ah_addr_type (qa_ah_attr a)"
    by (rule modify_stores_rtr [OF assms(1-4)])
  have len: "length (ah_gid (qa_ah_attr (mask_psns a m))) = 16" using assms(5) by simp
  have "devx_get qpc_mtu (ctx d') = take_bit 3 mtu"
    using c(3) init2rtr_fields(1) [OF len c(2)] by (simp add: stores_rtr_def rtr_required_def)
  then have "convert_prm_mtu_size_to_doca_verbs_mtu_size (devx_get qpc_mtu (ctx d')) = Inr (qa_path_mtu a)"
    using mtu_roundtrip [OF c(1)] by simp
  then show ?thesis
  proof (cases rule: query_reply [OF assms(2) c(4) _ assms(6), consumes 1, case_names failed replied])
    case (replied out)
    then show ?thesis
      using reply_is_connection [OF c(3) _ assms(5) c(2), of out qp' r]
        reply_is_address [OF c(3) _ assms(5) c(2,5), of out "qa_ah_attr r"]
      by (simp add: query_attr_def Let_def)
  qed simp
qed

theorem query_reads_back_what_modify_set_witness:
  "\<exists>qp' a' d'. qp_modify_open ctx_driver (fst rtr_call) (demo_qp\<lparr>m_current_state := QP_STATE_INIT\<rparr>)
      (snd rtr_call) rtr_start = Ret (DOCA_SUCCESS, qp', a', d') \<and>
    (case query_qp ctx_driver qp' demo_attr new_qp_init_attr d' of (e, b, ib) \<Rightarrow>
      e = DOCA_SUCCESS \<and> qa_current_state b = QP_STATE_RTR \<and> qa_path_mtu b = MTU_SIZE_1K_BYTES \<and>
      qa_rq_psn b = 7 \<and> qa_dest_qp_num b = 5 \<and> qa_max_dest_rd_atomic b = 16 \<and>
      qa_pkey_index b = 3 \<and> ah_sgid_index (qa_ah_attr b) = 1 \<and>
      ah_gid (qa_ah_attr b) = map of_nat [1..<17])"
proof -
  let ?qp = "demo_qp\<lparr>m_current_state := QP_STATE_INIT\<rparr>"
  obtain qp' a' d' where r: "qp_modify_open ctx_driver (fst rtr_call) ?qp (snd rtr_call) rtr_start
      = Ret (DOCA_SUCCESS, qp', a', d')"
    by (rule rtr_call_succeeds)
  obtain e b ib where q: "query_qp ctx_driver qp' demo_attr new_qp_init_attr d' = (e, b, ib)"
    by (cases "query_qp ctx_driver qp' demo_attr new_qp_init_attr d'")
  have e: "e \<noteq> DOCA_ERROR_DRIVER"
    using q by (auto simp: query_qp_def Let_def ctx_driver_def split: sum.splits)
  have s: "requested_state ?qp (snd rtr_call) (fst rtr_call) = QP_STATE_RTR" by code_simp
  have l: "length (ah_gid (qa_ah_attr (snd rtr_call))) = 16" by code_simp
  have p: "devx_get path_pkey_index (devx_set path_pkey_index 3 devx_zero) = 3"
    by (simp add: rtr_fields)
  have m: "has (fst rtr_call) ATTR_MAX_DEST_RD_ATOMIC" "\<not> has (fst rtr_call) ATTR_PKEY_INDEX"
    "is_power_of_two (ucast (qa_max_dest_rd_atomic (snd rtr_call)))"
    by code_simp+
  have en: "qa_ah_attr_enabled demo_attr" by (simp add: demo_attr_def)
  have v: "qa_path_mtu (snd rtr_call) = MTU_SIZE_1K_BYTES" "qa_rq_psn (snd rtr_call) = 0x1000007"
    "qa_dest_qp_num (snd rtr_call) = 5" "qa_max_dest_rd_atomic (snd rtr_call) = 16"
    "ah_gid (qa_ah_attr (snd rtr_call)) = map of_nat [1..<17]"
    "ah_sgid_index (qa_ah_attr (snd rtr_call)) = 1"
    "ah_addr_type (qa_ah_attr (snd rtr_call)) = ADDR_TYPE_IPv4"
    by (simp_all add: rtr_call_def demo_attr_def new_qp_attr_def new_ah_attr_def)
  have c: "e = DOCA_SUCCESS" "connection_of (fst rtr_call) (snd rtr_call) (snd rtr_start) b"
    "address_of (qa_ah_attr (snd rtr_call)) (qa_ah_attr b)"
    using query_reads_back_what_modify_set [OF ctx_driver_contract ctx_driver_stores r s l q] e en
    by simp_all
  have "qa_current_state b = QP_STATE_RTR \<and> qa_path_mtu b = MTU_SIZE_1K_BYTES \<and>
      qa_rq_psn b = 7 \<and> qa_dest_qp_num b = 5 \<and> qa_max_dest_rd_atomic b = 16 \<and> qa_pkey_index b = 3"
    using c(2) m v p by (simp add: connection_of_def)
  moreover have "ah_sgid_index (qa_ah_attr b) = 1 \<and> ah_gid (qa_ah_attr b) = map of_nat [1..<17]"
    using c(3) v by (simp add: address_of_def)
  ultimately show ?thesis using r q c(1) by simp
qed

end
