(* ===== verification/DevCommon.thy ===== *)
theory DevCommon
  imports Utils
begin

text \<open>
  The primitives of the device (GPU) library,
  \<^verbatim>\<open>include/device/doca_gpunetio_dev_verbs_common.cuh\<close>: how a resource is shared
  between threads, the atomic operations on the indices of a queue, and the spin lock.

  Every atomic is modelled as one indivisible step on the value of its cell, and memory is
  sequentially consistent: the fences and the memory orders of the source have no counterpart
  here.  An operation returns what the C function returns and the new contents of the cell.
\<close>

section \<open>Sharing modes\<close>

datatype sharing_mode =
    SHARING_MODE_EXCLUSIVE
  | SHARING_MODE_CTA
  | SHARING_MODE_GPU
  | SHARING_MODE_MAX

text \<open>The last constructor is the sentinel of the C enum; no function has code for it.\<close>

abbreviation shareable :: "sharing_mode \<Rightarrow> bool" where
  "shareable mode \<equiv> mode \<noteq> SHARING_MODE_MAX"

section \<open>Atomic operations: (returned value, new contents)\<close>

definition atomic_max :: "sharing_mode \<Rightarrow> u64 \<Rightarrow> u64 \<Rightarrow> u64 \<times> u64" where
  "atomic_max mode cell v =
    (case mode of
       SHARING_MODE_EXCLUSIVE \<Rightarrow> (let old_val = cell in (old_val, max old_val v))
     | SHARING_MODE_CTA \<Rightarrow> (cell, max cell v)
     | SHARING_MODE_GPU \<Rightarrow> (cell, max cell v)
     | SHARING_MODE_MAX \<Rightarrow> (0, cell))"

definition atomic_add :: "sharing_mode \<Rightarrow> u64 \<Rightarrow> u64 \<Rightarrow> u64 \<times> u64" where
  "atomic_add mode cell v =
    (case mode of
       SHARING_MODE_EXCLUSIVE \<Rightarrow> (let old_val = cell in (old_val, old_val + v))
     | SHARING_MODE_CTA \<Rightarrow> (cell, cell + v)
     | SHARING_MODE_GPU \<Rightarrow> (cell, cell + v)
     | SHARING_MODE_MAX \<Rightarrow> (0, cell))"

definition load_relaxed :: "sharing_mode \<Rightarrow> u64 \<Rightarrow> u64" where
  "load_relaxed mode cell =
    (case mode of
       SHARING_MODE_EXCLUSIVE \<Rightarrow> cell
     | SHARING_MODE_CTA \<Rightarrow> cell
     | SHARING_MODE_GPU \<Rightarrow> cell
     | SHARING_MODE_MAX \<Rightarrow> 0)"

lemma atomic_max_shareable [simp]: "shareable mode \<Longrightarrow> atomic_max mode c v = (c, max c v)"
  by (cases mode) (simp_all add: atomic_max_def)

lemma atomic_add_shareable [simp]: "shareable mode \<Longrightarrow> atomic_add mode c v = (c, c + v)"
  by (cases mode) (simp_all add: atomic_add_def)

lemma load_relaxed_shareable [simp]: "shareable mode \<Longrightarrow> load_relaxed mode c = c"
  by (cases mode) (simp_all add: load_relaxed_def)

section \<open>The lock\<close>

text \<open>
  One attempt to take the lock: whether it succeeded, and the new contents.  The exclusive mode
  stores unconditionally; the shared modes are one \<^verbatim>\<open>atomicCAS(lock, 0, 1)\<close>, which
  the caller repeats until it succeeds.
\<close>

definition lock_attempt :: "sharing_mode \<Rightarrow> int \<Rightarrow> bool \<times> int" where
  "lock_attempt mode l =
    (case mode of
       SHARING_MODE_EXCLUSIVE \<Rightarrow> (True, 1)
     | SHARING_MODE_CTA \<Rightarrow> (l = 0, if l = 0 then 1 else l)
     | SHARING_MODE_GPU \<Rightarrow> (l = 0, if l = 0 then 1 else l)
     | SHARING_MODE_MAX \<Rightarrow> (True, l))"

definition unlock :: "sharing_mode \<Rightarrow> int \<Rightarrow> int" where
  "unlock mode l =
    (case mode of
       SHARING_MODE_EXCLUSIVE \<Rightarrow> 0
     | SHARING_MODE_CTA \<Rightarrow> 0
     | SHARING_MODE_GPU \<Rightarrow> 0
     | SHARING_MODE_MAX \<Rightarrow> l)"

end
