(* ===== verification/DevCq.thy ===== *)
theory DevCq
  imports DevCommon
begin

text \<open>
  The device completion queue, \<^verbatim>\<open>include/device/doca_gpunetio_dev_verbs_cq.cuh\<close>.

  The queue is a ring of 64-byte entries (CQEs) the NIC writes and GPU threads poll.  A CQE is
  new when its owner bit equals the parity of the round its index is in.  Polling reads
  \<^verbatim>\<open>cqe_ci\<close> and then one CQE, while the NIC and other threads go on: the waiting
  loops are functions of a history \<open>env\<close> of the shared queue, one value for each read.
\<close>

section \<open>Data\<close>

text \<open>
  Of a CQE the library reads the last four bytes.  \<open>cqe_wqe_counter\<close> is the value as stored,
  in network byte order.
\<close>

record cqe64 =
  cqe_wqe_counter :: u16
  cqe_signature :: u8
  cqe_op_own :: u8

text \<open>\<^verbatim>\<open>struct doca_gpu_dev_verbs_cq\<close>; the two pointers are the array and the
  doorbell record they point to.\<close>

record dev_cq =
  cqe_daddr :: "cqe64 list"
  cq_num :: u32
  cqe_num :: u32
  cq_dbrec :: u32
  cqe_ci :: u64
  cqe_mask :: u32
  cqe_size :: u8
  cqe_rsvd :: u64

definition CQE_REQ_ERR :: u8 where "CQE_REQ_ERR = 13"
definition CQE_INVALID :: u8 where "CQE_INVALID = 15"
definition CQE_CI_MASK :: u32 where "CQE_CI_MASK = 0xFFFFFF"
definition EIO :: int where "EIO = 5"
definition EBUSY :: int where "EBUSY = 16"

section \<open>Polling\<close>

definition cqe_idx_inc_mask :: "u32 \<Rightarrow> u32 \<Rightarrow> u32" where
  "cqe_idx_inc_mask cqe_idx increment = (cqe_idx + increment) AND CQE_CI_MASK"

text \<open>The four bytes from \<^verbatim>\<open>wqe_counter\<close> on, loaded as one little-endian word.\<close>

definition cqe_chunk :: "cqe64 \<Rightarrow> u32" where
  "cqe_chunk e = ucast (cqe_wqe_counter e) OR push_bit 16 (ucast (cqe_signature e))
     OR push_bit 24 (ucast (cqe_op_own e))"

definition chunk_wqe_counter :: "u32 \<Rightarrow> u16" where
  "chunk_wqe_counter chunk = ucast (drop_bit 16 chunk)"

definition chunk_opown :: "u32 \<Rightarrow> u8" where
  "chunk_opown chunk = ucast (chunk AND 0xff)"

definition opown_opcode :: "u8 \<Rightarrow> u8" where
  "opown_opcode opown = drop_bit 4 opown"

definition poll_status :: "u8 \<Rightarrow> int" where
  "poll_status opcode = (if opcode = CQE_REQ_ERR then - EIO else 0)"

text \<open>\<^verbatim>\<open>(opown & OWNER_MASK) ^ !!(cons_index_in_cq & cqe_num)\<close>\<close>

definition owner_differs :: "u8 \<Rightarrow> u64 \<Rightarrow> u32 \<Rightarrow> bool" where
  "owner_differs opown index_in_cq n \<longleftrightarrow> (opown AND 1 \<noteq> 0) \<noteq> (index_in_cq AND ucast n \<noteq> 0)"

text \<open>
  Whether the CQE is the completion looked for.  GPUs from compute capability 9.0 on (\<open>hopper\<close>) read the
  owner byte only; older ones read the whole chunk and compare the WQE counter too.
\<close>

definition observed_completion :: "bool \<Rightarrow> cqe64 \<Rightarrow> u64 \<Rightarrow> u64 \<Rightarrow> u32 \<Rightarrow> bool" where
  "observed_completion hopper e cons_index cons_index_in_cq n =
    (if hopper then \<not> owner_differs (cqe_op_own e) cons_index_in_cq n
     else let chunk = bswap32 (cqe_chunk e)
          in \<not> owner_differs (chunk_opown chunk) cons_index_in_cq n
             \<and> ucast (chunk_wqe_counter chunk) = ((ucast cons_index :: u32) AND 0xffff))"

definition observed_opown :: "bool \<Rightarrow> cqe64 \<Rightarrow> u8" where
  "observed_opown hopper e = (if hopper then cqe_op_own e else chunk_opown (bswap32 (cqe_chunk e)))"

definition cqe_slot :: "dev_cq \<Rightarrow> u64 \<Rightarrow> nat" where
  "cqe_slot cq cons_index_in_cq =
    unat (ucast (cons_index_in_cq AND ucast (cqe_num cq - 1)) :: u32)"

definition priv_poll_one_cq_at :: "bool \<Rightarrow> sharing_mode \<Rightarrow> dev_cq \<Rightarrow> u64 \<Rightarrow> int" where
  "priv_poll_one_cq_at hopper mode cq cons_index =
    (let cons_index_in_cq = cons_index + cqe_rsvd cq;
         e = cqe_daddr cq ! cqe_slot cq cons_index_in_cq;
         ci = load_relaxed mode (cqe_ci cq)
     in if cons_index < ci then 0
        else if cons_index \<ge> ci + ucast (cqe_num cq) then EBUSY
        else if \<not> observed_completion hopper e cons_index cons_index_in_cq (cqe_num cq) then EBUSY
        else poll_status (opown_opcode (observed_opown hopper e)))"

definition advance_ci :: "sharing_mode \<Rightarrow> dev_cq \<Rightarrow> u64 \<Rightarrow> dev_cq" where
  "advance_ci mode cq v = cq\<lparr>cqe_ci := snd (atomic_max mode (cqe_ci cq) v)\<rparr>"

definition poll_one_cq_at :: "bool \<Rightarrow> sharing_mode \<Rightarrow> dev_cq \<Rightarrow> u64 \<Rightarrow> int \<times> dev_cq" where
  "poll_one_cq_at hopper mode cq cons_index =
    (let status = priv_poll_one_cq_at hopper mode cq cons_index
     in (status, if status = 0 then advance_ci mode cq (cons_index + 1) else cq))"

text \<open>
  The waiting loop.  Its iteration at time \<open>t\<close> loads \<^verbatim>\<open>cqe_ci\<close> from \<open>env t\<close> and the
  CQE from \<open>env (t + 1)\<close>; the fields that never change are read once, from \<open>env 0\<close>.  The
  result carries the time of the last load.  A loop that never ends is \<open>None\<close>.
\<close>

partial_function (option) poll_cq_loop ::
  "bool \<Rightarrow> sharing_mode \<Rightarrow> (nat \<Rightarrow> dev_cq) \<Rightarrow> u64 \<Rightarrow> nat \<Rightarrow> (int \<times> nat) option" where
  "poll_cq_loop hopper mode env cons_index t =
    (let n = cqe_num (env 0);
         cons_index_in_cq = cons_index + cqe_rsvd (env 0);
         ci = load_relaxed mode (cqe_ci (env t))
     in if cons_index < ci then Some (0, t)
        else
          let e = cqe_daddr (env (t + 1)) ! cqe_slot (env 0) cons_index_in_cq
          in if cons_index \<ge> ci + ucast n
                \<or> ci \<le> cons_index \<and> \<not> observed_completion hopper e cons_index cons_index_in_cq n
             then poll_cq_loop hopper mode env cons_index (t + 2)
             else Some (poll_status (opown_opcode (observed_opown hopper e)), t + 1))"

definition priv_poll_cq_at ::
  "bool \<Rightarrow> sharing_mode \<Rightarrow> (nat \<Rightarrow> dev_cq) \<Rightarrow> u64 \<Rightarrow> (int \<times> nat) option" where
  "priv_poll_cq_at hopper mode env cons_index = poll_cq_loop hopper mode env cons_index 0"

text \<open>The update of the consumer index is atomic on the queue as it is one moment later.\<close>

definition poll_cq_at ::
  "bool \<Rightarrow> sharing_mode \<Rightarrow> (nat \<Rightarrow> dev_cq) \<Rightarrow> u64 \<Rightarrow> (int \<times> dev_cq) option" where
  "poll_cq_at hopper mode env cons_index =
    (case priv_poll_cq_at hopper mode env cons_index of
       None \<Rightarrow> None
     | Some (status, t) \<Rightarrow>
         Some (status, if status = 0 then advance_ci mode (env (t + 1)) (cons_index + 1)
                       else env (t + 1)))"

definition poll_cq ::
  "bool \<Rightarrow> sharing_mode \<Rightarrow> (nat \<Rightarrow> dev_cq) \<Rightarrow> u32 \<Rightarrow> (int \<times> dev_cq) option" where
  "poll_cq hopper mode env count =
    (if count = 0 then Some (0, env 0)
     else let cons_index = load_relaxed mode (cqe_ci (env 0)) + ucast count - 1
          in poll_cq_at hopper mode (\<lambda>t. env (t + 1)) cons_index)"

text \<open>The older interface: the consumer index modulo \<open>2 ^ 24\<close> and its doorbell record.\<close>

definition cq_update_dbrec :: "bool \<Rightarrow> dev_cq \<Rightarrow> u32 \<Rightarrow> u32 \<times> dev_cq" where
  "cq_update_dbrec is_overrun cq n =
    (let ci = (ucast (cqe_ci cq) + n) AND CQE_CI_MASK;
         cq = (if is_overrun then cq else cq\<lparr>cq_dbrec := bswap32 ci\<rparr>)
     in (ci, cq\<lparr>cqe_ci := ucast ci\<rparr>))"

section \<open>The collapsed queue: every completion overwrites the one CQE\<close>

text \<open>
  \<open>wqe_pi t\<close> is the producer index of the send queue as loaded at time \<open>t\<close>.  The first loop
  waits until it reaches \<open>cons_index\<close>; the second one polls the CQE.
\<close>

partial_function (option) wait_wqe_pi :: "(nat \<Rightarrow> u64) \<Rightarrow> u64 \<Rightarrow> nat \<Rightarrow> nat option" where
  "wait_wqe_pi wqe_pi cons_index t =
    (if wqe_pi t < cons_index then wait_wqe_pi wqe_pi cons_index (t + 1) else Some (t + 1))"

definition collapsed_new_ci :: "u64 \<Rightarrow> u16 \<Rightarrow> u64" where
  "collapsed_new_ci cons_index wqe_counter =
    (cons_index AND NOT 0xFFFF OR ucast wqe_counter)
    + (if (ucast cons_index :: u16) > wqe_counter then 0x10000 else 0)"

definition collapsed_pending :: "u64 \<Rightarrow> u16 \<Rightarrow> u32 \<Rightarrow> bool" where
  "collapsed_pending cons_index wqe_counter n \<longleftrightarrow>
    ucast ((ucast cons_index :: u16) - wqe_counter - 2) < n"

partial_function (option) poll_cq_collapsed_loop ::
  "sharing_mode \<Rightarrow> (nat \<Rightarrow> dev_cq) \<Rightarrow> u64 \<Rightarrow> nat \<Rightarrow> (int \<times> u64 option \<times> nat) option" where
  "poll_cq_collapsed_loop mode env cons_index t =
    (let ci = load_relaxed mode (cqe_ci (env t))
     in if cons_index < ci then Some (0, None, t)
        else
          let chunk = bswap32 (cqe_chunk (cqe_daddr (env (t + 1)) ! 0));
              wqe_counter = chunk_wqe_counter chunk;
              opcode = opown_opcode (chunk_opown chunk)
          in if opcode = CQE_INVALID
                \<or> ci \<le> cons_index \<and> collapsed_pending cons_index wqe_counter (cqe_num (env 0))
             then poll_cq_collapsed_loop mode env cons_index (t + 2)
             else Some (poll_status opcode,
                        Some (collapsed_new_ci cons_index (wqe_counter + 1)), t + 1))"

definition poll_cq_collapsed_at ::
  "sharing_mode \<Rightarrow> (nat \<Rightarrow> u64) \<Rightarrow> (nat \<Rightarrow> dev_cq) \<Rightarrow> u64 \<Rightarrow> (int \<times> dev_cq) option" where
  "poll_cq_collapsed_at mode wqe_pi env cons_index =
    (case wait_wqe_pi wqe_pi cons_index 0 of
       None \<Rightarrow> None
     | Some t0 \<Rightarrow>
        (case poll_cq_collapsed_loop mode env cons_index t0 of
           None \<Rightarrow> None
         | Some (status, new_cqe_ci, t) \<Rightarrow>
             Some (status,
               if status = 0
               then advance_ci mode (env (t + 1)) (case new_cqe_ci of None \<Rightarrow> 0 | Some v \<Rightarrow> v)
               else env (t + 1))))"

end
