(* ===== verification/DevQp.thy ===== *)
theory DevQp
  imports DevCq
begin

text \<open>
  The device queue pair: \<^verbatim>\<open>struct doca_gpu_dev_verbs_qp\<close>, the fields the host computes
  for it (\<^verbatim>\<open>src/doca_gpunetio.cpp\<close>), the address of a work queue entry, and byte
  memory with 32- and 64-bit accesses.  The GPU is little-endian.
\<close>

section \<open>The record\<close>

datatype nic_handler =
    NIC_HANDLER_AUTO
  | NIC_HANDLER_CPU_PROXY
  | NIC_HANDLER_GPU_SM_DB
  | NIC_HANDLER_GPU_SM_BF
  | NIC_HANDLER_GPU_SM_NO_DBR
  | NIC_HANDLER_TYPE_MAX

datatype mem_type = MEM_TYPE_AUTO | MEM_TYPE_HOST | MEM_TYPE_GPU | MEM_TYPE_MAX

text \<open>
  \<open>sq_wqe_daddr\<close> is an address; the doorbell record and the doorbell register are written only,
  and the operations report these writes, so the record has no field for their contents.
\<close>

record dev_qp =
  sq_rsvd_index :: u64
  sq_ready_index :: u64
  sq_wqe_pi :: u64
  sq_num :: u32
  sq_num_shift8 :: u32
  sq_num_shift8_be :: u32
  sq_num_shift8_be_1ds :: u32
  sq_num_shift8_be_2ds :: u32
  sq_num_shift8_be_3ds :: u32
  sq_num_shift8_be_4ds :: u32
  sq_num_shift8_be_5ds :: u32
  sq_lock :: int
  sq_wqe_num :: u16
  sq_wqe_mask :: u16
  sq_wqe_daddr :: nat
  cq_sq :: dev_cq
  qp_nic_handler :: nic_handler
  qp_mem_type :: mem_type

text \<open>
  What the host stores when it creates the device view: the size is cut to 16 bits and the
  number is kept in the six forms the segments need.
\<close>

definition init_dev_qp :: "u32 \<Rightarrow> u32 \<Rightarrow> nat \<Rightarrow> dev_cq \<Rightarrow> nic_handler \<Rightarrow> dev_qp" where
  "init_dev_qp num wqe_num daddr cq handler =
    (let shift8 = push_bit 8 num in
     \<lparr>sq_rsvd_index = 0, sq_ready_index = 0, sq_wqe_pi = 0, sq_num = num,
      sq_num_shift8 = shift8,
      sq_num_shift8_be = bswap32 shift8,
      sq_num_shift8_be_1ds = bswap32 (shift8 OR 1),
      sq_num_shift8_be_2ds = bswap32 (shift8 OR 2),
      sq_num_shift8_be_3ds = bswap32 (shift8 OR 3),
      sq_num_shift8_be_4ds = bswap32 (shift8 OR 4),
      sq_num_shift8_be_5ds = bswap32 (shift8 OR 5),
      sq_lock = 0, sq_wqe_num = ucast wqe_num, sq_wqe_mask = ucast wqe_num - 1,
      sq_wqe_daddr = daddr, cq_sq = cq, qp_nic_handler = handler, qp_mem_type = MEM_TYPE_GPU\<rparr>)"

definition num_fields_ok :: "dev_qp \<Rightarrow> bool" where
  "num_fields_ok qp \<longleftrightarrow>
    unat (sq_num qp) < 2 ^ 24 \<and>
    sq_num_shift8 qp = push_bit 8 (sq_num qp) \<and>
    sq_num_shift8_be qp = bswap32 (sq_num_shift8 qp) \<and>
    sq_num_shift8_be_1ds qp = bswap32 (sq_num_shift8 qp OR 1) \<and>
    sq_num_shift8_be_2ds qp = bswap32 (sq_num_shift8 qp OR 2) \<and>
    sq_num_shift8_be_3ds qp = bswap32 (sq_num_shift8 qp OR 3) \<and>
    sq_num_shift8_be_4ds qp = bswap32 (sq_num_shift8 qp OR 4) \<and>
    sq_num_shift8_be_5ds qp = bswap32 (sq_num_shift8 qp OR 5)"

lemma init_num_fields_ok: "unat num < 2 ^ 24 \<Longrightarrow> num_fields_ok (init_dev_qp num w d cq h)"
  by (simp add: num_fields_ok_def init_dev_qp_def Let_def)

section \<open>Where a work queue entry is\<close>

definition get_wqe_ptr :: "dev_qp \<Rightarrow> u16 \<Rightarrow> nat" where
  "get_wqe_ptr qp wqe_idx =
    (let idx = wqe_idx AND sq_wqe_mask qp in sq_wqe_daddr qp + push_bit 6 (unat idx))"

definition ring_fields_ok :: "dev_qp \<Rightarrow> bool" where
  "ring_fields_ok qp \<longleftrightarrow>
    sq_wqe_mask qp = sq_wqe_num qp - 1 \<and> (\<exists>a < 16. sq_wqe_num qp = 2 ^ a)"

lemma init_ring_fields_ok:
  assumes "w = 2 ^ a" "a < 16"
  shows "ring_fields_ok (init_dev_qp num w d cq h)"
proof -
  have "(2 :: nat) ^ a < 2 ^ 16" using assms(2) by (rule power_strict_increasing) simp
  then have "(ucast w :: u16) = 2 ^ a"
    using assms by (simp add: word_unat_eq_iff unat_ucast_mod unat_pow2)
  with assms(2) show ?thesis
    by (auto simp: ring_fields_ok_def init_dev_qp_def Let_def)
qed

text \<open>On a power-of-two ring, the entry of index \<open>i\<close> is slot \<open>i mod n\<close>, 64 bytes each.\<close>

lemma get_wqe_ptr_mod:
  assumes "ring_fields_ok qp"
  shows "get_wqe_ptr qp i = sq_wqe_daddr qp + 64 * (unat i mod unat (sq_wqe_num qp))"
proof -
  obtain a where a: "a < 16" "sq_wqe_num qp = 2 ^ a" "sq_wqe_mask qp = sq_wqe_num qp - 1"
    using assms by (auto simp: ring_fields_ok_def)
  then have "sq_wqe_mask qp = mask a" by (simp add: mask_eq_decr_exp)
  then show ?thesis
    using a by (simp add: get_wqe_ptr_def Let_def unat_and_mask unat_pow2 push_bit_eq_mult)
qed

section \<open>Memory accesses\<close>

definition store32 :: "memory \<Rightarrow> nat \<Rightarrow> u32 \<Rightarrow> memory" where
  "store32 m a v =
    m(a := ucast v, a + 1 := ucast (drop_bit 8 v), a + 2 := ucast (drop_bit 16 v),
      a + 3 := ucast (drop_bit 24 v))"

definition store64 :: "memory \<Rightarrow> nat \<Rightarrow> u64 \<Rightarrow> memory" where
  "store64 m a v = store32 (store32 m a (ucast v)) (a + 4) (ucast (drop_bit 32 v))"

definition load32 :: "memory \<Rightarrow> nat \<Rightarrow> u32" where
  "load32 m a =
    ucast (m a) OR push_bit 8 (ucast (m (a + 1))) OR push_bit 16 (ucast (m (a + 2)))
    OR push_bit 24 (ucast (m (a + 3)))"

text \<open>The NIC reads its 32- and 64-bit fields in network byte order.\<close>

definition be32 :: "memory \<Rightarrow> nat \<Rightarrow> u32" where
  "be32 m a =
    push_bit 24 (ucast (m a)) OR push_bit 16 (ucast (m (a + 1)))
    OR push_bit 8 (ucast (m (a + 2))) OR ucast (m (a + 3))"

definition be64 :: "memory \<Rightarrow> nat \<Rightarrow> u64" where
  "be64 m a = push_bit 32 (ucast (be32 m a)) OR ucast (be32 m (a + 4))"

lemma store32_frame: "b < a \<or> a + 4 \<le> b \<Longrightarrow> store32 m a v b = m b"
  by (auto simp: store32_def)

lemma byte_cases_32:
  "(\<And>r. r < 8 \<Longrightarrow> P r) \<Longrightarrow> (\<And>r. r < 8 \<Longrightarrow> P (8 + r)) \<Longrightarrow> (\<And>r. r < 8 \<Longrightarrow> P (16 + r)) \<Longrightarrow>
   (\<And>r. r < 8 \<Longrightarrow> P (24 + r)) \<Longrightarrow> n < 32 \<Longrightarrow> P (n :: nat)"
proof -
  assume h: "\<And>r. r < 8 \<Longrightarrow> P r" "\<And>r. r < 8 \<Longrightarrow> P (8 + r)" "\<And>r. r < 8 \<Longrightarrow> P (16 + r)"
    "\<And>r. r < 8 \<Longrightarrow> P (24 + r)" and n: "n < 32"
  have "n < 8 \<or> (\<exists>r<8. n = 8 + r) \<or> (\<exists>r<8. n = 16 + r) \<or> (\<exists>r<8. n = 24 + r)"
    using n by presburger
  with h show "P n" by blast
qed

lemma be32_store32 [simp]: "be32 (store32 m a v) a = bswap32 v"
proof (rule bit_word_eqI)
  fix n assume "n < LENGTH(32)"
  then have "n < 32" by simp
  then show "bit (be32 (store32 m a v) a) n = bit (bswap32 v) n"
    by (rule byte_cases_32 [rotated -1])
      (auto simp: be32_def store32_def bswap32_def bit_simps bit_byte_of dest: bit_imp_le_length)
qed

lemma be32_store32_other [simp]:
  "a + 4 \<le> b \<or> b + 4 \<le> a \<Longrightarrow> be32 (store32 m b v) a = be32 m a"
  by (auto simp: be32_def store32_frame)

end
