(* ===== verification/DevWqe.thy ===== *)
theory DevWqe
  imports DevQp
begin

text \<open>
  Work queue entries: the \<^verbatim>\<open>doca_gpu_dev_verbs_wqe_prepare_*\<close> functions of
  \<^verbatim>\<open>include/device/doca_gpunetio_dev_verbs_qp.cuh\<close>.

  A segment is sixteen bytes, written with one vector store; it is modelled as its four 32-bit
  words.  The C functions leave some fields of their local segments uninitialised: those fields
  are taken from a \<open>stack_junk\<close> argument, which can be anything.  Memory keys are passed through
  as they are, \<^verbatim>\<open>DOCA_GPUNETIO_VERBS_MKEY_SWAPPED\<close> being 1.
\<close>

section \<open>Segments\<close>

record ctrl_seg =
  cs_opmod_idx_opcode :: u32
  cs_qpn_ds :: u32
  cs_signature :: u8
  cs_dci_stream_channel_id :: u16
  cs_fm_ce_se :: u8
  cs_imm :: u32

record raddr_seg =
  rs_raddr :: u64
  rs_rkey :: u32
  rs_reserved :: u32

record data_seg =
  ds_byte_count :: u32
  ds_lkey :: u32
  ds_addr :: u64

record atomic_seg =
  as_swap_add :: u64
  as_compare :: u64

record wait_seg =
  ws_resv0 :: u32
  ws_resv1 :: u32
  ws_max_index :: u32
  ws_qpn_cqn :: u32

type_synonym seg = "u32 \<times> u32 \<times> u32 \<times> u32"

definition lo32 :: "u64 \<Rightarrow> u32" where "lo32 x = ucast x"
definition hi32 :: "u64 \<Rightarrow> u32" where "hi32 x = ucast (drop_bit 32 x)"

definition ctrl_words :: "ctrl_seg \<Rightarrow> seg" where
  "ctrl_words s =
    (cs_opmod_idx_opcode s, cs_qpn_ds s,
     ucast (cs_signature s) OR push_bit 8 (ucast (cs_dci_stream_channel_id s))
       OR push_bit 24 (ucast (cs_fm_ce_se s)),
     cs_imm s)"

definition raddr_words :: "raddr_seg \<Rightarrow> seg" where
  "raddr_words s = (lo32 (rs_raddr s), hi32 (rs_raddr s), rs_rkey s, rs_reserved s)"

definition data_words :: "data_seg \<Rightarrow> seg" where
  "data_words s = (ds_byte_count s, ds_lkey s, lo32 (ds_addr s), hi32 (ds_addr s))"

definition atomic_words :: "atomic_seg \<Rightarrow> seg" where
  "atomic_words s =
    (lo32 (as_swap_add s), hi32 (as_swap_add s), lo32 (as_compare s), hi32 (as_compare s))"

definition wait_words :: "wait_seg \<Rightarrow> seg" where
  "wait_words s = (ws_resv0 s, ws_resv1 s, ws_max_index s, ws_qpn_cqn s)"

definition store_wqe_seg :: "memory \<Rightarrow> nat \<Rightarrow> seg \<Rightarrow> memory" where
  "store_wqe_seg m p w =
    (case w of (w0, w1, w2, w3) \<Rightarrow>
       store32 (store32 (store32 (store32 m p w0) (p + 4) w1) (p + 8) w2) (p + 12) w3)"

text \<open>Addresses of \<^verbatim>\<open>dseg1\<close> to \<^verbatim>\<open>dseg3\<close> in a 64-byte entry; \<^verbatim>\<open>dseg0\<close> is at its start.\<close>

abbreviation dseg1 :: "nat \<Rightarrow> nat" where "dseg1 p \<equiv> p + 16"
abbreviation dseg2 :: "nat \<Rightarrow> nat" where "dseg2 p \<equiv> p + 32"
abbreviation dseg3 :: "nat \<Rightarrow> nat" where "dseg3 p \<equiv> p + 48"

text \<open>What the uninitialised locals happen to hold.\<close>

record stack_junk =
  jk_ctrl :: ctrl_seg
  jk_raddr :: raddr_seg
  jk_wait :: wait_seg
  jk_seg :: seg

section \<open>Constants\<close>

definition OPCODE_NOP :: u32 where "OPCODE_NOP = 0x00"
definition OPCODE_RDMA_WRITE :: u32 where "OPCODE_RDMA_WRITE = 0x08"
definition OPCODE_RDMA_READ :: u32 where "OPCODE_RDMA_READ = 0x10"
definition OPCODE_ATOMIC_FA :: u32 where "OPCODE_ATOMIC_FA = 0x12"
definition OPCODE_ATOMIC_MASKED_CS :: u32 where "OPCODE_ATOMIC_MASKED_CS = 0x14"
definition OPCODE_ATOMIC_MASKED_FA :: u32 where "OPCODE_ATOMIC_MASKED_FA = 0x15"
definition OPCODE_WAIT :: u32 where "OPCODE_WAIT = 0x0f"
definition OPCODE_DUMP :: u32 where "OPCODE_DUMP = 0x23"
definition INLINE_SEG :: u32 where "INLINE_SEG = 0x80000000"
definition MAX_INLINE_SIZE :: u32 where "MAX_INLINE_SIZE = 28"
definition OPMOD_4_BYTE_ATOMIC_EXT :: u32 where "OPMOD_4_BYTE_ATOMIC_EXT = 0x08000000"
definition OPMOD_8_BYTE_ATOMIC_EXT :: u32 where "OPMOD_8_BYTE_ATOMIC_EXT = 0x09000000"

section \<open>Preparing entries\<close>

definition opmod_idx_opcode :: "u16 \<Rightarrow> u32 \<Rightarrow> u32" where
  "opmod_idx_opcode wqe_idx opcode = bswap32 (push_bit 8 (ucast wqe_idx) OR opcode)"

definition remote :: "stack_junk \<Rightarrow> u64 \<Rightarrow> u32 \<Rightarrow> raddr_seg" where
  "remote junk raddr rkey = (jk_raddr junk)\<lparr>rs_raddr := bswap64 raddr, rs_rkey := rkey\<rparr>"

definition local_data :: "u64 \<Rightarrow> u32 \<Rightarrow> u32 \<Rightarrow> data_seg" where
  "local_data laddr lkey byte_count =
    \<lparr>ds_byte_count = bswap32 byte_count, ds_lkey = lkey, ds_addr = bswap64 laddr\<rparr>"

definition wqe_prepare_nop ::
  "stack_junk \<Rightarrow> dev_qp \<Rightarrow> memory \<Rightarrow> nat \<Rightarrow> u16 \<Rightarrow> u32 \<Rightarrow> memory" where
  "wqe_prepare_nop junk qp m wqe_ptr wqe_idx ctrl_flags =
    (let cseg = (jk_ctrl junk)\<lparr>cs_opmod_idx_opcode := opmod_idx_opcode wqe_idx OPCODE_NOP,
                  cs_qpn_ds := sq_num_shift8_be_1ds qp, cs_fm_ce_se := ucast ctrl_flags\<rparr>
     in store_wqe_seg m wqe_ptr (ctrl_words cseg))"

definition wqe_prepare_write ::
  "stack_junk \<Rightarrow> dev_qp \<Rightarrow> memory \<Rightarrow> nat \<Rightarrow> u16 \<Rightarrow> u32 \<Rightarrow> u32 \<Rightarrow> u32 \<Rightarrow> u64 \<Rightarrow> u32 \<Rightarrow>
   u64 \<Rightarrow> u32 \<Rightarrow> u32 \<Rightarrow> memory" where
  "wqe_prepare_write junk qp m wqe_ptr wqe_idx opcode ctrl_flags immediate raddr rkey
      laddr0 lkey0 bytes0 =
    (let cseg = (jk_ctrl junk)\<lparr>cs_opmod_idx_opcode := opmod_idx_opcode wqe_idx opcode,
                  cs_qpn_ds := sq_num_shift8_be_3ds qp, cs_fm_ce_se := ucast ctrl_flags,
                  cs_imm := immediate\<rparr>;
         rseg = remote junk raddr rkey;
         dseg = local_data laddr0 lkey0 (bytes0 AND (INLINE_SEG - 1));
         m = store_wqe_seg m wqe_ptr (ctrl_words cseg);
         m = store_wqe_seg m (dseg1 wqe_ptr) (raddr_words rseg)
     in store_wqe_seg m (dseg2 wqe_ptr) (data_words dseg))"

definition wqe_prepare_write2 ::
  "stack_junk \<Rightarrow> dev_qp \<Rightarrow> memory \<Rightarrow> nat \<Rightarrow> u16 \<Rightarrow> u32 \<Rightarrow> u32 \<Rightarrow> u32 \<Rightarrow> u64 \<Rightarrow> u32 \<Rightarrow>
   u64 \<Rightarrow> u32 \<Rightarrow> u32 \<Rightarrow> u64 \<Rightarrow> u32 \<Rightarrow> u32 \<Rightarrow> memory" where
  "wqe_prepare_write2 junk qp m wqe_ptr wqe_idx opcode ctrl_flags immediate raddr rkey
      laddr0 lkey0 bytes0 laddr1 lkey1 bytes1 =
    (let cseg = (jk_ctrl junk)\<lparr>cs_opmod_idx_opcode := opmod_idx_opcode wqe_idx opcode,
                  cs_qpn_ds := sq_num_shift8_be_4ds qp, cs_fm_ce_se := ucast ctrl_flags,
                  cs_imm := immediate\<rparr>;
         rseg = remote junk raddr rkey;
         d0 = local_data laddr0 lkey0 (bytes0 AND (INLINE_SEG - 1));
         d1 = local_data laddr1 lkey1 (bytes1 AND (INLINE_SEG - 1));
         m = store_wqe_seg m wqe_ptr (ctrl_words cseg);
         m = store_wqe_seg m (dseg1 wqe_ptr) (raddr_words rseg);
         m = store_wqe_seg m (dseg2 wqe_ptr) (data_words d0)
     in store_wqe_seg m (dseg3 wqe_ptr) (data_words d1))"

text \<open>The device \<^verbatim>\<open>assert\<close> traps: no result.\<close>

definition prepare_inl_rdma_write_wqe_header ::
  "stack_junk \<Rightarrow> dev_qp \<Rightarrow> memory \<Rightarrow> nat \<Rightarrow> u16 \<Rightarrow> u32 \<Rightarrow> u64 \<Rightarrow> u32 \<Rightarrow> u32 \<Rightarrow> memory option"
where
  "prepare_inl_rdma_write_wqe_header junk qp m wqe_ptr wqe_idx ctrl_flags raddr rkey bytes =
    (let ds = (if bytes > 16 - 4 then 4 else 3)
     in if \<not> bytes \<le> MAX_INLINE_SIZE then None
        else
          let cseg = (jk_ctrl junk)\<lparr>cs_opmod_idx_opcode := opmod_idx_opcode wqe_idx OPCODE_RDMA_WRITE,
                       cs_qpn_ds := bswap32 (sq_num_shift8 qp OR ds), cs_fm_ce_se := ucast ctrl_flags\<rparr>;
              rseg = remote junk raddr rkey;
              m = store_wqe_seg m wqe_ptr (ctrl_words cseg)
          in Some (store_wqe_seg m (dseg1 wqe_ptr) (raddr_words rseg)))"

text \<open>
  The data of a small type \<^verbatim>\<open>T\<close>, as its bytes.  Up to four bytes are stored as they are,
  anything larger as two 32-bit words.
\<close>

definition store_bytes :: "memory \<Rightarrow> nat \<Rightarrow> u8 list \<Rightarrow> memory" where
  "store_bytes m p bs = (\<lambda>a. if p \<le> a \<and> a < p + length bs then bs ! (a - p) else m a)"

definition prepare_inl_rdma_write_wqe_data :: "memory \<Rightarrow> nat \<Rightarrow> u8 list \<Rightarrow> memory" where
  "prepare_inl_rdma_write_wqe_data m wqe_ptr data =
    (let data_seg_ptr = wqe_ptr + 32;
         bytes = of_nat (length data) :: u32;
         m = store32 m data_seg_ptr (bswap32 (bytes OR INLINE_SEG))
     in if bytes \<le> 4 then store_bytes m (data_seg_ptr + 4) data
        else store_bytes m (data_seg_ptr + 4) (take 8 data))"

definition wqe_prepare_write_inl ::
  "stack_junk \<Rightarrow> dev_qp \<Rightarrow> memory \<Rightarrow> nat \<Rightarrow> u16 \<Rightarrow> u32 \<Rightarrow> u64 \<Rightarrow> u32 \<Rightarrow> u64 \<Rightarrow> u32 \<Rightarrow> memory option"
where
  "wqe_prepare_write_inl junk qp m wqe_ptr wqe_idx ctrl_flags raddr rkey laddr bytes =
    (let data_seg_ptr = wqe_ptr + 32
     in case prepare_inl_rdma_write_wqe_header junk qp m wqe_ptr wqe_idx ctrl_flags raddr rkey bytes of
          None \<Rightarrow> None
        | Some m \<Rightarrow>
            let m = store32 m data_seg_ptr (bswap32 (bytes OR INLINE_SEG))
            in Some (memcpy_data m (data_seg_ptr + 4) (unat laddr) (unat bytes)))"

definition wqe_prepare_read ::
  "stack_junk \<Rightarrow> dev_qp \<Rightarrow> memory \<Rightarrow> nat \<Rightarrow> u16 \<Rightarrow> u32 \<Rightarrow> u64 \<Rightarrow> u32 \<Rightarrow> u64 \<Rightarrow> u32 \<Rightarrow> u32 \<Rightarrow> memory"
where
  "wqe_prepare_read junk qp m wqe_ptr wqe_idx ctrl_flags raddr rkey laddr0 lkey0 bytes0 =
    (let cseg = (jk_ctrl junk)\<lparr>cs_opmod_idx_opcode := opmod_idx_opcode wqe_idx OPCODE_RDMA_READ,
                  cs_qpn_ds := sq_num_shift8_be_3ds qp, cs_fm_ce_se := ucast ctrl_flags\<rparr>;
         rseg = remote junk raddr rkey;
         dseg = local_data laddr0 lkey0 bytes0;
         m = store_wqe_seg m wqe_ptr (ctrl_words cseg);
         m = store_wqe_seg m (dseg1 wqe_ptr) (raddr_words rseg)
     in store_wqe_seg m (dseg2 wqe_ptr) (data_words dseg))"

definition wqe_prepare_read2 ::
  "stack_junk \<Rightarrow> dev_qp \<Rightarrow> memory \<Rightarrow> nat \<Rightarrow> u16 \<Rightarrow> u32 \<Rightarrow> u64 \<Rightarrow> u32 \<Rightarrow>
   u64 \<Rightarrow> u32 \<Rightarrow> u32 \<Rightarrow> u64 \<Rightarrow> u32 \<Rightarrow> u32 \<Rightarrow> memory" where
  "wqe_prepare_read2 junk qp m wqe_ptr wqe_idx ctrl_flags raddr rkey
      laddr0 lkey0 bytes0 laddr1 lkey1 bytes1 =
    (let cseg = (jk_ctrl junk)\<lparr>cs_opmod_idx_opcode := opmod_idx_opcode wqe_idx OPCODE_RDMA_READ,
                  cs_qpn_ds := bswap32 (sq_num_shift8 qp OR 4), cs_fm_ce_se := ucast ctrl_flags\<rparr>;
         rseg = remote junk raddr rkey;
         d0 = local_data laddr0 lkey0 (bytes0 AND (INLINE_SEG - 1));
         d1 = local_data laddr1 lkey1 (bytes1 AND (INLINE_SEG - 1));
         m = store_wqe_seg m wqe_ptr (ctrl_words cseg);
         m = store_wqe_seg m (dseg1 wqe_ptr) (raddr_words rseg);
         m = store_wqe_seg m (dseg2 wqe_ptr) (data_words d0)
     in store_wqe_seg m (dseg3 wqe_ptr) (data_words d1))"

definition wqe_prepare_atomic ::
  "stack_junk \<Rightarrow> dev_qp \<Rightarrow> memory \<Rightarrow> nat \<Rightarrow> u16 \<Rightarrow> u32 \<Rightarrow> u32 \<Rightarrow> u64 \<Rightarrow> u32 \<Rightarrow> u64 \<Rightarrow> u32 \<Rightarrow> u32 \<Rightarrow>
   u64 \<Rightarrow> u64 \<Rightarrow> memory" where
  "wqe_prepare_atomic junk qp m wqe_ptr wqe_idx opcode ctrl_flags raddr rkey laddr lkey bytes
      compare_add swap_add =
    (let cseg = (jk_ctrl junk)\<lparr>cs_opmod_idx_opcode := opmod_idx_opcode wqe_idx opcode,
                  cs_qpn_ds := sq_num_shift8_be_4ds qp, cs_fm_ce_se := ucast ctrl_flags\<rparr>;
         rseg = remote junk raddr rkey;
         atseg = \<lparr>as_swap_add = bswap64 (if opcode = OPCODE_ATOMIC_FA then compare_add else swap_add),
                  as_compare = bswap64 compare_add\<rparr>;
         dseg = local_data laddr lkey bytes;
         m = store_wqe_seg m wqe_ptr (ctrl_words cseg);
         m = store_wqe_seg m (dseg1 wqe_ptr) (raddr_words rseg);
         m = store_wqe_seg m (dseg2 wqe_ptr) (atomic_words atseg)
     in store_wqe_seg m (dseg3 wqe_ptr) (data_words dseg))"

datatype atomic_ext_bytes = ATOMIC_EXT_BYTES_4 | ATOMIC_EXT_BYTES_8

definition ext_byte_count :: "atomic_ext_bytes \<Rightarrow> u32" where
  "ext_byte_count b = (case b of ATOMIC_EXT_BYTES_4 \<Rightarrow> 4 | ATOMIC_EXT_BYTES_8 \<Rightarrow> 8)"

text \<open>
  The extended atomics.  The control segment starts at zero and stays so for any other opcode;
  the first atomic segment is uninitialised, and the four-byte variants fill words of it.
\<close>

definition zero_ctrl :: ctrl_seg where
  "zero_ctrl = \<lparr>cs_opmod_idx_opcode = 0, cs_qpn_ds = 0, cs_signature = 0,
     cs_dci_stream_channel_id = 0, cs_fm_ce_se = 0, cs_imm = 0\<rparr>"

definition ext_opmod :: "atomic_ext_bytes \<Rightarrow> u32" where
  "ext_opmod b = (case b of ATOMIC_EXT_BYTES_4 \<Rightarrow> OPMOD_4_BYTE_ATOMIC_EXT
                          | ATOMIC_EXT_BYTES_8 \<Rightarrow> OPMOD_8_BYTE_ATOMIC_EXT)"

definition ext_ctrl :: "dev_qp \<Rightarrow> atomic_ext_bytes \<Rightarrow> u16 \<Rightarrow> u32 \<Rightarrow> u32 \<Rightarrow> ctrl_seg" where
  "ext_ctrl qp bytes wqe_idx opcode ctrl_flags =
    (if opcode = OPCODE_ATOMIC_MASKED_FA \<or> opcode = OPCODE_ATOMIC_MASKED_CS then
       zero_ctrl\<lparr>cs_opmod_idx_opcode := bswap32 (opcode OR push_bit 8 (ucast wqe_idx) OR ext_opmod bytes),
         cs_qpn_ds := (if opcode = OPCODE_ATOMIC_MASKED_CS \<and> bytes = ATOMIC_EXT_BYTES_8
                       then sq_num_shift8_be_5ds qp else sq_num_shift8_be_4ds qp),
         cs_fm_ce_se := ucast ctrl_flags\<rparr>
     else zero_ctrl)"

definition ext_aseg_1 ::
  "stack_junk \<Rightarrow> atomic_ext_bytes \<Rightarrow> u32 \<Rightarrow> u64 \<Rightarrow> u64 \<Rightarrow> u64 \<Rightarrow> u64 \<Rightarrow> u64 \<Rightarrow> u64 \<Rightarrow> seg" where
  "ext_aseg_1 junk bytes opcode add_data field_boundary swap_data compare_data swap_mask compare_mask =
    (if opcode = OPCODE_ATOMIC_MASKED_FA then
       (case bytes of
          ATOMIC_EXT_BYTES_4 \<Rightarrow>
            (case jk_seg junk of (_, _, j2, j3) \<Rightarrow>
               (bswap32 (ucast add_data), ucast field_boundary, j2, j3))
        | ATOMIC_EXT_BYTES_8 \<Rightarrow>
            atomic_words \<lparr>as_swap_add = bswap64 add_data, as_compare = field_boundary\<rparr>)
     else if opcode = OPCODE_ATOMIC_MASKED_CS then
       (case bytes of
          ATOMIC_EXT_BYTES_4 \<Rightarrow>
            (bswap32 (ucast swap_data), ucast compare_data, bswap32 (ucast swap_mask), ucast compare_mask)
        | ATOMIC_EXT_BYTES_8 \<Rightarrow>
            atomic_words \<lparr>as_swap_add = bswap64 swap_data, as_compare = compare_data\<rparr>)
     else jk_seg junk)"

definition ext_aseg_2 :: "atomic_ext_bytes \<Rightarrow> u32 \<Rightarrow> u64 \<Rightarrow> u64 \<Rightarrow> seg" where
  "ext_aseg_2 bytes opcode swap_mask compare_mask =
    (if opcode = OPCODE_ATOMIC_MASKED_CS \<and> bytes = ATOMIC_EXT_BYTES_8
     then atomic_words \<lparr>as_swap_add = bswap64 swap_mask, as_compare = compare_mask\<rparr>
     else (0, 0, 0, 0))"

definition wqe_prepare_atomic_ext ::
  "stack_junk \<Rightarrow> atomic_ext_bytes \<Rightarrow> dev_qp \<Rightarrow> memory \<Rightarrow> nat \<Rightarrow> nat \<Rightarrow> u16 \<Rightarrow> u32 \<Rightarrow> u32 \<Rightarrow> u64 \<Rightarrow> u32 \<Rightarrow>
   u64 \<Rightarrow> u32 \<Rightarrow> u64 \<Rightarrow> u64 \<Rightarrow> u64 \<Rightarrow> u64 \<Rightarrow> u64 \<Rightarrow> u64 \<Rightarrow> memory" where
  "wqe_prepare_atomic_ext junk bytes qp m wqe_ptr0 wqe_ptr1 wqe_idx opcode ctrl_flags raddr rkey
      laddr lkey add_data field_boundary swap_data compare_data swap_mask compare_mask =
    (let rseg = remote junk raddr rkey;
         cseg = ext_ctrl qp bytes wqe_idx opcode ctrl_flags;
         aseg_1 = ext_aseg_1 junk bytes opcode add_data field_boundary swap_data compare_data
                    swap_mask compare_mask;
         aseg_2 = ext_aseg_2 bytes opcode swap_mask compare_mask;
         dseg = local_data laddr lkey (ext_byte_count bytes);
         m = store_wqe_seg m wqe_ptr0 (ctrl_words cseg);
         m = store_wqe_seg m (dseg1 wqe_ptr0) (raddr_words rseg);
         m = store_wqe_seg m (dseg2 wqe_ptr0) aseg_1
     in if opcode = OPCODE_ATOMIC_MASKED_CS \<and> bytes = ATOMIC_EXT_BYTES_8
        then let m = store_wqe_seg m (dseg3 wqe_ptr0) aseg_2
             in store_wqe_seg m wqe_ptr1 (data_words dseg)
        else store_wqe_seg m (dseg3 wqe_ptr0) (data_words dseg))"

definition wqe_prepare_wait ::
  "stack_junk \<Rightarrow> dev_qp \<Rightarrow> memory \<Rightarrow> nat \<Rightarrow> u16 \<Rightarrow> u32 \<Rightarrow> u32 \<Rightarrow> u32 \<Rightarrow> memory" where
  "wqe_prepare_wait junk qp m wqe_ptr wqe_idx ctrl_flags max_index qpn_cqn =
    (let cseg = (jk_ctrl junk)\<lparr>cs_opmod_idx_opcode := opmod_idx_opcode wqe_idx OPCODE_WAIT,
                  cs_qpn_ds := bswap32 (sq_num_shift8 qp OR 2), cs_fm_ce_se := ucast ctrl_flags\<rparr>;
         wseg = (jk_wait junk)\<lparr>ws_max_index := bswap32 max_index, ws_qpn_cqn := bswap32 qpn_cqn\<rparr>;
         m = store_wqe_seg m wqe_ptr (ctrl_words cseg)
     in store_wqe_seg m (dseg1 wqe_ptr) (wait_words wseg))"

definition wqe_prepare_dump ::
  "stack_junk \<Rightarrow> dev_qp \<Rightarrow> memory \<Rightarrow> nat \<Rightarrow> u16 \<Rightarrow> u32 \<Rightarrow> u64 \<Rightarrow> u32 \<Rightarrow> u32 \<Rightarrow> memory" where
  "wqe_prepare_dump junk qp m wqe_ptr wqe_idx ctrl_flags laddr lkey bytes =
    (let cseg = (jk_ctrl junk)\<lparr>cs_opmod_idx_opcode := opmod_idx_opcode wqe_idx OPCODE_DUMP,
                  cs_qpn_ds := sq_num_shift8_be_2ds qp, cs_fm_ce_se := ucast ctrl_flags\<rparr>;
         dseg = local_data laddr lkey bytes;
         m = store_wqe_seg m wqe_ptr (ctrl_words cseg)
     in store_wqe_seg m (dseg1 wqe_ptr) (data_words dseg))"

end
