(* ===== verification/DevWqeProofs.thy ===== *)
theory DevWqeProofs
  imports DevWqe
begin

text \<open>
  The NIC's reading of a work queue entry, and what it finds in the entries the library prepares:
  the operation, its index, the queue pair, the number of segments, and the addresses, keys and
  lengths the caller gave, whatever the uninitialised fields hold; nothing else is written.
\<close>

section \<open>The NIC's view\<close>

record nic_ctrl =
  nc_opcode :: u8
  nc_index :: u16
  nc_opmod :: u8
  nc_qpn :: u32
  nc_ds :: u8
  nc_fm_ce_se :: u8

definition read_ctrl :: "memory \<Rightarrow> nat \<Rightarrow> nic_ctrl" where
  "read_ctrl m p =
    \<lparr>nc_opcode = ucast (be32 m p), nc_index = ucast (drop_bit 8 (be32 m p)),
     nc_opmod = ucast (drop_bit 24 (be32 m p)), nc_qpn = drop_bit 8 (be32 m (p + 4)),
     nc_ds = ucast (be32 m (p + 4) AND 0x3f), nc_fm_ce_se = m (p + 11)\<rparr>"

text \<open>Address and key of a remote segment; length, key and address of a data segment.\<close>

definition read_raddr :: "memory \<Rightarrow> nat \<Rightarrow> u64 \<times> u32" where
  "read_raddr m p = (be64 m p, be32 m (p + 8))"

definition read_data :: "memory \<Rightarrow> nat \<Rightarrow> u32 \<times> u32 \<times> u64" where
  "read_data m p = (be32 m p, be32 m (p + 4), be64 m (p + 8))"

definition read_pair :: "memory \<Rightarrow> nat \<Rightarrow> u64 \<times> u64" where
  "read_pair m p = (be64 m p, be64 m (p + 8))"

definition same_outside :: "nat \<Rightarrow> nat \<Rightarrow> memory \<Rightarrow> memory \<Rightarrow> bool" where
  "same_outside p n m m' \<longleftrightarrow> (\<forall>a. a < p \<or> p + n \<le> a \<longrightarrow> m' a = m a)"

section \<open>Reading a stored segment\<close>

named_theorems wqe_read \<open>what a load finds after the stores of a segment\<close>

lemma be32_cong:
  assumes "\<And>b. a \<le> b \<Longrightarrow> b < a + 4 \<Longrightarrow> m b = m' b"
  shows "be32 m a = be32 m' a"
  using assms [of a] assms [of "a + 1"] assms [of "a + 2"] assms [of "a + 3"]
  by (simp add: be32_def)

lemma seg_frame [wqe_read]: "b < p \<or> p + 16 \<le> b \<Longrightarrow> store_wqe_seg m p w b = m b"
  by (cases w) (auto simp: store_wqe_seg_def store32_frame)

lemma seg_other [wqe_read]: "a + 4 \<le> p \<or> p + 16 \<le> a \<Longrightarrow> be32 (store_wqe_seg m p w) a = be32 m a"
  by (rule be32_cong) (auto intro: seg_frame)

lemma seg_words:
  "be32 (store_wqe_seg m p (w0, w1, w2, w3)) p = bswap32 w0"
  "be32 (store_wqe_seg m p (w0, w1, w2, w3)) (p + 4) = bswap32 w1"
  "be32 (store_wqe_seg m p (w0, w1, w2, w3)) (p + 8) = bswap32 w2"
  "be32 (store_wqe_seg m p (w0, w1, w2, w3)) (p + 12) = bswap32 w3"
  "be32 (store_wqe_seg m p (w0, w1, w2, w3)) (12 + p) = bswap32 w3"
  by (simp_all add: store_wqe_seg_def add.commute [of 12])

lemma seg_flags:
  "store_wqe_seg m p (w0, w1, ucast (s :: u8) OR push_bit 8 (ucast (d :: u16)) OR push_bit 24 (ucast f), w3)
     (p + 11) = (f :: u8)"
proof -
  have "ucast (drop_bit 24 (ucast s OR push_bit 8 (ucast d) OR push_bit 24 (ucast f) :: u32)) = f"
    by (rule bit_word_eqI) (auto simp: bit_simps dest: bit_imp_le_length)
  then show ?thesis by (simp add: store_wqe_seg_def store32_frame) (simp add: store32_def)
qed

lemma u64_join: "push_bit 32 (ucast (ucast (drop_bit 32 x) :: u32)) OR ucast (ucast x :: u32) = (x :: u64)"
  by (rule bit_word_eqI) (auto simp: bit_simps dest: bit_imp_le_length)

lemma be64_bswap64:
  "push_bit 32 (ucast (bswap32 (lo32 (bswap64 x)))) OR ucast (bswap32 (hi32 (bswap64 x))) = (x :: u64)"
  by (simp add: lo32_def hi32_def bswap64_words u64_join)

lemma read_ctrl_seg:
  "read_ctrl (store_wqe_seg m p (ctrl_words s)) p =
    (let a = bswap32 (cs_opmod_idx_opcode s); b = bswap32 (cs_qpn_ds s) in
     \<lparr>nc_opcode = ucast a, nc_index = ucast (drop_bit 8 a), nc_opmod = ucast (drop_bit 24 a),
      nc_qpn = drop_bit 8 b, nc_ds = ucast (b AND 0x3f), nc_fm_ce_se = cs_fm_ce_se s\<rparr>)"
  "be32 (store_wqe_seg m p (ctrl_words s)) (p + 12) = bswap32 (cs_imm s)"
  by (simp_all add: read_ctrl_def ctrl_words_def seg_words seg_flags Let_def)

lemma read_raddr_seg [wqe_read]:
  "read_raddr (store_wqe_seg m p (raddr_words s)) p = (bswap64 (rs_raddr s), bswap32 (rs_rkey s))"
  using be64_bswap64 [of "bswap64 (rs_raddr s)"]
  by (simp add: read_raddr_def raddr_words_def be64_def seg_words)

lemma read_data_seg [wqe_read]:
  "read_data (store_wqe_seg m p (data_words s)) p =
    (bswap32 (ds_byte_count s), bswap32 (ds_lkey s), bswap64 (ds_addr s))"
  using be64_bswap64 [of "bswap64 (ds_addr s)"]
  by (simp add: read_data_def data_words_def be64_def seg_words)

lemma read_atomic_seg [wqe_read]:
  "read_pair (store_wqe_seg m p (atomic_words s)) p = (bswap64 (as_swap_add s), bswap64 (as_compare s))"
  using be64_bswap64 [of "bswap64 (as_swap_add s)"] be64_bswap64 [of "bswap64 (as_compare s)"]
  by (simp add: read_pair_def atomic_words_def be64_def seg_words)

lemma read_wait_seg [wqe_read]:
  "be32 (store_wqe_seg m p (wait_words s)) (p + 8) = bswap32 (ws_max_index s)"
  "be32 (store_wqe_seg m p (wait_words s)) (p + 12) = bswap32 (ws_qpn_cqn s)"
  by (simp_all add: wait_words_def seg_words)

text \<open>Stores to other segments do not disturb a reading.\<close>

lemma read_other [wqe_read]:
  "q + 16 \<le> p \<or> p + 16 \<le> q \<Longrightarrow> read_ctrl (store_wqe_seg m p w) q = read_ctrl m q"
  "q + 16 \<le> p \<or> p + 16 \<le> q \<Longrightarrow> read_raddr (store_wqe_seg m p w) q = read_raddr m q"
  "q + 16 \<le> p \<or> p + 16 \<le> q \<Longrightarrow> read_data (store_wqe_seg m p w) q = read_data m q"
  "q + 16 \<le> p \<or> p + 16 \<le> q \<Longrightarrow> read_pair (store_wqe_seg m p w) q = read_pair m q"
  by (auto simp: read_ctrl_def read_raddr_def read_data_def read_pair_def be64_def seg_other seg_frame)

lemmas read_imm_seg [wqe_read] = read_ctrl_seg(2)

section \<open>Packing the first two words\<close>

lemma ctrl_word_parts:
  assumes "opcode < 256"
  shows "(ucast (push_bit 8 (ucast (i :: u16)) OR opcode :: u32) :: u8) = ucast opcode"
    and "(ucast (drop_bit 8 (push_bit 8 (ucast i) OR opcode :: u32)) :: u16) = i"
    and "(ucast (drop_bit 24 (push_bit 8 (ucast i) OR opcode :: u32)) :: u8) = 0"
proof -
  have "take_bit 8 opcode = opcode"
    using assms by (simp add: word_unat_eq_iff unsigned_take_bit_eq take_bit_nat_eq_self_iff word_less_nat_alt)
  then have hi: "bit opcode k \<Longrightarrow> k < 8" for k by (metis bit_take_bit_iff)
  show "(ucast (push_bit 8 (ucast i) OR opcode :: u32) :: u8) = ucast opcode"
    by (rule bit_word_eqI) (auto simp: bit_simps)
  show "(ucast (drop_bit 8 (push_bit 8 (ucast i) OR opcode :: u32)) :: u16) = i"
    by (rule bit_word_eqI) (auto simp: bit_simps dest: hi bit_imp_le_length)
  show "(ucast (drop_bit 24 (push_bit 8 (ucast i) OR opcode :: u32)) :: u8) = 0"
    by (rule bit_word_eqI) (auto simp: bit_simps dest: hi bit_imp_le_length)
qed

lemma qpn_word_parts:
  assumes "unat num < 2 ^ 24" "ds < 64"
  shows "drop_bit 8 (push_bit 8 num OR ds :: u32) = num"
    and "(ucast ((push_bit 8 num OR ds :: u32) AND 0x3f) :: u8) = ucast ds"
proof -
  have "take_bit 24 num = num" "take_bit 6 ds = ds"
    using assms by (simp_all add: word_unat_eq_iff unsigned_take_bit_eq take_bit_nat_eq_self_iff word_less_nat_alt)
  then have hi: "bit num k \<Longrightarrow> k < 24" "bit ds k \<Longrightarrow> k < 6" for k by (metis bit_take_bit_iff)+
  show "drop_bit 8 (push_bit 8 num OR ds :: u32) = num"
    by (rule bit_word_eqI) (auto simp: bit_simps dest: hi)
  have m: "(0x3f :: u32) = mask 6" by (simp add: mask_eq_exp_minus_1)
  show "(ucast ((push_bit 8 num OR ds :: u32) AND 0x3f) :: u8) = ucast ds"
    unfolding m by (rule bit_word_eqI) (auto simp: bit_simps dest: hi)
qed


lemma read_ctrl_built [wqe_read]:
  assumes "unat num < 2 ^ 24" "ds < 64" "opcode < 256"
  shows "read_ctrl (store_wqe_seg m p (ctrl_words (s\<lparr>cs_opmod_idx_opcode := opmod_idx_opcode i opcode,
      cs_qpn_ds := bswap32 (push_bit 8 num OR ds), cs_fm_ce_se := f\<rparr>))) p =
    \<lparr>nc_opcode = ucast opcode, nc_index = i, nc_opmod = 0, nc_qpn = num, nc_ds = ucast ds,
     nc_fm_ce_se = f\<rparr>"
  and "read_ctrl (store_wqe_seg m p (ctrl_words (s\<lparr>cs_opmod_idx_opcode := opmod_idx_opcode i opcode,
      cs_qpn_ds := bswap32 (push_bit 8 num OR ds), cs_fm_ce_se := f, cs_imm := imm\<rparr>))) p =
    \<lparr>nc_opcode = ucast opcode, nc_index = i, nc_opmod = 0, nc_qpn = num, nc_ds = ucast ds,
     nc_fm_ce_se = f\<rparr>"
  unfolding read_ctrl_seg Let_def opmod_idx_opcode_def
  by (simp_all add: ctrl_word_parts [OF assms(3)] qpn_word_parts [OF assms(1,2)] del: drop_bit_or)

lemmas opcode_defs =
  OPCODE_NOP_def OPCODE_RDMA_WRITE_def OPCODE_RDMA_READ_def OPCODE_ATOMIC_FA_def OPCODE_WAIT_def
  OPCODE_DUMP_def OPCODE_ATOMIC_MASKED_CS_def OPCODE_ATOMIC_MASKED_FA_def

section \<open>The entries\<close>

text \<open>C12: A prepared RDMA write is read by the NIC as that write: the caller's opcode and index, the
  queue pair, three or four segments, flags and immediate, the remote address and key, and for
  each local segment its address, key and length (the inline marker bit removed from it).  It
  does not depend on uninitialised fields, and no byte outside the segments changes.\<close>

theorem wqe_write_decodes:
  assumes "num_fields_ok qp" and "opcode < 256"
  shows "(let M = wqe_prepare_write junk qp m p i opcode flags imm raddr rkey la ka na in
      read_ctrl M p = \<lparr>nc_opcode = ucast opcode, nc_index = i, nc_opmod = 0, nc_qpn = sq_num qp,
        nc_ds = 3, nc_fm_ce_se = ucast flags\<rparr> \<and>
      be32 M (p + 12) = bswap32 imm \<and>
      read_raddr M (p + 16) = (raddr, bswap32 rkey) \<and>
      read_data M (p + 32) = (na AND 0x7FFFFFFF, bswap32 ka, la) \<and>
      same_outside p 48 m M) \<and>
    (let M = wqe_prepare_write2 junk qp m p i opcode flags imm raddr rkey
               la ka na lb kb nb in
      read_ctrl M p = \<lparr>nc_opcode = ucast opcode, nc_index = i, nc_opmod = 0, nc_qpn = sq_num qp,
        nc_ds = 4, nc_fm_ce_se = ucast flags\<rparr> \<and>
      be32 M (p + 12) = bswap32 imm \<and>
      read_raddr M (p + 16) = (raddr, bswap32 rkey) \<and>
      read_data M (p + 32) = (na AND 0x7FFFFFFF, bswap32 ka, la) \<and>
      read_data M (p + 48) = (nb AND 0x7FFFFFFF, bswap32 kb, lb) \<and>
      same_outside p 64 m M)"
  using assms
  by (simp add: wqe_prepare_write_def wqe_prepare_write2_def Let_def wqe_read same_outside_def
      remote_def local_data_def INLINE_SEG_def num_fields_ok_def)


text \<open>A prepared RDMA read is read by the NIC as that read, with one or two local segments; the
  one-segment form passes the length as it is, the two-segment form without the inline marker.\<close>

theorem wqe_read_decodes:
  assumes "num_fields_ok qp"
  shows "(let M = wqe_prepare_read junk qp m p i flags raddr rkey la ka na in
      read_ctrl M p = \<lparr>nc_opcode = 0x10, nc_index = i, nc_opmod = 0, nc_qpn = sq_num qp,
        nc_ds = 3, nc_fm_ce_se = ucast flags\<rparr> \<and>
      read_raddr M (p + 16) = (raddr, bswap32 rkey) \<and>
      read_data M (p + 32) = (na, bswap32 ka, la) \<and>
      same_outside p 48 m M) \<and>
    (let M = wqe_prepare_read2 junk qp m p i flags raddr rkey la ka na lb kb nb in
      read_ctrl M p = \<lparr>nc_opcode = 0x10, nc_index = i, nc_opmod = 0, nc_qpn = sq_num qp,
        nc_ds = 4, nc_fm_ce_se = ucast flags\<rparr> \<and>
      read_raddr M (p + 16) = (raddr, bswap32 rkey) \<and>
      read_data M (p + 32) = (na AND 0x7FFFFFFF, bswap32 ka, la) \<and>
      read_data M (p + 48) = (nb AND 0x7FFFFFFF, bswap32 kb, lb) \<and>
      same_outside p 64 m M)"
  using assms
  by (simp add: wqe_prepare_read_def wqe_prepare_read2_def Let_def wqe_read same_outside_def
      remote_def local_data_def INLINE_SEG_def OPCODE_RDMA_READ_def num_fields_ok_def)

text \<open>A prepared atomic carries, beside the remote and local parts, the operand in the swap field
  and the comparand in the compare field: for fetch-and-add the operand is the value to add.\<close>

theorem wqe_atomic_decodes:
  assumes "num_fields_ok qp" and "opcode < 256"
  shows "let M = wqe_prepare_atomic junk qp m p i opcode flags raddr rkey laddr lkey bytes
               compare_add swap_add in
      read_ctrl M p = \<lparr>nc_opcode = ucast opcode, nc_index = i, nc_opmod = 0, nc_qpn = sq_num qp,
        nc_ds = 4, nc_fm_ce_se = ucast flags\<rparr> \<and>
      read_raddr M (p + 16) = (raddr, bswap32 rkey) \<and>
      read_pair M (p + 32) = (if opcode = 0x12 then compare_add else swap_add, compare_add) \<and>
      read_data M (p + 48) = (bytes, bswap32 lkey, laddr) \<and>
      same_outside p 64 m M"
  using assms
  by (simp add: wqe_prepare_atomic_def Let_def wqe_read same_outside_def
      remote_def local_data_def OPCODE_ATOMIC_FA_def num_fields_ok_def)

text \<open>The entries without a remote address: a NOP is one segment, a wait names its index and
  queue, a dump its local buffer.\<close>

theorem wqe_nop_wait_dump_decode:
  assumes "num_fields_ok qp"
  shows "(let M = wqe_prepare_nop junk qp m p i flags in
      read_ctrl M p = \<lparr>nc_opcode = 0, nc_index = i, nc_opmod = 0, nc_qpn = sq_num qp,
        nc_ds = 1, nc_fm_ce_se = ucast flags\<rparr> \<and> same_outside p 16 m M) \<and>
    (let M = wqe_prepare_wait junk qp m p i flags max_index qpn_cqn in
      read_ctrl M p = \<lparr>nc_opcode = 0x0f, nc_index = i, nc_opmod = 0, nc_qpn = sq_num qp,
        nc_ds = 2, nc_fm_ce_se = ucast flags\<rparr> \<and>
      be32 M (p + 24) = max_index \<and> be32 M (p + 28) = qpn_cqn \<and> same_outside p 32 m M) \<and>
    (let M = wqe_prepare_dump junk qp m p i flags laddr lkey bytes in
      read_ctrl M p = \<lparr>nc_opcode = 0x23, nc_index = i, nc_opmod = 0, nc_qpn = sq_num qp,
        nc_ds = 2, nc_fm_ce_se = ucast flags\<rparr> \<and>
      read_data M (p + 16) = (bytes, bswap32 lkey, laddr) \<and> same_outside p 32 m M)"
proof -
  have "be32 (store_wqe_seg m' (p + 16) (wait_words s)) (p + 24) = bswap32 (ws_max_index s)"
    "be32 (store_wqe_seg m' (p + 16) (wait_words s)) (p + 28) = bswap32 (ws_qpn_cqn s)" for m' s
    using read_wait_seg [of m' "p + 16" s] by (simp_all add: add.commute [of p])
  then show ?thesis
    using assms
    by (simp add: wqe_prepare_nop_def wqe_prepare_wait_def wqe_prepare_dump_def Let_def wqe_read
        same_outside_def local_data_def opcode_defs num_fields_ok_def)
qed

text \<open>The control segment of an extended atomic.\<close>

lemma ext_word_parts:
  assumes "opcode < 256"
  shows "(ucast (opcode OR push_bit 8 (ucast (i :: u16)) OR push_bit 24 (ucast (om :: u8)) :: u32) :: u8) = ucast opcode"
    and "(ucast (drop_bit 8 (opcode OR push_bit 8 (ucast i) OR push_bit 24 (ucast om) :: u32)) :: u16) = i"
    and "(ucast (drop_bit 24 (opcode OR push_bit 8 (ucast i) OR push_bit 24 (ucast om) :: u32)) :: u8) = om"
proof -
  have "take_bit 8 opcode = opcode"
    using assms by (simp add: word_unat_eq_iff unsigned_take_bit_eq take_bit_nat_eq_self_iff word_less_nat_alt)
  then have hi: "bit opcode k \<Longrightarrow> k < 8" for k by (metis bit_take_bit_iff)
  show "(ucast (opcode OR push_bit 8 (ucast i) OR push_bit 24 (ucast om) :: u32) :: u8) = ucast opcode"
    by (rule bit_word_eqI) (auto simp: bit_simps)
  show "(ucast (drop_bit 8 (opcode OR push_bit 8 (ucast i) OR push_bit 24 (ucast om) :: u32)) :: u16) = i"
    by (rule bit_word_eqI) (auto simp: bit_simps dest: hi bit_imp_le_length)
  show "(ucast (drop_bit 24 (opcode OR push_bit 8 (ucast i) OR push_bit 24 (ucast om) :: u32)) :: u8) = om"
    by (rule bit_word_eqI) (auto simp: bit_simps dest: hi bit_imp_le_length)
qed

lemma ext_opmod_pushed:
  "ext_opmod b = push_bit 24 (ucast (if b = ATOMIC_EXT_BYTES_4 then 8 else (9 :: u8)))"
  by (cases b) (simp_all add: ext_opmod_def OPMOD_4_BYTE_ATOMIC_EXT_def OPMOD_8_BYTE_ATOMIC_EXT_def)

lemma read_ctrl_ext:
  assumes "num_fields_ok qp" and "opcode \<in> {OPCODE_ATOMIC_MASKED_FA, OPCODE_ATOMIC_MASKED_CS}"
  shows "read_ctrl (store_wqe_seg m p (ctrl_words (ext_ctrl qp b i opcode flags))) p =
    \<lparr>nc_opcode = ucast opcode, nc_index = i,
     nc_opmod = (if b = ATOMIC_EXT_BYTES_4 then 8 else 9), nc_qpn = sq_num qp,
     nc_ds = (if opcode = OPCODE_ATOMIC_MASKED_CS \<and> b = ATOMIC_EXT_BYTES_8 then 5 else 4),
     nc_fm_ce_se = ucast flags\<rparr>"
proof -
  define om :: u8 where "om = (if b = ATOMIC_EXT_BYTES_4 then 8 else 9)"
  define ds :: u32 where "ds = (if opcode = OPCODE_ATOMIC_MASKED_CS \<and> b = ATOMIC_EXT_BYTES_8 then 5 else 4)"
  have lt: "opcode < 256" "ds < 64" using assms(2) by (auto simp: opcode_defs ds_def)
  have num: "unat (sq_num qp) < 2 ^ 24" using assms(1) by (simp add: num_fields_ok_def)
  have "ext_ctrl qp b i opcode flags = zero_ctrl\<lparr>
      cs_opmod_idx_opcode := bswap32 (opcode OR push_bit 8 (ucast i) OR push_bit 24 (ucast om)),
      cs_qpn_ds := bswap32 (push_bit 8 (sq_num qp) OR ds), cs_fm_ce_se := ucast flags\<rparr>"
    using assms by (simp add: ext_ctrl_def ext_opmod_pushed om_def ds_def num_fields_ok_def)
  moreover have "(ucast ds :: u8) = (if opcode = OPCODE_ATOMIC_MASKED_CS \<and> b = ATOMIC_EXT_BYTES_8 then 5 else 4)"
    by (simp add: ds_def)
  ultimately show ?thesis
    unfolding read_ctrl_seg Let_def om_def [symmetric]
    by (simp add: ext_word_parts [OF lt(1)] qpn_word_parts [OF num lt(2)] del: drop_bit_or)
qed

text \<open>C13: The extended atomics of 4 and of 8 bytes, masked fetch-and-add and masked
  compare-and-swap: the NIC reads the operation, its index, the operand size (operation modifier
  8 or 9), the queue pair, the number of segments and the flags; the remote address and key and
  the local buffer of 4 or 8 bytes; the operand and its mask as the caller gave them, cut to 32
  bits in the 4-byte form.  The comparand, its mask and the field boundary are stored in host
  byte order, so that the NIC reads these byte-reversed.  The 8-byte compare-and-swap counts five
  segments and puts its local segment in a second entry; nothing outside the entry is written.\<close>

theorem wqe_atomic_ext_decodes:
  assumes "num_fields_ok qp" and "q = p + 64"
  shows "(let M = wqe_prepare_atomic_ext junk ATOMIC_EXT_BYTES_8 qp m p q i OPCODE_ATOMIC_MASKED_FA flags
               raddr rkey laddr lkey add_data boundary swap cmp swap_mask cmp_mask in
      read_ctrl M p = \<lparr>nc_opcode = 0x15, nc_index = i, nc_opmod = 9, nc_qpn = sq_num qp,
        nc_ds = 4, nc_fm_ce_se = ucast flags\<rparr> \<and>
      read_raddr M (p + 16) = (raddr, bswap32 rkey) \<and>
      read_pair M (p + 32) = (add_data, bswap64 boundary) \<and>
      read_data M (p + 48) = (8, bswap32 lkey, laddr) \<and> same_outside p 64 m M) \<and>
    (let M = wqe_prepare_atomic_ext junk ATOMIC_EXT_BYTES_8 qp m p q i OPCODE_ATOMIC_MASKED_CS flags
               raddr rkey laddr lkey add_data boundary swap cmp swap_mask cmp_mask in
      read_ctrl M p = \<lparr>nc_opcode = 0x14, nc_index = i, nc_opmod = 9, nc_qpn = sq_num qp,
        nc_ds = 5, nc_fm_ce_se = ucast flags\<rparr> \<and>
      read_raddr M (p + 16) = (raddr, bswap32 rkey) \<and>
      read_pair M (p + 32) = (swap, bswap64 cmp) \<and>
      read_pair M (p + 48) = (swap_mask, bswap64 cmp_mask) \<and>
      read_data M q = (8, bswap32 lkey, laddr) \<and> same_outside p 80 m M) \<and>
    (let M = wqe_prepare_atomic_ext junk ATOMIC_EXT_BYTES_4 qp m p q i OPCODE_ATOMIC_MASKED_FA flags
               raddr rkey laddr lkey add_data boundary swap cmp swap_mask cmp_mask in
      read_ctrl M p = \<lparr>nc_opcode = 0x15, nc_index = i, nc_opmod = 8, nc_qpn = sq_num qp,
        nc_ds = 4, nc_fm_ce_se = ucast flags\<rparr> \<and>
      read_raddr M (p + 16) = (raddr, bswap32 rkey) \<and>
      be32 M (p + 32) = ucast add_data \<and> be32 M (p + 36) = bswap32 (ucast boundary) \<and>
      read_data M (p + 48) = (4, bswap32 lkey, laddr) \<and> same_outside p 64 m M) \<and>
    (let M = wqe_prepare_atomic_ext junk ATOMIC_EXT_BYTES_4 qp m p q i OPCODE_ATOMIC_MASKED_CS flags
               raddr rkey laddr lkey add_data boundary swap cmp swap_mask cmp_mask in
      read_ctrl M p = \<lparr>nc_opcode = 0x14, nc_index = i, nc_opmod = 8, nc_qpn = sq_num qp,
        nc_ds = 4, nc_fm_ce_se = ucast flags\<rparr> \<and>
      read_raddr M (p + 16) = (raddr, bswap32 rkey) \<and>
      be32 M (p + 32) = ucast swap \<and> be32 M (p + 36) = bswap32 (ucast cmp) \<and>
      be32 M (p + 40) = ucast swap_mask \<and> be32 M (p + 44) = bswap32 (ucast cmp_mask) \<and>
      read_data M (p + 48) = (4, bswap32 lkey, laddr) \<and> same_outside p 64 m M)"
proof -
  note ctrl = read_ctrl_ext [OF assms(1), of OPCODE_ATOMIC_MASKED_FA]
    read_ctrl_ext [OF assms(1), of OPCODE_ATOMIC_MASKED_CS]
  have ne: "OPCODE_ATOMIC_MASKED_FA \<noteq> OPCODE_ATOMIC_MASKED_CS"
    "(ucast OPCODE_ATOMIC_MASKED_FA :: u8) = 0x15" "(ucast OPCODE_ATOMIC_MASKED_CS :: u8) = 0x14"
    by (simp_all add: opcode_defs)
  have words: "be32 (store_wqe_seg m' (p + 32) (w0, w1, w2, w3)) (p + 36) = bswap32 w1"
    "be32 (store_wqe_seg m' (p + 32) (w0, w1, w2, w3)) (p + 40) = bswap32 w2"
    "be32 (store_wqe_seg m' (p + 32) (w0, w1, w2, w3)) (p + 44) = bswap32 w3" for m' w0 w1 w2 w3
    using seg_words(2-4) [of m' "p + 32" w0 w1 w2 w3] by (simp_all add: add.commute [of p])
  show ?thesis
    using ne assms(2)
    by (simp add: wqe_prepare_atomic_ext_def Let_def wqe_read ctrl words seg_words(1) same_outside_def
        remote_def local_data_def ext_aseg_1_def ext_aseg_2_def ext_byte_count_def
        split: prod.split)
qed

section \<open>Inline writes\<close>

lemma inl_segments: "b \<le> 28 \<Longrightarrow> (if 12 < b then 4 else 3) = 2 + (b + 4 + 15) div (16 :: nat)"
  by auto

lemma store32_wqe_read:
  "q + 16 \<le> p \<or> p + 4 \<le> q \<Longrightarrow> read_ctrl (store32 m p v) q = read_ctrl m q"
  "q + 16 \<le> p \<or> p + 4 \<le> q \<Longrightarrow> read_raddr (store32 m p v) q = read_raddr m q"
  by (auto simp: read_ctrl_def read_raddr_def be64_def store32_frame)

lemma read_cong:
  assumes "\<And>b. p \<le> b \<Longrightarrow> b < p + 16 \<Longrightarrow> m b = m' b"
  shows "read_ctrl m p = read_ctrl m' p" and "read_raddr m p = read_raddr m' p"
proof -
  have "be32 m (p + k) = be32 m' (p + k)" if "k \<le> 12" for k
    using that by (intro be32_cong assms) simp_all
  from this [of 0] this [of 4] this [of 8] assms [of "p + 11"]
  show "read_ctrl m p = read_ctrl m' p" and "read_raddr m p = read_raddr m' p"
    by (simp_all add: read_ctrl_def read_raddr_def be64_def)
qed

text \<open>An inline write is refused when it exceeds 28 bytes.  Otherwise its entry has the number of
  sixteen-byte segments that the marker and the data fill, the marked length, and after it
  exactly the source bytes, provided the source does not overlap the entry.\<close>

theorem wqe_write_inl_decodes:
  assumes "num_fields_ok qp" and "unat laddr + unat bytes \<le> p \<or> p + 64 \<le> unat laddr"
  shows "case wqe_prepare_write_inl junk qp m p i flags raddr rkey laddr bytes of
      None \<Rightarrow> 28 < unat bytes
    | Some M \<Rightarrow> unat bytes \<le> 28 \<and>
        read_ctrl M p = \<lparr>nc_opcode = 8, nc_index = i, nc_opmod = 0, nc_qpn = sq_num qp,
          nc_ds = of_nat (2 + (unat bytes + 4 + 15) div 16), nc_fm_ce_se = ucast flags\<rparr> \<and>
        read_raddr M (p + 16) = (raddr, bswap32 rkey) \<and>
        be32 M (p + 32) = bytes OR 0x80000000 \<and>
        map M [p + 36 ..< p + 36 + unat bytes] = map m [unat laddr ..< unat laddr + unat bytes] \<and>
        same_outside p (36 + unat bytes) m M"
proof (cases "unat bytes \<le> 28")
  case False
  then have "\<not> bytes \<le> 28" by (simp add: word_le_unat)
  with False show ?thesis
    by (simp add: wqe_prepare_write_inl_def prepare_inl_rdma_write_wqe_header_def Let_def MAX_INLINE_SIZE_def)
next
  case True
  let ?n = "unat bytes" and ?s = "unat laddr"
  define ds :: u32 where "ds = (if bytes > 12 then 4 else 3)"
  define m1 where "m1 = store_wqe_seg m p (ctrl_words
    ((jk_ctrl junk)\<lparr>cs_opmod_idx_opcode := opmod_idx_opcode i OPCODE_RDMA_WRITE,
       cs_qpn_ds := bswap32 (push_bit 8 (sq_num qp) OR ds), cs_fm_ce_se := ucast flags\<rparr>))"
  define m2 where "m2 = store_wqe_seg m1 (p + 16) (raddr_words (remote junk raddr rkey))"
  define m3 where "m3 = store32 m2 (p + 32) (bswap32 (bytes OR INLINE_SEG))"
  define M where "M = memcpy_data m3 (p + 36) ?s ?n"
  have q: "unat (sq_num qp) < 2 ^ 24" "sq_num_shift8 qp = push_bit 8 (sq_num qp)"
    using assms(1) by (simp_all add: num_fields_ok_def)
  have "bytes \<le> 28" using True by (simp add: word_le_unat)
  then have "wqe_prepare_write_inl junk qp m p i flags raddr rkey laddr bytes = Some M"
    by (simp add: wqe_prepare_write_inl_def prepare_inl_rdma_write_wqe_header_def Let_def
        MAX_INLINE_SIZE_def M_def m3_def m2_def m1_def ds_def q add.commute)
  moreover have sep: "p + 36 + ?n \<le> ?s \<or> ?s + ?n \<le> p + 36"
    using assms(2) True by linarith
  have frame: "M a = m3 a" if "a < p + 36 \<or> p + 36 + ?n \<le> a" for a
    unfolding M_def by (rule any.cp_frame [OF sep that])
  have low: "m3 a = m a" if "a < p \<or> p + 36 \<le> a" for a
    using that by (auto simp: m3_def m2_def m1_def store32_frame seg_frame)
  have "read_ctrl M p = read_ctrl m3 p" "read_raddr M (p + 16) = read_raddr m3 (p + 16)"
    by (intro read_cong frame; simp)+
  moreover have "read_ctrl m3 p = \<lparr>nc_opcode = 8, nc_index = i, nc_opmod = 0, nc_qpn = sq_num qp,
      nc_ds = ucast ds, nc_fm_ce_se = ucast flags\<rparr>"
    using q by (simp add: m3_def m2_def m1_def store32_wqe_read wqe_read ds_def OPCODE_RDMA_WRITE_def)
  moreover have "read_raddr m3 (p + 16) = (raddr, bswap32 rkey)"
    by (simp add: m3_def m2_def store32_wqe_read wqe_read remote_def)
  moreover have "be32 M (p + 32) = bytes OR 0x80000000"
  proof -
    have "be32 M (p + 32) = be32 m3 (p + 32)" by (intro be32_cong frame) simp
    then show ?thesis by (simp add: m3_def INLINE_SEG_def)
  qed
  moreover have "map M [p + 36 ..< p + 36 + ?n] = map m [?s ..< ?s + ?n]"
  proof -
    have "map M [p + 36 ..< p + 36 + ?n] = map m3 [?s ..< ?s + ?n]"
      unfolding M_def by (rule any.cp_dst [OF sep])
    also have "\<dots> = map m [?s ..< ?s + ?n]"
      using assms(2) by (auto intro!: low)
    finally show ?thesis .
  qed
  moreover have "(ucast ds :: u8) = of_nat (2 + (?n + 4 + 15) div 16)"
    using inl_segments [OF True, symmetric] by (simp add: ds_def word_less_unat)
  moreover have "same_outside p (36 + ?n) m M"
    unfolding same_outside_def using frame low by (auto simp: add.assoc)
  ultimately show ?thesis using True by simp
qed


section \<open>A concrete queue pair\<close>

definition demo_dev_cq :: dev_cq where
  "demo_dev_cq = \<lparr>cqe_daddr = [], cq_num = 7, cqe_num = 16, cq_dbrec = 0, cqe_ci = 0, cqe_mask = 15,
     cqe_size = 64, cqe_rsvd = 0\<rparr>"

definition demo_qp :: dev_qp where
  "demo_qp = init_dev_qp 0x4321 16 4096 demo_dev_cq NIC_HANDLER_GPU_SM_DB"

definition demo_junk :: stack_junk where
  "demo_junk = \<lparr>jk_ctrl = zero_ctrl\<lparr>cs_imm := 0xDEAD\<rparr>,
     jk_raddr = \<lparr>rs_raddr = 1, rs_rkey = 2, rs_reserved = 0xBEEF\<rparr>,
     jk_wait = \<lparr>ws_resv0 = 9, ws_resv1 = 9, ws_max_index = 9, ws_qpn_cqn = 9\<rparr>, jk_seg = (5, 6, 7, 8)\<rparr>"

lemma demo_qp_ok: "num_fields_ok demo_qp" "ring_fields_ok demo_qp" "sq_num demo_qp = 0x4321"
proof -
  show "num_fields_ok demo_qp" unfolding demo_qp_def by (rule init_num_fields_ok) simp
  show "ring_fields_ok demo_qp" unfolding demo_qp_def by (rule init_ring_fields_ok [of _ 4]) simp_all
  show "sq_num demo_qp = 0x4321" by (simp add: demo_qp_def init_dev_qp_def Let_def)
qed

theorem wqe_write_decodes_witness:
  "read_ctrl (wqe_prepare_write demo_junk demo_qp (\<lambda>_. 0) 4096 3 8 8 0 0x1000 7 0x2000 9 64) 4096 =
     \<lparr>nc_opcode = 8, nc_index = 3, nc_opmod = 0, nc_qpn = 0x4321, nc_ds = 3, nc_fm_ce_se = 8\<rparr>"
  using wqe_write_decodes [OF demo_qp_ok(1), where opcode = 8 and junk = demo_junk and m = "\<lambda>_. 0"
      and p = 4096 and i = 3 and flags = 8 and imm = 0 and raddr = "0x1000" and rkey = 7
      and la = "0x2000" and ka = 9 and na = 64]
  by (simp add: Let_def demo_qp_ok(3))

theorem wqe_read_decodes_witness:
  "read_data (wqe_prepare_read demo_junk demo_qp (\<lambda>_. 0) 4096 3 8 0x1000 7 0x2000 9 64) 4128 =
     (64, bswap32 9, 0x2000)"
  using wqe_read_decodes [OF demo_qp_ok(1), where junk = demo_junk and m = "\<lambda>_. 0"
      and p = 4096 and i = 3 and flags = 8 and raddr = "0x1000" and rkey = 7
      and la = "0x2000" and ka = 9 and na = 64]
  by (simp add: Let_def)

theorem wqe_atomic_decodes_witness:
  "read_pair (wqe_prepare_atomic demo_junk demo_qp (\<lambda>_. 0) 4096 3 0x12 8 0x1000 7 0x2000 9 8 5 6) 4128 =
     (5, 5)"
  using wqe_atomic_decodes [OF demo_qp_ok(1), where opcode = "0x12" and junk = demo_junk and m = "\<lambda>_. 0"
      and p = 4096 and i = 3 and flags = 8 and raddr = "0x1000" and rkey = 7
      and laddr = "0x2000" and lkey = 9 and bytes = 8 and compare_add = 5 and swap_add = 6]
  by (simp add: Let_def)

theorem wqe_nop_wait_dump_decode_witness:
  "be32 (wqe_prepare_wait demo_junk demo_qp (\<lambda>_. 0) 4096 3 8 17 0x99) 4120 = 17"
  using wqe_nop_wait_dump_decode [OF demo_qp_ok(1), where junk = demo_junk and m = "\<lambda>_. 0"
      and p = 4096 and i = 3 and flags = 8 and max_index = 17 and qpn_cqn = "0x99"]
  by (simp add: Let_def)

theorem wqe_atomic_ext_decodes_witness:
  "read_pair (wqe_prepare_atomic_ext demo_junk ATOMIC_EXT_BYTES_8 demo_qp (\<lambda>_. 0) 4096 4160 3
     OPCODE_ATOMIC_MASKED_CS 8 0x1000 7 0x2000 9 0 0 6 5 (- 1) (- 1)) 4128 = (6, bswap64 5) \<and>
   read_ctrl (wqe_prepare_atomic_ext demo_junk ATOMIC_EXT_BYTES_4 demo_qp (\<lambda>_. 0) 4096 4160 3
     OPCODE_ATOMIC_MASKED_CS 8 0x1000 7 0x2000 9 0 0 6 5 (- 1) (- 1)) 4096 =
     \<lparr>nc_opcode = 0x14, nc_index = 3, nc_opmod = 8, nc_qpn = 0x4321, nc_ds = 4, nc_fm_ce_se = 8\<rparr>"
  using wqe_atomic_ext_decodes [OF demo_qp_ok(1), where junk = demo_junk and m = "\<lambda>_. 0"
      and p = 4096 and q = 4160 and i = 3 and flags = 8 and raddr = "0x1000" and rkey = 7
      and laddr = "0x2000" and lkey = 9 and add_data = 0 and boundary = 0 and swap = 6 and cmp = 5
      and swap_mask = "- 1" and cmp_mask = "- 1"]
  by (simp add: Let_def demo_qp_ok(3))

theorem wqe_write_inl_decodes_witness:
  "wqe_prepare_write_inl demo_junk demo_qp (\<lambda>a. of_nat a) 4096 3 8 0x1000 7 16 29 = None \<and>
   (case wqe_prepare_write_inl demo_junk demo_qp (\<lambda>a. of_nat a) 4096 3 8 0x1000 7 16 3 of
      None \<Rightarrow> False | Some M \<Rightarrow> map M [4132 ..< 4135] = [16, 17, 18])"
proof -
  have l: "[4132 ..< 4135] = [4132, 4133, 4134 :: nat]" "[16 ..< 19] = [16, 17, 18 :: nat]"
    by (simp_all add: upt_rec)
  show ?thesis
    using wqe_write_inl_decodes [OF demo_qp_ok(1), where junk = demo_junk and m = "\<lambda>a. of_nat a"
        and p = 4096 and i = 3 and flags = 8 and raddr = "0x1000" and rkey = 7
        and laddr = 16 and bytes = 29]
      wqe_write_inl_decodes [OF demo_qp_ok(1), where junk = demo_junk and m = "\<lambda>a. of_nat a"
        and p = 4096 and i = 3 and flags = 8 and raddr = "0x1000" and rkey = 7
        and laddr = 16 and bytes = 3]
    by (auto simp: l split: option.splits)
qed

end
