(* ===== verification/DevCqProofs.thy ===== *)
theory DevCqProofs
  imports DevCq
begin

text \<open>
  What the NIC promises of a completion queue, and what polling delivers under that promise:
  polling at an index reports the status of that completion exactly when the NIC has written it,
  the waiting version returns if and only if the completion ever arrives, and the collapsed queue
  counts completions.
\<close>

section \<open>The NIC's side\<close>

record cqe_event =
  ev_counter :: u16
  ev_signature :: u8
  ev_opcode :: u8

text \<open>The \<open>k\<close>-th CQE of a ring of \<open>n\<close>: its owner bit is the parity of its round.\<close>

definition nic_cqe :: "nat \<Rightarrow> nat \<Rightarrow> cqe_event \<Rightarrow> cqe64" where
  "nic_cqe n k ev =
    \<lparr>cqe_wqe_counter = bswap16 (ev_counter ev), cqe_signature = ev_signature ev,
     cqe_op_own = push_bit 4 (ev_opcode ev) OR of_bool (odd (k div n))\<rparr>"

primrec ring_after :: "(nat \<Rightarrow> cqe_event) \<Rightarrow> cqe64 list \<Rightarrow> nat \<Rightarrow> cqe64 list" where
  "ring_after ev r 0 = r"
| "ring_after ev r (Suc k) = (ring_after ev r k)[k mod length r := nic_cqe (length r) k (ev k)]"

text \<open>
  The ring as \<^verbatim>\<open>mlx5_init_cqes\<close> leaves it (\<open>0xF1\<close> is opcode INVALID, owner bit set), and
  the events the NIC reports: completion \<open>i\<close> of the send queue is the CQE \<open>i + cqe_rsvd\<close> and
  carries the low bits of \<open>i\<close>.
\<close>

definition nic_contract :: "(nat \<Rightarrow> cqe_event) \<Rightarrow> cqe64 list \<Rightarrow> dev_cq \<Rightarrow> bool" where
  "nic_contract ev r cq \<longleftrightarrow>
    length r = unat (cqe_num cq) \<and> is_power_of_two (ucast (cqe_num cq)) \<and>
    (\<forall>e \<in> set r. cqe_op_own e = 0xF1) \<and>
    (\<forall>k. ev_opcode (ev k) < 15) \<and>
    (\<forall>i. ev_counter (ev (i + unat (cqe_rsvd cq))) = of_nat i)"

text \<open>
  A moment in the life of the queue: \<open>p\<close> completions are written and \<open>c\<close> consumed, and the NIC
  has not overtaken the consumer.
\<close>

definition cq_holds :: "(nat \<Rightarrow> cqe_event) \<Rightarrow> cqe64 list \<Rightarrow> nat \<Rightarrow> nat \<Rightarrow> dev_cq \<Rightarrow> bool" where
  "cq_holds ev r c p cq \<longleftrightarrow>
    unat (cqe_ci cq) = c \<and> c \<le> p \<and> p \<le> c + length r \<and>
    cqe_daddr cq = ring_after ev r (p + unat (cqe_rsvd cq))"

lemma length_ring_after [simp]: "length (ring_after ev r k) = length r"
  by (induction k) simp_all

lemma mod_neq_window: "P mod n \<noteq> k mod n" if "k < P" "P < k + n" for k P n :: nat
proof
  assume "P mod n = k mod n"
  then have "n dvd P - k" using that(1) by (simp add: mod_eq_dvd_iff_nat [of k P n])
  then have "n \<le> P - k" using that(1) by (intro dvd_imp_le) simp_all
  with that show False by simp
qed

lemma ring_after_slot:
  assumes "s < length r"
  shows "P \<le> s \<and> ring_after ev r P ! s = r ! s \<or>
    (\<exists>k. k < P \<and> P \<le> k + length r \<and> k mod length r = s \<and>
       ring_after ev r P ! s = nic_cqe (length r) k (ev k))"
proof (induction P)
  case 0
  then show ?case by simp
next
  case (Suc P)
  let ?n = "length r"
  show ?case
  proof (cases "P mod ?n = s")
    case True
    then show ?thesis using assms by (intro disjI2 exI [of _ P]) auto
  next
    case False
    from Suc show ?thesis
    proof (elim disjE exE conjE)
      assume "P \<le> s" "ring_after ev r P ! s = r ! s"
      then show ?thesis using False assms by (cases "P = s") auto
    next
      fix k assume k: "k < P" "P \<le> k + ?n" "k mod ?n = s"
        "ring_after ev r P ! s = nic_cqe ?n k (ev k)"
      then have "P \<noteq> k + ?n" using False by auto
      with k False show ?thesis by (intro disjI2 exI [of _ k]) auto
    qed
  qed
qed

lemma ring_after_latest:
  assumes "k < P" "P \<le> k + length r"
  shows "ring_after ev r P ! (k mod length r) = nic_cqe (length r) k (ev k)"
proof -
  have n: "k mod length r < length r" using assms by (intro mod_less_divisor) auto
  from ring_after_slot [OF n, of P ev]
  obtain j where j: "j < P" "P \<le> j + length r" "j mod length r = k mod length r"
    "ring_after ev r P ! (k mod length r) = nic_cqe (length r) j (ev j)"
    using assms(1) mod_less_eq_dividend [of k "length r"] by (auto dest: order_trans)
  have "j = k"
  proof (rule ccontr)
    assume "j \<noteq> k"
    then consider "j < k" | "k < j" by linarith
    then show False
      using mod_neq_window [of j k "length r"] mod_neq_window [of k j "length r"] j assms
      by cases auto
  qed
  with j show ?thesis by simp
qed

section \<open>Reading a CQE\<close>

lemma chunk_parts:
  "chunk_opown (bswap32 (cqe_chunk e)) = cqe_op_own e"
  "chunk_wqe_counter (bswap32 (cqe_chunk e)) = bswap16 (cqe_wqe_counter e)"
proof -
  have ff: "(0xff :: u32) = mask 8" by (simp add: mask_eq_exp_minus_1)
  show "chunk_opown (bswap32 (cqe_chunk e)) = cqe_op_own e"
    unfolding chunk_opown_def cqe_chunk_def ff
    by (rule bit_word_eqI) (auto simp: bit_simps bit_bswap32 dest: bit_imp_le_length)
  have chunk_bit: "bit (cqe_chunk e) k \<longleftrightarrow> bit (cqe_wqe_counter e) k" if "k < 16" for k
    using that by (simp add: cqe_chunk_def bit_simps)
  have "bit (chunk_wqe_counter (bswap32 (cqe_chunk e))) n = bit (bswap16 (cqe_wqe_counter e)) n"
    if "n < 8 \<or> (\<exists>m<8. n = 8 + m)" for n
    using that
  proof (elim disjE exE conjE)
    assume n: "n < 8"
    then have "(16 + n) div 8 = 2" "(16 + n) mod 8 = n" by presburger+
    with n show ?thesis
      by (simp add: chunk_wqe_counter_def bit_simps bit_bswap32 bswap16_def bit_byte_of chunk_bit)
  next
    fix m :: nat assume m: "m < 8" "n = 8 + m"
    then have "(24 + m) div 8 = 3" "(24 + m) mod 8 = m" by presburger+
    with m show ?thesis
      by (simp add: chunk_wqe_counter_def bit_simps bit_bswap32 bswap16_def bit_byte_of chunk_bit)
  qed
  moreover have "n < 8 \<or> (\<exists>m<8. n = 8 + m)" if "n < 16" for n :: nat
    using that by presburger
  ultimately show "chunk_wqe_counter (bswap32 (cqe_chunk e)) = bswap16 (cqe_wqe_counter e)"
    by (intro bit_word_eqI) simp
qed


lemma ring_size_pow2:
  assumes "is_power_of_two (ucast (n :: u32))"
  obtains a where "a < 32" "n = 2 ^ a" "unat n = 2 ^ a"
proof -
  obtain a where a: "unat (ucast n :: u64) = 2 ^ a"
    using assms is_power_of_two_unat by blast
  then have u: "unat n = 2 ^ a" by simp
  then have "(2::nat) ^ a < 2 ^ 32" using unat_lt_2p [of n] by simp
  then have a32: "a < 32" by (rule power_less_imp_less_exp [rotated]) simp
  then have "n = 2 ^ a" using u unat_pow2 [of a, where 'a = 32] by (simp add: word_unat_eq_iff)
  from that [OF a32 this u] show thesis .
qed

lemma cqe_slot_mod:
  assumes "is_power_of_two (ucast (cqe_num cq))"
  shows "cqe_slot cq q = unat q mod unat (cqe_num cq)"
proof -
  obtain a where a: "a < 32" "cqe_num cq = 2 ^ a" "unat (cqe_num cq) = 2 ^ a"
    using assms by (rule ring_size_pow2)
  have "(ucast (mask a :: u32) :: u64) = mask a"
    using a(1) by (intro bit_word_eqI) (auto simp: bit_simps)
  then have "cqe_slot cq q = unat (ucast (q AND mask a) :: u32)"
    by (simp add: cqe_slot_def a(2) mask_eq_decr_exp [symmetric])
  also have "\<dots> = unat q mod 2 ^ a"
  proof -
    have "unat q mod 2 ^ a < 2 ^ a" by simp
    also have "(2::nat) ^ a < 2 ^ 32" using a(1) by (rule power_strict_increasing) simp
    finally show ?thesis by (simp add: unat_ucast_mod unat_and_mask)
  qed
  finally show ?thesis by (simp add: a(3))
qed

lemma owner_differs_nic:
  assumes "is_power_of_two (ucast n)"
  shows "owner_differs (push_bit 4 op OR of_bool b) q n \<longleftrightarrow> b \<noteq> odd (unat q div unat n)"
proof -
  obtain a where a: "a < 32" "n = 2 ^ a" "unat n = 2 ^ a"
    using assms by (rule ring_size_pow2)
  have "(ucast n :: u64) = 2 ^ a"
    using a by (simp add: word_unat_eq_iff unat_pow2)
  then have "q AND ucast n \<noteq> 0 \<longleftrightarrow> bit q a"
    by (simp add: bit_iff_and_push_bit_not_eq_0 push_bit_of_1)
  also have "\<dots> \<longleftrightarrow> odd (unat q div unat n)"
    by (simp add: a(3) bit_iff_odd [symmetric] unat_bit_iff)
  finally have 1: "q AND ucast n \<noteq> 0 \<longleftrightarrow> odd (unat q div unat n)" .
  have "(push_bit 4 op OR of_bool b) AND 1 \<noteq> 0 \<longleftrightarrow> b"
    using bit_iff_and_push_bit_not_eq_0 [of "push_bit 4 op OR of_bool b" 0] by (simp add: bit_simps)
  with 1 show ?thesis by (simp add: owner_differs_def)
qed

lemma opcode_nic: "op < 16 \<Longrightarrow> opown_opcode (push_bit 4 op OR of_bool b) = op"
  for op :: u8
proof -
  assume "op < 16"
  then have "take_bit 4 op = op" 
    by (simp add: word_unat_eq_iff unsigned_take_bit_eq take_bit_nat_eq_self_iff word_less_nat_alt)
  then have hi: "bit op k \<Longrightarrow> k < 4" for k by (metis bit_take_bit_iff)
  show ?thesis
    unfolding opown_opcode_def
    by (rule bit_word_eqI) (auto simp: bit_simps dest: hi)
qed


section \<open>What one observation tells\<close>

text \<open>
  A poll at \<open>i\<close> with an up-to-date or older consumer index \<open>c\<close>, \<open>c \<le> i < c + n\<close>, on the ring after
  \<open>p\<close> completions.
\<close>

definition nic_status :: "(nat \<Rightarrow> cqe_event) \<Rightarrow> dev_cq \<Rightarrow> nat \<Rightarrow> int" where
  "nic_status ev cq i = poll_status (ev_opcode (ev (i + unat (cqe_rsvd cq))))"

lemma nic_opcode: "nic_contract ev r cq \<Longrightarrow> ev_opcode (ev k) < 15"
  by (simp add: nic_contract_def)

lemma observe_written:
  assumes nc: "nic_contract ev r cq"
    and q: "unat i + unat (cqe_rsvd cq) < 2 ^ 64"
    and w: "unat i < p" "p \<le> unat i + length r"
  defines "e \<equiv> ring_after ev r (p + unat (cqe_rsvd cq)) ! cqe_slot cq (i + cqe_rsvd cq)"
  shows "observed_completion hopper e i (i + cqe_rsvd cq) (cqe_num cq)"
    and "poll_status (opown_opcode (observed_opown hopper e)) = nic_status ev cq (unat i)"
proof -
  define k where "k = unat i + unat (cqe_rsvd cq)"
  from nc have n: "length r = unat (cqe_num cq)" and p2: "is_power_of_two (ucast (cqe_num cq))"
    and cnt: "ev_counter (ev k) = of_nat (unat i)"
    by (simp_all add: nic_contract_def k_def)
  have k: "unat (i + cqe_rsvd cq) = k"
    using q by (simp add: k_def unat_add_no_overflow)
  have "e = nic_cqe (length r) k (ev k)"
    unfolding e_def cqe_slot_mod [OF p2] k n [symmetric]
    using w by (intro ring_after_latest) (simp_all add: k_def)
  then have own: "cqe_op_own e = push_bit 4 (ev_opcode (ev k)) OR of_bool (odd (k div length r))"
    and wc: "bswap16 (cqe_wqe_counter e) = ucast i"
    by (simp_all add: nic_cqe_def cnt of_nat_unat)
  have "ev_opcode (ev k) < 16"
    using nic_opcode [OF nc, of k] by (simp add: word_less_nat_alt)
  then have "opown_opcode (cqe_op_own e) = ev_opcode (ev k)"
    unfolding own by (rule opcode_nic)
  then show "poll_status (opown_opcode (observed_opown hopper e)) = nic_status ev cq (unat i)"
    by (simp add: observed_opown_def chunk_parts nic_status_def k_def)
  have "\<not> owner_differs (cqe_op_own e) (i + cqe_rsvd cq) (cqe_num cq)"
    unfolding own owner_differs_nic [OF p2] by (simp add: k n)
  moreover have "ucast (ucast i :: u16) = (ucast i :: u32) AND 0xffff"
  proof -
    have ffff: "(0xffff :: u32) = mask 16" by (simp add: mask_eq_exp_minus_1)
    show ?thesis unfolding ffff by (rule bit_word_eqI) (auto simp: bit_simps)
  qed
  ultimately show "observed_completion hopper e i (i + cqe_rsvd cq) (cqe_num cq)"
    by (simp add: observed_completion_def chunk_parts Let_def wc)
qed

lemma observe_pending:
  assumes nc: "nic_contract ev r cq"
    and q: "unat i + unat (cqe_rsvd cq) < 2 ^ 64"
    and w: "p \<le> unat i" "unat i < p + length r"
  defines "e \<equiv> ring_after ev r (p + unat (cqe_rsvd cq)) ! cqe_slot cq (i + cqe_rsvd cq)"
  shows "\<not> observed_completion hopper e i (i + cqe_rsvd cq) (cqe_num cq)"
proof -
  define k where "k = unat i + unat (cqe_rsvd cq)"
  define P where "P = p + unat (cqe_rsvd cq)"
  from nc have n: "length r = unat (cqe_num cq)" and p2: "is_power_of_two (ucast (cqe_num cq))"
    and init: "\<And>s. s < length r \<Longrightarrow> cqe_op_own (r ! s) = 0xF1"
    by (simp_all add: nic_contract_def)
  have pos: "0 < length r" using w by linarith
  have k: "unat (i + cqe_rsvd cq) = k"
    using q by (simp add: k_def unat_add_no_overflow)
  have w': "P \<le> k" "k < P + length r" using w by (simp_all add: k_def P_def)
  have e: "e = ring_after ev r P ! (k mod length r)"
    by (simp add: e_def cqe_slot_mod [OF p2] k n P_def)
  consider "P \<le> k mod length r" "ring_after ev r P ! (k mod length r) = r ! (k mod length r)"
    | j where "j < P" "P \<le> j + length r" "j mod length r = k mod length r"
        "ring_after ev r P ! (k mod length r) = nic_cqe (length r) j (ev j)"
    using ring_after_slot [of "k mod length r" r P ev] pos by auto
  then have "\<exists>op b. cqe_op_own e = push_bit 4 op OR of_bool b \<and> b \<noteq> odd (k div length r)"
  proof cases
    assume h: "P \<le> k mod length r" "ring_after ev r P ! (k mod length r) = r ! (k mod length r)"
    have "k div length r = 0"
    proof (rule ccontr)
      assume "k div length r \<noteq> 0"
      then have "length r * 1 \<le> length r * (k div length r)" by (intro mult_le_mono2) simp
      with h(1) w' mult_div_mod_eq [of "length r" k] show False by linarith
    qed
    moreover have "cqe_op_own e = push_bit 4 15 OR of_bool True"
      using h(2) pos by (simp add: e init)
    ultimately show ?thesis by (intro exI [of _ 15] exI [of _ True]) simp
  next
    fix j assume j: "j < P" "P \<le> j + length r" "j mod length r = k mod length r"
      "ring_after ev r P ! (k mod length r) = nic_cqe (length r) j (ev j)"
    have "k = j + length r"
    proof (rule ccontr)
      assume ne: "k \<noteq> j + length r"
      have "(j + length r) mod length r = k mod length r" using j by simp
      moreover have "j + length r < k \<or> k < j + length r" using ne by linarith
      ultimately show False
        using mod_neq_window [of "j + length r" k "length r"]
          mod_neq_window [of k "j + length r" "length r"] j w' by auto
    qed
    then have "k div length r = j div length r + 1" using pos by (simp only:) (rule div_add_self2, linarith)
    then show ?thesis using j(4) by (auto simp: e nic_cqe_def)
  qed
  then have "owner_differs (cqe_op_own e) (i + cqe_rsvd cq) (cqe_num cq)"
    by (auto simp: owner_differs_nic [OF p2] k n)
  then show ?thesis
    by (simp add: observed_completion_def chunk_parts Let_def)
qed


section \<open>Polling without waiting\<close>

lemma index_window:
  fixes ci i :: u64 and n :: u32
  assumes "unat ci = c" "c + unat n < 2 ^ 64"
  shows "i < ci \<longleftrightarrow> unat i < c" and "i \<ge> ci + ucast n \<longleftrightarrow> c + unat n \<le> unat i"
    and "ci \<le> i \<longleftrightarrow> c \<le> unat i"
  using assms unat_add_no_overflow [of ci "ucast n"] by (simp_all add: word_less_unat word_le_unat)

lemma unat_succ: "unat i < b \<Longrightarrow> b < 2 ^ 64 \<Longrightarrow> unat (i + 1) = unat i + 1" for i :: u64
  by (simp add: unat_add_no_overflow)

text \<open>C5: Under the NIC contract, with \<open>p\<close> completions written and \<open>c\<close> consumed, polling at an
  index gives the status of that completion if it is there, success without a change if it was
  consumed before, and EBUSY if it is still to come; the consumer index moves just past a
  completion that succeeded, and an error or EBUSY leaves the queue as it was.\<close>

theorem poll_one_cq_at_exact:
  assumes nc: "nic_contract ev r cq" and h: "cq_holds ev r c p cq" and m: "shareable mode"
    and q: "unat i + unat (cqe_rsvd cq) < 2 ^ 64" and b: "c + length r < 2 ^ 64"
  shows "poll_one_cq_at hopper mode cq i =
    (if unat i < c then (0, cq)
     else if unat i < p then
       (nic_status ev cq (unat i), if nic_status ev cq (unat i) = 0 then cq\<lparr>cqe_ci := i + 1\<rparr> else cq)
     else (EBUSY, cq))"
proof -
  have n: "length r = unat (cqe_num cq)" using nc by (simp add: nic_contract_def)
  have ci: "unat (cqe_ci cq) = c" and pc: "c \<le> p" "p \<le> c + length r"
    and ring: "cqe_daddr cq = ring_after ev r (p + unat (cqe_rsvd cq))"
    using h by (simp_all add: cq_holds_def)
  note win = index_window [OF ci b [unfolded n], of i]
  consider "unat i < c" | "c \<le> unat i" "unat i < p" | "p \<le> unat i" by linarith
  then show ?thesis
  proof cases
    case 1
    then have "max (cqe_ci cq) (i + 1) = cqe_ci cq"
      using unat_succ [of i c] b ci by (intro max_absorb1) (simp add: word_le_unat)
    with 1 m show ?thesis
      by (simp add: poll_one_cq_at_def priv_poll_one_cq_at_def Let_def win advance_ci_def)
  next
    case 2
    then have "max (cqe_ci cq) (i + 1) = i + 1"
      using unat_succ [of i "c + length r"] b pc ci 2 by (intro max_absorb2) (simp add: word_le_unat)
    moreover have "priv_poll_one_cq_at hopper mode cq i = nic_status ev cq (unat i)"
      using observe_written [OF nc q 2(2), of hopper] 2 pc m n
      by (simp add: priv_poll_one_cq_at_def Let_def win ring)
    ultimately show ?thesis
      using 2 m by (simp add: poll_one_cq_at_def Let_def advance_ci_def)
  next
    case 3
    have "\<not> observed_completion hopper (ring_after ev r (p + unat (cqe_rsvd cq)) ! cqe_slot cq (i + cqe_rsvd cq))
        i (i + cqe_rsvd cq) (cqe_num cq)" if "unat i < c + length r"
      using observe_pending [OF nc q 3, of hopper] that pc by simp
    with 3 pc m n show ?thesis
      by (simp add: poll_one_cq_at_def priv_poll_one_cq_at_def Let_def win ring EBUSY_def)
  qed
qed

section \<open>Waiting\<close>

text \<open>A history of the queue, with what is consumed and written at each moment.\<close>

definition cq_run ::
  "(nat \<Rightarrow> cqe_event) \<Rightarrow> cqe64 list \<Rightarrow> (nat \<Rightarrow> nat) \<Rightarrow> (nat \<Rightarrow> nat) \<Rightarrow> (nat \<Rightarrow> dev_cq) \<Rightarrow> bool" where
  "cq_run ev r cs ps env \<longleftrightarrow>
    nic_contract ev r (env 0) \<and> mono cs \<and> mono ps \<and>
    (\<forall>t. cq_holds ev r (cs t) (ps t) (env t) \<and> cs t + length r < 2 ^ 64 \<and>
       cqe_num (env t) = cqe_num (env 0) \<and> cqe_rsvd (env t) = cqe_rsvd (env 0))"

lemma cq_run_at:
  assumes "cq_run ev r cs ps env"
  shows "unat (cqe_ci (env t)) = cs t" "cs t \<le> ps t" "ps t \<le> cs t + unat (cqe_num (env 0))"
    "cqe_daddr (env t) = ring_after ev r (ps t + unat (cqe_rsvd (env 0)))"
    "cs t + unat (cqe_num (env 0)) < 2 ^ 64" "length r = unat (cqe_num (env 0))"
    "t \<le> u \<Longrightarrow> cs t \<le> cs u" "t \<le> u \<Longrightarrow> ps t \<le> ps u"
proof -
  have h: "cq_holds ev r (cs t) (ps t) (env t)" "cs t + length r < 2 ^ 64"
    "cqe_rsvd (env t) = cqe_rsvd (env 0)" "length r = unat (cqe_num (env 0))"
    and "mono cs" "mono ps"
    using assms unfolding cq_run_def nic_contract_def by blast+
  then show "t \<le> u \<Longrightarrow> cs t \<le> cs u" "t \<le> u \<Longrightarrow> ps t \<le> ps u"
    by (auto dest: monoD)
  from h show "unat (cqe_ci (env t)) = cs t" "cs t \<le> ps t" "ps t \<le> cs t + unat (cqe_num (env 0))"
    "cqe_daddr (env t) = ring_after ev r (ps t + unat (cqe_rsvd (env 0)))"
    "cs t + unat (cqe_num (env 0)) < 2 ^ 64" "length r = unat (cqe_num (env 0))"
    by (simp_all add: cq_holds_def)
qed

lemma poll_cq_loop_step:
  assumes run: "cq_run ev r cs ps env" and m: "shareable mode"
    and q: "unat i + unat (cqe_rsvd (env 0)) < 2 ^ 64"
  shows "unat i < cs t \<Longrightarrow> poll_cq_loop hopper mode env i t = Some (0, t)"
    and "cs t \<le> unat i \<Longrightarrow> unat i < ps t \<Longrightarrow> ps (t + 1) \<le> unat i + length r \<Longrightarrow>
      poll_cq_loop hopper mode env i t = Some (nic_status ev (env 0) (unat i), t + 1)"
proof -
  note at = cq_run_at [OF run]
  have nc: "nic_contract ev r (env 0)" using run by (simp add: cq_run_def)
  note win = index_window [OF at(1,5), where i = i, of t]
  show "unat i < cs t \<Longrightarrow> poll_cq_loop hopper mode env i t = Some (0, t)"
    by (subst poll_cq_loop.simps) (simp add: Let_def m win)
  assume c: "cs t \<le> unat i" "unat i < ps t" "ps (t + 1) \<le> unat i + length r"
  then have p: "unat i < ps (t + 1)" using at(8) [of t "t + 1"] by simp
  from c at(3) [of t] observe_written [OF nc q p c(3), of hopper]
  show "poll_cq_loop hopper mode env i t = Some (nic_status ev (env 0) (unat i), t + 1)"
    by (subst poll_cq_loop.simps) (simp add: Let_def m win at(4))
qed

lemma poll_cq_loop_sound_gen:
  "poll_cq_loop hopper mode env i t = Some res \<Longrightarrow>
   cq_run ev r cs ps env \<Longrightarrow> shareable mode \<Longrightarrow> unat i + unat (cqe_rsvd (env 0)) < 2 ^ 64 \<Longrightarrow>
   unat i < ps (snd res) \<and> (fst res = nic_status ev (env 0) (unat i) \<or> unat i < cs (snd res))"
proof (induction rule: poll_cq_loop.raw_induct [rotated, consumes 1, case_names step])
  case (step poll hopper mode env i t res)
  note run = step.prems(1) and m = step.prems(2) and q = step.prems(3)
  note at = cq_run_at [OF run]
  have nc: "nic_contract ev r (env 0)" using run by (simp add: cq_run_def)
  note win = index_window [OF at(1,5), where i = i, of t]
  let ?e = "cqe_daddr (env (t + 1)) ! cqe_slot (env 0) (i + cqe_rsvd (env 0))"
  let ?obs = "observed_completion hopper ?e i (i + cqe_rsvd (env 0)) (cqe_num (env 0))"
  consider (old) "unat i < cs t"
    | (again) "cs t \<le> unat i" "cs t + length r \<le> unat i \<or> \<not> ?obs"
    | (seen) "cs t \<le> unat i" "unat i < cs t + length r" ?obs
    by linarith
  then show ?case
  proof cases
    case old
    with step.hyps m at(2) [of t] show ?thesis by (auto simp: Let_def win)
  next
    case again
    then have "poll hopper mode env i (t + 2) = Some res"
      using step.hyps m at(6) by (auto simp: Let_def win split: if_splits)
    then show ?thesis by (rule step.IH) (rule run m q)+
  next
    case seen
    then have res: "res = (poll_status (opown_opcode (observed_opown hopper ?e)), t + 1)"
      using step.hyps m at(6) by (auto simp: Let_def win)
    have p: "unat i < ps (t + 1)"
    proof (rule ccontr)
      assume "\<not> ?thesis"
      moreover have "unat i < ps (t + 1) + length r"
        using seen at(2) [of t] at(8) [of t "t + 1"] by simp
      ultimately show False
        using seen(3) observe_pending [OF nc q, of "ps (t + 1)" hopper] by (simp add: at(4))
    qed
    show ?thesis
    proof (cases "ps (t + 1) \<le> unat i + length r")
      case True
      with p show ?thesis
        using observe_written [OF nc q p True, of hopper] by (simp add: res at(4))
    next
      case False
      then have "unat i < cs (t + 1)" using at(3) [of "t + 1"] at(6) by simp
      with p show ?thesis by (simp add: res)
    qed
  qed
qed

lemma poll_cq_loop_returns:
  assumes run: "cq_run ev r cs ps env" and m: "shareable mode"
    and q: "unat i + unat (cqe_rsvd (env 0)) < 2 ^ 64" and T: "unat i < ps T"
  shows "poll_cq_loop hopper mode env i t \<noteq> None"
proof (induction "T - t" arbitrary: t rule: less_induct)
  case less
  note at = cq_run_at [OF run] and fin = poll_cq_loop_step [OF run m q]
  have later: "poll_cq_loop hopper mode env i t \<noteq> None"
    if "poll_cq_loop hopper mode env i (t + 2) \<noteq> None"
    using that by (subst poll_cq_loop.simps) (simp add: Let_def)
  show ?case
  proof (cases "t < T")
    case True
    then have "T - (t + 2) < T - t" by simp
    then show ?thesis by (rule later [OF less])
  next
    case False
    then have p: "unat i < ps t" using T at(8) [of T t] by simp
    show ?thesis
    proof (cases "unat i < cs t \<or> ps (t + 1) \<le> unat i + length r")
      case True
      with p fin [of t hopper] show ?thesis by (cases "unat i < cs t") auto
    next
      case False
      then have "unat i < cs (t + 1)" using at(3) [of "t + 1"] at(6) by simp
      then have "unat i < cs (t + 2)" using at(7) [of "t + 1" "t + 2"] by simp
      then show ?thesis using fin(1) [of "t + 2" hopper] by (intro later) simp
    qed
  qed
qed

text \<open>C6: The waiting poll, run against any history in which the NIC and the other threads keep the
  contract, returns if and only if the completion it waits for is ever written.  When it returns,
  that completion is there; the status is that completion's, unless another thread has consumed it
  in the meantime, and the consumer index is moved past it exactly on status 0.\<close>

theorem poll_cq_at_waits_for_its_completion:
  assumes run: "cq_run ev r cs ps env" and m: "shareable mode"
    and q: "unat i + unat (cqe_rsvd (env 0)) < 2 ^ 64"
  shows "(poll_cq_at hopper mode env i \<noteq> None \<longleftrightarrow> (\<exists>t. unat i < ps t)) \<and>
    (\<forall>st cq'. poll_cq_at hopper mode env i = Some (st, cq') \<longrightarrow>
      (\<exists>u. unat i < ps u \<and> (st = nic_status ev (env 0) (unat i) \<or> unat i < cs u) \<and>
        cq' = (if st = 0 then (env (u + 1))\<lparr>cqe_ci := max (cqe_ci (env (u + 1))) (i + 1)\<rparr>
               else env (u + 1))))"
proof (cases "poll_cq_loop hopper mode env i 0")
  case None
  then have "\<not> (\<exists>t. unat i < ps t)" using poll_cq_loop_returns [OF run m q] by blast
  with None show ?thesis by (simp add: poll_cq_at_def priv_poll_cq_at_def)
next
  case (Some res)
  obtain st u where res: "res = (st, u)" by (cases res)
  have "unat i < ps u" and "st = nic_status ev (env 0) (unat i) \<or> unat i < cs u"
    using poll_cq_loop_sound_gen [OF Some run m q] by (simp_all add: res)
  then show ?thesis
    using Some m by (auto simp: poll_cq_at_def priv_poll_cq_at_def res advance_ci_def)
qed


section \<open>The collapsed queue\<close>

text \<open>After \<open>p\<close> completions the only CQE is the last one.\<close>

definition collapsed_holds :: "(nat \<Rightarrow> cqe_event) \<Rightarrow> nat \<Rightarrow> nat \<Rightarrow> dev_cq \<Rightarrow> bool" where
  "collapsed_holds ev c p cq \<longleftrightarrow>
    unat (cqe_ci cq) = c \<and>
    (p = 0 \<longrightarrow> opown_opcode (cqe_op_own (cqe_daddr cq ! 0)) = CQE_INVALID) \<and>
    (0 < p \<longrightarrow> cqe_daddr cq ! 0 = nic_cqe 1 (p - 1) (ev (p - 1)))"

definition collapsed_run ::
  "(nat \<Rightarrow> cqe_event) \<Rightarrow> (nat \<Rightarrow> nat) \<Rightarrow> (nat \<Rightarrow> nat) \<Rightarrow> (nat \<Rightarrow> dev_cq) \<Rightarrow> bool" where
  "collapsed_run ev cs ps env \<longleftrightarrow>
    (\<forall>k. ev_opcode (ev k) < 15 \<and> ev_counter (ev k) = of_nat k) \<and> mono ps \<and> mono cs \<and>
    (\<forall>t. collapsed_holds ev (cs t) (ps t) (env t) \<and> cs t \<le> ps t \<and> ps t < 2 ^ 64)"

lemma collapsed_pending_iff:
  assumes "0 < p" and w: "unat i \<le> p + unat n" "p + unat n < unat i + 65536"
  shows "collapsed_pending i (of_nat (p - 1)) n \<longleftrightarrow> p < unat i"
proof -
  define d where "d = int (unat i) - int p - 1"
  have "(ucast i :: u16) = of_int (int (unat i))"
    unfolding of_int_of_nat_eq by (simp add: of_nat_unat)
  moreover have "(of_nat (p - 1) :: u16) = of_int (int p - 1)"
    using assms(1) by (simp add: of_nat_diff)
  ultimately have eq: "(ucast i :: u16) - of_nat (p - 1) - 2 = of_int d"
    by (simp add: d_def)
  have dm: "int (unat (of_int d :: u16)) = d mod 65536"
    by (simp add: uint_word_of_int)
  have "collapsed_pending i (of_nat (p - 1)) n \<longleftrightarrow>
      int (unat (of_int d :: u16)) < int (unat n)"
    unfolding collapsed_pending_def eq word_less_unat unat_ucast_u16_u32
    by (simp only: of_nat_less_iff)
  then have "collapsed_pending i (of_nat (p - 1)) n \<longleftrightarrow> d mod 65536 < int (unat n)"
    unfolding dm .
  also have "\<dots> \<longleftrightarrow> 0 \<le> d"
  proof (cases "0 \<le> d")
    case True
    then have "d mod 65536 \<le> d" by (simp add: zmod_le_nonneg_dividend)
    moreover have "d < int (unat n)" using w(1) unfolding d_def by linarith
    ultimately show ?thesis using True by simp
  next
    case False
    then have "(d + 65536) mod 65536 = d + 65536"
      using w unfolding d_def by (intro mod_pos_pos_trivial) linarith+
    then have "d mod 65536 = d + 65536" by (simp only: mod_add_self2)
    then show ?thesis using False w(2) unfolding d_def by linarith
  qed
  also have "0 \<le> d \<longleftrightarrow> p < unat i" unfolding d_def by linarith
  finally show ?thesis .
qed

lemma round_up_window:
  assumes "a * M + b \<le> c * M + d" "c * M + d < a * M + b + M" "b < M" "d < M"
  shows "a * M + d + (if d < b then M else 0) = c * M + (d :: nat)"
proof -
  have "a * M < (c + 1) * M" "c * M < (a + 2) * M"
    using assms by (simp_all add: algebra_simps)
  then have "a < c + 1" "c < a + 2" by (simp_all only: mult_less_cancel2)
  then consider "c = a" | "c = a + 1" by linarith
  then show ?thesis using assms by cases auto
qed

lemma collapsed_new_ci_eq:
  assumes "unat i \<le> p" "p < unat i + 65536" "p < 2 ^ 64"
  shows "collapsed_new_ci i (of_nat p) = of_nat p"
proof -
  let ?L = "unat i mod 2 ^ 16" and ?H = "unat i div 2 ^ 16 * 2 ^ 16" and ?w = "of_nat p :: u16"
  have ffff: "(0xFFFF :: u64) = mask 16" by (simp add: mask_eq_exp_minus_1)
  have two16: "(2 :: nat) ^ 16 = 65536" by simp
  have w: "unat ?w = p mod 2 ^ 16" by (simp add: unat_of_nat)
  have l: "unat (ucast i :: u16) = ?L" by (simp add: unat_ucast_mod)
  have "i AND NOT (mask 16) OR ucast ?w = (i AND NOT (mask 16)) + ucast ?w"
    by (rule disjunctive_add [symmetric]) (auto simp: bit_simps dest: bit_imp_le_length)
  moreover have "i AND NOT (mask 16) = of_nat ?H"
  proof -
    have "i AND NOT (mask 16) = push_bit 16 (drop_bit 16 i)"
      by (rule bit_word_eqI) (auto simp: bit_simps)
    also have "\<dots> = of_nat (unat (drop_bit 16 i)) * 2 ^ 16"
      by (simp add: push_bit_eq_mult)
    finally show ?thesis by (simp add: unat_drop_bit)
  qed
  moreover have "(ucast ?w :: u64) = of_nat (p mod 2 ^ 16)"
    using w by (simp add: word_unat_eq_iff unat_of_nat)
  ultimately have "i AND NOT 0xFFFF OR ucast ?w = (of_nat (?H + p mod 2 ^ 16) :: u64)"
    by (simp add: ffff)
  moreover have "(ucast i :: u16) > ?w \<longleftrightarrow> p mod 2 ^ 16 < ?L"
    by (simp add: word_less_unat w l)
  ultimately have "collapsed_new_ci i ?w =
      of_nat (?H + p mod 2 ^ 16 + (if p mod 2 ^ 16 < ?L then 2 ^ 16 else 0))"
    by (simp add: collapsed_new_ci_def)
  moreover have "?H + p mod 2 ^ 16 + (if p mod 2 ^ 16 < ?L then 2 ^ 16 else 0) = p"
  proof -
    have "unat i div 2 ^ 16 * 2 ^ 16 + ?L = unat i" "p div 2 ^ 16 * 2 ^ 16 + p mod 2 ^ 16 = p"
      by (rule div_mult_mod_eq)+
    then show ?thesis
      using assms(1) assms(2) [folded two16] round_up_window [of "unat i div 2 ^ 16" "2 ^ 16" ?L "p div 2 ^ 16" "p mod 2 ^ 16"]
      by (simp only: mod_less_divisor zero_less_power zero_less_numeral)
  qed
  ultimately show ?thesis by (simp only:)
qed


text \<open>What one look at the CQE tells: nothing yet, or how many completions there are.\<close>

definition collapsed_window :: "(nat \<Rightarrow> nat) \<Rightarrow> (nat \<Rightarrow> dev_cq) \<Rightarrow> u64 \<Rightarrow> nat \<Rightarrow> bool" where
  "collapsed_window ps env i t \<longleftrightarrow>
    unat i \<le> ps t + unat (cqe_num (env 0)) \<and> ps t + unat (cqe_num (env 0)) < unat i + 65536"

lemma collapsed_look:
  fixes t :: nat
  assumes run: "collapsed_run ev cs ps env" and w: "collapsed_window ps env i t"
  defines "chunk \<equiv> bswap32 (cqe_chunk (cqe_daddr (env t) ! 0))"
  shows "(opown_opcode (chunk_opown chunk) = CQE_INVALID
      \<or> collapsed_pending i (chunk_wqe_counter chunk) (cqe_num (env 0)))
      \<longleftrightarrow> ps t = 0 \<or> ps t < unat i"
    and "0 < ps t \<Longrightarrow> unat i \<le> ps t \<Longrightarrow>
      opown_opcode (chunk_opown chunk) = ev_opcode (ev (ps t - 1)) \<and>
      collapsed_new_ci i (chunk_wqe_counter chunk + 1) = of_nat (ps t)"
proof -
  let ?p = "ps t"
  have h: "collapsed_holds ev (cs t) ?p (env t)"
    and p: "?p < 2 ^ 64" and ev: "\<And>k. ev_opcode (ev k) < 15" "\<And>k. ev_counter (ev k) = of_nat k"
    using run by (simp_all add: collapsed_run_def)
  have w1: "unat i \<le> ?p + unat (cqe_num (env 0))" "?p + unat (cqe_num (env 0)) < unat i + 65536"
    using w by (simp_all add: collapsed_window_def)
  have op: "opown_opcode (chunk_opown chunk) = ev_opcode (ev (?p - 1))"
    and wc: "chunk_wqe_counter chunk = of_nat (?p - 1)" if "0 < ?p"
  proof -
    have "cqe_daddr (env t) ! 0 = nic_cqe 1 (?p - 1) (ev (?p - 1))"
      using h that by (simp add: collapsed_holds_def)
    moreover have "ev_opcode (ev (?p - 1)) < 16"
      using ev(1) [of "?p - 1"] by (simp add: word_less_nat_alt)
    ultimately show "opown_opcode (chunk_opown chunk) = ev_opcode (ev (?p - 1))"
      and "chunk_wqe_counter chunk = of_nat (?p - 1)"
      unfolding chunk_def chunk_parts by (simp_all add: nic_cqe_def opcode_nic ev(2))
  qed
  have inv: "ev_opcode (ev (?p - 1)) \<noteq> CQE_INVALID"
    using ev(1) [of "?p - 1"] by (auto simp: CQE_INVALID_def)
  have zero: "opown_opcode (chunk_opown chunk) = CQE_INVALID" if "?p = 0"
    using h that by (simp add: collapsed_holds_def chunk_def chunk_parts)
  show "(opown_opcode (chunk_opown chunk) = CQE_INVALID
      \<or> collapsed_pending i (chunk_wqe_counter chunk) (cqe_num (env 0)))
      \<longleftrightarrow> ?p = 0 \<or> ?p < unat i"
    using zero op wc inv collapsed_pending_iff [OF _ w1] by (cases "?p = 0") simp_all
  assume a: "0 < ?p" "unat i \<le> ?p"
  have "of_nat (?p - 1) + 1 = (of_nat ?p :: u16)"
    using a by (simp add: of_nat_diff)
  moreover have "collapsed_new_ci i (of_nat ?p) = of_nat ?p"
    using w1 a p by (intro collapsed_new_ci_eq) linarith+
  ultimately show "opown_opcode (chunk_opown chunk) = ev_opcode (ev (?p - 1)) \<and>
      collapsed_new_ci i (chunk_wqe_counter chunk + 1) = of_nat ?p"
    using op wc a by simp
qed

lemma collapsed_ci:
  assumes "collapsed_run ev cs ps env"
  shows "i < cqe_ci (env t) \<longleftrightarrow> unat i < cs t" and "cqe_ci (env t) \<le> i \<longleftrightarrow> cs t \<le> unat i"
    and "cs t \<le> ps t" and "t \<le> u \<Longrightarrow> ps t \<le> ps u"
  using assms by (simp_all add: collapsed_run_def collapsed_holds_def word_less_unat word_le_unat monoD)

text \<open>
  What keeps the 16 bits unambiguous: the posted requests that are not complete fit the queue, and
  a poller that finds the consumer index not past \<open>i\<close> looks at the CQE before the NIC is 65536
  completions, less the size of the queue, past \<open>i\<close>.
\<close>

definition posts_fit :: "(nat \<Rightarrow> u64) \<Rightarrow> (nat \<Rightarrow> nat) \<Rightarrow> (nat \<Rightarrow> dev_cq) \<Rightarrow> bool" where
  "posts_fit wqe_pi ps env \<longleftrightarrow> (\<forall>t. unat (wqe_pi t) \<le> ps t + unat (cqe_num (env 0)))"

definition looks_in_time :: "(nat \<Rightarrow> nat) \<Rightarrow> (nat \<Rightarrow> nat) \<Rightarrow> (nat \<Rightarrow> dev_cq) \<Rightarrow> u64 \<Rightarrow> bool" where
  "looks_in_time cs ps env i \<longleftrightarrow>
    (\<forall>t. cs t \<le> unat i \<longrightarrow> ps (t + 1) + unat (cqe_num (env 0)) < unat i + 65536)"

lemma look_window:
  assumes "collapsed_run ev cs ps env" "looks_in_time cs ps env i"
    and "unat i \<le> ps t + unat (cqe_num (env 0))" "cs t \<le> unat i"
  shows "collapsed_window ps env i (t + 1)"
  using assms collapsed_ci(4) [OF assms(1), of t "t + 1"]
  by (auto simp: collapsed_window_def looks_in_time_def)

lemma collapsed_loop_sound:
  "poll_cq_collapsed_loop mode env i t = Some res \<Longrightarrow>
   collapsed_run ev cs ps env \<Longrightarrow> shareable mode \<Longrightarrow> looks_in_time cs ps env i \<Longrightarrow>
   unat i \<le> ps t + unat (cqe_num (env 0)) \<Longrightarrow>
   (\<exists>u. 0 < ps u \<and> unat i \<le> ps u \<and>
     (unat i < cs u \<and> res = (0, None, u) \<or>
      res = (poll_status (ev_opcode (ev (ps u - 1))), Some (of_nat (ps u)), u)))"
proof (induction rule: poll_cq_collapsed_loop.raw_induct [rotated, consumes 1, case_names step])
  case (step poll mode env i t res)
  note run = step.prems(1) and m = step.prems(2) and near = step.prems(3) and low = step.prems(4)
  note ci = collapsed_ci [OF run]
  have look: "cs t \<le> unat i \<Longrightarrow> collapsed_window ps env i (t + 1)"
    by (rule look_window [OF run near low])
  consider "unat i < cs t" | "cs t \<le> unat i" "ps (t + 1) = 0 \<or> ps (t + 1) < unat i"
    | "cs t \<le> unat i" "0 < ps (t + 1)" "unat i \<le> ps (t + 1)" by linarith
  then show ?case
  proof cases
    case 1
    with step.hyps m ci(3) [where t = t] show ?thesis by (auto simp: Let_def ci(1) intro!: exI [of _ t])
  next
    case 2
    then have "poll mode env i (t + 2) = Some res"
      using step.hyps m collapsed_look(1) [OF run look] by (simp add: Let_def ci split: if_splits)
    moreover have "unat i \<le> ps (t + 2) + unat (cqe_num (env 0))"
      using low ci(4) [of t "t + 2"] by simp
    ultimately show ?thesis using step.IH run m near by blast
  next
    case 3
    then have "res = (poll_status (ev_opcode (ev (ps (t + 1) - 1))), Some (of_nat (ps (t + 1))), t + 1)"
      using step.hyps m collapsed_look(1) [OF run look] collapsed_look(2) [OF run look]
      by (simp add: Let_def ci split: if_splits)
    with 3 show ?thesis by blast
  qed
qed

lemma collapsed_loop_returns:
  assumes run: "collapsed_run ev cs ps env" and m: "shareable mode"
    and near: "looks_in_time cs ps env i" and T: "0 < ps T" "unat i \<le> ps T"
  shows "unat i \<le> ps t + unat (cqe_num (env 0)) \<Longrightarrow> poll_cq_collapsed_loop mode env i t \<noteq> None"
proof (induction "T - t" arbitrary: t rule: less_induct)
  case less
  note ci = collapsed_ci [OF run]
  show ?case
  proof (cases "ps (t + 1) = 0 \<or> ps (t + 1) < unat i")
    case True
    then have "t < T" using T ci(4) [of T "t + 1"] by (cases "t < T") auto
    moreover have "unat i \<le> ps (t + 2) + unat (cqe_num (env 0))"
      using less.prems ci(4) [of t "t + 2"] by simp
    ultimately have "poll_cq_collapsed_loop mode env i (t + 2) \<noteq> None" by (intro less.hyps) simp
    then show ?thesis by (subst poll_cq_collapsed_loop.simps) (simp add: Let_def)
  next
    case False
    have "cs t \<le> unat i \<Longrightarrow> collapsed_window ps env i (t + 1)"
      by (rule look_window [OF run near less.prems])
    with False show ?thesis
      using collapsed_look(1) [OF run, of i "t + 1"] m
      by (subst poll_cq_collapsed_loop.simps) (auto simp: Let_def ci not_less)
  qed
qed

lemma wait_wqe_pi_returns: "wait_wqe_pi wqe_pi i t \<noteq> None" if "i \<le> wqe_pi T" "t \<le> T"
  using that
proof (induction "T - t" arbitrary: t rule: less_induct)
  case less
  show ?case
  proof (cases "t = T")
    case True
    then show ?thesis using less.prems by (subst wait_wqe_pi.simps) (auto dest: leD)
  next
    case False
    then have "wait_wqe_pi wqe_pi i (t + 1) \<noteq> None" using less.prems by (intro less.hyps) simp_all
    then show ?thesis by (subst wait_wqe_pi.simps) simp
  qed
qed

lemma wait_wqe_pi_sound: "wait_wqe_pi wqe_pi i t = Some u \<Longrightarrow> \<exists>s\<le>u. i \<le> wqe_pi s"
  by (induction rule: wait_wqe_pi.raw_induct [rotated, consumes 1])
    (auto simp: not_less split: if_splits intro: le_SucI)

text \<open>C7: Polling a collapsed queue at \<open>i\<close>, run against any history of the queue, returns if and
  only if the send queue ever posts up to \<open>i\<close> and the NIC ever completes \<open>i\<close> requests (and at
  least one); it returns the status of the last completion and moves the consumer index to the
  exact 64-bit number of completions, although the CQE carries 16 bits of it only.  So the
  argument is taken as a count, as the comment inside the loop has it: the call waits for the
  request before the one of index \<open>i\<close>, while its documentation speaks of polling at an index and
  the write-latency example passes the index of its last request.  Assumed of the history, so
  that the 16 bits are unambiguous: the posted and incomplete requests fit the queue, and a
  poller that finds the consumer index not past \<open>i\<close> looks at the CQE before the NIC is 65536
  completions, less the size of the queue, past \<open>i\<close>.\<close>

theorem poll_cq_collapsed_counts_completions:
  assumes run: "collapsed_run ev cs ps env" and m: "shareable mode"
    and fit: "posts_fit wqe_pi ps env" and near: "looks_in_time cs ps env i"
  shows "(poll_cq_collapsed_at mode wqe_pi env i \<noteq> None \<longleftrightarrow>
      (\<exists>t. i \<le> wqe_pi t) \<and> (\<exists>t. 0 < ps t \<and> unat i \<le> ps t)) \<and>
    (\<forall>st cq'. poll_cq_collapsed_at mode wqe_pi env i = Some (st, cq') \<longrightarrow>
      (\<exists>u. 0 < ps u \<and> unat i \<le> ps u \<and>
        (unat i < cs u \<and> st = 0 \<and> cq' = env (u + 1) \<or>
         st = poll_status (ev_opcode (ev (ps u - 1))) \<and>
         cq' = (if st = 0 then (env (u + 1))\<lparr>cqe_ci := max (cqe_ci (env (u + 1))) (of_nat (ps u))\<rparr>
                else env (u + 1)))))"
proof (cases "wait_wqe_pi wqe_pi i 0")
  case None
  then have "\<not> (\<exists>t. i \<le> wqe_pi t)" using wait_wqe_pi_returns [of i wqe_pi _ 0] by auto
  with None show ?thesis by (simp add: poll_cq_collapsed_at_def)
next
  case (Some t0)
  then obtain s where s: "s \<le> t0" "i \<le> wqe_pi s" using wait_wqe_pi_sound by blast
  have "unat i \<le> unat (wqe_pi s)" using s(2) by (simp add: word_le_nat_alt)
  also have "\<dots> \<le> ps s + unat (cqe_num (env 0))" using fit by (simp add: posts_fit_def)
  finally have low: "unat i \<le> ps t0 + unat (cqe_num (env 0))"
    using collapsed_ci(4) [OF run s(1)] by linarith
  show ?thesis
  proof (cases "poll_cq_collapsed_loop mode env i t0")
    case None
    then have "\<not> (\<exists>t. 0 < ps t \<and> unat i \<le> ps t)"
      using collapsed_loop_returns [OF run m near _ _ low] by blast
    with None Some show ?thesis by (simp add: poll_cq_collapsed_at_def)
  next
    case res: (Some res)
    from collapsed_loop_sound [OF res run m near low] obtain u where u: "0 < ps u" "unat i \<le> ps u"
      and "unat i < cs u \<and> res = (0, None, u) \<or> res = (poll_status (ev_opcode (ev (ps u - 1))), Some (of_nat (ps u)), u)"
      by blast
    then show ?thesis
      using Some res s(2) m by (auto simp: poll_cq_collapsed_at_def advance_ci_def)
  qed
qed


section \<open>A concrete queue\<close>

text \<open>Two CQEs; the second completion is an error.\<close>

definition demo_ev :: "nat \<Rightarrow> cqe_event" where
  "demo_ev k = \<lparr>ev_counter = of_nat k, ev_signature = 0, ev_opcode = (if k = 1 then 13 else 0)\<rparr>"

definition demo_ring :: "cqe64 list" where
  "demo_ring = replicate 2 \<lparr>cqe_wqe_counter = 0, cqe_signature = 0, cqe_op_own = 0xF1\<rparr>"

definition demo_cq :: "nat \<Rightarrow> nat \<Rightarrow> dev_cq" where
  "demo_cq c p =
    \<lparr>cqe_daddr = ring_after demo_ev demo_ring p, cq_num = 7, cqe_num = 2, cq_dbrec = 0,
     cqe_ci = of_nat c, cqe_mask = 1, cqe_size = 64, cqe_rsvd = 0\<rparr>"

lemma demo_contract: "nic_contract demo_ev demo_ring (demo_cq c p)"
  by (simp add: nic_contract_def demo_ring_def demo_cq_def demo_ev_def is_power_of_two_def)

lemma demo_holds: "c \<le> p \<Longrightarrow> p \<le> c + 2 \<Longrightarrow> c \<le> 5 \<Longrightarrow> cq_holds demo_ev demo_ring c p (demo_cq c p)"
  by (simp add: cq_holds_def demo_ring_def demo_cq_def unat_of_nat)

theorem poll_one_cq_at_exact_witness:
  "poll_one_cq_at False SHARING_MODE_GPU (demo_cq 1 2) 1 = (- EIO, demo_cq 1 2) \<and>
   poll_one_cq_at True SHARING_MODE_GPU (demo_cq 1 3) 2 = (0, demo_cq 3 3) \<and>
   poll_one_cq_at True SHARING_MODE_GPU (demo_cq 1 3) 3 = (EBUSY, demo_cq 1 3) \<and>
   poll_one_cq_at True SHARING_MODE_GPU (demo_cq 1 3) 0 = (0, demo_cq 1 3)"
proof -
  have len: "length demo_ring = 2" and rsvd: "cqe_rsvd (demo_cq c p) = 0" for c p
    by (simp_all add: demo_ring_def demo_cq_def)
  have st: "nic_status demo_ev (demo_cq c p) k = (if k = 1 then - EIO else 0)" for c p k
    by (simp add: nic_status_def demo_cq_def demo_ev_def poll_status_def CQE_REQ_ERR_def)
  have "(demo_cq 1 3)\<lparr>cqe_ci := 3\<rparr> = demo_cq 3 3" by (simp add: demo_cq_def)
  moreover have "- EIO \<noteq> 0" by (simp add: EIO_def)
  ultimately show ?thesis
    using poll_one_cq_at_exact [OF demo_contract demo_holds [of 1 2], of SHARING_MODE_GPU 1 False]
      poll_one_cq_at_exact [OF demo_contract demo_holds [of 1 3], of SHARING_MODE_GPU 2 True]
      poll_one_cq_at_exact [OF demo_contract demo_holds [of 1 3], of SHARING_MODE_GPU 3 True]
      poll_one_cq_at_exact [OF demo_contract demo_holds [of 1 3], of SHARING_MODE_GPU 0 True]
    by (simp add: len rsvd st)
qed

text \<open>One completion at time 2, the second at time 5, the first one consumed at time 4.\<close>

definition demo_ps :: "nat \<Rightarrow> nat" where
  "demo_ps t = (if t < 2 then 0 else if t < 5 then 1 else 2)"

definition demo_cs :: "nat \<Rightarrow> nat" where
  "demo_cs t = (if t < 4 then 0 else 1)"

definition demo_env :: "nat \<Rightarrow> dev_cq" where
  "demo_env t = demo_cq (demo_cs t) (demo_ps t)"

lemma demo_cq_run: "cq_run demo_ev demo_ring demo_cs demo_ps demo_env"
proof -
  have "cq_holds demo_ev demo_ring (demo_cs t) (demo_ps t) (demo_env t)" for t
    unfolding demo_env_def by (rule demo_holds) (simp_all add: demo_cs_def demo_ps_def)
  moreover have "mono demo_cs" "mono demo_ps"
    by (simp_all add: mono_def demo_cs_def demo_ps_def)
  moreover have "cqe_num (demo_env t) = 2" "cqe_rsvd (demo_env t) = 0" "demo_cs t + length demo_ring < 2 ^ 64" for t
    by (simp_all add: demo_env_def demo_cq_def demo_cs_def demo_ring_def)
  moreover have "nic_contract demo_ev demo_ring (demo_env 0)"
    unfolding demo_env_def by (rule demo_contract)
  ultimately show ?thesis unfolding cq_run_def by simp
qed

theorem poll_cq_at_waits_for_its_completion_witness:
  "poll_cq_at True SHARING_MODE_GPU demo_env 1 = Some (- EIO, demo_cq 1 2) \<and>
   poll_cq_at True SHARING_MODE_GPU demo_env 2 = None"
proof -
  have q: "unat (i :: u64) + unat (cqe_rsvd (demo_env 0)) < 2 ^ 64" for i
    using unat_lt_2p [of i] by (simp add: demo_env_def demo_cq_def)
  note exact = poll_cq_at_waits_for_its_completion
    [OF demo_cq_run _ q, where mode = SHARING_MODE_GPU and hopper = True]
  have no: "\<not> unat (2 :: u64) < demo_ps t" for t by (simp add: demo_ps_def)
  have "poll_cq_at True SHARING_MODE_GPU demo_env 2 = None"
    using conjunct1 [OF exact [of 2]] no by (simp del: not_None_eq)
  moreover have "poll_cq_at True SHARING_MODE_GPU demo_env 1 \<noteq> None"
    using exact [of 1] by (auto simp: demo_ps_def intro!: exI [of _ 5])
  then obtain st cq' where r: "poll_cq_at True SHARING_MODE_GPU demo_env 1 = Some (st, cq')"
    by auto
  then obtain u where u: "1 < demo_ps u" "st = nic_status demo_ev (demo_env 0) 1 \<or> 1 < demo_cs u"
    and cq': "cq' = (if st = 0 then (demo_env (u + 1))\<lparr>cqe_ci := max (cqe_ci (demo_env (u + 1))) (1 + 1)\<rparr>
               else demo_env (u + 1))"
    using exact [of 1] by auto
  from u have "5 \<le> u" "st = - EIO"
    by (auto simp: demo_ps_def demo_cs_def nic_status_def demo_env_def demo_cq_def demo_ev_def
        poll_status_def CQE_REQ_ERR_def split: if_splits)
  with cq' have "cq' = demo_cq 1 2"
    by (simp add: demo_env_def demo_cs_def demo_ps_def EIO_def)
  ultimately show ?thesis using r \<open>st = - EIO\<close> by simp
qed

text \<open>A collapsed queue on which only request 0 completes: polling at 1 returns nevertheless.\<close>

definition demo_ok :: "nat \<Rightarrow> cqe_event" where
  "demo_ok k = \<lparr>ev_counter = of_nat k, ev_signature = 0, ev_opcode = 0\<rparr>"

definition demo_one :: "nat \<Rightarrow> nat" where
  "demo_one t = (if t < 2 then 0 else 1)"

definition demo_collapsed :: "nat \<Rightarrow> nat \<Rightarrow> dev_cq" where
  "demo_collapsed c p =
    \<lparr>cqe_daddr = [if p = 0 then \<lparr>cqe_wqe_counter = 0, cqe_signature = 0, cqe_op_own = 0xF1\<rparr>
                  else nic_cqe 1 (p - 1) (demo_ok (p - 1))],
     cq_num = 7, cqe_num = 2, cq_dbrec = 0, cqe_ci = of_nat c, cqe_mask = 1, cqe_size = 64,
     cqe_rsvd = 0\<rparr>"

lemma demo_collapsed_run:
  "collapsed_run demo_ok (\<lambda>_. 0) demo_one (\<lambda>t. demo_collapsed 0 (demo_one t))"
  by (auto simp: collapsed_run_def collapsed_holds_def demo_ok_def demo_one_def demo_collapsed_def
      mono_def opown_opcode_def CQE_INVALID_def)

theorem poll_cq_collapsed_counts_completions_witness:
  "poll_cq_collapsed_at SHARING_MODE_GPU (\<lambda>_. 2) (\<lambda>t. demo_collapsed 0 (demo_one t)) 1 =
     Some (0, demo_collapsed 1 1) \<and>
   poll_cq_collapsed_at SHARING_MODE_GPU (\<lambda>_. 2) (\<lambda>t. demo_collapsed 0 (demo_one t)) 2 = None"
proof -
  let ?env = "\<lambda>t. demo_collapsed 0 (demo_one t)"
  have fit: "posts_fit (\<lambda>_. 2) demo_one ?env"
    by (simp add: posts_fit_def demo_one_def demo_collapsed_def)
  have near: "looks_in_time (\<lambda>_. 0) demo_one ?env i" if "i = 1 \<or> i = 2" for i
    using that by (auto simp: looks_in_time_def demo_one_def demo_collapsed_def)
  note exact = poll_cq_collapsed_counts_completions
    [OF demo_collapsed_run _ fit near, where mode = SHARING_MODE_GPU]
  have no: "\<not> unat (2 :: u64) \<le> demo_one t" for t by (simp add: demo_one_def)
  have "poll_cq_collapsed_at SHARING_MODE_GPU (\<lambda>_. 2) ?env 2 = None"
    using conjunct1 [OF exact [of 2]] no by (simp del: not_None_eq)
  moreover have "poll_cq_collapsed_at SHARING_MODE_GPU (\<lambda>_. 2) ?env 1 \<noteq> None"
    using exact [of 1] by (auto simp: demo_one_def intro!: exI [of _ 2])
  then obtain st cq' where r: "poll_cq_collapsed_at SHARING_MODE_GPU (\<lambda>_. 2) ?env 1 = Some (st, cq')"
    by auto
  then obtain u where u: "0 < demo_one u"
    "st = poll_status (ev_opcode (demo_ok (demo_one u - 1)))"
    "cq' = (if st = 0 then (?env (u + 1))\<lparr>cqe_ci := max (cqe_ci (?env (u + 1))) (of_nat (demo_one u))\<rparr>
       else ?env (u + 1))"
    using exact [of 1] by auto
  moreover from u(1) have "demo_one u = 1" "demo_one (u + 1) = 1"
    by (auto simp: demo_one_def split: if_splits)
  moreover have "st = 0" using u(2) by (simp add: poll_status_def CQE_REQ_ERR_def demo_ok_def)
  moreover have "(demo_collapsed 0 1)\<lparr>cqe_ci := max (cqe_ci (demo_collapsed 0 1)) 1\<rparr> = demo_collapsed 1 1"
    by (simp add: demo_collapsed_def max_def)
  ultimately show ?thesis using r by simp
qed

end
