(* ===== verification/DevSq.thy ===== *)
theory DevSq
  imports DevWqeProofs DevCqProofs
begin

text \<open>
  The send queue operations of \<^verbatim>\<open>include/device/doca_gpunetio_dev_verbs_qp.cuh\<close>: reserving
  slots, marking entries ready, and the submission protocols, as functions that run without
  interference on the queue pair.  Waiting is for other agents: the wait for a free slot is run
  against a history of the completion queue, and a wait on a field of the queue pair that nobody
  else changes never ends, \<open>None\<close>.  The theory \<open>SqConc\<close> has the interleaved steps.

  What the NIC or the proxy sees are the stores to the doorbell record and register, in order.
\<close>

section \<open>Options and effects\<close>

definition CODE_OPT_ASYNC_STORE_RELEASE :: u32 where "CODE_OPT_ASYNC_STORE_RELEASE = 1"
definition CODE_OPT_SKIP_AVAILABILITY_CHECK :: u32 where "CODE_OPT_SKIP_AVAILABILITY_CHECK = 2"
definition CODE_OPT_SKIP_DB_RINGING :: u32 where "CODE_OPT_SKIP_DB_RINGING = 4"
definition CODE_OPT_CPU_PROXY_UPDATE_PI :: u32 where "CODE_OPT_CPU_PROXY_UPDATE_PI = 8"

datatype ready_mode = READY_MODE_DEFAULT | READY_MODE_ATOMIC_CAS | READY_MODE_LD_ST

datatype nic_write =
    RING_DB u64
  | WRITE_DBREC u32
  | RING_BF "u8 list"
  | STORE_PROXY u64
  | MAX_PROXY u64

section \<open>Reserving slots\<close>

definition wait_until_slot_available ::
  "bool \<Rightarrow> sharing_mode \<Rightarrow> (nat \<Rightarrow> dev_cq) \<Rightarrow> dev_qp \<Rightarrow> u64 \<Rightarrow> dev_qp option" where
  "wait_until_slot_available hopper mode env qp wqe_idx =
    (let nwqes = sq_wqe_num qp
     in if wqe_idx \<ge> ucast nwqes
        then (case poll_cq_at hopper mode env (wqe_idx - ucast nwqes) of
                None \<Rightarrow> None
              | Some (_, cq) \<Rightarrow> Some (qp\<lparr>cq_sq := cq\<rparr>))
        else Some qp)"

definition reserve_wq_slots ::
  "bool \<Rightarrow> sharing_mode \<Rightarrow> (nat \<Rightarrow> dev_cq) \<Rightarrow> dev_qp \<Rightarrow> u32 \<Rightarrow> u32 \<Rightarrow> (u64 \<times> dev_qp) option" where
  "reserve_wq_slots hopper mode env qp count code_opt =
    (let (wqe_idx, r) = atomic_add mode (sq_rsvd_index qp) (ucast count);
         qp = qp\<lparr>sq_rsvd_index := r\<rparr>
     in if code_opt AND CODE_OPT_SKIP_AVAILABILITY_CHECK = 0
        then (case wait_until_slot_available hopper mode env qp (wqe_idx + ucast count - 1) of
                None \<Rightarrow> None
              | Some qp \<Rightarrow> Some (wqe_idx, qp))
        else Some (wqe_idx, qp))"

section \<open>Marking entries ready\<close>

text \<open>
  Both forms of the shared modes, compare-and-swap and load-then-store, wait until the index is
  \<open>from_wqe_idx\<close>.
\<close>

definition common_mark_wqes_ready ::
  "sharing_mode \<Rightarrow> ready_mode \<Rightarrow> u64 \<Rightarrow> u64 \<Rightarrow> u64 \<Rightarrow> u64 option" where
  "common_mark_wqes_ready mode rmode ready_index from_wqe_idx to_wqe_idx =
    (case mode of
       SHARING_MODE_EXCLUSIVE \<Rightarrow> Some (to_wqe_idx + 1)
     | SHARING_MODE_CTA \<Rightarrow>
        (if rmode = READY_MODE_ATOMIC_CAS
         then (if ready_index = from_wqe_idx then Some (to_wqe_idx + 1) else None)
         else if ready_index \<noteq> from_wqe_idx then None else Some (to_wqe_idx + 1))
     | SHARING_MODE_GPU \<Rightarrow>
        (if rmode = READY_MODE_DEFAULT \<or> rmode = READY_MODE_ATOMIC_CAS
         then (if ready_index = from_wqe_idx then Some (to_wqe_idx + 1) else None)
         else if ready_index \<noteq> from_wqe_idx then None else Some (to_wqe_idx + 1))
     | SHARING_MODE_MAX \<Rightarrow> Some ready_index)"

definition mark_wqes_ready ::
  "sharing_mode \<Rightarrow> ready_mode \<Rightarrow> dev_qp \<Rightarrow> u64 \<Rightarrow> u64 \<Rightarrow> dev_qp option" where
  "mark_wqes_ready mode rmode qp from_wqe_idx to_wqe_idx =
    map_option (\<lambda>r. qp\<lparr>sq_ready_index := r\<rparr>)
      (common_mark_wqes_ready mode rmode (sq_ready_index qp) from_wqe_idx to_wqe_idx)"

section \<open>Doorbells\<close>

definition prepare_dbr :: "u32 \<Rightarrow> u32" where
  "prepare_dbr prod_index = bswap32 (prod_index AND 0xffff)"

definition update_dbr :: "u32 \<Rightarrow> nic_write list" where
  "update_dbr prod_index = [WRITE_DBREC (prepare_dbr prod_index)]"

definition common_prepare_db :: "u32 \<Rightarrow> u64 \<Rightarrow> u64" where
  "common_prepare_db qpn_ds prod_index =
    (case ctrl_words (zero_ctrl\<lparr>cs_qpn_ds := qpn_ds,
                        cs_opmod_idx_opcode := bswap32 (ucast (push_bit 8 prod_index))\<rparr>) of
       (w0, w1, _, _) \<Rightarrow> ucast w0 OR push_bit 32 (ucast w1))"

definition prepare_db :: "dev_qp \<Rightarrow> u64 \<Rightarrow> u64" where
  "prepare_db qp prod_index = common_prepare_db (sq_num_shift8_be qp) prod_index"

definition ring_db :: "dev_qp \<Rightarrow> u64 \<Rightarrow> nic_write list" where
  "ring_db qp prod_index = [RING_DB (prepare_db qp prod_index)]"

definition ring_bf :: "memory \<Rightarrow> nat \<Rightarrow> nic_write list" where
  "ring_bf m wqe_ptr = [RING_BF (map m [wqe_ptr ..< wqe_ptr + 64])]"

definition ring_proxy :: "sharing_mode \<Rightarrow> u64 \<Rightarrow> nic_write list" where
  "ring_proxy mode prod_idx =
    (if mode = SHARING_MODE_EXCLUSIVE then [STORE_PROXY prod_idx, STORE_PROXY prod_idx]
     else [MAX_PROXY prod_idx])"

section \<open>Submission\<close>

definition acquire_lock :: "sharing_mode \<Rightarrow> dev_qp \<Rightarrow> dev_qp option" where
  "acquire_lock mode qp =
    (case lock_attempt mode (sq_lock qp) of
       (got, l) \<Rightarrow> if got then Some (qp\<lparr>sq_lock := l\<rparr>) else None)"

definition release_lock :: "sharing_mode \<Rightarrow> dev_qp \<Rightarrow> dev_qp" where
  "release_lock mode qp = qp\<lparr>sq_lock := unlock mode (sq_lock qp)\<rparr>"

definition submit_db_no_dbr ::
  "sharing_mode \<Rightarrow> dev_qp \<Rightarrow> u64 \<Rightarrow> u32 \<Rightarrow> (dev_qp \<times> nic_write list) option" where
  "submit_db_no_dbr mode qp prod_index code_opt =
    (if code_opt AND CODE_OPT_SKIP_DB_RINGING = 0 then
       let (old_prod_index, pi) = atomic_max mode (sq_wqe_pi qp) prod_index;
           qp = qp\<lparr>sq_wqe_pi := pi\<rparr>
       in Some (qp, if old_prod_index < prod_index then ring_db qp prod_index else [])
     else Some (qp, []))"

definition submit_db ::
  "sharing_mode \<Rightarrow> dev_qp \<Rightarrow> u64 \<Rightarrow> u32 \<Rightarrow> (dev_qp \<times> nic_write list) option" where
  "submit_db mode qp prod_index code_opt =
    (if code_opt AND CODE_OPT_SKIP_DB_RINGING = 0 then
       case acquire_lock mode qp of
         None \<Rightarrow> None
       | Some qp \<Rightarrow>
          let (old_prod_index, pi) = atomic_max mode (sq_wqe_pi qp) prod_index;
              qp = qp\<lparr>sq_wqe_pi := pi\<rparr>;
              writes = (if old_prod_index < prod_index
                        then ring_db qp prod_index @ update_dbr (ucast prod_index) @ ring_db qp prod_index
                        else [])
          in Some (release_lock mode qp, writes)
     else Some (qp, []))"

text \<open>
  BlueFlame: the entry itself is stored to the doorbell register.  Without the bulk copy of
  Hopper it falls back to the regular doorbell.
\<close>

definition submit_bf ::
  "bool \<Rightarrow> sharing_mode \<Rightarrow> dev_qp \<Rightarrow> u64 \<Rightarrow> memory \<Rightarrow> nat \<Rightarrow> u32 \<Rightarrow> (dev_qp \<times> nic_write list) option"
where
  "submit_bf has_tma_copy mode qp prod_index m smem_wqe code_opt =
    (if has_tma_copy then
       case acquire_lock mode qp of
         None \<Rightarrow> None
       | Some qp \<Rightarrow>
          let (old_prod_index, pi) = atomic_max mode (sq_wqe_pi qp) prod_index;
              qp = qp\<lparr>sq_wqe_pi := pi\<rparr>;
              writes = (if old_prod_index < prod_index
                        then ring_bf m smem_wqe @ update_dbr (ucast prod_index) @ ring_db qp prod_index
                        else [])
          in Some (release_lock mode qp, writes)
     else submit_db mode qp prod_index code_opt)"

text \<open>The warp version; lane 0 does what is not the copy, eight lanes store one word each.\<close>

definition submit_bf_warp ::
  "sharing_mode \<Rightarrow> dev_qp \<Rightarrow> u64 \<Rightarrow> memory \<Rightarrow> nat \<Rightarrow> (dev_qp \<times> nic_write list) option" where
  "submit_bf_warp mode qp prod_index m wqe =
    (case acquire_lock mode qp of
       None \<Rightarrow> None
     | Some qp \<Rightarrow>
        let (old_prod_index, pi) = atomic_max mode (sq_wqe_pi qp) prod_index;
            qp = qp\<lparr>sq_wqe_pi := pi\<rparr>;
            writes = (if old_prod_index < prod_index
                      then ring_bf m wqe @ update_dbr (ucast prod_index) @ ring_db qp prod_index
                      else [])
        in Some (release_lock mode qp, writes))"

definition submit_proxy ::
  "sharing_mode \<Rightarrow> dev_qp \<Rightarrow> u64 \<Rightarrow> u32 \<Rightarrow> (dev_qp \<times> nic_write list) option" where
  "submit_proxy mode qp prod_index code_opt =
    (let writes = ring_proxy mode prod_index;
         qp = (if code_opt AND CODE_OPT_CPU_PROXY_UPDATE_PI \<noteq> 0
               then qp\<lparr>sq_wqe_pi := snd (atomic_max mode (sq_wqe_pi qp) prod_index)\<rparr> else qp)
     in Some (qp, writes))"

definition submit ::
  "sharing_mode \<Rightarrow> nic_handler \<Rightarrow> dev_qp \<Rightarrow> u64 \<Rightarrow> u32 \<Rightarrow> (dev_qp \<times> nic_write list) option" where
  "submit mode nic_handler qp prod_index code_opt =
    (if nic_handler = NIC_HANDLER_AUTO then
       (if qp_nic_handler qp = NIC_HANDLER_GPU_SM_DB then submit_db mode qp prod_index code_opt
        else if qp_nic_handler qp = NIC_HANDLER_GPU_SM_NO_DBR
        then submit_db_no_dbr mode qp prod_index code_opt
        else submit_proxy mode qp prod_index code_opt)
     else if nic_handler = NIC_HANDLER_GPU_SM_DB then submit_db mode qp prod_index code_opt
     else if qp_nic_handler qp = NIC_HANDLER_GPU_SM_NO_DBR
     then submit_db_no_dbr mode qp prod_index code_opt
     else submit_proxy mode qp prod_index code_opt)"

section \<open>What the NIC reads in a doorbell\<close>

definition dbrec_index :: "u32 \<Rightarrow> u32" where
  "dbrec_index v = bswap32 v"

definition db_qpn :: "u64 \<Rightarrow> u32" where
  "db_qpn v = drop_bit 8 (bswap32 (hi32 v))"

definition db_index :: "u64 \<Rightarrow> u16" where
  "db_index v = ucast (drop_bit 8 (bswap32 (lo32 v)))"

lemma dbrec_roundtrip: "unat (dbrec_index (prepare_dbr i)) = unat i mod 2 ^ 16"
proof -
  have ffff: "(0xffff :: u32) = mask 16" by (simp add: mask_eq_exp_minus_1)
  show ?thesis unfolding dbrec_index_def prepare_dbr_def ffff by (simp add: unat_and_mask)
qed

lemma db_words:
  "lo32 (ucast w0 OR push_bit 32 (ucast w1)) = w0" "hi32 (ucast w0 OR push_bit 32 (ucast w1)) = w1"
  unfolding lo32_def hi32_def
  by (rule bit_word_eqI, auto simp: bit_simps dest: bit_imp_le_length)+

lemma db_roundtrip:
  assumes "num_fields_ok qp"
  shows "db_qpn (prepare_db qp i) = sq_num qp" and "db_index (prepare_db qp i) = ucast i"
proof -
  have n: "unat (sq_num qp) < 2 ^ 24" "sq_num_shift8_be qp = bswap32 (push_bit 8 (sq_num qp))"
    using assms by (simp_all add: num_fields_ok_def)
  show "db_qpn (prepare_db qp i) = sq_num qp"
    using qpn_word_parts(1) [OF n(1), of 0]
    by (simp add: db_qpn_def prepare_db_def common_prepare_db_def ctrl_words_def db_words n(2))
  have "(ucast (drop_bit 8 (ucast (push_bit 8 i) :: u32)) :: u16) = ucast i"
    by (rule bit_word_eqI) (auto simp: bit_simps)
  then show "db_index (prepare_db qp i) = ucast i"
    by (simp add: db_index_def prepare_db_def common_prepare_db_def ctrl_words_def db_words)
qed


section \<open>What the operations do\<close>

definition skips_db :: "u32 \<Rightarrow> bool" where
  "skips_db code_opt \<longleftrightarrow> code_opt AND CODE_OPT_SKIP_DB_RINGING \<noteq> 0"

text \<open>Whether the lock can be taken: the exclusive mode never waits.\<close>

definition lock_free :: "sharing_mode \<Rightarrow> dev_qp \<Rightarrow> bool" where
  "lock_free mode qp \<longleftrightarrow> mode = SHARING_MODE_EXCLUSIVE \<or> sq_lock qp = 0"

lemma lock_cycle:
  assumes "shareable mode"
  shows "lock_free mode qp \<Longrightarrow> acquire_lock mode qp = Some (qp\<lparr>sq_lock := 1\<rparr>)"
    and "\<not> lock_free mode qp \<Longrightarrow> acquire_lock mode qp = None"
    and "release_lock mode qp = qp\<lparr>sq_lock := 0\<rparr>"
  using assms
  by (cases mode; simp add: lock_free_def acquire_lock_def lock_attempt_def release_lock_def unlock_def)+

text \<open>The stores of the doorbell protocol for a new producer index.\<close>

definition db_stores :: "dev_qp \<Rightarrow> u64 \<Rightarrow> nic_write list" where
  "db_stores qp i =
    [RING_DB (prepare_db qp i), WRITE_DBREC (prepare_dbr (ucast i)), RING_DB (prepare_db qp i)]"

lemma prepare_db_frame [simp]:
  "prepare_db (qp\<lparr>sq_wqe_pi := v\<rparr>) i = prepare_db qp i" "prepare_db (qp\<lparr>sq_lock := l\<rparr>) i = prepare_db qp i"
  by (simp_all add: prepare_db_def)

lemma submit_db_eq:
  assumes "shareable mode" "lock_free mode qp" "\<not> skips_db code_opt"
  shows "submit_db mode qp i code_opt =
    Some (qp\<lparr>sq_lock := 0, sq_wqe_pi := max (sq_wqe_pi qp) i\<rparr>,
          if sq_wqe_pi qp < i then db_stores qp i else [])"
  using assms
  by (simp add: submit_db_def skips_db_def lock_cycle Let_def ring_db_def update_dbr_def db_stores_def)

text \<open>C11: The doorbell protocol.  If it may ring and the lock is free, it raises the producer index to
  the given one and gives the lock back; it stores to the NIC only when the index is new, and then
  the doorbell, the doorbell record and the doorbell again, all naming this queue pair and the
  low 16 bits of the index.  If the lock is held it waits; if ringing is skipped it does nothing.\<close>

theorem submit_db_rings_new_indices:
  assumes "shareable mode" and "num_fields_ok qp"
  shows "submit_db mode qp i code_opt =
      (if skips_db code_opt then Some (qp, [])
       else if lock_free mode qp then
         Some (qp\<lparr>sq_lock := 0, sq_wqe_pi := max (sq_wqe_pi qp) i\<rparr>,
               if sq_wqe_pi qp < i
               then [RING_DB (prepare_db qp i), WRITE_DBREC (prepare_dbr (ucast i)), RING_DB (prepare_db qp i)]
               else [])
       else None) \<and>
    db_qpn (prepare_db qp i) = sq_num qp \<and> db_index (prepare_db qp i) = ucast i \<and>
    unat (dbrec_index (prepare_dbr (ucast i))) = unat i mod 2 ^ 16"
proof -
  have "unat (dbrec_index (prepare_dbr (ucast i))) = unat i mod 2 ^ 16"
    by (simp add: dbrec_roundtrip unat_ucast_mod mod_mod_cancel)
  moreover have "skips_db code_opt \<Longrightarrow> submit_db mode qp i code_opt = Some (qp, [])"
    "\<not> skips_db code_opt \<Longrightarrow> \<not> lock_free mode qp \<Longrightarrow> submit_db mode qp i code_opt = None"
    using assms(1) by (simp_all add: submit_db_def skips_db_def lock_cycle)
  ultimately show ?thesis
    using assms submit_db_eq [OF assms(1), of qp code_opt i] by (simp add: db_roundtrip db_stores_def)
qed

text \<open>The dispatcher.  With the automatic handler the queue pair's own handler decides; the
  doorbell protocol can be forced.  Any other explicit choice is not obeyed: it falls to the
  queue pair's handler again, so that the protocol without doorbell record is used only when the
  queue pair is set up for it, and everything else goes to the proxy.\<close>

lemma submit_dispatch:
  "submit mode h qp i code_opt =
    (let used = (if h = NIC_HANDLER_GPU_SM_DB \<or>
                    h = NIC_HANDLER_AUTO \<and> qp_nic_handler qp = NIC_HANDLER_GPU_SM_DB
                 then NIC_HANDLER_GPU_SM_DB
                 else if qp_nic_handler qp = NIC_HANDLER_GPU_SM_NO_DBR then NIC_HANDLER_GPU_SM_NO_DBR
                 else NIC_HANDLER_CPU_PROXY)
     in if used = NIC_HANDLER_GPU_SM_DB then submit_db mode qp i code_opt
        else if used = NIC_HANDLER_GPU_SM_NO_DBR then submit_db_no_dbr mode qp i code_opt
        else submit_proxy mode qp i code_opt)"
  by (simp add: submit_def Let_def)

text \<open>Every protocol, when it succeeds, leaves everything of the queue pair but the lock and the
  producer index as it was, and the producer index never decreases.\<close>

theorem submit_frame:
  assumes "shareable mode" and "submit mode h qp i code_opt = Some (qp', writes)"
  shows "qp'\<lparr>sq_lock := sq_lock qp, sq_wqe_pi := sq_wqe_pi qp\<rparr> = qp \<and> sq_wqe_pi qp \<le> sq_wqe_pi qp' \<and>
    (writes \<noteq> [] \<longrightarrow> h = NIC_HANDLER_GPU_SM_DB \<or> qp_nic_handler qp = NIC_HANDLER_GPU_SM_DB
       \<or> qp_nic_handler qp = NIC_HANDLER_GPU_SM_NO_DBR \<or>
       writes = [MAX_PROXY i] \<or> writes = [STORE_PROXY i, STORE_PROXY i])"
proof -
  have db: "submit_db mode qp i code_opt = Some (qp', writes) \<Longrightarrow>
      qp'\<lparr>sq_lock := sq_lock qp, sq_wqe_pi := sq_wqe_pi qp\<rparr> = qp \<and> sq_wqe_pi qp \<le> sq_wqe_pi qp'"
    using assms(1) submit_db_eq [OF assms(1), of qp code_opt i]
    by (cases "skips_db code_opt"; cases "lock_free mode qp")
      (auto simp: submit_db_def skips_db_def lock_cycle)
  have no_dbr: "submit_db_no_dbr mode qp i code_opt = Some (qp', writes) \<Longrightarrow>
      qp'\<lparr>sq_lock := sq_lock qp, sq_wqe_pi := sq_wqe_pi qp\<rparr> = qp \<and> sq_wqe_pi qp \<le> sq_wqe_pi qp'"
    using assms(1) by (auto simp: submit_db_no_dbr_def Let_def split: if_splits)
  have proxy: "submit_proxy mode qp i code_opt = Some (qp', writes) \<Longrightarrow>
      qp'\<lparr>sq_lock := sq_lock qp, sq_wqe_pi := sq_wqe_pi qp\<rparr> = qp \<and> sq_wqe_pi qp \<le> sq_wqe_pi qp' \<and>
      (writes = [MAX_PROXY i] \<or> writes = [STORE_PROXY i, STORE_PROXY i])"
    using assms(1) by (auto simp: submit_proxy_def ring_proxy_def Let_def split: if_splits)
  show ?thesis
    using assms(2) db no_dbr proxy unfolding submit_dispatch Let_def
    by (auto split: if_splits)
qed

section \<open>Witnesses\<close>

lemma demo_qp_sq: "sq_lock demo_qp = 0" "sq_wqe_pi demo_qp = 0" "qp_nic_handler demo_qp = NIC_HANDLER_GPU_SM_DB"
  by (simp_all add: demo_qp_def init_dev_qp_def Let_def)

theorem submit_db_rings_new_indices_witness:
  "submit_db SHARING_MODE_CTA demo_qp 3 0 =
     Some (demo_qp\<lparr>sq_lock := 0, sq_wqe_pi := 3\<rparr>,
       [RING_DB (prepare_db demo_qp 3), WRITE_DBREC (prepare_dbr 3), RING_DB (prepare_db demo_qp 3)])"
  using submit_db_rings_new_indices [OF _ demo_qp_ok(1), of SHARING_MODE_CTA 3 0]
  by (simp add: skips_db_def lock_free_def demo_qp_sq)

lemma demo_submit:
  "submit SHARING_MODE_CTA NIC_HANDLER_AUTO demo_qp 3 0 =
     Some (demo_qp\<lparr>sq_lock := 0, sq_wqe_pi := 3\<rparr>, db_stores demo_qp 3)"
  by (simp add: submit_dispatch demo_qp_sq submit_db_eq skips_db_def lock_free_def)

theorem submit_frame_witness:
  "sq_wqe_pi demo_qp \<le> sq_wqe_pi (demo_qp\<lparr>sq_lock := 0, sq_wqe_pi := 3\<rparr>) \<and>
    qp_nic_handler demo_qp = NIC_HANDLER_GPU_SM_DB"
  using submit_frame [OF _ demo_submit] by (simp add: demo_qp_sq)

end
