(* ===== verification/SqConc.thy ===== *)
theory SqConc
  imports DevSq
begin

text \<open>
  Many threads posting to one send queue.  Each runs reserve, wait for the slots, write the
  entries, mark them ready, and submit with the doorbell protocol; the steps of the threads and of
  the NIC interleave freely.  Every step of a thread is one atomic operation of the code, taken
  from its function in the theories \<open>DevCommon\<close> and \<open>DevSq\<close>.

  The 64-bit indices are assumed not to wrap, and a thread reserves at most as many slots as the
  ring has.  The wait for a slot is what \<^verbatim>\<open>poll_cq_at\<close> promises: it ends only when the
  completion is there.
\<close>

section \<open>Threads and the shared queue\<close>

text \<open>Where a thread is: with its first index and count, then with its producer index.\<close>

datatype pc =
    Idle
  | Reserved u64 u32
  | Writing u64 u32 u32
  | Marking u64 u32
  | Storing u64 u32
  | Locking u64
  | Critical u64
  | Ring_first u64
  | Update_dbr u64
  | Ring_second u64
  | Unlocking

text \<open>
  \<open>g_wqes\<close> tells which index was last written at an address, \<open>g_done\<close> how many entries the NIC
  has completed, \<open>g_rung\<close> the indices given to the doorbell, in order.
\<close>

record sq_conc =
  g_qp :: dev_qp
  g_wqes :: "nat \<Rightarrow> u64 option"
  g_done :: nat
  g_rung :: "u64 list"
  g_pc :: "nat \<Rightarrow> pc"

definition init_conc :: "dev_qp \<Rightarrow> sq_conc" where
  "init_conc qp = \<lparr>g_qp = qp, g_wqes = (\<lambda>_. None), g_done = 0, g_rung = [], g_pc = (\<lambda>_. Idle)\<rparr>"

definition goto :: "nat \<Rightarrow> pc \<Rightarrow> sq_conc \<Rightarrow> sq_conc" where
  "goto t l s = s\<lparr>g_pc := (g_pc s)(t := l)\<rparr>"

definition upd_qp :: "(dev_qp \<Rightarrow> dev_qp) \<Rightarrow> sq_conc \<Rightarrow> sq_conc" where
  "upd_qp f s = s\<lparr>g_qp := f (g_qp s)\<rparr>"

definition uses_cas :: "sharing_mode \<Rightarrow> ready_mode \<Rightarrow> bool" where
  "uses_cas mode rmode \<longleftrightarrow>
    rmode = READY_MODE_ATOMIC_CAS \<or> mode = SHARING_MODE_GPU \<and> rmode = READY_MODE_DEFAULT"

definition slot_addr :: "dev_qp \<Rightarrow> u64 \<Rightarrow> nat" where
  "slot_addr qp i = get_wqe_ptr qp (ucast i)"

inductive sq_step :: "sharing_mode \<Rightarrow> ready_mode \<Rightarrow> sq_conc \<Rightarrow> sq_conc \<Rightarrow> bool"
  for mode rmode
where
  reserve: "g_pc s t = Idle \<Longrightarrow> 0 < count \<Longrightarrow> count \<le> ucast (sq_wqe_num (g_qp s)) \<Longrightarrow>
    unat (sq_rsvd_index (g_qp s)) + unat count < 2 ^ 64 \<Longrightarrow>
    atomic_add mode (sq_rsvd_index (g_qp s)) (ucast count) = (base, r) \<Longrightarrow>
    sq_step mode rmode s (goto t (Reserved base count) (upd_qp (sq_rsvd_index_update (\<lambda>_. r)) s))"
| wait_slots: "g_pc s t = Reserved base count \<Longrightarrow>
    (base + ucast count - 1 \<ge> ucast (sq_wqe_num (g_qp s)) \<longrightarrow>
      unat (base + ucast count - 1 - ucast (sq_wqe_num (g_qp s))) < g_done s) \<Longrightarrow>
    sq_step mode rmode s (goto t (Writing base count 0) s)"
| write_entry: "g_pc s t = Writing base count k \<Longrightarrow> k < count \<Longrightarrow>
    sq_step mode rmode s (goto t (Writing base count (k + 1))
      (s\<lparr>g_wqes := (g_wqes s)(slot_addr (g_qp s) (base + ucast k) \<mapsto> base + ucast k)\<rparr>))"
| written: "g_pc s t = Writing base count k \<Longrightarrow> \<not> k < count \<Longrightarrow>
    sq_step mode rmode s (goto t (Marking base count) s)"
| mark_cas: "g_pc s t = Marking base count \<Longrightarrow> uses_cas mode rmode \<Longrightarrow>
    common_mark_wqes_ready mode rmode (sq_ready_index (g_qp s)) base (base + ucast count - 1) = Some r \<Longrightarrow>
    sq_step mode rmode s (goto t (Locking (base + ucast count)) (upd_qp (sq_ready_index_update (\<lambda>_. r)) s))"
| mark_load: "g_pc s t = Marking base count \<Longrightarrow> \<not> uses_cas mode rmode \<Longrightarrow>
    sq_ready_index (g_qp s) = base \<Longrightarrow>
    sq_step mode rmode s (goto t (Storing base count) s)"
| mark_store: "g_pc s t = Storing base count \<Longrightarrow>
    sq_step mode rmode s (goto t (Locking (base + ucast count))
      (upd_qp (sq_ready_index_update (\<lambda>_. base + ucast count - 1 + 1)) s))"
| lock: "g_pc s t = Locking pidx \<Longrightarrow> lock_attempt mode (sq_lock (g_qp s)) = (True, l) \<Longrightarrow>
    sq_step mode rmode s (goto t (Critical pidx) (upd_qp (sq_lock_update (\<lambda>_. l)) s))"
| max_pi: "g_pc s t = Critical pidx \<Longrightarrow> atomic_max mode (sq_wqe_pi (g_qp s)) pidx = (old, pi) \<Longrightarrow>
    sq_step mode rmode s (goto t (if old < pidx then Ring_first pidx else Unlocking)
      (upd_qp (sq_wqe_pi_update (\<lambda>_. pi)) s))"
| ring_first: "g_pc s t = Ring_first pidx \<Longrightarrow>
    sq_step mode rmode s (goto t (Update_dbr pidx) (s\<lparr>g_rung := g_rung s @ [pidx]\<rparr>))"
| update_dbr: "g_pc s t = Update_dbr pidx \<Longrightarrow>
    sq_step mode rmode s (goto t (Ring_second pidx) s)"
| ring_second: "g_pc s t = Ring_second pidx \<Longrightarrow>
    sq_step mode rmode s (goto t Unlocking (s\<lparr>g_rung := g_rung s @ [pidx]\<rparr>))"
| unlock: "g_pc s t = Unlocking \<Longrightarrow>
    sq_step mode rmode s (goto t Idle (upd_qp (sq_lock_update (unlock mode)) s))"
| nic: "i \<in> set (g_rung s) \<Longrightarrow> g_done s < unat i \<Longrightarrow>
    sq_step mode rmode s (s\<lparr>g_done := g_done s + 1\<rparr>)"

inductive sq_reach :: "sharing_mode \<Rightarrow> ready_mode \<Rightarrow> sq_conc \<Rightarrow> sq_conc \<Rightarrow> bool"
  for mode rmode s0
where
  start: "sq_reach mode rmode s0 s0"
| more: "sq_reach mode rmode s0 s \<Longrightarrow> sq_step mode rmode s s' \<Longrightarrow> sq_reach mode rmode s0 s'"

definition start_ok :: "dev_qp \<Rightarrow> bool" where
  "start_ok qp \<longleftrightarrow> ring_fields_ok qp \<and> sq_rsvd_index qp = 0 \<and> sq_ready_index qp = 0 \<and>
    sq_wqe_pi qp = 0 \<and> sq_lock qp = 0"

definition shared :: "sharing_mode \<Rightarrow> bool" where
  "shared mode \<longleftrightarrow> mode = SHARING_MODE_CTA \<or> mode = SHARING_MODE_GPU"

end
