(* ===== verification/SqInv.thy ===== *)
theory SqInv
  imports SqConc
begin

text \<open>
  The invariant of the interleaved send queue of \<open>SqConc\<close>: what each thread owns, which entries are written, and
  that every step keeps it.
\<close>

section \<open>The invariant\<close>

abbreviation rsvd :: "sq_conc \<Rightarrow> nat" where "rsvd s \<equiv> unat (sq_rsvd_index (g_qp s))"
abbreviation ready :: "sq_conc \<Rightarrow> nat" where "ready s \<equiv> unat (sq_ready_index (g_qp s))"
abbreviation posted :: "sq_conc \<Rightarrow> nat" where "posted s \<equiv> unat (sq_wqe_pi (g_qp s))"
abbreviation slots :: "sq_conc \<Rightarrow> nat" where "slots s \<equiv> unat (sq_wqe_num (g_qp s))"

text \<open>The indices a thread has reserved and not yet marked ready.\<close>

fun owns :: "pc \<Rightarrow> (nat \<times> nat) option" where
  "owns (Reserved b c) = Some (unat b, unat c)"
| "owns (Writing b c k) = Some (unat b, unat c)"
| "owns (Marking b c) = Some (unat b, unat c)"
| "owns (Storing b c) = Some (unat b, unat c)"
| "owns _ = None"

text \<open>Those whose entries it has written.\<close>

fun wrote :: "pc \<Rightarrow> nat set" where
  "wrote (Writing b c k) = {unat b ..< unat b + unat k}"
| "wrote (Marking b c) = {unat b ..< unat b + unat c}"
| "wrote (Storing b c) = {unat b ..< unat b + unat c}"
| "wrote _ = {}"

fun submits :: "pc \<Rightarrow> u64 option" where
  "submits (Locking p) = Some p"
| "submits (Critical p) = Some p"
| "submits (Ring_first p) = Some p"
| "submits (Update_dbr p) = Some p"
| "submits (Ring_second p) = Some p"
| "submits _ = None"

fun ringing :: "pc \<Rightarrow> u64 option" where
  "ringing (Ring_first p) = Some p"
| "ringing (Update_dbr p) = Some p"
| "ringing (Ring_second p) = Some p"
| "ringing _ = None"

fun in_critical :: "pc \<Rightarrow> bool" where
  "in_critical (Critical p) = True"
| "in_critical (Ring_first p) = True"
| "in_critical (Update_dbr p) = True"
| "in_critical (Ring_second p) = True"
| "in_critical Unlocking = True"
| "in_critical _ = False"

definition inv_order :: "sq_conc \<Rightarrow> bool" where
  "inv_order s \<longleftrightarrow> ring_fields_ok (g_qp s) \<and> g_done s \<le> posted s \<and> posted s \<le> ready s \<and>
    ready s \<le> rsvd s \<and> (\<forall>i \<in> set (g_rung s). i \<le> sq_wqe_pi (g_qp s))"

definition inv_owns :: "sq_conc \<Rightarrow> bool" where
  "inv_owns s \<longleftrightarrow> (\<forall>t b c. owns (g_pc s t) = Some (b, c) \<longrightarrow>
     0 < c \<and> c \<le> slots s \<and> ready s \<le> b \<and> b + c \<le> rsvd s)"

definition inv_disjoint :: "sq_conc \<Rightarrow> bool" where
  "inv_disjoint s \<longleftrightarrow> (\<forall>t u b c b' c'. t \<noteq> u \<longrightarrow> owns (g_pc s t) = Some (b, c) \<longrightarrow>
     owns (g_pc s u) = Some (b', c') \<longrightarrow> b + c \<le> b' \<or> b' + c' \<le> b)"

definition inv_cover :: "sq_conc \<Rightarrow> bool" where
  "inv_cover s \<longleftrightarrow> (\<forall>i. ready s \<le> i \<longrightarrow> i < rsvd s \<longrightarrow>
     (\<exists>t b c. owns (g_pc s t) = Some (b, c) \<and> b \<le> i \<and> i < b + c))"

definition inv_room :: "sq_conc \<Rightarrow> bool" where
  "inv_room s \<longleftrightarrow>
     (\<forall>t b c. owns (g_pc s t) = Some (b, c) \<longrightarrow> (\<forall>b' c'. g_pc s t \<noteq> Reserved b' c') \<longrightarrow>
        b + c \<le> g_done s + slots s) \<and>
     (\<forall>t b c k. g_pc s t = Writing b c k \<longrightarrow> unat k \<le> unat c) \<and>
     (\<forall>t b c. g_pc s t = Storing b c \<longrightarrow> sq_ready_index (g_qp s) = b)"

definition inv_entries :: "sq_conc \<Rightarrow> bool" where
  "inv_entries s \<longleftrightarrow> (\<forall>i. g_done s \<le> unat i \<and> unat i < ready s \<or> (\<exists>t. unat i \<in> wrote (g_pc s t)) \<longrightarrow>
     g_wqes s (slot_addr (g_qp s) i) = Some i)"

definition inv_submit :: "sq_conc \<Rightarrow> bool" where
  "inv_submit s \<longleftrightarrow> (\<forall>t p. submits (g_pc s t) = Some p \<longrightarrow> p \<le> sq_ready_index (g_qp s)) \<and>
     (\<forall>t p. ringing (g_pc s t) = Some p \<longrightarrow> p = sq_wqe_pi (g_qp s)) \<and>
     sorted (g_rung s)"

definition inv_lock :: "sq_conc \<Rightarrow> bool" where
  "inv_lock s \<longleftrightarrow> (sq_lock (g_qp s) = 0 \<or> sq_lock (g_qp s) = 1) \<and>
     (sq_lock (g_qp s) = 1 \<longleftrightarrow> (\<exists>t. in_critical (g_pc s t))) \<and>
     (\<forall>t u. in_critical (g_pc s t) \<longrightarrow> in_critical (g_pc s u) \<longrightarrow> t = u)"

definition inv_pending :: "sq_conc \<Rightarrow> bool" where
  "inv_pending s \<longleftrightarrow>
     (posted s < ready s \<longrightarrow>
        (\<exists>t. g_pc s t = Locking (sq_ready_index (g_qp s)) \<or> g_pc s t = Critical (sq_ready_index (g_qp s)))) \<and>
     (0 < posted s \<longrightarrow> sq_wqe_pi (g_qp s) \<in> set (g_rung s) \<or>
        (\<exists>t. g_pc s t = Ring_first (sq_wqe_pi (g_qp s))))"

section \<open>Reading the state after a step\<close>

lemma goto_simps [simp]:
  "g_pc (goto t l s) = (g_pc s)(t := l)" "g_qp (goto t l s) = g_qp s" "g_wqes (goto t l s) = g_wqes s"
  "g_done (goto t l s) = g_done s" "g_rung (goto t l s) = g_rung s"
  by (simp_all add: goto_def)

lemma upd_qp_simps [simp]:
  "g_pc (upd_qp f s) = g_pc s" "g_qp (upd_qp f s) = f (g_qp s)" "g_wqes (upd_qp f s) = g_wqes s"
  "g_done (upd_qp f s) = g_done s" "g_rung (upd_qp f s) = g_rung s"
  by (simp_all add: upd_qp_def)

lemma ring_fields_frame [simp]:
  "ring_fields_ok (sq_rsvd_index_update f qp) = ring_fields_ok qp"
  "ring_fields_ok (sq_ready_index_update f qp) = ring_fields_ok qp"
  "ring_fields_ok (sq_wqe_pi_update f qp) = ring_fields_ok qp"
  "ring_fields_ok (sq_lock_update g qp) = ring_fields_ok qp"
  "slot_addr (sq_rsvd_index_update f qp) i = slot_addr qp i"
  "slot_addr (sq_ready_index_update f qp) i = slot_addr qp i"
  "slot_addr (sq_wqe_pi_update f qp) i = slot_addr qp i"
  "slot_addr (sq_lock_update g qp) i = slot_addr qp i"
  by (simp_all add: ring_fields_ok_def slot_addr_def get_wqe_ptr_def)

lemma slot_addr_mod:
  assumes "ring_fields_ok qp"
  shows "slot_addr qp i = sq_wqe_daddr qp + 64 * (unat i mod unat (sq_wqe_num qp))"
proof -
  obtain a where a: "a < 16" "sq_wqe_num qp = 2 ^ a"
    using assms by (auto simp: ring_fields_ok_def)
  have "(2 :: nat) ^ a dvd 2 ^ 16" using a(1) by (intro le_imp_power_dvd) simp
  then show ?thesis
    unfolding slot_addr_def get_wqe_ptr_mod [OF assms]
    using a by (simp add: unat_ucast_mod unat_pow2 mod_mod_cancel)
qed

lemma slot_addr_inj:
  assumes "ring_fields_ok qp" and "slot_addr qp i = slot_addr qp j"
    and "unat i < unat j + unat (sq_wqe_num qp)" "unat j < unat i + unat (sq_wqe_num qp)"
  shows "i = j"
proof -
  have "unat i mod unat (sq_wqe_num qp) = unat j mod unat (sq_wqe_num qp)"
    using assms(2) by (simp add: slot_addr_mod [OF assms(1)])
  then have "unat i = unat j"
    using mod_neq_window [of "unat i" "unat j" "unat (sq_wqe_num qp)"]
      mod_neq_window [of "unat j" "unat i" "unat (sq_wqe_num qp)"] assms(3,4) by linarith
  then show ?thesis by (simp add: word_unat_eq_iff)
qed

lemma slots_pos: "ring_fields_ok qp \<Longrightarrow> 0 < unat (sq_wqe_num qp)"
  by (auto simp: ring_fields_ok_def unat_pow2)

lemma count_le_slots: "count \<le> ucast (n :: u16) \<longleftrightarrow> unat count \<le> unat n" for count :: u32
  by (simp add: word_le_unat)

lemma last_index:
  fixes b r :: u64 and c :: u32
  assumes "unat b + unat c \<le> unat r" "0 < unat c"
  shows "unat (b + ucast c) = unat b + unat c"
    and "unat (b + ucast c - 1) = unat b + unat c - 1"
proof -
  show 1: "unat (b + ucast c) = unat b + unat c"
    using assms unat_lt_2p [of r] unat_add_no_overflow [of b "ucast c"] by simp
  then have "1 \<le> b + ucast c" using assms(2) by (simp add: word_le_unat)
  then show "unat (b + ucast c - 1) = unat b + unat c - 1"
    using 1 by (simp add: unat_sub_le)
qed


section \<open>Each step keeps the invariant\<close>

definition sq_inv :: "sq_conc \<Rightarrow> bool" where
  "sq_inv s \<longleftrightarrow> inv_order s \<and> inv_owns s \<and> inv_disjoint s \<and> inv_cover s \<and> inv_room s \<and>
    inv_entries s \<and> inv_submit s \<and> inv_lock s \<and> inv_pending s"

lemma sq_invD:
  assumes "sq_inv s"
  shows "inv_order s" "inv_owns s" "inv_disjoint s" "inv_cover s" "inv_room s" "inv_entries s"
    "inv_submit s" "inv_lock s" "inv_pending s"
  using assms by (simp_all add: sq_inv_def)

lemma shared_ops:
  assumes "shared mode"
  shows "atomic_add mode c v = (c, c + v)" "atomic_max mode c v = (c, max c v)"
    "lock_attempt mode l = (l = 0, if l = 0 then 1 else l)" "unlock mode l = 0"
    "common_mark_wqes_ready mode rmode r f w = (if r = f then Some (w + 1) else None)"
  using assms
  by (auto simp: shared_def lock_attempt_def unlock_def common_mark_wqes_ready_def)

text \<open>The effect of marking: the ready index passes the thread's entries.\<close>

lemma own_facts:
  fixes b :: u64 and c :: u32
  assumes "sq_inv s" "owns (g_pc s t) = Some (unat b, unat c)"
  shows "0 < unat c" "unat c \<le> slots s" "ready s \<le> unat b" "unat b + unat c \<le> rsvd s"
    "unat (b + ucast c) = unat b + unat c" "unat (b + ucast c - 1) = unat b + unat c - 1"
    "posted s \<le> ready s" "g_done s \<le> posted s"
proof -
  show o: "0 < unat c" "unat c \<le> slots s" "ready s \<le> unat b" "unat b + unat c \<le> rsvd s"
    using assms by (auto simp: sq_inv_def inv_owns_def)
  show "unat (b + ucast c) = unat b + unat c" "unat (b + ucast c - 1) = unat b + unat c - 1"
    using last_index [OF o(4) o(1)] by simp_all
  show "posted s \<le> ready s" "g_done s \<le> posted s"
    using assms by (simp_all add: sq_inv_def inv_order_def)
qed

text \<open>The steps again, with what the invariant says of the moving thread.\<close>

lemma step_cases:
  assumes inv: "sq_inv s" and step: "sq_step mode rmode s s'" and m: "shared mode"
  obtains
    (reserve) t b c where "g_pc s t = Idle" "0 < unat c" "unat c \<le> slots s"
      "b = sq_rsvd_index (g_qp s)" "unat (b + ucast c) = unat b + unat c"
      "s' = goto t (Reserved b c) (upd_qp (sq_rsvd_index_update (\<lambda>_. b + ucast c)) s)"
  | (wait_slots) t b c where "g_pc s t = Reserved b c" "unat b + unat c \<le> g_done s + slots s"
      "s' = goto t (Writing b c 0) s"
  | (write_entry) t b c k where "g_pc s t = Writing b c k" "unat k < unat c"
      "unat (b + ucast k) = unat b + unat k" "unat (k + 1) = unat k + 1"
      "s' = goto t (Writing b c (k + 1))
         (s\<lparr>g_wqes := (g_wqes s)(slot_addr (g_qp s) (b + ucast k) \<mapsto> b + ucast k)\<rparr>)"
  | (written) t b c k where "g_pc s t = Writing b c k" "k = c" "s' = goto t (Marking b c) s"
  | (mark_load) t b c where "g_pc s t = Marking b c" "sq_ready_index (g_qp s) = b"
      "s' = goto t (Storing b c) s"
  | (mark) t b c where "g_pc s t = Marking b c \<or> g_pc s t = Storing b c"
      "sq_ready_index (g_qp s) = b" "unat (b + ucast c) = unat b + unat c" "0 < unat c"
      "s' = goto t (Locking (b + ucast c)) (upd_qp (sq_ready_index_update (\<lambda>_. b + ucast c)) s)"
  | (lock) t p where "g_pc s t = Locking p" "sq_lock (g_qp s) = 0"
      "s' = goto t (Critical p) (upd_qp (sq_lock_update (\<lambda>_. 1)) s)"
  | (max_pi) t p where "g_pc s t = Critical p" "p \<le> sq_ready_index (g_qp s)"
      "s' = goto t (if sq_wqe_pi (g_qp s) < p then Ring_first p else Unlocking)
         (upd_qp (sq_wqe_pi_update (\<lambda>_. max (sq_wqe_pi (g_qp s)) p)) s)"
  | (ring) t p l where "g_pc s t = Ring_first p \<and> l = Update_dbr p \<or> g_pc s t = Ring_second p \<and> l = Unlocking"
      "p = sq_wqe_pi (g_qp s)" "s' = goto t l (s\<lparr>g_rung := g_rung s @ [p]\<rparr>)"
  | (update_dbr) t p where "g_pc s t = Update_dbr p" "s' = goto t (Ring_second p) s"
  | (unlock) t where "g_pc s t = Unlocking" "s' = goto t Idle (upd_qp (sq_lock_update (\<lambda>_. 0)) s)"
  | (nic) "g_done s < posted s" "s' = s\<lparr>g_done := g_done s + 1\<rparr>"
  using step
proof cases
  case (reserve t c b r)
  then have "b = sq_rsvd_index (g_qp s)" "r = b + ucast c" by (auto simp: shared_ops [OF m])
  moreover from this have "unat (b + ucast c) = unat b + unat c"
    using reserve unat_add_no_overflow [of b "ucast c"] by simp
  ultimately show thesis
    using reserve by (intro that(1) [of t c b]) (simp_all add: count_le_slots word_less_unat)
next
  case (wait_slots t b c)
  then have o: "owns (g_pc s t) = Some (unat b, unat c)" by simp
  note own_facts [OF inv o]
  with wait_slots have "unat b + unat c \<le> g_done s + slots s"
    by (cases "b + ucast c - 1 \<ge> ucast (sq_wqe_num (g_qp s))") (auto simp: word_le_unat unat_sub_le)
  with wait_slots show thesis by (intro that(2))
next
  case (write_entry t b c k)
  then have o: "owns (g_pc s t) = Some (unat b, unat c)" by simp
  have k: "unat k < unat c" using write_entry by (simp add: word_less_unat)
  have "unat (b + ucast k) = unat b + unat k"
    using k own_facts(4) [OF inv o] unat_lt_2p [of "sq_rsvd_index (g_qp s)"]
      unat_add_no_overflow [of b "ucast k"] by simp
  moreover have "unat (k + 1) = unat k + 1"
    using k unat_lt_2p [of c] unat_add_no_overflow [of k 1] by simp
  ultimately show thesis using write_entry k by (intro that(3))
next
  case (written t b c k)
  moreover have "unat k \<le> unat c"
    using sq_invD(5) [OF inv] written by (simp add: inv_room_def)
  ultimately show thesis by (intro that(4)) (auto simp: not_less word_le_unat word_unat_eq_iff)
next
  case (mark_cas t b c r)
  then have o: "owns (g_pc s t) = Some (unat b, unat c)" by simp
  from mark_cas show thesis
    using own_facts(1,5) [OF inv o]
    by (intro that(6) [of t b c]) (simp_all add: shared_ops [OF m] split: if_splits)
next
  case (mark_load t b c)
  then show thesis by (intro that(5)) simp_all
next
  case (mark_store t b c)
  then have o: "owns (g_pc s t) = Some (unat b, unat c)" by simp
  moreover have "sq_ready_index (g_qp s) = b"
    using sq_invD(5) [OF inv] mark_store unfolding inv_room_def by blast
  ultimately show thesis
    using own_facts(1,5) [OF inv o] mark_store by (intro that(6) [of t b c]) simp_all
next
  case (lock t p l)
  then show thesis by (intro that(7)) (simp_all add: shared_ops [OF m] split: if_splits)
next
  case (max_pi t p old pi)
  then have "submits (g_pc s t) = Some p" by simp
  then have "p \<le> sq_ready_index (g_qp s)"
    using sq_invD(7) [OF inv] unfolding inv_submit_def by blast
  moreover have "old = sq_wqe_pi (g_qp s)" "pi = max old p"
    using max_pi by (auto simp: shared_ops [OF m])
  ultimately show thesis using max_pi by (intro that(8)) simp_all
next
  case (ring_first t p)
  moreover from this have "ringing (g_pc s t) = Some p" by simp
  then have "p = sq_wqe_pi (g_qp s)"
    using sq_invD(7) [OF inv] unfolding inv_submit_def by blast
  ultimately show thesis by (intro that(9) [of t p "Update_dbr p"]) simp_all
next
  case (update_dbr t p)
  then show thesis by (intro that(10))
next
  case (ring_second t p)
  moreover from this have "ringing (g_pc s t) = Some p" by simp
  then have "p = sq_wqe_pi (g_qp s)"
    using sq_invD(7) [OF inv] unfolding inv_submit_def by blast
  ultimately show thesis by (intro that(9) [of t p Unlocking]) simp_all
next
  case (unlock t)
  moreover have "sq_lock_update (unlock mode) (g_qp s) = sq_lock_update (\<lambda>_. 0) (g_qp s)"
    by (simp add: shared_ops [OF m])
  ultimately show thesis by (intro that(11)) (simp_all add: upd_qp_def)
next
  case (nic i)
  then show thesis
    using sq_invD(1) [OF inv] by (intro that(12)) (auto simp: inv_order_def word_le_unat intro: less_le_trans)
qed


lemma step_order:
  assumes inv: "sq_inv s" and step: "sq_step mode rmode s s'" and m: "shared mode"
  shows "inv_order s'"
  using inv step m
proof (cases rule: step_cases)
  case (mark t b c)
  then have "owns (g_pc s t) = Some (unat b, unat c)" by auto
  from own_facts [OF inv this] show ?thesis using sq_invD(1) [OF inv] mark by (simp add: inv_order_def)
next
  case (max_pi t p)
  then show ?thesis using sq_invD(1) [OF inv]
    by (auto simp: inv_order_def word_le_unat max_def intro: order_trans)
qed (use sq_invD(1) [OF inv] in \<open>auto simp: inv_order_def\<close>)

lemma step_owns:
  assumes inv: "sq_inv s" and step: "sq_step mode rmode s s'" and m: "shared mode"
  shows "inv_owns s' \<and> inv_disjoint s'"
proof -
  have same: ?thesis if "ready s' = ready s" "rsvd s' = rsvd s" "slots s' = slots s"
    "\<And>u. owns (g_pc s' u) = owns (g_pc s u)"
    using sq_invD(2,3) [OF inv] that by (simp add: inv_owns_def inv_disjoint_def)
  show ?thesis
    using inv step m
  proof (cases rule: step_cases)
  case (reserve t b c)
  have "ready s \<le> rsvd s" using sq_invD(1) [OF inv] by (simp add: inv_order_def)
  moreover have "owns (g_pc s u) = Some (b', c') \<Longrightarrow> 0 < c' \<and> c' \<le> slots s \<and> ready s \<le> b' \<and> b' + c' \<le> rsvd s" for u b' c'
    using sq_invD(2) [OF inv] by (simp add: inv_owns_def)
  ultimately show ?thesis
    using sq_invD(3) [OF inv] reserve by (fastforce simp: inv_owns_def inv_disjoint_def split: if_splits)
next
  case (mark t b c)
  then have o: "owns (g_pc s t) = Some (unat b, unat c)" by auto
  have "0 < c' \<and> c' \<le> slots s \<and> unat b + unat c \<le> b' \<and> b' + c' \<le> rsvd s"
    if "u \<noteq> t" "owns (g_pc s u) = Some (b', c')" for u b' c'
  proof -
    have "b' + c' \<le> unat b \<or> unat b + unat c \<le> b'"
      using sq_invD(3) [OF inv] o that unfolding inv_disjoint_def by blast
    moreover have "0 < c' \<and> c' \<le> slots s \<and> ready s \<le> b' \<and> b' + c' \<le> rsvd s"
      using sq_invD(2) [OF inv] that by (simp add: inv_owns_def)
    ultimately show ?thesis using mark(2) by auto
  qed
  with mark show ?thesis
    using sq_invD(3) [OF inv] by (auto simp: inv_owns_def inv_disjoint_def split: if_splits)
  qed (rule same; auto split: if_splits)+
qed

lemma step_cover:
  assumes inv: "sq_inv s" and step: "sq_step mode rmode s s'" and m: "shared mode"
  shows "inv_cover s'"
proof -
  have same: "inv_cover s'" if "ready s' = ready s" "rsvd s' = rsvd s"
    "\<And>u. owns (g_pc s' u) = owns (g_pc s u)"
    using sq_invD(4) [OF inv] that by (simp add: inv_cover_def)
  show ?thesis
    using inv step m
  proof (cases rule: step_cases)
    case (reserve t b c)
    show ?thesis
      unfolding inv_cover_def
    proof (intro allI impI)
      fix i assume i: "ready s' \<le> i" "i < rsvd s'"
      show "\<exists>u b c. owns (g_pc s' u) = Some (b, c) \<and> b \<le> i \<and> i < b + c"
      proof (cases "i < rsvd s")
        case True
        then obtain u b' c' where u: "owns (g_pc s u) = Some (b', c')" "b' \<le> i" "i < b' + c'"
          using sq_invD(4) [OF inv] i reserve unfolding inv_cover_def by auto
        then have "u \<noteq> t" using reserve(1) by auto
        with u(1) reserve(6) have "owns (g_pc s' u) = Some (b', c')" by simp
        with u show ?thesis by blast
      next
        case False
        have "owns (g_pc s' t) = Some (unat b, unat c)" using reserve(6) by simp
        moreover have "unat b \<le> i" "i < unat b + unat c" using False i reserve by simp_all
        ultimately show ?thesis by blast
      qed
    qed
  next
    case (mark t b c)
    then have o: "owns (g_pc s t) = Some (unat b, unat c)" by auto
    show ?thesis
      unfolding inv_cover_def
    proof (intro allI impI)
      fix i assume i: "ready s' \<le> i" "i < rsvd s'"
      then have "ready s \<le> i" "i < rsvd s" using mark by auto
      then obtain u b' c' where u: "owns (g_pc s u) = Some (b', c')" "b' \<le> i" "i < b' + c'"
        using sq_invD(4) [OF inv] unfolding inv_cover_def by blast
      have "u \<noteq> t" using u o i mark by auto
      with u(1) mark(5) have "owns (g_pc s' u) = Some (b', c')" by simp
      with u show "\<exists>u b c. owns (g_pc s' u) = Some (b, c) \<and> b \<le> i \<and> i < b + c" by blast
    qed
  qed (rule same; auto split: if_splits)+
qed

lemma step_room:
  assumes inv: "sq_inv s" and step: "sq_step mode rmode s s'" and m: "shared mode"
  shows "inv_room s'"
proof -
  note room = sq_invD(5) [OF inv, unfolded inv_room_def]
  have r: "owns (g_pc s t) = Some (b, c) \<Longrightarrow> (\<forall>b' c'. g_pc s t \<noteq> Reserved b' c') \<Longrightarrow>
      b + c \<le> g_done s + slots s" for t b c
    using room by blast
  have w: "g_pc s t = Writing b c k \<Longrightarrow> unat k \<le> unat c" for t b c k using room by blast
  have st: "g_pc s t = Storing b c \<Longrightarrow> sq_ready_index (g_qp s) = b" for t b c using room by blast
  show ?thesis
    using inv step m
  proof (cases rule: step_cases)
    case (mark t b c)
    then have o: "owns (g_pc s t) = Some (unat b, unat c)" by auto
    have "g_pc s u \<noteq> Storing b' c'" if "u \<noteq> t" for u b' c'
    proof
      assume u: "g_pc s u = Storing b' c'"
      then have "owns (g_pc s u) = Some (unat b, unat c')" using st [OF u] mark(2) by simp
      moreover from this have "0 < unat c'" by (rule own_facts(1) [OF inv])
      ultimately show False
        using sq_invD(3) [OF inv] o that mark(4) unfolding inv_disjoint_def by fastforce
    qed
    with mark show ?thesis
      unfolding inv_room_def by (auto dest: r w split: if_splits)
  next
    case (write_entry t b c k)
    then show ?thesis
      using r [of t "unat b" "unat c"] unfolding inv_room_def by (auto dest: r w st split: if_splits)
  next
    case (written t b c k)
    then show ?thesis
      using r [of t "unat b" "unat c"] unfolding inv_room_def by (auto dest: r w st split: if_splits)
  next
    case (mark_load t b c)
    then show ?thesis
      using r [of t "unat b" "unat c"] unfolding inv_room_def by (auto dest: r w st split: if_splits)
  next
    case nic
    then show ?thesis unfolding inv_room_def by (auto dest: r w st split: if_splits intro: le_SucI)
  qed (unfold inv_room_def, auto dest: r w st split: if_splits)+
qed


text \<open>The indices whose entries must still be in the ring.\<close>

definition live :: "sq_conc \<Rightarrow> nat \<Rightarrow> bool" where
  "live s i \<longleftrightarrow> g_done s \<le> i \<and> i < ready s \<or> (\<exists>t. i \<in> wrote (g_pc s t))"

lemma inv_entries_live:
  "inv_entries s \<longleftrightarrow> (\<forall>i. live s (unat i) \<longrightarrow> g_wqes s (slot_addr (g_qp s) i) = Some i)"
  by (simp add: inv_entries_def live_def)

lemma wrote_owns:
  assumes "inv_room s" "i \<in> wrote (g_pc s t)"
  obtains b c where "owns (g_pc s t) = Some (b, c)" "b \<le> i" "i < b + c"
    "\<forall>b' c'. g_pc s t \<noteq> Reserved b' c'"
proof (cases "g_pc s t")
  case (Writing b c k)
  moreover have "unat k \<le> unat c" using assms(1) Writing unfolding inv_room_def by blast
  ultimately show thesis using assms(2) that by auto
qed (use assms(2) that in auto)

lemma writing_room:
  assumes "inv_room s" and t: "g_pc s t = Writing b c k"
  shows "unat b + unat c \<le> g_done s + slots s"
proof -
  have "owns (g_pc s t) = Some (unat b, unat c)" "\<forall>b' c'. g_pc s t \<noteq> Reserved b' c'"
    using t by simp_all
  then show ?thesis using assms(1) unfolding inv_room_def by blast
qed

lemma live_window:
  assumes inv: "sq_inv s" and t: "g_pc s t = Writing b c k" and "live s i"
  shows "g_done s \<le> i" "i < g_done s + slots s"
proof -
  note room = sq_invD(5) [OF inv]
  have o: "owns (g_pc s t) = Some (unat b, unat c)" using t by simp
  note f = own_facts [OF inv o]
  have top: "unat b + unat c \<le> g_done s + slots s" by (rule writing_room [OF room t])
  moreover have w: "ready s \<le> i \<and> i < g_done s + slots s" if i: "i \<in> wrote (g_pc s u)" for u
  proof -
    obtain b' c' where u: "owns (g_pc s u) = Some (b', c')" "b' \<le> i" "i < b' + c'"
      "\<forall>b' c'. g_pc s u \<noteq> Reserved b' c'"
      by (rule wrote_owns [OF room i])
    have "b' + c' \<le> g_done s + slots s" using room u(1,4) unfolding inv_room_def by blast
    moreover have "ready s \<le> b'" using sq_invD(2) [OF inv] u(1) by (simp add: inv_owns_def)
    ultimately show ?thesis using u by simp
  qed
  moreover have "g_done s \<le> i \<and> i < ready s \<or> (\<exists>u. i \<in> wrote (g_pc s u))"
    using assms(3) by (simp add: live_def)
  ultimately have "g_done s \<le> i \<and> i < g_done s + slots s"
  proof (elim disjE exE)
    assume "g_done s \<le> i \<and> i < ready s"
    then show ?thesis using f(1-4) top by linarith
  next
    fix u assume "i \<in> wrote (g_pc s u)"
    from w [OF this] show ?thesis using f(7,8) by linarith
  qed
  then show "g_done s \<le> i" "i < g_done s + slots s" by simp_all
qed

lemma step_entries:
  assumes inv: "sq_inv s" and step: "sq_step mode rmode s s'" and m: "shared mode"
  shows "inv_entries s'"
proof -
  note ent = sq_invD(6) [OF inv, unfolded inv_entries_live]
  have same: "inv_entries s'"
    if "g_wqes s' = g_wqes s" "\<And>i. slot_addr (g_qp s') i = slot_addr (g_qp s) i"
      "\<And>i. live s' i \<Longrightarrow> live s i"
    using ent that by (simp add: inv_entries_live)
  have keep: "live s i" if "live s' i" "g_done s \<le> g_done s'" "ready s' = ready s"
    "\<And>u. wrote (g_pc s' u) \<subseteq> wrote (g_pc s u)" for i
    using that unfolding live_def by (metis le_trans subsetD)
  show ?thesis
    using inv step m
  proof (cases rule: step_cases)
    case (write_entry t b c k)
    have o: "owns (g_pc s t) = Some (unat b, unat c)" using write_entry by simp
    note f = own_facts [OF inv o]
    have top: "unat b + unat c \<le> g_done s + slots s"
      by (rule writing_room [OF sq_invD(5) [OF inv] write_entry(1)])
    have "g_wqes s' (slot_addr (g_qp s') i) = Some i" if i: "live s' (unat i)" for i
    proof (cases "i = b + ucast k")
      case True
      then show ?thesis using write_entry(5) by simp
    next
      case False
      then have "unat i \<noteq> unat b + unat k" using write_entry(3) by (metis word_unat_eq_iff)
      moreover have "wrote (g_pc s' t) = insert (unat b + unat k) (wrote (g_pc s t))"
        using write_entry by auto
      ultimately have old: "live s (unat i)"
        using i write_entry unfolding live_def
        by (auto split: if_splits) (metis wrote.simps(1) atLeastLessThan_iff)+
      have "slot_addr (g_qp s) i \<noteq> slot_addr (g_qp s) (b + ucast k)"
      proof
        assume eq: "slot_addr (g_qp s) i = slot_addr (g_qp s) (b + ucast k)"
        have "ring_fields_ok (g_qp s)" using sq_invD(1) [OF inv] by (simp add: inv_order_def)
        from slot_addr_inj [OF this eq] False show False
          using live_window [OF inv write_entry(1) old] top f(1-4,7,8) write_entry(2,3) by linarith
      qed
      then show ?thesis using ent old write_entry(5) by simp
    qed
    then show ?thesis by (simp add: inv_entries_live)
  next
    case (mark t b c)
    have "live s i" if "live s' i" for i
    proof (cases "unat b \<le> i \<and> i < unat b + unat c \<and> \<not> i < ready s")
      case True
      then have "i \<in> wrote (g_pc s t)" using mark(1) by auto
      then show ?thesis unfolding live_def by blast
    next
      case False
      then show ?thesis using that mark unfolding live_def by (auto split: if_splits)
    qed
    then show ?thesis by (rule same [rotated 2]) (simp_all add: mark)
  qed (rule same; (erule keep)?; auto split: if_splits)+
qed

lemma ringing_critical: "ringing l = Some p \<Longrightarrow> in_critical l" by (cases l) simp_all

lemma step_submit:
  assumes inv: "sq_inv s" and step: "sq_step mode rmode s s'" and m: "shared mode"
  shows "inv_submit s'"
proof -
  note sub = sq_invD(7) [OF inv, unfolded inv_submit_def]
  have s1: "submits (g_pc s t) = Some p \<Longrightarrow> p \<le> sq_ready_index (g_qp s)" for t p using sub by blast
  have s2: "ringing (g_pc s t) = Some p \<Longrightarrow> p = sq_wqe_pi (g_qp s)" for t p using sub by blast
  have s3: "sorted (g_rung s)" using sub by blast
  have s4: "g_pc s t = Locking p \<Longrightarrow> p \<le> sq_ready_index (g_qp s)" "g_pc s t = Update_dbr p \<Longrightarrow> p \<le> sq_ready_index (g_qp s)" for t p
    using s1 [of t p] by simp_all
  have s5: "g_pc s t = Update_dbr p \<Longrightarrow> p = sq_wqe_pi (g_qp s)" for t p
    using s2 [of t p] by simp
  show ?thesis
    using inv step m
  proof (cases rule: step_cases)
    case (mark t b c)
    then have "sq_ready_index (g_qp s) \<le> b + ucast c" by (simp add: word_le_unat)
    then show ?thesis
      using mark s3 unfolding inv_submit_def
      by (auto dest: s1 s2 split: if_splits intro: order_trans)
  next
    case (max_pi t p)
    have "ringing (g_pc s u) = None" if "u \<noteq> t" for u
      using sq_invD(8) [OF inv] max_pi(1) that ringing_critical
      unfolding inv_lock_def by (metis in_critical.simps(1) option.exhaust)
    with max_pi s3 show ?thesis
      unfolding inv_submit_def by (auto dest: s1 simp: max_def split: if_splits)
  next
    case (ring t p l)
    then have "sorted (g_rung s @ [p])"
      using s3 sq_invD(1) [OF inv] by (simp add: sorted_append inv_order_def)
    with ring show ?thesis
      using s1 [of t p] s2 unfolding inv_submit_def by (auto dest: s1 s2 split: if_splits)
  qed (unfold inv_submit_def, use s3 in \<open>auto dest: s1 s2 s4 s5 split: if_splits\<close>)+
qed

lemma step_lock:
  assumes inv: "sq_inv s" and step: "sq_step mode rmode s s'" and m: "shared mode"
  shows "inv_lock s'"
proof -
  note lk = sq_invD(8) [OF inv, unfolded inv_lock_def]
  have same: "inv_lock s'" if "sq_lock (g_qp s') = sq_lock (g_qp s)"
    "\<And>u. in_critical (g_pc s' u) = in_critical (g_pc s u)"
    unfolding inv_lock_def that by (rule lk)
  show ?thesis
    using inv step m
  proof (cases rule: step_cases)
    case (lock t p)
    then show ?thesis using lk unfolding inv_lock_def by (auto split: if_splits)
  next
    case (unlock t)
    then have "\<not> in_critical (g_pc s' u)" for u using lk by auto
    with unlock show ?thesis unfolding inv_lock_def by auto
  qed (rule same; auto split: if_splits)+
qed

lemma step_pending:
  assumes inv: "sq_inv s" and step: "sq_step mode rmode s s'" and m: "shared mode"
  shows "inv_pending s'"
proof -
  have same: "inv_pending s'"
    if "g_pc s' = (g_pc s)(t := l)" "sq_ready_index (g_qp s') = sq_ready_index (g_qp s)"
      "sq_wqe_pi (g_qp s') = sq_wqe_pi (g_qp s)" "set (g_rung s) \<subseteq> set (g_rung s')"
      "\<forall>p. g_pc s t \<noteq> Locking p" "\<forall>p. g_pc s t \<noteq> Critical p"
      "\<forall>p. g_pc s t = Ring_first p \<longrightarrow> p \<in> set (g_rung s')" for t l
  proof -
    have "g_pc s u = Locking p \<Longrightarrow> g_pc s' u = Locking p" "g_pc s u = Critical p \<Longrightarrow> g_pc s' u = Critical p"
      "g_pc s u = Ring_first p \<Longrightarrow> g_pc s' u = Ring_first p \<or> p \<in> set (g_rung s')" for u p
      using that(1,5-7) by (cases "u = t"; simp)+
    then show ?thesis
      using sq_invD(9) [OF inv] that(4) unfolding inv_pending_def that(2,3) by blast
  qed
  note ord = sq_invD(1) [OF inv, unfolded inv_order_def]
  show ?thesis
    using inv step m
  proof (cases rule: step_cases)
    case (mark t b c)
    have "g_pc s u = Ring_first p \<Longrightarrow> g_pc s' u = Ring_first p" for u p
      using mark(1,5) by auto
    moreover have "g_pc s' t = Locking (sq_ready_index (g_qp s'))" using mark by simp
    moreover have "g_rung s' = g_rung s" "sq_wqe_pi (g_qp s') = sq_wqe_pi (g_qp s)"
      using mark by simp_all
    ultimately show ?thesis using sq_invD(9) [OF inv] unfolding inv_pending_def by metis
  next
    case (lock t p)
    have "g_pc s u = Locking q \<or> g_pc s u = Critical q \<Longrightarrow> g_pc s' u = Locking q \<or> g_pc s' u = Critical q"
      "g_pc s u = Ring_first q \<Longrightarrow> g_pc s' u = Ring_first q" for u q
      using lock(1,3) by auto
    moreover have "g_rung s' = g_rung s" "sq_wqe_pi (g_qp s') = sq_wqe_pi (g_qp s)"
      "sq_ready_index (g_qp s') = sq_ready_index (g_qp s)"
      using lock by simp_all
    ultimately show ?thesis using sq_invD(9) [OF inv] unfolding inv_pending_def by metis
  next
    case (max_pi t p)
    note pend = sq_invD(9) [OF inv, unfolded inv_pending_def]
    have keep: "g_pc s' u = g_pc s u" if "u \<noteq> t" for u using max_pi that by simp
    have rung: "g_rung s' = g_rung s" "sq_ready_index (g_qp s') = sq_ready_index (g_qp s)"
      using max_pi by simp_all
    show ?thesis
    proof (cases "sq_wqe_pi (g_qp s) < p")
      case True
      then have pi: "sq_wqe_pi (g_qp s') = p" "g_pc s' t = Ring_first p"
        using max_pi by (simp_all add: max_absorb2 less_imp_le)
      have "\<exists>u. g_pc s' u = Locking (sq_ready_index (g_qp s)) \<or> g_pc s' u = Critical (sq_ready_index (g_qp s))"
        if less: "unat p < ready s"
      proof -
        have "posted s < ready s" using True less by (simp add: word_less_nat_alt)
        then obtain u where u: "g_pc s u = Locking (sq_ready_index (g_qp s)) \<or>
            g_pc s u = Critical (sq_ready_index (g_qp s))"
          using pend by blast
        have "u \<noteq> t" using u max_pi(1) less by auto
        with u keep show ?thesis by metis
      qed
      then show ?thesis unfolding inv_pending_def rung pi(1) using pi(2) by blast
    next
      case False
      then have pi: "sq_wqe_pi (g_qp s') = sq_wqe_pi (g_qp s)"
        using max_pi by (simp add: max_def)
      have "\<exists>u. g_pc s' u = Locking (sq_ready_index (g_qp s)) \<or> g_pc s' u = Critical (sq_ready_index (g_qp s))"
        if less: "posted s < ready s"
      proof -
        obtain u where u: "g_pc s u = Locking (sq_ready_index (g_qp s)) \<or>
            g_pc s u = Critical (sq_ready_index (g_qp s))"
          using pend less by blast
        have "u \<noteq> t" using u max_pi(1) less False by (auto simp: word_less_nat_alt)
        with u keep show ?thesis by metis
      qed
      moreover have "g_pc s u = Ring_first q \<Longrightarrow> g_pc s' u = Ring_first q" for u q
        using max_pi(1) keep [of u] by (cases "u = t") simp_all
      ultimately show ?thesis unfolding inv_pending_def rung pi using pend by metis
    qed
  next
    case nic
    then show ?thesis using sq_invD(9) [OF inv] unfolding inv_pending_def by auto
  next
    case (reserve t b c)
    then show ?thesis by (intro same [of t "Reserved b c"]) auto
  next
    case (wait_slots t b c)
    then show ?thesis by (intro same [of t "Writing b c 0"]) auto
  next
    case (write_entry t b c k)
    then show ?thesis by (intro same [of t "Writing b c (k + 1)"]) auto
  next
    case (written t b c k)
    then show ?thesis by (intro same [of t "Marking b c"]) auto
  next
    case (mark_load t b c)
    then show ?thesis by (intro same [of t "Storing b c"]) auto
  next
    case (ring t p l)
    then show ?thesis by (intro same [of t l]) auto
  next
    case (update_dbr t p)
    then show ?thesis by (intro same [of t "Ring_second p"]) auto
  next
    case (unlock t)
    then show ?thesis by (intro same [of t Idle]) auto
  qed
qed

section \<open>Reachable states\<close>

lemma sq_step_inv:
  assumes "sq_inv s" "sq_step mode rmode s s'" "shared mode"
  shows "sq_inv s'"
  using step_order [OF assms] step_owns [OF assms] step_cover [OF assms] step_room [OF assms]
    step_entries [OF assms] step_submit [OF assms] step_lock [OF assms] step_pending [OF assms]
  by (simp add: sq_inv_def)

lemma sq_inv_init:
  assumes "start_ok qp"
  shows "sq_inv (init_conc qp)"
  using assms
  by (simp add: start_ok_def init_conc_def sq_inv_def inv_order_def inv_owns_def inv_disjoint_def
      inv_cover_def inv_room_def inv_entries_def inv_submit_def inv_lock_def inv_pending_def)

lemma sq_reach_inv:
  assumes "sq_reach mode rmode (init_conc qp) s" "start_ok qp" "shared mode"
  shows "sq_inv s"
  using assms by (induction rule: sq_reach.induct) (simp_all add: sq_inv_init sq_step_inv)

end
