(* ===== verification/SqProps.thy ===== *)
theory SqProps
  imports SqInv
begin

text \<open>
  What the interleaved send queue promises, from its invariant: reservations do not overlap, the
  NIC finds at every index it was given the entry written for that index, and the work in flight
  always drains, whatever the schedule.
\<close>

section \<open>Safety\<close>

text \<open>C9: Exclusive reservations and critical section.  In every reachable state, completed, posted, ready
  and reserved indices are in this order, the index ranges of different threads do not overlap and
  lie between the ready and the reserved index, and at most one thread holds the lock.\<close>

theorem reservations_are_exclusive:
  assumes "sq_reach mode rmode (init_conc qp) s" and "start_ok qp" and "shared mode"
  shows "g_done s \<le> posted s \<and> posted s \<le> ready s \<and> ready s \<le> rsvd s \<and>
    (\<forall>t b c. owns (g_pc s t) = Some (b, c) \<longrightarrow> ready s \<le> b \<and> b + c \<le> rsvd s) \<and>
    (\<forall>t u b c b' c'. t \<noteq> u \<longrightarrow> owns (g_pc s t) = Some (b, c) \<longrightarrow> owns (g_pc s u) = Some (b', c') \<longrightarrow>
       {b ..< b + c} \<inter> {b' ..< b' + c'} = {}) \<and>
    (\<forall>t u. in_critical (g_pc s t) \<longrightarrow> in_critical (g_pc s u) \<longrightarrow> t = u)"
proof -
  note inv = sq_reach_inv [OF assms]
  have "{b ..< b + c} \<inter> {b' ..< b' + c'} = {}"
    if "t \<noteq> u" "owns (g_pc s t) = Some (b, c)" "owns (g_pc s u) = Some (b', c')" for t u b c b' c'
  proof -
    have "b + c \<le> b' \<or> b' + c' \<le> b" using sq_invD(3) [OF inv] that unfolding inv_disjoint_def by blast
    then show ?thesis by auto
  qed
  then show ?thesis
    using sq_invD(1,2,8) [OF inv] unfolding inv_order_def inv_owns_def inv_lock_def by blast
qed

text \<open>C8: The NIC never reads a stale or missing entry.  In every reachable state, for every index below
  an index that was given to the doorbell and not yet completed, the slot of that index holds the
  entry written for exactly that index: it was written before the doorbell, and no later thread
  has reused the slot.  The doorbell indices never decrease and never pass the ready index.\<close>

theorem doorbells_cover_written_entries:
  assumes "sq_reach mode rmode (init_conc qp) s" and "start_ok qp" and "shared mode"
  shows "(\<forall>p \<in> set (g_rung s). \<forall>i < p. g_done s \<le> unat i \<longrightarrow>
       g_wqes s (slot_addr (g_qp s) i) = Some i) \<and>
    (\<forall>p \<in> set (g_rung s). p \<le> sq_ready_index (g_qp s)) \<and> sorted (g_rung s)"
proof -
  note inv = sq_reach_inv [OF assms]
  have le: "p \<le> sq_ready_index (g_qp s)" if "p \<in> set (g_rung s)" for p
    using sq_invD(1) [OF inv] that unfolding inv_order_def word_le_nat_alt by fastforce
  have "g_wqes s (slot_addr (g_qp s) i) = Some i"
    if "p \<in> set (g_rung s)" "i < p" "g_done s \<le> unat i" for p i
  proof -
    have "unat i < ready s" using le [OF that(1)] that(2) unfolding word_le_nat_alt word_less_nat_alt by linarith
    then show ?thesis using sq_invD(6) [OF inv] that(3) unfolding inv_entries_def by blast
  qed
  then show ?thesis using le sq_invD(7) [OF inv] unfolding inv_submit_def by blast
qed

section \<open>Liveness\<close>

text \<open>A step that starts no new reservation, and the work that is left.\<close>

definition quiet :: "sharing_mode \<Rightarrow> ready_mode \<Rightarrow> sq_conc \<Rightarrow> sq_conc \<Rightarrow> bool" where
  "quiet mode rmode s s' \<longleftrightarrow>
    sq_step mode rmode s s' \<and> sq_rsvd_index (g_qp s') = sq_rsvd_index (g_qp s)"

fun rank :: "pc \<Rightarrow> nat" where
  "rank Idle = 0"
| "rank (Reserved b c) = 11 + unat c"
| "rank (Writing b c k) = 10 + (unat c - unat k)"
| "rank (Marking b c) = 9"
| "rank (Storing b c) = 8"
| "rank (Locking p) = 7"
| "rank (Critical p) = 6"
| "rank (Ring_first p) = 5"
| "rank (Update_dbr p) = 4"
| "rank (Ring_second p) = 3"
| "rank Unlocking = 2"

definition busy :: "sq_conc \<Rightarrow> nat set" where
  "busy s = {t. g_pc s t \<noteq> Idle}"

definition work :: "sq_conc \<Rightarrow> nat" where
  "work s = (\<Sum>t \<in> busy s. rank (g_pc s t)) + (rsvd s - g_done s)"

definition drained :: "sq_conc \<Rightarrow> bool" where
  "drained s \<longleftrightarrow> (\<forall>t. g_pc s t = Idle) \<and> g_done s = rsvd s \<and> posted s = rsvd s \<and> ready s = rsvd s"

lemma finite_busy:
  assumes "sq_reach mode rmode (init_conc qp) s"
  shows "finite (busy s)"
  using assms
proof (induction rule: sq_reach.induct)
  case start
  then show ?case by (simp add: busy_def init_conc_def)
next
  case (more s s')
  from more(2) have "\<exists>t. busy s' \<subseteq> insert t (busy s)"
    by (cases rule: sq_step.cases) (auto simp: busy_def split: if_splits)
  then show ?case using more.IH by (meson finite.insertI finite_subset)
qed

lemma work_goto:
  assumes "finite (busy s)" "g_pc s' = (g_pc s)(t := l)" "rank l < rank (g_pc s t)"
    "rsvd s' - g_done s' \<le> rsvd s - g_done s"
  shows "work s' < work s"
proof -
  have r0: "rank m = 0 \<longleftrightarrow> m = Idle" for m by (cases m) simp_all
  have t: "t \<in> busy s" using assms(3) by (auto simp: busy_def)
  have "(\<Sum>u \<in> busy s'. rank (g_pc s' u)) = (\<Sum>u \<in> busy s. rank (g_pc s' u))"
    using assms(1,2) t r0 by (intro sum.mono_neutral_left) (auto simp: busy_def)
  also have "\<dots> = rank l + (\<Sum>u \<in> busy s - {t}. rank (g_pc s u))"
    using assms(1,2) t by (simp add: sum.remove [OF _ t])
  also have "\<dots> < (\<Sum>u \<in> busy s. rank (g_pc s u))"
    using assms(1,3) t by (simp add: sum.remove [OF _ t])
  finally show ?thesis using assms(4) by (simp add: work_def)
qed

lemma quiet_works:
  assumes inv: "sq_inv s" and q: "quiet mode rmode s s'" and m: "shared mode" and fin: "finite (busy s)"
  shows "work s' < work s"
proof -
  from q have step: "sq_step mode rmode s s'" and same: "sq_rsvd_index (g_qp s') = sq_rsvd_index (g_qp s)"
    by (simp_all add: quiet_def)
  from inv step m show ?thesis
  proof (cases rule: step_cases)
    case (reserve t b c)
    then have False using same by auto
    then show ?thesis ..
  next
    case (ring t p l)
    then show ?thesis using fin by (intro work_goto [of s s' t l]) auto
  next
    case (mark t b c)
    then show ?thesis using fin by (intro work_goto [of s s' t "Locking (b + ucast c)"]) auto
  next
    case nic
    then have "g_done s < rsvd s" using sq_invD(1) [OF inv] by (simp add: inv_order_def)
    with nic show ?thesis by (simp add: work_def busy_def)
  qed (rule work_goto [OF fin], (simp; fail), auto)+
qed

lemma quietI:
  "sq_step mode rmode s s' \<Longrightarrow> sq_rsvd_index (g_qp s') = sq_rsvd_index (g_qp s) \<Longrightarrow>
    \<exists>s'. quiet mode rmode s s'"
  by (auto simp: quiet_def)

text \<open>A thread that holds or waits for a free lock can move.\<close>

lemma submitter_moves:
  assumes "shared mode" "in_critical (g_pc s t) \<or> (\<exists>p. g_pc s t = Locking p) \<and> sq_lock (g_qp s) = 0"
  shows "\<exists>s'. quiet mode rmode s s'"
proof (cases "g_pc s t")
  case (Locking p)
  then have "lock_attempt mode (sq_lock (g_qp s)) = (True, 1)"
    using assms by (simp add: shared_ops)
  from quietI [OF sq_step.lock [OF Locking this]] show ?thesis by simp
next
  case (Critical p)
  from quietI [OF sq_step.max_pi [OF Critical shared_ops(2) [OF assms(1)]]] show ?thesis by simp
next
  case (Ring_first p)
  from quietI [OF sq_step.ring_first [OF this]] show ?thesis by simp
next
  case (Update_dbr p)
  from quietI [OF sq_step.update_dbr [OF this]] show ?thesis by simp
next
  case (Ring_second p)
  from quietI [OF sq_step.ring_second [OF this]] show ?thesis by simp
next
  case Unlocking
  from quietI [OF sq_step.unlock [OF this]] show ?thesis by simp
qed (use assms in auto)

text \<open>The thread with the oldest reservation can move when the NIC has caught up.\<close>

lemma oldest_moves:
  assumes inv: "sq_inv s" and m: "shared mode"
    and o: "owns (g_pc s t) = Some (ready s, c)" and caught_up: "g_done s = ready s"
  shows "\<exists>s'. quiet mode rmode s s'"
proof (cases "g_pc s t")
  case (Reserved b n)
  then have b: "owns (g_pc s t) = Some (unat b, unat n)" "unat b = g_done s"
    using o caught_up by simp_all
  note f = own_facts [OF inv b(1)]
  have "b + ucast n - 1 \<ge> ucast (sq_wqe_num (g_qp s)) \<longrightarrow>
      unat (b + ucast n - 1 - ucast (sq_wqe_num (g_qp s))) < g_done s"
    using f b(2) by (auto simp: word_le_unat unat_sub_le)
  from quietI [OF sq_step.wait_slots [OF Reserved this]] show ?thesis by simp
next
  case (Writing b n k)
  show ?thesis
  proof (cases "k < n")
    case True
    from quietI [OF sq_step.write_entry [OF Writing this]] show ?thesis by simp
  next
    case False
    from quietI [OF sq_step.written [OF Writing this]] show ?thesis by simp
  qed
next
  case (Marking b n)
  then have b: "sq_ready_index (g_qp s) = b" using o by (simp add: word_unat_eq_iff)
  show ?thesis
  proof (cases "uses_cas mode rmode")
    case True
    from quietI [OF sq_step.mark_cas [OF Marking True]] b show ?thesis by (simp add: shared_ops [OF m])
  next
    case False
    from quietI [OF sq_step.mark_load [OF Marking False b]] show ?thesis by simp
  qed
next
  case (Storing b n)
  from quietI [OF sq_step.mark_store [OF this]] show ?thesis by simp
qed (use o in simp_all)

lemma never_stuck:
  assumes inv: "sq_inv s" and m: "shared mode" and stuck: "\<not> (\<exists>s'. quiet mode rmode s s')"
  shows "drained s"
proof -
  note ord = sq_invD(1) [OF inv, unfolded inv_order_def]
  note pend = sq_invD(9) [OF inv, unfolded inv_pending_def]
  have no_crit: "\<not> in_critical (g_pc s t)" for t using submitter_moves [OF m] stuck by blast
  then have "sq_lock (g_qp s) = 0" using sq_invD(8) [OF inv] unfolding inv_lock_def by blast
  then have no_lock: "g_pc s t \<noteq> Locking p" for t p using submitter_moves [OF m] stuck by blast
  have no_pc: "g_pc s t \<noteq> Critical p" "g_pc s t \<noteq> Ring_first p" for t p using no_crit [of t] by auto
  have pr: "posted s = ready s" using pend no_lock no_pc ord by (metis le_neq_implies_less)
  have done_posted: "g_done s = posted s"
  proof (rule ccontr)
    assume "\<not> ?thesis"
    then have l: "g_done s < posted s" using ord by simp
    then have "sq_wqe_pi (g_qp s) \<in> set (g_rung s)" using pend no_pc by auto
    from quietI [OF sq_step.nic [OF this l]] stuck show False by simp
  qed
  have no_owner: "owns (g_pc s t) = None" for t
  proof (rule ccontr)
    assume "\<not> ?thesis"
    then obtain b c where "owns (g_pc s t) = Some (b, c)" by auto
    then have "ready s < rsvd s" using sq_invD(2) [OF inv] unfolding inv_owns_def by fastforce
    then obtain u b' c' where u: "owns (g_pc s u) = Some (b', c')" "b' \<le> ready s"
      using sq_invD(4) [OF inv] unfolding inv_cover_def by blast
    moreover have "ready s \<le> b'" using sq_invD(2) [OF inv] u(1) unfolding inv_owns_def by blast
    ultimately have "owns (g_pc s u) = Some (ready s, c')" by simp
    from oldest_moves [OF inv m this] done_posted pr stuck show False by simp
  qed
  have "\<not> ready s < rsvd s" using no_owner sq_invD(4) [OF inv] unfolding inv_cover_def by fastforce
  moreover have "g_pc s t = Idle" for t
    using no_crit [of t] no_lock [of t] no_owner [of t] by (cases "g_pc s t") auto
  ultimately show ?thesis using ord pr done_posted by (simp add: drained_def)
qed

text \<open>C10: The queue drains under every schedule.  From a reachable state, a run of steps that starts no
  new reservation is at most as long as the work in flight, and it can stop only when every thread
  has returned and the NIC has completed every index that was ever reserved: nobody waits forever
  for a slot, for its turn to mark, or for the lock.\<close>

theorem queue_drains:
  assumes "sq_reach mode rmode (init_conc qp) s" and "start_ok qp" and "shared mode"
    and "(quiet mode rmode ^^ n) s s'"
  shows "n + work s' \<le> work s \<and> rsvd s' = rsvd s \<and>
    ((\<nexists>s''. quiet mode rmode s' s'') \<longrightarrow> drained s')"
proof -
  have "sq_reach mode rmode (init_conc qp) s' \<and> n + work s' \<le> work s \<and> rsvd s' = rsvd s"
    using assms(4)
  proof (induction n arbitrary: s')
    case 0
    then show ?case using assms(1) by simp
  next
    case (Suc n)
    then obtain u where u: "(quiet mode rmode ^^ n) s u" "quiet mode rmode u s'" by auto
    note IH = Suc.IH [OF u(1)]
    then have "work s' < work u"
      using quiet_works [OF _ u(2) assms(3)] sq_reach_inv [OF _ assms(2,3)] finite_busy by blast
    with IH u(2) show ?case by (auto simp: quiet_def intro: sq_reach.more)
  qed
  then show ?thesis using never_stuck [OF sq_reach_inv [OF _ assms(2,3)] assms(3)] by blast
qed

section \<open>A run\<close>

text \<open>Two threads reserve; the first writes its entry, marks it and rings.\<close>

definition run_mode :: sharing_mode where "run_mode = SHARING_MODE_GPU"

definition run1 :: sq_conc where
  "run1 = goto 0 (Reserved 0 1) (upd_qp (sq_rsvd_index_update (\<lambda>_. 1)) (init_conc demo_qp))"
definition run2 :: sq_conc where
  "run2 = goto 1 (Reserved 1 3) (upd_qp (sq_rsvd_index_update (\<lambda>_. 4)) run1)"
definition run3 :: sq_conc where "run3 = goto 0 (Writing 0 1 0) run2"
definition run4 :: sq_conc where
  "run4 = goto 0 (Writing 0 1 1) (run3\<lparr>g_wqes := (g_wqes run3)(4096 \<mapsto> 0)\<rparr>)"
definition run5 :: sq_conc where "run5 = goto 0 (Marking 0 1) run4"
definition run6 :: sq_conc where
  "run6 = goto 0 (Locking 1) (upd_qp (sq_ready_index_update (\<lambda>_. 1)) run5)"
definition run7 :: sq_conc where
  "run7 = goto 0 (Critical 1) (upd_qp (sq_lock_update (\<lambda>_. 1)) run6)"
definition run8 :: sq_conc where
  "run8 = goto 0 (Ring_first 1) (upd_qp (sq_wqe_pi_update (\<lambda>_. 1)) run7)"
definition run9 :: sq_conc where
  "run9 = goto 0 (Update_dbr 1) (run8\<lparr>g_rung := g_rung run8 @ [1]\<rparr>)"

lemmas run_defs = run1_def run2_def run3_def run4_def run5_def run6_def run7_def run8_def run9_def

lemma demo_start: "start_ok demo_qp" "sq_wqe_num demo_qp = 16" "slot_addr demo_qp 0 = 4096" "sq_lock demo_qp = 0" "sq_wqe_pi demo_qp = 0"
  "sq_rsvd_index demo_qp = 0" "sq_ready_index demo_qp = 0"
proof -
  show n: "sq_wqe_num demo_qp = 16" "sq_lock demo_qp = 0" "sq_wqe_pi demo_qp = 0"
    "sq_rsvd_index demo_qp = 0" "sq_ready_index demo_qp = 0"
    by (simp_all add: demo_qp_def init_dev_qp_def Let_def)
  then show "start_ok demo_qp" by (simp add: start_ok_def demo_qp_ok)
  show "slot_addr demo_qp 0 = 4096"
    by (simp add: slot_addr_mod [OF demo_qp_ok(2)]) (simp add: demo_qp_def init_dev_qp_def Let_def)
qed

lemma run_shared: "shared run_mode" by (simp add: run_mode_def shared_def)

lemma run_steps:
  fixes rmode :: ready_mode defines "rmode \<equiv> READY_MODE_DEFAULT"
  shows "sq_step run_mode rmode (init_conc demo_qp) run1"
    "sq_step run_mode rmode run1 run2" "sq_step run_mode rmode run2 run3" "sq_step run_mode rmode run3 run4"
    "sq_step run_mode rmode run4 run5" "sq_step run_mode rmode run5 run6" "sq_step run_mode rmode run6 run7"
    "sq_step run_mode rmode run7 run8" "sq_step run_mode rmode run8 run9"
proof -
  note ops = shared_ops [OF run_shared]
  show "sq_step run_mode rmode (init_conc demo_qp) run1"
    unfolding run1_def
    by (rule sq_step.reserve) (simp_all add: init_conc_def demo_start ops)
  show "sq_step run_mode rmode run1 run2"
    unfolding run2_def
    by (rule sq_step.reserve) (simp_all add: run1_def init_conc_def demo_start ops)
  show "sq_step run_mode rmode run2 run3"
    unfolding run3_def
    by (rule sq_step.wait_slots) (simp_all add: run2_def run1_def init_conc_def demo_start)
  have "sq_step run_mode rmode run3 (goto 0 (Writing 0 1 (0 + 1))
      (run3\<lparr>g_wqes := (g_wqes run3)(slot_addr (g_qp run3) (0 + ucast (0 :: u32)) \<mapsto> 0 + ucast (0 :: u32))\<rparr>))"
    by (rule sq_step.write_entry) (simp_all add: run3_def)
  moreover have "slot_addr (g_qp run3) 0 = 4096"
    by (simp add: run3_def run2_def run1_def init_conc_def demo_start)
  ultimately show "sq_step run_mode rmode run3 run4" by (simp add: run4_def)
  show "sq_step run_mode rmode run4 run5"
    unfolding run5_def by (rule sq_step.written [where k = 1]) (simp_all add: run4_def)
  have "sq_step run_mode rmode run5 (goto 0 (Locking (0 + ucast (1 :: u32)))
      (upd_qp (sq_ready_index_update (\<lambda>_. 1)) run5))"
    by (rule sq_step.mark_cas)
      (simp_all add: run_defs init_conc_def demo_start ops uses_cas_def run_mode_def rmode_def
        common_mark_wqes_ready_def)
  then show "sq_step run_mode rmode run5 run6" by (simp add: run6_def)
  show "sq_step run_mode rmode run6 run7"
    unfolding run7_def
    by (rule sq_step.lock) (simp_all add: run_defs init_conc_def demo_start ops)
  have "sq_step run_mode rmode run7 (goto 0 (if (0 :: u64) < 1 then Ring_first 1 else Unlocking)
      (upd_qp (sq_wqe_pi_update (\<lambda>_. 1)) run7))"
    by (rule sq_step.max_pi) (simp_all add: run_defs init_conc_def demo_start ops)
  then show "sq_step run_mode rmode run7 run8" by (simp add: run8_def)
  show "sq_step run_mode rmode run8 run9"
    unfolding run9_def by (rule sq_step.ring_first) (simp add: run8_def)
qed

lemma run_reach:
  "sq_reach run_mode READY_MODE_DEFAULT (init_conc demo_qp) run2"
  "sq_reach run_mode READY_MODE_DEFAULT (init_conc demo_qp) run9"
proof -
  note steps = run_steps
  show r2: "sq_reach run_mode READY_MODE_DEFAULT (init_conc demo_qp) run2"
    using sq_reach.more [OF sq_reach.more [OF sq_reach.start steps(1)] steps(2)] .
  show "sq_reach run_mode READY_MODE_DEFAULT (init_conc demo_qp) run9"
    by (rule sq_reach.more [OF sq_reach.more [OF sq_reach.more [OF sq_reach.more [OF sq_reach.more
      [OF sq_reach.more [OF sq_reach.more [OF r2 steps(3)] steps(4)] steps(5)] steps(6)] steps(7)]
      steps(8)] steps(9)])
qed

theorem reservations_are_exclusive_witness:
  "{unat (0 :: u64) ..< unat (0 :: u64) + unat (1 :: u32)} \<inter>
     {unat (1 :: u64) ..< unat (1 :: u64) + unat (3 :: u32)} = {} \<and> ready run2 \<le> rsvd run2"
proof -
  have "owns (g_pc run2 0) = Some (unat (0 :: u64), unat (1 :: u32))"
    "owns (g_pc run2 1) = Some (unat (1 :: u64), unat (3 :: u32))"
    by (simp_all add: run1_def run2_def)
  then show ?thesis
    using reservations_are_exclusive [OF run_reach(1) demo_start(1) run_shared]
    by (metis zero_neq_one)
qed

theorem doorbells_cover_written_entries_witness:
  "g_wqes run9 (slot_addr (g_qp run9) 0) = Some 0"
proof -
  have "g_rung run9 = [1]" "g_done run9 = 0" by (simp_all add: run_defs init_conc_def)
  then show ?thesis
    using doorbells_cover_written_entries [OF run_reach(2) demo_start(1) run_shared] by simp
qed

theorem queue_drains_witness: "1 + work run3 \<le> work run2 \<and> rsvd run3 = 4"
proof -
  have "(quiet run_mode READY_MODE_DEFAULT ^^ 1) run2 run3"
    using run_steps(3) by (simp add: relpowp_1 quiet_def run3_def del: relpowp.simps)
  moreover have "rsvd run2 = 4" by (simp add: run2_def)
  ultimately show ?thesis
    using queue_drains [OF run_reach(1) demo_start(1) run_shared] by metis
qed

end
