(* ===== verification/DevOneSided.thy ===== *)
theory DevOneSided
  imports DevSq
begin

text \<open>
  The one-sided operations of \<^verbatim>\<open>include/device/doca_gpunetio_dev_verbs_onesided.cuh\<close>: put, inline
  put, put with signal, signal, get, memory-consistency dump, and the waits.  Each reserves slots,
  prepares its entries, marks them ready and submits.

  An operation gives the queue pair, the memory, the stores to the NIC and the tickets, or \<open>None\<close>
  when it never returns or traps.  A warp operation has one ticket for each of the 32 lanes.  The
  history \<open>env\<close> is what the wait for free slots sees, \<open>env2\<close> what the poll after the submission
  sees; \<open>junk i\<close> is what the uninitialised locals hold while entry \<open>i\<close> is prepared.
\<close>

section \<open>Arguments and results\<close>

record verbs_addr =
  va_addr :: u64
  va_key :: u32

type_synonym 'a posting = "(dev_qp \<times> memory \<times> nic_write list \<times> 'a) option"

type_synonym junk_of = "u64 \<Rightarrow> stack_junk"

definition MAX_TRANSFER_SIZE_SHIFT :: nat where "MAX_TRANSFER_SIZE_SHIFT = 30"
definition MAX_TRANSFER_SIZE :: u64 where "MAX_TRANSFER_SIZE = push_bit MAX_TRANSFER_SIZE_SHIFT 1"
definition CTRL_CQ_UPDATE :: u32 where "CTRL_CQ_UPDATE = 8"
definition WARP_SIZE :: nat where "WARP_SIZE = 32"

text \<open>
  The end of every operation: mark the entries from \<open>base\<close> to \<open>wqe_idx\<close> ready, then submit up to
  the last one.
\<close>

definition mark_and_submit ::
  "sharing_mode \<Rightarrow> nic_handler \<Rightarrow> dev_qp \<Rightarrow> u64 \<Rightarrow> u64 \<Rightarrow> u32 \<Rightarrow> (dev_qp \<times> nic_write list) option" where
  "mark_and_submit mode h qp base wqe_idx code_opt =
    (case mark_wqes_ready mode READY_MODE_ATOMIC_CAS qp base wqe_idx of
       None \<Rightarrow> None
     | Some qp \<Rightarrow> submit mode h qp (wqe_idx + 1) code_opt)"

definition poll_cq_sq ::
  "bool \<Rightarrow> sharing_mode \<Rightarrow> (nat \<Rightarrow> dev_cq) \<Rightarrow> dev_qp \<Rightarrow> u64 \<Rightarrow> dev_qp option" where
  "poll_cq_sq hopper mode env qp ticket =
    (case poll_cq_at hopper mode env ticket of
       None \<Rightarrow> None
     | Some (_, cq) \<Rightarrow> Some (qp\<lparr>cq_sq := cq\<rparr>))"

section \<open>Put\<close>

definition chunk_size :: "u64 \<Rightarrow> u64" where
  "chunk_size remaining_size =
    (if remaining_size > MAX_TRANSFER_SIZE then MAX_TRANSFER_SIZE else remaining_size)"

definition put_chunk ::
  "junk_of \<Rightarrow> dev_qp \<Rightarrow> verbs_addr \<Rightarrow> verbs_addr \<Rightarrow> u64 \<Rightarrow> u64 \<Rightarrow> u64 \<Rightarrow> memory \<Rightarrow> memory" where
  "put_chunk junk qp raddr laddr wqe_idx i chunk m =
    (let wqe_ptr = get_wqe_ptr qp (ucast wqe_idx)
     in if chunk > 0
        then wqe_prepare_write (junk wqe_idx) qp m wqe_ptr (ucast wqe_idx) OPCODE_RDMA_WRITE CTRL_CQ_UPDATE 0
               (va_addr raddr + i * MAX_TRANSFER_SIZE) (va_key raddr)
               (va_addr laddr + i * MAX_TRANSFER_SIZE) (va_key laddr) (ucast chunk)
        else wqe_prepare_nop (junk wqe_idx) qp m wqe_ptr (ucast wqe_idx) CTRL_CQ_UPDATE)"

text \<open>
  The loop over the chunks, with the number of iterations that are left and the body that prepares
  the entry of one chunk from its index, its number and its length.
\<close>

primrec chunk_loop ::
  "nat \<Rightarrow> (u64 \<Rightarrow> u64 \<Rightarrow> u64 \<Rightarrow> memory \<Rightarrow> memory) \<Rightarrow> u64 \<Rightarrow> u64 \<Rightarrow> u64 \<Rightarrow> memory \<Rightarrow> memory" where
  "chunk_loop 0 prepare base i remaining_size m = m"
| "chunk_loop (Suc n) prepare base i remaining_size m =
    (let wqe_idx = base + i;
         chunk = chunk_size remaining_size
     in chunk_loop n prepare base (i + 1) (remaining_size - chunk) (prepare wqe_idx i chunk m))"

definition put_num_chunks :: "u64 \<Rightarrow> u32" where
  "put_num_chunks bytes =
    (let num_chunks = div_ceil_aligned_pow2_32bits bytes MAX_TRANSFER_SIZE_SHIFT
     in if num_chunks > 1 then num_chunks else 1)"

definition put_thread ::
  "bool \<Rightarrow> sharing_mode \<Rightarrow> nic_handler \<Rightarrow> (nat \<Rightarrow> dev_cq) \<Rightarrow> junk_of \<Rightarrow> dev_qp \<Rightarrow> memory \<Rightarrow>
   verbs_addr \<Rightarrow> verbs_addr \<Rightarrow> u64 \<Rightarrow> u32 \<Rightarrow> u64 posting" where
  "put_thread hopper mode h env junk qp m raddr laddr bytes code_opt =
    (let num_chunks = put_num_chunks bytes
     in case reserve_wq_slots hopper mode env qp num_chunks code_opt of
          None \<Rightarrow> None
        | Some (base_wqe_idx, qp) \<Rightarrow>
           (let m = chunk_loop (unat num_chunks) (put_chunk junk qp raddr laddr) base_wqe_idx 0 bytes m;
                wqe_idx = base_wqe_idx + (ucast num_chunks - 1)
            in case mark_and_submit mode h qp base_wqe_idx wqe_idx code_opt of
                 None \<Rightarrow> None
               | Some (qp, writes) \<Rightarrow> Some (qp, m, writes, wqe_idx)))"

text \<open>
  The base index reaches the other lanes as two words, each the maximum over the warp of lane 0's
  word and zeros.
\<close>

definition reduce_max_sync :: "u32 list \<Rightarrow> u32" where
  "reduce_max_sync lanes = foldr max lanes 0"

definition warp_broadcast :: "u64 \<Rightarrow> u64" where
  "warp_broadcast base =
    (let lanes = (\<lambda>w. w # replicate (WARP_SIZE - 1) 0);
         base_0 = reduce_max_sync (lanes (ucast base));
         base_1 = reduce_max_sync (lanes (ucast (drop_bit 32 base)))
     in push_bit 32 (ucast base_1) OR ucast base_0)"

text \<open>What the lanes of a warp do to memory, one after the other.\<close>

definition each_lane :: "(nat \<Rightarrow> memory \<Rightarrow> memory) \<Rightarrow> memory \<Rightarrow> memory" where
  "each_lane f m = fold f [0 ..< WARP_SIZE] m"

definition put_warp ::
  "bool \<Rightarrow> bool \<Rightarrow> sharing_mode \<Rightarrow> nic_handler \<Rightarrow> (nat \<Rightarrow> dev_cq) \<Rightarrow> junk_of \<Rightarrow> dev_qp \<Rightarrow> memory \<Rightarrow>
   (nat \<Rightarrow> verbs_addr) \<Rightarrow> (nat \<Rightarrow> verbs_addr) \<Rightarrow> (nat \<Rightarrow> u64) \<Rightarrow> u32 \<Rightarrow> u64 list posting" where
  "put_warp arch800 hopper mode h env junk qp m raddr laddr bytes code_opt =
    (if arch800 then
       case reserve_wq_slots hopper mode env qp (of_nat WARP_SIZE) code_opt of
         None \<Rightarrow> None
       | Some (base, qp) \<Rightarrow>
          (let base_wqe_idx = warp_broadcast base;
               m = each_lane (\<lambda>lane m.
                     let wqe_idx = base_wqe_idx + of_nat lane
                     in wqe_prepare_write (junk wqe_idx) qp m (get_wqe_ptr qp (ucast wqe_idx)) (ucast wqe_idx)
                          OPCODE_RDMA_WRITE CTRL_CQ_UPDATE 0 (va_addr (raddr lane)) (va_key (raddr lane))
                          (va_addr (laddr lane)) (va_key (laddr lane)) (ucast (bytes lane))) m
           in case mark_wqes_ready mode READY_MODE_ATOMIC_CAS qp base_wqe_idx
                     (base_wqe_idx + of_nat WARP_SIZE - 1) of
                None \<Rightarrow> None
              | Some qp \<Rightarrow>
                 (case submit mode h qp (base_wqe_idx + of_nat WARP_SIZE) code_opt of
                    None \<Rightarrow> None
                  | Some (qp, writes) \<Rightarrow>
                      Some (qp, m, writes, map (\<lambda>lane. base_wqe_idx + of_nat lane) [0 ..< WARP_SIZE])))
     else Some (qp, m, [], replicate WARP_SIZE 0))"

section \<open>Inline put and signals\<close>

text \<open>The value is given as its bytes, \<^verbatim>\<open>sizeof(T)\<close> of them.\<close>

definition inline_entry ::
  "junk_of \<Rightarrow> dev_qp \<Rightarrow> verbs_addr \<Rightarrow> u8 list \<Rightarrow> u64 \<Rightarrow> memory \<Rightarrow> memory option" where
  "inline_entry junk qp raddr data wqe_idx m =
    (let wqe_ptr = get_wqe_ptr qp (ucast wqe_idx)
     in case prepare_inl_rdma_write_wqe_header (junk wqe_idx) qp m wqe_ptr (ucast wqe_idx) CTRL_CQ_UPDATE
               (va_addr raddr) (va_key raddr) (of_nat (length data)) of
          None \<Rightarrow> None
        | Some m \<Rightarrow> Some (prepare_inl_rdma_write_wqe_data m wqe_ptr data))"

definition p_thread ::
  "bool \<Rightarrow> sharing_mode \<Rightarrow> nic_handler \<Rightarrow> (nat \<Rightarrow> dev_cq) \<Rightarrow> junk_of \<Rightarrow> dev_qp \<Rightarrow> memory \<Rightarrow>
   verbs_addr \<Rightarrow> u8 list \<Rightarrow> u32 \<Rightarrow> u64 posting" where
  "p_thread hopper mode h env junk qp m raddr data code_opt =
    (case reserve_wq_slots hopper mode env qp 1 code_opt of
       None \<Rightarrow> None
     | Some (wqe_idx, qp) \<Rightarrow>
        (case inline_entry junk qp raddr data wqe_idx m of
           None \<Rightarrow> None
         | Some m \<Rightarrow>
            (case mark_and_submit mode h qp wqe_idx wqe_idx code_opt of
               None \<Rightarrow> None
             | Some (qp, writes) \<Rightarrow> Some (qp, m, writes, wqe_idx))))"

definition signal_entry ::
  "junk_of \<Rightarrow> dev_qp \<Rightarrow> verbs_addr \<Rightarrow> verbs_addr \<Rightarrow> u64 \<Rightarrow> u64 \<Rightarrow> memory \<Rightarrow> memory" where
  "signal_entry junk qp sig_raddr sig_laddr sig_val wqe_idx m =
    wqe_prepare_atomic (junk wqe_idx) qp m (get_wqe_ptr qp (ucast wqe_idx)) (ucast wqe_idx)
      OPCODE_ATOMIC_FA CTRL_CQ_UPDATE (va_addr sig_raddr) (va_key sig_raddr) (va_addr sig_laddr)
      (va_key sig_laddr) 8 sig_val 0"

definition put_signal_thread ::
  "bool \<Rightarrow> sharing_mode \<Rightarrow> nic_handler \<Rightarrow> (nat \<Rightarrow> dev_cq) \<Rightarrow> junk_of \<Rightarrow> dev_qp \<Rightarrow> memory \<Rightarrow>
   verbs_addr \<Rightarrow> verbs_addr \<Rightarrow> u64 \<Rightarrow> verbs_addr \<Rightarrow> verbs_addr \<Rightarrow> u64 \<Rightarrow> u32 \<Rightarrow> u64 posting" where
  "put_signal_thread hopper mode h env junk qp m raddr laddr bytes sig_raddr sig_laddr sig_val code_opt =
    (let num_chunks = put_num_chunks bytes
     in case reserve_wq_slots hopper mode env qp (num_chunks + 1) code_opt of
          None \<Rightarrow> None
        | Some (base_wqe_idx, qp) \<Rightarrow>
           (let m = chunk_loop (unat num_chunks) (put_chunk junk qp raddr laddr) base_wqe_idx 0 bytes m;
                wqe_idx = base_wqe_idx + (ucast num_chunks - 1) + 1;
                m = signal_entry junk qp sig_raddr sig_laddr sig_val wqe_idx m
            in case mark_and_submit mode h qp base_wqe_idx wqe_idx code_opt of
                 None \<Rightarrow> None
               | Some (qp, writes) \<Rightarrow> Some (qp, m, writes, wqe_idx)))"

definition p_signal ::
  "bool \<Rightarrow> sharing_mode \<Rightarrow> nic_handler \<Rightarrow> (nat \<Rightarrow> dev_cq) \<Rightarrow> junk_of \<Rightarrow> dev_qp \<Rightarrow> memory \<Rightarrow>
   verbs_addr \<Rightarrow> u8 list \<Rightarrow> verbs_addr \<Rightarrow> verbs_addr \<Rightarrow> u64 \<Rightarrow> u32 \<Rightarrow> u64 posting" where
  "p_signal hopper mode h env junk qp m raddr data sig_raddr sig_laddr sig_val code_opt =
    (case reserve_wq_slots hopper mode env qp 2 code_opt of
       None \<Rightarrow> None
     | Some (base_wqe_idx, qp) \<Rightarrow>
        (case inline_entry junk qp raddr data base_wqe_idx m of
           None \<Rightarrow> None
         | Some m \<Rightarrow>
            (let wqe_idx = base_wqe_idx + 1;
                 m = signal_entry junk qp sig_raddr sig_laddr sig_val wqe_idx m
             in case mark_and_submit mode h qp base_wqe_idx wqe_idx code_opt of
                  None \<Rightarrow> None
                | Some (qp, writes) \<Rightarrow> Some (qp, m, writes, wqe_idx))))"

definition signal_thread ::
  "bool \<Rightarrow> sharing_mode \<Rightarrow> nic_handler \<Rightarrow> (nat \<Rightarrow> dev_cq) \<Rightarrow> junk_of \<Rightarrow> dev_qp \<Rightarrow> memory \<Rightarrow>
   verbs_addr \<Rightarrow> verbs_addr \<Rightarrow> u64 \<Rightarrow> u32 \<Rightarrow> u64 posting" where
  "signal_thread hopper mode h env junk qp m sig_raddr sig_laddr sig_val code_opt =
    (case reserve_wq_slots hopper mode env qp 1 code_opt of
       None \<Rightarrow> None
     | Some (wqe_idx, qp) \<Rightarrow>
        (let m = signal_entry junk qp sig_raddr sig_laddr sig_val wqe_idx m
         in case mark_and_submit mode h qp wqe_idx wqe_idx code_opt of
              None \<Rightarrow> None
            | Some (qp, writes) \<Rightarrow> Some (qp, m, writes, wqe_idx)))"

section \<open>Get\<close>

definition get_chunk ::
  "junk_of \<Rightarrow> dev_qp \<Rightarrow> verbs_addr \<Rightarrow> verbs_addr \<Rightarrow> u64 \<Rightarrow> u64 \<Rightarrow> u64 \<Rightarrow> memory \<Rightarrow> memory" where
  "get_chunk junk qp raddr laddr wqe_idx i chunk m =
    (let wqe_ptr = get_wqe_ptr qp (ucast wqe_idx)
     in if chunk > 0
        then wqe_prepare_read (junk wqe_idx) qp m wqe_ptr (ucast wqe_idx) CTRL_CQ_UPDATE
               (va_addr raddr + i * MAX_TRANSFER_SIZE) (va_key raddr)
               (va_addr laddr + i * MAX_TRANSFER_SIZE) (va_key laddr) (ucast chunk)
        else wqe_prepare_nop (junk wqe_idx) qp m wqe_ptr (ucast wqe_idx) CTRL_CQ_UPDATE)"

definition get_num_chunks :: "u64 \<Rightarrow> u32" where
  "get_num_chunks bytes =
    (let num_chunks = div_ceil_aligned_pow2_32bits bytes MAX_TRANSFER_SIZE_SHIFT
     in if num_chunks > 0 then num_chunks else 1)"

definition dump_entry :: "junk_of \<Rightarrow> dev_qp \<Rightarrow> verbs_addr \<Rightarrow> u64 \<Rightarrow> memory \<Rightarrow> memory" where
  "dump_entry junk qp daddr wqe_idx m =
    wqe_prepare_dump (junk wqe_idx) qp m (get_wqe_ptr qp (ucast wqe_idx)) (ucast wqe_idx)
      CTRL_CQ_UPDATE (va_addr daddr) (va_key daddr) 1"

definition get_thread ::
  "bool \<Rightarrow> sharing_mode \<Rightarrow> nic_handler \<Rightarrow> bool \<Rightarrow> bool \<Rightarrow> (nat \<Rightarrow> dev_cq) \<Rightarrow> (nat \<Rightarrow> dev_cq) \<Rightarrow> junk_of \<Rightarrow>
   dev_qp \<Rightarrow> memory \<Rightarrow> verbs_addr \<Rightarrow> verbs_addr \<Rightarrow> u64 \<Rightarrow> verbs_addr \<Rightarrow> u32 \<Rightarrow> u64 posting" where
  "get_thread hopper mode h mcst blocking env env2 junk qp m raddr laddr bytes daddr code_opt =
    (let num_chunks = get_num_chunks bytes
     in case reserve_wq_slots hopper mode env qp (if mcst then num_chunks + 1 else num_chunks) code_opt of
          None \<Rightarrow> None
        | Some (base_wqe_idx, qp) \<Rightarrow>
           (let m = chunk_loop (unat num_chunks) (get_chunk junk qp raddr laddr) base_wqe_idx 0 bytes m;
                (wqe_idx, m) =
                  (if mcst
                   then let wqe_idx = base_wqe_idx + ucast num_chunks
                        in (wqe_idx, dump_entry junk qp daddr wqe_idx m)
                   else (base_wqe_idx + (ucast num_chunks - 1), m))
            in case mark_and_submit mode h qp base_wqe_idx wqe_idx code_opt of
                 None \<Rightarrow> None
               | Some (qp, writes) \<Rightarrow>
                  (case (if blocking then poll_cq_sq hopper mode env2 qp wqe_idx else Some qp) of
                     None \<Rightarrow> None
                   | Some qp \<Rightarrow> Some (qp, m, writes, wqe_idx))))"

text \<open>
  In the warp form with a dump, lane 0 submits without the caller's options, and its ticket is
  that of the dump.
\<close>

definition get_warp ::
  "bool \<Rightarrow> bool \<Rightarrow> sharing_mode \<Rightarrow> nic_handler \<Rightarrow> bool \<Rightarrow> bool \<Rightarrow> (nat \<Rightarrow> dev_cq) \<Rightarrow> (nat \<Rightarrow> dev_cq) \<Rightarrow>
   junk_of \<Rightarrow> dev_qp \<Rightarrow> memory \<Rightarrow> (nat \<Rightarrow> verbs_addr) \<Rightarrow> (nat \<Rightarrow> verbs_addr) \<Rightarrow> (nat \<Rightarrow> u64) \<Rightarrow>
   verbs_addr \<Rightarrow> u32 \<Rightarrow> u64 list posting" where
  "get_warp arch800 hopper mode h mcst blocking env env2 junk qp m raddr laddr bytes daddr code_opt =
    (if arch800 then
       case reserve_wq_slots hopper mode env qp
              (of_nat (if mcst then WARP_SIZE + 1 else WARP_SIZE)) code_opt of
         None \<Rightarrow> None
       | Some (base, qp) \<Rightarrow>
          (let base_wqe_idx = warp_broadcast base;
               m = each_lane (\<lambda>lane m.
                     let wqe_idx = base_wqe_idx + of_nat lane
                     in wqe_prepare_read (junk wqe_idx) qp m (get_wqe_ptr qp (ucast wqe_idx)) (ucast wqe_idx)
                          CTRL_CQ_UPDATE (va_addr (raddr lane)) (va_key (raddr lane))
                          (va_addr (laddr lane)) (va_key (laddr lane)) (ucast (bytes lane))) m;
               tickets = map (\<lambda>lane. base_wqe_idx + of_nat lane) [0 ..< WARP_SIZE]
           in if mcst then
                (let wqe_idx = base_wqe_idx + of_nat WARP_SIZE;
                     m = dump_entry junk qp daddr wqe_idx m
                 in case mark_and_submit mode h qp base_wqe_idx wqe_idx 0 of
                      None \<Rightarrow> None
                    | Some (qp, writes) \<Rightarrow>
                       (case (if blocking then poll_cq_sq hopper mode env2 qp wqe_idx else Some qp) of
                          None \<Rightarrow> None
                        | Some qp \<Rightarrow> Some (qp, m, writes, tickets[0 := wqe_idx])))
              else
                (case mark_wqes_ready mode READY_MODE_ATOMIC_CAS qp base_wqe_idx
                        (base_wqe_idx + of_nat WARP_SIZE - 1) of
                   None \<Rightarrow> None
                 | Some qp \<Rightarrow>
                    (case submit mode h qp (base_wqe_idx + of_nat WARP_SIZE) code_opt of
                       None \<Rightarrow> None
                     | Some (qp, writes) \<Rightarrow>
                        (case (if blocking
                               then poll_cq_sq hopper mode env2 qp (base_wqe_idx + of_nat WARP_SIZE - 1)
                               else Some qp) of
                           None \<Rightarrow> None
                         | Some qp \<Rightarrow> Some (qp, m, writes, tickets)))))
     else Some (qp, m, [], replicate WARP_SIZE 0))"

section \<open>Waiting\<close>

definition mcst ::
  "bool \<Rightarrow> sharing_mode \<Rightarrow> nic_handler \<Rightarrow> (nat \<Rightarrow> dev_cq) \<Rightarrow> junk_of \<Rightarrow> dev_qp \<Rightarrow> memory \<Rightarrow>
   verbs_addr \<Rightarrow> u64 posting" where
  "mcst hopper mode h env junk qp m daddr =
    (case reserve_wq_slots hopper mode env qp 1 0 of
       None \<Rightarrow> None
     | Some (wqe_idx, qp) \<Rightarrow>
        (let m = dump_entry junk qp daddr wqe_idx m
         in case mark_and_submit mode h qp wqe_idx wqe_idx 0 of
              None \<Rightarrow> None
            | Some (qp, writes) \<Rightarrow> Some (qp, m, writes, wqe_idx)))"

definition priv_get_wait ::
  "bool \<Rightarrow> sharing_mode \<Rightarrow> nic_handler \<Rightarrow> bool \<Rightarrow> (nat \<Rightarrow> dev_cq) \<Rightarrow> (nat \<Rightarrow> dev_cq) \<Rightarrow> junk_of \<Rightarrow>
   dev_qp \<Rightarrow> memory \<Rightarrow> verbs_addr \<Rightarrow> u64 \<Rightarrow> unit posting" where
  "priv_get_wait hopper mode h with_mcst env env2 junk qp m daddr ticket =
    (if with_mcst then
       (case mcst hopper mode h env junk qp m daddr of
          None \<Rightarrow> None
        | Some (qp, m, writes, wqe_idx) \<Rightarrow>
           (let new_ticket = (if wqe_idx \<ge> ticket then wqe_idx else ticket)
            in case poll_cq_sq hopper mode env2 qp new_ticket of
                 None \<Rightarrow> None
               | Some qp \<Rightarrow> Some (qp, m, writes, ())))
     else
       (case poll_cq_sq hopper mode env2 qp ticket of
          None \<Rightarrow> None
        | Some qp \<Rightarrow> Some (qp, m, [], ())))"

text \<open>The waits without a ticket wait for the last slot reserved so far.\<close>

definition get_wait_all ::
  "bool \<Rightarrow> sharing_mode \<Rightarrow> nic_handler \<Rightarrow> bool \<Rightarrow> (nat \<Rightarrow> dev_cq) \<Rightarrow> (nat \<Rightarrow> dev_cq) \<Rightarrow> junk_of \<Rightarrow>
   dev_qp \<Rightarrow> memory \<Rightarrow> verbs_addr \<Rightarrow> unit posting" where
  "get_wait_all hopper mode h with_mcst env env2 junk qp m daddr =
    (let ticket = sq_rsvd_index qp
     in if ticket = 0 then Some (qp, m, [], ())
        else priv_get_wait hopper mode h with_mcst env env2 junk qp m daddr (ticket - 1))"

definition wait_ticket ::
  "bool \<Rightarrow> sharing_mode \<Rightarrow> (nat \<Rightarrow> dev_cq) \<Rightarrow> dev_qp \<Rightarrow> u64 \<Rightarrow> dev_qp option" where
  "wait_ticket hopper mode env qp ticket = poll_cq_sq hopper mode env qp ticket"

definition wait_all ::
  "bool \<Rightarrow> sharing_mode \<Rightarrow> (nat \<Rightarrow> dev_cq) \<Rightarrow> dev_qp \<Rightarrow> dev_qp option" where
  "wait_all hopper mode env qp =
    (let ticket = sq_rsvd_index qp
     in if ticket = 0 then Some qp else poll_cq_sq hopper mode env qp (ticket - 1))"

end
