(* ===== verification/DevOneSidedProofs.thy ===== *)
theory DevOneSidedProofs
  imports DevOneSided SqInv
begin

text \<open>
  What the one-sided operations post: how the NIC reads each entry, that the chunks of a transfer
  tile it, and the tickets.
\<close>

section \<open>What an entry asks the NIC to do\<close>

text \<open>Remote address and key, local address and key, length; the operand of an atomic; the bytes of an
  inline write; the index and the completion queue that are waited for.\<close>

datatype nic_op =
    NIC_NOP
  | NIC_WRITE u64 u32 u64 u32 u32
  | NIC_INLINE u64 u32 "u8 list"
  | NIC_READ u64 u32 u64 u32 u32
  | NIC_FETCH_ADD u64 u32 u64 u64 u32 u32
  | NIC_DUMP u64 u32 u32
  | NIC_WAIT u32 u32
  | NIC_OTHER

definition nic_op_at :: "memory \<Rightarrow> nat \<Rightarrow> nic_op" where
  "nic_op_at m p =
    (let opcode = nc_opcode (read_ctrl m p); (ra, rk) = read_raddr m (p + 16)
     in if opcode = 0 then NIC_NOP
        else if opcode = 8 then
          (if be32 m (p + 32) AND 0x80000000 \<noteq> 0
           then NIC_INLINE ra rk (map m [p + 36 ..< p + 36 + min 28 (unat (be32 m (p + 32) AND 0x3fffff))])
           else case read_data m (p + 32) of (n, k, a) \<Rightarrow> NIC_WRITE ra rk a k n)
        else if opcode = 0x10 then (case read_data m (p + 32) of (n, k, a) \<Rightarrow> NIC_READ ra rk a k n)
        else if opcode = 0x12 then
          (case read_data m (p + 48) of (n, k, a) \<Rightarrow> NIC_FETCH_ADD ra rk (be64 m (p + 32)) a k n)
        else if opcode = 0x23 then (case read_data m (p + 16) of (n, k, a) \<Rightarrow> NIC_DUMP a k n)
        else if opcode = 0x0f then NIC_WAIT (be32 m (p + 24)) (be32 m (p + 28))
        else NIC_OTHER)"

text \<open>The queue pair, index and operation read in the slot of an index.\<close>

definition nic_entry :: "memory \<Rightarrow> dev_qp \<Rightarrow> u64 \<Rightarrow> u32 \<times> u16 \<times> nic_op" where
  "nic_entry m qp i =
    (let p = slot_addr qp i
     in (nc_qpn (read_ctrl m p), nc_index (read_ctrl m p), nic_op_at m p))"

definition writes_entry :: "dev_qp \<Rightarrow> u64 \<Rightarrow> nic_op \<Rightarrow> (memory \<Rightarrow> memory) \<Rightarrow> bool" where
  "writes_entry qp i op w \<longleftrightarrow>
    (\<forall>m. same_outside (slot_addr qp i) 64 m (w m) \<and> nic_entry (w m) qp i = (sq_num qp, ucast i, op))"

lemma nic_entry_cong:
  assumes "\<And>a. slot_addr qp i \<le> a \<Longrightarrow> a < slot_addr qp i + 64 \<Longrightarrow> m a = m' a"
  shows "nic_entry m qp i = nic_entry m' qp i"
proof -
  let ?p = "slot_addr qp i"
  have b: "be32 m (?p + k) = be32 m' (?p + k)" if "k \<le> 60" for k
    using that by (intro be32_cong assms) simp_all
  have r: "read_ctrl m ?p = read_ctrl m' ?p"
    using b [of 0] b [of 4] assms [of "?p + 11"] by (simp add: read_ctrl_def)
  have b64: "be64 m (?p + k) = be64 m' (?p + k)" if "k \<le> 56" for k
    using b [of k] b [of "k + 4"] that by (simp add: be64_def add.assoc)
  have i: "map m [?p + 36 ..< ?p + 36 + min 28 n] = map m' [?p + 36 ..< ?p + 36 + min 28 n]" for n
    by (intro map_cong refl assms) auto
  have d: "read_data m (?p + 32) = read_data m' (?p + 32)" "read_data m (?p + 48) = read_data m' (?p + 48)"
    "read_data m (?p + 16) = read_data m' (?p + 16)" "read_raddr m (?p + 16) = read_raddr m' (?p + 16)"
    using b [of 32] b [of 36] b64 [of 40] b [of 48] b [of 52] b64 [of 56] b [of 16] b [of 20] b64 [of 24]
      b64 [of 16] b [of 24]
    by (simp_all add: read_data_def read_raddr_def add.assoc)
  have x: "be32 m (?p + 32) = be32 m' (?p + 32)" "be64 m (?p + 32) = be64 m' (?p + 32)"
    "be32 m (?p + 24) = be32 m' (?p + 24)" "be32 m (?p + 28) = be32 m' (?p + 28)"
    using b [of 32] b64 [of 32] b [of 24] b [of 28] by simp_all
  show ?thesis
    unfolding nic_entry_def nic_op_at_def Let_def r d x i by (rule refl)
qed


lemma slots_apart:
  assumes "ring_fields_ok qp" "slot_addr qp i \<noteq> slot_addr qp j"
  shows "slot_addr qp i + 64 \<le> slot_addr qp j \<or> slot_addr qp j + 64 \<le> slot_addr qp i"
  using assms(2) unfolding slot_addr_mod [OF assms(1)]
  by (cases "unat i mod unat (sq_wqe_num qp) < unat j mod unat (sq_wqe_num qp)") auto

text \<open>Successive writers of successive entries, at most one lap: every entry is there at the end.\<close>

definition in_slots :: "dev_qp \<Rightarrow> u64 \<Rightarrow> nat \<Rightarrow> nat \<Rightarrow> bool" where
  "in_slots qp base n a \<longleftrightarrow>
    (\<exists>j < n. slot_addr qp (base + of_nat j) \<le> a \<and> a < slot_addr qp (base + of_nat j) + 64)"

lemma index_add:
  fixes base :: u64
  assumes "unat base + n \<le> 2 ^ 64" "j < n"
  shows "unat (base + of_nat j) = unat base + j"
proof -
  have "unat (of_nat j :: u64) = j" using assms by (simp add: unat_of_nat take_bit_nat_eq_self_iff)
  then show ?thesis using assms unat_add_no_overflow [of base "of_nat j"] by simp
qed

lemma slots_differ:
  assumes "ring_fields_ok qp" "n \<le> unat (sq_wqe_num qp)" "unat base + n \<le> 2 ^ 64" "j < n" "k < n" "j \<noteq> k"
  shows "slot_addr qp (base + of_nat j) \<noteq> slot_addr qp (base + of_nat k)"
proof
  assume "slot_addr qp (base + of_nat j) = slot_addr qp (base + of_nat k)"
  from slot_addr_inj [OF assms(1) this] have "base + of_nat j = base + of_nat k"
    using assms by (simp add: index_add)
  then have "unat (base + of_nat j) = unat (base + of_nat k)" by simp
  then show False using assms by (simp add: index_add)
qed

lemma fold_entries:
  assumes "ring_fields_ok qp" "n \<le> unat (sq_wqe_num qp)" "unat base + n \<le> 2 ^ 64"
    and "\<And>j. j < n \<Longrightarrow> writes_entry qp (base + of_nat j) (op j) (f j)"
  shows "(\<forall>j < n. nic_entry (fold f [0 ..< n] m) qp (base + of_nat j) =
      (sq_num qp, ucast (base + of_nat j), op j)) \<and>
    (\<forall>a. \<not> in_slots qp base n a \<longrightarrow> fold f [0 ..< n] m a = m a)"
  using assms(2-4)
proof (induction n)
  case 0
  then show ?case by simp
next
  case (Suc n)
  let ?M = "fold f [0 ..< n] m"
  have IH: "(\<forall>j < n. nic_entry ?M qp (base + of_nat j) = (sq_num qp, ucast (base + of_nat j), op j))"
    "(\<forall>a. \<not> in_slots qp base n a \<longrightarrow> ?M a = m a)"
    using Suc by auto
  have w: "same_outside (slot_addr qp (base + of_nat n)) 64 ?M (f n ?M)"
    "nic_entry (f n ?M) qp (base + of_nat n) = (sq_num qp, ucast (base + of_nat n), op n)"
    using Suc.prems(3) [of n] unfolding writes_entry_def by simp_all
  have "nic_entry (f n ?M) qp (base + of_nat j) = nic_entry ?M qp (base + of_nat j)" if "j < n" for j
  proof (rule nic_entry_cong)
    fix a assume a: "slot_addr qp (base + of_nat j) \<le> a" "a < slot_addr qp (base + of_nat j) + 64"
    have "slot_addr qp (base + of_nat j) \<noteq> slot_addr qp (base + of_nat n)"
      using slots_differ [OF assms(1) Suc.prems(1,2), of j n] that by simp
    from slots_apart [OF assms(1) this] a
    have "a < slot_addr qp (base + of_nat n) \<or> slot_addr qp (base + of_nat n) + 64 \<le> a" by linarith
    then show "f n ?M a = ?M a" using w(1) unfolding same_outside_def by blast
  qed
  moreover have "f n ?M a = m a" if "\<not> in_slots qp base (Suc n) a" for a
  proof -
    have "\<not> in_slots qp base n a" "a < slot_addr qp (base + of_nat n) \<or> slot_addr qp (base + of_nat n) + 64 \<le> a"
      using that unfolding in_slots_def by (auto simp: less_Suc_eq not_le not_less)
    then have "f n ?M a = ?M a" "?M a = m a" using w(1) IH(2) unfolding same_outside_def by blast+
    then show ?thesis by simp
  qed
  ultimately show ?case using IH(1) w(2) by (simp add: less_Suc_eq)
qed


section \<open>The entries of the operations\<close>

lemma writes_entryI:
  assumes "\<And>m. same_outside (slot_addr qp i) n m (w m)" "n \<le> 64"
    and "\<And>m. nc_qpn (read_ctrl (w m) (slot_addr qp i)) = sq_num qp"
    and "\<And>m. nc_index (read_ctrl (w m) (slot_addr qp i)) = ucast i"
    and "\<And>m. nic_op_at (w m) (slot_addr qp i) = op"
  shows "writes_entry qp i op w"
  using assms by (auto simp: writes_entry_def nic_entry_def same_outside_def Let_def)

definition put_op :: "verbs_addr \<Rightarrow> verbs_addr \<Rightarrow> u64 \<Rightarrow> u64 \<Rightarrow> nic_op" where
  "put_op raddr laddr i n =
    (if n = 0 then NIC_NOP
     else NIC_WRITE (va_addr raddr + i * 2 ^ 30) (bswap32 (va_key raddr))
       (va_addr laddr + i * 2 ^ 30) (bswap32 (va_key laddr)) (ucast n))"

definition get_op :: "verbs_addr \<Rightarrow> verbs_addr \<Rightarrow> u64 \<Rightarrow> u64 \<Rightarrow> nic_op" where
  "get_op raddr laddr i n =
    (if n = 0 then NIC_NOP
     else NIC_READ (va_addr raddr + i * 2 ^ 30) (bswap32 (va_key raddr))
       (va_addr laddr + i * 2 ^ 30) (bswap32 (va_key laddr)) (ucast n))"

lemma max_transfer [simp]: "MAX_TRANSFER_SIZE = 2 ^ 30"
  by (simp add: MAX_TRANSFER_SIZE_def MAX_TRANSFER_SIZE_SHIFT_def push_bit_eq_mult)

lemma small_length:
  fixes n :: u32
  assumes "unat n < 2 ^ 31"
  shows "n AND 0x7FFFFFFF = n" "n AND 0x80000000 = 0"
proof -
  have m: "(0x7FFFFFFF :: u32) = mask 31" "(0x80000000 :: u32) = push_bit 31 1"
    by (simp_all add: mask_eq_exp_minus_1 push_bit_eq_mult)
  show "n AND 0x7FFFFFFF = n"
    unfolding m using assms by (simp add: word_unat_eq_iff unat_and_mask)
  then have "n AND 0x80000000 = (n AND 0x7FFFFFFF) AND 0x80000000" by simp
  then show "n AND 0x80000000 = 0" by (simp add: and.assoc)
qed

lemma nop_entry:
  assumes "num_fields_ok qp"
  shows "writes_entry qp i NIC_NOP
    (\<lambda>m. wqe_prepare_nop junk qp m (slot_addr qp i) (ucast i) flags)"
  using assms
  by (intro writes_entryI [where n = 16])
    (simp_all add: wqe_prepare_nop_def Let_def wqe_read same_outside_def OPCODE_NOP_def num_fields_ok_def
      nic_op_at_def split: prod.split)

lemma write_entry:
  assumes "num_fields_ok qp" "unat n < 2 ^ 31"
  shows "writes_entry qp i (NIC_WRITE ra (bswap32 rk) la (bswap32 lk) n)
    (\<lambda>m. wqe_prepare_write junk qp m (slot_addr qp i) (ucast i) OPCODE_RDMA_WRITE flags imm ra rk la lk n)"
proof -
  have "read_data M p = (x, y, z) \<Longrightarrow> be32 M p = x" for M p x y z by (simp add: read_data_def)
  note len = this [OF read_data_seg]
  show ?thesis
    using assms
    by (intro writes_entryI [where n = 48])
      (simp_all add: wqe_prepare_write_def Let_def wqe_read same_outside_def OPCODE_RDMA_WRITE_def
        num_fields_ok_def remote_def local_data_def INLINE_SEG_def nic_op_at_def small_length len)
qed

lemma read_entry:
  assumes "num_fields_ok qp"
  shows "writes_entry qp i (NIC_READ ra (bswap32 rk) la (bswap32 lk) n)
    (\<lambda>m. wqe_prepare_read junk qp m (slot_addr qp i) (ucast i) flags ra rk la lk n)"
  using assms
  by (intro writes_entryI [where n = 48])
    (simp_all add: wqe_prepare_read_def Let_def wqe_read same_outside_def OPCODE_RDMA_READ_def
      num_fields_ok_def remote_def local_data_def nic_op_at_def)

lemma signal_entry_writes:
  assumes "num_fields_ok qp"
  shows "writes_entry qp i (NIC_FETCH_ADD (va_addr sr) (bswap32 (va_key sr)) v (va_addr sl) (bswap32 (va_key sl)) 8)
    (signal_entry junk qp sr sl v i)"
proof -
  have "read_pair M p = (x, y) \<Longrightarrow> be64 M p = x" for M p x y by (simp add: read_pair_def)
  note swap = this [OF read_atomic_seg]
  have other: "be64 (store_wqe_seg m (p + 48) w) (p + 32) = be64 m (p + 32)" for m p w
    using read_other(4) [of "p + 32" "p + 48" m w] by (simp add: read_pair_def)
  show ?thesis
    using assms unfolding signal_entry_def slot_addr_def [symmetric]
    by (intro writes_entryI [where n = 64])
      (simp_all add: wqe_prepare_atomic_def Let_def wqe_read same_outside_def OPCODE_ATOMIC_FA_def
        num_fields_ok_def remote_def local_data_def nic_op_at_def swap other)
qed

lemma dump_entry_writes:
  assumes "num_fields_ok qp"
  shows "writes_entry qp i (NIC_DUMP (va_addr d) (bswap32 (va_key d)) 1) (dump_entry junk qp d i)"
  using assms unfolding dump_entry_def slot_addr_def [symmetric]
  by (intro writes_entryI [where n = 32])
    (simp_all add: wqe_prepare_dump_def Let_def wqe_read same_outside_def OPCODE_DUMP_def
      num_fields_ok_def local_data_def nic_op_at_def split: prod.split)

lemma put_chunk_writes:
  assumes "num_fields_ok qp" "unat c \<le> 2 ^ 30"
  shows "writes_entry qp idx (put_op raddr laddr i c) (put_chunk junk qp raddr laddr idx i c)"
proof -
  have "unat (ucast c :: u32) = unat c" using assms(2) by (simp add: unat_ucast_mod)
  then show ?thesis
    using assms nop_entry [OF assms(1)] write_entry [OF assms(1), of "ucast c"]
    by (cases "c = 0")
      (simp_all add: put_chunk_def [abs_def] put_op_def slot_addr_def word_gt_0 OPCODE_RDMA_WRITE_def)
qed

lemma get_chunk_writes:
  assumes "num_fields_ok qp"
  shows "writes_entry qp idx (get_op raddr laddr i c) (get_chunk junk qp raddr laddr idx i c)"
  using nop_entry [OF assms] read_entry [OF assms]
  by (cases "c = 0") (simp_all add: get_chunk_def [abs_def] get_op_def slot_addr_def word_gt_0)

section \<open>Chunks\<close>

text \<open>The length of chunk \<open>k\<close> of a transfer.\<close>

definition chunk_len :: "nat \<Rightarrow> nat \<Rightarrow> nat" where
  "chunk_len r k = min (2 ^ 30) (r - k * 2 ^ 30)"

definition transfer_chunks :: "u64 \<Rightarrow> nat" where
  "transfer_chunks bytes = max 1 ((unat bytes + 2 ^ 30 - 1) div 2 ^ 30)"

lemma fold_upt_shift: "fold f [0 ..< Suc n] m = fold (\<lambda>j. f (Suc j)) [0 ..< n] (f 0 m)"
proof -
  have "[0 ..< Suc n] = 0 # map Suc [0 ..< n]" by (simp add: upt_conv_Cons map_Suc_upt del: upt_Suc)
  then show ?thesis by (simp add: fold_map comp_def del: upt_Suc)
qed

lemma chunk_loop_fold:
  assumes "r < 2 ^ 64"
  shows "chunk_loop n prepare base (of_nat k) (of_nat r) m =
    fold (\<lambda>j. prepare (base + of_nat (k + j)) (of_nat (k + j)) (of_nat (chunk_len r j))) [0 ..< n] m"
  using assms
proof (induction n arbitrary: k r m)
  case 0
  then show ?case by simp
next
  case (Suc n)
  have u: "unat (of_nat r :: u64) = r"
    using Suc.prems by (simp add: unat_of_nat take_bit_nat_eq_self_iff)
  have c: "chunk_size (of_nat r) = of_nat (chunk_len r 0)"
    using u by (auto simp: chunk_size_def chunk_len_def word_less_nat_alt min_def unat_pow2)
  have rest: "(of_nat r :: u64) - of_nat (chunk_len r 0) = of_nat (r - chunk_len r 0)"
    by (simp add: of_nat_diff chunk_len_def)
  have later: "chunk_len (r - chunk_len r 0) j = chunk_len r (Suc j)" for j
    by (auto simp: chunk_len_def min_def)
  have "chunk_loop (Suc n) prepare base (of_nat k) (of_nat r) m =
      chunk_loop n prepare base (of_nat (Suc k)) (of_nat (r - chunk_len r 0))
        (prepare (base + of_nat k) (of_nat k) (of_nat (chunk_len r 0)) m)"
    unfolding chunk_loop.simps Let_def c rest by (simp add: add.commute)
  also have "\<dots> = fold (\<lambda>j. prepare (base + of_nat (Suc k + j)) (of_nat (Suc k + j))
        (of_nat (chunk_len r (Suc j)))) [0 ..< n]
        (prepare (base + of_nat k) (of_nat k) (of_nat (chunk_len r 0)) m)"
    using Suc.IH [of "r - chunk_len r 0" "Suc k"] Suc.prems unfolding later by simp
  also have "\<dots> = fold (\<lambda>j. prepare (base + of_nat (k + j)) (of_nat (k + j)) (of_nat (chunk_len r j)))
      [0 ..< Suc n] m"
    unfolding fold_upt_shift by simp
  finally show ?case .
qed

lemma chunks_tile: "r \<le> n * 2 ^ 30 \<Longrightarrow> (\<Sum>k < n. chunk_len r k) = r"
proof (induction n arbitrary: r)
  case 0
  then show ?case by simp
next
  case (Suc n)
  have "(\<Sum>k < n. chunk_len r k) = min r (n * 2 ^ 30)"
  proof (cases "r \<le> n * 2 ^ 30")
    case True
    then show ?thesis using Suc.IH by simp
  next
    case False
    then have "chunk_len r k = 2 ^ 30" if "k < n" for k
    proof -
      have "(k + 1) * 2 ^ 30 \<le> n * (2 :: nat) ^ 30" using that by (intro mult_le_mono1) simp
      then show ?thesis using False by (simp add: chunk_len_def)
    qed
    then show ?thesis using False by simp
  qed
  then show ?case using Suc.prems by (auto simp: chunk_len_def min_def)
qed

lemma ceil_covers:
  fixes r P :: nat
  assumes "0 < P"
  shows "r \<le> max 1 ((r + P - 1) div P) * P"
proof -
  have "r + P - 1 < Suc ((r + P - 1) div P) * P"
    using assms by (metis div_less_iff_less_mult lessI)
  then have "r \<le> (r + P - 1) div P * P" using assms by (simp add: algebra_simps)
  also have "\<dots> \<le> max 1 ((r + P - 1) div P) * P" by (intro mult_le_mono1) simp
  finally show ?thesis .
qed

lemma num_chunks:
  assumes "transfer_chunks bytes < 2 ^ 32"
  shows "unat (put_num_chunks bytes) = transfer_chunks bytes"
    and "get_num_chunks bytes = put_num_chunks bytes"
    and "unat bytes \<le> transfer_chunks bytes * 2 ^ 30" "0 < transfer_chunks bytes"
proof -
  define d where "d = div_ceil_aligned_pow2_32bits bytes 30"
  have "(unat bytes + 2 ^ 30 - 1) div 2 ^ 30 < 2 ^ 32"
    using assms unfolding transfer_chunks_def by (rule le_less_trans [OF max.cobounded2])
  then have d: "unat d = (unat bytes + 2 ^ 30 - 1) div 2 ^ 30"
    unfolding d_def by (intro div_ceil_32_unat) simp_all
  have put: "put_num_chunks bytes = (if 1 < d then d else 1)"
    by (simp add: put_num_chunks_def d_def MAX_TRANSFER_SIZE_SHIFT_def Let_def)
  show "unat (put_num_chunks bytes) = transfer_chunks bytes"
    unfolding put transfer_chunks_def d [symmetric] by (simp add: word_less_nat_alt max_def)
  have "d > 0 \<Longrightarrow> \<not> 1 < d \<Longrightarrow> d = 1" by (simp add: word_less_nat_alt word_unat_eq_iff)
  moreover have "get_num_chunks bytes = (if 0 < d then d else 1)"
    by (simp add: get_num_chunks_def d_def MAX_TRANSFER_SIZE_SHIFT_def Let_def)
  ultimately show "get_num_chunks bytes = put_num_chunks bytes" unfolding put by (simp add: word_gt_0)
  show "unat bytes \<le> transfer_chunks bytes * 2 ^ 30"
    unfolding transfer_chunks_def by (rule ceil_covers) simp
  show "0 < transfer_chunks bytes" unfolding transfer_chunks_def by (simp only: less_max_iff_disj) simp
qed


section \<open>Reserving, marking and submitting alone\<close>

text \<open>Nobody else is posting: every reserved entry is marked and the lock is free.\<close>

definition quiet_queue :: "sharing_mode \<Rightarrow> dev_qp \<Rightarrow> bool" where
  "quiet_queue mode qp \<longleftrightarrow>
    mode = SHARING_MODE_EXCLUSIVE \<or> sq_ready_index qp = sq_rsvd_index qp \<and> sq_lock qp = 0"

lemma frame_cq_sq [simp]:
  "slot_addr (qp\<lparr>cq_sq := cq\<rparr>) i = slot_addr qp i"
  "slot_addr (qp\<lparr>sq_rsvd_index := r, cq_sq := cq\<rparr>) i = slot_addr qp i"
  "num_fields_ok (qp\<lparr>sq_rsvd_index := r, cq_sq := cq\<rparr>) = num_fields_ok qp"
  by (simp_all add: slot_addr_def get_wqe_ptr_def num_fields_ok_def)

lemma nic_entry_frame [simp]: "nic_entry m (qp\<lparr>sq_rsvd_index := r, cq_sq := cq\<rparr>) i = nic_entry m qp i"
  by (simp add: nic_entry_def)

lemma writes_entry_frame [simp]:
  "writes_entry (qp\<lparr>sq_rsvd_index := r, cq_sq := cq\<rparr>) i op w = writes_entry qp i op w"
  by (simp add: writes_entry_def)

lemma reserve_result:
  assumes "shareable mode" "reserve_wq_slots hopper mode env qp count code_opt = Some (base, qp')"
  obtains cq where "base = sq_rsvd_index qp" "qp' = qp\<lparr>sq_rsvd_index := base + ucast count, cq_sq := cq\<rparr>"
proof -
  define qp1 where "qp1 = qp\<lparr>sq_rsvd_index := sq_rsvd_index qp + ucast count\<rparr>"
  have base: "base = sq_rsvd_index qp"
    and "qp' = qp1 \<or> wait_until_slot_available hopper mode env qp1 (sq_rsvd_index qp + ucast count - 1) = Some qp'"
    using assms by (auto simp: reserve_wq_slots_def Let_def qp1_def split: if_splits option.splits)
  then have "\<exists>cq. qp' = qp1\<lparr>cq_sq := cq\<rparr>"
    by (auto simp: wait_until_slot_available_def Let_def split: if_splits option.splits)
      (auto intro: exI [of _ "cq_sq qp1"])
  with base that show thesis by (auto simp: qp1_def)
qed

lemma submit_returns:
  assumes "shareable mode" "lock_free mode qp"
  shows "\<exists>qp' writes. submit mode h qp i code_opt = Some (qp', writes) \<and>
    sq_rsvd_index qp' = sq_rsvd_index qp \<and> sq_ready_index qp' = sq_ready_index qp"
proof -
  have "\<exists>qp' writes. submit_db mode qp i code_opt = Some (qp', writes) \<and>
    sq_rsvd_index qp' = sq_rsvd_index qp \<and> sq_ready_index qp' = sq_ready_index qp"
    using assms by (auto simp: submit_db_def lock_cycle Let_def)
  moreover have "\<exists>qp' writes. submit_db_no_dbr mode qp i code_opt = Some (qp', writes) \<and>
    sq_rsvd_index qp' = sq_rsvd_index qp \<and> sq_ready_index qp' = sq_ready_index qp"
    using assms by (auto simp: submit_db_no_dbr_def Let_def)
  moreover have "\<exists>qp' writes. submit_proxy mode qp i code_opt = Some (qp', writes) \<and>
    sq_rsvd_index qp' = sq_rsvd_index qp \<and> sq_ready_index qp' = sq_ready_index qp"
    using assms by (auto simp: submit_proxy_def Let_def)
  ultimately show ?thesis by (simp add: submit_def)
qed

lemma mark_returns:
  assumes "shareable mode" "mode = SHARING_MODE_EXCLUSIVE \<or> sq_ready_index qp = base"
  shows "mark_wqes_ready mode READY_MODE_ATOMIC_CAS qp base upto_idx = Some (qp\<lparr>sq_ready_index := upto_idx + 1\<rparr>)"
  using assms by (cases mode) (auto simp: mark_wqes_ready_def common_mark_wqes_ready_def)

lemma mark_and_submit_returns:
  assumes "shareable mode" "quiet_queue mode qp" "base = sq_rsvd_index qp"
  shows "\<exists>qp' writes. mark_and_submit mode h (qp\<lparr>sq_rsvd_index := r, cq_sq := cq\<rparr>) base upto_idx code_opt =
      Some (qp', writes) \<and> sq_rsvd_index qp' = r \<and> sq_ready_index qp' = upto_idx + 1"
proof -
  let ?qp = "qp\<lparr>sq_rsvd_index := r, cq_sq := cq\<rparr>"
  have "mark_wqes_ready mode READY_MODE_ATOMIC_CAS ?qp base upto_idx = Some (?qp\<lparr>sq_ready_index := upto_idx + 1\<rparr>)"
    using assms by (intro mark_returns) (auto simp: quiet_queue_def)
  moreover have "lock_free mode (?qp\<lparr>sq_ready_index := upto_idx + 1\<rparr>)"
    using assms by (auto simp: quiet_queue_def lock_free_def)
  ultimately show ?thesis
    using submit_returns [OF assms(1), of "?qp\<lparr>sq_ready_index := upto_idx + 1\<rparr>" h "upto_idx + 1" code_opt]
    by (simp add: mark_and_submit_def)
qed

text \<open>The entries of a transfer, and one more after it.\<close>

lemma fold_entries_snoc:
  assumes "ring_fields_ok qp" "Suc n \<le> unat (sq_wqe_num qp)" "unat base + Suc n \<le> 2 ^ 64"
    and "\<And>j. j < n \<Longrightarrow> writes_entry qp (base + of_nat j) (op j) (f j)"
    and "writes_entry qp (base + of_nat n) x w"
  shows "(\<forall>j < n. nic_entry (w (fold f [0 ..< n] m)) qp (base + of_nat j) =
      (sq_num qp, ucast (base + of_nat j), op j)) \<and>
    nic_entry (w (fold f [0 ..< n] m)) qp (base + of_nat n) = (sq_num qp, ucast (base + of_nat n), x) \<and>
    (\<forall>a. \<not> in_slots qp base (Suc n) a \<longrightarrow> w (fold f [0 ..< n] m) a = m a)"
proof -
  define g where "g = (\<lambda>j. if j < n then f j else w)"
  define o' where "o' = (\<lambda>j. if j < n then op j else x)"
  have "fold g [0 ..< n] m = fold f [0 ..< n] m"
    by (intro fold_cong) (simp_all add: g_def)
  then have eq: "fold g [0 ..< Suc n] m = w (fold f [0 ..< n] m)" by (simp add: g_def)
  have "writes_entry qp (base + of_nat j) (o' j) (g j)" if "j < Suc n" for j
    using assms(4,5) that by (cases "j = n") (simp_all add: g_def o'_def)
  from fold_entries [OF assms(1-3) this, of m] have
    "(\<forall>j < Suc n. nic_entry (w (fold f [0 ..< n] m)) qp (base + of_nat j) =
        (sq_num qp, ucast (base + of_nat j), o' j)) \<and>
     (\<forall>a. \<not> in_slots qp base (Suc n) a \<longrightarrow> w (fold f [0 ..< n] m) a = m a)"
    unfolding eq by blast
  then show ?thesis by (auto simp: o'_def)
qed

lemma chunk_bound: "chunk_len r k \<le> 2 ^ 30" "unat (of_nat (chunk_len r k) :: u64) = chunk_len r k"
proof -
  show b: "chunk_len r k \<le> 2 ^ 30" unfolding chunk_len_def by (rule min.cobounded1)
  also have "(2 :: nat) ^ 30 < 2 ^ 64" by (rule power_strict_increasing) simp_all
  finally show "unat (of_nat (chunk_len r k) :: u64) = chunk_len r k"
    by (simp add: unat_of_nat take_bit_nat_eq_self_iff)
qed

lemma chunk_loop_bytes:
  "chunk_loop n prepare base 0 bytes m =
    fold (\<lambda>j. prepare (base + of_nat j) (of_nat j) (of_nat (chunk_len (unat bytes) j))) [0 ..< n] m"
  using chunk_loop_fold [of "unat bytes" n prepare base 0 m] unat_lt_2p [of bytes] by simp

text \<open>The loop of a transfer, alone and with one more entry after it.\<close>

definition chunk_entries ::
  "(u64 \<Rightarrow> u64 \<Rightarrow> nic_op) \<Rightarrow> dev_qp \<Rightarrow> u64 \<Rightarrow> u64 \<Rightarrow> memory \<Rightarrow> bool" where
  "chunk_entries op qp base bytes m \<longleftrightarrow>
    (\<forall>k < transfer_chunks bytes. nic_entry m qp (base + of_nat k) =
       (sq_num qp, ucast (base + of_nat k), op (of_nat k) (of_nat (chunk_len (unat bytes) k))))"

text \<open>
  What the loop needs of the body that prepares one chunk: on a queue pair whose number fields are
  right, it writes the entry of its index and nothing else.
\<close>

locale chunk_writer =
  fixes op :: "verbs_addr \<Rightarrow> verbs_addr \<Rightarrow> u64 \<Rightarrow> u64 \<Rightarrow> nic_op"
    and prepare :: "junk_of \<Rightarrow> dev_qp \<Rightarrow> verbs_addr \<Rightarrow> verbs_addr \<Rightarrow> u64 \<Rightarrow> u64 \<Rightarrow> u64 \<Rightarrow> memory \<Rightarrow> memory"
  assumes writes: "num_fields_ok qp \<Longrightarrow> unat c \<le> 2 ^ 30 \<Longrightarrow>
      writes_entry qp idx (op raddr laddr i c) (prepare junk qp raddr laddr idx i c)"
begin

lemma writes_for:
  assumes "num_fields_ok qp" "qp0 = qp\<lparr>sq_rsvd_index := r, cq_sq := cq\<rparr>"
  shows "writes_entry qp (base + of_nat j) (op raddr laddr (of_nat j) (of_nat (chunk_len n j)))
    (prepare junk qp0 raddr laddr (base + of_nat j) (of_nat j) (of_nat (chunk_len n j)))"
  using writes [of qp0] assms chunk_bound by simp

lemma entries:
  assumes "num_fields_ok qp" "ring_fields_ok qp" "qp0 = qp\<lparr>sq_rsvd_index := r, cq_sq := cq\<rparr>"
    "transfer_chunks bytes \<le> unat (sq_wqe_num qp)" "unat base + transfer_chunks bytes \<le> 2 ^ 64"
  shows "let M = chunk_loop (transfer_chunks bytes) (prepare junk qp0 raddr laddr) base 0 bytes m in
    chunk_entries (op raddr laddr) qp base bytes M \<and>
    (\<forall>a. \<not> in_slots qp base (transfer_chunks bytes) a \<longrightarrow> M a = m a)"
  unfolding chunk_loop_bytes chunk_entries_def Let_def
  by (rule fold_entries [OF assms(2,4,5) writes_for [OF assms(1,3)]])

lemma entries_snoc:
  assumes "num_fields_ok qp" "ring_fields_ok qp" "qp0 = qp\<lparr>sq_rsvd_index := r, cq_sq := cq\<rparr>"
    "Suc (transfer_chunks bytes) \<le> unat (sq_wqe_num qp)" "unat base + Suc (transfer_chunks bytes) \<le> 2 ^ 64"
    and "writes_entry qp (base + of_nat (transfer_chunks bytes)) x w"
  shows "let M = w (chunk_loop (transfer_chunks bytes) (prepare junk qp0 raddr laddr) base 0 bytes m) in
    chunk_entries (op raddr laddr) qp base bytes M \<and>
    nic_entry M qp (base + of_nat (transfer_chunks bytes)) =
      (sq_num qp, ucast (base + of_nat (transfer_chunks bytes)), x) \<and>
    (\<forall>a. \<not> in_slots qp base (Suc (transfer_chunks bytes)) a \<longrightarrow> M a = m a)"
  unfolding chunk_loop_bytes chunk_entries_def Let_def
  by (rule fold_entries_snoc [OF assms(2,4,5) writes_for [OF assms(1,3)] assms(6)])

end

interpretation put: chunk_writer put_op put_chunk
  by unfold_locales (rule put_chunk_writes)

interpretation get: chunk_writer get_op get_chunk
  by unfold_locales (rule get_chunk_writes)

lemma tail_writers:
  assumes "num_fields_ok qp" "qp0 = qp\<lparr>sq_rsvd_index := r, cq_sq := cq\<rparr>"
  shows "writes_entry qp i (NIC_FETCH_ADD (va_addr sr) (bswap32 (va_key sr)) v (va_addr sl) (bswap32 (va_key sl)) 8)
      (signal_entry junk qp0 sr sl v i)"
    and "writes_entry qp i (NIC_DUMP (va_addr d) (bswap32 (va_key d)) 1) (dump_entry junk qp0 d i)"
  using signal_entry_writes [of qp0] dump_entry_writes [of qp0] assms by simp_all

lemma chunk_indices:
  assumes "transfer_chunks bytes \<le> unat (n :: u16)"
  shows "unat (put_num_chunks bytes) = transfer_chunks bytes"
    and "ucast (put_num_chunks bytes) = (of_nat (transfer_chunks bytes) :: u64)"
    and "get_num_chunks bytes = put_num_chunks bytes"
    and "unat bytes \<le> transfer_chunks bytes * 2 ^ 30"
    and "(of_nat (transfer_chunks bytes) :: u64) - 1 = of_nat (transfer_chunks bytes - 1)"
    and "ucast (put_num_chunks bytes + 1) = (of_nat (Suc (transfer_chunks bytes)) :: u64)"
proof -
  have small: "transfer_chunks bytes < 2 ^ 16" using assms unat_lt_2p [of n] by simp
  then have "transfer_chunks bytes < 2 ^ 32" by simp
  note n = num_chunks [OF this]
  show "unat (put_num_chunks bytes) = transfer_chunks bytes"
    "get_num_chunks bytes = put_num_chunks bytes"
    "unat bytes \<le> transfer_chunks bytes * 2 ^ 30" by (fact n)+
  have u: "x = of_nat (unat x)" for x :: u64 by simp
  show "ucast (put_num_chunks bytes) = (of_nat (transfer_chunks bytes) :: u64)"
    unfolding n(1) [symmetric] by simp
  show "(of_nat (transfer_chunks bytes) :: u64) - 1 = of_nat (transfer_chunks bytes - 1)"
    using n(4) by (simp add: of_nat_diff)
  have "unat (put_num_chunks bytes + 1) = Suc (transfer_chunks bytes)"
    using unat_add_no_overflow [of "put_num_chunks bytes" 1] n(1) small by simp
  then show "ucast (put_num_chunks bytes + 1) = (of_nat (Suc (transfer_chunks bytes)) :: u64)"
    by (metis of_nat_unat)
qed

section \<open>Properties\<close>

text \<open>C14: A put posts the whole transfer.  On a quiet queue whose ring can hold it, once the slots are
  reserved it returns; its entries are, in order, one write per chunk of 1 GiB, at the chunk's
  remote and local address, whose lengths add up to the size (an empty put is one NOP); nothing
  outside these slots is written; all of them are marked ready, and the ticket is the last index.\<close>

theorem put_posts_whole_transfer:
  assumes "shareable mode" and "num_fields_ok qp" and "ring_fields_ok qp" and "quiet_queue mode qp"
    and "transfer_chunks bytes \<le> unat (sq_wqe_num qp)"
    and "unat (sq_rsvd_index qp) + transfer_chunks bytes \<le> 2 ^ 64"
    and "reserve_wq_slots hopper mode env qp (put_num_chunks bytes) code_opt = Some (base, qp0)"
  shows "\<exists>qp' m' writes. put_thread hopper mode h env junk qp m raddr laddr bytes code_opt =
      Some (qp', m', writes, base + of_nat (transfer_chunks bytes - 1)) \<and>
    base = sq_rsvd_index qp \<and>
    sq_rsvd_index qp' = base + of_nat (transfer_chunks bytes) \<and>
    sq_ready_index qp' = base + of_nat (transfer_chunks bytes) \<and>
    chunk_entries (put_op raddr laddr) qp base bytes m' \<and>
    (\<Sum>k < transfer_chunks bytes. chunk_len (unat bytes) k) = unat bytes \<and>
    (\<forall>a. \<not> in_slots qp base (transfer_chunks bytes) a \<longrightarrow> m' a = m a)"
proof -
  let ?n = "transfer_chunks bytes"
  note n = chunk_indices [OF assms(5)]
  obtain cq where r: "base = sq_rsvd_index qp" "qp0 = qp\<lparr>sq_rsvd_index := base + of_nat ?n, cq_sq := cq\<rparr>"
    using reserve_result [OF assms(1,7)] unfolding n(2) by blast
  have "unat base + ?n \<le> 2 ^ 64" using assms(6) r(1) by simp
  from put.entries [OF assms(2,3) r(2) assms(5) this, unfolded Let_def]
  have e: "chunk_entries (put_op raddr laddr) qp base bytes
        (chunk_loop ?n (put_chunk junk qp0 raddr laddr) base 0 bytes m) \<and>
      (\<forall>a. \<not> in_slots qp base ?n a \<longrightarrow>
         chunk_loop ?n (put_chunk junk qp0 raddr laddr) base 0 bytes m a = m a)" .
  from mark_and_submit_returns [OF assms(1,4) r(1), of h cq "base + of_nat ?n" "base + of_nat (?n - 1)" code_opt]
  obtain qp' writes where q: "mark_and_submit mode h qp0 base (base + of_nat (?n - 1)) code_opt = Some (qp', writes)"
    "sq_rsvd_index qp' = base + of_nat ?n" "sq_ready_index qp' = base + of_nat (?n - 1) + 1"
    unfolding r(2) by blast
  have "base + of_nat (?n - 1) + 1 = base + of_nat ?n" using n(5) by (simp add: algebra_simps flip: n(5))
  with e q r(1) show ?thesis
    unfolding put_thread_def Let_def assms(7) option.case prod.case n(1,2,5) q(1)
    using chunks_tile [OF n(4)] by simp
qed

text \<open>C15: A put with signal posts the transfer and, at the next index, the atomic that adds the signal
  data: the signal comes after every chunk in the queue's order, and the ticket is its index.\<close>

theorem put_signal_comes_last:
  assumes "shareable mode" and "num_fields_ok qp" and "ring_fields_ok qp" and "quiet_queue mode qp"
    and "Suc (transfer_chunks bytes) \<le> unat (sq_wqe_num qp)"
    and "unat (sq_rsvd_index qp) + Suc (transfer_chunks bytes) \<le> 2 ^ 64"
    and "reserve_wq_slots hopper mode env qp (put_num_chunks bytes + 1) code_opt = Some (base, qp0)"
  shows "\<exists>qp' m' writes. put_signal_thread hopper mode h env junk qp m raddr laddr bytes sr sl v code_opt =
      Some (qp', m', writes, base + of_nat (transfer_chunks bytes)) \<and>
    sq_ready_index qp' = base + of_nat (Suc (transfer_chunks bytes)) \<and>
    chunk_entries (put_op raddr laddr) qp base bytes m' \<and>
    nic_entry m' qp (base + of_nat (transfer_chunks bytes)) =
      (sq_num qp, ucast (base + of_nat (transfer_chunks bytes)),
       NIC_FETCH_ADD (va_addr sr) (bswap32 (va_key sr)) v (va_addr sl) (bswap32 (va_key sl)) 8) \<and>
    (\<forall>a. \<not> in_slots qp base (Suc (transfer_chunks bytes)) a \<longrightarrow> m' a = m a)"
proof -
  let ?n = "transfer_chunks bytes"
  note n = chunk_indices [OF Suc_leD [OF assms(5)]]
  obtain cq where r: "base = sq_rsvd_index qp" "qp0 = qp\<lparr>sq_rsvd_index := base + of_nat (Suc ?n), cq_sq := cq\<rparr>"
    using reserve_result [OF assms(1,7)] unfolding n(6) by blast
  have "unat base + Suc ?n \<le> 2 ^ 64" using assms(6) r(1) by simp
  note e = put.entries_snoc [OF assms(2,3) r(2) assms(5) this tail_writers(1) [OF assms(2) r(2)], unfolded Let_def]
  from mark_and_submit_returns [OF assms(1,4) r(1), of h cq "base + of_nat (Suc ?n)" "base + of_nat ?n" code_opt]
  obtain qp' writes where q: "mark_and_submit mode h qp0 base (base + of_nat ?n) code_opt = Some (qp', writes)"
    "sq_ready_index qp' = base + of_nat ?n + 1"
    unfolding r(2) by blast
  have i: "base + of_nat (?n - 1) + 1 = base + of_nat ?n" using n(5) by (simp add: algebra_simps flip: n(5))
  show ?thesis
    unfolding put_signal_thread_def Let_def assms(7) option.case prod.case n(1,2,5) i q(1)
    using e q(2) by (simp add: add.commute add.left_commute)
qed


text \<open>C16: A get posts the whole transfer as reads, and with the memory-consistency option one dump of the
  caller's address after them; the ticket is the last entry.  In blocking mode it returns when,
  and only when, polling for that ticket does.\<close>

theorem get_posts_reads_then_dump:
  fixes with_dump :: bool
  defines "extra \<equiv> if with_dump then 1 else 0 :: nat"
  assumes "shareable mode" and "num_fields_ok qp" and "ring_fields_ok qp" and "quiet_queue mode qp"
    and "transfer_chunks bytes + extra \<le> unat (sq_wqe_num qp)"
    and "unat (sq_rsvd_index qp) + transfer_chunks bytes + extra \<le> 2 ^ 64"
    and "reserve_wq_slots hopper mode env qp
      (if with_dump then get_num_chunks bytes + 1 else get_num_chunks bytes) code_opt = Some (base, qp0)"
  shows "\<exists>qp' m' writes.
    (let ticket = base + of_nat (transfer_chunks bytes - 1 + extra) in
     get_thread hopper mode h with_dump blocking env env2 junk qp m raddr laddr bytes daddr code_opt =
      (if blocking
       then (case poll_cq_at hopper mode env2 ticket of
               None \<Rightarrow> None
             | Some (status, cq) \<Rightarrow> Some (qp'\<lparr>cq_sq := cq\<rparr>, m', writes, ticket))
       else Some (qp', m', writes, ticket))) \<and>
    sq_ready_index qp' = base + of_nat (transfer_chunks bytes + extra) \<and>
    chunk_entries (get_op raddr laddr) qp base bytes m' \<and>
    (with_dump \<longrightarrow> nic_entry m' qp (base + of_nat (transfer_chunks bytes)) =
      (sq_num qp, ucast (base + of_nat (transfer_chunks bytes)),
       NIC_DUMP (va_addr daddr) (bswap32 (va_key daddr)) 1)) \<and>
    (\<forall>a. \<not> in_slots qp base (transfer_chunks bytes + extra) a \<longrightarrow> m' a = m a)"
proof -
  let ?n = "transfer_chunks bytes"
  have fits: "?n \<le> unat (sq_wqe_num qp)" using assms(6) by simp
  note n = chunk_indices [OF fits]
  have poll: "(case (if blocking then poll_cq_sq hopper mode env2 q t else Some q) of
        None \<Rightarrow> None | Some q \<Rightarrow> Some (q, M, w, t)) =
      (if blocking then (case poll_cq_at hopper mode env2 t of None \<Rightarrow> None
          | Some (status, cq) \<Rightarrow> Some (q\<lparr>cq_sq := cq\<rparr>, M, w, t))
       else Some (q, M, w, t))" for q t M w
    by (simp add: poll_cq_sq_def split: option.splits)
  show ?thesis
  proof (cases with_dump)
    case True
    have "reserve_wq_slots hopper mode env qp (put_num_chunks bytes + 1) code_opt = Some (base, qp0)"
      using assms(8) True n(3) by simp
    note reserved = this
    obtain cq where r: "base = sq_rsvd_index qp" "qp0 = qp\<lparr>sq_rsvd_index := base + of_nat (Suc ?n), cq_sq := cq\<rparr>"
      using reserve_result [OF assms(2) reserved] unfolding n(6) by blast
    have l: "Suc ?n \<le> unat (sq_wqe_num qp)" "unat base + Suc ?n \<le> 2 ^ 64"
      using assms(1,6,7) True r(1) by simp_all
    define M where "M = dump_entry junk qp0 daddr (base + of_nat ?n)
      (chunk_loop ?n (get_chunk junk qp0 raddr laddr) base 0 bytes m)"
    from get.entries_snoc [OF assms(3,4) r(2) l tail_writers(2) [OF assms(3) r(2)], unfolded Let_def]
    have e: "chunk_entries (get_op raddr laddr) qp base bytes M \<and>
      nic_entry M qp (base + of_nat ?n) =
        (sq_num qp, ucast (base + of_nat ?n), NIC_DUMP (va_addr daddr) (bswap32 (va_key daddr)) 1) \<and>
      (\<forall>a. \<not> in_slots qp base (Suc ?n) a \<longrightarrow> M a = m a)"
      unfolding M_def .
    from mark_and_submit_returns [OF assms(2,5) r(1), of h cq "base + of_nat (Suc ?n)" "base + of_nat ?n" code_opt]
    obtain qp' writes where q: "mark_and_submit mode h qp0 base (base + of_nat ?n) code_opt = Some (qp', writes)"
      "sq_ready_index qp' = base + of_nat ?n + 1"
      unfolding r(2) by blast
    have x: "?n - 1 + extra = ?n" "?n + extra = Suc ?n"
      using num_chunks(4) [of bytes] fits unat_lt_2p [of "sq_wqe_num qp"] True by (simp_all add: assms(1))
    have "sq_ready_index qp' = base + of_nat (Suc ?n)" using q(2) by (simp add: add.commute add.left_commute)
    then show ?thesis
      unfolding get_thread_def Let_def n(3) reserved if_P [OF True] option.case prod.case n(1,2) q(1) poll
        M_def [symmetric] x
      using e by (intro exI [of _ qp'] exI [of _ M] exI [of _ writes]) simp
  next
    case False
    have "reserve_wq_slots hopper mode env qp (put_num_chunks bytes) code_opt = Some (base, qp0)"
      using assms(8) False n(3) by simp
    note reserved = this
    obtain cq where r: "base = sq_rsvd_index qp" "qp0 = qp\<lparr>sq_rsvd_index := base + of_nat ?n, cq_sq := cq\<rparr>"
      using reserve_result [OF assms(2) reserved] unfolding n(2) by blast
    have l: "unat base + ?n \<le> 2 ^ 64" using assms(1,7) False r(1) by simp
    define M where "M = chunk_loop ?n (get_chunk junk qp0 raddr laddr) base 0 bytes m"
    from get.entries [OF assms(3,4) r(2) fits l, unfolded Let_def]
    have e: "chunk_entries (get_op raddr laddr) qp base bytes M \<and>
      (\<forall>a. \<not> in_slots qp base ?n a \<longrightarrow> M a = m a)"
      unfolding M_def .
    from mark_and_submit_returns [OF assms(2,5) r(1), of h cq "base + of_nat ?n" "base + of_nat (?n - 1)" code_opt]
    obtain qp' writes where q: "mark_and_submit mode h qp0 base (base + of_nat (?n - 1)) code_opt = Some (qp', writes)"
      "sq_ready_index qp' = base + of_nat (?n - 1) + 1"
      unfolding r(2) by blast
    have i: "base + of_nat (?n - 1) + 1 = base + of_nat ?n" using n(5) by (simp add: algebra_simps flip: n(5))
    have x: "?n - 1 + extra = ?n - 1" "?n + extra = ?n" using False by (simp_all add: assms(1))
    show ?thesis
      unfolding get_thread_def Let_def n(3) reserved if_not_P [OF False] option.case prod.case n(1,2,5) q(1) poll
        M_def [symmetric] x
      using e q(2) i False by (intro exI [of _ qp'] exI [of _ M] exI [of _ writes]) simp
  qed
qed

section \<open>Warps\<close>

lemma warp_broadcast_id [simp]: "warp_broadcast base = base"
proof -
  have z: "max w 0 = w" for w :: u32 by (simp add: max_def)
  have "reduce_max_sync (w # replicate k 0) = w" for w k
    by (induction k) (simp_all add: reduce_max_sync_def z)
  then show ?thesis using u64_join [of base] by (simp add: warp_broadcast_def Let_def)
qed

text \<open>A warp put posts one write per lane: the entry of lane \<open>l\<close> is at index \<open>l\<close> after the reserved
  base and carries that lane's arguments; each lane gets the index of its own entry as ticket.
  Before compute capability 8.0 nothing is posted and every ticket is 0.\<close>

theorem put_warp_posts_each_lane:
  assumes "shareable mode" and "num_fields_ok qp" and "ring_fields_ok qp" and "quiet_queue mode qp"
    and "32 \<le> unat (sq_wqe_num qp)" and "unat (sq_rsvd_index qp) + 32 \<le> 2 ^ 64"
    and "\<forall>l < 32. unat (bytes l) \<le> 2 ^ 30"
    and "reserve_wq_slots hopper mode env qp 32 code_opt = Some (base, qp0)"
  shows "(\<exists>qp' m' writes. put_warp True hopper mode h env junk qp m raddr laddr bytes code_opt =
      Some (qp', m', writes, map (\<lambda>l. base + of_nat l) [0 ..< 32]) \<and>
    sq_ready_index qp' = base + 32 \<and>
    (\<forall>l < 32. nic_entry m' qp (base + of_nat l) = (sq_num qp, ucast (base + of_nat l),
       NIC_WRITE (va_addr (raddr l)) (bswap32 (va_key (raddr l))) (va_addr (laddr l))
         (bswap32 (va_key (laddr l))) (ucast (bytes l))))) \<and>
    put_warp False hopper mode h env junk qp m raddr laddr bytes code_opt = Some (qp, m, [], replicate 32 0)"
proof -
  obtain cq where r: "base = sq_rsvd_index qp" "qp0 = qp\<lparr>sq_rsvd_index := base + 32, cq_sq := cq\<rparr>"
    using reserve_result [OF assms(1,8)] by auto
  let ?op = "\<lambda>l. NIC_WRITE (va_addr (raddr l)) (bswap32 (va_key (raddr l))) (va_addr (laddr l))
         (bswap32 (va_key (laddr l))) (ucast (bytes l))"
  let ?w = "\<lambda>l m. wqe_prepare_write (junk (base + of_nat l)) qp0 m (get_wqe_ptr qp0 (ucast (base + of_nat l)))
       (ucast (base + of_nat l)) OPCODE_RDMA_WRITE CTRL_CQ_UPDATE 0 (va_addr (raddr l)) (va_key (raddr l))
       (va_addr (laddr l)) (va_key (laddr l)) (ucast (bytes l))"
  have "writes_entry qp (base + of_nat l) (?op l) (?w l)" if "l < 32" for l
  proof -
    have "unat (bytes l) \<le> 2 ^ 30" using assms(7) that by blast
    then have "unat (ucast (bytes l) :: u32) < 2 ^ 31" by (simp add: unat_ucast_mod)
    moreover have "num_fields_ok qp0" using assms(2) by (simp add: r(2))
    ultimately have "writes_entry qp0 (base + of_nat l) (?op l) (?w l)"
      unfolding slot_addr_def [symmetric] by (intro write_entry)
    then show ?thesis by (simp add: r(2))
  qed
  moreover have "unat base + 32 \<le> 2 ^ 64" using assms(6) r(1) by simp
  ultimately have e: "\<forall>l < 32. nic_entry (fold ?w [0 ..< 32] m) qp (base + of_nat l) =
      (sq_num qp, ucast (base + of_nat l), ?op l)"
    using fold_entries [OF assms(3,5), of base ?op ?w m] by blast
  have mk: "mark_wqes_ready mode READY_MODE_ATOMIC_CAS qp0 base (base + 32 - 1) = Some (qp0\<lparr>sq_ready_index := base + 32\<rparr>)"
    using mark_returns [OF assms(1), of qp0 base "base + 32 - 1"] assms(4) r by (auto simp: quiet_queue_def)
  have "lock_free mode (qp0\<lparr>sq_ready_index := base + 32\<rparr>)"
    using assms(4) by (auto simp: quiet_queue_def lock_free_def r(2))
  from submit_returns [OF assms(1) this, of h "base + 32" code_opt]
  obtain qp' writes where "submit mode h (qp0\<lparr>sq_ready_index := base + 32\<rparr>) (base + 32) code_opt = Some (qp', writes)"
    "sq_ready_index qp' = base + 32" by auto
  with e mk assms(8) show ?thesis
    by (simp add: put_warp_def WARP_SIZE_def each_lane_def Let_def del: upt_Suc upt_rec_numeral)
qed


section \<open>Inline values\<close>

lemma inline_length:
  assumes "n \<le> 8"
  shows "(of_nat n OR INLINE_SEG :: u32) AND 0x80000000 \<noteq> 0"
    and "unat ((of_nat n OR INLINE_SEG :: u32) AND 0x3fffff) = n"
    and "unat (of_nat n :: u32) = n"
proof -
  have "n \<in> {0, 1, 2, 3, 4, 5, 6, 7, 8}" using assms by auto
  then show "(of_nat n OR INLINE_SEG :: u32) AND 0x80000000 \<noteq> 0"
    and "unat ((of_nat n OR INLINE_SEG :: u32) AND 0x3fffff) = n"
    and "unat (of_nat n :: u32) = n"
    by (auto simp: INLINE_SEG_def)
qed

lemma inline_entry_writes:
  assumes "num_fields_ok qp" "length data \<le> 8"
  obtains w where "\<And>m. inline_entry junk qp raddr data i m = Some (w m)"
    "writes_entry qp i (NIC_INLINE (va_addr raddr) (bswap32 (va_key raddr)) data) w"
proof -
  let ?p = "slot_addr qp i" and ?n = "of_nat (length data) :: u32"
  define hdr where "hdr = (\<lambda>m. store_wqe_seg (store_wqe_seg m ?p (ctrl_words
    ((jk_ctrl (junk i))\<lparr>cs_opmod_idx_opcode := opmod_idx_opcode (ucast i) OPCODE_RDMA_WRITE,
       cs_qpn_ds := bswap32 (push_bit 8 (sq_num qp) OR 3), cs_fm_ce_se := ucast CTRL_CQ_UPDATE\<rparr>)))
    (?p + 16) (raddr_words (remote (junk i) (va_addr raddr) (va_key raddr))))"
  define w where "w = (\<lambda>m. store_bytes (store32 (hdr m) (?p + 32) (bswap32 (?n OR INLINE_SEG))) (?p + 36) data)"
  have q: "unat (sq_num qp) < 2 ^ 24" "sq_num_shift8 qp = push_bit 8 (sq_num qp)"
    using assms(1) by (simp_all add: num_fields_ok_def)
  note len = inline_length [OF assms(2)]
  have small: "?n \<le> 28" "\<not> ?n > 16 - 4"
    using len(3) assms(2) by (simp_all add: word_le_unat word_less_nat_alt not_less)
  have whole: "take 8 data = data" using assms(2) by simp
  have "inline_entry junk qp raddr data i m = Some (w m)" for m
    using small whole
    by (simp add: inline_entry_def prepare_inl_rdma_write_wqe_header_def prepare_inl_rdma_write_wqe_data_def
        Let_def MAX_INLINE_SIZE_def slot_addr_def [symmetric] q(2) hdr_def w_def add.commute [of 36])
  moreover have "writes_entry qp i (NIC_INLINE (va_addr raddr) (bswap32 (va_key raddr)) data) w"
  proof (rule writes_entryI [where n = 64])
    fix m
    let ?M = "w m"
    have low: "?M b = store32 (hdr m) (?p + 32) (bswap32 (?n OR INLINE_SEG)) b" if "b < ?p + 36" for b
      using that by (simp add: w_def store_bytes_def)
    have lower: "?M b = hdr m b" if "b < ?p + 32" for b
      using that by (simp add: low store32_frame)
    show "same_outside ?p 64 m ?M"
      using assms(2) by (auto simp: same_outside_def w_def store_bytes_def store32_frame hdr_def wqe_read)
    have ctrl: "read_ctrl ?M ?p = read_ctrl (hdr m) ?p" "read_raddr ?M (?p + 16) = read_raddr (hdr m) (?p + 16)"
      by (rule read_cong, simp add: lower)+
    have h: "read_ctrl (hdr m) ?p = \<lparr>nc_opcode = 8, nc_index = ucast i, nc_opmod = 0, nc_qpn = sq_num qp,
        nc_ds = 3, nc_fm_ce_se = ucast CTRL_CQ_UPDATE\<rparr>"
      "read_raddr (hdr m) (?p + 16) = (va_addr raddr, bswap32 (va_key raddr))"
      using q(1) by (simp_all add: hdr_def wqe_read OPCODE_RDMA_WRITE_def remote_def)
    have "be32 ?M (?p + 32) = be32 (store32 (hdr m) (?p + 32) (bswap32 (?n OR INLINE_SEG))) (?p + 32)"
      by (rule be32_cong) (simp add: low)
    then have mark: "be32 ?M (?p + 32) = ?n OR INLINE_SEG" by simp
    have bytes: "map ?M [?p + 36 ..< ?p + 36 + length data] = data"
      by (rule nth_equalityI) (simp_all add: w_def store_bytes_def)
    have "min 28 (length data) = length data" using assms(2) by simp
    then show "nic_op_at ?M ?p = NIC_INLINE (va_addr raddr) (bswap32 (va_key raddr)) data"
      using len bytes by (simp add: nic_op_at_def Let_def ctrl h mark)
    show "nc_qpn (read_ctrl ?M ?p) = sq_num qp" "nc_index (read_ctrl ?M ?p) = ucast i"
      by (simp_all add: ctrl h)
  qed simp
  ultimately show thesis by (rule that)
qed

text \<open>An inline put with signal of a value of at most 8 bytes posts an inline write that carries
  exactly the bytes of the value, and right after it the atomic that adds the signal.  (A longer
  value is not stored whole: only its first 8 bytes are.)\<close>

theorem p_signal_posts_value_and_signal:
  assumes "shareable mode" and "num_fields_ok qp" and "ring_fields_ok qp" and "quiet_queue mode qp"
    and "2 \<le> unat (sq_wqe_num qp)" and "unat (sq_rsvd_index qp) + 2 \<le> 2 ^ 64"
    and "length data \<le> 8"
    and "reserve_wq_slots hopper mode env qp 2 code_opt = Some (base, qp0)"
  shows "\<exists>qp' m' writes. p_signal hopper mode h env junk qp m raddr data sr sl v code_opt =
      Some (qp', m', writes, base + 1) \<and>
    sq_ready_index qp' = base + 2 \<and>
    nic_entry m' qp base = (sq_num qp, ucast base, NIC_INLINE (va_addr raddr) (bswap32 (va_key raddr)) data) \<and>
    nic_entry m' qp (base + 1) = (sq_num qp, ucast (base + 1),
       NIC_FETCH_ADD (va_addr sr) (bswap32 (va_key sr)) v (va_addr sl) (bswap32 (va_key sl)) 8) \<and>
    (\<forall>a. \<not> in_slots qp base 2 a \<longrightarrow> m' a = m a)"
proof -
  obtain cq where r: "base = sq_rsvd_index qp" "qp0 = qp\<lparr>sq_rsvd_index := base + 2, cq_sq := cq\<rparr>"
    using reserve_result [OF assms(1,8)] by auto
  have "num_fields_ok qp0" using assms(2) by (simp add: r(2))
  then obtain writer where w: "\<And>m. inline_entry junk qp0 raddr data base m = Some (writer m)"
    "writes_entry qp0 base (NIC_INLINE (va_addr raddr) (bswap32 (va_key raddr)) data) writer"
    using assms(7) inline_entry_writes [of qp0 data junk raddr base] by blast
  then have wq: "writes_entry qp (base + of_nat j) (NIC_INLINE (va_addr raddr) (bswap32 (va_key raddr)) data) writer"
    if "j < 1" for j :: nat
    using that by (simp add: r(2))
  define M where "M = signal_entry junk qp0 sr sl v (base + 1) (writer m)"
  have l: "Suc 1 \<le> unat (sq_wqe_num qp)" "unat base + Suc 1 \<le> 2 ^ 64" using assms(5,6) r(1) by simp_all
  have s: "writes_entry qp (base + of_nat 1) (NIC_FETCH_ADD (va_addr sr) (bswap32 (va_key sr)) v
      (va_addr sl) (bswap32 (va_key sl)) 8) (signal_entry junk qp0 sr sl v (base + 1))"
    using tail_writers(1) [OF assms(2) r(2)] by simp
  have e: "nic_entry M qp base = (sq_num qp, ucast base, NIC_INLINE (va_addr raddr) (bswap32 (va_key raddr)) data) \<and>
    nic_entry M qp (base + 1) = (sq_num qp, ucast (base + 1),
       NIC_FETCH_ADD (va_addr sr) (bswap32 (va_key sr)) v (va_addr sl) (bswap32 (va_key sl)) 8) \<and>
    (\<forall>a. \<not> in_slots qp base 2 a \<longrightarrow> M a = m a)"
    using fold_entries_snoc [OF assms(3) l wq s, of m] by (simp add: M_def numeral_2_eq_2)
  from mark_and_submit_returns [OF assms(1,4) r(1), of h cq "base + 2" "base + 1" code_opt]
  obtain qp' writes where q: "mark_and_submit mode h qp0 base (base + 1) code_opt = Some (qp', writes)"
    "sq_ready_index qp' = base + 2"
    unfolding r(2) by (auto simp: add.assoc)
  show ?thesis
    using e q by (simp add: p_signal_def assms(8) w(1) M_def [symmetric])
qed


section \<open>Witnesses\<close>

lemma reserve_first_lap:
  assumes "shareable mode" "0 < unat count" "unat count \<le> unat (sq_wqe_num qp)" "sq_rsvd_index qp = 0"
  shows "reserve_wq_slots hopper mode env qp count code_opt = Some (0, qp\<lparr>sq_rsvd_index := ucast count\<rparr>)"
proof -
  have "1 \<le> (ucast count :: u64)" using assms(2) by (simp add: word_le_unat)
  then have "unat (ucast count - 1 :: u64) = unat count - 1" by (simp add: unat_sub_le)
  then have "\<not> ucast (sq_wqe_num qp) \<le> (ucast count - 1 :: u64)"
    using assms(2,3) by (simp add: word_le_unat)
  then show ?thesis
    using assms(1,4) by (simp add: reserve_wq_slots_def wait_until_slot_available_def Let_def)
qed

definition demo_qp64 :: dev_qp where
  "demo_qp64 = init_dev_qp 0x4321 64 4096 demo_dev_cq NIC_HANDLER_GPU_SM_DB"

lemma demo_qp64_ok:
  "num_fields_ok demo_qp64" "ring_fields_ok demo_qp64" "quiet_queue mode demo_qp64"
  "sq_wqe_num demo_qp64 = 64" "sq_rsvd_index demo_qp64 = 0" "sq_num demo_qp64 = 0x4321"
proof -
  show "num_fields_ok demo_qp64" unfolding demo_qp64_def by (rule init_num_fields_ok) simp
  show "ring_fields_ok demo_qp64" unfolding demo_qp64_def by (rule init_ring_fields_ok [of _ 6]) simp_all
  show "quiet_queue mode demo_qp64" "sq_wqe_num demo_qp64 = 64" "sq_rsvd_index demo_qp64 = 0"
    "sq_num demo_qp64 = 0x4321"
    by (simp_all add: demo_qp64_def init_dev_qp_def Let_def quiet_queue_def)
qed

lemma demo_reserve:
  assumes "0 < unat count" "unat count \<le> 64"
  shows "reserve_wq_slots False SHARING_MODE_GPU env demo_qp64 count 0 =
    Some (0, demo_qp64\<lparr>sq_rsvd_index := ucast count\<rparr>)"
  using assms by (intro reserve_first_lap) (simp_all add: demo_qp64_ok)

text \<open>A transfer of two chunks: 1 GiB and one byte.\<close>

definition demo_bytes :: u64 where "demo_bytes = 2 ^ 30 + 1"

lemma demo_chunks: "transfer_chunks demo_bytes = 2" "put_num_chunks demo_bytes = 2"
  "get_num_chunks demo_bytes = 2" "chunk_len (unat demo_bytes) 1 = 1"
proof -
  have u: "unat demo_bytes = 2 ^ 30 + 1" by (simp add: demo_bytes_def)
  then show t: "transfer_chunks demo_bytes = 2" by (simp add: transfer_chunks_def)
  have "unat (put_num_chunks demo_bytes) = 2" using num_chunks(1) [of demo_bytes] t by simp
  then show p: "put_num_chunks demo_bytes = 2" by (simp add: word_unat_eq_iff)
  then show "get_num_chunks demo_bytes = 2" using num_chunks(2) [of demo_bytes] t by simp
  show "chunk_len (unat demo_bytes) 1 = 1" by (simp add: chunk_len_def u)
qed

lemma demo_chunk_entry:
  "chunk_entries op demo_qp64 0 demo_bytes m \<Longrightarrow> nic_entry m demo_qp64 1 = (0x4321, 1, op 1 1)"
  unfolding chunk_entries_def demo_chunks
  by (drule spec [of _ 1]) (simp add: demo_chunks [simplified] demo_qp64_ok)

definition remote_addr :: verbs_addr where "remote_addr = \<lparr>va_addr = 0x1000, va_key = 7\<rparr>"
definition local_addr :: verbs_addr where "local_addr = \<lparr>va_addr = 0x2000, va_key = 9\<rparr>"
definition signal_addr :: verbs_addr where "signal_addr = \<lparr>va_addr = 0x3000, va_key = 5\<rparr>"

lemma demo_sizes:
  "transfer_chunks demo_bytes \<le> unat (sq_wqe_num demo_qp64)"
  "Suc (transfer_chunks demo_bytes) \<le> unat (sq_wqe_num demo_qp64)"
  "unat (sq_rsvd_index demo_qp64) + transfer_chunks demo_bytes \<le> 2 ^ 64"
  "unat (sq_rsvd_index demo_qp64) + Suc (transfer_chunks demo_bytes) \<le> 2 ^ 64"
  "SHARING_MODE_GPU \<noteq> SHARING_MODE_MAX"
  by (simp_all add: demo_chunks demo_qp64_ok)

lemma demo_reserves:
  "reserve_wq_slots False SHARING_MODE_GPU env demo_qp64 (put_num_chunks demo_bytes) 0 =
    Some (0, demo_qp64\<lparr>sq_rsvd_index := 2\<rparr>)"
  "reserve_wq_slots False SHARING_MODE_GPU env demo_qp64 (put_num_chunks demo_bytes + 1) 0 =
    Some (0, demo_qp64\<lparr>sq_rsvd_index := 3\<rparr>)"
  "reserve_wq_slots False SHARING_MODE_GPU env demo_qp64 2 0 = Some (0, demo_qp64\<lparr>sq_rsvd_index := 2\<rparr>)"
  "reserve_wq_slots False SHARING_MODE_GPU env demo_qp64 32 0 = Some (0, demo_qp64\<lparr>sq_rsvd_index := 32\<rparr>)"
  by (simp_all add: demo_chunks demo_reserve)

theorem put_posts_whole_transfer_witness:
  "\<exists>qp' m' writes. put_thread False SHARING_MODE_GPU NIC_HANDLER_AUTO (\<lambda>_. demo_dev_cq) (\<lambda>_. demo_junk)
     demo_qp64 (\<lambda>_. 0) remote_addr local_addr demo_bytes 0 = Some (qp', m', writes, 1) \<and>
   nic_entry m' demo_qp64 1 =
     (0x4321, 1, NIC_WRITE (0x1000 + 2 ^ 30) (bswap32 7) (0x2000 + 2 ^ 30) (bswap32 9) 1)"
proof -
  have "put_op remote_addr local_addr 1 1 =
      NIC_WRITE (0x1000 + 2 ^ 30) (bswap32 7) (0x2000 + 2 ^ 30) (bswap32 9) 1"
    by (simp add: put_op_def remote_addr_def local_addr_def)
  then show ?thesis
    using put_posts_whole_transfer [OF demo_sizes(5) demo_qp64_ok(1-3) demo_sizes(1,3) demo_reserves(1),
        where h = NIC_HANDLER_AUTO and env = "\<lambda>_. demo_dev_cq" and junk = "\<lambda>_. demo_junk" and m = "\<lambda>_. 0"
        and raddr = remote_addr and laddr = local_addr]
      demo_chunk_entry [of "put_op remote_addr local_addr"]
    unfolding demo_chunks by auto
qed

theorem put_signal_comes_last_witness:
  "\<exists>qp' m' writes. put_signal_thread False SHARING_MODE_GPU NIC_HANDLER_AUTO (\<lambda>_. demo_dev_cq)
     (\<lambda>_. demo_junk) demo_qp64 (\<lambda>_. 0) remote_addr local_addr demo_bytes remote_addr signal_addr 1 0 =
       Some (qp', m', writes, 2) \<and>
   nic_entry m' demo_qp64 2 = (0x4321, 2, NIC_FETCH_ADD 0x1000 (bswap32 7) 1 0x3000 (bswap32 5) 8)"
  using put_signal_comes_last [OF demo_sizes(5) demo_qp64_ok(1-3) demo_sizes(2,4) demo_reserves(2),
      where h = NIC_HANDLER_AUTO and env = "\<lambda>_. demo_dev_cq" and junk = "\<lambda>_. demo_junk" and m = "\<lambda>_. 0"
      and raddr = remote_addr and laddr = local_addr and sr = remote_addr and sl = signal_addr and v = 1]
  unfolding demo_chunks by (auto simp: demo_qp64_ok remote_addr_def signal_addr_def)

theorem get_posts_reads_then_dump_witness:
  "\<exists>qp' m' writes. get_thread False SHARING_MODE_GPU NIC_HANDLER_AUTO True False (\<lambda>_. demo_dev_cq)
     (\<lambda>_. demo_dev_cq) (\<lambda>_. demo_junk) demo_qp64 (\<lambda>_. 0) remote_addr local_addr demo_bytes signal_addr 0 =
       Some (qp', m', writes, 2) \<and>
   nic_entry m' demo_qp64 2 = (0x4321, 2, NIC_DUMP 0x3000 (bswap32 5) 1)"
  using get_posts_reads_then_dump [OF demo_sizes(5) demo_qp64_ok(1-3), where bytes = demo_bytes
      and with_dump = True and hopper = False and code_opt = 0 and base = 0 and blocking = False
      and ?qp0.0 = "demo_qp64\<lparr>sq_rsvd_index := 3\<rparr>" and ?env2.0 = "\<lambda>_. demo_dev_cq" and daddr = signal_addr
      and h = NIC_HANDLER_AUTO and env = "\<lambda>_. demo_dev_cq" and junk = "\<lambda>_. demo_junk" and m = "\<lambda>_. 0"
      and raddr = remote_addr and laddr = local_addr]
  unfolding demo_chunks demo_qp64_ok by (auto simp: demo_qp64_ok signal_addr_def demo_reserve Let_def)

theorem put_warp_posts_each_lane_witness:
  "\<exists>qp' m' writes. put_warp True False SHARING_MODE_GPU NIC_HANDLER_AUTO (\<lambda>_. demo_dev_cq) (\<lambda>_. demo_junk)
     demo_qp64 (\<lambda>_. 0) (\<lambda>_. remote_addr) (\<lambda>_. local_addr) of_nat 0 =
       Some (qp', m', writes, map of_nat [0 ..< 32]) \<and>
   nic_entry m' demo_qp64 5 = (0x4321, 5, NIC_WRITE 0x1000 (bswap32 7) 0x2000 (bswap32 9) 5)"
proof -
  have "\<forall>l < 32. unat (of_nat l :: u64) \<le> 2 ^ 30"
    by (auto simp: unat_of_nat take_bit_nat_eq_self_iff)
  then show ?thesis
    using put_warp_posts_each_lane [OF demo_sizes(5) demo_qp64_ok(1-3) _ _ _ demo_reserves(4), where bytes = of_nat
        and h = NIC_HANDLER_AUTO and env = "\<lambda>_. demo_dev_cq" and junk = "\<lambda>_. demo_junk" and m = "\<lambda>_. 0"
        and raddr = "\<lambda>_. remote_addr" and laddr = "\<lambda>_. local_addr"]
    by (auto simp: demo_qp64_ok remote_addr_def local_addr_def simp del: upt_rec_numeral dest: spec [of _ 5])
qed

theorem p_signal_posts_value_and_signal_witness:
  "\<exists>qp' m' writes. p_signal False SHARING_MODE_GPU NIC_HANDLER_AUTO (\<lambda>_. demo_dev_cq) (\<lambda>_. demo_junk)
     demo_qp64 (\<lambda>_. 0) remote_addr [1, 2, 3, 4, 5] remote_addr signal_addr 1 0 = Some (qp', m', writes, 1) \<and>
   nic_entry m' demo_qp64 0 = (0x4321, 0, NIC_INLINE 0x1000 (bswap32 7) [1, 2, 3, 4, 5])"
  using p_signal_posts_value_and_signal [OF demo_sizes(5) demo_qp64_ok(1-3) _ _ _ demo_reserves(3),
      where data = "[1, 2, 3, 4, 5]" and h = NIC_HANDLER_AUTO and env = "\<lambda>_. demo_dev_cq"
      and junk = "\<lambda>_. demo_junk" and m = "\<lambda>_. 0" and raddr = remote_addr and sr = remote_addr
      and sl = signal_addr and v = 1]
  by (auto simp: demo_qp64_ok remote_addr_def)

end
