(* ===== verification/DevCounter.thy ===== *)
theory DevCounter
  imports DevOneSided
begin

text \<open>
  The counted operations of \<^verbatim>\<open>include/device/doca_gpunetio_dev_verbs_counter.cuh\<close>: an operation on one
  queue pair, and on a companion queue pair a WAIT for its completion followed by an atomic on a
  counter.  Both queue pairs are submitted together.

  The code works on pointers to queue pairs; the model keeps what they point to in a store \<open>S\<close> from
  names to queue pairs, so that a queue pair may be its own companion.  Stores to the NIC carry the
  name of the queue pair they are made for.
\<close>

section \<open>Submitting several queue pairs\<close>

type_synonym 'q qp_store = "'q \<Rightarrow> dev_qp"

type_synonym 'q multi_submit = "('q qp_store \<times> ('q \<times> nic_write) list) option"

definition raise_pi :: "sharing_mode \<Rightarrow> 'q \<Rightarrow> u64 \<Rightarrow> 'q qp_store \<Rightarrow> u64 \<times> 'q qp_store" where
  "raise_pi mode q prod_index S =
    (case atomic_max mode (sq_wqe_pi (S q)) prod_index of
       (old, pi) \<Rightarrow> (old, S(q := (S q)\<lparr>sq_wqe_pi := pi\<rparr>)))"

fun submit_db_multi_qps_no_dbr_loop :: "sharing_mode \<Rightarrow> ('q \<times> u64) list \<Rightarrow> 'q qp_store
    \<Rightarrow> 'q qp_store \<times> ('q \<times> nic_write) list" where
  "submit_db_multi_qps_no_dbr_loop mode [] S = (S, [])"
| "submit_db_multi_qps_no_dbr_loop mode ((q, prod_index) # qs) S =
    (case raise_pi mode q prod_index S of (old_prod_index, S) \<Rightarrow>
      (case submit_db_multi_qps_no_dbr_loop mode qs S of (S', ws) \<Rightarrow>
        (S', (if old_prod_index < prod_index then map (Pair q) (ring_db (S q) prod_index) else []) @ ws)))"

definition submit_db_multi_qps_no_dbr :: "sharing_mode \<Rightarrow> ('q \<times> u64) list \<Rightarrow> u32 \<Rightarrow> 'q qp_store \<Rightarrow> 'q multi_submit" where
  "submit_db_multi_qps_no_dbr mode qs code_opt S =
    (if code_opt AND CODE_OPT_SKIP_DB_RINGING = 0 then Some (submit_db_multi_qps_no_dbr_loop mode qs S)
     else Some (S, []))"

text \<open>
  With doorbell records there are two loops: the first takes every lock, raises the index and rings
  early; the second writes the doorbell records, rings again and gives the locks back.  The first
  gives the indices it found.
\<close>

fun early_loop :: "sharing_mode \<Rightarrow> ('q \<times> u64) list \<Rightarrow> 'q qp_store
    \<Rightarrow> ('q qp_store \<times> u64 list \<times> ('q \<times> nic_write) list) option" where
  "early_loop mode [] S = Some (S, [], [])"
| "early_loop mode ((q, prod_index) # qs) S =
    (case acquire_lock mode (S q) of
       None \<Rightarrow> None
     | Some qp \<Rightarrow>
       (case raise_pi mode q prod_index (S(q := qp)) of (old_prod_index, S) \<Rightarrow>
         (case early_loop mode qs S of
            None \<Rightarrow> None
          | Some (S', olds, ws) \<Rightarrow>
              Some (S', old_prod_index # olds,
                (if old_prod_index < prod_index then map (Pair q) (ring_db (S q) prod_index) else []) @ ws))))"

fun late_loop :: "sharing_mode \<Rightarrow> ('q \<times> u64) list \<Rightarrow> u64 list \<Rightarrow> 'q qp_store
    \<Rightarrow> 'q qp_store \<times> ('q \<times> nic_write) list" where
  "late_loop mode ((q, prod_index) # qs) (old_prod_index # olds) S =
    (case late_loop mode qs olds (S(q := release_lock mode (S q))) of (S', ws) \<Rightarrow>
      (S', (if old_prod_index < prod_index
            then map (Pair q) (update_dbr (ucast prod_index) @ ring_db (S q) prod_index) else []) @ ws))"
| "late_loop mode _ _ S = (S, [])"

definition submit_db_multi_qps :: "sharing_mode \<Rightarrow> ('q \<times> u64) list \<Rightarrow> u32 \<Rightarrow> 'q qp_store \<Rightarrow> 'q multi_submit" where
  "submit_db_multi_qps mode qs code_opt S =
    (if code_opt AND CODE_OPT_SKIP_DB_RINGING = 0 then
       (case early_loop mode qs S of
          None \<Rightarrow> None
        | Some (S, olds, ws) \<Rightarrow>
            (case late_loop mode qs olds S of (S', ws') \<Rightarrow> Some (S', ws @ ws')))
     else Some (S, []))"

definition submit_proxy_multi_qps :: "sharing_mode \<Rightarrow> ('q \<times> u64) list \<Rightarrow> 'q qp_store \<Rightarrow> 'q multi_submit" where
  "submit_proxy_multi_qps mode qs S =
    Some (S, concat (map (\<lambda>(q, prod_index). map (Pair q) (ring_proxy mode prod_index)) qs))"

text \<open>The handler of the first queue pair decides for all when it is automatic.\<close>

definition submit_multi_qps :: "sharing_mode \<Rightarrow> nic_handler \<Rightarrow> ('q \<times> u64) list \<Rightarrow> u32 \<Rightarrow> 'q qp_store \<Rightarrow> 'q multi_submit" where
  "submit_multi_qps mode nic_handler qs code_opt S =
    (let handler = (if nic_handler = NIC_HANDLER_AUTO then qp_nic_handler (S (fst (hd qs))) else nic_handler)
     in if handler = NIC_HANDLER_GPU_SM_DB then submit_db_multi_qps mode qs code_opt S
        else if handler = NIC_HANDLER_GPU_SM_NO_DBR then submit_db_multi_qps_no_dbr mode qs code_opt S
        else submit_proxy_multi_qps mode qs S)"

section \<open>The companion\<close>

text \<open>
  The history that the wait for free slots sees, and the leftovers in the entries, are given for
  each of the two queue pairs.
\<close>

record queue_env =
  qe_cq :: "nat \<Rightarrow> dev_cq"
  qe_junk :: junk_of

definition wait_entry :: "junk_of \<Rightarrow> dev_qp \<Rightarrow> u64 \<Rightarrow> u32 \<Rightarrow> u64 \<Rightarrow> memory \<Rightarrow> memory" where
  "wait_entry junk qp max_index cqn wqe_idx m =
    wqe_prepare_wait (junk wqe_idx) qp m (get_wqe_ptr qp (ucast wqe_idx)) (ucast wqe_idx)
      CTRL_CQ_UPDATE (ucast max_index) cqn"

type_synonym 'q counted = "('q qp_store \<times> memory \<times> ('q \<times> nic_write) list) option"

definition reserve_in :: "bool \<Rightarrow> sharing_mode \<Rightarrow> queue_env \<Rightarrow> 'q \<Rightarrow> u32 \<Rightarrow> u32 \<Rightarrow> 'q qp_store
    \<Rightarrow> (u64 \<times> 'q qp_store) option" where
  "reserve_in hopper mode E q count code_opt S =
    map_option (\<lambda>(base, qp). (base, S(q := qp))) (reserve_wq_slots hopper mode (qe_cq E) (S q) count code_opt)"

definition mark_in :: "sharing_mode \<Rightarrow> 'q \<Rightarrow> u64 \<Rightarrow> u64 \<Rightarrow> 'q qp_store \<Rightarrow> 'q qp_store option" where
  "mark_in mode q from_wqe_idx to_wqe_idx S =
    map_option (\<lambda>qp. S(q := qp)) (mark_wqes_ready mode READY_MODE_ATOMIC_CAS (S q) from_wqe_idx to_wqe_idx)"

text \<open>What every operation does once its own entries are prepared.\<close>

definition mark_and_count :: "bool \<Rightarrow> sharing_mode \<Rightarrow> nic_handler \<Rightarrow> queue_env \<Rightarrow> 'q \<Rightarrow> u64 \<Rightarrow> u64 \<Rightarrow> 'q
    \<Rightarrow> verbs_addr \<Rightarrow> verbs_addr \<Rightarrow> u64 \<Rightarrow> u32 \<Rightarrow> 'q qp_store \<Rightarrow> memory \<Rightarrow> 'q counted" where
  "mark_and_count hopper mode h EC q base_wqe_idx wqe_idx c counter_raddr counter_laddr counter_val code_opt S m =
    (case mark_in mode q base_wqe_idx wqe_idx S of
       None \<Rightarrow> None
     | Some S \<Rightarrow>
       (case reserve_in hopper mode EC c 2 code_opt S of
          None \<Rightarrow> None
        | Some (companion_base_wqe_idx, S) \<Rightarrow>
          let m = wait_entry (qe_junk EC) (S c) wqe_idx (cq_num (cq_sq (S q))) companion_base_wqe_idx m;
              companion_wqe_idx = companion_base_wqe_idx + 1;
              m = signal_entry (qe_junk EC) (S c) counter_raddr counter_laddr counter_val companion_wqe_idx m
          in (case mark_in mode c companion_base_wqe_idx companion_wqe_idx S of
                None \<Rightarrow> None
              | Some S \<Rightarrow>
                (case submit_multi_qps mode h [(q, wqe_idx + 1), (c, companion_wqe_idx + 1)] code_opt S of
                   None \<Rightarrow> None
                 | Some (S, writes) \<Rightarrow> Some (S, m, writes)))))"

section \<open>The operations\<close>

text \<open>The number of chunks has 64 bits here, and is cut to 32 where slots are reserved.\<close>

definition counted_num_chunks :: "u64 \<Rightarrow> u64" where
  "counted_num_chunks bytes =
    (let num_chunks = div_ceil_aligned_pow2 bytes MAX_TRANSFER_SIZE_SHIFT
     in if num_chunks > 1 then num_chunks else 1)"

definition put_counter :: "bool \<Rightarrow> sharing_mode \<Rightarrow> nic_handler \<Rightarrow> queue_env \<Rightarrow> queue_env \<Rightarrow> 'q \<Rightarrow> memory
    \<Rightarrow> verbs_addr \<Rightarrow> verbs_addr \<Rightarrow> u64 \<Rightarrow> 'q \<Rightarrow> verbs_addr \<Rightarrow> verbs_addr \<Rightarrow> u64 \<Rightarrow> u32 \<Rightarrow> 'q qp_store
    \<Rightarrow> 'q counted" where
  "put_counter hopper mode h E EC q m raddr laddr bytes c counter_raddr counter_laddr counter_val code_opt S =
    (let num_chunks = counted_num_chunks bytes
     in case reserve_in hopper mode E q (ucast num_chunks) code_opt S of
          None \<Rightarrow> None
        | Some (base_wqe_idx, S) \<Rightarrow>
            let m = chunk_loop (unat num_chunks) (put_chunk (qe_junk E) (S q) raddr laddr) base_wqe_idx 0 bytes m
            in mark_and_count hopper mode h EC q base_wqe_idx (base_wqe_idx + (num_chunks - 1)) c
                 counter_raddr counter_laddr counter_val code_opt S m)"

definition p_counter :: "bool \<Rightarrow> sharing_mode \<Rightarrow> nic_handler \<Rightarrow> queue_env \<Rightarrow> queue_env \<Rightarrow> 'q \<Rightarrow> memory
    \<Rightarrow> verbs_addr \<Rightarrow> u8 list \<Rightarrow> 'q \<Rightarrow> verbs_addr \<Rightarrow> verbs_addr \<Rightarrow> u64 \<Rightarrow> u32 \<Rightarrow> 'q qp_store \<Rightarrow> 'q counted" where
  "p_counter hopper mode h E EC q m raddr data c counter_raddr counter_laddr counter_val code_opt S =
    (case reserve_in hopper mode E q 1 code_opt S of
       None \<Rightarrow> None
     | Some (wqe_idx, S) \<Rightarrow>
       (case inline_entry (qe_junk E) (S q) raddr data wqe_idx m of
          None \<Rightarrow> None
        | Some m \<Rightarrow> mark_and_count hopper mode h EC q wqe_idx wqe_idx c
                      counter_raddr counter_laddr counter_val code_opt S m))"

definition put_signal_counter :: "bool \<Rightarrow> sharing_mode \<Rightarrow> nic_handler \<Rightarrow> queue_env \<Rightarrow> queue_env \<Rightarrow> 'q \<Rightarrow> memory
    \<Rightarrow> verbs_addr \<Rightarrow> verbs_addr \<Rightarrow> u64 \<Rightarrow> verbs_addr \<Rightarrow> verbs_addr \<Rightarrow> u64 \<Rightarrow> 'q \<Rightarrow> verbs_addr \<Rightarrow> verbs_addr \<Rightarrow> u64
    \<Rightarrow> u32 \<Rightarrow> 'q qp_store \<Rightarrow> 'q counted" where
  "put_signal_counter hopper mode h E EC q m raddr laddr bytes sig_raddr sig_laddr sig_val c
      counter_raddr counter_laddr counter_val code_opt S =
    (let num_chunks = counted_num_chunks bytes
     in case reserve_in hopper mode E q (ucast (num_chunks + 1)) code_opt S of
          None \<Rightarrow> None
        | Some (base_wqe_idx, S) \<Rightarrow>
            let m = chunk_loop (unat num_chunks) (put_chunk (qe_junk E) (S q) raddr laddr) base_wqe_idx 0 bytes m;
                wqe_idx = base_wqe_idx + (num_chunks - 1) + 1;
                m = signal_entry (qe_junk E) (S q) sig_raddr sig_laddr sig_val wqe_idx m
            in mark_and_count hopper mode h EC q base_wqe_idx wqe_idx c
                 counter_raddr counter_laddr counter_val code_opt S m)"

definition signal_counter :: "bool \<Rightarrow> sharing_mode \<Rightarrow> nic_handler \<Rightarrow> queue_env \<Rightarrow> queue_env \<Rightarrow> 'q \<Rightarrow> memory
    \<Rightarrow> verbs_addr \<Rightarrow> verbs_addr \<Rightarrow> u64 \<Rightarrow> 'q \<Rightarrow> verbs_addr \<Rightarrow> verbs_addr \<Rightarrow> u64 \<Rightarrow> u32 \<Rightarrow> 'q qp_store \<Rightarrow> 'q counted" where
  "signal_counter hopper mode h E EC q m sig_raddr sig_laddr sig_val c counter_raddr counter_laddr counter_val code_opt S =
    (case reserve_in hopper mode E q 1 code_opt S of
       None \<Rightarrow> None
     | Some (wqe_idx, S) \<Rightarrow>
         let m = signal_entry (qe_junk E) (S q) sig_raddr sig_laddr sig_val wqe_idx m
         in mark_and_count hopper mode h EC q wqe_idx wqe_idx c counter_raddr counter_laddr counter_val code_opt S m)"

definition get_counter :: "bool \<Rightarrow> sharing_mode \<Rightarrow> nic_handler \<Rightarrow> queue_env \<Rightarrow> queue_env \<Rightarrow> 'q \<Rightarrow> memory
    \<Rightarrow> verbs_addr \<Rightarrow> verbs_addr \<Rightarrow> u64 \<Rightarrow> 'q \<Rightarrow> verbs_addr \<Rightarrow> verbs_addr \<Rightarrow> u64 \<Rightarrow> u32 \<Rightarrow> 'q qp_store
    \<Rightarrow> 'q counted" where
  "get_counter hopper mode h E EC q m raddr laddr bytes c counter_raddr counter_laddr counter_val code_opt S =
    (let num_chunks = counted_num_chunks bytes
     in case reserve_in hopper mode E q (ucast num_chunks) code_opt S of
          None \<Rightarrow> None
        | Some (base_wqe_idx, S) \<Rightarrow>
            let m = chunk_loop (unat num_chunks) (get_chunk (qe_junk E) (S q) raddr laddr) base_wqe_idx 0 bytes m
            in mark_and_count hopper mode h EC q base_wqe_idx (base_wqe_idx + (num_chunks - 1)) c
                 counter_raddr counter_laddr counter_val code_opt S m)"

end
