(* ===== verification/DevCounterProofs.thy ===== *)
theory DevCounterProofs
  imports DevCounter DevOneSidedProofs
begin

text \<open>
  The counted operations: submitting several queue pairs is submitting each of them, and the counter
  is increased after the operation it counts.
\<close>

section \<open>Several queue pairs\<close>

definition for_queue :: "'q \<Rightarrow> ('q \<times> nic_write) list \<Rightarrow> nic_write list" where
  "for_queue q ws = map snd (filter (\<lambda>(p, w). p = q) ws)"

lemma for_queue_append [simp]: "for_queue q (xs @ ys) = for_queue q xs @ for_queue q ys"
  by (simp add: for_queue_def)

lemma for_queue_own [simp]: "for_queue q (map (Pair p) ws) = (if p = q then ws else [])"
  by (simp add: for_queue_def filter_map comp_def)

lemma for_queue_empty [simp]: "for_queue q [] = []"
  by (simp add: for_queue_def)

text \<open>What several submissions make of the store and of the NIC, one queue pair at a time.\<close>

fun each_queue :: "('q \<Rightarrow> u64 \<Rightarrow> dev_qp \<Rightarrow> dev_qp) \<Rightarrow> ('q \<times> u64) list \<Rightarrow> 'q qp_store \<Rightarrow> 'q qp_store" where
  "each_queue f [] S = S"
| "each_queue f ((q, i) # qs) S = each_queue f qs (S(q := f q i (S q)))"

lemma each_queue_other: "q \<notin> fst ` set qs \<Longrightarrow> each_queue f qs S q = S q"
  by (induction qs arbitrary: S) auto

lemma each_queue_member:
  "distinct (map fst qs) \<Longrightarrow> (q, i) \<in> set qs \<Longrightarrow> each_queue f qs S q = f q i (S q)"
proof (induction qs arbitrary: S)
  case (Cons x qs)
  obtain p j where x: "x = (p, j)" by fastforce
  show ?case
  proof (cases "p = q")
    case True
    then have "q \<notin> fst ` set qs" using Cons.prems(1) x by simp
    moreover have "j = i" using Cons.prems(2) calculation True x by (auto simp: image_iff)
    ultimately show ?thesis using x True by (simp add: each_queue_other)
  next
    case False
    then have "(S(p := f p j (S p))) q = S q" by simp
    moreover have "distinct (map fst qs)" "(q, i) \<in> set qs" using Cons.prems x False by auto
    ultimately show ?thesis
      unfolding x each_queue.simps by (simp only: Cons.IH)
  qed
qed simp

lemma writes_of_queue:
  assumes "distinct (map fst qs)" "(q, i) \<in> set qs"
  shows "for_queue q (concat (map (\<lambda>(p, j). map (Pair p) (g p j)) qs)) = g q i"
  using assms
proof (induction qs)
  case (Cons x qs)
  obtain p j where x: "x = (p, j)" by fastforce
  have none: "p \<notin> fst ` set ys \<Longrightarrow> for_queue p (concat (map (\<lambda>(p, j). map (Pair p) (g p j)) ys)) = []" for p ys
    by (induction ys) auto
  show ?case
  proof (cases "p = q")
    case True
    then have "q \<notin> fst ` set qs" using Cons.prems(1) x by simp
    moreover have "j = i" using Cons.prems(2) calculation True x by (auto simp: image_iff)
    ultimately show ?thesis using x True none by simp
  next
    case False
    then show ?thesis using Cons x by auto
  qed
qed simp

definition early_qp :: "'q \<Rightarrow> u64 \<Rightarrow> dev_qp \<Rightarrow> dev_qp" where
  "early_qp q i qp = qp\<lparr>sq_lock := 1, sq_wqe_pi := max (sq_wqe_pi qp) i\<rparr>"

lemma early_loop_eq:
  assumes "shareable mode" "distinct (map fst qs)" "\<And>q i. (q, i) \<in> set qs \<Longrightarrow> lock_free mode (S q)"
  shows "early_loop mode qs S = Some (each_queue early_qp qs S, map (\<lambda>(q, i). sq_wqe_pi (S q)) qs,
    concat (map (\<lambda>(q, i). map (Pair q) (if sq_wqe_pi (S q) < i then ring_db (S q) i else [])) qs))"
  using assms(2,3)
proof (induction qs arbitrary: S)
  case (Cons x qs)
  obtain q i where x: "x = (q, i)" by fastforce
  let ?S = "S(q := (S q)\<lparr>sq_lock := 1, sq_wqe_pi := max (sq_wqe_pi (S q)) i\<rparr>)"
  have other: "?S p = S p" if "(p, j) \<in> set qs" for p j using Cons.prems(1) x that by force
  then have free: "lock_free mode (?S p)" if "(p, j) \<in> set qs" for p j
    using Cons.prems(2) that by (metis list.set_intros(2))
  have IH: "early_loop mode qs ?S = Some (each_queue early_qp qs ?S, map (\<lambda>(q, i). sq_wqe_pi (?S q)) qs,
      concat (map (\<lambda>(q, i). map (Pair q) (if sq_wqe_pi (?S q) < i then ring_db (?S q) i else [])) qs))"
    by (rule Cons.IH) (use Cons.prems(1) x free in auto)
  have m: "map (\<lambda>(q, i). sq_wqe_pi (?S q)) qs = map (\<lambda>(q, i). sq_wqe_pi (S q)) qs"
    "map (\<lambda>(q, i). map (Pair q) (if sq_wqe_pi (?S q) < i then ring_db (?S q) i else [])) qs =
     map (\<lambda>(q, i). map (Pair q) (if sq_wqe_pi (S q) < i then ring_db (S q) i else [])) qs"
    by (auto intro!: map_cong simp: other simp del: fun_upd_apply)
  have "acquire_lock mode (S q) = Some ((S q)\<lparr>sq_lock := 1\<rparr>)"
    using lock_cycle(1) assms(1) Cons.prems(2) x by auto
  moreover have "raise_pi mode q i (S(q := (S q)\<lparr>sq_lock := 1\<rparr>)) = (sq_wqe_pi (S q), ?S)"
    using assms(1) by (simp add: raise_pi_def)
  ultimately show ?case
    using IH early_qp_def [of q i "S q"] unfolding m x
    by (simp add: ring_db_def fun_upd_same del: fun_upd_apply)
qed simp

lemma late_loop_eq:
  assumes "distinct (map fst qs)"
  shows "late_loop mode qs (map (\<lambda>(q, i). old q) qs) S =
    (each_queue (\<lambda>q i. release_lock mode) qs S,
     concat (map (\<lambda>(q, i). map (Pair q) (if old q < i then update_dbr (ucast i) @ ring_db (S q) i else [])) qs))"
  using assms
proof (induction qs arbitrary: S)
  case (Cons x qs)
  obtain q i where x: "x = (q, i)" by fastforce
  let ?S = "S(q := release_lock mode (S q))"
  have other: "?S p = S p" if "(p, j) \<in> set qs" for p j using Cons.prems x that by force
  have m: "map (\<lambda>(q, i). map (Pair q) (if old q < i then update_dbr (ucast i) @ ring_db (?S q) i else [])) qs =
     map (\<lambda>(q, i). map (Pair q) (if old q < i then update_dbr (ucast i) @ ring_db (S q) i else [])) qs"
    by (auto intro!: map_cong simp: other simp del: fun_upd_apply)
  have "distinct (map fst qs)" using Cons.prems x by simp
  from Cons.IH [OF this, of ?S] show ?case
    unfolding x list.map prod.case concat.simps each_queue.simps late_loop.simps m
    by (simp del: fun_upd_apply)
qed simp

lemma for_queue_other:
  "q \<notin> fst ` set qs \<Longrightarrow> for_queue q (concat (map (\<lambda>(p, j). map (Pair p) (g p j)) qs)) = []"
  by (induction qs) auto

lemma submit_multi_db_each:
  assumes m: "shareable mode" and d: "distinct (map fst qs)"
    and l: "\<And>q i. (q, i) \<in> set qs \<Longrightarrow> lock_free mode (S q)"
  shows "\<exists>S' ws. submit_db_multi_qps mode qs code_opt S = Some (S', ws) \<and>
    (\<forall>q i. (q, i) \<in> set qs \<longrightarrow> submit_db mode (S q) i code_opt = Some (S' q, for_queue q ws)) \<and>
    (\<forall>q. q \<notin> fst ` set qs \<longrightarrow> S' q = S q \<and> for_queue q ws = [])"
proof (cases "skips_db code_opt")
  case True
  then show ?thesis by (simp add: submit_db_multi_qps_def submit_db_def skips_db_def)
next
  case False
  let ?S1 = "each_queue early_qp qs S" and ?S2 = "each_queue (\<lambda>q i. release_lock mode) qs (each_queue early_qp qs S)"
  let ?w1 = "\<lambda>q i. if sq_wqe_pi (S q) < i then ring_db (S q) i else []"
  let ?w2 = "\<lambda>q i. if sq_wqe_pi (S q) < i then update_dbr (ucast i) @ ring_db (?S1 q) i else []"
  let ?all = "concat (map (\<lambda>(q, i). map (Pair q) (?w1 q i)) qs) @ concat (map (\<lambda>(q, i). map (Pair q) (?w2 q i)) qs)"
  have r: "submit_db_multi_qps mode qs code_opt S = Some (?S2, ?all)"
    using False early_loop_eq [of mode qs S, OF m d l] late_loop_eq [OF d, of mode "\<lambda>q. sq_wqe_pi (S q)" ?S1]
    by (simp add: submit_db_multi_qps_def skips_db_def)
  have "submit_db mode (S q) i code_opt = Some (?S2 q, for_queue q ?all)" if q: "(q, i) \<in> set qs" for q i
  proof -
    have s: "?S1 q = early_qp q i (S q)" "?S2 q = release_lock mode (early_qp q i (S q))"
      using each_queue_member [OF d q] by simp_all
    have w: "for_queue q ?all = ?w1 q i @ ?w2 q i"
      unfolding for_queue_append using writes_of_queue [OF d q, of ?w1] writes_of_queue [OF d q, of ?w2] by simp
    have ring: "ring_db (early_qp q i (S q)) i = ring_db (S q) i"
      by (simp add: ring_db_def early_qp_def)
    have "for_queue q ?all = (if sq_wqe_pi (S q) < i then db_stores (S q) i else [])"
      unfolding w s ring by (simp add: db_stores_def ring_db_def update_dbr_def)
    moreover have "?S2 q = (S q)\<lparr>sq_lock := 0, sq_wqe_pi := max (sq_wqe_pi (S q)) i\<rparr>"
      unfolding s using lock_cycle(3) [OF m] by (simp add: early_qp_def)
    ultimately show ?thesis using submit_db_eq [OF m l [OF q] False] by simp
  qed
  moreover have "?S2 q = S q \<and> for_queue q ?all = []" if "q \<notin> fst ` set qs" for q
    using that each_queue_other [OF that] for_queue_other [OF that, of ?w1] for_queue_other [OF that, of ?w2] by simp
  ultimately show ?thesis using r by blast
qed

text \<open>A lock that is held, or a queue pair that is named twice, blocks a shared submission for ever.\<close>

lemma early_loop_blocks:
  assumes "shareable mode" "q \<in> fst ` set qs" "\<not> lock_free mode (S q)"
  shows "early_loop mode qs S = None"
  using assms(2,3)
proof (induction qs arbitrary: S)
  case (Cons x qs)
  obtain p i where x: "x = (p, i)" by fastforce
  show ?case
  proof (cases "p = q \<or> acquire_lock mode (S p) = None")
    case True
    then have "acquire_lock mode (S p) = None" using lock_cycle(2) [OF assms(1) Cons.prems(2)] by auto
    then show ?thesis using x by simp
  next
    case False
    obtain qp where a: "acquire_lock mode (S p) = Some qp" using False by blast
    obtain old S1 where r: "raise_pi mode p i (S(p := qp)) = (old, S1)" by fastforce
    have "S1 q = S q" using r False by (auto simp: raise_pi_def split: prod.splits)
    then have "\<not> lock_free mode (S1 q)" "q \<in> fst ` set qs" using Cons.prems False x by auto
    then have "early_loop mode qs S1 = None" using Cons.IH by blast
    then show ?thesis using x a r by simp
  qed
qed simp

lemma early_loop_twice:
  assumes "shareable mode" "mode \<noteq> SHARING_MODE_EXCLUSIVE" "\<not> distinct (map fst qs)"
  shows "early_loop mode qs S = None"
  using assms(3)
proof (induction qs arbitrary: S)
  case (Cons x qs)
  obtain p i where x: "x = (p, i)" by fastforce
  show ?case
  proof (cases "acquire_lock mode (S p)")
    case None
    then show ?thesis using x by simp
  next
    case (Some qp)
    then have qp: "qp = (S p)\<lparr>sq_lock := 1\<rparr>"
      using lock_cycle(1,2) [OF assms(1), of "S p"] by (cases "lock_free mode (S p)") auto
    obtain old S1 where r: "raise_pi mode p i (S(p := qp)) = (old, S1)" by fastforce
    have "\<not> lock_free mode (S1 p)" using r assms(1,2) by (auto simp: raise_pi_def qp lock_free_def)
    then have "early_loop mode qs S1 = None"
      using early_loop_blocks [OF assms(1), of p qs S1] Cons.IH [of S1] Cons.prems x
      by (cases "p \<in> fst ` set qs") auto
    then show ?thesis using x Some r by simp
  qed
qed simp

text \<open>C39: Submitting several queue pairs.  With locks that are free and no queue pair named twice, the joint
  submission with doorbell records returns, and each queue pair ends in the state, and receives the
  stores in the order, of a submission of its own; no other queue pair is touched.  When
  queue pairs are shared and ringing is not skipped, it never returns if a lock is held that no
  other thread ever releases (a held lock stays held in the model) or a queue pair is named twice,
  in particular when a queue pair is its own companion.\<close>

theorem joint_submission_submits_each:
  assumes "shareable mode"
  shows "(distinct (map fst qs) \<and> (\<forall>(q, i) \<in> set qs. lock_free mode (S q)) \<longrightarrow>
      (\<exists>S' ws. submit_db_multi_qps mode qs code_opt S = Some (S', ws) \<and>
        (\<forall>q i. (q, i) \<in> set qs \<longrightarrow> submit_db mode (S q) i code_opt = Some (S' q, for_queue q ws)) \<and>
        (\<forall>q. q \<notin> fst ` set qs \<longrightarrow> S' q = S q \<and> for_queue q ws = []))) \<and>
    (mode \<noteq> SHARING_MODE_EXCLUSIVE \<and> \<not> skips_db code_opt \<and>
       \<not> (distinct (map fst qs) \<and> (\<forall>(q, i) \<in> set qs. lock_free mode (S q))) \<longrightarrow>
      submit_db_multi_qps mode qs code_opt S = None)"
proof (intro conjI impI)
  assume a: "distinct (map fst qs) \<and> (\<forall>(q, i) \<in> set qs. lock_free mode (S q))"
  then have "\<And>q i. (q, i) \<in> set qs \<Longrightarrow> lock_free mode (S q)" by blast
  then show "\<exists>S' ws. submit_db_multi_qps mode qs code_opt S = Some (S', ws) \<and>
      (\<forall>q i. (q, i) \<in> set qs \<longrightarrow> submit_db mode (S q) i code_opt = Some (S' q, for_queue q ws)) \<and>
      (\<forall>q. q \<notin> fst ` set qs \<longrightarrow> S' q = S q \<and> for_queue q ws = [])"
    using submit_multi_db_each [OF assms] a by blast
next
  assume a: "mode \<noteq> SHARING_MODE_EXCLUSIVE \<and> \<not> skips_db code_opt \<and>
    \<not> (distinct (map fst qs) \<and> (\<forall>(q, i) \<in> set qs. lock_free mode (S q)))"
  have "early_loop mode qs S = None"
  proof (cases "distinct (map fst qs)")
    case True
    then obtain q i where "(q, i) \<in> set qs" "\<not> lock_free mode (S q)" using a by blast
    then show ?thesis using early_loop_blocks [OF assms, of q qs S] by force
  next
    case False
    then show ?thesis using early_loop_twice [OF assms] a by blast
  qed
  then show "submit_db_multi_qps mode qs code_opt S = None"
    using a by (simp add: submit_db_multi_qps_def skips_db_def)
qed

lemma no_dbr_loop_keeps:
  assumes "shareable mode"
  shows "sq_ready_index (fst (submit_db_multi_qps_no_dbr_loop mode qs S) x) = sq_ready_index (S x)"
proof (induction qs arbitrary: S)
  case (Cons y qs)
  obtain q i where y: "y = (q, i)" by fastforce
  obtain old S1 where r: "raise_pi mode q i S = (old, S1)" by fastforce
  then have "sq_ready_index (S1 x) = sq_ready_index (S x)" using assms by (auto simp: raise_pi_def)
  then show ?case using Cons.IH [of S1] y r by (auto split: prod.splits)
qed simp

lemma submit_multi_returns:
  assumes "shareable mode" "q \<noteq> c" "lock_free mode (S q)" "lock_free mode (S c)"
  shows "\<exists>S' ws. submit_multi_qps mode h [(q, i), (c, j)] code_opt S = Some (S', ws) \<and>
    (\<forall>x. sq_ready_index (S' x) = sq_ready_index (S x))"
proof -
  let ?qs = "[(q, i), (c, j)]"
  have "\<exists>S' ws. submit_db_multi_qps mode ?qs code_opt S = Some (S', ws) \<and>
      (\<forall>x. sq_ready_index (S' x) = sq_ready_index (S x))"
  proof -
    obtain S' ws where s: "submit_db_multi_qps mode ?qs code_opt S = Some (S', ws)"
        "\<forall>q i. (q, i) \<in> set ?qs \<longrightarrow> submit_db mode (S q) i code_opt = Some (S' q, for_queue q ws)"
        "\<forall>q. q \<notin> fst ` set ?qs \<longrightarrow> S' q = S q"
    proof -
      have "distinct (map fst ?qs)" "\<And>p k. (p, k) \<in> set ?qs \<Longrightarrow> lock_free mode (S p)" using assms(2-4) by auto
      then have "\<exists>S' ws. submit_db_multi_qps mode ?qs code_opt S = Some (S', ws) \<and>
          (\<forall>q i. (q, i) \<in> set ?qs \<longrightarrow> submit_db mode (S q) i code_opt = Some (S' q, for_queue q ws)) \<and>
          (\<forall>q. q \<notin> fst ` set ?qs \<longrightarrow> S' q = S q \<and> for_queue q ws = [])"
        using submit_multi_db_each [of mode ?qs S code_opt] assms(1) by blast
      then show ?thesis using that by blast
    qed
    have keep: "submit_db mode qp k code_opt = Some (qp', w) \<Longrightarrow> lock_free mode qp \<Longrightarrow>
        sq_ready_index qp' = sq_ready_index qp" for qp k qp' w
      using assms(1) by (auto simp: submit_db_def lock_cycle Let_def split: if_splits)
    have "sq_ready_index (S' x) = sq_ready_index (S x)" for x
      using s(2,3) keep [of "S q" i "S' q"] keep [of "S c" j "S' c"] assms(3,4) by (cases "x = q"; cases "x = c") auto
    then show ?thesis using s(1) by blast
  qed
  moreover have "\<exists>S' ws. submit_db_multi_qps_no_dbr mode ?qs code_opt S = Some (S', ws) \<and>
      (\<forall>x. sq_ready_index (S' x) = sq_ready_index (S x))"
    using no_dbr_loop_keeps [OF assms(1), of ?qs S] unfolding submit_db_multi_qps_no_dbr_def
    by (cases "submit_db_multi_qps_no_dbr_loop mode ?qs S") auto
  ultimately show ?thesis
    by (simp add: submit_multi_qps_def submit_proxy_multi_qps_def Let_def)
qed


section \<open>The counter\<close>

lemma wait_entry_writes:
  assumes "num_fields_ok qp"
  shows "writes_entry qp i (NIC_WAIT (ucast max_index) cqn) (wait_entry junk qp max_index cqn i)"
proof -
  have "be32 (store_wqe_seg m' (p + 16) (wait_words s)) (p + 24) = bswap32 (ws_max_index s)"
    "be32 (store_wqe_seg m' (p + 16) (wait_words s)) (p + 28) = bswap32 (ws_qpn_cqn s)" for m' s p
    using read_wait_seg [of m' "p + 16" s] by (simp_all add: add.commute [of p])
  then show ?thesis
    using assms unfolding wait_entry_def slot_addr_def [symmetric]
    by (intro writes_entryI [where n = 32])
      (simp_all add: wqe_prepare_wait_def Let_def wqe_read same_outside_def opcode_defs
        num_fields_ok_def nic_op_at_def split: prod.split)
qed

text \<open>The two entries on the companion.\<close>

definition counted_by :: "memory \<Rightarrow> dev_qp \<Rightarrow> u64 \<Rightarrow> u64 \<Rightarrow> u32 \<Rightarrow> verbs_addr \<Rightarrow> verbs_addr \<Rightarrow> u64 \<Rightarrow> bool" where
  "counted_by m qp i max_index cqn raddr laddr v \<longleftrightarrow>
    nic_entry m qp i = (sq_num qp, ucast i, NIC_WAIT (ucast max_index) cqn) \<and>
    nic_entry m qp (i + 1) = (sq_num qp, ucast (i + 1),
      NIC_FETCH_ADD (va_addr raddr) (bswap32 (va_key raddr)) v (va_addr laddr) (bswap32 (va_key laddr)) 8)"

definition rings_apart :: "dev_qp \<Rightarrow> dev_qp \<Rightarrow> bool" where
  "rings_apart a b \<longleftrightarrow>
    sq_wqe_daddr a + 64 * unat (sq_wqe_num a) \<le> sq_wqe_daddr b \<or>
    sq_wqe_daddr b + 64 * unat (sq_wqe_num b) \<le> sq_wqe_daddr a"

lemma slot_in_ring:
  assumes "ring_fields_ok qp" "slot_addr qp i \<le> a" "a < slot_addr qp i + 64"
  shows "sq_wqe_daddr qp \<le> a" "a < sq_wqe_daddr qp + 64 * unat (sq_wqe_num qp)"
proof -
  have "unat i mod unat (sq_wqe_num qp) < unat (sq_wqe_num qp)"
    by (rule mod_less_divisor [OF slots_pos [OF assms(1)]])
  then show "sq_wqe_daddr qp \<le> a" "a < sq_wqe_daddr qp + 64 * unat (sq_wqe_num qp)"
    using assms(2,3) unfolding slot_addr_mod [OF assms(1)] by linarith+
qed

lemma other_ring_entry:
  assumes "ring_fields_ok a" "ring_fields_ok b" "rings_apart a b"
    and "\<And>x. \<not> in_slots b base n x \<Longrightarrow> M x = m x"
  shows "nic_entry M a i = nic_entry m a i"
proof (rule nic_entry_cong)
  fix x assume x: "slot_addr a i \<le> x" "x < slot_addr a i + 64"
  have "\<not> in_slots b base n x"
    using slot_in_ring [OF assms(1) x] slot_in_ring [OF assms(2)] assms(3)
    unfolding in_slots_def rings_apart_def by (meson leD le_less_trans less_le_trans)
  then show "M x = m x" by (rule assms(4))
qed

lemma mark_in_returns:
  assumes "shareable mode" "S q = qp\<lparr>sq_rsvd_index := r, cq_sq := cq\<rparr>" "quiet_queue mode qp" "base = sq_rsvd_index qp"
  shows "mark_in mode q base upto_idx S = Some (S(q := (S q)\<lparr>sq_ready_index := upto_idx + 1\<rparr>))"
proof -
  have "mode = SHARING_MODE_EXCLUSIVE \<or> sq_ready_index (S q) = base"
    using assms(2-4) by (auto simp: quiet_queue_def)
  from mark_returns [OF assms(1) this] show ?thesis by (simp add: mark_in_def)
qed

lemma quiet_lock_free:
  "quiet_queue mode qp \<Longrightarrow> lock_free mode (qp\<lparr>sq_rsvd_index := r, cq_sq := cq, sq_ready_index := x\<rparr>)"
  by (auto simp: quiet_queue_def lock_free_def)

lemma mark_and_count_returns:
  assumes m: "shareable mode" and qc: "q \<noteq> c"
    and Q: "S q = qp\<lparr>sq_rsvd_index := r, cq_sq := cq\<rparr>" "quiet_queue mode qp" "base = sq_rsvd_index qp"
    and C: "num_fields_ok (S c)" "ring_fields_ok (S c)" "quiet_queue mode (S c)"
      "2 \<le> unat (sq_wqe_num (S c))" "unat (sq_rsvd_index (S c)) + 2 \<le> 2 ^ 64"
    and res: "reserve_wq_slots hopper mode (qe_cq EC) (S c) 2 code_opt = Some (cb, cqp)"
  shows "\<exists>S' M writes. mark_and_count hopper mode h EC q base wqe_idx c ca cl v code_opt S mem = Some (S', M, writes) \<and>
    cb = sq_rsvd_index (S c) \<and> counted_by M (S c) cb wqe_idx (cq_num cq) ca cl v \<and>
    (\<forall>a. \<not> in_slots (S c) cb 2 a \<longrightarrow> M a = mem a) \<and>
    sq_ready_index (S' q) = wqe_idx + 1 \<and> sq_ready_index (S' c) = cb + 2"
proof -
  obtain cq' where cqp: "cb = sq_rsvd_index (S c)" "cqp = (S c)\<lparr>sq_rsvd_index := cb + ucast (2 :: u32), cq_sq := cq'\<rparr>"
    by (rule reserve_result [OF m res])
  define S1 where "S1 = S(q := (S q)\<lparr>sq_ready_index := wqe_idx + 1\<rparr>)"
  define S2 where "S2 = S1(c := cqp)"
  define S3 where "S3 = S2(c := (S2 c)\<lparr>sq_ready_index := cb + 1 + 1\<rparr>)"
  have s1: "mark_in mode q base wqe_idx S = Some S1" "S1 c = S c" "cq_num (cq_sq (S1 q)) = cq_num cq"
    using mark_in_returns [where S = S and q = q and qp = qp and r = r and cq = cq and upto_idx = wqe_idx, OF m Q] qc Q(1) by (simp_all add: S1_def)
  have s2: "reserve_in hopper mode EC c 2 code_opt S1 = Some (cb, S2)" "S2 c = cqp" "S2 q = S1 q"
    using res qc by (simp_all add: reserve_in_def s1(2) S2_def)
  have s3: "mark_in mode c cb (cb + 1) S2 = Some S3"
    using mark_in_returns [where S = S2 and q = c and upto_idx = "cb + 1", OF m s2(2) [unfolded cqp(2)] C(3) cqp(1)] by (simp add: S3_def)
  have free: "lock_free mode (S3 q)" "lock_free mode (S3 c)"
    using quiet_lock_free [OF Q(2), where r = r and cq = cq and x = "wqe_idx + 1"]
      quiet_lock_free [OF C(3), where r = "cb + ucast (2 :: u32)" and cq = cq' and x = "cb + 1 + 1"]
      qc Q(1) s2(2,3) cqp(2) by (simp_all add: S3_def S1_def)
  have ready: "sq_ready_index (S3 q) = wqe_idx + 1" "sq_ready_index (S3 c) = cb + 2"
    using qc s2(3) by (simp_all add: S3_def S1_def)
  obtain S' writes where s4: "submit_multi_qps mode h [(q, wqe_idx + 1), (c, cb + 1 + 1)] code_opt S3 = Some (S', writes)"
      "\<forall>x. sq_ready_index (S' x) = sq_ready_index (S3 x)"
    using submit_multi_returns [OF m qc free] by blast
  let ?w = "\<lambda>j. if j = 0 then wait_entry (qe_junk EC) cqp wqe_idx (cq_num cq) cb
      else signal_entry (qe_junk EC) cqp ca cl v (cb + 1)"
  let ?op = "\<lambda>j. if j = 0 then NIC_WAIT (ucast wqe_idx) (cq_num cq)
      else NIC_FETCH_ADD (va_addr ca) (bswap32 (va_key ca)) v (va_addr cl) (bswap32 (va_key cl)) 8"
  let ?M = "signal_entry (qe_junk EC) cqp ca cl v (cb + 1) (wait_entry (qe_junk EC) cqp wqe_idx (cq_num cq) cb mem)"
  have "writes_entry (S c) (cb + of_nat j) (?op j) (?w j)" if j: "j < 2" for j :: nat
  proof -
    have "num_fields_ok cqp" using C(1) cqp(2) by simp
    from wait_entry_writes [OF this, of cb wqe_idx "cq_num cq" "qe_junk EC"]
    have "writes_entry (S c) cb (NIC_WAIT (ucast wqe_idx) (cq_num cq)) (wait_entry (qe_junk EC) cqp wqe_idx (cq_num cq) cb)"
      unfolding cqp(2) writes_entry_frame .
    then show ?thesis using tail_writers(1) [OF C(1) cqp(2), of "cb + 1" ca v cl "qe_junk EC"] j
      by (cases "j = 0") (simp_all add: less_2_cases_iff)
  qed
  moreover have "unat cb + 2 \<le> 2 ^ 64" using C(5) cqp(1) by simp
  ultimately have f: "(\<forall>j < 2. nic_entry (fold ?w [0 ..< 2] mem) (S c) (cb + of_nat j) = (sq_num (S c), ucast (cb + of_nat j), ?op j)) \<and>
      (\<forall>a. \<not> in_slots (S c) cb 2 a \<longrightarrow> fold ?w [0 ..< 2] mem a = mem a)"
    by (intro fold_entries [OF C(2,4)])
  have fold: "fold ?w [0 ..< 2] mem = ?M" by (simp add: numeral_2_eq_2)
  have e: "nic_entry ?M (S c) cb = (sq_num (S c), ucast cb, NIC_WAIT (ucast wqe_idx) (cq_num cq))"
    "nic_entry ?M (S c) (cb + 1) = (sq_num (S c), ucast (cb + 1),
      NIC_FETCH_ADD (va_addr ca) (bswap32 (va_key ca)) v (va_addr cl) (bswap32 (va_key cl)) 8)"
    "\<forall>a. \<not> in_slots (S c) cb 2 a \<longrightarrow> ?M a = mem a"
    using f [unfolded fold] by (auto dest: spec [of _ 0] spec [of _ 1])
  have run: "mark_and_count hopper mode h EC q base wqe_idx c ca cl v code_opt S mem = Some (S', ?M, writes)"
    using s1 s2 s3 s4 unfolding mark_and_count_def Let_def by simp
  show ?thesis
    using run cqp(1) e s4(2) ready unfolding counted_by_def
    by (intro exI [of _ S'] exI [of _ ?M] exI [of _ writes]) simp
qed


lemma ucast_down_suc: "(ucast (x + 1 :: 64 word) :: 32 word) = ucast x + 1"
proof -
  have "(2 :: nat) ^ 32 dvd 2 ^ 64" by (rule le_imp_power_dvd) simp
  then have "(unat x + 1) mod 2 ^ 64 mod 2 ^ 32 = (unat x mod 2 ^ 32 + 1) mod 2 ^ 32"
    by (simp only: mod_mod_cancel mod_add_left_eq)
  then show ?thesis
    by (simp add: word_unat_eq_iff unat_ucast_mod unat_word_ariths(1))
qed

text \<open>The number of chunks, in 64 bits, is the one that the uncounted operations compute in 32.\<close>

lemma counted_chunks:
  assumes "transfer_chunks bytes \<le> unat (n :: u16)"
  shows "unat (counted_num_chunks bytes) = transfer_chunks bytes"
    and "ucast (counted_num_chunks bytes) = put_num_chunks bytes"
    and "ucast (counted_num_chunks bytes + 1) = put_num_chunks bytes + 1"
    and "counted_num_chunks bytes - 1 = of_nat (transfer_chunks bytes - 1)"
    and "counted_num_chunks bytes = of_nat (transfer_chunks bytes)"
proof -
  define d where "d = div_ceil_aligned_pow2 bytes 30"
  have d: "unat d = (unat bytes + 2 ^ 30 - 1) div 2 ^ 30" unfolding d_def by (rule div_ceil_unat)
  have c: "counted_num_chunks bytes = (if 1 < d then d else 1)"
    by (simp add: counted_num_chunks_def d_def MAX_TRANSFER_SIZE_SHIFT_def Let_def)
  show u: "unat (counted_num_chunks bytes) = transfer_chunks bytes"
    unfolding c transfer_chunks_def d [symmetric] by (simp add: word_less_nat_alt max_def)
  have "transfer_chunks bytes < 2 ^ 16" using assms unat_lt_2p [of n] by simp
  then show c: "ucast (counted_num_chunks bytes) = put_num_chunks bytes"
    by (simp add: word_unat_eq_iff unat_ucast_mod chunk_indices(1) [OF assms] u)
  show "ucast (counted_num_chunks bytes + 1) = put_num_chunks bytes + 1"
    unfolding c [symmetric] by (rule ucast_down_suc)
  show o: "counted_num_chunks bytes = of_nat (transfer_chunks bytes)"
    unfolding u [symmetric] by (rule sym) simp
  show "counted_num_chunks bytes - 1 = of_nat (transfer_chunks bytes - 1)"
    unfolding o by (rule chunk_indices(5) [OF assms])
qed

text \<open>Two queue pairs, neither of them in use by another thread, whose rings do not overlap.\<close>

definition companions :: "sharing_mode \<Rightarrow> 'q qp_store \<Rightarrow> 'q \<Rightarrow> 'q \<Rightarrow> bool" where
  "companions mode S q c \<longleftrightarrow> q \<noteq> c \<and> rings_apart (S q) (S c) \<and>
    (\<forall>x \<in> {q, c}. num_fields_ok (S x) \<and> ring_fields_ok (S x) \<and> quiet_queue mode (S x)) \<and>
    2 \<le> unat (sq_wqe_num (S c)) \<and> unat (sq_rsvd_index (S c)) + 2 \<le> 2 ^ 64"

text \<open>The result of a counted operation whose own entries, indices up to \<open>upto_idx\<close>, are in \<open>m\<close>.\<close>

definition counted_after :: "('q qp_store \<times> memory \<times> ('q \<times> nic_write) list) option \<Rightarrow> 'q qp_store \<Rightarrow> 'q \<Rightarrow> 'q
    \<Rightarrow> u64 \<Rightarrow> u32 \<Rightarrow> verbs_addr \<Rightarrow> verbs_addr \<Rightarrow> u64 \<Rightarrow> (memory \<Rightarrow> bool) \<Rightarrow> memory \<Rightarrow> nat \<Rightarrow> bool" where
  "counted_after r S q c upto_idx cqn ca cl v own mem n \<longleftrightarrow>
    (\<exists>S' M writes. r = Some (S', M, writes) \<and> own M \<and>
      counted_by M (S c) (sq_rsvd_index (S c)) upto_idx cqn ca cl v \<and>
      sq_ready_index (S' q) = upto_idx + 1 \<and> sq_ready_index (S' c) = sq_rsvd_index (S c) + 2 \<and>
      (\<forall>a. \<not> in_slots (S q) (sq_rsvd_index (S q)) n a \<and>
           \<not> in_slots (S c) (sq_rsvd_index (S c)) 2 a \<longrightarrow> M a = mem a))"

lemma counted_afterI:
  assumes m: "shareable mode" and co: "companions mode S q c"
    and res: "reserve_wq_slots hopper mode (qe_cq E) (S q) n code_opt = Some (base, qp0)"
      "reserve_wq_slots hopper mode (qe_cq EC) (S c) 2 code_opt = Some (cb, cqp)"
    and own: "own mem1" "\<And>M. (\<And>i. nic_entry M (S q) i = nic_entry mem1 (S q) i) \<Longrightarrow> own mem1 \<Longrightarrow> own M"
    and frame: "\<And>a. \<not> in_slots (S q) base k a \<Longrightarrow> mem1 a = mem a"
  shows "counted_after (mark_and_count hopper mode h EC q base upto_idx c ca cl v code_opt (S(q := qp0)) mem1)
    S q c upto_idx (cq_num (cq_sq qp0)) ca cl v own mem k"
proof -
  have co': "q \<noteq> c" "rings_apart (S q) (S c)" "num_fields_ok (S c)" "ring_fields_ok (S q)" "ring_fields_ok (S c)"
      "quiet_queue mode (S q)" "quiet_queue mode (S c)" "2 \<le> unat (sq_wqe_num (S c))"
      "unat (sq_rsvd_index (S c)) + 2 \<le> 2 ^ 64"
    using co by (auto simp: companions_def)
  obtain cq where r: "base = sq_rsvd_index (S q)" "qp0 = (S q)\<lparr>sq_rsvd_index := base + ucast n, cq_sq := cq\<rparr>"
    by (rule reserve_result [OF m res(1)])
  define T where "T = S(q := qp0)"
  have t: "T q = (S q)\<lparr>sq_rsvd_index := base + ucast n, cq_sq := cq\<rparr>" "T c = S c" "cq_num (cq_sq qp0) = cq_num cq"
    using co'(1) by (simp_all add: T_def r(2))
  obtain S' M writes where run: "mark_and_count hopper mode h EC q base upto_idx c ca cl v code_opt T mem1 = Some (S', M, writes)"
      "cb = sq_rsvd_index (S c)" "counted_by M (S c) cb upto_idx (cq_num cq) ca cl v"
      "\<forall>a. \<not> in_slots (S c) cb 2 a \<longrightarrow> M a = mem1 a"
      "sq_ready_index (S' q) = upto_idx + 1" "sq_ready_index (S' c) = cb + 2"
    using mark_and_count_returns [where S = T and q = q and c = c and h = h and wqe_idx = upto_idx and ca = ca and cl = cl
        and v = v and mem = mem1 and EC = EC and code_opt = code_opt and hopper = hopper and cb = cb and cqp = cqp,
        OF m co'(1) t(1) co'(6) r(1), unfolded t(2), OF co'(3,5,7,8,9) res(2)] by blast
  have "nic_entry M (S q) i = nic_entry mem1 (S q) i" for i
    by (rule other_ring_entry [OF co'(4,5,2)]) (use run(4) in blast)
  then have "own M" using own by blast
  then show ?thesis
    unfolding counted_after_def T_def [symmetric] t(3)
    using run frame r(1) by (intro exI [of _ S'] exI [of _ M] exI [of _ writes]) auto
qed

lemma chunk_entries_cong:
  "(\<And>i. nic_entry M qp i = nic_entry m qp i) \<Longrightarrow> chunk_entries op qp base bytes m \<Longrightarrow> chunk_entries op qp base bytes M"
  by (simp add: chunk_entries_def)

context chunk_writer
begin

lemma counted:
  assumes m: "shareable mode" and co: "companions mode S q c"
    and fits: "transfer_chunks bytes \<le> unat (sq_wqe_num (S q))"
      "unat (sq_rsvd_index (S q)) + transfer_chunks bytes \<le> 2 ^ 64"
    and res: "reserve_wq_slots hopper mode (qe_cq E) (S q) (put_num_chunks bytes) code_opt = Some (base, qp0)"
      "reserve_wq_slots hopper mode (qe_cq EC) (S c) 2 code_opt = Some (cb, cqp)"
  shows "counted_after (mark_and_count hopper mode h EC q base (base + of_nat (transfer_chunks bytes - 1)) c ca cl v code_opt
      (S(q := qp0)) (chunk_loop (transfer_chunks bytes) (prepare junk qp0 raddr laddr) base 0 bytes mem))
    S q c (base + of_nat (transfer_chunks bytes - 1)) (cq_num (cq_sq qp0)) ca cl v
    (chunk_entries (op raddr laddr) (S q) base bytes) mem (transfer_chunks bytes)"
proof -
  obtain cq where r: "base = sq_rsvd_index (S q)" "qp0 = (S q)\<lparr>sq_rsvd_index := base + ucast (put_num_chunks bytes), cq_sq := cq\<rparr>"
    by (rule reserve_result [OF m res(1)])
  have ok: "num_fields_ok (S q)" "ring_fields_ok (S q)" using co by (auto simp: companions_def)
  have "unat base + transfer_chunks bytes \<le> 2 ^ 64" using fits(2) r(1) by simp
  note e = entries [OF ok r(2) fits(1) this, unfolded Let_def, of raddr laddr junk mem]
  show ?thesis
    by (rule counted_afterI [OF m co res]) (use e in \<open>auto intro: chunk_entries_cong\<close>)
qed

end


text \<open>C40: A counted transfer.  On two queue pairs that nobody else is using and whose rings do not
  overlap, once the slots of both are reserved a counted put, and a counted get, return.  The first
  queue pair holds one entry per chunk of the transfer; the companion holds a WAIT for the
  completion of the last chunk on the first queue pair's completion queue, and after it the atomic
  that adds to the counter.  All are ready, and nothing outside these slots is written.\<close>

theorem counted_transfer_waits_for_last_chunk:
  assumes "shareable mode" and "companions mode S q c"
    and "transfer_chunks bytes \<le> unat (sq_wqe_num (S q))"
    and "unat (sq_rsvd_index (S q)) + transfer_chunks bytes \<le> 2 ^ 64"
    and "reserve_wq_slots hopper mode (qe_cq E) (S q) (put_num_chunks bytes) code_opt = Some (base, qp0)"
    and "reserve_wq_slots hopper mode (qe_cq EC) (S c) 2 code_opt = Some (cb, cqp)"
  shows "counted_after (put_counter hopper mode h E EC q m raddr laddr bytes c ca cl v code_opt S)
      S q c (base + of_nat (transfer_chunks bytes - 1)) (cq_num (cq_sq qp0)) ca cl v
      (chunk_entries (put_op raddr laddr) (S q) base bytes) m (transfer_chunks bytes) \<and>
    counted_after (get_counter hopper mode h E EC q m raddr laddr bytes c ca cl v code_opt S)
      S q c (base + of_nat (transfer_chunks bytes - 1)) (cq_num (cq_sq qp0)) ca cl v
      (chunk_entries (get_op raddr laddr) (S q) base bytes) m (transfer_chunks bytes)"
proof -
  note n = counted_chunks [OF assms(3)]
  have r: "reserve_in hopper mode E q (put_num_chunks bytes) code_opt S = Some (base, S(q := qp0))"
    by (simp add: reserve_in_def assms(5))
  show ?thesis
    unfolding put_counter_def get_counter_def Let_def n(1,2,4) r option.case prod.case fun_upd_same
    by (intro conjI put.counted [OF assms] get.counted [OF assms])
qed

text \<open>A counted put with signal posts the transfer, then the signal's atomic on the same queue
  pair; the companion waits for the completion of the signal before it adds to the counter.\<close>

theorem counted_signal_is_waited_for:
  assumes "shareable mode" and "companions mode S q c"
    and "Suc (transfer_chunks bytes) \<le> unat (sq_wqe_num (S q))"
    and "unat (sq_rsvd_index (S q)) + Suc (transfer_chunks bytes) \<le> 2 ^ 64"
    and "reserve_wq_slots hopper mode (qe_cq E) (S q) (put_num_chunks bytes + 1) code_opt = Some (base, qp0)"
    and "reserve_wq_slots hopper mode (qe_cq EC) (S c) 2 code_opt = Some (cb, cqp)"
  shows "counted_after (put_signal_counter hopper mode h E EC q m raddr laddr bytes sr sl sv c ca cl v code_opt S)
      S q c (base + of_nat (transfer_chunks bytes)) (cq_num (cq_sq qp0)) ca cl v
      (\<lambda>M. chunk_entries (put_op raddr laddr) (S q) base bytes M \<and>
         nic_entry M (S q) (base + of_nat (transfer_chunks bytes)) =
           (sq_num (S q), ucast (base + of_nat (transfer_chunks bytes)),
            NIC_FETCH_ADD (va_addr sr) (bswap32 (va_key sr)) sv (va_addr sl) (bswap32 (va_key sl)) 8))
      m (Suc (transfer_chunks bytes))"
proof -
  let ?n = "transfer_chunks bytes"
  note n = counted_chunks [OF Suc_leD [OF assms(3)]]
  have r: "reserve_in hopper mode E q (put_num_chunks bytes + 1) code_opt S = Some (base, S(q := qp0))"
    by (simp add: reserve_in_def assms(5))
  have i: "base + of_nat (?n - 1) + 1 = base + of_nat ?n"
    unfolding n(4) [symmetric] n(5) [symmetric] by simp
  obtain cq where q: "base = sq_rsvd_index (S q)"
      "qp0 = (S q)\<lparr>sq_rsvd_index := base + ucast (put_num_chunks bytes + 1), cq_sq := cq\<rparr>"
    by (rule reserve_result [OF assms(1,5)])
  have ok: "num_fields_ok (S q)" "ring_fields_ok (S q)" using assms(2) by (auto simp: companions_def)
  have "unat base + Suc ?n \<le> 2 ^ 64" using assms(4) q(1) by simp
  note e = put.entries_snoc [OF ok q(2) assms(3) this tail_writers(1) [OF ok(1) q(2)], unfolded Let_def]
  show ?thesis
    unfolding put_signal_counter_def Let_def n(1,3,4) r option.case prod.case fun_upd_same i
    by (rule counted_afterI [OF assms(1,2,5,6)]) (use e in \<open>auto intro: chunk_entries_cong\<close>)
qed

lemma counted_single:
  assumes "shareable mode" and "companions mode S q c" and "unat (sq_rsvd_index (S q)) + 1 \<le> 2 ^ 64"
    and "reserve_wq_slots hopper mode (qe_cq E) (S q) 1 code_opt = Some (base, qp0)"
    and "reserve_wq_slots hopper mode (qe_cq EC) (S c) 2 code_opt = Some (cb, cqp)"
    and "writes_entry (S q) base op w"
  shows "counted_after (mark_and_count hopper mode h EC q base base c ca cl v code_opt (S(q := qp0)) (w m))
    S q c base (cq_num (cq_sq qp0)) ca cl v
    (\<lambda>M. nic_entry M (S q) base = (sq_num (S q), ucast base, op)) m 1"
proof -
  have ok: "ring_fields_ok (S q)" using assms(2) by (auto simp: companions_def)
  have "base = sq_rsvd_index (S q)" by (rule reserve_result [OF assms(1,4)])
  then have l: "1 \<le> unat (sq_wqe_num (S q))" "unat base + 1 \<le> 2 ^ 64"
    using slots_pos [OF ok] assms(3) by simp_all
  have "nic_entry (w m) (S q) base = (sq_num (S q), ucast base, op) \<and> (\<forall>a. \<not> in_slots (S q) base 1 a \<longrightarrow> w m a = m a)"
    using fold_entries [OF ok l, of "\<lambda>_. op" "\<lambda>_. w" m] assms(6) by simp
  then show ?thesis
    by (intro counted_afterI [OF assms(1,2,4,5)]) auto
qed

text \<open>A counted signal, and a counted inline put of at most 8 bytes, post one entry, the atomic or
  the inline write of exactly these bytes; the companion waits for that entry before it adds to the
  counter.\<close>

theorem counted_single_entry_is_waited_for:
  assumes "shareable mode" and "companions mode S q c" and "unat (sq_rsvd_index (S q)) + 1 \<le> 2 ^ 64"
    and "reserve_wq_slots hopper mode (qe_cq E) (S q) 1 code_opt = Some (base, qp0)"
    and "reserve_wq_slots hopper mode (qe_cq EC) (S c) 2 code_opt = Some (cb, cqp)"
    and "length data \<le> 8"
  shows "counted_after (signal_counter hopper mode h E EC q m sr sl sv c ca cl v code_opt S)
      S q c base (cq_num (cq_sq qp0)) ca cl v
      (\<lambda>M. nic_entry M (S q) base = (sq_num (S q), ucast base,
         NIC_FETCH_ADD (va_addr sr) (bswap32 (va_key sr)) sv (va_addr sl) (bswap32 (va_key sl)) 8)) m 1 \<and>
    counted_after (p_counter hopper mode h E EC q m raddr data c ca cl v code_opt S)
      S q c base (cq_num (cq_sq qp0)) ca cl v
      (\<lambda>M. nic_entry M (S q) base = (sq_num (S q), ucast base,
         NIC_INLINE (va_addr raddr) (bswap32 (va_key raddr)) data)) m 1"
proof -
  have r: "reserve_in hopper mode E q 1 code_opt S = Some (base, S(q := qp0))"
    by (simp add: reserve_in_def assms(4))
  obtain cq where q: "qp0 = (S q)\<lparr>sq_rsvd_index := base + ucast (1 :: u32), cq_sq := cq\<rparr>"
    by (rule reserve_result [OF assms(1,4)])
  have ok: "num_fields_ok (S q)" "num_fields_ok qp0" using assms(2) q by (auto simp: companions_def)
  note sig = tail_writers(1) [OF ok(1) q]
  obtain w where w: "\<And>m. inline_entry (qe_junk E) qp0 raddr data base m = Some (w m)"
      "writes_entry qp0 base (NIC_INLINE (va_addr raddr) (bswap32 (va_key raddr)) data) w"
    by (rule inline_entry_writes [OF ok(2) assms(6), of "qe_junk E" raddr base]) blast
  have wq: "writes_entry (S q) base (NIC_INLINE (va_addr raddr) (bswap32 (va_key raddr)) data) w"
    using w(2) unfolding q writes_entry_frame .
  show ?thesis
    unfolding signal_counter_def p_counter_def Let_def r option.case prod.case fun_upd_same w(1)
    by (intro conjI counted_single [OF assms(1-5) sig] counted_single [OF assms(1-5) wq])
qed

section \<open>Witnesses\<close>

text \<open>Two queue pairs of 64 slots.  The ring of the second begins after the first's.\<close>

definition demo_pair :: "bool qp_store" where
  "demo_pair = (\<lambda>q. if q then init_dev_qp 0x9876 64 0x10000 demo_dev_cq NIC_HANDLER_GPU_SM_DB else demo_qp64)"

definition demo_queue_env :: queue_env where
  "demo_queue_env = \<lparr>qe_cq = \<lambda>_. demo_dev_cq, qe_junk = \<lambda>_. demo_junk\<rparr>"

lemma demo_companions: "companions mode demo_pair False True"
proof -
  have "num_fields_ok (demo_pair True)" "ring_fields_ok (demo_pair True)"
    unfolding demo_pair_def by (simp_all add: init_num_fields_ok init_ring_fields_ok [of _ 6])
  moreover have "quiet_queue mode (demo_pair True)" "sq_wqe_num (demo_pair True) = 64"
    "sq_rsvd_index (demo_pair True) = 0" "sq_wqe_daddr (demo_pair True) = 0x10000" "sq_wqe_daddr (demo_pair False) = 4096"
    by (simp_all add: demo_pair_def demo_qp64_def init_dev_qp_def Let_def quiet_queue_def)
  ultimately show ?thesis
    using demo_qp64_ok by (simp add: companions_def rings_apart_def demo_pair_def)
qed

lemma demo_companion_reserve:
  "reserve_wq_slots False SHARING_MODE_GPU env (demo_pair True) 2 0 =
    Some (0, (demo_pair True)\<lparr>sq_rsvd_index := 2\<rparr>)"
proof -
  have "unat (sq_wqe_num (demo_pair True)) = 64" "sq_rsvd_index (demo_pair True) = 0"
    by (simp_all add: demo_pair_def init_dev_qp_def Let_def)
  then show ?thesis
    using reserve_first_lap [of SHARING_MODE_GPU 2 "demo_pair True"] by simp
qed

theorem joint_submission_submits_each_witness:
  "(\<exists>S' ws. submit_db_multi_qps SHARING_MODE_GPU [(False, 2), (True, 1)] 0 demo_pair = Some (S', ws) \<and>
     submit_db SHARING_MODE_GPU (demo_pair True) 1 0 = Some (S' True, for_queue True ws)) \<and>
   submit_db_multi_qps SHARING_MODE_GPU [(True, 2), (True, 1)] 0 demo_pair = None"
proof -
  have free: "lock_free SHARING_MODE_GPU (demo_pair b)" for b
    using demo_companions [of SHARING_MODE_GPU] by (cases b) (auto simp: companions_def quiet_queue_def lock_free_def)
  show ?thesis
    using joint_submission_submits_each [of SHARING_MODE_GPU "[(False, 2), (True, 1)]" demo_pair 0]
      joint_submission_submits_each [of SHARING_MODE_GPU "[(True, 2), (True, 1)]" demo_pair 0] free
    by (auto simp: skips_db_def)
qed

theorem counted_transfer_waits_for_last_chunk_witness:
  "counted_after (put_counter False SHARING_MODE_GPU NIC_HANDLER_AUTO demo_queue_env demo_queue_env False (\<lambda>_. 0)
      remote_addr local_addr demo_bytes True remote_addr signal_addr 1 0 demo_pair)
    demo_pair False True 1 (cq_num (cq_sq demo_qp64)) remote_addr signal_addr 1
    (chunk_entries (put_op remote_addr local_addr) demo_qp64 0 demo_bytes) (\<lambda>_. 0) 2"
proof -
  have d: "demo_pair False = demo_qp64" by (simp add: demo_pair_def)
  show ?thesis
    using counted_transfer_waits_for_last_chunk [OF demo_sizes(5) demo_companions, unfolded d,
        OF demo_sizes(1,3), OF demo_reserves(1) demo_companion_reserve,
        where raddr = remote_addr and laddr = local_addr and ca = remote_addr and cl = signal_addr and v = 1
        and h = NIC_HANDLER_AUTO and m = "\<lambda>_. 0" and E = demo_queue_env and EC = demo_queue_env]
    unfolding demo_chunks by simp
qed

theorem counted_signal_is_waited_for_witness:
  "\<exists>S' M writes. put_signal_counter False SHARING_MODE_GPU NIC_HANDLER_AUTO demo_queue_env demo_queue_env False (\<lambda>_. 0)
      remote_addr local_addr demo_bytes remote_addr signal_addr 7 True remote_addr signal_addr 1 0 demo_pair =
        Some (S', M, writes) \<and>
    nic_entry M demo_qp64 2 = (0x4321, 2, NIC_FETCH_ADD 0x1000 (bswap32 7) 7 0x3000 (bswap32 5) 8) \<and>
    nic_entry M (demo_pair True) 0 = (0x9876, 0, NIC_WAIT 2 (cq_num (cq_sq demo_qp64)))"
proof -
  have d: "demo_pair False = demo_qp64" by (simp add: demo_pair_def)
  have c: "sq_num (demo_pair True) = 0x9876" "sq_rsvd_index (demo_pair True) = 0"
    by (simp_all add: demo_pair_def init_dev_qp_def Let_def)
  show ?thesis
    using counted_signal_is_waited_for [OF demo_sizes(5) demo_companions, unfolded d,
        OF demo_sizes(2,4), OF demo_reserves(2) demo_companion_reserve,
        where raddr = remote_addr and laddr = local_addr and ca = remote_addr and cl = signal_addr and v = 1
        and sr = remote_addr and sl = signal_addr and sv = 7
        and h = NIC_HANDLER_AUTO and m = "\<lambda>_. 0" and E = demo_queue_env and EC = demo_queue_env]
    unfolding demo_chunks counted_after_def counted_by_def d c
    by (auto simp: demo_qp64_ok remote_addr_def signal_addr_def)
qed

theorem counted_single_entry_is_waited_for_witness:
  "\<exists>S' M writes. p_counter False SHARING_MODE_GPU NIC_HANDLER_AUTO demo_queue_env demo_queue_env False (\<lambda>_. 0)
      remote_addr [1, 2, 3] True remote_addr signal_addr 1 0 demo_pair = Some (S', M, writes) \<and>
    nic_entry M demo_qp64 0 = (0x4321, 0, NIC_INLINE 0x1000 (bswap32 7) [1, 2, 3]) \<and>
    nic_entry M (demo_pair True) 1 = (0x9876, 1, NIC_FETCH_ADD 0x1000 (bswap32 7) 1 0x3000 (bswap32 5) 8)"
proof -
  have d: "demo_pair False = demo_qp64" by (simp add: demo_pair_def)
  have c: "sq_num (demo_pair True) = 0x9876" "sq_rsvd_index (demo_pair True) = 0"
    by (simp_all add: demo_pair_def init_dev_qp_def Let_def)
  have "unat (sq_rsvd_index demo_qp64) + 1 \<le> 2 ^ 64" by (simp add: demo_qp64_ok)
  note t = counted_single_entry_is_waited_for [OF demo_sizes(5) demo_companions, unfolded d,
      OF this demo_reserve demo_companion_reserve,
      where raddr = remote_addr and data = "[1, 2, 3]" and sr = remote_addr and sl = signal_addr and sv = 7 and ca = remote_addr and cl = signal_addr and v = 1
      and h = NIC_HANDLER_AUTO and m = "\<lambda>_. 0" and E = demo_queue_env and EC = demo_queue_env]
  show ?thesis
    using t unfolding counted_after_def counted_by_def d c
    by (auto simp: demo_qp64_ok remote_addr_def signal_addr_def)
qed

end
