(* ===== verification/HostRes.thy ===== *)
theory HostRes
  imports Prelude VerbsTypes Devx Handle
begin

text \<open>
  The driver objects and the memory that the open objects of the host library hold, and the scheme
  by which a C++ class owns them: a constructor that undoes a \<^verbatim>\<open>create()\<close> that threw, a
  \<^verbatim>\<open>destroy()\<close> that can be called again, and a destructor.  UARs, UMEMs and queue pairs follow it.
\<close>

section \<open>The host behind the wrappers\<close>

text \<open>
  The calls of rdma-core, mlx5dv and the C allocator are parameters.  A call takes the state of the
  host and gives the new one; a call that creates gives a pointer.  The contents of a UAR or UMEM
  object are read with the functions of their fields.
\<close>

record umem_in =
  ui_addr :: ptr
  ui_size :: u64
  ui_access :: u32
  ui_pgsz_bitmap :: u64
  ui_comp_mask :: u64
  ui_dmabuf_fd :: int

record ibv_device_attr =
  ib_max_qp :: u32
  ib_max_qp_wr :: u32
  ib_max_sge :: u32
  ib_max_cq :: u32
  ib_max_cqe :: u32
  ib_max_mr :: u32
  ib_max_pd :: u32
  ib_max_ah :: u32
  ib_max_srq :: u32
  ib_max_srq_wr :: u32
  ib_max_srq_sge :: u32
  ib_max_pkeys :: u16
  ib_phys_port_cnt :: u8
  ib_max_qp_init_rd_atom :: u32
  ib_max_qp_rd_atom :: u32

record 'h host =
  hs_alloc_uar :: "u32 \<Rightarrow> 'h \<Rightarrow> doca_error \<times> ptr \<times> 'h"
  hs_free_uar :: "ptr \<Rightarrow> 'h \<Rightarrow> doca_error \<times> 'h"
  hs_uar_page_id :: "ptr \<Rightarrow> 'h \<Rightarrow> u32"
  hs_uar_reg_addr :: "ptr \<Rightarrow> 'h \<Rightarrow> ptr"
  hs_uar_base_addr :: "ptr \<Rightarrow> 'h \<Rightarrow> ptr"
  hs_umem_reg :: "ptr \<Rightarrow> u64 \<Rightarrow> u32 \<Rightarrow> 'h \<Rightarrow> doca_error \<times> ptr \<times> 'h"
  hs_umem_reg_ex :: "umem_in \<Rightarrow> 'h \<Rightarrow> doca_error \<times> ptr \<times> 'h"
  hs_umem_dereg :: "ptr \<Rightarrow> 'h \<Rightarrow> doca_error \<times> 'h"
  hs_umem_id :: "ptr \<Rightarrow> 'h \<Rightarrow> u32"
  hs_obj_create :: "devx_buf \<Rightarrow> 'h \<Rightarrow> doca_error \<times> ptr \<times> devx_buf \<times> 'h"
  hs_obj_destroy :: "ptr \<Rightarrow> 'h \<Rightarrow> doca_error \<times> 'h"
  hs_memalign :: "nat \<Rightarrow> nat \<Rightarrow> 'h \<Rightarrow> ptr \<times> 'h"
  hs_zero :: "ptr \<Rightarrow> nat \<Rightarrow> 'h \<Rightarrow> 'h"
  hs_free :: "ptr \<Rightarrow> 'h \<Rightarrow> 'h"
  hs_query_eqn :: "'h \<Rightarrow> doca_error \<times> u32"
  hs_pdn :: "ptr \<Rightarrow> 'h \<Rightarrow> doca_error \<times> u32"
  hs_pagesize :: u64
  hs_query_device :: "'h \<Rightarrow> doca_error \<times> ibv_device_attr"
  hs_general_cmd :: "devx_buf \<Rightarrow> 'h \<Rightarrow> doca_error \<times> devx_buf"

section \<open>What is alive, and what uses what\<close>

datatype resource = RBuf ptr | RUmem ptr | RUar ptr | RObj ptr

text \<open>
  The documented behaviour of these calls, relative to what is alive in a state of the host and
  what each live object uses.  A successful creation gives a fresh object; an object that no live
  object uses can be released; a call that fails changes nothing.  A registered region uses the
  buffer it covers, a queue object may use anything that was alive when it was created.
\<close>

type_synonym 'h live_of = "'h \<Rightarrow> resource set"
type_synonym 'h uses_of = "'h \<Rightarrow> resource \<Rightarrow> resource set"

definition same :: "'h live_of \<Rightarrow> 'h uses_of \<Rightarrow> 'h \<Rightarrow> 'h \<Rightarrow> bool" where
  "same live uses h h' \<longleftrightarrow> live h' = live h \<and> (\<forall>r \<in> live h. uses h' r = uses h r)"

definition adds :: "'h live_of \<Rightarrow> 'h uses_of \<Rightarrow> 'h \<Rightarrow> resource \<Rightarrow> resource set \<Rightarrow> 'h \<Rightarrow> bool" where
  "adds live uses h r A h' \<longleftrightarrow>
    r \<notin> live h \<and> live h' = insert r (live h) \<and> uses h' r = A \<and> (\<forall>x \<in> live h. uses h' x = uses h x)"

definition removes :: "'h live_of \<Rightarrow> 'h uses_of \<Rightarrow> 'h \<Rightarrow> resource \<Rightarrow> 'h \<Rightarrow> bool" where
  "removes live uses h r h' \<longleftrightarrow>
    live h' = live h - {r} \<and> (\<forall>x \<in> live h'. uses h' x = uses h x)"

definition unused :: "'h live_of \<Rightarrow> 'h uses_of \<Rightarrow> 'h \<Rightarrow> resource \<Rightarrow> bool" where
  "unused live uses h r \<longleftrightarrow> (\<forall>x \<in> live h. r \<notin> uses h x)"

definition closed :: "'h live_of \<Rightarrow> 'h uses_of \<Rightarrow> 'h \<Rightarrow> bool" where
  "closed live uses h \<longleftrightarrow> (\<forall>x \<in> live h. uses h x \<subseteq> live h)"

definition creation_law :: "'h live_of \<Rightarrow> 'h uses_of \<Rightarrow> 'h \<Rightarrow> resource set \<Rightarrow> (ptr \<Rightarrow> resource)
    \<Rightarrow> doca_error \<Rightarrow> ptr \<Rightarrow> 'h \<Rightarrow> bool" where
  "creation_law live uses h bound R st p h' \<longleftrightarrow>
    (if st = DOCA_SUCCESS then p \<noteq> null \<and> (\<exists>A. A \<subseteq> bound \<and> A \<subseteq> live h \<and> adds live uses h (R p) A h')
     else same live uses h h')"

definition release_law :: "'h live_of \<Rightarrow> 'h uses_of \<Rightarrow> 'h \<Rightarrow> resource \<Rightarrow> doca_error \<Rightarrow> 'h \<Rightarrow> bool" where
  "release_law live uses h r st h' \<longleftrightarrow>
    (if st = DOCA_SUCCESS then r \<in> live h \<longrightarrow> unused live uses h r \<longrightarrow> removes live uses h r h'
     else same live uses h h') \<and>
    (r \<in> live h \<longrightarrow> unused live uses h r \<longrightarrow> st = DOCA_SUCCESS)"

definition lawful :: "'h host \<Rightarrow> 'h live_of \<Rightarrow> 'h uses_of \<Rightarrow> bool" where
  "lawful H live uses \<longleftrightarrow>
    (\<forall>t h. case hs_alloc_uar H t h of (st, p, h') \<Rightarrow> creation_law live uses h {} RUar st p h') \<and>
    (\<forall>a n f h. case hs_umem_reg H a n f h of (st, p, h') \<Rightarrow>
       creation_law live uses h {RBuf a} RUmem st p h') \<and>
    (\<forall>i h. case hs_umem_reg_ex H i h of (st, p, h') \<Rightarrow> creation_law live uses h {} RUmem st p h') \<and>
    (\<forall>c h. case hs_obj_create H c h of (st, p, out, h') \<Rightarrow>
       creation_law live uses h UNIV RObj st p h') \<and>
    (\<forall>a n h. case hs_memalign H a n h of (p, h') \<Rightarrow>
       if p = null then same live uses h h' else adds live uses h (RBuf p) {} h') \<and>
    (\<forall>p n h. same live uses h (hs_zero H p n h)) \<and>
    (\<forall>p h. case hs_free_uar H p h of (st, h') \<Rightarrow> release_law live uses h (RUar p) st h') \<and>
    (\<forall>p h. case hs_umem_dereg H p h of (st, h') \<Rightarrow> release_law live uses h (RUmem p) st h') \<and>
    (\<forall>p h. case hs_obj_destroy H p h of (st, h') \<Rightarrow> release_law live uses h (RObj p) st h') \<and>
    (\<forall>p h. RBuf p \<in> live h \<longrightarrow> unused live uses h (RBuf p) \<longrightarrow>
       removes live uses h (RBuf p) (hs_free H p h))"

section \<open>Constructors, destructors\<close>

text \<open>
  How a call to \<^verbatim>\<open>create()\<close> ends: normally, with an exception that carries an error code, or in
  undefined behaviour (a division by zero, a write through a null pointer).
\<close>

datatype 'a made = Made 'a | Threw doca_error | Crashed

type_synonym ('a, 'o, 'h) making = "'a made \<times> 'o \<times> 'h"

definition and_then :: "('a, 'o, 'h) making \<Rightarrow> ('a \<Rightarrow> 'o \<Rightarrow> 'h \<Rightarrow> ('b, 'o, 'h) making)
    \<Rightarrow> ('b, 'o, 'h) making" where
  "and_then m f =
    (case m of (Made x, ob, h) \<Rightarrow> f x ob h | (Threw e, ob, h) \<Rightarrow> (Threw e, ob, h)
     | (Crashed, ob, h) \<Rightarrow> (Crashed, ob, h))"

lemma and_then_simps [simp]:
  "and_then (Made x, ob, h) f = f x ob h"
  "and_then (Threw e, ob, h) f = (Threw e, ob, h)"
  "and_then (Crashed, ob, h) f = (Crashed, ob, h)"
  by (simp_all add: and_then_def)

text \<open>
  \<^verbatim>\<open>try { create(); } catch (...) { (void)destroy(); throw; }\<close>: the object when there is one, and
  the state of the host.
\<close>

definition construct :: "('o \<Rightarrow> 'h \<Rightarrow> (unit, 'o, 'h) making) \<Rightarrow> ('o \<Rightarrow> 'h \<Rightarrow> doca_error \<times> 'o \<times> 'h)
    \<Rightarrow> 'o \<Rightarrow> 'h \<Rightarrow> 'o made \<times> 'h" where
  "construct create destroy blank h =
    (case create blank h of
       (Made u, ob, h') \<Rightarrow> (Made ob, h')
     | (Threw e, ob, h') \<Rightarrow> (Threw e, snd (snd (destroy ob h')))
     | (Crashed, ob, h') \<Rightarrow> (Crashed, h'))"

text \<open>\<^verbatim>\<open>delete\<close> runs the destructor, which calls \<^verbatim>\<open>destroy()\<close> once more and ignores its result.\<close>

definition delete_object :: "('o \<Rightarrow> 'h \<Rightarrow> doca_error \<times> 'o \<times> 'h) \<Rightarrow> 'o \<Rightarrow> 'h \<Rightarrow> 'h" where
  "delete_object destroy ob h = snd (snd (destroy ob h))"

text \<open>
  The API functions that create and destroy such an object behind a handle.  As in \<open>Handle\<close>, the
  memory of the handle itself is not tracked.  \<open>new_open\<close> is the constructor, \<open>Misuse\<close> when it
  dereferences a device or an attribute object that is not an open one.  A failed destruction is
  repeated by the destructor, and the handle is freed whatever the second attempt gives.
\<close>

definition api_create_h :: "bool \<Rightarrow> doca_sdk_wrapper_error \<times> 's option
    \<Rightarrow> ('h \<Rightarrow> ('o made \<times> 'h) outcome) \<Rightarrow> 'h
    \<Rightarrow> (doca_error \<times> ('s, 'o) handle option \<times> 'h) outcome" where
  "api_create_h calloc_ok sdk new_open h =
    (if \<not> calloc_ok then Ret (DOCA_ERROR_NO_MEMORY, None, h)
     else case sdk of (err, p) \<Rightarrow>
       let fail = (\<lambda>h. if p = None then Ret (DOCA_ERROR_INITIALIZATION, None, h) else Misuse) in
       (case err of
          DOCA_SDK_WRAPPER_SUCCESS \<Rightarrow>
            Ret (DOCA_SUCCESS, Some \<lparr>h_type = LIB_TYPE_SDK, h_member = sdk_ptr p\<rparr>, h)
        | DOCA_SDK_WRAPPER_API_ERROR \<Rightarrow> fail h
        | _ \<Rightarrow> (case new_open h of
                  Ret (Made ob, h') \<Rightarrow> Ret (DOCA_SUCCESS, Some (open_handle ob), h')
                | Ret (Threw e, h') \<Rightarrow> fail h'
                | _ \<Rightarrow> Misuse)))"

definition destroy_open_h :: "('o \<Rightarrow> 'h \<Rightarrow> doca_error \<times> 'o \<times> 'h) \<Rightarrow> ('s, 'o) member \<Rightarrow> 'h
    \<Rightarrow> (doca_error \<times> 'h) outcome" where
  "destroy_open_h destroy m h =
    (case m of
       Null \<Rightarrow> Ret (DOCA_ERROR_INVALID_VALUE, h)
     | SdkPtr s \<Rightarrow> Misuse
     | OpenPtr ob \<Rightarrow> (case destroy ob h of (st, ob', h') \<Rightarrow> Ret (st, delete_object destroy ob' h')))"

definition api_destroy_h :: "'s sdk_call \<Rightarrow> ('o \<Rightarrow> 'h \<Rightarrow> doca_error \<times> 'o \<times> 'h)
    \<Rightarrow> ('s, 'o) handle option \<Rightarrow> 'h \<Rightarrow> (doca_error \<times> 'h) outcome" where
  "api_destroy_h call destroy ho h =
    (case ho of
       None \<Rightarrow> Ret (DOCA_ERROR_INVALID_VALUE, h)
     | Some hn \<Rightarrow>
         if h_type hn = LIB_TYPE_SDK then
           case sdk_obj (h_member hn) of
             Misuse \<Rightarrow> Misuse
           | Ret p \<Rightarrow>
               (case call p of (err, p') \<Rightarrow>
                 (case err of
                    DOCA_SDK_WRAPPER_SUCCESS \<Rightarrow> Ret (DOCA_SUCCESS, h)
                  | DOCA_SDK_WRAPPER_API_ERROR \<Rightarrow>
                      (if p' = None then Ret (DOCA_ERROR_UNEXPECTED, h) else Misuse)
                  | _ \<Rightarrow> destroy_open_h destroy (sdk_ptr p' :: ('s, 'o) member) h))
         else destroy_open_h destroy (h_member hn) h)"

section \<open>Holding resources\<close>

text \<open>
  A resource is used by those of higher rank only; \<open>held S\<close> says that nothing outside of \<open>S\<close> uses
  a member of \<open>S\<close>.  What is held can be given back in the order of falling rank.
\<close>

fun res_rank :: "resource \<Rightarrow> nat" where
  "res_rank (RBuf p) = 0"
| "res_rank (RUmem p) = 1"
| "res_rank (RUar p) = 1"
| "res_rank (RObj p) = 2"

definition held :: "'h live_of \<Rightarrow> 'h uses_of \<Rightarrow> resource set \<Rightarrow> 'h \<Rightarrow> bool" where
  "held live uses S h \<longleftrightarrow>
    S \<subseteq> live h \<and> (\<forall>x \<in> live h - S. uses h x \<inter> S = {}) \<and>
    (\<forall>x \<in> S. \<forall>y \<in> uses h x \<inter> S. res_rank y < res_rank x)"

definition tidy :: "'h live_of \<Rightarrow> 'h uses_of \<Rightarrow> resource set \<Rightarrow> resource set \<Rightarrow> 'h \<Rightarrow> bool" where
  "tidy live uses L S h \<longleftrightarrow>
    closed live uses h \<and> held live uses S h \<and> live h = L \<union> S \<and> L \<inter> S = {}"

lemma tidy_start: "closed live uses h \<Longrightarrow> tidy live uses (live h) {} h"
  by (simp add: tidy_def held_def)

lemma tidy_same: "same live uses h h' \<Longrightarrow> tidy live uses L S h \<Longrightarrow> tidy live uses L S h'"
proof -
  assume s: "same live uses h h'" and t: "tidy live uses L S h"
  have eq: "live h' = live h" "\<And>x. x \<in> live h \<Longrightarrow> uses h' x = uses h x"
    using s by (auto simp: same_def)
  have "closed live uses h" using t by (simp add: tidy_def)
  then have "closed live uses h'" using eq unfolding closed_def by metis
  moreover have "held live uses S h'"
    using t eq unfolding tidy_def held_def by (metis DiffD1 subsetD)
  ultimately show "tidy live uses L S h'" using t eq(1) by (simp add: tidy_def)
qed

lemma tidy_adds:
  assumes "adds live uses h r A h'" "A \<subseteq> live h" "tidy live uses L S h"
    and low: "\<forall>y \<in> A \<inter> S. res_rank y < res_rank r"
  shows "tidy live uses L (insert r S) h'"
proof -
  have r: "r \<notin> live h" "live h' = insert r (live h)" "uses h' r = A"
      "\<And>x. x \<in> live h \<Longrightarrow> uses h' x = uses h x"
    using assms(1) by (auto simp: adds_def)
  have S: "S \<subseteq> live h" "live h = L \<union> S" "L \<inter> S = {}" and
      cl: "\<And>x. x \<in> live h \<Longrightarrow> uses h x \<subseteq> live h"
    using assms(3) unfolding tidy_def held_def closed_def by blast+
  have "closed live uses h'"
    using cl r assms(2) unfolding closed_def by (metis insert_iff subset_insertI2)
  moreover have "held live uses (insert r S) h'"
    unfolding held_def
  proof (intro conjI ballI)
    show "insert r S \<subseteq> live h'" using S r by auto
  next
    fix x assume "x \<in> live h' - insert r S"
    then have x: "x \<in> live h" "x \<notin> S" using r by auto
    then have "uses h x \<inter> S = {}" using assms(3) by (auto simp: tidy_def held_def)
    then show "uses h' x \<inter> insert r S = {}" using r x cl [OF x(1)] by auto
  next
    fix x y assume x: "x \<in> insert r S" and y: "y \<in> uses h' x \<inter> insert r S"
    show "res_rank y < res_rank x"
    proof (cases "x = r")
      case True
      then have "y \<in> A \<inter> S" using y r(3) r(1) assms(2) by auto
      then show ?thesis using low True by simp
    next
      case False
      then have xs: "x \<in> S" "x \<in> live h" using x S(1) by auto
      then have "y \<in> uses h x" "y \<in> live h" using y r(4) cl by auto
      then show ?thesis using assms(3) xs y r(1) by (auto simp: tidy_def held_def)
    qed
  qed
  ultimately show ?thesis using S r by (auto simp: tidy_def)
qed

lemma held_unused:
  assumes "held live uses S h" "r \<in> S" "\<forall>x \<in> S. res_rank x \<le> res_rank r"
  shows "unused live uses h r"
  unfolding unused_def
proof (intro ballI notI)
  fix x assume x: "x \<in> live h" "r \<in> uses h x"
  show False
  proof (cases "x \<in> S")
    case True
    then have "res_rank r < res_rank x" using assms x by (auto simp: held_def)
    then show False using assms(3) True by auto
  qed (use assms x in \<open>auto simp: held_def\<close>)
qed

lemma tidy_removes:
  assumes "removes live uses h r h'" "tidy live uses L S h" "r \<in> S" "unused live uses h r"
  shows "tidy live uses L (S - {r}) h'"
proof -
  have r: "live h' = live h - {r}" "\<And>x. x \<in> live h' \<Longrightarrow> uses h' x = uses h x"
    using assms(1) by (auto simp: removes_def)
  have t: "closed live uses h" "held live uses S h" "live h = L \<union> S" "L \<inter> S = {}"
    using assms(2) by (auto simp: tidy_def)
  have "closed live uses h'"
    using t(1) r assms(4) by (fastforce simp: closed_def unused_def)
  moreover have "held live uses (S - {r}) h'"
    using t(2) r by (fastforce simp: held_def)
  ultimately show ?thesis using r(1) t(3,4) assms(3) by (auto simp: tidy_def)
qed

text \<open>The steps the classes take, as they preserve \<open>tidy\<close>.\<close>

lemma tidy_release:
  assumes "release_law live uses h r st h'" "tidy live uses L S h" "r \<in> S" "\<forall>x \<in> S. res_rank x \<le> res_rank r"
  shows "st = DOCA_SUCCESS \<and> tidy live uses L (S - {r}) h'"
proof -
  have u: "unused live uses h r" "r \<in> live h"
    using held_unused [OF _ assms(3,4)] assms(2,3) by (auto simp: tidy_def)
  then have "st = DOCA_SUCCESS" "removes live uses h r h'"
    using assms(1) by (auto simp: release_law_def)
  then show ?thesis using tidy_removes [OF _ assms(2,3) u(1)] by simp
qed

lemma tidy_creation:
  assumes "creation_law live uses h B R st p h'" "tidy live uses L S h"
    and "\<forall>y \<in> B \<inter> S. res_rank y < res_rank (R p)"
  shows "if st = DOCA_SUCCESS then p \<noteq> null \<and> tidy live uses L (insert (R p) S) h'
    else tidy live uses L S h'"
proof (cases "st = DOCA_SUCCESS")
  case True
  then obtain A where A: "A \<subseteq> B" "A \<subseteq> live h" "adds live uses h (R p) A h'" "p \<noteq> null"
    using assms(1) by (auto simp: creation_law_def)
  from tidy_adds [OF A(3,2) assms(2)] A(1) assms(3) show ?thesis using True A(4) by auto
qed (use assms tidy_same in \<open>auto simp: creation_law_def\<close>)

lemma lawful_steps:
  assumes "lawful H live uses"
  shows "hs_alloc_uar H t h = (st, p, h') \<Longrightarrow> creation_law live uses h {} RUar st p h'"
    and "hs_umem_reg H a n f h = (st, p, h') \<Longrightarrow> creation_law live uses h {RBuf a} RUmem st p h'"
    and "hs_umem_reg_ex H i h = (st, p, h') \<Longrightarrow> creation_law live uses h {} RUmem st p h'"
    and "hs_obj_create H c h = (st, p, out, h') \<Longrightarrow> creation_law live uses h UNIV RObj st p h'"
    and "hs_memalign H x y h = (p, h') \<Longrightarrow>
      (if p = null then same live uses h h' else adds live uses h (RBuf p) {} h')"
    and "same live uses h (hs_zero H p y h)"
    and "hs_free_uar H p h = (st, h') \<Longrightarrow> release_law live uses h (RUar p) st h'"
    and "hs_umem_dereg H p h = (st, h') \<Longrightarrow> release_law live uses h (RUmem p) st h'"
    and "hs_obj_destroy H p h = (st, h') \<Longrightarrow> release_law live uses h (RObj p) st h'"
    and "RBuf p \<in> live h \<Longrightarrow> unused live uses h (RBuf p) \<Longrightarrow>
      removes live uses h (RBuf p) (hs_free H p h)"
  using assms unfolding lawful_def by (force split: prod.splits)+

text \<open>
  A member of a class that points to a resource, or is null; and the two ways a \<^verbatim>\<open>destroy()\<close>
  empties it: \<^verbatim>\<open>if (m) { status = f(m); if (status != DOCA_SUCCESS) return status; m = nullptr; }\<close>
  for the objects of the driver, and the same without a status for a buffer.
\<close>

definition slot :: "(ptr \<Rightarrow> resource) \<Rightarrow> ptr \<Rightarrow> resource set" where
  "slot R p = (if p = null then {} else {R p})"

lemma slot_simps [simp]:
  "slot R null = {}" "p \<noteq> null \<Longrightarrow> slot R p = {R p}" "x \<in> slot R p \<longleftrightarrow> p \<noteq> null \<and> x = R p"
  by (auto simp: slot_def)

definition release_slot :: "(ptr \<Rightarrow> 'h \<Rightarrow> doca_error \<times> 'h) \<Rightarrow> ptr \<Rightarrow> 'h \<Rightarrow> doca_error \<times> ptr \<times> 'h" where
  "release_slot f p h =
    (if p = null then (DOCA_SUCCESS, null, h)
     else case f p h of (st, h') \<Rightarrow>
       if st \<noteq> DOCA_SUCCESS then (st, p, h') else (DOCA_SUCCESS, null, h'))"

definition free_slot :: "(ptr \<Rightarrow> 'h \<Rightarrow> 'h) \<Rightarrow> ptr \<Rightarrow> 'h \<Rightarrow> ptr \<times> 'h" where
  "free_slot f p h = (if p = null then (null, h) else (null, f p h))"

lemma release_slot_tidy:
  assumes "\<And>st h'. f p h = (st, h') \<Longrightarrow> release_law live uses h (R p) st h'"
    and t: "tidy live uses L (slot R p \<union> S) h" and n: "R p \<notin> S" "\<forall>x \<in> S. res_rank x \<le> res_rank (R p)"
    and c: "release_slot f p h = (st, p', h')"
  shows "st = DOCA_SUCCESS \<and> p' = null \<and> tidy live uses L S h'"
proof (cases "p = null")
  case False
  obtain st1 h1 where f: "f p h = (st1, h1)" by fastforce
  have "st1 = DOCA_SUCCESS \<and> tidy live uses L (slot R p \<union> S - {R p}) h1"
    by (rule tidy_release [OF assms(1) [OF f] t]) (use n False in auto)
  moreover have "slot R p \<union> S - {R p} = S" using False n(1) by auto
  ultimately show ?thesis using c f False by (simp add: release_slot_def)
qed (use t c in \<open>simp add: release_slot_def\<close>)

lemma free_slot_tidy:
  assumes l: "lawful H live uses" and t: "tidy live uses L (slot RBuf p) h"
    and c: "free_slot (hs_free H) p h = (p', h')"
  shows "p' = null \<and> tidy live uses L {} h'"
proof (cases "p = null")
  case False
  have h: "held live uses {RBuf p} h" using t False by (simp add: tidy_def)
  have u: "unused live uses h (RBuf p)" by (rule held_unused [OF h]) simp_all
  have "RBuf p \<in> live h" using h by (simp add: held_def)
  from tidy_removes [OF lawful_steps(10) [OF l this u] t _ u] show ?thesis
    using c False by (simp add: free_slot_def)
qed (use t c in \<open>simp add: free_slot_def\<close>)

text \<open>
  The account of an API creation: an error leaves alive what was alive before; an open handle owns
  exactly what was added, and destroying it succeeds and takes it away again; an SDK handle leaves
  the host alone.
\<close>

definition balanced :: "'h live_of \<Rightarrow> ('o \<Rightarrow> resource set)
    \<Rightarrow> (('s, 'o) handle option \<Rightarrow> 'h \<Rightarrow> (doca_error \<times> 'h) outcome) \<Rightarrow> 'h
    \<Rightarrow> doca_error \<times> ('s, 'o) handle option \<times> 'h \<Rightarrow> bool" where
  "balanced live owned destroy h r \<longleftrightarrow>
    (case r of (e, hdl, h') \<Rightarrow>
      (case hdl of
         None \<Rightarrow> e \<noteq> DOCA_SUCCESS \<and> live h' = live h
       | Some hn \<Rightarrow> e = DOCA_SUCCESS \<and>
           (case h_member hn of
              OpenPtr ob \<Rightarrow> live h' = live h \<union> owned ob \<and> live h \<inter> owned ob = {} \<and>
                (\<exists>h''. destroy hdl h' = Ret (DOCA_SUCCESS, h'') \<and> live h'' = live h)
            | _ \<Rightarrow> h' = h)))"

section \<open>Classes that own resources\<close>

text \<open>
  What such a class promises: \<^verbatim>\<open>create()\<close> on a new object leaves it holding exactly what was added
  to the host, even if it threw; \<^verbatim>\<open>destroy()\<close> of an object that holds its resources succeeds, gives
  all of them back and can be repeated.  Then a constructor that throws leaves no trace.
\<close>

locale owner =
  fixes create :: "'h host \<Rightarrow> 'o \<Rightarrow> 'h \<Rightarrow> (unit, 'o, 'h) making"
    and destroy :: "'h host \<Rightarrow> 'o \<Rightarrow> 'h \<Rightarrow> doca_error \<times> 'o \<times> 'h"
    and owned :: "'o \<Rightarrow> resource set"
    and fresh :: "'o \<Rightarrow> bool"
  assumes create_tidy: "\<lbrakk>lawful H live uses; tidy live uses L {} h; fresh ob; create H ob h = (m, ob', h');
      m \<noteq> Crashed\<rbrakk> \<Longrightarrow> tidy live uses L (owned ob') h'"
    and destroy_tidy: "\<lbrakk>lawful H live uses; tidy live uses L (owned ob) h; destroy H ob h = (st, ob', h')\<rbrakk>
      \<Longrightarrow> st = DOCA_SUCCESS \<and> owned ob' = {} \<and> tidy live uses L {} h'"
begin

lemma construct_tidy:
  assumes "lawful H live uses" "closed live uses h" "fresh ob"
    and "construct (create H) (destroy H) ob h = (m, h')"
  shows "case m of Made ob' \<Rightarrow> tidy live uses (live h) (owned ob') h'
    | Threw e \<Rightarrow> tidy live uses (live h) {} h' | Crashed \<Rightarrow> True"
proof -
  obtain m' ob1 h1 where c: "create H ob h = (m', ob1, h1)" by (metis prod_cases3)
  note t = create_tidy [OF assms(1) tidy_start [OF assms(2)] assms(3) c]
  show ?thesis
  proof (cases m')
    case (Threw e)
    obtain st ob2 h2 where d: "destroy H ob1 h1 = (st, ob2, h2)" by (metis prod_cases3)
    with t Threw destroy_tidy [OF assms(1) _ d] assms(4) c show ?thesis
      by (auto simp: construct_def)
  qed (use t assms(4) c in \<open>auto simp: construct_def\<close>)
qed

lemma destroy_gives_back:
  assumes "lawful H live uses" "tidy live uses L (owned ob) h" "destroy H ob h = (st, ob', h')"
  shows "st = DOCA_SUCCESS \<and> live h' = L \<and> live (delete_object (destroy H) ob' h') = L"
proof -
  have d: "st = DOCA_SUCCESS" "owned ob' = {}" "tidy live uses L {} h'"
    using destroy_tidy [OF assms] by auto
  obtain st2 ob2 h2 where e: "destroy H ob' h' = (st2, ob2, h2)" by (metis prod_cases3)
  with destroy_tidy [OF assms(1) _ e] d have "tidy live uses L {} h2" by auto
  with d e show ?thesis by (simp add: delete_object_def tidy_def)
qed

text \<open>The same behind a handle.\<close>

lemma api_create_tidy:
  assumes l: "lawful H live uses" and cl: "closed live uses h" and f: "fresh ob"
    and c: "api_create_h calloc_ok sdk new_open h = Ret (e, hdl, h')"
    and new: "\<And>r. new_open h = Ret r \<Longrightarrow> r = construct (create H) (destroy H) ob h \<or> (\<exists>e. r = (Threw e, h))"
  shows "case hdl of None \<Rightarrow> e \<noteq> DOCA_SUCCESS \<and> live h' = live h
    | Some hn \<Rightarrow> e = DOCA_SUCCESS \<and>
        (case h_member hn of
           OpenPtr q \<Rightarrow> h_type hn = LIB_TYPE_OPEN \<and> tidy live uses (live h) (owned q) h'
         | _ \<Rightarrow> h' = h)"
proof -
  obtain err p where sdk: "sdk = (err, p)" by fastforce
  show ?thesis
  proof (cases "new_open h")
    case (Ret r)
    obtain m h1 where r: "r = (m, h1)" by fastforce
    have t: "case m of Made ob' \<Rightarrow> tidy live uses (live h) (owned ob') h1
      | Threw e \<Rightarrow> live h1 = live h | Crashed \<Rightarrow> True"
      using new [OF Ret] construct_tidy [OF l cl f, of m h1] r
      by (auto simp: tidy_def split: made.splits)
    then show ?thesis
      using c Ret r sdk
      by (cases m; cases err)
        (auto simp: api_create_h_def open_handle_def sdk_ptr_def Let_def split: if_splits option.splits)
  next
    case Misuse
    then show ?thesis
      using c sdk
      by (cases err) (auto simp: api_create_h_def sdk_ptr_def Let_def split: if_splits option.splits)
  qed
qed

lemma api_destroy_tidy:
  assumes "lawful H live uses" "tidy live uses L (owned ob) h" "h_type hn = LIB_TYPE_OPEN"
    and "h_member hn = OpenPtr ob"
  shows "\<exists>h'. api_destroy_h call (destroy H) (Some hn) h = Ret (DOCA_SUCCESS, h') \<and> live h' = L"
proof -
  obtain st ob' h1 where d: "destroy H ob h = (st, ob', h1)" by (metis prod_cases3)
  then show ?thesis
    using destroy_gives_back [OF assms(1,2) d] assms(3,4) by (simp add: api_destroy_h_def destroy_open_h_def)
qed

lemma api_create_balanced:
  assumes "lawful H live uses" "closed live uses h" "fresh ob"
    and "api_create_h calloc_ok sdk new_open h = Ret (e, hdl, h')"
    and "\<And>r. new_open h = Ret r \<Longrightarrow> r = construct (create H) (destroy H) ob h \<or> (\<exists>e. r = (Threw e, h))"
  shows "balanced live owned (api_destroy_h call (destroy H)) h (e, hdl, h')"
  using api_create_tidy [OF assms] api_destroy_tidy [OF assms(1), of "live h" _ h' _ call]
  by (auto simp: balanced_def tidy_def split: option.splits member.splits)

end

end
