(* ===== verification/VerbsRes.thy ===== *)
theory VerbsRes
  imports HostRes VerbsAttr VerbsQp
begin

text \<open>
  Device capabilities (\<^verbatim>\<open>src/doca_verbs_device_attr.cpp\<close>), user access regions
  (\<^verbatim>\<open>src/doca_verbs_uar.cpp\<close>) and registered memory (\<^verbatim>\<open>src/doca_verbs_umem.cpp\<close>), with the
  build options of \<^verbatim>\<open>include/doca_gpunetio_config.h\<close>, all of which are on.
\<close>

section \<open>Device capabilities\<close>

definition translate_gid_table_size :: "u16 \<Rightarrow> u16" where
  "translate_gid_table_size prm =
    (if prm = 0 then 8 else if prm = 1 then 16 else if prm = 2 then 32 else if prm = 3 then 64
     else if prm = 4 then 128 else 0)"

definition cap_op_mod :: devx_field where "cap_op_mod = Field 0x30 16"

text \<open>The capability is at bit \<open>0x80\<close> of the answer.\<close>

definition cap_hca_cap_2 :: devx_field where "cap_hca_cap_2 = Field (0x80 + 0x20) 1"
definition cap_log_max_qp_sz :: devx_field where "cap_log_max_qp_sz = Field (0x80 + 0x88) 8"
definition cap_rts2rts_qp_dscp :: devx_field where "cap_rts2rts_qp_dscp = Field (0x80 + 0x16a) 1"
definition cap_gid_table_size :: devx_field where "cap_gid_table_size = Field (0x80 + 0x170) 16"
definition cap_port_type :: devx_field where "cap_port_type = Field (0x80 + 0x1b6) 2"
definition cap_rc :: devx_field where "cap_rc = Field (0x80 + 0x23f) 1"
definition cap_max_wqe_sz_sq :: devx_field where "cap_max_wqe_sz_sq = Field (0x80 + 0x290) 16"
definition cap_max_wqe_sz_rq :: devx_field where "cap_max_wqe_sz_rq = Field (0x80 + 0x2b0) 16"
definition cap_send_dbr_mode_no_dbr_ext :: devx_field where
  "cap_send_dbr_mode_no_dbr_ext = Field (0x80 + 0x2e1) 1"
definition roce_max_src_udp_port :: devx_field where "roce_max_src_udp_port = Field (0x80 + 0xc0) 16"
definition roce_min_src_udp_port :: devx_field where "roce_min_src_udp_port = Field (0x80 + 0xd0) 16"
definition roce_address_table_size :: devx_field where
  "roce_address_table_size = Field (0x80 + 0xf0) 16"

definition query_hca_cap :: "'h host \<Rightarrow> u32 \<Rightarrow> 'h \<Rightarrow> doca_error \<times> devx_buf" where
  "query_hca_cap H op_mod h =
    hs_general_cmd H (devx_set cap_op_mod (1 OR op_mod) (devx_set cmd_opcode 0x100 devx_zero)) h"

text \<open>
  \<open>query_caps\<close> asks the driver for the verbs attributes and the device for its general, RoCE and,
  where it says it has them, second general capabilities; the first failure ends it.
\<close>

definition verbs_caps :: "ibv_device_attr \<Rightarrow> device_attr" where
  "verbs_caps a = new_device_attr
    \<lparr>da_max_qp := ib_max_qp a, da_max_qp_wr := ib_max_qp_wr a, da_max_sge := ib_max_sge a,
     da_max_cq := ib_max_cq a, da_max_cqe := ib_max_cqe a, da_max_mr := ib_max_mr a,
     da_max_pd := ib_max_pd a, da_max_ah := ib_max_ah a, da_max_srq := ib_max_srq a,
     da_max_srq_wr := ib_max_srq_wr a, da_max_srq_sge := ib_max_srq_sge a,
     da_max_pkeys := ucast (ib_max_pkeys a), da_phys_port_cnt := ib_phys_port_cnt a,
     da_max_qp_init_rd_atom := ucast (ib_max_qp_init_rd_atom a),
     da_max_qp_rd_atom := ucast (ib_max_qp_rd_atom a), da_send_dbr_mode_no_dbr_ext := 0\<rparr>"

definition general_caps :: "devx_buf \<Rightarrow> device_attr \<Rightarrow> device_attr" where
  "general_caps out d =
    (let d = d\<lparr>da_port_type := ucast (devx_get cap_port_type out)\<rparr>;
         d = (if da_port_type d = 0
              then d\<lparr>da_gid_table_size := translate_gid_table_size (ucast (devx_get cap_gid_table_size out))\<rparr>
              else d)
     in d\<lparr>da_is_qp_rc_supported := ucast (devx_get cap_rc out),
          da_is_rts2rts_qp_dscp_supported := ucast (devx_get cap_rts2rts_qp_dscp out),
          da_max_sq_desc_size := devx_get cap_max_wqe_sz_sq out,
          da_max_rq_desc_size := devx_get cap_max_wqe_sz_rq out,
          da_max_send_wqebb := push_bit (unat (devx_get cap_log_max_qp_sz out)) 1\<rparr>)"

definition roce_caps :: "devx_buf \<Rightarrow> device_attr \<Rightarrow> device_attr" where
  "roce_caps out d =
    (let d = (if da_port_type d = 1
              then d\<lparr>da_gid_table_size := ucast (devx_get roce_address_table_size out)\<rparr> else d)
     in d\<lparr>da_min_udp_sport := ucast (devx_get roce_min_src_udp_port out),
          da_max_udp_sport := ucast (devx_get roce_max_src_udp_port out)\<rparr>)"

definition query_caps :: "'h host \<Rightarrow> 'h \<Rightarrow> doca_error + device_attr" where
  "query_caps H h =
    (case hs_query_device H h of (ret, a) \<Rightarrow>
       if ret \<noteq> DOCA_SUCCESS then Inl ret
       else case query_hca_cap H 0 h of (ret, out) \<Rightarrow>
         if ret \<noteq> DOCA_SUCCESS then Inl ret
         else case query_hca_cap H 8 h of (ret, roce) \<Rightarrow>
           if ret \<noteq> DOCA_SUCCESS then Inl ret
           else
             let d = roce_caps roce (general_caps out (verbs_caps a)) in
             (if devx_get cap_hca_cap_2 out = 0 then Inr d
              else case query_hca_cap H 0x40 h of (ret, out2) \<Rightarrow>
                if ret \<noteq> DOCA_SUCCESS then Inl ret
                else Inr (d\<lparr>da_send_dbr_mode_no_dbr_ext :=
                      ucast (devx_get cap_send_dbr_mode_no_dbr_ext out2)\<rparr>)))"

definition verbs_query_device :: "'h host \<Rightarrow> ptr \<Rightarrow> bool \<Rightarrow> 'h \<Rightarrow> doca_error + device_attr" where
  "verbs_query_device H context result_ptr_ok h =
    (if context = null then Inl DOCA_ERROR_INVALID_VALUE
     else if \<not> result_ptr_ok then Inl DOCA_ERROR_INVALID_VALUE
     else query_caps H h)"

text \<open>Freeing the attribute object leaves no pointer to it.\<close>

definition verbs_device_attr_free :: "device_attr option \<Rightarrow> doca_error \<times> device_attr option" where
  "verbs_device_attr_free d =
    (case d of None \<Rightarrow> (DOCA_ERROR_INVALID_VALUE, None) | Some a \<Rightarrow> (DOCA_SUCCESS, None))"

definition verbs_device_attr_get_max_pkeys :: "device_attr \<Rightarrow> u16" where
  "verbs_device_attr_get_max_pkeys d = ucast (da_max_pkeys d)"

definition verbs_device_attr_get_is_qp_type_supported :: "device_attr \<Rightarrow> u32 \<Rightarrow> doca_error" where
  "verbs_device_attr_get_is_qp_type_supported d qp_type =
    (if qp_type = QP_TYPE_RC
     then (if da_is_qp_rc_supported d \<noteq> 0 then DOCA_SUCCESS else DOCA_ERROR_NOT_SUPPORTED)
     else DOCA_ERROR_INVALID_VALUE)"

section \<open>User access regions\<close>

datatype uar_allocation_type =
    UAR_ALLOCATION_TYPE_BLUEFLAME
  | UAR_ALLOCATION_TYPE_NONCACHE
  | UAR_ALLOCATION_TYPE_NONCACHE_DEDICATED
  | UAR_ALLOCATION_TYPE_OTHER u32

definition MLX5DV_UAR_ALLOC_TYPE_BF :: u32 where "MLX5DV_UAR_ALLOC_TYPE_BF = 0"
definition MLX5DV_UAR_ALLOC_TYPE_NC :: u32 where "MLX5DV_UAR_ALLOC_TYPE_NC = 1"
definition MLX5DV_UAR_ALLOC_TYPE_NC_DEDICATED :: u32 where
  "MLX5DV_UAR_ALLOC_TYPE_NC_DEDICATED = push_bit 31 1"

fun convert_doca_verbs_uar_type_to_mlx5_uar_type :: "uar_allocation_type \<Rightarrow> doca_error + u32" where
  "convert_doca_verbs_uar_type_to_mlx5_uar_type UAR_ALLOCATION_TYPE_BLUEFLAME =
    Inr MLX5DV_UAR_ALLOC_TYPE_BF"
| "convert_doca_verbs_uar_type_to_mlx5_uar_type UAR_ALLOCATION_TYPE_NONCACHE =
    Inr MLX5DV_UAR_ALLOC_TYPE_NC"
| "convert_doca_verbs_uar_type_to_mlx5_uar_type UAR_ALLOCATION_TYPE_NONCACHE_DEDICATED =
    Inr MLX5DV_UAR_ALLOC_TYPE_NC_DEDICATED"
| "convert_doca_verbs_uar_type_to_mlx5_uar_type (UAR_ALLOCATION_TYPE_OTHER n) =
    Inl DOCA_ERROR_INVALID_VALUE"

record uar_open =
  ua_uar :: ptr
  ua_allocation_type :: uar_allocation_type
  ua_uar_id :: u32
  ua_reg_addr :: ptr
  ua_dbr_less_addr :: ptr

definition new_uar :: "uar_allocation_type \<Rightarrow> uar_open" where
  "new_uar t = \<lparr>ua_uar = null, ua_allocation_type = t, ua_uar_id = 0, ua_reg_addr = null,
     ua_dbr_less_addr = null\<rparr>"

definition uar_open_create :: "'h host \<Rightarrow> uar_open \<Rightarrow> 'h \<Rightarrow> (unit, uar_open, 'h) making" where
  "uar_open_create H u h =
    (case convert_doca_verbs_uar_type_to_mlx5_uar_type (ua_allocation_type u) of
       Inl e \<Rightarrow> (Threw DOCA_ERROR_DRIVER, u, h)
     | Inr t \<Rightarrow>
         (case hs_alloc_uar H t h of (st, p, h') \<Rightarrow>
            if st \<noteq> DOCA_SUCCESS then (Threw st, u, h')
            else (Made (), u\<lparr>ua_uar := p, ua_uar_id := hs_uar_page_id H p h',
                   ua_reg_addr := hs_uar_reg_addr H p h',
                   ua_dbr_less_addr := hs_uar_base_addr H p h' + 0x600\<rparr>, h')))"

definition uar_open_destroy :: "'h host \<Rightarrow> uar_open \<Rightarrow> 'h \<Rightarrow> doca_error \<times> uar_open \<times> 'h" where
  "uar_open_destroy H u h =
    (if ua_uar u \<noteq> null
     then case hs_free_uar H (ua_uar u) h of (st, h') \<Rightarrow>
       if st \<noteq> DOCA_SUCCESS then (st, u, h') else (DOCA_SUCCESS, u\<lparr>ua_uar := null\<rparr>, h')
     else (DOCA_SUCCESS, u, h))"

type_synonym 's uar = "('s, uar_open) handle option"

text \<open>The constructor runs on an open device; any other one is dereferenced as an open device.\<close>

definition uar_create :: "'h host \<Rightarrow> bool \<Rightarrow> bool \<Rightarrow> net_dev \<Rightarrow> uar_allocation_type
    \<Rightarrow> doca_sdk_wrapper_error \<times> 's option \<Rightarrow> 'h \<Rightarrow> (doca_error \<times> 's uar \<times> 'h) outcome" where
  "uar_create H result_ptr_ok calloc_ok dev t sdk h =
    (if \<not> result_ptr_ok then Ret (DOCA_ERROR_INVALID_VALUE, None, h)
     else if dev = NoDev then Ret (DOCA_ERROR_INVALID_VALUE, None, h)
     else api_create_h calloc_ok sdk
       (\<lambda>h. case dev of
          OpenDev pd \<Rightarrow> Ret (construct (uar_open_create H) (uar_open_destroy H) (new_uar t) h)
        | _ \<Rightarrow> Misuse) h)"

definition uar_destroy :: "'h host \<Rightarrow> 's sdk_call \<Rightarrow> 's uar \<Rightarrow> 'h \<Rightarrow> (doca_error \<times> 'h) outcome" where
  "uar_destroy H sdk = api_destroy_h sdk (uar_open_destroy H)"

definition uar_id_get :: "('s, u32) sdk_get \<Rightarrow> bool \<Rightarrow> 's uar \<Rightarrow> (doca_error \<times> u32 option) outcome" where
  "uar_id_get sdk result_ptr_ok = get_handle result_ptr_ok (try_sdk_get sdk (get_open ua_uar_id))"

definition uar_reg_addr_get :: "('s, ptr) sdk_get \<Rightarrow> bool \<Rightarrow> 's uar \<Rightarrow> (doca_error \<times> ptr option) outcome" where
  "uar_reg_addr_get sdk result_ptr_ok =
    get_handle result_ptr_ok (try_sdk_get sdk (get_open ua_reg_addr))"

text \<open>An SDK region is asked for its ordinary register address here too.\<close>

definition uar_dbr_less_addr_get :: "('s, ptr) sdk_get \<Rightarrow> bool \<Rightarrow> 's uar
    \<Rightarrow> (doca_error \<times> ptr option) outcome" where
  "uar_dbr_less_addr_get sdk_reg_addr result_ptr_ok =
    get_handle result_ptr_ok (try_sdk_get sdk_reg_addr (get_open ua_dbr_less_addr))"

section \<open>Registered memory\<close>

record umem_open =
  um_umem :: ptr
  um_address :: ptr
  um_size :: u64
  um_access_flags :: u32
  um_umem_id :: u32
  um_dmabuf_fd :: int
  um_dmabuf_offset :: u64

definition new_umem :: "ptr \<Rightarrow> u64 \<Rightarrow> u32 \<Rightarrow> int \<Rightarrow> u64 \<Rightarrow> umem_open" where
  "new_umem address n access_flags dmabuf_fd dmabuf_offset =
    \<lparr>um_umem = null, um_address = address, um_size = n, um_access_flags = access_flags,
     um_umem_id = 0, um_dmabuf_fd = dmabuf_fd, um_dmabuf_offset = dmabuf_offset\<rparr>"

text \<open>\<^verbatim>\<open>(int)DOCA_VERBS_DMABUF_INVALID_FD\<close> is \<open>-1\<close>.\<close>

definition umem_open_create :: "'h host \<Rightarrow> umem_open \<Rightarrow> 'h \<Rightarrow> (unit, umem_open, 'h) making" where
  "umem_open_create H u h =
    (case (if um_dmabuf_fd u \<noteq> -1
           then hs_umem_reg_ex H
             \<lparr>ui_addr = unat (um_dmabuf_offset u), ui_size = um_size u, ui_access = um_access_flags u,
              ui_pgsz_bitmap = hs_pagesize H, ui_comp_mask = 1, ui_dmabuf_fd = um_dmabuf_fd u\<rparr> h
           else hs_umem_reg H (um_address u) (um_size u) (um_access_flags u) h) of
       (st, p, h') \<Rightarrow>
         if st \<noteq> DOCA_SUCCESS then (Threw st, u, h')
         else (Made (), u\<lparr>um_umem := p, um_umem_id := hs_umem_id H p h'\<rparr>, h'))"

definition umem_open_destroy :: "'h host \<Rightarrow> umem_open \<Rightarrow> 'h \<Rightarrow> doca_error \<times> umem_open \<times> 'h" where
  "umem_open_destroy H u h =
    (if um_umem u \<noteq> null
     then case hs_umem_dereg H (um_umem u) h of (st, h') \<Rightarrow>
       if st \<noteq> DOCA_SUCCESS then (st, u, h') else (DOCA_SUCCESS, u\<lparr>um_umem := null\<rparr>, h')
     else (DOCA_SUCCESS, u, h))"

type_synonym 's umem = "('s, umem_open) handle option"

text \<open>The arguments are checked between the two attempts, after the handle was allocated.\<close>

definition umem_create :: "'h host \<Rightarrow> bool \<Rightarrow> bool \<Rightarrow> net_dev \<Rightarrow> ptr \<Rightarrow> u64 \<Rightarrow> u32 \<Rightarrow> int \<Rightarrow> u64
    \<Rightarrow> doca_sdk_wrapper_error \<times> 's option \<Rightarrow> 'h \<Rightarrow> (doca_error \<times> 's umem \<times> 'h) outcome" where
  "umem_create H result_ptr_ok calloc_ok dev address n access_flags dmabuf_fd dmabuf_offset sdk h =
    (if \<not> result_ptr_ok then Ret (DOCA_ERROR_INVALID_VALUE, None, h)
     else if dev = NoDev then Ret (DOCA_ERROR_INVALID_VALUE, None, h)
     else if calloc_ok \<and> fst sdk \<noteq> DOCA_SDK_WRAPPER_SUCCESS \<and> fst sdk \<noteq> DOCA_SDK_WRAPPER_API_ERROR \<and>
       (address = null \<or> n = 0) then Ret (DOCA_ERROR_INVALID_VALUE, None, h)
     else api_create_h calloc_ok sdk
       (\<lambda>h. case dev of
          OpenDev pd \<Rightarrow> Ret (construct (umem_open_create H) (umem_open_destroy H)
            (new_umem address n access_flags dmabuf_fd dmabuf_offset) h)
        | _ \<Rightarrow> Misuse) h)"

definition umem_destroy :: "'h host \<Rightarrow> 's sdk_call \<Rightarrow> 's umem \<Rightarrow> 'h \<Rightarrow> (doca_error \<times> 'h) outcome" where
  "umem_destroy H sdk = api_destroy_h sdk (umem_open_destroy H)"

definition umem_get_id :: "('s, u32) sdk_get \<Rightarrow> bool \<Rightarrow> 's umem \<Rightarrow> (doca_error \<times> u32 option) outcome" where
  "umem_get_id sdk result_ptr_ok = get_handle result_ptr_ok (try_sdk_get sdk (get_open um_umem_id))"

definition umem_get_size :: "('s, u64) sdk_get \<Rightarrow> bool \<Rightarrow> 's umem \<Rightarrow> (doca_error \<times> u64 option) outcome" where
  "umem_get_size sdk result_ptr_ok = get_handle result_ptr_ok (try_sdk_get sdk (get_open um_size))"

definition umem_get_address :: "('s, ptr) sdk_get \<Rightarrow> bool \<Rightarrow> 's umem \<Rightarrow> (doca_error \<times> ptr option) outcome" where
  "umem_get_address sdk result_ptr_ok =
    get_handle result_ptr_ok (try_sdk_get sdk (get_open um_address))"

section \<open>They own what they allocate\<close>

definition uar_owned :: "uar_open \<Rightarrow> resource set" where
  "uar_owned u = (if ua_uar u = null then {} else {RUar (ua_uar u)})"

definition umem_owned :: "umem_open \<Rightarrow> resource set" where
  "umem_owned u = (if um_umem u = null then {} else {RUmem (um_umem u)})"

interpretation uar: owner uar_open_create uar_open_destroy uar_owned "\<lambda>u. ua_uar u = null"
proof
  fix H :: "'a host" and live uses L h ob m ob' h'
  assume l: "lawful H live uses" and t: "tidy live uses L {} h" and n: "ua_uar ob = null"
    and c: "uar_open_create H ob h = (m, ob', h')"
  show "tidy live uses L (uar_owned ob') h'"
    using c n t tidy_creation [OF lawful_steps(1) [OF l] t]
    by (auto simp: uar_open_create_def uar_owned_def split: sum.splits prod.splits if_splits)
next
  fix H :: "'a host" and live uses L h ob st ob' h'
  assume l: "lawful H live uses" and t: "tidy live uses L (uar_owned ob) h"
    and d: "uar_open_destroy H ob h = (st, ob', h')"
  show "st = DOCA_SUCCESS \<and> uar_owned ob' = {} \<and> tidy live uses L {} h'"
    using d t tidy_release [OF lawful_steps(7) [OF l] t]
    by (auto simp: uar_open_destroy_def uar_owned_def split: prod.splits if_splits)
qed

interpretation umem: owner umem_open_create umem_open_destroy umem_owned "\<lambda>u. um_umem u = null"
proof
  fix H :: "'a host" and live uses L h ob m ob' h'
  assume l: "lawful H live uses" and t: "tidy live uses L {} h" and n: "um_umem ob = null"
    and c: "umem_open_create H ob h = (m, ob', h')"
  show "tidy live uses L (umem_owned ob') h'"
    using c n t tidy_creation [OF lawful_steps(2) [OF l] t] tidy_creation [OF lawful_steps(3) [OF l] t]
    by (auto simp: umem_open_create_def umem_owned_def split: prod.splits if_splits)
next
  fix H :: "'a host" and live uses L h ob st ob' h'
  assume l: "lawful H live uses" and t: "tidy live uses L (umem_owned ob) h"
    and d: "umem_open_destroy H ob h = (st, ob', h')"
  show "st = DOCA_SUCCESS \<and> umem_owned ob' = {} \<and> tidy live uses L {} h'"
    using d t tidy_release [OF lawful_steps(8) [OF l] t]
    by (auto simp: umem_open_destroy_def umem_owned_def split: prod.splits if_splits)
qed

end
