(* ===== verification/VerbsCreate.thy ===== *)
theory VerbsCreate
  imports VerbsRes
begin

text \<open>
  Creation and destruction of a queue pair, \<^verbatim>\<open>src/doca_verbs_qp.cpp\<close>: the sizes of the two work
  queues, the doorbell region and the memory they live in, the creation command, and the API
  functions.  Sizes are 32-bit words that wrap as in the code; a quotient by zero and a write
  through a null pointer are the outcome \<open>Crashed\<close>.
\<close>

section \<open>What the attributes point to\<close>

text \<open>The completion queues, the shared receive queue and the external objects behind the pointers.\<close>

record 's qp_env =
  env_cq :: "ptr \<Rightarrow> lib_type \<times> u32"
  env_srqn :: "ptr \<Rightarrow> u32"
  env_uar :: "ptr \<Rightarrow> ('s, uar_open) handle"
  env_umem :: "ptr \<Rightarrow> ('s, umem_open) handle"
  env_sdk_uar_id :: "('s, u32) sdk_get"
  env_sdk_uar_reg_addr :: "('s, ptr) sdk_get"
  env_sdk_umem_id :: "('s, u32) sdk_get"
  env_sdk_umem_address :: "('s, ptr) sdk_get"

text \<open>\<^verbatim>\<open>status = get(...); if (status != DOCA_SUCCESS) throw status;\<close>\<close>

definition get_or_throw :: "(doca_error \<times> 'v option) outcome \<Rightarrow> 'o \<Rightarrow> 'h \<Rightarrow> ('v, 'o, 'h) making" where
  "get_or_throw r ob h =
    (case r of
       Misuse \<Rightarrow> (Crashed, ob, h)
     | Ret (e, v) \<Rightarrow>
         (if e \<noteq> DOCA_SUCCESS then (Threw e, ob, h)
          else case v of None \<Rightarrow> (Crashed, ob, h) | Some x \<Rightarrow> (Made x, ob, h)))"

section \<open>Queue sizes\<close>

definition DATA_SEG_SIZE :: u32 where "DATA_SEG_SIZE = 16"
definition CTRL_SEG_SIZE :: u32 where "CTRL_SEG_SIZE = 16"
definition RADDR_SEG_SIZE :: u32 where "RADDR_SEG_SIZE = 16"
definition INL_DATA_SEG_SIZE :: u32 where "INL_DATA_SEG_SIZE = 4"
definition OCTOWORD_SIZE :: u32 where "OCTOWORD_SIZE = 16"
definition WQEBB_SIZE :: u32 where "WQEBB_SIZE = 64"

lemmas size_consts = DATA_SEG_SIZE_def CTRL_SEG_SIZE_def RADDR_SEG_SIZE_def INL_DATA_SEG_SIZE_def
  OCTOWORD_SIZE_def WQEBB_SIZE_def

definition next_power_of_two_u32 :: "u32 \<Rightarrow> u32" where
  "next_power_of_two_u32 x = ucast (next_power_of_two (ucast x))"

text \<open>
  The receive queue: the two logarithms the command needs, of the queue in entries and of the
  entry in sixteen-byte units.  A queue with a shared receive queue has none of its own.
\<close>

definition size_rq :: "device_attr \<Rightarrow> qp_open \<Rightarrow> (u32 \<times> u32) made \<times> qp_open" where
  "size_rq d q =
    (let a = m_init_attr q in
     if \<not> (0 < ia_rq_wr a \<and> ia_srq a = null) then (Made (0, 0), q)
     else if ia_rq_wr a > da_max_qp_wr d then (Threw DOCA_ERROR_INVALID_VALUE, q)
     else if ia_receive_max_sges a = 0 then (Threw DOCA_ERROR_INVALID_VALUE, q)
     else
       let sges = next_power_of_two_u32 (ia_receive_max_sges a);
           wqe_size = sges * DATA_SEG_SIZE;
           q = q\<lparr>m_rcv_max_sges := sges, m_rcv_wqe_size := wqe_size\<rparr>
       in if wqe_size > da_max_rq_desc_size d then (Threw DOCA_ERROR_INVALID_VALUE, q)
          else
            let log_size = ucast (log2_u32 wqe_size);
                rq_size_bytes = max (next_power_of_two_u32 (ia_rq_wr a * wqe_size)) WQEBB_SIZE;
                q = q\<lparr>m_log_rcv_wqe_size := log_size\<rparr>
            in if wqe_size = 0 then (Crashed, q)
               else
                 let rq_size = rq_size_bytes div wqe_size
                 in (Made (log2_u32 rq_size, ucast log_size - 4), q\<lparr>m_rq_size := rq_size\<rparr>))"

text \<open>The size of a send entry: the larger of one with data segments and one with inline data.\<close>

definition send_wqe_size_of :: "qp_init_attr_open \<Rightarrow> u32" where
  "send_wqe_size_of a = CTRL_SEG_SIZE + RADDR_SEG_SIZE + ia_send_max_sges a * DATA_SEG_SIZE"

definition send_wqe_inline_size_of :: "qp_init_attr_open \<Rightarrow> u32" where
  "send_wqe_inline_size_of a =
    (if ia_max_inline_data a > 0
     then CTRL_SEG_SIZE + RADDR_SEG_SIZE +
       align_up_uint32 (INL_DATA_SEG_SIZE + ia_max_inline_data a) OCTOWORD_SIZE
     else 0)"

definition size_sq :: "device_attr \<Rightarrow> qp_open \<Rightarrow> u32 made \<times> qp_open" where
  "size_sq d q =
    (let a = m_init_attr q in
     if \<not> 0 < ia_sq_wr a then (Made 0, q)
     else if da_max_sq_desc_size d = 0 then (Crashed, q)
     else if ia_sq_wr a > 0x7fffffff div da_max_sq_desc_size d then (Threw DOCA_ERROR_INVALID_VALUE, q)
     else if ia_send_max_sges a = 0 then (Threw DOCA_ERROR_INVALID_VALUE, q)
     else
       let q = q\<lparr>m_send_max_sges := ia_send_max_sges a\<rparr> in
       if send_wqe_size_of a > da_max_sq_desc_size d then (Threw DOCA_ERROR_INVALID_VALUE, q)
       else if send_wqe_inline_size_of a > da_max_sq_desc_size d then (Threw DOCA_ERROR_INVALID_VALUE, q)
       else
         let wqe_size = align_up_uint32 (max (send_wqe_size_of a) (send_wqe_inline_size_of a)) WQEBB_SIZE;
             sq_size_bytes = next_power_of_two_u32 (wqe_size * ia_sq_wr a);
             wqebb = sq_size_bytes div WQEBB_SIZE;
             q = q\<lparr>m_send_wqe_size := wqe_size, m_sq_size_wqebb := wqebb\<rparr>
         in if wqebb > da_max_send_wqebb d then (Threw DOCA_ERROR_INVALID_VALUE, q)
            else if wqe_size = 0 then (Crashed, q)
            else
              let q = q\<lparr>m_sq_size_wr := sq_size_bytes div wqe_size\<rparr>;
                  room = wqe_size - (CTRL_SEG_SIZE + RADDR_SEG_SIZE + INL_DATA_SEG_SIZE)
              in (Made (log2_u32 wqebb),
                  if ia_max_inline_data a > 0
                  then q\<lparr>m_init_attr := a\<lparr>ia_max_inline_data := room\<rparr>, m_max_inline_data_length := room\<rparr>
                  else q))"

section \<open>Doorbell region and memory\<close>

text \<open>The internal region: BlueField first, non-cached if that fails.  The result is the id.\<close>

definition create_uar_part :: "'h host \<Rightarrow> 's qp_env \<Rightarrow> qp_open \<Rightarrow> 'h \<Rightarrow> (u32, qp_open, 'h) making" where
  "create_uar_part H env q h =
    (let a = m_init_attr q; uar = Some (env_uar env (ia_external_uar a));
         got = (\<lambda>p h. (Made (hs_uar_page_id H p h),
           q\<lparr>m_uar_obj := p, m_uar_db_reg := hs_uar_reg_addr H p h\<rparr>, h))
     in if ia_external_uar a = null
        then case hs_alloc_uar H MLX5DV_UAR_ALLOC_TYPE_BF h of (st, p, h1) \<Rightarrow>
          if st = DOCA_SUCCESS then got p h1
          else case hs_alloc_uar H MLX5DV_UAR_ALLOC_TYPE_NC h1 of (st2, p2, h2) \<Rightarrow>
            if st2 = DOCA_SUCCESS then got p2 h2 else (Threw DOCA_ERROR_DRIVER, q, h2)
        else and_then (get_or_throw (uar_id_get (env_sdk_uar_id env) True uar) q h) (\<lambda>uar_id q h.
          and_then (get_or_throw
            (if ia_send_dbr_mode a = SEND_DBR_MODE_DBR_VALID
             then uar_reg_addr_get (env_sdk_uar_reg_addr env) True uar
             else uar_dbr_less_addr_get (env_sdk_uar_reg_addr env) True uar) q h) (\<lambda>reg q h.
          (Made uar_id, q\<lparr>m_uar_db_reg := reg\<rparr>, h))))"

text \<open>Where the doorbell record is in the internal region, and the size of the region.\<close>

definition db_umem_offset_of :: "qp_open \<Rightarrow> u32" where
  "db_umem_offset_of q =
    align_up_uint32 (m_rq_size q * m_rcv_wqe_size q + m_sq_size_wqebb q * WQEBB_SIZE) 64"

definition total_umem_size_of :: "qp_open \<Rightarrow> u32" where
  "total_umem_size_of q = align_up_uint32 (db_umem_offset_of q + 64) 4096"

definition place_queues :: "ptr \<Rightarrow> qp_open \<Rightarrow> qp_open" where
  "place_queues wq q =
    q\<lparr>m_wq_buf := wq, m_rq_buf := wq,
      m_sq_buf := wq + push_bit (unat (m_log_rcv_wqe_size q)) (unat (m_rq_size q))\<rparr>"

text \<open>The result is the id of the doorbell's region, its offset there, and the id of the queues' region.\<close>

definition create_umem_part :: "'h host \<Rightarrow> 's qp_env \<Rightarrow> qp_open \<Rightarrow> 'h
    \<Rightarrow> (u32 \<times> u64 \<times> u32, qp_open, 'h) making" where
  "create_umem_part H env q h =
    (let a = m_init_attr q in
     if ia_external_umem a = null
     then
       let off = db_umem_offset_of q; total = total_umem_size_of q in
       (case hs_memalign H 4096 (unat total) h of (p, h1) \<Rightarrow>
          let q = q\<lparr>m_umem_buf := p\<rparr> in
          if p = null then (Crashed, q, h1)
          else
            let h2 = hs_zero H p (unat total) h1; q = place_queues p q in
            (case hs_umem_reg H p (ucast total) 0 h2 of (st, u, h3) \<Rightarrow>
               if st \<noteq> DOCA_SUCCESS then (Threw DOCA_ERROR_DRIVER, q, h3)
               else
                 let wq_id = hs_umem_id H u h3
                 in (Made (wq_id, ucast off, wq_id),
                     q\<lparr>m_umem_obj := u, m_db_buffer := m_wq_buf q + unat off\<rparr>, h3)))
     else
       let wq = Some (env_umem env (ia_external_umem a));
           dbr = Some (env_umem env (ia_external_umem_dbr a));
           id_of = umem_get_id (env_sdk_umem_id env) True;
           address_of = umem_get_address (env_sdk_umem_address env) True
       in and_then (get_or_throw (address_of wq) q h) (\<lambda>wq_addr q h.
          and_then (get_or_throw (id_of wq) (place_queues (wq_addr + unat (ia_external_umem_offset a)) q) h)
            (\<lambda>wq_id q h.
          and_then (get_or_throw (address_of dbr) q h) (\<lambda>db_addr q h.
          and_then (get_or_throw (id_of dbr) q h) (\<lambda>dbr_id q h.
          (Made (dbr_id, ia_external_umem_dbr_offset a, wq_id),
           q\<lparr>m_db_buffer := db_addr + unat (ia_external_umem_dbr_offset a)\<rparr>, h))))))"

section \<open>The creation command\<close>

definition create_wq_umem_id :: devx_field where "create_wq_umem_id = Field 0x840 32"
definition create_wq_umem_valid :: devx_field where "create_wq_umem_valid = Field 0x860 1"

text \<open>The part for each queue stops the creation when the queue has no completion queue.\<close>

definition create_qp_send :: "'s qp_env \<Rightarrow> qp_open \<Rightarrow> u32 \<Rightarrow> devx_buf \<Rightarrow> doca_error + devx_buf" where
  "create_qp_send env q log_sq_size p =
    (let a = m_init_attr q in
     if m_sq_size_wqebb q > 0
     then if ia_send_cq a = null then Inl DOCA_ERROR_INVALID_VALUE
          else Inr (devx_set qpc_log_sq_size log_sq_size
                 (devx_set qpc_cqn_snd (snd (env_cq env (ia_send_cq a))) p))
     else Inr (devx_set qpc_no_sq 1 p))"

definition create_qp_receive :: "'s qp_env \<Rightarrow> qp_open \<Rightarrow> u32 \<Rightarrow> u32 \<Rightarrow> devx_buf \<Rightarrow> doca_error + devx_buf" where
  "create_qp_receive env q log_rq_size log_stride p =
    (let a = m_init_attr q in
     if m_rq_size q > 0 \<or> ia_srq a \<noteq> null
     then if ia_receive_cq a = null then Inl DOCA_ERROR_INVALID_VALUE
          else
            let p = devx_set qpc_cqn_rcv (snd (env_cq env (ia_receive_cq a))) p
            in Inr (if ia_srq a \<noteq> null
                 then devx_set qpc_rq_type 1 (devx_set qpc_srqn_rmpn_xrqn (env_srqn env (ia_srq a)) p)
                 else devx_set qpc_rq_type 0 (devx_set qpc_log_rq_size log_rq_size
                   (devx_set qpc_log_rq_stride log_stride p)))
     else Inr (devx_set qpc_rq_type 3 p))"

text \<open>The 64-bit store of the one-bit \<open>cd_master\<close> is the code's.\<close>

definition create_qp_tail :: "qp_open \<Rightarrow> u64 \<Rightarrow> u32 \<Rightarrow> u32 \<Rightarrow> devx_buf \<Rightarrow> devx_buf" where
  "create_qp_tail q dbr_umem_offset dbr_umem_id wq_umem_id p =
    (let a = m_init_attr q;
         p = devx_set qpc_send_dbr_mode (ucast (ia_send_dbr_mode a)) p;
         p = devx_set qpc_dbr_umem_valid 1 p;
         p = devx_set qpc_dbr_umem_id dbr_umem_id p;
         p = devx_set64 qpc_dbr_addr dbr_umem_offset p;
         p = devx_set64 qpc_cd_master (ucast (ia_core_direct_master a)) p;
         p = devx_set create_wq_umem_id wq_umem_id p;
         p = devx_set create_wq_umem_valid 1 p
     in devx_set qpc_log_page_size 0 p)"

definition create_qp_head :: "qp_open \<Rightarrow> u32 \<Rightarrow> u32 \<Rightarrow> devx_buf" where
  "create_qp_head q pdn uar_id =
    devx_set qpc_uar_page uar_id
    (devx_set qpc_user_index (ia_user_index (m_init_attr q))
    (devx_set qpc_pd pdn
    (devx_set qpc_st 0
    (devx_set cmd_opcode 0x500 devx_zero))))"

definition create_qp_obj :: "'h host \<Rightarrow> 's qp_env \<Rightarrow> u32 \<Rightarrow> u32 \<Rightarrow> u32 \<Rightarrow> u32 \<Rightarrow> u64 \<Rightarrow> u32 \<Rightarrow> u32
    \<Rightarrow> qp_open \<Rightarrow> 'h \<Rightarrow> doca_error \<times> qp_open \<times> 'h" where
  "create_qp_obj H env uar_id log_rq_size log_sq_size log_stride dbr_umem_offset dbr_umem_id wq_umem_id q h =
    (let a = m_init_attr q;
         sdk_cq = (\<lambda>p. p \<noteq> null \<and> fst (env_cq env p) \<noteq> LIB_TYPE_OPEN)
     in if sdk_cq (ia_send_cq a) then (DOCA_ERROR_NOT_SUPPORTED, q, h)
        else if sdk_cq (ia_receive_cq a) then (DOCA_ERROR_NOT_SUPPORTED, q, h)
        else case hs_pdn H (m_pd q) h of (ret, pdn) \<Rightarrow>
          if ret \<noteq> DOCA_SUCCESS then (DOCA_ERROR_DRIVER, q, h)
          else case create_qp_send env q log_sq_size (create_qp_head q pdn uar_id) of
            Inl e \<Rightarrow> (e, q, h)
          | Inr p \<Rightarrow>
              (case create_qp_receive env q log_rq_size log_stride p of
                 Inl e \<Rightarrow> (e, q, h)
               | Inr p \<Rightarrow>
                   let q = (if ia_srq a \<noteq> null then q\<lparr>m_srq := ia_srq a\<rparr> else q)
                   in case hs_obj_create H (create_qp_tail q dbr_umem_offset dbr_umem_id wq_umem_id p) h of
                        (st, ob, out, h') \<Rightarrow>
                          if st \<noteq> DOCA_SUCCESS then (st, q, h')
                          else (DOCA_SUCCESS,
                            q\<lparr>m_qp_obj := ob, m_qp_num := devx_get cmd_qpn out,
                              m_current_state := QP_STATE_RST\<rparr>, h')))"

section \<open>create, destroy\<close>

definition with_host :: "'a made \<times> 'o \<Rightarrow> 'h \<Rightarrow> ('a, 'o, 'h) making" where
  "with_host r h = (fst r, snd r, h)"

text \<open>The checks before anything is allocated; they leave the device attributes in the object.\<close>

definition create_checks :: "'h host \<Rightarrow> ptr \<Rightarrow> qp_open \<Rightarrow> 'h \<Rightarrow> device_attr made \<times> qp_open" where
  "create_checks H ctx q h =
    (let a = m_init_attr q in
     if ia_external_umem a \<noteq> null \<and> ia_external_umem_dbr a = null \<or>
        ia_external_umem a = null \<and> ia_external_umem_dbr a \<noteq> null
     then (Threw DOCA_ERROR_INVALID_VALUE, q)
     else case verbs_query_device H ctx True h of
       Inl e \<Rightarrow> (Threw DOCA_ERROR_INVALID_VALUE, q)
     | Inr d \<Rightarrow>
         let q = q\<lparr>m_verbs_device_attr := Some d\<rparr> in
         if ia_qp_type a \<noteq> QP_TYPE_RC then (Threw DOCA_ERROR_INVALID_VALUE, q)
         else if ia_send_dbr_mode a = SEND_DBR_MODE_NO_DBR_EXT \<and> da_send_dbr_mode_no_dbr_ext d = 0
         then (Threw DOCA_ERROR_NOT_SUPPORTED, q)
         else if ia_emulate_no_dbr_ext a \<and> ia_send_dbr_mode a = SEND_DBR_MODE_NO_DBR_EXT
         then (Threw DOCA_ERROR_INVALID_VALUE, q)
         else (Made d, q))"

definition qp_open_create :: "'s qp_env \<Rightarrow> ptr \<Rightarrow> 'h host \<Rightarrow> qp_open \<Rightarrow> 'h \<Rightarrow> (unit, qp_open, 'h) making" where
  "qp_open_create env ctx H q h =
    and_then (with_host (create_checks H ctx (q\<lparr>m_pd := ia_pd (m_init_attr q)\<rparr>) h) h) (\<lambda>d q h.
    and_then (with_host (size_rq d q) h) (\<lambda>(log_rq_size, log_stride) q h.
    and_then (with_host (size_sq d q) h) (\<lambda>log_sq_size q h.
    and_then (create_uar_part H env q h) (\<lambda>uar_id q h.
    and_then (create_umem_part H env q h) (\<lambda>(dbr_umem_id, dbr_umem_offset, wq_umem_id) q h.
    case create_qp_obj H env uar_id log_rq_size log_sq_size log_stride dbr_umem_offset dbr_umem_id
           wq_umem_id q h of
      (st, q, h) \<Rightarrow> if st \<noteq> DOCA_SUCCESS then (Threw DOCA_ERROR_DRIVER, q, h) else (Made (), q, h))))))"

text \<open>The order of \<^verbatim>\<open>destroy()\<close>: attributes, queue object, doorbell region, memory region, buffer.\<close>

definition qp_open_destroy :: "'h host \<Rightarrow> qp_open \<Rightarrow> 'h \<Rightarrow> doca_error \<times> qp_open \<times> 'h" where
  "qp_open_destroy H q h =
    (let q = q\<lparr>m_verbs_device_attr := snd (verbs_device_attr_free (m_verbs_device_attr q))\<rparr>;
         rest = (\<lambda>q h.
           case (if m_uar_obj q \<noteq> null
                 then (q\<lparr>m_uar_obj := null\<rparr>, snd (hs_free_uar H (m_uar_obj q) h)) else (q, h)) of
             (q, h) \<Rightarrow>
               (case (if m_umem_obj q \<noteq> null
                      then case hs_umem_dereg H (m_umem_obj q) h of (st, h') \<Rightarrow>
                        if st \<noteq> DOCA_SUCCESS then (DOCA_ERROR_DRIVER, q, h')
                        else (DOCA_SUCCESS, q\<lparr>m_umem_obj := null\<rparr>, h')
                      else (DOCA_SUCCESS, q, h)) of
                  (st, q, h) \<Rightarrow>
                    if st \<noteq> DOCA_SUCCESS then (st, q, h)
                    else if m_umem_buf q \<noteq> null
                    then (DOCA_SUCCESS, q\<lparr>m_umem_buf := null\<rparr>, hs_free H (m_umem_buf q) h)
                    else (DOCA_SUCCESS, q, h)))
     in if m_qp_obj q \<noteq> null
        then case hs_obj_destroy H (m_qp_obj q) h of (st, h') \<Rightarrow>
          if st \<noteq> DOCA_SUCCESS then (DOCA_ERROR_DRIVER, q, h')
          else rest (q\<lparr>m_qp_obj := null\<rparr>) h'
        else rest q h)"

section \<open>The API functions\<close>

text \<open>\<open>ctx\<close> is the context of the device.\<close>

type_synonym 's verbs_qp = "('s, qp_open) handle option"

definition qp_create :: "'h host \<Rightarrow> 's qp_env \<Rightarrow> ptr \<Rightarrow> bool \<Rightarrow> net_dev \<Rightarrow> 's qp_init_attr
    \<Rightarrow> doca_sdk_wrapper_error \<times> 's option \<Rightarrow> 'h \<Rightarrow> (doca_error \<times> 's verbs_qp \<times> 'h) outcome" where
  "qp_create H env ctx calloc_ok dev ia sdk h =
    (case ia of
       None \<Rightarrow> Ret (DOCA_ERROR_INVALID_VALUE, None, h)
     | Some attr \<Rightarrow>
         api_create_h calloc_ok sdk
           (\<lambda>h. case dev of
              OpenDev pd \<Rightarrow>
                (case h_member attr of
                   OpenPtr a \<Rightarrow>
                     Ret (construct (qp_open_create env ctx H) (qp_open_destroy H)
                       (new_qp\<lparr>m_init_attr := a\<rparr>) h)
                 | Null \<Rightarrow> Ret (Threw DOCA_ERROR_INVALID_VALUE, h)
                 | SdkPtr s \<Rightarrow> Misuse)
            | _ \<Rightarrow> Misuse) h)"

definition qp_destroy :: "'h host \<Rightarrow> 's sdk_call \<Rightarrow> 's verbs_qp \<Rightarrow> 'h \<Rightarrow> (doca_error \<times> 'h) outcome" where
  "qp_destroy H sdk = api_destroy_h sdk (qp_open_destroy H)"

definition qp_get_qpn :: "('s, u32) sdk_get \<Rightarrow> bool \<Rightarrow> 's verbs_qp \<Rightarrow> (doca_error \<times> u32 option) outcome" where
  "qp_get_qpn sdk result_ptr_ok = get_handle result_ptr_ok (try_sdk_get sdk (get_open m_qp_num))"

definition qp_get_dbr_addr :: "('s, ptr) sdk_get \<Rightarrow> bool \<Rightarrow> 's verbs_qp \<Rightarrow> (doca_error \<times> ptr option) outcome" where
  "qp_get_dbr_addr sdk result_ptr_ok =
    get_handle result_ptr_ok (try_sdk_get sdk (get_open m_db_buffer))"

definition qp_get_uar_addr :: "('s, ptr) sdk_get \<Rightarrow> bool \<Rightarrow> 's verbs_qp \<Rightarrow> (doca_error \<times> ptr option) outcome" where
  "qp_get_uar_addr sdk result_ptr_ok =
    get_handle result_ptr_ok (try_sdk_get sdk (get_open m_uar_db_reg))"

text \<open>Send buffer, its entries, receive buffer, its entries, the size of a receive entry.\<close>

definition wq_of :: "qp_open \<Rightarrow> ptr \<times> u32 \<times> ptr \<times> u32 \<times> u32" where
  "wq_of q = (m_sq_buf q, m_sq_size_wqebb q, m_wq_buf q, m_rq_size q, m_rcv_wqe_size q)"

definition qp_get_wq :: "('s, ptr \<times> u32 \<times> ptr \<times> u32 \<times> u32) sdk_get \<Rightarrow> bool \<Rightarrow> 's verbs_qp
    \<Rightarrow> (doca_error \<times> (ptr \<times> u32 \<times> ptr \<times> u32 \<times> u32) option) outcome" where
  "qp_get_wq sdk result_ptrs_ok = get_handle result_ptrs_ok (try_sdk_get sdk (get_open wq_of))"

definition qp_get_emulate_no_dbr_ext :: "'s verbs_qp \<Rightarrow> bool outcome" where
  "qp_get_emulate_no_dbr_ext qp =
    (case qp of
       None \<Rightarrow> Ret False
     | Some hn \<Rightarrow>
         if h_type hn = LIB_TYPE_SDK then Ret False
         else case h_member hn of
                Null \<Rightarrow> Ret False
              | OpenPtr q \<Rightarrow> Ret (ia_emulate_no_dbr_ext (m_init_attr q))
              | SdkPtr s \<Rightarrow> Misuse)"

end
