(* ===== verification/CreateProofs.thy ===== *)
theory CreateProofs
  imports VerbsCreate QpProofs
begin

text \<open>
  What the creation of a queue pair promises: queues of the requested capacity, sized in powers of
  two and laid out one after the other; a constructor that either gives an object that holds
  exactly what was allocated or leaves nothing behind; and the creation command.
\<close>

section \<open>Sizes\<close>

lemma next_power_of_two_u32_least:
  assumes "x \<noteq> 0" "unat x \<le> 2 ^ 31"
  shows "least_pow2_above (unat x) (unat (next_power_of_two_u32 x))"
proof -
  have "(ucast x :: u64) \<noteq> 0" using assms(1) by (metis unat_0 unat_ucast_u32_u64 unat_eq_zero)
  moreover have "unat x \<le> 2 ^ 63" using assms(2) by simp
  ultimately have l: "least_pow2_above (unat x) (unat (next_power_of_two (ucast x)))"
    using next_power_of_two_least [of "ucast x"] by simp
  then have "unat (next_power_of_two (ucast x)) \<le> 2 ^ 31"
    by (rule least_pow2_above_le) (rule assms(2))
  then have "unat (next_power_of_two_u32 x) = unat (next_power_of_two (ucast x))"
    by (simp add: next_power_of_two_u32_def unat_ucast_mod)
  then show ?thesis using l by simp
qed

lemma next_power_of_two_u32_pow2:
  assumes "x \<noteq> 0" "unat x \<le> 2 ^ 31"
  obtains k where "k \<le> 31" "next_power_of_two_u32 x = 2 ^ k" "unat x \<le> 2 ^ k"
proof -
  note l = next_power_of_two_u32_least [OF assms]
  then obtain k where k: "unat (next_power_of_two_u32 x) = 2 ^ k" "unat x \<le> 2 ^ k"
    by (auto simp: least_pow2_above_def)
  have "(2 :: nat) ^ k \<le> 2 ^ 31" using least_pow2_above_le [OF l assms(2)] k(1) by simp
  then have "k \<le> 31" by (rule power_le_imp_le_exp [rotated]) simp
  moreover from this have "next_power_of_two_u32 x = 2 ^ k"
    using k(1) by (simp add: word_unat_eq_iff unat_pow2)
  ultimately show thesis using that k(2) by blast
qed

lemma align_up_uint32_props:
  assumes "a \<noteq> 0" "unat v + unat a \<le> 2 ^ 32"
  shows "unat a dvd unat (align_up_uint32 v a)" "unat v \<le> unat (align_up_uint32 v a)"
    and "unat (align_up_uint32 v a) < unat v + unat a"
proof -
  have "(ucast a :: u64) \<noteq> 0" using assms(1) by (metis unat_0 unat_ucast_u32_u64 unat_eq_zero)
  moreover have "unat (ucast v :: u64) + unat (ucast a :: u64) \<le> 2 ^ 64" using assms(2) by simp
  ultimately have p: "unat a dvd unat (align_up_uint64 (ucast v) (ucast a))"
      "unat v \<le> unat (align_up_uint64 (ucast v) (ucast a))"
      "unat (align_up_uint64 (ucast v) (ucast a)) < unat v + unat a"
    using align_up_uint64_props [of "ucast a" "ucast v"] by simp_all
  then have "unat (align_up_uint32 v a) = unat (align_up_uint64 (ucast v) (ucast a))"
    using assms(2) by (simp add: align_up_uint32_def unat_ucast_mod)
  then show "unat a dvd unat (align_up_uint32 v a)" "unat v \<le> unat (align_up_uint32 v a)"
    "unat (align_up_uint32 v a) < unat v + unat a" using p by simp_all
qed

lemma align_up_uint32_le:
  assumes "a \<noteq> 0" "unat v + unat a \<le> 2 ^ 32" "unat v \<le> n" "unat a dvd n"
  shows "unat (align_up_uint32 v a) \<le> n"
proof -
  note p = align_up_uint32_props [OF assms(1,2)]
  obtain i j where i: "unat (align_up_uint32 v a) = unat a * i" and j: "n = unat a * j"
    using p(1) assms(4) by (auto elim!: dvdE)
  have "unat a * i < unat a * Suc j" using p(3) assms(3) i j by simp
  then have "i \<le> j" by (metis nat_mult_less_cancel_disj less_Suc_eq_le)
  then show ?thesis using i j by simp
qed

lemma log2_u32_pow2: "k < 32 \<Longrightarrow> log2_u32 (2 ^ k) = of_nat k"
proof -
  assume k: "k < 32"
  then have u: "unat ((2 :: u32) ^ k) = 2 ^ k" by (simp add: unat_pow2)
  then have "(2 :: u32) ^ k \<noteq> 0" by (metis power_not_zero unat_0 zero_neq_numeral)
  with u show ?thesis by (simp add: log2_u32_def floor_log2_pow2)
qed

lemma pow2_div_u32:
  assumes "k \<le> 31" "j \<le> k"
  shows "(2 :: u32) ^ k div 2 ^ j = 2 ^ (k - j)"
proof -
  have "unat ((2 :: u32) ^ k div 2 ^ j) = 2 ^ k div 2 ^ j"
    using assms by (simp add: unat_div unat_pow2)
  also have "\<dots> = 2 ^ (k - j)" using assms by (simp add: power_diff)
  finally show ?thesis using assms by (simp add: word_unat_eq_iff unat_pow2)
qed

text \<open>The size of a send entry, when the sums in the code do not wrap.\<close>

definition no_wrap :: "qp_init_attr_open \<Rightarrow> bool" where
  "no_wrap a \<longleftrightarrow> unat (ia_send_max_sges a) < 2 ^ 27 \<and> unat (ia_max_inline_data a) < 2 ^ 31"

lemma send_wqe_size_unat:
  assumes "no_wrap a"
  shows "unat (send_wqe_size_of a) = 32 + 16 * unat (ia_send_max_sges a)"
proof -
  have m: "unat (ia_send_max_sges a * 16) = 16 * unat (ia_send_max_sges a)"
    using assms unat_mult_no_overflow [of "ia_send_max_sges a" 16] by (simp add: no_wrap_def)
  have "unat (32 + ia_send_max_sges a * 16) = 32 + 16 * unat (ia_send_max_sges a)"
    using assms m unat_add_no_overflow [of 32 "ia_send_max_sges a * 16"] by (simp add: no_wrap_def)
  then show ?thesis by (simp add: send_wqe_size_of_def size_consts)
qed

lemma send_wqe_inline_size_unat:
  assumes "no_wrap a" "0 < ia_max_inline_data a"
  shows "36 + unat (ia_max_inline_data a) \<le> unat (send_wqe_inline_size_of a)"
proof -
  let ?x = "ia_max_inline_data a" and ?y = "align_up_uint32 (4 + ia_max_inline_data a) 16"
  have x: "unat (4 + ?x) = 4 + unat ?x"
    using assms(1) unat_add_no_overflow [of 4 ?x] by (simp add: no_wrap_def)
  have p: "unat (4 + ?x) \<le> unat ?y" "unat ?y < unat (4 + ?x) + 16"
    using align_up_uint32_props [of 16 "4 + ?x"] x assms(1) by (simp_all add: no_wrap_def)
  then have "unat (32 + ?y) = 32 + unat ?y"
    using x assms(1) unat_add_no_overflow [of 32 ?y] by (simp add: no_wrap_def)
  then show ?thesis using p x assms(2) by (simp add: send_wqe_inline_size_of_def size_consts)
qed

lemma unat_max: "unat (max x y) = max (unat x) (unat y)" for x y :: "'a::len word"
  by (simp add: max_def word_le_unat)

definition wqe_size_of :: "qp_init_attr_open \<Rightarrow> u32" where
  "wqe_size_of a =
    align_up_uint32 (max (send_wqe_size_of a) (send_wqe_inline_size_of a)) WQEBB_SIZE"

lemma wqe_size_of_props:
  assumes "no_wrap a" "64 dvd unat D" "send_wqe_size_of a \<le> D" "send_wqe_inline_size_of a \<le> D"
  shows "64 dvd unat (wqe_size_of a)" "unat (wqe_size_of a) \<le> unat D"
    and "32 + 16 * unat (ia_send_max_sges a) \<le> unat (wqe_size_of a)"
    and "0 < ia_max_inline_data a \<Longrightarrow> 36 + unat (ia_max_inline_data a) \<le> unat (wqe_size_of a)"
proof -
  let ?m = "max (send_wqe_size_of a) (send_wqe_inline_size_of a)"
  have le: "unat ?m \<le> unat D" using assms(3,4) by (simp add: unat_max word_le_unat)
  obtain j where j: "unat D = 64 * j" using assms(2) by (auto elim: dvdE)
  then have "64 * j < 2 ^ 32" using unat_lt_2p [of D] by simp
  then have "unat D + 64 \<le> 2 ^ 32" using j by simp
  then have b: "unat ?m + unat (64 :: u32) \<le> 2 ^ 32" using le by simp
  note p = align_up_uint32_props [OF _ b]
  show "64 dvd unat (wqe_size_of a)" using p(1) by (simp add: wqe_size_of_def size_consts)
  show "unat (wqe_size_of a) \<le> unat D"
    using align_up_uint32_le [OF _ b le] assms(2) by (simp add: wqe_size_of_def size_consts)
  have ge: "unat ?m \<le> unat (wqe_size_of a)" using p(2) by (simp add: wqe_size_of_def size_consts)
  show "32 + 16 * unat (ia_send_max_sges a) \<le> unat (wqe_size_of a)"
    using ge send_wqe_size_unat [OF assms(1)] by (simp add: unat_max)
  show "36 + unat (ia_max_inline_data a) \<le> unat (wqe_size_of a)" if "0 < ia_max_inline_data a"
    using ge send_wqe_inline_size_unat [OF assms(1) that] by (simp add: unat_max)
qed

text \<open>The bytes of a queue of \<open>n\<close> entries of \<open>w\<close> bytes, rounded to a power of two.\<close>

lemma queue_bytes:
  assumes "0 < unat n" "0 < unat w" "unat w * unat n \<le> 2 ^ 31"
  obtains k where "k \<le> 31" "next_power_of_two_u32 (w * n) = 2 ^ k" "unat w * unat n \<le> 2 ^ k"
proof -
  have u: "unat (w * n) = unat w * unat n"
    using assms(3) unat_mult_no_overflow [of w n] by simp
  then have "w * n \<noteq> 0" using assms(1,2) by (metis mult_is_0 neq0_conv unat_0)
  then show thesis using next_power_of_two_u32_pow2 [of "w * n"] assms(3) u that by metis
qed

lemma size_sq_made:
  assumes "size_sq d q = (Made lg, q')" "a = m_init_attr q" "0 < ia_sq_wr a"
  defines "w \<equiv> wqe_size_of a" and "B \<equiv> next_power_of_two_u32 (wqe_size_of a * ia_sq_wr a)"
  shows "da_max_sq_desc_size d \<noteq> 0" "ia_sq_wr a \<le> 0x7fffffff div da_max_sq_desc_size d"
    and "send_wqe_size_of a \<le> da_max_sq_desc_size d"
    and "send_wqe_inline_size_of a \<le> da_max_sq_desc_size d"
    and "B div 64 \<le> da_max_send_wqebb d" "w \<noteq> 0" "lg = log2_u32 (B div 64)"
    and "m_send_wqe_size q' = w" "m_sq_size_wqebb q' = B div 64" "m_sq_size_wr q' = B div w"
    and "0 < ia_max_inline_data a \<Longrightarrow> m_max_inline_data_length q' = w - 36"
    and "0 < ia_max_inline_data a \<Longrightarrow> ia_max_inline_data (m_init_attr q') = w - 36"
    and "m_rq_size q' = m_rq_size q" "m_rcv_wqe_size q' = m_rcv_wqe_size q"
    and "m_log_rcv_wqe_size q' = m_log_rcv_wqe_size q"
  using assms unfolding size_sq_def w_def B_def wqe_size_of_def size_consts
  by (auto simp: Let_def not_less split: if_splits)

lemma size_sq_no_inline:
  "size_sq d q = (Made lg, q') \<Longrightarrow> \<not> 0 < ia_max_inline_data (m_init_attr q)
    \<Longrightarrow> m_max_inline_data_length q' = m_max_inline_data_length q"
  by (auto simp: size_sq_def Let_def split: if_splits)

lemma small_log_u8:
  assumes "n < 256"
  shows "(ucast (of_nat n :: u32) :: u8) = of_nat n" "(ucast (of_nat n :: u8) :: u32) = of_nat n"
proof -
  have "take_bit 8 n = n" "take_bit 32 n = n" using assms by (simp_all add: take_bit_nat_eq_self_iff)
  then show "(ucast (of_nat n :: u32) :: u8) = of_nat n" "(ucast (of_nat n :: u8) :: u32) = of_nat n"
    using assms by (simp_all add: word_unat_eq_iff unat_ucast_mod unsigned_of_nat)
qed

lemma size_rq_made:
  assumes "size_rq d q = (Made (lr, ls), q')" "a = m_init_attr q" "0 < ia_rq_wr a" "ia_srq a = null"
  defines "w \<equiv> next_power_of_two_u32 (ia_receive_max_sges a) * 16"
  defines "B \<equiv> max (next_power_of_two_u32 (ia_rq_wr a * w)) 64"
  shows "ia_rq_wr a \<le> da_max_qp_wr d" "ia_receive_max_sges a \<noteq> 0" "w \<le> da_max_rq_desc_size d" "w \<noteq> 0"
    and "lr = log2_u32 (B div w)" "ls = ucast (ucast (log2_u32 w) :: u8) - 4"
    and "m_rcv_wqe_size q' = w" "m_rq_size q' = B div w"
    and "m_log_rcv_wqe_size q' = ucast (log2_u32 w)" "m_init_attr q' = m_init_attr q"
  using assms unfolding size_rq_def w_def B_def size_consts
  by (auto simp: Let_def not_less split: if_splits)

section \<open>The creation command\<close>

lemma mod_64_32: "n mod 64 = n mod 32 \<or> n mod 64 = n mod 32 + 32" for n :: nat
proof -
  have "n mod 32 = n mod 64 mod 32" by (simp add: mod_mod_cancel)
  moreover have "n mod 64 < 64" by simp
  ultimately show ?thesis by (cases "n mod 64 < 32") (simp_all add: le_mod_geq)
qed

lemma devx_get_set64_in:
  assumes "devx_wf g" "fld_off g div 64 = fld_off f div 64"
  shows "devx_get g (devx_set64 f v p) =
    ucast (take_bit (fld_sz g) (drop_bit (64 - fld_off g mod 64 - fld_sz g) v))"
proof (rule bit_word_eqI)
  define x q sz where "x = fld_off g mod 64" and "q = fld_off g div 64" and "sz = fld_sz g"
  have sz: "fld_off g mod 32 + sz \<le> 32" using assms(1) by (simp add: devx_wf_def sz_def)
  then have xs: "x + sz \<le> 64" "sz \<le> 32" using mod_64_32 [of "fld_off g"] by (auto simp: x_def)
  fix k :: nat assume "k < LENGTH(32)"
  show "bit (devx_get g (devx_set64 f v p)) k =
    bit (ucast (take_bit (fld_sz g) (drop_bit (64 - fld_off g mod 64 - fld_sz g) v)) :: u32) k"
    unfolding x_def [symmetric] sz_def [symmetric]
  proof (cases "k < sz")
    case True
    define y where "y = x + sz - 1 - k"
    have y: "y < 64" "63 - y = 64 - x - sz + k" using xs True by (simp_all add: y_def)
    have "fld_off g = 64 * q + x" by (simp add: q_def x_def)
    then have n: "fld_off g + fld_sz g - Suc k = 64 * q + y" using True by (simp add: y_def sz_def)
    have "(64 * q + y) div 64 = fld_off f div 64" "(64 * q + y) mod 64 = y"
      using y(1) assms(2) by (simp_all add: q_def)
    then have "bit (devx_get g (devx_set64 f v p)) k = bit v (63 - y)"
      using True by (simp add: devx_get_bit [OF assms(1)] n devx_bit_set64 sz_def)
    then show "bit (devx_get g (devx_set64 f v p)) k =
        bit (ucast (take_bit sz (drop_bit (64 - x - sz) v)) :: u32) k"
      using True xs y(2) by (simp add: bit_ucast_iff bit_take_bit_iff bit_drop_bit_eq)
  next
    case False
    then show "bit (devx_get g (devx_set64 f v p)) k =
        bit (ucast (take_bit sz (drop_bit (64 - x - sz) v)) :: u32) k"
      by (simp add: bit_devx_get bit_ucast_iff bit_take_bit_iff sz_def)
  qed
qed

lemma devx_get64_set64: "devx_get64 f (devx_set64 f v p) = v"
  by (rule bit_word_eqI)
    (auto simp: devx_get64_def devx_set64_def Let_def bit_or_iff bit_push_bit_iff bit_ucast_iff bit_drop_bit_eq)

lemma devx_get64_other:
  "fld_off f div 64 \<noteq> fld_off g div 64 \<Longrightarrow> devx_get64 g (devx_set64 f v p) = devx_get64 g p"
  by (auto simp: devx_get64_def devx_set64_def devx_64_off_def Let_def)

lemma devx_get64_set:
  assumes "fld_off f div 64 \<noteq> fld_off g div 64"
  shows "devx_get64 g (devx_set f v p) = devx_get64 g p"
proof -
  have "fld_off f div 64 = fld_off f div 32 div 2" by (simp flip: div_mult2_eq)
  then have "fld_off f div 32 \<noteq> 2 * (fld_off g div 64)" "fld_off f div 32 \<noteq> Suc (2 * (fld_off g div 64))"
    using assms by auto
  then show ?thesis by (simp add: devx_get64_def devx_set_def devx_64_off_def devx_dw_off_def Let_def)
qed

lemmas create_fields = devx_fields create_wq_umem_id_def create_wq_umem_valid_def
  devx_get_set64_other devx_get64_set64 devx_get64_other devx_get64_set

text \<open>What each part of the command leaves in it.\<close>

definition head_ok :: "qp_open \<Rightarrow> u32 \<Rightarrow> u32 \<Rightarrow> devx_buf \<Rightarrow> bool" where
  "head_ok q pdn uar_id p \<longleftrightarrow>
    devx_get cmd_opcode p = 0x500 \<and> devx_get qpc_st p = 0 \<and> devx_get qpc_pd p = take_bit 24 pdn \<and>
    devx_get qpc_user_index p = take_bit 24 (ia_user_index (m_init_attr q)) \<and>
    devx_get qpc_uar_page p = take_bit 24 uar_id"

definition send_ok :: "'s qp_env \<Rightarrow> qp_open \<Rightarrow> u32 \<Rightarrow> devx_buf \<Rightarrow> bool" where
  "send_ok env q log_sq_size p \<longleftrightarrow>
    (if m_sq_size_wqebb q > 0
     then devx_get qpc_no_sq p = 0 \<and> devx_get qpc_log_sq_size p = take_bit 4 log_sq_size \<and>
       devx_get qpc_cqn_snd p = take_bit 24 (snd (env_cq env (ia_send_cq (m_init_attr q))))
     else devx_get qpc_no_sq p = 1)"

definition receive_ok :: "'s qp_env \<Rightarrow> qp_open \<Rightarrow> u32 \<Rightarrow> u32 \<Rightarrow> devx_buf \<Rightarrow> bool" where
  "receive_ok env q log_rq_size log_stride p \<longleftrightarrow>
    (if ia_srq (m_init_attr q) \<noteq> null
     then devx_get qpc_rq_type p = 1 \<and>
       devx_get qpc_srqn_rmpn_xrqn p = take_bit 24 (env_srqn env (ia_srq (m_init_attr q)))
     else if m_rq_size q > 0
     then devx_get qpc_rq_type p = 0 \<and> devx_get qpc_log_rq_size p = take_bit 4 log_rq_size \<and>
       devx_get qpc_log_rq_stride p = take_bit 3 log_stride
     else devx_get qpc_rq_type p = 3) \<and>
    (m_rq_size q > 0 \<or> ia_srq (m_init_attr q) \<noteq> null \<longrightarrow>
       devx_get qpc_cqn_rcv p = take_bit 24 (snd (env_cq env (ia_receive_cq (m_init_attr q)))))"

definition memory_ok :: "u64 \<Rightarrow> u32 \<Rightarrow> u32 \<Rightarrow> devx_buf \<Rightarrow> bool" where
  "memory_ok dbr_off dbr_id wq_id p \<longleftrightarrow>
    devx_get64 qpc_dbr_addr p = dbr_off \<and> devx_get qpc_dbr_umem_id p = dbr_id \<and>
    devx_get qpc_dbr_umem_valid p = 1 \<and> devx_get create_wq_umem_id p = wq_id \<and>
    devx_get create_wq_umem_valid p = 1 \<and> devx_get qpc_log_page_size p = 0"

lemma head_head: "head_ok q pdn uar_id (create_qp_head q pdn uar_id)"
  by (simp add: head_ok_def create_qp_head_def create_fields)

lemma head_no_sq: "devx_get qpc_no_sq (create_qp_head q pdn uar_id) = 0"
  by (simp add: create_qp_head_def create_fields)

lemma send_part:
  assumes "create_qp_send env q lsq p = Inr p'" "devx_get qpc_no_sq p = 0"
  shows "send_ok env q lsq p'" "head_ok q pdn uar_id p \<Longrightarrow> head_ok q pdn uar_id p'"
  using assms
  by (auto simp: create_qp_send_def send_ok_def head_ok_def create_fields Let_def split: if_splits)

lemma receive_part:
  assumes "create_qp_receive env q lrq ls p = Inr p'"
  shows "receive_ok env q lrq ls p'" "head_ok q pdn uar_id p \<Longrightarrow> head_ok q pdn uar_id p'"
    and "send_ok env q lsq p \<Longrightarrow> send_ok env q lsq p'"
  using assms
  by (auto simp: create_qp_receive_def receive_ok_def send_ok_def head_ok_def create_fields Let_def
      split: if_splits)

lemma tail_part:
  fixes q p dbr_off dbr_id wq_id
  defines "p' \<equiv> create_qp_tail q dbr_off dbr_id wq_id p"
  shows "memory_ok dbr_off dbr_id wq_id p'"
    and "head_ok q pdn uar_id p \<Longrightarrow> head_ok q pdn uar_id p'"
    and "send_ok env q lsq p \<Longrightarrow> send_ok env q lsq p'"
    and "receive_ok env q lrq ls p \<Longrightarrow> receive_ok env q lrq ls p'"
    and "devx_get qpc_send_dbr_mode p' = take_bit 2 (ucast (ia_send_dbr_mode (m_init_attr q)))"
  unfolding p'_def
  by (auto simp: create_qp_tail_def memory_ok_def receive_ok_def send_ok_def head_ok_def create_fields
      take_bit_word_eq_self Let_def)

lemma create_qp_parts_errors:
  "create_qp_send env q lsq p \<noteq> Inl DOCA_SUCCESS" "create_qp_receive env q lrq ls p \<noteq> Inl DOCA_SUCCESS"
  by (simp_all add: create_qp_send_def create_qp_receive_def Let_def)

lemma u8_in_u64:
  fixes b :: u8
  shows "take_bit 24 (ucast b :: u64) = ucast b" "drop_bit 32 (ucast b :: u64) = 0"
proof -
  have "unat (ucast b :: u64) < 256"
    using unat_lt_2p [of b] by (simp add: unat_ucast_mod)
  then have "unat (take_bit 24 (ucast b :: u64)) = unat (ucast b :: u64)"
      "unat (drop_bit 32 (ucast b :: u64)) = 0"
    by (simp_all add: unsigned_take_bit_eq take_bit_nat_eq_self_iff unat_drop_bit)
  then show "take_bit 24 (ucast b :: u64) = ucast b" "drop_bit 32 (ucast b :: u64) = 0"
    by (simp_all add: word_unat_eq_iff)
qed

lemma u8_via_u64: "ucast (ucast b :: u64) = (ucast b :: u32)" for b :: u8
  using unat_lt_2p [of b] by (simp add: word_unat_eq_iff unat_ucast_mod)

lemma tail_cd_master:
  fixes q p dbr_off dbr_id wq_id
  defines "p' \<equiv> create_qp_tail q dbr_off dbr_id wq_id p"
  shows "devx_get qpc_next_rcv_psn p' = ucast (ia_core_direct_master (m_init_attr q))"
    and "devx_get qpc_cd_master p' = 0"
  unfolding p'_def
  by (simp_all add: create_qp_tail_def create_fields devx_get_set64_in u8_in_u64 u8_via_u64 Let_def)

end
