(* ===== verification/QpOwner.thy ===== *)
theory QpOwner
  imports CreateProofs
begin

text \<open>
  What a queue pair holds: each step of its creation and destruction keeps the account of live
  resources, so a creation that fails leaves nothing behind and a destruction gives everything
  back, in an order the host accepts.
\<close>

section \<open>Ownership\<close>

definition qp_owned :: "qp_open \<Rightarrow> resource set" where
  "qp_owned q =
    (if m_qp_obj q = null then {} else {RObj (m_qp_obj q)}) \<union>
    (if m_uar_obj q = null then {} else {RUar (m_uar_obj q)}) \<union>
    (if m_umem_obj q = null then {} else {RUmem (m_umem_obj q)}) \<union>
    (if m_umem_buf q = null then {} else {RBuf (m_umem_buf q)})"

text \<open>A queue pair object that has allocated nothing yet, and one that has not allocated certain parts.\<close>

definition no_obj :: "qp_open \<Rightarrow> bool" where "no_obj q \<longleftrightarrow> m_qp_obj q = null"
definition no_umem :: "qp_open \<Rightarrow> bool" where
  "no_umem q \<longleftrightarrow> m_umem_obj q = null \<and> m_umem_buf q = null"
definition new_object :: "qp_open \<Rightarrow> bool" where
  "new_object q \<longleftrightarrow> no_obj q \<and> no_umem q \<and> m_uar_obj q = null"

lemmas owned_defs = qp_owned_def no_obj_def no_umem_def new_object_def

text \<open>The pure parts do not touch what is owned.\<close>

lemma size_parts_owned:
  "size_rq d q = (m, q') \<Longrightarrow> m_qp_obj q' = m_qp_obj q \<and> m_uar_obj q' = m_uar_obj q \<and>
    m_umem_obj q' = m_umem_obj q \<and> m_umem_buf q' = m_umem_buf q"
  "size_sq d q = (m2, q') \<Longrightarrow> m_qp_obj q' = m_qp_obj q \<and> m_uar_obj q' = m_uar_obj q \<and>
    m_umem_obj q' = m_umem_obj q \<and> m_umem_buf q' = m_umem_buf q"
  "create_checks H ctx q h = (m3, q') \<Longrightarrow> m_qp_obj q' = m_qp_obj q \<and> m_uar_obj q' = m_uar_obj q \<and>
    m_umem_obj q' = m_umem_obj q \<and> m_umem_buf q' = m_umem_buf q"
  by (auto simp: size_rq_def size_sq_def create_checks_def Let_def split: if_splits sum.splits)

lemma get_or_throw_keeps:
  "get_or_throw r ob h = (m, ob', h') \<Longrightarrow> ob' = ob \<and> h' = h"
  by (auto simp: get_or_throw_def split: outcome.splits option.splits if_splits prod.splits)

lemma owned_cong:
  "\<lbrakk>m_qp_obj q' = m_qp_obj q; m_uar_obj q' = m_uar_obj q; m_umem_obj q' = m_umem_obj q;
    m_umem_buf q' = m_umem_buf q\<rbrakk> \<Longrightarrow> qp_owned q' = qp_owned q"
  by (simp add: qp_owned_def)

lemma owned_adds:
  "m_qp_obj q = null \<Longrightarrow> p \<noteq> null \<Longrightarrow> qp_owned (q\<lparr>m_qp_obj := p\<rparr>) = insert (RObj p) (qp_owned q)"
  "m_uar_obj q = null \<Longrightarrow> p \<noteq> null \<Longrightarrow> qp_owned (q\<lparr>m_uar_obj := p\<rparr>) = insert (RUar p) (qp_owned q)"
  "m_umem_obj q = null \<Longrightarrow> p \<noteq> null \<Longrightarrow> qp_owned (q\<lparr>m_umem_obj := p\<rparr>) = insert (RUmem p) (qp_owned q)"
  "m_umem_buf q = null \<Longrightarrow> p \<noteq> null \<Longrightarrow> qp_owned (q\<lparr>m_umem_buf := p\<rparr>) = insert (RBuf p) (qp_owned q)"
  by (auto simp: qp_owned_def)

lemma owned_other:
  "qp_owned (q\<lparr>m_uar_db_reg := r\<rparr>) = qp_owned q" "qp_owned (q\<lparr>m_db_buffer := r\<rparr>) = qp_owned q"
  "qp_owned (place_queues r q) = qp_owned q" "qp_owned (q\<lparr>m_srq := r\<rparr>) = qp_owned q"
  "qp_owned (q\<lparr>m_qp_num := n\<rparr>) = qp_owned q" "qp_owned (q\<lparr>m_current_state := s\<rparr>) = qp_owned q"
  by (simp_all add: qp_owned_def place_queues_def)

lemma place_queues_fields [simp]:
  "m_umem_obj (place_queues r q) = m_umem_obj q" "m_qp_obj (place_queues r q) = m_qp_obj q"
  "m_umem_buf (place_queues r q) = m_umem_buf q" "m_init_attr (place_queues r q) = m_init_attr q"
  by (simp_all add: place_queues_def)

text \<open>Each allocating part keeps \<open>tidy\<close>, whether it succeeds or throws.\<close>

lemma uar_part_tidy:
  assumes l: "lawful H live uses" and t: "tidy live uses L (qp_owned q) h" and n: "new_object q"
    and c: "create_uar_part H env q h = (m, q', h')"
  shows "tidy live uses L (qp_owned q') h' \<and> no_obj q' \<and> no_umem q'"
proof (cases "ia_external_uar (m_init_attr q) = null")
  case True
  obtain st p h1 where a1: "hs_alloc_uar H MLX5DV_UAR_ALLOC_TYPE_BF h = (st, p, h1)" by (metis prod_cases3)
  obtain st2 p2 h2 where a2: "hs_alloc_uar H MLX5DV_UAR_ALLOC_TYPE_NC h1 = (st2, p2, h2)" by (metis prod_cases3)
  note s1 = tidy_creation [OF lawful_steps(1) [OF l a1] t]
  show ?thesis
  proof (cases "st = DOCA_SUCCESS")
    case st: True
    then have q': "q' = q\<lparr>m_uar_obj := p, m_uar_db_reg := hs_uar_reg_addr H p h1\<rparr>" "h' = h1"
      using c True a1 by (auto simp: create_uar_part_def)
    have "qp_owned q' = insert (RUar p) (qp_owned q)"
      using st s1 n owned_adds(2) [of q p] by (simp add: q' owned_other new_object_def)
    then show ?thesis using st s1 n by (simp add: q' new_object_def no_obj_def no_umem_def)
  next
    case st: False
    then have t1: "tidy live uses L (qp_owned q) h1" using s1 by simp
    note s2 = tidy_creation [OF lawful_steps(1) [OF l a2] t1]
    show ?thesis
    proof (cases "st2 = DOCA_SUCCESS")
      case st2: True
      then have q': "q' = q\<lparr>m_uar_obj := p2, m_uar_db_reg := hs_uar_reg_addr H p2 h2\<rparr>" "h' = h2"
        using c True a1 a2 st by (auto simp: create_uar_part_def)
      have "qp_owned q' = insert (RUar p2) (qp_owned q)"
        using st2 s2 n owned_adds(2) [of q p2] by (simp add: q' owned_other new_object_def)
      then show ?thesis using st2 s2 n by (simp add: q' new_object_def no_obj_def no_umem_def)
    next
      case st2: False
      then show ?thesis
        using c True a1 a2 st s2 n by (simp add: create_uar_part_def new_object_def)
    qed
  qed
next
  case False
  then have "qp_owned q' = qp_owned q \<and> h' = h \<and> no_obj q' \<and> no_umem q'"
    using c n unfolding create_uar_part_def Let_def and_then_def
    by (auto simp: owned_defs dest!: get_or_throw_keeps split: prod.splits made.splits)
  then show ?thesis using t by simp
qed

lemma umem_part_tidy:
  assumes l: "lawful H live uses" and t: "tidy live uses L (qp_owned q) h" and n: "no_obj q" "no_umem q"
    and c: "create_umem_part H env q h = (m, q', h')" and nc: "m \<noteq> Crashed"
  shows "tidy live uses L (qp_owned q') h' \<and> no_obj q'"
proof (cases "ia_external_umem (m_init_attr q) = null")
  case True
  define total where "total = unat (total_umem_size_of q)"
  obtain p h1 where a1: "hs_memalign H 4096 total h = (p, h1)" by fastforce
  have p: "p \<noteq> null"
    using c nc True a1 by (cases "p = null") (auto simp: create_umem_part_def total_def)
  have "adds live uses h (RBuf p) {} h1" using lawful_steps(5) [OF l a1] p by simp
  from tidy_adds [OF this _ t]
  have "tidy live uses L (insert (RBuf p) (qp_owned q)) h1" by simp
  then have t2: "tidy live uses L (insert (RBuf p) (qp_owned q)) (hs_zero H p total h1)"
    by (rule tidy_same [OF lawful_steps(6) [OF l]])
  obtain st u h3 where a3: "hs_umem_reg H p (ucast (total_umem_size_of q)) 0 (hs_zero H p total h1) =
      (st, u, h3)" by (metis prod_cases3)
  note s3 = tidy_creation [OF lawful_steps(2) [OF l a3] t2]
  let ?q1 = "place_queues p (q\<lparr>m_umem_buf := p\<rparr>)"
  have o1: "qp_owned ?q1 = insert (RBuf p) (qp_owned q)"
    using n(2) p owned_adds(4) [of q p] by (simp add: owned_other no_umem_def)
  show ?thesis
  proof (cases "st = DOCA_SUCCESS")
    case st: True
    then have q': "q' = ?q1\<lparr>m_umem_obj := u, m_db_buffer := m_wq_buf ?q1 + unat (db_umem_offset_of q)\<rparr>"
        "h' = h3"
      using c True a1 p a3 by (auto simp: create_umem_part_def total_def Let_def)
    have "qp_owned q' = insert (RUmem u) (qp_owned ?q1)"
      using st s3 n(2) owned_adds(3) [of ?q1 u] by (simp add: q' owned_other no_umem_def)
    then show ?thesis using st s3 n o1 by (simp add: q' no_obj_def)
  next
    case st: False
    then have "q' = ?q1" "h' = h3"
      using c True a1 p a3 by (auto simp: create_umem_part_def total_def Let_def)
    then show ?thesis using st s3 n o1 by (simp add: no_obj_def)
  qed
next
  case False
  then have "qp_owned q' = qp_owned q \<and> h' = h \<and> no_obj q'"
    using c n unfolding create_umem_part_def Let_def and_then_def
    by (auto simp: owned_defs place_queues_def dest!: get_or_throw_keeps split: prod.splits made.splits)
  then show ?thesis using t by simp
qed

lemma create_qp_obj_cases:
  assumes "create_qp_obj H env uar_id lrq lsq ls dbr_off dbr_id wq_id q h = (st, q', h')"
  shows "q' = q \<and> h' = h \<or>
    (\<exists>cmd ob out. hs_obj_create H cmd h = (st, ob, out, h') \<and>
      m_uar_obj q' = m_uar_obj q \<and> m_umem_obj q' = m_umem_obj q \<and> m_umem_buf q' = m_umem_buf q \<and>
      m_qp_obj q' = (if st = DOCA_SUCCESS then ob else m_qp_obj q))"
  using assms
  by (auto simp: create_qp_obj_def Let_def split: if_splits prod.splits sum.splits)

lemma obj_part_tidy:
  assumes l: "lawful H live uses" and t: "tidy live uses L (qp_owned q) h" and n: "no_obj q"
    and c: "create_qp_obj H env uar_id lrq lsq ls dbr_off dbr_id wq_id q h = (st, q', h')"
  shows "tidy live uses L (qp_owned q') h'"
proof (cases "q' = q \<and> h' = h")
  case False
  then obtain cmd ob out where o: "hs_obj_create H cmd h = (st, ob, out, h')"
    and f: "m_uar_obj q' = m_uar_obj q" "m_umem_obj q' = m_umem_obj q" "m_umem_buf q' = m_umem_buf q"
      "m_qp_obj q' = (if st = DOCA_SUCCESS then ob else m_qp_obj q)"
    using create_qp_obj_cases [OF c] by blast
  have low: "\<forall>y \<in> UNIV \<inter> qp_owned q. res_rank y < res_rank (RObj ob)"
    using n by (auto simp: owned_defs)
  note s = tidy_creation [OF lawful_steps(4) [OF l o] t low]
  show ?thesis
  proof (cases "st = DOCA_SUCCESS")
    case True
    then have "qp_owned q' = qp_owned (q\<lparr>m_qp_obj := ob\<rparr>)" using f by (intro owned_cong) simp_all
    then show ?thesis using True s n owned_adds(1) [of q ob] by (simp add: no_obj_def)
  next
    case st: False
    then have "qp_owned q' = qp_owned q" using f by (intro owned_cong) simp_all
    then show ?thesis using st s by simp
  qed
qed (use t in simp)

lemma qp_create_tidy:
  assumes l: "lawful H live uses" and t: "tidy live uses L {} h" and n: "new_object q"
    and c: "qp_open_create env ctx H q h = (m, q', h')" and nc: "m \<noteq> Crashed"
  shows "tidy live uses L (qp_owned q') h'"
proof -
  let ?q0 = "q\<lparr>m_pd := ia_pd (m_init_attr q)\<rparr>"
  obtain m1 q1 where c1: "create_checks H ctx ?q0 h = (m1, q1)" by fastforce
  have n1: "new_object q1" using size_parts_owned(3) [OF c1] n by (simp add: owned_defs)
  have t1: "tidy live uses L (qp_owned q1) h" if "new_object q1" for q1
    using t that by (simp add: owned_defs)
  show ?thesis
  proof (cases m1)
    case d: (Made d)
    obtain m2 q2 where c2: "size_rq d q1 = (m2, q2)" by fastforce
    have n2: "new_object q2" using size_parts_owned(1) [OF c2] n1 by (simp add: owned_defs)
    show ?thesis
    proof (cases m2)
      case r: (Made logs)
      obtain m3 q3 where c3: "size_sq d q2 = (m3, q3)" by fastforce
      have n3: "new_object q3" using size_parts_owned(2) [OF c3] n2 by (simp add: owned_defs)
      show ?thesis
      proof (cases m3)
        case s: (Made lsq)
        obtain m4 q4 h4 where c4: "create_uar_part H env q3 h = (m4, q4, h4)" by (metis prod_cases3)
        note t4 = uar_part_tidy [OF l t1 [OF n3] n3 c4]
        show ?thesis
        proof (cases m4)
          case u: (Made uar_id)
          obtain m5 q5 h5 where c5: "create_umem_part H env q4 h4 = (m5, q5, h5)" by (metis prod_cases3)
          have nc5: "m5 \<noteq> Crashed"
            using c c1 d c2 r c3 s c4 u c5 nc
            by (auto simp: qp_open_create_def with_host_def split: prod.splits)
          note t5 = umem_part_tidy [OF l _ _ _ c5 nc5, of L]
          show ?thesis
            using c c1 d c2 r c3 s c4 u c5 t4 t5 nc5 obj_part_tidy [OF l, of L q5 h5]
            by (cases m5) (auto simp: qp_open_create_def with_host_def split: prod.splits if_splits)
        qed (use c c1 d c2 r c3 s c4 t4 nc in \<open>auto simp: qp_open_create_def with_host_def split: prod.splits\<close>)
      qed (use c c1 d c2 r c3 t1 [OF n3] nc in \<open>auto simp: qp_open_create_def with_host_def split: prod.splits\<close>)
    qed (use c c1 d c2 t1 [OF n2] nc in \<open>auto simp: qp_open_create_def with_host_def\<close>)
  qed (use c c1 t1 [OF n1] nc in \<open>auto simp: qp_open_create_def with_host_def\<close>)
qed

lemma owned_drops:
  "m_qp_obj q \<noteq> null \<Longrightarrow> qp_owned (q\<lparr>m_qp_obj := null\<rparr>) = qp_owned q - {RObj (m_qp_obj q)}"
  "m_uar_obj q \<noteq> null \<Longrightarrow> qp_owned (q\<lparr>m_uar_obj := null\<rparr>) = qp_owned q - {RUar (m_uar_obj q)}"
  "m_umem_obj q \<noteq> null \<Longrightarrow> qp_owned (q\<lparr>m_umem_obj := null\<rparr>) = qp_owned q - {RUmem (m_umem_obj q)}"
  "m_umem_buf q \<noteq> null \<Longrightarrow> qp_owned (q\<lparr>m_umem_buf := null\<rparr>) = qp_owned q - {RBuf (m_umem_buf q)}"
  by (auto simp: qp_owned_def)

lemma owned_rank:
  "x \<in> qp_owned q \<Longrightarrow> res_rank x \<le> 2"
  "m_qp_obj q = null \<Longrightarrow> x \<in> qp_owned q \<Longrightarrow> res_rank x \<le> 1"
  "m_qp_obj q = null \<Longrightarrow> m_uar_obj q = null \<Longrightarrow> m_umem_obj q = null \<Longrightarrow> x \<in> qp_owned q \<Longrightarrow> res_rank x \<le> 0"
  by (auto simp: qp_owned_def split: if_splits)

lemma owned_members:
  "m_qp_obj q \<noteq> null \<Longrightarrow> RObj (m_qp_obj q) \<in> qp_owned q"
  "m_uar_obj q \<noteq> null \<Longrightarrow> RUar (m_uar_obj q) \<in> qp_owned q"
  "m_umem_obj q \<noteq> null \<Longrightarrow> RUmem (m_umem_obj q) \<in> qp_owned q"
  "m_umem_buf q \<noteq> null \<Longrightarrow> RBuf (m_umem_buf q) \<in> qp_owned q"
  by (auto simp: qp_owned_def)

text \<open>The four releases, as steps on the object and the host.\<close>

lemma drop_obj:
  assumes l: "lawful H live uses" and t: "tidy live uses L (qp_owned q) h"
    and c: "hs_obj_destroy H (m_qp_obj q) h = (st, h')" and n: "m_qp_obj q \<noteq> null"
  shows "st = DOCA_SUCCESS \<and> tidy live uses L (qp_owned (q\<lparr>m_qp_obj := null\<rparr>)) h'"
  unfolding owned_drops(1) [OF n]
  by (rule tidy_release [OF lawful_steps(9) [OF l c] t owned_members(1) [OF n]]) (simp add: owned_rank)

lemma drop_uar:
  assumes l: "lawful H live uses" and t: "tidy live uses L (qp_owned q) h" and o: "m_qp_obj q = null"
    and c: "hs_free_uar H (m_uar_obj q) h = (st, h')" and n: "m_uar_obj q \<noteq> null"
  shows "tidy live uses L (qp_owned (q\<lparr>m_uar_obj := null\<rparr>)) h'"
  unfolding owned_drops(2) [OF n]
  using tidy_release [OF lawful_steps(7) [OF l c] t owned_members(2) [OF n]] owned_rank(2) [OF o] by simp

lemma drop_umem:
  assumes l: "lawful H live uses" and t: "tidy live uses L (qp_owned q) h" and o: "m_qp_obj q = null"
    and c: "hs_umem_dereg H (m_umem_obj q) h = (st, h')" and n: "m_umem_obj q \<noteq> null"
  shows "st = DOCA_SUCCESS \<and> tidy live uses L (qp_owned (q\<lparr>m_umem_obj := null\<rparr>)) h'"
  unfolding owned_drops(3) [OF n]
  using tidy_release [OF lawful_steps(8) [OF l c] t owned_members(3) [OF n]] owned_rank(2) [OF o] by simp

lemma drop_buf:
  assumes l: "lawful H live uses" and t: "tidy live uses L (qp_owned q) h"
    and o: "m_qp_obj q = null" "m_uar_obj q = null" "m_umem_obj q = null" and n: "m_umem_buf q \<noteq> null"
  shows "tidy live uses L (qp_owned (q\<lparr>m_umem_buf := null\<rparr>)) (hs_free H (m_umem_buf q) h)"
proof -
  let ?r = "RBuf (m_umem_buf q)"
  have h: "held live uses (qp_owned q) h" using t by (simp add: tidy_def)
  have u: "unused live uses h ?r"
    by (rule held_unused [OF h owned_members(4) [OF n]]) (use owned_rank(3) [OF o] in simp)
  have "?r \<in> live h" using h owned_members(4) [OF n] by (auto simp: held_def)
  from tidy_removes [OF lawful_steps(10) [OF l this u] t owned_members(4) [OF n] u]
  show ?thesis unfolding owned_drops(4) [OF n] .
qed

text \<open>\<^verbatim>\<open>destroy()\<close> as these steps.\<close>

definition drop_uar_step :: "'h host \<Rightarrow> qp_open \<times> 'h \<Rightarrow> qp_open \<times> 'h" where
  "drop_uar_step H = (\<lambda>(q, h). if m_uar_obj q \<noteq> null
     then (q\<lparr>m_uar_obj := null\<rparr>, snd (hs_free_uar H (m_uar_obj q) h)) else (q, h))"

lemma drop_uar_step_tidy:
  assumes "lawful H live uses" "tidy live uses L (qp_owned q) h" "m_qp_obj q = null"
    and "drop_uar_step H (q, h) = (q', h')"
  shows "tidy live uses L (qp_owned q') h' \<and> m_qp_obj q' = null \<and> m_uar_obj q' = null"
proof (cases "m_uar_obj q = null")
  case False
  obtain st h1 where "hs_free_uar H (m_uar_obj q) h = (st, h1)" by fastforce
  with drop_uar [OF assms(1-3) this] False assms(3,4) show ?thesis by (auto simp: drop_uar_step_def)
qed (use assms in \<open>simp add: drop_uar_step_def\<close>)

lemma destroy_rest_tidy:
  assumes l: "lawful H live uses" and t: "tidy live uses L (qp_owned q) h" and n: "m_qp_obj q = null"
    and d: "(case drop_uar_step H (q, h) of (q, h) \<Rightarrow>
      (case (if m_umem_obj q \<noteq> null
             then case hs_umem_dereg H (m_umem_obj q) h of (st, h') \<Rightarrow>
               if st \<noteq> DOCA_SUCCESS then (DOCA_ERROR_DRIVER, q, h')
               else (DOCA_SUCCESS, q\<lparr>m_umem_obj := null\<rparr>, h')
             else (DOCA_SUCCESS, q, h)) of
         (st, q, h) \<Rightarrow>
           if st \<noteq> DOCA_SUCCESS then (st, q, h)
           else if m_umem_buf q \<noteq> null
           then (DOCA_SUCCESS, q\<lparr>m_umem_buf := null\<rparr>, hs_free H (m_umem_buf q) h)
           else (DOCA_SUCCESS, q, h))) = (st', q', h')"
  shows "st' = DOCA_SUCCESS \<and> qp_owned q' = {} \<and> tidy live uses L {} h'"
proof -
  obtain q1 h1 where u: "drop_uar_step H (q, h) = (q1, h1)" by fastforce
  note t1 = drop_uar_step_tidy [OF l t n u]
  obtain q2 h2 where m: "(if m_umem_obj q1 \<noteq> null
       then case hs_umem_dereg H (m_umem_obj q1) h1 of (st, h') \<Rightarrow>
         if st \<noteq> DOCA_SUCCESS then (DOCA_ERROR_DRIVER, q1, h')
         else (DOCA_SUCCESS, q1\<lparr>m_umem_obj := null\<rparr>, h')
       else (DOCA_SUCCESS, q1, h1)) = (DOCA_SUCCESS, q2, h2)"
    and t2: "tidy live uses L (qp_owned q2) h2" "m_qp_obj q2 = null" "m_uar_obj q2 = null" "m_umem_obj q2 = null"
  proof (cases "m_umem_obj q1 = null")
    case False
    obtain st h2 where c: "hs_umem_dereg H (m_umem_obj q1) h1 = (st, h2)" by fastforce
    show thesis
      using drop_umem [OF l _ _ c False, of L] t1 c False that [of "q1\<lparr>m_umem_obj := null\<rparr>" h2] by simp
  qed (use t1 that in simp)
  have rest: "(if m_umem_buf q2 \<noteq> null
      then (DOCA_SUCCESS, q2\<lparr>m_umem_buf := null\<rparr>, hs_free H (m_umem_buf q2) h2)
      else (DOCA_SUCCESS, q2, h2)) = (st', q', h')"
    using d unfolding u prod.case m by simp
  show ?thesis
  proof (cases "m_umem_buf q2 = null")
    case False
    with drop_buf [OF l t2 False] rest t2 show ?thesis by (auto simp: qp_owned_def)
  qed (use rest t2 in \<open>auto simp: qp_owned_def\<close>)
qed

lemma qp_destroy_tidy:
  assumes l: "lawful H live uses" and t: "tidy live uses L (qp_owned q) h"
    and d: "qp_open_destroy H q h = (st, q', h')"
  shows "st = DOCA_SUCCESS \<and> qp_owned q' = {} \<and> tidy live uses L {} h'"
proof -
  let ?q = "q\<lparr>m_verbs_device_attr := snd (verbs_device_attr_free (m_verbs_device_attr q))\<rparr>"
  have "qp_owned ?q = qp_owned q" by (rule owned_cong) simp_all
  then have t0: "tidy live uses L (qp_owned ?q) h" using t by simp
  show ?thesis
  proof (cases "m_qp_obj q = null")
    case True
    then show ?thesis
      using d by (intro destroy_rest_tidy [OF l t0]) (simp_all add: qp_open_destroy_def drop_uar_step_def Let_def)
  next
    case False
    obtain st1 h1 where c: "hs_obj_destroy H (m_qp_obj ?q) h = (st1, h1)" by fastforce
    have t1: "st1 = DOCA_SUCCESS" "tidy live uses L (qp_owned (?q\<lparr>m_qp_obj := null\<rparr>)) h1"
      using drop_obj [OF l t0 c] False by simp_all
    then show ?thesis
      using d c False
      by (intro destroy_rest_tidy [OF l t1(2)]) (simp_all add: qp_open_destroy_def drop_uar_step_def Let_def)
  qed
qed

interpretation qp: owner "qp_open_create env ctx" qp_open_destroy qp_owned new_object
  by unfold_locales (rule qp_create_tidy qp_destroy_tidy; assumption)+

end
