(* ===== verification/QpDemo.thy ===== *)
theory QpDemo
  imports QpOwner
begin

text \<open>
  A concrete host with the documented behaviour, and a queue pair made on it: the inputs of the
  witnesses.
\<close>

section \<open>A host\<close>

text \<open>
  A host that behaves as documented: its state lists the live resources with what they use.
  It gives out fresh numbers, refuses to release what is in use, and has room for one queue object.
\<close>

type_synonym ref_state = "(resource \<times> resource list) list"

fun res_ptr :: "resource \<Rightarrow> ptr" where
  "res_ptr (RBuf p) = p" | "res_ptr (RUmem p) = p" | "res_ptr (RUar p) = p" | "res_ptr (RObj p) = p"

definition ref_live :: "ref_state \<Rightarrow> resource set" where "ref_live xs = fst ` set xs"

definition ref_uses :: "ref_state \<Rightarrow> resource \<Rightarrow> resource set" where
  "ref_uses xs r = (case map_of xs r of None \<Rightarrow> {} | Some ys \<Rightarrow> set ys)"

definition fresh_ptr :: "ref_state \<Rightarrow> ptr" where
  "fresh_ptr xs = Suc (foldr (\<lambda>x m. max (res_ptr (fst x)) m) xs 0)"

definition ref_add :: "(ptr \<Rightarrow> resource) \<Rightarrow> resource list \<Rightarrow> ref_state \<Rightarrow> doca_error \<times> ptr \<times> ref_state" where
  "ref_add R ys xs = (DOCA_SUCCESS, fresh_ptr xs, (R (fresh_ptr xs), ys) # xs)"

definition ref_drop :: "resource \<Rightarrow> ref_state \<Rightarrow> doca_error \<times> ref_state" where
  "ref_drop r xs =
    (if list_ex (\<lambda>x. r \<in> ref_uses xs (fst x)) xs then (DOCA_ERROR_IN_USE, xs)
     else (DOCA_SUCCESS, filter (\<lambda>x. fst x \<noteq> r) xs))"

definition ref_caps :: devx_buf where
  "ref_caps = devx_set cap_max_wqe_sz_sq 1024 (devx_set cap_max_wqe_sz_rq 512
    (devx_set cap_log_max_qp_sz 15 (devx_set cap_rc 1 devx_zero)))"

definition ref_device :: ibv_device_attr where
  "ref_device = \<lparr>ib_max_qp = 1024, ib_max_qp_wr = 32768, ib_max_sge = 30, ib_max_cq = 1024,
     ib_max_cqe = 65536, ib_max_mr = 1024, ib_max_pd = 1024, ib_max_ah = 1024, ib_max_srq = 1024,
     ib_max_srq_wr = 32768, ib_max_srq_sge = 30, ib_max_pkeys = 128, ib_phys_port_cnt = 1,
     ib_max_qp_init_rd_atom = 16, ib_max_qp_rd_atom = 16\<rparr>"

definition is_obj :: "resource \<Rightarrow> bool" where
  "is_obj r = (case r of RObj p \<Rightarrow> True | _ \<Rightarrow> False)"

definition ref_host :: "ref_state host" where
  "ref_host =
    \<lparr>hs_alloc_uar = (\<lambda>t. ref_add RUar []), hs_free_uar = (\<lambda>p. ref_drop (RUar p)),
     hs_uar_page_id = (\<lambda>p h. of_nat p), hs_uar_reg_addr = (\<lambda>p h. 65536 * p),
     hs_uar_base_addr = (\<lambda>p h. 65536 * p),
     hs_umem_reg = (\<lambda>a n f xs. ref_add RUmem (filter (\<lambda>r. r = RBuf a) (map fst xs)) xs),
     hs_umem_reg_ex = (\<lambda>i. ref_add RUmem []), hs_umem_dereg = (\<lambda>p. ref_drop (RUmem p)),
     hs_umem_id = (\<lambda>p h. of_nat p),
     hs_obj_create = (\<lambda>c xs. if list_ex (\<lambda>x. is_obj (fst x)) xs
       then (DOCA_ERROR_DRIVER, null, devx_zero, xs)
       else (DOCA_SUCCESS, fresh_ptr xs, devx_set cmd_qpn 77 devx_zero,
             (RObj (fresh_ptr xs), map fst xs) # xs)),
     hs_obj_destroy = (\<lambda>p. ref_drop (RObj p)),
     hs_memalign = (\<lambda>a n xs. snd (ref_add RBuf [] xs)), hs_zero = (\<lambda>p n xs. xs),
     hs_free = (\<lambda>p xs. snd (ref_drop (RBuf p) xs)), hs_query_eqn = (\<lambda>h. (DOCA_SUCCESS, 6)), hs_pdn = (\<lambda>p h. (DOCA_SUCCESS, 5)),
     hs_pagesize = 4096, hs_query_device = (\<lambda>h. (DOCA_SUCCESS, ref_device)),
     hs_general_cmd = (\<lambda>c h. (DOCA_SUCCESS, ref_caps))\<rparr>"

lemma fresh_ptr_fresh: "x \<in> set xs \<Longrightarrow> res_ptr (fst x) < fresh_ptr xs"
  unfolding fresh_ptr_def by (induction xs) (auto simp: less_Suc_eq_le max.coboundedI2)

lemma fresh_not_live: "res_ptr r = fresh_ptr xs \<Longrightarrow> r \<notin> ref_live xs"
  using fresh_ptr_fresh by (fastforce simp: ref_live_def)

lemma ref_adds:
  assumes "res_ptr r = fresh_ptr xs"
  shows "adds ref_live ref_uses xs r (set ys) ((r, ys) # xs)"
  using fresh_not_live [OF assms] by (auto simp: adds_def ref_live_def ref_uses_def)

lemma ref_release: "release_law ref_live ref_uses xs r (fst (ref_drop r xs)) (snd (ref_drop r xs))"
proof -
  have "map_of (filter (\<lambda>x. fst x \<noteq> r) xs) y = map_of xs y" if "y \<noteq> r" for y
    using that by (induction xs) auto
  then show ?thesis
    by (auto simp: release_law_def ref_drop_def removes_def unused_def same_def ref_live_def ref_uses_def
        list_ex_iff)
qed

lemma ref_creation:
  assumes "ref_add R ys xs = (st, p, xs')" "\<And>p. res_ptr (R p) = p" "set ys \<subseteq> B" "set ys \<subseteq> ref_live xs"
  shows "creation_law ref_live ref_uses xs B R st p xs'"
  using assms ref_adds [of "R (fresh_ptr xs)" xs ys]
  by (auto simp: ref_add_def creation_law_def fresh_ptr_def)

lemma ref_release_st: "ref_drop r xs = (st, xs') \<Longrightarrow> release_law ref_live ref_uses xs r st xs'"
  using ref_release [of xs r] by simp

lemma ref_host_lawful: "lawful ref_host ref_live ref_uses"
  unfolding lawful_def
proof (intro conjI allI)
  fix t h
  show "case hs_alloc_uar ref_host t h of (st, p, h') \<Rightarrow> creation_law ref_live ref_uses h {} RUar st p h'"
    by (auto simp: ref_host_def intro: ref_creation)
next
  fix a n f h
  show "case hs_umem_reg ref_host a n f h of (st, p, h') \<Rightarrow>
      creation_law ref_live ref_uses h {RBuf a} RUmem st p h'"
    by (auto simp: ref_host_def ref_live_def intro!: ref_creation)
next
  fix i h
  show "case hs_umem_reg_ex ref_host i h of (st, p, h') \<Rightarrow>
      creation_law ref_live ref_uses h {} RUmem st p h'"
    by (auto simp: ref_host_def intro: ref_creation)
next
  fix c h
  show "case hs_obj_create ref_host c h of (st, p, out, h') \<Rightarrow>
      creation_law ref_live ref_uses h UNIV RObj st p h'"
    using ref_creation [of RObj "map fst h" h DOCA_SUCCESS "fresh_ptr h"
        "(RObj (fresh_ptr h), map fst h) # h" UNIV]
    by (auto simp: ref_host_def ref_add_def same_def creation_law_def ref_live_def)
next
  fix a n h
  show "case hs_memalign ref_host a n h of (p, h') \<Rightarrow>
      if p = null then same ref_live ref_uses h h' else adds ref_live ref_uses h (RBuf p) {} h'"
    using ref_adds [of "RBuf (fresh_ptr h)" h "[]"] by (simp add: ref_host_def ref_add_def fresh_ptr_def)
next
  fix p n h
  show "same ref_live ref_uses h (hs_zero ref_host p n h)" by (simp add: ref_host_def same_def)
next
  fix p h
  show "case hs_free_uar ref_host p h of (st, h') \<Rightarrow> release_law ref_live ref_uses h (RUar p) st h'"
    by (auto simp: ref_host_def intro: ref_release_st)
next
  fix p h
  show "case hs_umem_dereg ref_host p h of (st, h') \<Rightarrow> release_law ref_live ref_uses h (RUmem p) st h'"
    by (auto simp: ref_host_def intro: ref_release_st)
next
  fix p h
  show "case hs_obj_destroy ref_host p h of (st, h') \<Rightarrow> release_law ref_live ref_uses h (RObj p) st h'"
    by (auto simp: ref_host_def intro: ref_release_st)
next
  fix p h
  show "RBuf p \<in> ref_live h \<longrightarrow> unused ref_live ref_uses h (RBuf p) \<longrightarrow>
      removes ref_live ref_uses h (RBuf p) (hs_free ref_host p h)"
    using ref_release [of h "RBuf p"] by (auto simp: ref_host_def release_law_def)
qed

definition ref_env :: "unit qp_env" where
  "ref_env = \<lparr>env_cq = (\<lambda>p. (LIB_TYPE_OPEN, of_nat p)), env_srqn = of_nat,
     env_uar = (\<lambda>p. open_handle (new_uar UAR_ALLOCATION_TYPE_BLUEFLAME)),
     env_umem = (\<lambda>p. open_handle (new_umem p 4096 0 (- 1) 0)),
     env_sdk_uar_id = (\<lambda>p. (DOCA_SDK_WRAPPER_NOT_FOUND, 0)),
     env_sdk_uar_reg_addr = (\<lambda>p. (DOCA_SDK_WRAPPER_NOT_FOUND, 0)),
     env_sdk_umem_id = (\<lambda>p. (DOCA_SDK_WRAPPER_NOT_FOUND, 0)),
     env_sdk_umem_address = (\<lambda>p. (DOCA_SDK_WRAPPER_NOT_FOUND, 0))\<rparr>"

definition demo_ia :: qp_init_attr_open where
  "demo_ia = new_qp_init_attr\<lparr>ia_pd := 3, ia_send_cq := 11, ia_receive_cq := 12, ia_sq_wr := 100,
     ia_send_max_sges := 2, ia_max_inline_data := 8, ia_rq_wr := 10, ia_receive_max_sges := 3\<rparr>"

section \<open>A queue pair made on it\<close>

definition demo_device :: device_attr where
  "demo_device = verbs_caps ref_device
    \<lparr>da_gid_table_size := 8, da_is_qp_rc_supported := 1, da_max_sq_desc_size := 1024,
     da_max_rq_desc_size := 512, da_max_send_wqebb := 32768\<rparr>"

lemmas cap_fields = devx_fields cap_hca_cap_2_def cap_log_max_qp_sz_def cap_rts2rts_qp_dscp_def
  cap_gid_table_size_def cap_port_type_def cap_rc_def cap_max_wqe_sz_sq_def cap_max_wqe_sz_rq_def
  cap_send_dbr_mode_no_dbr_ext_def roce_max_src_udp_port_def roce_min_src_udp_port_def
  roce_address_table_size_def

lemma demo_query: "query_caps ref_host h = Inr demo_device"
  by (simp add: query_caps_def query_hca_cap_def ref_host_def ref_caps_def general_caps_def
      roce_caps_def demo_device_def verbs_caps_def new_device_attr_def cap_fields
      translate_gid_table_size_def)

definition demo_checked :: qp_open where
  "demo_checked = new_qp\<lparr>m_init_attr := demo_ia, m_pd := 3, m_verbs_device_attr := Some demo_device\<rparr>"

lemma demo_checks:
  "create_checks ref_host 1 (new_qp\<lparr>m_init_attr := demo_ia, m_pd := 3\<rparr>) h = (Made demo_device, demo_checked)"
  by (simp add: create_checks_def verbs_query_device_def demo_query demo_checked_def demo_ia_def
      new_qp_init_attr_def QP_TYPE_RC_def SEND_DBR_MODE_NO_DBR_EXT_def)

lemma demo_arith:
  "next_power_of_two_u32 3 = 4" "next_power_of_two_u32 640 = 1024" "next_power_of_two_u32 6400 = 8192"
  "log2_u32 64 = 6" "log2_u32 16 = 4" "log2_u32 128 = 7"
  "align_up_uint32 64 64 = 64" "align_up_uint32 12 16 = 16" "align_up_uint32 9216 64 = 9216"
  "align_up_uint32 9280 4096 = 12288"
  by code_simp+

definition demo_sized :: qp_open where
  "demo_sized = demo_checked\<lparr>m_rcv_max_sges := 4, m_rcv_wqe_size := 64, m_log_rcv_wqe_size := 6, m_rq_size := 16,
     m_send_max_sges := 2, m_send_wqe_size := 64, m_sq_size_wqebb := 128, m_sq_size_wr := 128,
     m_init_attr := demo_ia\<lparr>ia_max_inline_data := 28\<rparr>, m_max_inline_data_length := 28\<rparr>"

lemma demo_rq: "size_rq demo_device demo_checked = (Made (4, 2), demo_checked\<lparr>m_rcv_max_sges := 4, m_rcv_wqe_size := 64,
     m_log_rcv_wqe_size := 6, m_rq_size := 16\<rparr>)"
  by (simp add: size_rq_def demo_checked_def demo_ia_def demo_device_def new_qp_init_attr_def size_consts
      verbs_caps_def ref_device_def demo_arith max_def)

lemma demo_sq: "size_sq demo_device (demo_checked\<lparr>m_rcv_max_sges := 4, m_rcv_wqe_size := 64,
     m_log_rcv_wqe_size := 6, m_rq_size := 16\<rparr>) = (Made 7, demo_sized)"
  by (simp add: size_sq_def demo_sized_def demo_checked_def demo_ia_def demo_device_def new_qp_init_attr_def
      size_consts verbs_caps_def send_wqe_size_of_def send_wqe_inline_size_of_def demo_arith max_def)

definition demo_placed :: qp_open where
  "demo_placed = demo_sized\<lparr>m_uar_obj := 1, m_uar_db_reg := 65536, m_umem_buf := 2, m_umem_obj := 3,
     m_wq_buf := 2, m_rq_buf := 2, m_sq_buf := 1026, m_db_buffer := 9218\<rparr>"

definition demo_made :: qp_open where
  "demo_made = demo_placed\<lparr>m_qp_obj := 4, m_qp_num := 77\<rparr>"

definition demo_host :: ref_state where
  "demo_host = [(RObj 4, [RUmem 3, RBuf 2, RUar 1]), (RUmem 3, [RBuf 2]), (RBuf 2, []), (RUar 1, [])]"

lemma demo_uar: "create_uar_part ref_host ref_env demo_sized [] =
    (Made 1, demo_sized\<lparr>m_uar_obj := 1, m_uar_db_reg := 65536\<rparr>, [(RUar 1, [])])"
  by (simp add: create_uar_part_def demo_sized_def demo_checked_def demo_ia_def new_qp_init_attr_def
      ref_host_def ref_add_def fresh_ptr_def)

lemma demo_umem: "create_umem_part ref_host ref_env (demo_sized\<lparr>m_uar_obj := 1, m_uar_db_reg := 65536\<rparr>)
    [(RUar 1, [])] = (Made (3, 9216, 3), demo_placed, tl demo_host)"
  by (simp add: create_umem_part_def demo_placed_def demo_host_def demo_sized_def demo_checked_def demo_ia_def
      new_qp_init_attr_def ref_host_def ref_add_def fresh_ptr_def place_queues_def
      db_umem_offset_of_def total_umem_size_of_def size_consts demo_arith)

lemma demo_obj: "create_qp_obj ref_host ref_env 1 4 7 2 9216 3 3 demo_placed (tl demo_host) =
    (DOCA_SUCCESS, demo_made, demo_host)"
  by (simp add: create_qp_obj_def demo_made_def demo_placed_def demo_host_def demo_sized_def demo_checked_def
      demo_ia_def new_qp_init_attr_def ref_host_def ref_env_def fresh_ptr_def is_obj_def
      create_qp_send_def create_qp_receive_def devx_fields new_qp_def)

lemma demo_created:
  "qp_create ref_host ref_env 1 True (OpenDev 1) (Some (open_handle demo_ia))
      (DOCA_SDK_WRAPPER_NOT_FOUND, None :: unit option) [] =
    Ret (DOCA_SUCCESS, Some (open_handle demo_made), demo_host)"
proof -
  have "new_qp\<lparr>m_init_attr := demo_ia, m_pd := ia_pd (m_init_attr (new_qp\<lparr>m_init_attr := demo_ia\<rparr>))\<rparr> =
      new_qp\<lparr>m_init_attr := demo_ia, m_pd := 3\<rparr>" by (simp add: demo_ia_def)
  then have "qp_open_create ref_env 1 ref_host (new_qp\<lparr>m_init_attr := demo_ia\<rparr>) [] = (Made (), demo_made, demo_host)"
    by (simp add: qp_open_create_def with_host_def demo_checks demo_rq demo_sq demo_uar demo_umem demo_obj
        del: One_nat_def)
  then show ?thesis
    by (simp add: qp_create_def api_create_h_def construct_def open_handle_def Let_def)
qed

end
