(* ===== verification/CreateProps.thy ===== *)
theory CreateProps
  imports QpDemo DevSq
begin

text \<open>
  Properties of the creation and destruction of queue pairs, regions and registered memory, with
  their instances on the host of \<open>QpDemo\<close>.
\<close>

section \<open>Sizes\<close>

text \<open>C20: Send queue sizes.  When no sum wraps and the largest entry of the device is a multiple of 64
  bytes, a size computation that succeeds gives a power of two of 64-byte blocks, within the limit
  of the device, with its logarithm.  The entry is a multiple of 64 bytes, within the limit, and
  has room for the data segments and for the inline data asked for; the requested number of
  entries fits into the queue, and the entries it reports do too.  The inline length it grants is
  at least the one asked for and fills the entry.\<close>

theorem send_queue_holds_what_was_asked:
  assumes "size_sq d q = (Made lg, q')" and "0 < ia_sq_wr (m_init_attr q)"
    and "no_wrap (m_init_attr q)" and "64 dvd unat (da_max_sq_desc_size d)"
  shows "\<exists>k\<le>25. m_sq_size_wqebb q' = 2 ^ k \<and> lg = of_nat k \<and>
    m_sq_size_wqebb q' \<le> da_max_send_wqebb d \<and>
    64 dvd unat (m_send_wqe_size q') \<and> m_send_wqe_size q' \<le> da_max_sq_desc_size d \<and>
    32 + 16 * unat (ia_send_max_sges (m_init_attr q)) \<le> unat (m_send_wqe_size q') \<and>
    unat (ia_sq_wr (m_init_attr q)) * unat (m_send_wqe_size q') \<le> 64 * 2 ^ k \<and>
    ia_sq_wr (m_init_attr q) \<le> m_sq_size_wr q' \<and>
    unat (m_sq_size_wr q') * unat (m_send_wqe_size q') \<le> 64 * 2 ^ k \<and>
    (if 0 < ia_max_inline_data (m_init_attr q)
     then ia_max_inline_data (m_init_attr q) \<le> m_max_inline_data_length q' \<and>
       36 + unat (m_max_inline_data_length q') = unat (m_send_wqe_size q') \<and>
       ia_max_inline_data (m_init_attr q') = m_max_inline_data_length q'
     else m_max_inline_data_length q' = m_max_inline_data_length q)"
proof -
  define a n w D where "a = m_init_attr q" and "n = ia_sq_wr a" and "w = wqe_size_of a"
    and "D = da_max_sq_desc_size d"
  note made = size_sq_made [OF assms(1) a_def, folded n_def w_def D_def]
  have n: "0 < n" using assms(2) by (simp add: n_def a_def)
  have nw: "no_wrap a" using assms(3) by (simp add: a_def)
  note made = made [OF n]
  note w = wqe_size_of_props [OF nw assms(4) [folded D_def] made(3,4), folded w_def]
  have pos: "0 < unat n" "0 < unat w" using n made(6) by (simp_all add: unat_gt_0 word_neq_0_conv)
  have "unat n \<le> unat (0x7fffffff div D)" using made(2) by (simp add: word_le_unat)
  also have "\<dots> = 0x7fffffff div unat D" by (simp add: unat_div)
  finally have "unat D * unat n \<le> unat D * (0x7fffffff div unat D)" by simp
  also have "\<dots> \<le> 0x7fffffff" by (rule times_div_less_eq_dividend)
  finally have "unat D * unat n \<le> 0x7fffffff" .
  then have fit: "unat w * unat n \<le> 2 ^ 31"
    using order_trans [OF mult_le_mono1 [OF w(2), of "unat n"]] by simp
  obtain k where k: "k \<le> 31" "next_power_of_two_u32 (w * n) = 2 ^ k" "unat w * unat n \<le> 2 ^ k"
    using queue_bytes [OF pos fit] .
  have "64 \<le> unat w" using w(1) pos(2) by (auto elim!: dvdE)
  then have "64 * 1 \<le> unat w * unat n" using pos by (intro mult_le_mono) simp_all
  then have "(2 :: nat) ^ 6 \<le> 2 ^ k" using k(3) by simp
  then have k6: "6 \<le> k" by (rule power_le_imp_le_exp [rotated]) simp
  then have b: "2 ^ k div 64 = (2 :: u32) ^ (k - 6)" "(2 :: nat) ^ k = 64 * 2 ^ (k - 6)"
    using pow2_div_u32 [OF k(1), of 6] power_add [of "2 :: nat" 6 "k - 6"] by simp_all
  have wr: "unat (m_sq_size_wr q') = 2 ^ k div unat w"
    using k made(10) by (simp add: unat_div unat_pow2)
  have cap: "unat n \<le> 2 ^ k div unat w"
    using k(3) pos(2) by (simp add: less_eq_div_iff_mult_less_eq mult.commute)
  have inl: "unat (w - 36) = unat w - 36" "36 \<le> unat w" if "0 < ia_max_inline_data a"
    using w(4) [OF that] unat_sub_le [of 36 w] by (simp_all add: word_le_unat)
  have "k - 6 \<le> 25" using k(1) by simp
  moreover have "lg = of_nat (k - 6)" using made(7) k(2) b(1) k(1) by (simp add: log2_u32_pow2)
  moreover have "m_sq_size_wqebb q' = 2 ^ (k - 6)" "m_sq_size_wqebb q' \<le> da_max_send_wqebb d"
    using made(5,9) k(2) b(1) by simp_all
  moreover have "64 dvd unat (m_send_wqe_size q')" "m_send_wqe_size q' \<le> D"
    "32 + 16 * unat (ia_send_max_sges a) \<le> unat (m_send_wqe_size q')"
    using w made(8) by (simp_all add: word_le_unat)
  moreover have "unat n * unat (m_send_wqe_size q') \<le> 64 * 2 ^ (k - 6)"
    using k(3) b(2) made(8) by (simp add: mult.commute)
  moreover have "n \<le> m_sq_size_wr q'" using cap wr by (simp add: word_le_unat)
  moreover have "unat (m_sq_size_wr q') * unat (m_send_wqe_size q') \<le> 64 * 2 ^ (k - 6)"
    unfolding wr made(8) b(2) [symmetric] by (rule div_times_less_eq_dividend)
  moreover have "if 0 < ia_max_inline_data a
     then ia_max_inline_data a \<le> m_max_inline_data_length q' \<and>
       36 + unat (m_max_inline_data_length q') = unat (m_send_wqe_size q') \<and>
       ia_max_inline_data (m_init_attr q') = m_max_inline_data_length q'
     else m_max_inline_data_length q' = m_max_inline_data_length q"
    using made(8,11,12) inl w(4) size_sq_no_inline [OF assms(1)]
    by (auto simp: word_le_unat a_def)
  ultimately show ?thesis unfolding a_def n_def D_def by blast
qed

lemma demo_no_wrap: "no_wrap (m_init_attr demo_checked)"
  by (simp add: no_wrap_def demo_checked_def demo_ia_def new_qp_init_attr_def)

theorem send_queue_holds_what_was_asked_witness:
  "\<exists>k\<le>25. m_sq_size_wqebb demo_sized = 2 ^ k \<and> (100 :: u32) \<le> m_sq_size_wr demo_sized \<and>
    8 \<le> m_max_inline_data_length demo_sized"
proof -
  note w = send_queue_holds_what_was_asked [OF demo_sq]
  have "64 dvd unat (da_max_sq_desc_size demo_device)" by (simp add: demo_device_def)
  then show ?thesis
    using w demo_no_wrap by (auto simp: demo_checked_def demo_ia_def new_qp_init_attr_def)
qed

text \<open>Receive queue sizes.  When the entry list and the queue are at most \<open>2^27\<close> segments and
  \<open>2^31\<close> bytes, a size computation that succeeds gives a power of two of entries, each a power of
  two of bytes, with both logarithms as the command wants them; the entry has room for the data
  segments asked for, the queue for the entries asked for, and it has at least 64 bytes.\<close>

theorem receive_queue_holds_what_was_asked:
  assumes "size_rq d q = (Made (lr, ls), q')"
    and "0 < ia_rq_wr (m_init_attr q)" "ia_srq (m_init_attr q) = null"
    and "unat (ia_receive_max_sges (m_init_attr q)) \<le> 2 ^ 27"
    and "unat (da_max_qp_wr d) * unat (da_max_rq_desc_size d) \<le> 2 ^ 31"
  shows "\<exists>j k. j \<le> 31 \<and> k \<le> 31 \<and> m_rq_size q' = 2 ^ k \<and> lr = of_nat k \<and>
    m_rcv_wqe_size q' = 2 ^ j \<and> m_log_rcv_wqe_size q' = of_nat j \<and> ls = of_nat (j - 4) \<and>
    m_rcv_wqe_size q' \<le> da_max_rq_desc_size d \<and>
    16 * unat (ia_receive_max_sges (m_init_attr q)) \<le> 2 ^ j \<and>
    unat (ia_rq_wr (m_init_attr q)) \<le> 2 ^ k \<and> 64 \<le> (2 :: nat) ^ (j + k) \<and> j + k \<le> 31"
proof -
  define a n where "a = m_init_attr q" and "n = ia_rq_wr a"
  define w where "w = next_power_of_two_u32 (ia_receive_max_sges a) * 16"
  have srq: "ia_srq a = null" "0 < n" using assms(2,3) by (simp_all add: a_def n_def)
  note made = size_rq_made [OF assms(1) a_def srq(2) [unfolded n_def] srq(1), folded w_def n_def]
  have s27: "unat (ia_receive_max_sges a) \<le> 2 ^ 27" using assms(4) by (simp add: a_def)
  then have "unat (ia_receive_max_sges a) \<le> 2 ^ 31" by simp
  with made(2) obtain i where i: "next_power_of_two_u32 (ia_receive_max_sges a) = 2 ^ i" "i \<le> 31"
      "unat (ia_receive_max_sges a) \<le> 2 ^ i"
    by (metis next_power_of_two_u32_pow2)
  have "(2 :: nat) ^ i \<le> 2 ^ 27"
    using least_pow2_above_le [OF next_power_of_two_u32_least [OF made(2)] s27] i s27
    by (simp add: unat_pow2)
  then have i27: "i \<le> 27" by (rule power_le_imp_le_exp [rotated]) simp
  have w: "w = 2 ^ (i + 4)" using i(1) by (simp add: w_def power_add)
  have lw: "log2_u32 w = of_nat (i + 4)" unfolding w using i27 by (intro log2_u32_pow2) simp
  have uw: "unat w = 2 ^ (i + 4)" unfolding w using i27 by (intro unat_pow2) simp
  have "unat n * unat w \<le> unat (da_max_qp_wr d) * unat (da_max_rq_desc_size d)"
    using made(1,3) by (intro mult_le_mono) (simp_all add: word_le_unat)
  then have fit: "unat n * unat w \<le> 2 ^ 31" using assms(5) by simp
  have "0 < unat n" "0 < unat w" using srq(2) uw by (simp_all add: unat_gt_0 word_neq_0_conv)
  then obtain m where m: "m \<le> 31" "next_power_of_two_u32 (n * w) = 2 ^ m" "unat n * unat w \<le> 2 ^ m"
    using queue_bytes [of w n] fit by (metis mult.commute)
  define l where "l = max m 6"
  have six: "(64 :: u32) = 2 ^ 6" by simp
  have B: "max (next_power_of_two_u32 (n * w)) 64 = 2 ^ l"
    unfolding m(2) six l_def using m(1)
    by (simp add: max_def word_le_unat unat_pow2 del: power_numeral)
  have l: "l \<le> 31" "m \<le> l" "6 \<le> l" using m(1) by (simp_all add: l_def)
  have "1 * 2 ^ (i + 4) \<le> unat n * unat w" unfolding uw using \<open>0 < unat n\<close> by (intro mult_le_mono) simp_all
  also have "\<dots> \<le> 2 ^ m" by (rule m(3))
  also have ml: "(2 :: nat) ^ m \<le> 2 ^ l" using l(2) by (intro power_increasing) simp_all
  finally have il: "i + 4 \<le> l" by (simp add: power_le_imp_le_exp)
  have bd: "2 ^ l div w = 2 ^ (l - (i + 4))" unfolding w by (rule pow2_div_u32 [OF l(1) il])
  have "unat n * 2 ^ (i + 4) \<le> 2 ^ (l - (i + 4)) * 2 ^ (i + 4)"
    using order_trans [OF m(3) ml] uw il by (simp flip: power_add)
  then have n: "unat n \<le> 2 ^ (l - (i + 4))" by simp
  have "(2 :: nat) ^ 6 \<le> 2 ^ l" using l(3) by (intro power_increasing) simp_all
  then have l64: "64 \<le> (2 :: nat) ^ (i + 4 + (l - (i + 4)))" using il by simp
  have ls: "ls = of_nat i"
    using made(6) lw small_log_u8 [of "i + 4"] i27 by simp
  have "m_rq_size q' = 2 ^ (l - (i + 4))" "lr = of_nat (l - (i + 4))"
    using made(5,8) B bd l(1) by (simp_all add: log2_u32_pow2)
  moreover have "16 * unat (ia_receive_max_sges a) \<le> 2 ^ (i + 4)" using i(3) by (simp add: power_add)
  moreover have "m_log_rcv_wqe_size q' = of_nat (i + 4)" using made(9) lw small_log_u8 [of "i + 4"] i27 by simp
  ultimately show ?thesis
    using made(3,7) w n l64 ls i27 l(1) il unfolding a_def n_def
    by (intro exI [of _ "i + 4"] exI [of _ "l - (i + 4)"]) simp
qed

theorem receive_queue_holds_what_was_asked_witness:
  "\<exists>j k. m_rq_size demo_sized = 2 ^ k \<and> m_rcv_wqe_size demo_sized = 2 ^ j \<and>
    (48 :: nat) \<le> 2 ^ j \<and> (10 :: nat) \<le> 2 ^ k"
  using receive_queue_holds_what_was_asked [OF demo_rq]
  by (auto simp: demo_checked_def demo_ia_def new_qp_init_attr_def demo_device_def demo_sized_def
      verbs_caps_def ref_device_def)

section \<open>The creation command\<close>

text \<open>C21: The creation command.  A successful \<^verbatim>\<open>create_qp_obj\<close> has handed exactly one command to the
  device, from which it reads the protection domain, the doorbell page and the user index, the
  logarithms and completion queues of the queues that exist (a shared receive queue instead of an
  own one where there is one), and where the queues and the doorbell record are.  The object
  takes its number from the answer and is in RESET.  What the device does not find is
  \<^verbatim>\<open>cd_master\<close>: its 64-bit store clears the flag and puts the value into the next expected packet
  sequence number.\<close>

theorem create_command_describes_the_queue:
  assumes "create_qp_obj H env uar_id lrq lsq ls dbr_off dbr_id wq_id q h = (DOCA_SUCCESS, q', h')"
  shows "\<exists>cmd out pdn. hs_obj_create H cmd h = (DOCA_SUCCESS, m_qp_obj q', out, h') \<and>
    hs_pdn H (m_pd q) h = (DOCA_SUCCESS, pdn) \<and>
    head_ok q pdn uar_id cmd \<and> send_ok env q lsq cmd \<and> receive_ok env q lrq ls cmd \<and>
    memory_ok dbr_off dbr_id wq_id cmd \<and>
    devx_get qpc_send_dbr_mode cmd = take_bit 2 (ucast (ia_send_dbr_mode (m_init_attr q))) \<and>
    devx_get qpc_cd_master cmd = 0 \<and>
    devx_get qpc_next_rcv_psn cmd = ucast (ia_core_direct_master (m_init_attr q)) \<and>
    m_qp_num q' = devx_get cmd_qpn out \<and> m_current_state q' = QP_STATE_RST"
proof -
  obtain pdn p1 p2 out where pdn: "hs_pdn H (m_pd q) h = (DOCA_SUCCESS, pdn)"
    and p1: "create_qp_send env q lsq (create_qp_head q pdn uar_id) = Inr p1"
    and p2: "create_qp_receive env q lrq ls p1 = Inr p2"
    and c: "hs_obj_create H (create_qp_tail (if ia_srq (m_init_attr q) \<noteq> null
        then q\<lparr>m_srq := ia_srq (m_init_attr q)\<rparr> else q) dbr_off dbr_id wq_id p2) h =
      (DOCA_SUCCESS, m_qp_obj q', out, h')"
    and q': "m_qp_num q' = devx_get cmd_qpn out" "m_current_state q' = QP_STATE_RST"
    using assms
    by (auto simp: create_qp_obj_def Let_def create_qp_parts_errors split: if_splits prod.splits sum.splits)
  have t: "create_qp_tail (if ia_srq (m_init_attr q) \<noteq> null
        then q\<lparr>m_srq := ia_srq (m_init_attr q)\<rparr> else q) dbr_off dbr_id wq_id p2 =
      create_qp_tail q dbr_off dbr_id wq_id p2"
    by (simp add: create_qp_tail_def)
  let ?cmd = "create_qp_tail q dbr_off dbr_id wq_id p2"
  have "head_ok q pdn uar_id ?cmd"
    by (intro tail_part(2) receive_part(2) [OF p2] send_part(2) [OF p1 head_no_sq] head_head)
  moreover have "send_ok env q lsq ?cmd"
    by (intro tail_part(3) receive_part(3) [OF p2] send_part(1) [OF p1 head_no_sq])
  moreover have "receive_ok env q lrq ls ?cmd" by (intro tail_part(4) receive_part(1) [OF p2])
  ultimately show ?thesis
    using pdn c q' tail_part(1,5) [where q = q and p = p2] tail_cd_master [where q = q and p = p2]
    unfolding t by blast
qed

theorem create_command_describes_the_queue_witness:
  "\<exists>cmd. head_ok demo_placed 5 1 cmd \<and> send_ok ref_env demo_placed 7 cmd \<and>
    receive_ok ref_env demo_placed 4 2 cmd \<and> memory_ok 9216 3 3 cmd \<and> devx_get qpc_cd_master cmd = 0"
proof -
  have "hs_pdn ref_host p h = (DOCA_SUCCESS, 5)" for p h by (simp add: ref_host_def)
  then show ?thesis using create_command_describes_the_queue [OF demo_obj] by auto
qed

section \<open>Nothing leaks\<close>

text \<open>C19: Nothing leaks.  On a host that behaves as documented, \<^verbatim>\<open>doca_verbs_qp_create\<close> either reports an
  error and leaves alive exactly what was alive before, or gives a handle; an open one owns
  exactly what was added, and destroying it succeeds and takes it all away again.\<close>

theorem qp_create_destroy_balance:
  assumes "lawful H live uses" "closed live uses h"
    and "qp_create H env ctx calloc_ok dev ia sdk h = Ret (e, qp, h')"
  shows "balanced live qp_owned (qp_destroy H call) h (e, qp, h')"
proof (cases ia)
  case None
  then show ?thesis using assms(3) by (simp add: qp_create_def balanced_def)
next
  case (Some attr)
  define blank where "blank = (case h_member attr of OpenPtr a \<Rightarrow> new_qp\<lparr>m_init_attr := a\<rparr> | _ \<Rightarrow> new_qp)"
  have fresh: "new_object blank"
    by (simp add: blank_def new_qp_def new_object_def no_obj_def no_umem_def split: member.splits)
  show ?thesis
    unfolding qp_destroy_def
    by (rule qp.api_create_balanced [where env = env and ctx = ctx,
          OF assms(1,2) fresh assms(3) [unfolded qp_create_def Some option.case]])
      (auto simp: blank_def split: net_dev.splits member.splits)
qed

lemma demo_closed: "closed ref_live ref_uses []"
  by (simp add: closed_def ref_live_def)

theorem qp_create_destroy_balance_witness:
  "ref_live demo_host = qp_owned demo_made \<and>
   (\<exists>h. qp_destroy ref_host (\<lambda>p :: unit option. (DOCA_SDK_WRAPPER_NOT_FOUND, p))
     (Some (open_handle demo_made)) demo_host = Ret (DOCA_SUCCESS, h) \<and> ref_live h = {})"
  using qp_create_destroy_balance [OF ref_host_lawful demo_closed demo_created,
      where call = "\<lambda>p :: unit option. (DOCA_SDK_WRAPPER_NOT_FOUND, p)"]
  by (simp add: balanced_def open_handle_def ref_live_def)

section \<open>Regions and registered memory\<close>

text \<open>The same holds of user access regions and of registered memory: a failed creation leaves alive
  what was alive before, and what an open handle holds is given back by its destruction.\<close>

theorem regions_create_destroy_balance:
  assumes "lawful H live uses" "closed live uses h"
    and "uar_create H ptr_ok calloc_ok dev t sdk h = Ret (e, u, h1)"
    and "umem_create H ptr_ok calloc_ok dev address n flags fd off sdk h = Ret (e', v, h2)"
  shows "balanced live uar_owned (uar_destroy H call) h (e, u, h1) \<and>
    balanced live umem_owned (umem_destroy H call) h (e', v, h2)"
proof
  have f: "ua_uar (new_uar t) = null" by (simp add: new_uar_def)
  consider "e \<noteq> DOCA_SUCCESS" "u = None" "h1 = h"
    | "api_create_h calloc_ok sdk (\<lambda>h. case dev of OpenDev pd \<Rightarrow>
         Ret (construct (uar_open_create H) (uar_open_destroy H) (new_uar t) h) | _ \<Rightarrow> Misuse) h = Ret (e, u, h1)"
    using assms(3) by (auto simp: uar_create_def split: if_splits)
  then show "balanced live uar_owned (uar_destroy H call) h (e, u, h1)"
  proof cases
    case 2
    then show ?thesis
      unfolding uar_destroy_def by (rule uar.api_create_balanced [OF assms(1,2) f]) (auto split: net_dev.splits)
  qed (simp add: balanced_def)
next
  let ?b = "new_umem address n flags fd off"
  have f: "um_umem ?b = null" by (simp add: new_umem_def)
  consider "e' \<noteq> DOCA_SUCCESS" "v = None" "h2 = h"
    | "api_create_h calloc_ok sdk (\<lambda>h. case dev of OpenDev pd \<Rightarrow>
         Ret (construct (umem_open_create H) (umem_open_destroy H) ?b h) | _ \<Rightarrow> Misuse) h = Ret (e', v, h2)"
    using assms(4) by (auto simp: umem_create_def split: if_splits)
  then show "balanced live umem_owned (umem_destroy H call) h (e', v, h2)"
  proof cases
    case 2
    then show ?thesis
      unfolding umem_destroy_def by (rule umem.api_create_balanced [OF assms(1,2) f]) (auto split: net_dev.splits)
  qed (simp add: balanced_def)
qed

section \<open>Requests that wrap\<close>

text \<open>C23: What the size checks do not see.  Between \<open>2^27\<close> and \<open>2^28\<close> requested receive segments the
  entry size wraps to zero, passes the device limit and is divided by; and a request for \<open>2^28\<close>
  more send segments has the same outcome as the request without them, so it is granted with
  entries that are too small.\<close>

theorem oversized_requests_wrap:
  assumes "0 < ia_rq_wr a" "ia_srq a = null" "ia_rq_wr a \<le> da_max_qp_wr d"
    and "2 ^ 27 < unat (ia_receive_max_sges a)" "unat (ia_receive_max_sges a) \<le> 2 ^ 28"
    and "s \<noteq> 0" "s + 2 ^ 28 \<noteq> 0"
  shows "fst (size_rq d (q\<lparr>m_init_attr := a\<rparr>)) = Crashed \<and>
    fst (size_sq d (q\<lparr>m_init_attr := a\<lparr>ia_send_max_sges := s + 2 ^ 28\<rparr>\<rparr>)) =
    fst (size_sq d (q\<lparr>m_init_attr := a\<lparr>ia_send_max_sges := s\<rparr>\<rparr>))"
proof
  let ?x = "ia_receive_max_sges a"
  have nz: "?x \<noteq> 0" using assms(4) by auto
  have "unat ?x \<le> 2 ^ 31" using assms(5) by simp
  note l = next_power_of_two_u32_least [OF nz this]
  obtain k where k: "unat (next_power_of_two_u32 ?x) = 2 ^ k" "unat ?x \<le> 2 ^ k"
    using l by (auto simp: least_pow2_above_def)
  have "(2 :: nat) ^ 27 < 2 ^ k" using assms(4) k(2) by (rule less_le_trans)
  then have "27 < k" by (rule power_less_imp_less_exp [rotated]) simp
  moreover have "(2 :: nat) ^ k \<le> 2 ^ 28" using least_pow2_above_le [OF l assms(5)] k(1) by simp
  then have "k \<le> 28" by (rule power_le_imp_le_exp [rotated]) simp
  ultimately have "k = 28" by simp
  then have "unat (next_power_of_two_u32 ?x) = 2 ^ 28" using k(1) by simp
  then have "next_power_of_two_u32 ?x * DATA_SEG_SIZE = 0"
    by (simp add: word_unat_eq_iff unat_word_ariths DATA_SEG_SIZE_def)
  then show "fst (size_rq d (q\<lparr>m_init_attr := a\<rparr>)) = Crashed"
    using assms(1-3) nz by (simp add: size_rq_def Let_def)
next
  have "(2 ^ 28 :: u32) * 16 = 0" by simp
  then have "send_wqe_size_of (a\<lparr>ia_send_max_sges := s + 2 ^ 28\<rparr>) = send_wqe_size_of (a\<lparr>ia_send_max_sges := s\<rparr>)"
    by (simp add: send_wqe_size_of_def size_consts distrib_right)
  then show "fst (size_sq d (q\<lparr>m_init_attr := a\<lparr>ia_send_max_sges := s + 2 ^ 28\<rparr>\<rparr>)) =
      fst (size_sq d (q\<lparr>m_init_attr := a\<lparr>ia_send_max_sges := s\<rparr>\<rparr>))"
    using assms(6,7) by (simp add: size_sq_def send_wqe_inline_size_of_def Let_def)
qed

definition oversized_ia :: qp_init_attr_open where
  "oversized_ia = demo_ia\<lparr>ia_receive_max_sges := 0x10000000\<rparr>"

theorem oversized_requests_wrap_witness:
  "fst (size_rq demo_device (new_qp\<lparr>m_init_attr := oversized_ia\<rparr>)) = Crashed \<and>
   fst (size_sq demo_device (new_qp\<lparr>m_init_attr := oversized_ia\<lparr>ia_send_max_sges := 0x10000002\<rparr>\<rparr>)) =
   fst (size_sq demo_device (new_qp\<lparr>m_init_attr := oversized_ia\<lparr>ia_send_max_sges := 2\<rparr>\<rparr>))"
  using oversized_requests_wrap [of oversized_ia demo_device 2 new_qp]
  by (simp add: oversized_ia_def demo_ia_def demo_device_def new_qp_init_attr_def verbs_caps_def ref_device_def)

theorem regions_create_destroy_balance_witness:
  "balanced ref_live uar_owned (uar_destroy ref_host (\<lambda>p :: unit option. (DOCA_SDK_WRAPPER_NOT_FOUND, p))) []
     (DOCA_SUCCESS, Some (open_handle (new_uar UAR_ALLOCATION_TYPE_BLUEFLAME
       \<lparr>ua_uar := 1, ua_uar_id := 1, ua_reg_addr := 65536, ua_dbr_less_addr := 67072\<rparr>)), [(RUar 1, [])]) \<and>
   balanced ref_live umem_owned (umem_destroy ref_host (\<lambda>p :: unit option. (DOCA_SDK_WRAPPER_NOT_FOUND, p))) []
     (DOCA_SUCCESS, Some (open_handle (new_umem 4096 64 0 (- 1) 0
       \<lparr>um_umem := 1, um_umem_id := 1\<rparr>)), [(RUmem 1, [])])"
proof (rule regions_create_destroy_balance [OF ref_host_lawful demo_closed])
  show "uar_create ref_host True True (OpenDev 3) UAR_ALLOCATION_TYPE_BLUEFLAME
      (DOCA_SDK_WRAPPER_NOT_FOUND, None) [] = Ret (DOCA_SUCCESS, Some (open_handle
        (new_uar UAR_ALLOCATION_TYPE_BLUEFLAME\<lparr>ua_uar := 1, ua_uar_id := 1, ua_reg_addr := 65536,
         ua_dbr_less_addr := 67072\<rparr>)), [(RUar 1, [])])"
    by (simp add: uar_create_def api_create_h_def construct_def uar_open_create_def ref_host_def
        ref_add_def fresh_ptr_def new_uar_def Let_def)
  show "umem_create ref_host True True (OpenDev 3) 4096 64 0 (- 1) 0
      (DOCA_SDK_WRAPPER_NOT_FOUND, None) [] = Ret (DOCA_SUCCESS, Some (open_handle
        (new_umem 4096 64 0 (- 1) 0\<lparr>um_umem := 1, um_umem_id := 1\<rparr>)), [(RUmem 1, [])])"
    by (simp add: umem_create_def api_create_h_def construct_def umem_open_create_def ref_host_def
        ref_add_def fresh_ptr_def new_umem_def Let_def)
qed

section \<open>The ring of the device\<close>

text \<open>C22: From the creation to the device.  With internal memory whose size does not wrap, receive queue,
  send queue and doorbell record lie one after the other in the registered region.  The ring the
  device code is given for the send queue is well-formed and every one of its entries lies
  between the start of the send queue and the doorbell record, if the queue has fewer than 65536
  blocks; with more, its size is cut to zero.\<close>

theorem device_ring_lies_in_the_region:
  fixes num :: u32 and cq :: dev_cq and handler :: nic_handler
  assumes "create_umem_part H env q h = (Made (dbr_id, off, wq_id), q', h')"
    and "ia_external_umem (m_init_attr q) = null"
    and "m_rq_size q = 0 \<or> unat (m_rcv_wqe_size q) = 2 ^ unat (m_log_rcv_wqe_size q)"
    and "m_sq_size_wqebb q = 2 ^ k" "k < 32"
    and "unat (m_rq_size q) * unat (m_rcv_wqe_size q) + 64 * 2 ^ k + 8192 \<le> 2 ^ 32"
  defines "dq \<equiv> init_dev_qp num (m_sq_size_wqebb q') (m_sq_buf q') cq handler"
  shows "m_umem_buf q' \<noteq> null \<and> m_wq_buf q' = m_umem_buf q' \<and>
    m_sq_buf q' = m_umem_buf q' + unat (m_rq_size q) * unat (m_rcv_wqe_size q) \<and>
    m_sq_buf q' + 64 * 2 ^ k \<le> m_db_buffer q' \<and>
    m_db_buffer q' = m_umem_buf q' + unat off \<and> 64 dvd unat off \<and>
    unat off + 64 \<le> unat (total_umem_size_of q) \<and> 4096 dvd unat (total_umem_size_of q) \<and>
    dbr_id = wq_id \<and>
    (if k < 16
     then ring_fields_ok dq \<and> unat (sq_wqe_num dq) = 2 ^ k \<and>
       (\<forall>i. m_sq_buf q' \<le> get_wqe_ptr dq i \<and> get_wqe_ptr dq i + 64 \<le> m_db_buffer q')
     else sq_wqe_num dq = 0)"
proof -
  define R where "R = unat (m_rq_size q) * unat (m_rcv_wqe_size q)"
  have fit: "R + 64 * 2 ^ k + 8192 \<le> 2 ^ 32" using assms(6) by (simp add: R_def)
  have uk: "unat (m_sq_size_wqebb q) = 2 ^ k" using assms(4,5) by (simp add: unat_pow2)
  have r: "unat (m_rq_size q * m_rcv_wqe_size q) = R"
    using fit by (simp add: R_def unat_mult_no_overflow)
  have b: "unat (m_sq_size_wqebb q * WQEBB_SIZE) = 64 * 2 ^ k"
    using fit unat_mult_no_overflow [of "m_sq_size_wqebb q" WQEBB_SIZE] by (simp add: uk WQEBB_SIZE_def)
  let ?s = "m_rq_size q * m_rcv_wqe_size q + m_sq_size_wqebb q * WQEBB_SIZE"
  have s: "unat ?s = R + 64 * 2 ^ k"
    using fit r b unat_add_no_overflow [of "m_rq_size q * m_rcv_wqe_size q" "m_sq_size_wqebb q * WQEBB_SIZE"]
    by simp
  let ?o = "db_umem_offset_of q"
  have o: "64 dvd unat ?o" "R + 64 * 2 ^ k \<le> unat ?o" "unat ?o < R + 64 * 2 ^ k + 64"
    using align_up_uint32_props [of 64 ?s] s fit by (simp_all add: db_umem_offset_of_def)
  have o64: "unat (?o + 64) = unat ?o + 64"
    using o(3) fit unat_add_no_overflow [of ?o 64] by simp
  have t: "4096 dvd unat (total_umem_size_of q)" "unat ?o + 64 \<le> unat (total_umem_size_of q)"
    using align_up_uint32_props [of 4096 "?o + 64"] o64 o(3) fit by (simp_all add: total_umem_size_of_def)
  obtain p where p: "p \<noteq> null" "m_umem_buf q' = p" "m_wq_buf q' = p" "m_db_buffer q' = p + unat ?o"
      "m_sq_buf q' = p + push_bit (unat (m_log_rcv_wqe_size q)) (unat (m_rq_size q))"
      "off = ucast ?o" "dbr_id = wq_id" "m_sq_size_wqebb q' = m_sq_size_wqebb q"
    using assms(1,2)
    by (auto simp: create_umem_part_def place_queues_def Let_def split: prod.splits if_splits)
  have off: "unat off = unat ?o" by (simp add: p(6))
  have sq: "m_sq_buf q' = p + R"
    using assms(3) by (auto simp: p(5) R_def push_bit_eq_mult mult.commute)
  have ring: "if k < 16
     then ring_fields_ok dq \<and> unat (sq_wqe_num dq) = 2 ^ k \<and>
       (\<forall>i. m_sq_buf q' \<le> get_wqe_ptr dq i \<and> get_wqe_ptr dq i + 64 \<le> m_db_buffer q')
     else sq_wqe_num dq = 0"
  proof (cases "k < 16")
    case True
    have dq: "ring_fields_ok dq" using init_ring_fields_ok [OF _ True] assms(4) p(8) by (simp add: dq_def)
    have lt: "(2 :: nat) ^ k < 2 ^ 16" using True by (intro power_strict_increasing) simp_all
    then have n: "unat (sq_wqe_num dq) = 2 ^ k"
      by (simp add: dq_def init_dev_qp_def p(8) Let_def unat_ucast_mod uk)
    have "m_sq_buf q' \<le> get_wqe_ptr dq i \<and> get_wqe_ptr dq i + 64 \<le> m_db_buffer q'" for i
    proof -
      have a: "sq_wqe_daddr dq = m_sq_buf q'" by (simp add: dq_def init_dev_qp_def Let_def)
      have "Suc (unat i mod 2 ^ k) \<le> 2 ^ k" by (simp add: Suc_leI)
      then have "64 * Suc (unat i mod 2 ^ k) \<le> 64 * 2 ^ k" by (rule mult_le_mono2)
      then show ?thesis using get_wqe_ptr_mod [OF dq, of i] o(2) sq p(4) by (simp add: n a)
    qed
    then show ?thesis using True dq n by simp
  next
    case False
    then have "2 ^ 16 dvd (2 :: nat) ^ k" by (intro le_imp_power_dvd) simp
    then have "unat (sq_wqe_num dq) = 0"
      by (simp add: dq_def init_dev_qp_def p(8) Let_def unat_ucast_mod uk)
    then show ?thesis using False by (simp add: unat_eq_zero)
  qed
  show ?thesis using p sq o t off ring by (simp add: R_def)
qed

theorem device_ring_lies_in_the_region_witness:
  "\<forall>cq handler. ring_fields_ok (init_dev_qp 77 128 1026 cq handler) \<and>
   (\<forall>i. 1026 \<le> get_wqe_ptr (init_dev_qp 77 128 1026 cq handler) i \<and>
      get_wqe_ptr (init_dev_qp 77 128 1026 cq handler) i + 64 \<le> 9218)"
proof (intro allI)
  fix cq handler
  show "ring_fields_ok (init_dev_qp 77 128 1026 cq handler) \<and>
     (\<forall>i. 1026 \<le> get_wqe_ptr (init_dev_qp 77 128 1026 cq handler) i \<and>
        get_wqe_ptr (init_dev_qp 77 128 1026 cq handler) i + 64 \<le> 9218)"
    using device_ring_lies_in_the_region [OF demo_umem, of 7 77 cq handler]
    by (simp add: demo_placed_def demo_sized_def demo_checked_def demo_ia_def new_qp_init_attr_def new_qp_def)
qed

end
