(* ===== verification/VerbsCq.thy ===== *)
theory VerbsCq
  imports VerbsCreate
begin

text \<open>
  Completion queues, \<^verbatim>\<open>src/doca_verbs_cq.cpp\<close> and \<^verbatim>\<open>src/doca_verbs_cq.hpp\<close>: the object, its creation
  command, creation and destruction, and the API functions.  The attribute object is in
  \<open>VerbsAttr\<close>.
\<close>

section \<open>The object\<close>

record cq_open =
  cq_obj :: ptr
  cq_umem_obj :: ptr
  cq_uar_obj :: ptr
  cq_umem_buf :: ptr
  cq_buf :: ptr
  cq_db_buffer :: ptr
  cq_uar_db_reg :: ptr
  cq_num_cqes :: u32
  cq_cqn :: u32
  cq_ci_dbr :: ptr
  cq_arm_dbr :: ptr
  cq_attr :: cq_attr_open
  cq_device_attr :: "device_attr option"

definition new_cq :: "cq_attr_open \<Rightarrow> cq_open" where
  "new_cq a = \<lparr>cq_obj = null, cq_umem_obj = null, cq_uar_obj = null, cq_umem_buf = null,
     cq_buf = null, cq_db_buffer = null, cq_uar_db_reg = null, cq_num_cqes = 0, cq_cqn = 0,
     cq_ci_dbr = null, cq_arm_dbr = null, cq_attr = a, cq_device_attr = None\<rparr>"

section \<open>The creation command\<close>

text \<open>The context of the queue is at bit \<open>0x80\<close> of the command.\<close>

definition cqc_dbr_umem_valid :: devx_field where "cqc_dbr_umem_valid = Field (0x80 + 0x6) 1"
definition cqc_cqe_sz :: devx_field where "cqc_cqe_sz = Field (0x80 + 0x8) 3"
definition cqc_cc :: devx_field where "cqc_cc = Field (0x80 + 0xb) 1"
definition cqc_oi :: devx_field where "cqc_oi = Field (0x80 + 0xe) 1"
definition cqc_dbr_umem_id :: devx_field where "cqc_dbr_umem_id = Field (0x80 + 0x20) 32"
definition cqc_log_cq_size :: devx_field where "cqc_log_cq_size = Field (0x80 + 0x63) 5"
definition cqc_uar_page :: devx_field where "cqc_uar_page = Field (0x80 + 0x68) 24"
definition cqc_c_eqn :: devx_field where "cqc_c_eqn = Field (0x80 + 0xb8) 8"
definition cqc_log_page_size :: devx_field where "cqc_log_page_size = Field (0x80 + 0xc3) 5"
definition cqc_dbr_addr :: devx_field where "cqc_dbr_addr = Field (0x80 + 0x1c0) 64"
definition create_cq_umem_offset :: devx_field where "create_cq_umem_offset = Field 0x280 64"
definition create_cq_umem_id :: devx_field where "create_cq_umem_id = Field 0x2c0 32"
definition create_cq_umem_valid :: devx_field where "create_cq_umem_valid = Field 0x2e0 1"

text \<open>The number of the new queue, at bit \<open>0x48\<close> of the answer as for a queue pair.\<close>

definition create_cq_cqn :: devx_field where "create_cq_cqn = Field 0x48 24"

lemmas cq_field_defs = cqc_dbr_umem_valid_def cqc_cqe_sz_def cqc_cc_def cqc_oi_def cqc_dbr_umem_id_def
  cqc_log_cq_size_def cqc_uar_page_def cqc_c_eqn_def cqc_log_page_size_def cqc_dbr_addr_def
  create_cq_umem_offset_def create_cq_umem_id_def create_cq_umem_valid_def create_cq_cqn_def

definition create_cq_cmd :: "u32 \<Rightarrow> u32 \<Rightarrow> u64 \<Rightarrow> u32 \<Rightarrow> u32 \<Rightarrow> bool \<Rightarrow> u8 \<Rightarrow> u32 \<Rightarrow> devx_buf" where
  "create_cq_cmd uar_id log_nb_cqes db_umem_offset db_umem_id wq_umem_id overrun collapsed eqn =
    devx_set cqc_log_page_size 0
    (devx_set cqc_c_eqn eqn
    (devx_set64 cqc_dbr_addr db_umem_offset
    (devx_set cqc_dbr_umem_valid 1
    (devx_set cqc_dbr_umem_id db_umem_id
    (devx_set64 create_cq_umem_offset 0
    (devx_set create_cq_umem_valid 1
    (devx_set create_cq_umem_id wq_umem_id
    (devx_set cqc_uar_page uar_id
    (devx_set cqc_log_cq_size log_nb_cqes
    (devx_set cqc_oi (if overrun then 1 else 0)
    (devx_set cqc_cc (ucast collapsed)
    (devx_set cqc_cqe_sz 0
    (devx_set cmd_opcode 0x400 devx_zero)))))))))))))"

definition create_cq_obj :: "'h host \<Rightarrow> u32 \<Rightarrow> u32 \<Rightarrow> u64 \<Rightarrow> u32 \<Rightarrow> u32 \<Rightarrow> bool \<Rightarrow> u8 \<Rightarrow> cq_open \<Rightarrow> 'h
    \<Rightarrow> doca_error \<times> cq_open \<times> 'h" where
  "create_cq_obj H uar_id log_nb_cqes db_umem_offset db_umem_id wq_umem_id overrun collapsed q h =
    (case hs_query_eqn H h of (ret, eqn) \<Rightarrow>
       if ret \<noteq> DOCA_SUCCESS then (DOCA_ERROR_OPERATING_SYSTEM, q, h)
       else case hs_obj_create H (create_cq_cmd uar_id log_nb_cqes db_umem_offset db_umem_id wq_umem_id
           overrun collapsed eqn) h of
         (st, ob, out, h') \<Rightarrow>
           if st \<noteq> DOCA_SUCCESS then (st, q, h')
           else (DOCA_SUCCESS, q\<lparr>cq_obj := ob, cq_cqn := devx_get create_cq_cqn out\<rparr>, h'))"

section \<open>create, destroy\<close>

definition cq_checks :: "'h host \<Rightarrow> ptr \<Rightarrow> cq_open \<Rightarrow> 'h \<Rightarrow> u32 made \<times> cq_open" where
  "cq_checks H ctx q h =
    (case verbs_query_device H ctx True h of
       Inl e \<Rightarrow> (Threw DOCA_ERROR_INVALID_VALUE, q)
     | Inr d \<Rightarrow>
         let q = q\<lparr>cq_device_attr := Some d\<rparr>; n = ca_cq_size (cq_attr q) in
         if \<not> is_power_of_two (ucast n) then (Threw DOCA_ERROR_INVALID_VALUE, q)
         else
           let q = q\<lparr>cq_num_cqes := n\<rparr> in
           if n > da_max_cqe d then (Threw DOCA_ERROR_INVALID_VALUE, q)
           else (Made (log2_u32 n), q))"

definition cq_dbr_offset_of :: "cq_open \<Rightarrow> u32" where
  "cq_dbr_offset_of q = align_up_uint32 (cq_num_cqes q * 64) 64"

definition cq_umem_size_of :: "cq_open \<Rightarrow> u32" where
  "cq_umem_size_of q = align_up_uint32 (cq_dbr_offset_of q + 64) 4096"

text \<open>
  The memory of the queue and of its doorbell record: a fresh region, or a given one, whose
  offset is not used.  The result is the id of the region.
\<close>

definition cq_place :: "ptr \<Rightarrow> cq_open \<Rightarrow> cq_open" where
  "cq_place p q = q\<lparr>cq_buf := p, cq_db_buffer := p + unat (cq_dbr_offset_of q)\<rparr>"

definition cq_umem_part :: "'h host \<Rightarrow> 's qp_env \<Rightarrow> cq_open \<Rightarrow> 'h \<Rightarrow> (u32, cq_open, 'h) making" where
  "cq_umem_part H env q h =
    (if ca_external_umem (cq_attr q) = null
     then
       let total = cq_umem_size_of q in
       (case hs_memalign H 4096 (unat total) h of (p, h1) \<Rightarrow>
          let q = q\<lparr>cq_umem_buf := p\<rparr> in
          if p = null then (Crashed, q, h1)
          else
            let h2 = hs_zero H p (unat total) h1 in
            (case hs_umem_reg H p (ucast total) 0 h2 of (st, u, h3) \<Rightarrow>
               if st \<noteq> DOCA_SUCCESS then (Threw st, q, h3)
               else (Made (hs_umem_id H u h3), cq_place p (q\<lparr>cq_umem_obj := u\<rparr>), h3)))
     else
       let umem = Some (env_umem env (ca_external_umem (cq_attr q))) in
       and_then (get_or_throw (umem_get_address (env_sdk_umem_address env) True umem) q h) (\<lambda>p q h.
       and_then (get_or_throw (umem_get_id (env_sdk_umem_id env) True umem) (q\<lparr>cq_buf := p\<rparr>) h) (\<lambda>umem_id q h.
       (Made umem_id, cq_place p q, h))))"

text \<open>The doorbells are the first and the second 32-bit word of the record.\<close>

definition cq_doorbells :: "cq_open \<Rightarrow> cq_open" where
  "cq_doorbells q = q\<lparr>cq_ci_dbr := cq_db_buffer q, cq_arm_dbr := cq_db_buffer q + 4\<rparr>"

definition cq_uar_part :: "'h host \<Rightarrow> 's qp_env \<Rightarrow> cq_open \<Rightarrow> 'h \<Rightarrow> (u32, cq_open, 'h) making" where
  "cq_uar_part H env q h =
    (let got = (\<lambda>p h. (Made (hs_uar_page_id H p h),
           q\<lparr>cq_uar_obj := p, cq_uar_db_reg := hs_uar_reg_addr H p h\<rparr>, h))
     in if ca_external_uar (cq_attr q) = null
        then case hs_alloc_uar H MLX5DV_UAR_ALLOC_TYPE_NC h of (st, p, h1) \<Rightarrow>
          if st = DOCA_SUCCESS then got p h1
          else case hs_alloc_uar H MLX5DV_UAR_ALLOC_TYPE_BF h1 of (st2, p2, h2) \<Rightarrow>
            if st2 = DOCA_SUCCESS then got p2 h2 else (Threw st2, q, h2)
        else
          let uar = Some (env_uar env (ca_external_uar (cq_attr q))) in
          and_then (get_or_throw (uar_id_get (env_sdk_uar_id env) True uar) q h) (\<lambda>uar_id q h.
          and_then (get_or_throw (uar_reg_addr_get (env_sdk_uar_reg_addr env) True uar) q h) (\<lambda>reg q h.
          (Made uar_id, q\<lparr>cq_uar_db_reg := reg\<rparr>, h))))"

definition cq_open_create :: "'s qp_env \<Rightarrow> ptr \<Rightarrow> 'h host \<Rightarrow> cq_open \<Rightarrow> 'h \<Rightarrow> (unit, cq_open, 'h) making" where
  "cq_open_create env ctx H q h =
    and_then (with_host (cq_checks H ctx q h) h) (\<lambda>log_nb_cqes q h.
    and_then (cq_umem_part H env q h) (\<lambda>umem_id q h.
    and_then (cq_uar_part H env (cq_doorbells q) h) (\<lambda>uar_id q h.
    case create_cq_obj H uar_id log_nb_cqes (ucast (cq_dbr_offset_of q)) umem_id umem_id
           (ca_cq_overrun (cq_attr q) \<noteq> 0) (ca_cq_collapsed (cq_attr q)) q h of
      (st, q, h) \<Rightarrow> if st \<noteq> DOCA_SUCCESS then (Threw DOCA_ERROR_DRIVER, q, h) else (Made (), q, h))))"

text \<open>Attributes, queue object, doorbell region, memory region, buffer.\<close>

definition cq_open_destroy :: "'h host \<Rightarrow> cq_open \<Rightarrow> 'h \<Rightarrow> doca_error \<times> cq_open \<times> 'h" where
  "cq_open_destroy H q h =
    (let q = q\<lparr>cq_device_attr := snd (verbs_device_attr_free (cq_device_attr q))\<rparr> in
     case release_slot (hs_obj_destroy H) (cq_obj q) h of (st, p, h) \<Rightarrow>
       let q = q\<lparr>cq_obj := p\<rparr> in
       if st \<noteq> DOCA_SUCCESS then (st, q, h)
       else case release_slot (hs_free_uar H) (cq_uar_obj q) h of (st, p, h) \<Rightarrow>
         let q = q\<lparr>cq_uar_obj := p\<rparr> in
         if st \<noteq> DOCA_SUCCESS then (st, q, h)
         else case release_slot (hs_umem_dereg H) (cq_umem_obj q) h of (st, p, h) \<Rightarrow>
           let q = q\<lparr>cq_umem_obj := p\<rparr> in
           if st \<noteq> DOCA_SUCCESS then (st, q, h)
           else case free_slot (hs_free H) (cq_umem_buf q) h of (p, h) \<Rightarrow>
             (DOCA_SUCCESS, q\<lparr>cq_umem_buf := p\<rparr>, h))"

section \<open>The API functions\<close>

type_synonym 's verbs_cq = "('s, cq_open) handle option"

definition cq_create :: "'h host \<Rightarrow> 's qp_env \<Rightarrow> ptr \<Rightarrow> bool \<Rightarrow> net_dev \<Rightarrow> 's cq_attr
    \<Rightarrow> doca_sdk_wrapper_error \<times> 's option \<Rightarrow> 'h \<Rightarrow> (doca_error \<times> 's verbs_cq \<times> 'h) outcome" where
  "cq_create H env ctx calloc_ok dev ca sdk h =
    (case ca of
       None \<Rightarrow> Ret (DOCA_ERROR_INVALID_VALUE, None, h)
     | Some attr \<Rightarrow>
         api_create_h calloc_ok sdk
           (\<lambda>h. case dev of
              OpenDev pd \<Rightarrow>
                (case h_member attr of
                   OpenPtr a \<Rightarrow> Ret (construct (cq_open_create env ctx H) (cq_open_destroy H) (new_cq a) h)
                 | Null \<Rightarrow> Ret (Threw DOCA_ERROR_INVALID_VALUE, h)
                 | SdkPtr s \<Rightarrow> Misuse)
            | _ \<Rightarrow> Misuse) h)"

definition cq_destroy :: "'h host \<Rightarrow> 's sdk_call \<Rightarrow> 's verbs_cq \<Rightarrow> 'h \<Rightarrow> (doca_error \<times> 'h) outcome" where
  "cq_destroy H sdk = api_destroy_h sdk (cq_open_destroy H)"

text \<open>Buffer, number of entries, size of an entry.\<close>

definition cq_wq_of :: "cq_open \<Rightarrow> ptr \<times> u32 \<times> u8" where
  "cq_wq_of q = (cq_buf q, cq_num_cqes q, 64)"

definition cq_get_wq :: "('s, ptr \<times> u32 \<times> u8) sdk_get \<Rightarrow> 's verbs_cq
    \<Rightarrow> (doca_error \<times> (ptr \<times> u32 \<times> u8) option) outcome" where
  "cq_get_wq sdk = get_handle True (try_sdk_get sdk (get_open cq_wq_of))"

text \<open>Doorbell register, consumer index, arming doorbell.\<close>

definition cq_dbr_of :: "cq_open \<Rightarrow> ptr \<times> ptr \<times> ptr" where
  "cq_dbr_of q = (cq_uar_db_reg q, cq_ci_dbr q, cq_arm_dbr q)"

definition cq_get_dbr_addr :: "('s, ptr \<times> ptr \<times> ptr) sdk_get \<Rightarrow> 's verbs_cq
    \<Rightarrow> (doca_error \<times> (ptr \<times> ptr \<times> ptr) option) outcome" where
  "cq_get_dbr_addr sdk = get_handle True (try_sdk_get sdk (get_open cq_dbr_of))"

definition cq_get_cqn :: "('s, u32) sdk_get \<Rightarrow> 's verbs_cq \<Rightarrow> (doca_error \<times> u32 option) outcome" where
  "cq_get_cqn sdk = get_handle True (try_sdk_get sdk (get_open cq_cqn))"

end
