(* ===== verification/VerbsSrq.thy ===== *)
theory VerbsSrq
  imports VerbsCq
begin

text \<open>
  Shared receive queues, \<^verbatim>\<open>src/doca_verbs_srq.cpp\<close> and \<^verbatim>\<open>src/doca_verbs_srq.hpp\<close>: the attribute
  object with its setters and getters, the sizes of the queue, the creation command, creation and
  destruction.  These objects have no SDK form: a handle is the object itself or null.
\<close>

section \<open>Attributes\<close>

datatype srq_type = SRQ_TYPE_LINKED_LIST | SRQ_TYPE_CONTIGUOUS | SRQ_TYPE_OTHER u32

record srq_init_attr =
  sa_pd :: ptr
  sa_srq_type :: srq_type
  sa_srq_wr :: u32
  sa_receive_max_sges :: u32
  sa_external_umem :: ptr
  sa_external_umem_offset :: u64

text \<open>\<^verbatim>\<open>calloc\<close> makes all members zero, and zero is the linked list type.\<close>

definition new_srq_init_attr :: srq_init_attr where
  "new_srq_init_attr = \<lparr>sa_pd = null, sa_srq_type = SRQ_TYPE_LINKED_LIST, sa_srq_wr = 0,
     sa_receive_max_sges = 0, sa_external_umem = null, sa_external_umem_offset = 0\<rparr>"

definition srq_init_attr_create :: "bool \<Rightarrow> bool \<Rightarrow> doca_error \<times> srq_init_attr option" where
  "srq_init_attr_create result_ptr_ok calloc_ok =
    (if \<not> result_ptr_ok then (DOCA_ERROR_INVALID_VALUE, None)
     else if \<not> calloc_ok then (DOCA_ERROR_NO_MEMORY, None)
     else (DOCA_SUCCESS, Some new_srq_init_attr))"

definition srq_init_attr_destroy :: "srq_init_attr option \<Rightarrow> doca_error" where
  "srq_init_attr_destroy a = (if a = None then DOCA_ERROR_INVALID_VALUE else DOCA_SUCCESS)"

text \<open>The scheme of the setters: a null object or a rejected value is an error.\<close>

definition srq_set :: "bool \<Rightarrow> (srq_init_attr \<Rightarrow> srq_init_attr) \<Rightarrow> srq_init_attr option
    \<Rightarrow> doca_error \<times> srq_init_attr option" where
  "srq_set value_ok f a =
    (case a of
       None \<Rightarrow> (DOCA_ERROR_INVALID_VALUE, None)
     | Some x \<Rightarrow> if value_ok then (DOCA_SUCCESS, Some (f x)) else (DOCA_ERROR_INVALID_VALUE, Some x))"

definition srq_init_attr_set_srq_wr :: "u32 \<Rightarrow> srq_init_attr option \<Rightarrow> doca_error \<times> srq_init_attr option" where
  "srq_init_attr_set_srq_wr v = srq_set (v \<noteq> 0) (\<lambda>a. a\<lparr>sa_srq_wr := v\<rparr>)"

definition srq_init_attr_get_srq_wr :: "srq_init_attr option \<Rightarrow> u32" where
  "srq_init_attr_get_srq_wr a = (case a of None \<Rightarrow> 0 | Some x \<Rightarrow> sa_srq_wr x)"

definition srq_init_attr_set_receive_max_sges :: "u32 \<Rightarrow> srq_init_attr option
    \<Rightarrow> doca_error \<times> srq_init_attr option" where
  "srq_init_attr_set_receive_max_sges v = srq_set (v \<noteq> 0) (\<lambda>a. a\<lparr>sa_receive_max_sges := v\<rparr>)"

definition srq_init_attr_get_receive_max_sges :: "srq_init_attr option \<Rightarrow> u32" where
  "srq_init_attr_get_receive_max_sges a = (case a of None \<Rightarrow> 0 | Some x \<Rightarrow> sa_receive_max_sges x)"

definition srq_init_attr_set_type :: "srq_type \<Rightarrow> srq_init_attr option
    \<Rightarrow> doca_error \<times> srq_init_attr option" where
  "srq_init_attr_set_type v =
    srq_set (v = SRQ_TYPE_LINKED_LIST \<or> v = SRQ_TYPE_CONTIGUOUS) (\<lambda>a. a\<lparr>sa_srq_type := v\<rparr>)"

definition srq_init_attr_get_type :: "srq_init_attr option \<Rightarrow> srq_type" where
  "srq_init_attr_get_type a = (case a of None \<Rightarrow> SRQ_TYPE_LINKED_LIST | Some x \<Rightarrow> sa_srq_type x)"

definition srq_init_attr_set_pd :: "ptr \<Rightarrow> srq_init_attr option \<Rightarrow> doca_error \<times> srq_init_attr option" where
  "srq_init_attr_set_pd v = srq_set (v \<noteq> null) (\<lambda>a. a\<lparr>sa_pd := v\<rparr>)"

definition srq_init_attr_get_pd :: "srq_init_attr option \<Rightarrow> ptr" where
  "srq_init_attr_get_pd a = (case a of None \<Rightarrow> null | Some x \<Rightarrow> sa_pd x)"

definition srq_init_attr_set_external_umem :: "ptr \<Rightarrow> u64 \<Rightarrow> srq_init_attr option
    \<Rightarrow> doca_error \<times> srq_init_attr option" where
  "srq_init_attr_set_external_umem v off =
    srq_set (v \<noteq> null) (\<lambda>a. a\<lparr>sa_external_umem := v, sa_external_umem_offset := off\<rparr>)"

definition srq_init_attr_get_external_umem :: "bool \<Rightarrow> srq_init_attr option
    \<Rightarrow> doca_error \<times> (ptr \<times> u64) option" where
  "srq_init_attr_get_external_umem result_ptrs_ok a =
    (case a of
       None \<Rightarrow> (DOCA_ERROR_INVALID_VALUE, None)
     | Some x \<Rightarrow> if result_ptrs_ok
         then (DOCA_SUCCESS, Some (sa_external_umem x, sa_external_umem_offset x))
         else (DOCA_ERROR_INVALID_VALUE, None))"

section \<open>The object and its sizes\<close>

record srq_open =
  sr_obj :: ptr
  sr_umem_obj :: ptr
  sr_umem_buf :: ptr
  sr_buf :: ptr
  sr_pd :: ptr
  sr_num :: u32
  sr_db_buffer :: ptr
  sr_rcv_wqe_size :: u32
  sr_rcv_max_sges :: u32
  sr_size :: u32
  sr_log_rcv_wqe_size :: u8
  sr_type :: srq_type
  sr_init_attr :: srq_init_attr
  sr_device_attr :: "device_attr option"

definition new_srq :: "srq_init_attr \<Rightarrow> srq_open" where
  "new_srq a = \<lparr>sr_obj = null, sr_umem_obj = null, sr_umem_buf = null, sr_buf = null, sr_pd = null,
     sr_num = 0, sr_db_buffer = null, sr_rcv_wqe_size = 0, sr_rcv_max_sges = 0, sr_size = 0,
     sr_log_rcv_wqe_size = 0, sr_type = SRQ_TYPE_LINKED_LIST, sr_init_attr = a, sr_device_attr = None\<rparr>"

definition srq_checks :: "'h host \<Rightarrow> ptr \<Rightarrow> srq_open \<Rightarrow> 'h \<Rightarrow> unit made \<times> srq_open" where
  "srq_checks H ctx q h =
    (let a = sr_init_attr q; q = q\<lparr>sr_pd := sa_pd a\<rparr> in
     case verbs_query_device H ctx True h of
       Inl e \<Rightarrow> (Threw DOCA_ERROR_INVALID_VALUE, q)
     | Inr d \<Rightarrow>
         let q = q\<lparr>sr_device_attr := Some d\<rparr> in
         if sa_srq_type a \<noteq> SRQ_TYPE_LINKED_LIST \<and> sa_srq_type a \<noteq> SRQ_TYPE_CONTIGUOUS
         then (Threw DOCA_ERROR_INVALID_VALUE, q)
         else if sa_pd a = null then (Threw DOCA_ERROR_INVALID_VALUE, q)
         else if sa_srq_wr a = 0 then (Threw DOCA_ERROR_INVALID_VALUE, q)
         else if sa_srq_wr a > da_max_srq_wr d then (Threw DOCA_ERROR_NOT_SUPPORTED, q)
         else if sa_receive_max_sges a = 0 then (Threw DOCA_ERROR_INVALID_VALUE, q)
         else if sa_receive_max_sges a > da_max_srq_sge d then (Threw DOCA_ERROR_NOT_SUPPORTED, q)
         else (Made (), q))"

text \<open>A linked list entry has a control segment of 16 bytes and at least 32 bytes.\<close>

definition srq_wqe_size_of :: "srq_init_attr \<Rightarrow> u32" where
  "srq_wqe_size_of a =
    (let n = sa_receive_max_sges a * 16
     in next_power_of_two_u32 (if sa_srq_type a = SRQ_TYPE_LINKED_LIST then max (n + 16) 32 else n))"

definition srq_sges_of :: "srq_init_attr \<Rightarrow> u32" where
  "srq_sges_of a =
    (let n = ucast (srq_wqe_size_of a) :: u64
     in ucast (if sa_srq_type a = SRQ_TYPE_LINKED_LIST then (n - 16) div 16 else n div 16))"

text \<open>The result is the logarithm of the number of entries.\<close>

definition size_srq :: "srq_open \<Rightarrow> u32 made \<times> srq_open" where
  "size_srq q =
    (let a = sr_init_attr q;
         wqe_size = srq_wqe_size_of a;
         q = q\<lparr>sr_rcv_wqe_size := wqe_size, sr_rcv_max_sges := srq_sges_of a,
               sr_log_rcv_wqe_size := ucast (log2_u32 wqe_size)\<rparr>
     in if wqe_size = 0 then (Crashed, q)
        else
          let n = next_power_of_two_u32 (sa_srq_wr a * wqe_size) div wqe_size
          in (Made (log2_u32 n), q\<lparr>sr_size := n\<rparr>))"

section \<open>The creation command\<close>

text \<open>
  The queue is created as a receive memory pool.  Its context is at bit \<open>0x100\<close> of the command,
  and the work queue context at bit \<open>0x180\<close> of that.
\<close>

definition rmpc_state :: devx_field where "rmpc_state = Field (0x100 + 0x8) 4"
definition rmpc_basic_cyclic_rcv_wqe :: devx_field where "rmpc_basic_cyclic_rcv_wqe = Field (0x100 + 0x20) 1"
definition wq_wq_type :: devx_field where "wq_wq_type = Field (0x280 + 0x0) 4"
definition wq_end_padding_mode :: devx_field where "wq_end_padding_mode = Field (0x280 + 0x5) 2"
definition wq_pd :: devx_field where "wq_pd = Field (0x280 + 0x48) 24"
definition wq_dbr_addr :: devx_field where "wq_dbr_addr = Field (0x280 + 0x80) 64"
definition wq_log_wq_stride :: devx_field where "wq_log_wq_stride = Field (0x280 + 0x10c) 4"
definition wq_log_wq_sz :: devx_field where "wq_log_wq_sz = Field (0x280 + 0x11b) 5"
definition wq_dbr_umem_valid :: devx_field where "wq_dbr_umem_valid = Field (0x280 + 0x120) 1"
definition wq_wq_umem_valid :: devx_field where "wq_wq_umem_valid = Field (0x280 + 0x121) 1"
definition wq_dbr_umem_id :: devx_field where "wq_dbr_umem_id = Field (0x280 + 0x140) 32"
definition wq_wq_umem_id :: devx_field where "wq_wq_umem_id = Field (0x280 + 0x160) 32"
definition wq_wq_umem_offset :: devx_field where "wq_wq_umem_offset = Field (0x280 + 0x180) 64"
definition create_rmp_rmpn :: devx_field where "create_rmp_rmpn = Field 0x48 24"

lemmas srq_field_defs = rmpc_state_def rmpc_basic_cyclic_rcv_wqe_def wq_wq_type_def wq_end_padding_mode_def
  wq_pd_def wq_dbr_addr_def wq_log_wq_stride_def wq_log_wq_sz_def wq_dbr_umem_valid_def
  wq_wq_umem_valid_def wq_dbr_umem_id_def wq_wq_umem_id_def wq_wq_umem_offset_def create_rmp_rmpn_def

definition create_srq_cmd :: "bool \<Rightarrow> u32 \<Rightarrow> u32 \<Rightarrow> u32 \<Rightarrow> u64 \<Rightarrow> u32 \<Rightarrow> u64 \<Rightarrow> u32 \<Rightarrow> devx_buf" where
  "create_srq_cmd linked pdn log_srq_size log_stride dbr_umem_offset dbr_umem_id wq_umem_offset wq_umem_id =
    (let p = devx_set wq_pd pdn (devx_set rmpc_state 1 (devx_set cmd_opcode 0x90c devx_zero));
         t = (if linked then 0 else 1);
         p = devx_set rmpc_basic_cyclic_rcv_wqe t (devx_set wq_wq_type t p);
         p = devx_set wq_end_padding_mode 1 (devx_set wq_log_wq_stride log_stride (devx_set wq_log_wq_sz log_srq_size p));
         p = devx_set wq_wq_umem_valid 1 (devx_set64 wq_wq_umem_offset wq_umem_offset (devx_set wq_wq_umem_id wq_umem_id p))
     in devx_set wq_dbr_umem_valid 1 (devx_set64 wq_dbr_addr dbr_umem_offset (devx_set wq_dbr_umem_id dbr_umem_id p)))"

definition create_srq_obj :: "'h host \<Rightarrow> u32 \<Rightarrow> u32 \<Rightarrow> u64 \<Rightarrow> u32 \<Rightarrow> u64 \<Rightarrow> u32 \<Rightarrow> srq_open \<Rightarrow> 'h
    \<Rightarrow> doca_error \<times> srq_open \<times> 'h" where
  "create_srq_obj H log_srq_size log_stride dbr_umem_offset dbr_umem_id wq_umem_offset wq_umem_id q h =
    (case hs_pdn H (sr_pd q) h of (ret, pdn) \<Rightarrow>
       if ret \<noteq> DOCA_SUCCESS then (DOCA_ERROR_DRIVER, q, h)
       else
         let linked = (sa_srq_type (sr_init_attr q) = SRQ_TYPE_LINKED_LIST);
             q = q\<lparr>sr_type := (if linked then SRQ_TYPE_LINKED_LIST else SRQ_TYPE_CONTIGUOUS)\<rparr>
         in case hs_obj_create H (create_srq_cmd linked pdn log_srq_size log_stride dbr_umem_offset
             dbr_umem_id wq_umem_offset wq_umem_id) h of
           (st, ob, out, h') \<Rightarrow>
             if st \<noteq> DOCA_SUCCESS then (st, q, h')
             else (DOCA_SUCCESS, q\<lparr>sr_obj := ob, sr_num := devx_get create_rmp_rmpn out\<rparr>, h'))"

section \<open>create, destroy\<close>

definition srq_dbr_offset_of :: "srq_open \<Rightarrow> u32" where
  "srq_dbr_offset_of q = align_up_uint32 (sr_size q * sr_rcv_wqe_size q) 64"

definition srq_umem_size_of :: "srq_open \<Rightarrow> u32" where
  "srq_umem_size_of q = align_up_uint32 (srq_dbr_offset_of q + 64) 4096"

text \<open>The id of the region, the offset of the queue there, and the offset of the doorbell record.\<close>

definition srq_umem_part :: "'h host \<Rightarrow> 's qp_env \<Rightarrow> srq_open \<Rightarrow> 'h \<Rightarrow> (u32 \<times> u64 \<times> u64, srq_open, 'h) making" where
  "srq_umem_part H env q h =
    (let a = sr_init_attr q; off = ucast (srq_dbr_offset_of q) in
     if sa_external_umem a = null
     then
       let total = srq_umem_size_of q in
       (case hs_memalign H 4096 (unat total) h of (p, h1) \<Rightarrow>
          let q = q\<lparr>sr_umem_buf := p\<rparr> in
          if p = null then (Crashed, q, h1)
          else
            let h2 = hs_zero H p (unat total) h1; q = q\<lparr>sr_buf := p\<rparr> in
            (case hs_umem_reg H p (ucast total) 0 h2 of (st, u, h3) \<Rightarrow>
               if st \<noteq> DOCA_SUCCESS then (Threw st, q, h3)
               else (Made (hs_umem_id H u h3, 0, off), q\<lparr>sr_umem_obj := u\<rparr>, h3)))
     else
       let umem = Some (env_umem env (sa_external_umem a)); base = sa_external_umem_offset a in
       and_then (get_or_throw (umem_get_address (env_sdk_umem_address env) True umem) q h) (\<lambda>p q h.
       and_then (get_or_throw (umem_get_id (env_sdk_umem_id env) True umem) (q\<lparr>sr_buf := p + unat base\<rparr>) h)
         (\<lambda>umem_id q h. (Made (umem_id, base, base + off), q, h))))"

definition srq_open_create :: "'s qp_env \<Rightarrow> ptr \<Rightarrow> 'h host \<Rightarrow> srq_open \<Rightarrow> 'h \<Rightarrow> (unit, srq_open, 'h) making" where
  "srq_open_create env ctx H q h =
    and_then (with_host (srq_checks H ctx q h) h) (\<lambda>u q h.
    and_then (with_host (size_srq q) h) (\<lambda>log_srq_size q h.
    and_then (srq_umem_part H env q h) (\<lambda>(umem_id, wq_off, dbr_off) q h.
    case create_srq_obj H log_srq_size (ucast (sr_log_rcv_wqe_size q)) dbr_off umem_id wq_off umem_id
           (q\<lparr>sr_db_buffer := sr_buf q + unat (srq_dbr_offset_of q)\<rparr>) h of
      (st, q, h) \<Rightarrow> if st \<noteq> DOCA_SUCCESS then (Threw st, q, h) else (Made (), q, h))))"

definition srq_open_destroy :: "'h host \<Rightarrow> srq_open \<Rightarrow> 'h \<Rightarrow> doca_error \<times> srq_open \<times> 'h" where
  "srq_open_destroy H q h =
    (let q = q\<lparr>sr_device_attr := snd (verbs_device_attr_free (sr_device_attr q))\<rparr> in
     case release_slot (hs_obj_destroy H) (sr_obj q) h of (st, p, h) \<Rightarrow>
       let q = q\<lparr>sr_obj := p\<rparr> in
       if st \<noteq> DOCA_SUCCESS then (st, q, h)
       else case release_slot (hs_umem_dereg H) (sr_umem_obj q) h of (st, p, h) \<Rightarrow>
         let q = q\<lparr>sr_umem_obj := p\<rparr> in
         if st \<noteq> DOCA_SUCCESS then (st, q, h)
         else case free_slot (hs_free H) (sr_umem_buf q) h of (p, h) \<Rightarrow>
           (DOCA_SUCCESS, q\<lparr>sr_umem_buf := p\<rparr>, h))"

section \<open>The API functions\<close>

text \<open>
  Unlike the other objects, this one is not deleted when its destruction fails.  The result of
  \<open>srq_destroy\<close> has the object that is left.
\<close>

definition srq_create :: "'h host \<Rightarrow> 's qp_env \<Rightarrow> ptr \<Rightarrow> bool \<Rightarrow> srq_init_attr option \<Rightarrow> 'h
    \<Rightarrow> (doca_error \<times> srq_open option \<times> 'h) outcome" where
  "srq_create H env ctx result_ptr_ok a h =
    (if ctx = null then Ret (DOCA_ERROR_INVALID_VALUE, None, h)
     else case a of
       None \<Rightarrow> Ret (DOCA_ERROR_INVALID_VALUE, None, h)
     | Some attr \<Rightarrow>
         if \<not> result_ptr_ok then Ret (DOCA_ERROR_INVALID_VALUE, None, h)
         else case construct (srq_open_create env ctx H) (srq_open_destroy H) (new_srq attr) h of
           (Made q, h') \<Rightarrow> Ret (DOCA_SUCCESS, Some q, h')
         | (Threw e, h') \<Rightarrow> Ret (e, None, h')
         | (Crashed, h') \<Rightarrow> Misuse)"

definition srq_destroy :: "'h host \<Rightarrow> srq_open option \<Rightarrow> 'h \<Rightarrow> doca_error \<times> srq_open option \<times> 'h" where
  "srq_destroy H srq h =
    (case srq of
       None \<Rightarrow> (DOCA_ERROR_INVALID_VALUE, None, h)
     | Some q \<Rightarrow>
         (case srq_open_destroy H q h of (st, q', h') \<Rightarrow>
            if st \<noteq> DOCA_SUCCESS then (st, Some q', h')
            else (DOCA_SUCCESS, None, delete_object (srq_open_destroy H) q' h')))"

definition srq_get_wq :: "srq_open \<Rightarrow> ptr \<times> u32 \<times> u32" where
  "srq_get_wq q = (sr_buf q, sr_size q, sr_rcv_wqe_size q)"

definition srq_get_dbr_addr :: "srq_open \<Rightarrow> ptr" where
  "srq_get_dbr_addr q = sr_db_buffer q"

definition srq_get_srqn :: "srq_open \<Rightarrow> u32" where
  "srq_get_srqn q = sr_num q"

end
