(* ===== verification/CqOwner.thy ===== *)
theory CqOwner
  imports VerbsCq QpOwner
begin

text \<open>What a completion queue holds, and that its creation and destruction keep the account.\<close>

definition cq_owned :: "cq_open \<Rightarrow> resource set" where
  "cq_owned q = slot RObj (cq_obj q) \<union> (slot RUar (cq_uar_obj q) \<union>
    (slot RUmem (cq_umem_obj q) \<union> slot RBuf (cq_umem_buf q)))"

definition cq_blank :: "cq_open \<Rightarrow> bool" where
  "cq_blank q \<longleftrightarrow> cq_obj q = null \<and> cq_uar_obj q = null \<and> cq_umem_obj q = null \<and> cq_umem_buf q = null"

lemma cq_checks_keeps:
  "cq_checks H ctx q h = (m, q') \<Longrightarrow> cq_obj q' = cq_obj q \<and> cq_uar_obj q' = cq_uar_obj q \<and>
    cq_umem_obj q' = cq_umem_obj q \<and> cq_umem_buf q' = cq_umem_buf q"
  by (auto simp: cq_checks_def Let_def split: sum.splits if_splits)

lemma cq_umem_part_tidy:
  assumes l: "lawful H live uses" and t: "tidy live uses L {} h" and n: "cq_blank q"
    and c: "cq_umem_part H env q h = (m, q', h')" and nc: "m \<noteq> Crashed"
  shows "tidy live uses L (cq_owned q') h' \<and> cq_obj q' = null \<and> cq_uar_obj q' = null"
proof (cases "ca_external_umem (cq_attr q) = null")
  case True
  define total where "total = unat (cq_umem_size_of q)"
  obtain p h1 where a1: "hs_memalign H 4096 total h = (p, h1)" by fastforce
  have p: "p \<noteq> null"
    using c nc True a1 by (cases "p = null") (auto simp: cq_umem_part_def total_def)
  have "adds live uses h (RBuf p) {} h1" using lawful_steps(5) [OF l a1] p by simp
  from tidy_adds [OF this _ t] have "tidy live uses L {RBuf p} h1" by simp
  then have t2: "tidy live uses L {RBuf p} (hs_zero H p total h1)"
    by (rule tidy_same [OF lawful_steps(6) [OF l]])
  obtain st u h3 where a3: "hs_umem_reg H p (ucast (cq_umem_size_of q)) 0 (hs_zero H p total h1) = (st, u, h3)"
    by (metis prod_cases3)
  note s3 = tidy_creation [OF lawful_steps(2) [OF l a3] t2]
  show ?thesis
    using c True a1 p a3 s3 n
    by (auto simp: cq_umem_part_def cq_owned_def cq_blank_def cq_place_def total_def Let_def insert_commute
        split: if_splits)
next
  case False
  then have "cq_blank q' \<and> h' = h"
    using c n unfolding cq_umem_part_def Let_def and_then_def
    by (auto simp: cq_blank_def cq_place_def dest!: get_or_throw_keeps split: prod.splits made.splits)
  then show ?thesis using t by (simp add: cq_blank_def cq_owned_def)
qed

lemma cq_uar_part_tidy:
  assumes l: "lawful H live uses" and t: "tidy live uses L (cq_owned q) h"
    and n: "cq_obj q = null" "cq_uar_obj q = null"
    and c: "cq_uar_part H env q h = (m, q', h')"
  shows "tidy live uses L (cq_owned q') h' \<and> cq_obj q' = null"
proof (cases "ca_external_uar (cq_attr q) = null")
  case True
  obtain st p h1 where a1: "hs_alloc_uar H MLX5DV_UAR_ALLOC_TYPE_NC h = (st, p, h1)" by (metis prod_cases3)
  obtain st2 p2 h2 where a2: "hs_alloc_uar H MLX5DV_UAR_ALLOC_TYPE_BF h1 = (st2, p2, h2)" by (metis prod_cases3)
  note s1 = tidy_creation [OF lawful_steps(1) [OF l a1] t]
  note s2 = tidy_creation [OF lawful_steps(1) [OF l a2], of L "cq_owned q"]
  show ?thesis
    using c True a1 a2 s1 s2 n
    by (auto simp: cq_uar_part_def cq_owned_def Let_def split: if_splits)
next
  case False
  then have "cq_owned q' = cq_owned q \<and> cq_obj q' = cq_obj q \<and> h' = h"
    using c unfolding cq_uar_part_def Let_def and_then_def
    by (auto simp: cq_owned_def dest!: get_or_throw_keeps split: prod.splits made.splits)
  then show ?thesis using t n by simp
qed

lemma cq_obj_part_tidy:
  assumes l: "lawful H live uses" and t: "tidy live uses L (cq_owned q) h" and n: "cq_obj q = null"
    and c: "create_cq_obj H uar_id lg off db_id wq_id ov co q h = (st, q', h')"
  shows "tidy live uses L (cq_owned q') h'"
proof (cases "fst (hs_query_eqn H h) = DOCA_SUCCESS")
  case True
  define cmd where "cmd = create_cq_cmd uar_id lg off db_id wq_id ov co (snd (hs_query_eqn H h))"
  obtain st1 ob out h1 where o: "hs_obj_create H cmd h = (st1, ob, out, h1)" by (metis prod_cases4)
  have low: "\<forall>y \<in> UNIV \<inter> cq_owned q. res_rank y < res_rank (RObj ob)"
    using n by (auto simp: cq_owned_def)
  note s = tidy_creation [OF lawful_steps(4) [OF l o] t low]
  show ?thesis
    using c True o s n
    by (auto simp: create_cq_obj_def cmd_def cq_owned_def split: prod.splits if_splits)
qed (use c t in \<open>auto simp: create_cq_obj_def split: prod.splits\<close>)

lemma cq_create_tidy:
  assumes l: "lawful H live uses" and t: "tidy live uses L {} h" and n: "cq_blank q"
    and c: "cq_open_create env ctx H q h = (m, q', h')" and nc: "m \<noteq> Crashed"
  shows "tidy live uses L (cq_owned q') h'"
proof -
  obtain m1 q1 where c1: "cq_checks H ctx q h = (m1, q1)" by fastforce
  have n1: "cq_blank q1" using cq_checks_keeps [OF c1] n by (simp add: cq_blank_def)
  show ?thesis
  proof (cases m1)
    case d: (Made lg)
    obtain m2 q2 h2 where c2: "cq_umem_part H env q1 h = (m2, q2, h2)" by (metis prod_cases3)
    have nc2: "m2 \<noteq> Crashed"
      using c c1 d c2 nc by (auto simp: cq_open_create_def with_host_def)
    note t2 = cq_umem_part_tidy [OF l t n1 c2 nc2]
    show ?thesis
    proof (cases m2)
      case u: (Made umem_id)
      let ?q = "cq_doorbells q2"
      have t3: "tidy live uses L (cq_owned ?q) h2" "cq_obj ?q = null" "cq_uar_obj ?q = null"
        using t2 by (auto simp: cq_doorbells_def cq_owned_def)
      obtain m3 q3 h3 where c3: "cq_uar_part H env ?q h2 = (m3, q3, h3)" by (metis prod_cases3)
      note t4 = cq_uar_part_tidy [OF l t3 c3]
      show ?thesis
        using c c1 d c2 u c3 t4 cq_obj_part_tidy [OF l, of L q3 h3]
        by (cases m3) (auto simp: cq_open_create_def with_host_def split: prod.splits if_splits)
    qed (use c c1 d c2 t2 nc in \<open>auto simp: cq_open_create_def with_host_def\<close>)
  qed (use c c1 t n1 nc in \<open>auto simp: cq_open_create_def with_host_def cq_owned_def cq_blank_def\<close>)
qed

lemma cq_destroy_tidy:
  assumes l: "lawful H live uses" and t: "tidy live uses L (cq_owned q) h"
    and d: "cq_open_destroy H q h = (st, q', h')"
  shows "st = DOCA_SUCCESS \<and> cq_owned q' = {} \<and> tidy live uses L {} h'"
proof -
  let ?S1 = "slot RUar (cq_uar_obj q) \<union> (slot RUmem (cq_umem_obj q) \<union> slot RBuf (cq_umem_buf q))"
  obtain st1 p1 h1 where c1: "release_slot (hs_obj_destroy H) (cq_obj q) h = (st1, p1, h1)"
    by (metis prod_cases3)
  have t1: "st1 = DOCA_SUCCESS \<and> p1 = null \<and> tidy live uses L ?S1 h1"
    by (rule release_slot_tidy [OF lawful_steps(9) [OF l] _ _ _ c1]) (use t in \<open>auto simp: cq_owned_def\<close>)
  let ?S2 = "slot RUmem (cq_umem_obj q) \<union> slot RBuf (cq_umem_buf q)"
  obtain st2 p2 h2 where c2: "release_slot (hs_free_uar H) (cq_uar_obj q) h1 = (st2, p2, h2)"
    by (metis prod_cases3)
  have t2: "st2 = DOCA_SUCCESS \<and> p2 = null \<and> tidy live uses L ?S2 h2"
    by (rule release_slot_tidy [OF lawful_steps(7) [OF l] _ _ _ c2]) (use t1 in auto)
  obtain st3 p3 h3 where c3: "release_slot (hs_umem_dereg H) (cq_umem_obj q) h2 = (st3, p3, h3)"
    by (metis prod_cases3)
  have t3: "st3 = DOCA_SUCCESS \<and> p3 = null \<and> tidy live uses L (slot RBuf (cq_umem_buf q)) h3"
    by (rule release_slot_tidy [OF lawful_steps(8) [OF l] _ _ _ c3]) (use t2 in auto)
  obtain p4 h4 where c4: "free_slot (hs_free H) (cq_umem_buf q) h3 = (p4, h4)" by fastforce
  have "p4 = null \<and> tidy live uses L {} h4" by (rule free_slot_tidy [OF l _ c4]) (use t3 in simp)
  then show ?thesis
    using d c1 t1 c2 t2 c3 t3 c4 by (auto simp: cq_open_destroy_def Let_def cq_owned_def)
qed

interpretation cq: owner "cq_open_create env ctx" cq_open_destroy cq_owned cq_blank
  by unfold_locales (rule cq_create_tidy cq_destroy_tidy; assumption)+

end
