(* ===== verification/SrqOwner.thy ===== *)
theory SrqOwner
  imports VerbsSrq CqOwner
begin

text \<open>What a shared receive queue holds, and that its creation and destruction keep the account.\<close>

definition srq_owned :: "srq_open \<Rightarrow> resource set" where
  "srq_owned q = slot RObj (sr_obj q) \<union> (slot RUmem (sr_umem_obj q) \<union> slot RBuf (sr_umem_buf q))"

definition srq_blank :: "srq_open \<Rightarrow> bool" where
  "srq_blank q \<longleftrightarrow> sr_obj q = null \<and> sr_umem_obj q = null \<and> sr_umem_buf q = null"

lemma srq_pure_keeps:
  "srq_checks H ctx q h = (m, q') \<Longrightarrow> srq_blank q' = srq_blank q"
  "size_srq q = (m2, q') \<Longrightarrow> srq_blank q' = srq_blank q"
  by (auto simp: srq_checks_def size_srq_def srq_blank_def Let_def split: sum.splits if_splits)

lemma srq_umem_part_tidy:
  assumes l: "lawful H live uses" and t: "tidy live uses L {} h" and n: "srq_blank q"
    and c: "srq_umem_part H env q h = (m, q', h')" and nc: "m \<noteq> Crashed"
  shows "tidy live uses L (srq_owned q') h' \<and> sr_obj q' = null"
proof (cases "sa_external_umem (sr_init_attr q) = null")
  case True
  define total where "total = unat (srq_umem_size_of q)"
  obtain p h1 where a1: "hs_memalign H 4096 total h = (p, h1)" by fastforce
  have p: "p \<noteq> null"
    using c nc True a1 by (cases "p = null") (auto simp: srq_umem_part_def total_def)
  have "adds live uses h (RBuf p) {} h1" using lawful_steps(5) [OF l a1] p by simp
  from tidy_adds [OF this _ t] have "tidy live uses L {RBuf p} h1" by simp
  then have t2: "tidy live uses L {RBuf p} (hs_zero H p total h1)"
    by (rule tidy_same [OF lawful_steps(6) [OF l]])
  obtain st u h3 where a3: "hs_umem_reg H p (ucast (srq_umem_size_of q)) 0 (hs_zero H p total h1) = (st, u, h3)"
    by (metis prod_cases3)
  note s3 = tidy_creation [OF lawful_steps(2) [OF l a3] t2]
  show ?thesis
    using c True a1 p a3 s3 n
    by (auto simp: srq_umem_part_def srq_owned_def srq_blank_def total_def Let_def insert_commute
        split: if_splits)
next
  case False
  then have "srq_blank q' \<and> h' = h"
    using c n unfolding srq_umem_part_def Let_def and_then_def
    by (auto simp: srq_blank_def dest!: get_or_throw_keeps split: prod.splits made.splits)
  then show ?thesis using t by (simp add: srq_blank_def srq_owned_def)
qed

lemma srq_obj_part_tidy:
  assumes l: "lawful H live uses" and t: "tidy live uses L (srq_owned q) h" and n: "sr_obj q = null"
    and c: "create_srq_obj H lg ls off db_id wq_off wq_id q h = (st, q', h')"
  shows "tidy live uses L (srq_owned q') h'"
proof (cases "fst (hs_pdn H (sr_pd q) h) = DOCA_SUCCESS")
  case True
  define cmd where "cmd = create_srq_cmd (sa_srq_type (sr_init_attr q) = SRQ_TYPE_LINKED_LIST)
    (snd (hs_pdn H (sr_pd q) h)) lg ls off db_id wq_off wq_id"
  obtain st1 ob out h1 where o: "hs_obj_create H cmd h = (st1, ob, out, h1)" by (metis prod_cases4)
  have low: "\<forall>y \<in> UNIV \<inter> srq_owned q. res_rank y < res_rank (RObj ob)"
    using n by (auto simp: srq_owned_def)
  note s = tidy_creation [OF lawful_steps(4) [OF l o] t low]
  show ?thesis
    using c True o s n
    by (auto simp: create_srq_obj_def cmd_def srq_owned_def Let_def split: prod.splits if_splits)
qed (use c t in \<open>auto simp: create_srq_obj_def split: prod.splits\<close>)

lemma srq_create_tidy:
  assumes l: "lawful H live uses" and t: "tidy live uses L {} h" and n: "srq_blank q"
    and c: "srq_open_create env ctx H q h = (m, q', h')" and nc: "m \<noteq> Crashed"
  shows "tidy live uses L (srq_owned q') h'"
proof -
  have blank: "tidy live uses L (srq_owned x) h" if "srq_blank x" for x
    using t that by (simp add: srq_owned_def srq_blank_def)
  obtain m1 q1 where c1: "srq_checks H ctx q h = (m1, q1)" by fastforce
  have n1: "srq_blank q1" using srq_pure_keeps(1) [OF c1] n by simp
  show ?thesis
  proof (cases m1)
    case d: (Made u)
    obtain m2 q2 where c2: "size_srq q1 = (m2, q2)" by fastforce
    have n2: "srq_blank q2" using srq_pure_keeps(2) [OF c2] n1 by simp
    show ?thesis
    proof (cases m2)
      case s: (Made lg)
      obtain m3 q3 h3 where c3: "srq_umem_part H env q2 h = (m3, q3, h3)" by (metis prod_cases3)
      have nc3: "m3 \<noteq> Crashed"
        using c c1 d c2 s c3 nc by (auto simp: srq_open_create_def with_host_def)
      note t3 = srq_umem_part_tidy [OF l t n2 c3 nc3]
      have t4: "tidy live uses L (srq_owned (q3\<lparr>sr_db_buffer := b\<rparr>)) h3 \<and> sr_obj (q3\<lparr>sr_db_buffer := b\<rparr>) = null" for b
        using t3 by (auto simp: srq_owned_def)
      show ?thesis
        using c c1 d c2 s c3 t3 nc srq_obj_part_tidy [OF l conjunct1 [OF t4] conjunct2 [OF t4]]
        by (cases m3) (auto simp: srq_open_create_def with_host_def split: prod.splits if_splits)
    qed (use c c1 d c2 blank [OF n2] nc in \<open>auto simp: srq_open_create_def with_host_def\<close>)
  qed (use c c1 blank [OF n1] nc in \<open>auto simp: srq_open_create_def with_host_def\<close>)
qed

lemma srq_destroy_tidy:
  assumes l: "lawful H live uses" and t: "tidy live uses L (srq_owned q) h"
    and d: "srq_open_destroy H q h = (st, q', h')"
  shows "st = DOCA_SUCCESS \<and> srq_owned q' = {} \<and> tidy live uses L {} h'"
proof -
  obtain st1 p1 h1 where c1: "release_slot (hs_obj_destroy H) (sr_obj q) h = (st1, p1, h1)"
    by (metis prod_cases3)
  have t1: "st1 = DOCA_SUCCESS \<and> p1 = null \<and>
      tidy live uses L (slot RUmem (sr_umem_obj q) \<union> slot RBuf (sr_umem_buf q)) h1"
    by (rule release_slot_tidy [OF lawful_steps(9) [OF l] _ _ _ c1]) (use t in \<open>auto simp: srq_owned_def\<close>)
  obtain st3 p3 h3 where c3: "release_slot (hs_umem_dereg H) (sr_umem_obj q) h1 = (st3, p3, h3)"
    by (metis prod_cases3)
  have t3: "st3 = DOCA_SUCCESS \<and> p3 = null \<and> tidy live uses L (slot RBuf (sr_umem_buf q)) h3"
    by (rule release_slot_tidy [OF lawful_steps(8) [OF l] _ _ _ c3]) (use t1 in auto)
  obtain p4 h4 where c4: "free_slot (hs_free H) (sr_umem_buf q) h3 = (p4, h4)" by fastforce
  have "p4 = null \<and> tidy live uses L {} h4" by (rule free_slot_tidy [OF l _ c4]) (use t3 in simp)
  then show ?thesis
    using d c1 t1 c3 t3 c4 by (auto simp: srq_open_destroy_def Let_def srq_owned_def)
qed

interpretation srq: owner "srq_open_create env ctx" srq_open_destroy srq_owned srq_blank
  by unfold_locales (rule srq_create_tidy srq_destroy_tidy; assumption)+

end
