(* ===== verification/QueueProps.thy ===== *)
theory QueueProps
  imports SrqOwner QpDemo DevCqProofs
begin

text \<open>
  Properties of completion queues and shared receive queues: their sizes and memory, the commands
  that create them, and the account of what they hold.
\<close>

section \<open>Sizes and memory\<close>

lemma cq_checks_made:
  assumes "cq_checks H ctx q h = (Made lg, q')"
  shows "is_power_of_two (ucast (ca_cq_size (cq_attr q)))" "cq_num_cqes q' = ca_cq_size (cq_attr q)"
    and "lg = log2_u32 (ca_cq_size (cq_attr q))" "cq_attr q' = cq_attr q"
  using assms by (auto simp: cq_checks_def Let_def split: sum.splits if_splits)

lemma cq_umem_part_internal:
  assumes "cq_umem_part H env q h = (Made i, q', h')" "ca_external_umem (cq_attr q) = null"
  shows "cq_umem_buf q' \<noteq> null" "cq_buf q' = cq_umem_buf q'" "cq_num_cqes q' = cq_num_cqes q"
    and "cq_db_buffer q' = cq_umem_buf q' + unat (cq_dbr_offset_of q)"
    and "\<exists>h1 h2 u h3. hs_memalign H 4096 (unat (cq_umem_size_of q)) h1 = (cq_umem_buf q', h2) \<and>
      hs_umem_reg H (cq_umem_buf q') (ucast (cq_umem_size_of q)) 0 h3 = (DOCA_SUCCESS, u, h') \<and>
      i = hs_umem_id H u h'"
  using assms
  by (auto simp: cq_umem_part_def cq_place_def cq_dbr_offset_of_def Let_def split: prod.splits if_splits) blast+

text \<open>C25: Completion queue memory.  With internal memory and at most \<open>2^25\<close> entries, a creation that gets
  past the checks and the memory has a power of two of entries, whose logarithm goes into the
  command; the buffer handed to the device is whole pages and holds all entries and then, on its
  own cache line, the doorbell record.  Whatever index a device view of the queue is polled at,
  the 64 bytes read lie in the buffer, before the doorbell record.\<close>

theorem completion_queue_lies_in_its_region:
  assumes "cq_checks H ctx q h = (Made lg, q1)" and "cq_umem_part H env q1 h1 = (Made i, q2, h2)"
    and "ca_external_umem (cq_attr q) = null" and "unat (ca_cq_size (cq_attr q)) \<le> 2 ^ 25"
  shows "\<exists>k\<le>25. cq_num_cqes q2 = 2 ^ k \<and> lg = of_nat k \<and> cq_buf q2 \<noteq> null \<and>
    (\<exists>g g' u g''. hs_memalign H 4096 (unat (cq_umem_size_of q1)) g = (cq_buf q2, g') \<and>
       hs_umem_reg H (cq_buf q2) (ucast (cq_umem_size_of q1)) 0 g'' = (DOCA_SUCCESS, u, h2)) \<and>
    4096 dvd unat (cq_umem_size_of q1) \<and>
    cq_buf q2 + 64 * 2 ^ k \<le> cq_db_buffer q2 \<and> 64 dvd cq_db_buffer q2 - cq_buf q2 \<and>
    cq_db_buffer q2 + 64 \<le> cq_buf q2 + unat (cq_umem_size_of q1) \<and>
    (\<forall>dcq n. cqe_num dcq = cq_num_cqes q2 \<longrightarrow>
       cq_buf q2 + 64 * cqe_slot dcq n + 64 \<le> cq_db_buffer q2)"
proof -
  define n where "n = ca_cq_size (cq_attr q)"
  note c = cq_checks_made [OF assms(1), folded n_def]
  obtain k where k: "unat n = 2 ^ k" using c(1) is_power_of_two_unat [of "ucast n"] by auto
  have "(2 :: nat) ^ k \<le> 2 ^ 25" using assms(4) k by (simp add: n_def)
  then have k25: "k \<le> 25" by (rule power_le_imp_le_exp [rotated]) simp
  have n: "n = 2 ^ k" using k k25 by (simp add: word_unat_eq_iff unat_pow2)
  have lg: "lg = of_nat k" using c(3) k25 by (simp add: n log2_u32_pow2)
  note m = cq_umem_part_internal [OF assms(2)]
  have ext: "ca_external_umem (cq_attr q1) = null" using assms(3) c(4) by simp
  note m = m [OF ext]
  have le: "64 * (2 :: nat) ^ k \<le> 2 ^ 31" using \<open>(2 :: nat) ^ k \<le> 2 ^ 25\<close> by simp
  let ?o = "cq_dbr_offset_of q1"
  have "unat (cq_num_cqes q1 * 64) = 64 * 2 ^ k"
    using le k c(2) unat_mult_no_overflow [of "cq_num_cqes q1" 64] by simp
  then have o: "64 dvd unat ?o" "64 * 2 ^ k \<le> unat ?o" "unat ?o < 64 * 2 ^ k + 64"
    using align_up_uint32_props [of 64 "cq_num_cqes q1 * 64"] le by (simp_all add: cq_dbr_offset_of_def)
  have o64: "unat (?o + 64) = unat ?o + 64" using o(3) le unat_add_no_overflow [of ?o 64] by simp
  have t: "4096 dvd unat (cq_umem_size_of q1)" "unat ?o + 64 \<le> unat (cq_umem_size_of q1)"
    using align_up_uint32_props [of 4096 "?o + 64"] o64 o(3) le by (simp_all add: cq_umem_size_of_def)
  have slot: "cq_buf q2 + 64 * cqe_slot dcq j + 64 \<le> cq_db_buffer q2" if "cqe_num dcq = cq_num_cqes q2" for dcq j
  proof -
    have "cqe_slot dcq j = unat j mod 2 ^ k"
      using cqe_slot_mod [of dcq j] that m(3) c(1,2) k by simp
    then have "Suc (cqe_slot dcq j) \<le> 2 ^ k" by (simp add: Suc_le_eq)
    then have "64 * Suc (cqe_slot dcq j) \<le> 64 * 2 ^ k" by (rule mult_le_mono2)
    then show ?thesis using o(2) m(2,4) by simp
  qed
  show ?thesis
    using k25 lg m c(2) n o t slot by (intro exI [of _ k]) auto
qed

section \<open>Shared receive queues\<close>

lemma size_srq_made:
  assumes "size_srq q = (Made lg, q')"
  defines "a \<equiv> sr_init_attr q"
  defines "w \<equiv> srq_wqe_size_of a"
  defines "n \<equiv> next_power_of_two_u32 (sa_srq_wr a * w) div w"
  shows "w \<noteq> 0" "lg = log2_u32 n" "sr_size q' = n" "sr_rcv_wqe_size q' = w"
    and "sr_log_rcv_wqe_size q' = ucast (log2_u32 w)" "sr_rcv_max_sges q' = srq_sges_of a"
  using assms by (auto simp: size_srq_def Let_def split: if_splits)

definition srq_header :: "srq_init_attr \<Rightarrow> nat" where
  "srq_header a = (if sa_srq_type a = SRQ_TYPE_LINKED_LIST then 16 else 0)"

text \<open>The entry size is a power of two, and its segments fill it.\<close>

lemma srq_wqe_size_pow2:
  assumes "0 < unat (sa_receive_max_sges a)" "unat (sa_receive_max_sges a) \<le> 2 ^ 26"
  obtains j where "j \<le> 31" "4 \<le> j" "srq_wqe_size_of a = 2 ^ j"
    "srq_header a + 16 * unat (sa_receive_max_sges a) \<le> 2 ^ j"
    "srq_header a + 16 * unat (srq_sges_of a) = 2 ^ j"
proof -
  define s where "s = sa_receive_max_sges a"
  define x where "x = (if sa_srq_type a = SRQ_TYPE_LINKED_LIST then max (s * 16 + 16) 32 else s * 16)"
  have m: "unat (s * 16) = 16 * unat s"
    using assms(2) unat_mult_no_overflow [of s 16] by (simp add: s_def)
  have p: "unat (s * 16 + 16) = 16 * unat s + 16"
    using assms(2) m unat_add_no_overflow [of "s * 16" 16] by (simp add: s_def)
  have s1: "1 \<le> unat s" using assms(1) by (simp add: s_def)
  have x: "unat x = srq_header a + 16 * unat s"
    using s1 by (auto simp: x_def srq_header_def m p unat_max)
  then have "x \<noteq> 0" "unat x \<le> 2 ^ 31" "16 \<le> unat x"
    using s1 assms(2) by (auto simp: s_def srq_header_def)
  then obtain j where j: "j \<le> 31" "next_power_of_two_u32 x = 2 ^ j" "unat x \<le> 2 ^ j"
    using next_power_of_two_u32_pow2 by blast
  have w: "srq_wqe_size_of a = 2 ^ j" using j(2) by (auto simp: srq_wqe_size_of_def x_def s_def Let_def split: if_splits)
  have "(2 :: nat) ^ 4 \<le> 2 ^ j" using j(3) \<open>16 \<le> unat x\<close> by simp
  then have j4: "4 \<le> j" by (rule power_le_imp_le_exp [rotated]) simp
  then have "(2 :: nat) ^ j = 16 * 2 ^ (j - 4)" using power_add [of "2 :: nat" 4 "j - 4"] by simp
  moreover have "unat (srq_sges_of a) = (2 ^ j - srq_header a) div 16"
  proof -
    have u: "unat (ucast (srq_wqe_size_of a) :: u64) = 2 ^ j" using j(1) by (simp add: w unat_pow2)
    have lt: "(2 :: nat) ^ j div 16 < 2 ^ 32" "(2 ^ j - 16) div 16 < (2 :: nat) ^ 32"
      using j(1) power_increasing [of j 31 "2 :: nat"] by (simp_all add: less_mult_imp_div_less)
    have "(16 :: u64) \<le> ucast (srq_wqe_size_of a)"
      using u \<open>(2 :: nat) ^ 4 \<le> 2 ^ j\<close> by (simp add: word_le_unat)
    then have "unat (ucast (srq_wqe_size_of a) - 16 :: u64) = 2 ^ j - 16" using u by (simp add: unat_sub_le)
    then show ?thesis
      using u lt by (simp add: srq_sges_of_def srq_header_def Let_def unat_ucast_mod unat_div)
  qed
  ultimately have "srq_header a + 16 * unat (srq_sges_of a) = 2 ^ j"
    by (auto simp: srq_header_def)
  then show thesis using that j(1) j4 w j(3) x by (simp add: s_def)
qed

text \<open>Shared receive queue sizes.  When the requested segments and the bytes of the queue fit into
  32 bits, a size computation that succeeds gives a power of two of entries, each a power of two
  of bytes, with both logarithms.  The entry has room for its control segment, if the type has
  one, and the requested data segments; the number of segments the object reports fills the entry
  exactly; and the requested number of entries fits.\<close>

theorem shared_receive_queue_holds_what_was_asked:
  assumes "size_srq q = (Made lg, q')" and "0 < sa_srq_wr (sr_init_attr q)"
    and "0 < unat (sa_receive_max_sges (sr_init_attr q))"
    and "unat (sa_receive_max_sges (sr_init_attr q)) \<le> 2 ^ 26"
    and "unat (sa_srq_wr (sr_init_attr q)) * unat (sr_rcv_wqe_size q') \<le> 2 ^ 31"
  shows "\<exists>j k. j + k \<le> 31 \<and> sr_rcv_wqe_size q' = 2 ^ j \<and> sr_log_rcv_wqe_size q' = of_nat j \<and>
    sr_size q' = 2 ^ k \<and> lg = of_nat k \<and> unat (sa_srq_wr (sr_init_attr q)) \<le> 2 ^ k \<and>
    sa_receive_max_sges (sr_init_attr q) \<le> sr_rcv_max_sges q' \<and>
    srq_header (sr_init_attr q) + 16 * unat (sr_rcv_max_sges q') = 2 ^ j"
proof -
  define a where "a = sr_init_attr q"
  define n where "n = sa_srq_wr a"
  note made = size_srq_made [OF assms(1), folded a_def, folded n_def]
  obtain j where j: "j \<le> 31" "4 \<le> j" "srq_wqe_size_of a = 2 ^ j"
    "srq_header a + 16 * unat (sa_receive_max_sges a) \<le> 2 ^ j"
    "srq_header a + 16 * unat (srq_sges_of a) = 2 ^ j"
    using srq_wqe_size_pow2 assms(3,4) unfolding a_def by metis
  have uw: "unat (srq_wqe_size_of a) = 2 ^ j" using j(1) by (simp add: j(3) unat_pow2)
  have n0: "0 < unat n" using assms(2) by (simp add: n_def a_def unat_gt_0 word_neq_0_conv)
  have fit: "unat (srq_wqe_size_of a) * unat n \<le> 2 ^ 31"
    using assms(5) made(4) by (simp add: n_def a_def mult.commute)
  obtain m where m: "m \<le> 31" "next_power_of_two_u32 (srq_wqe_size_of a * n) = 2 ^ m"
      "unat (srq_wqe_size_of a) * unat n \<le> 2 ^ m"
    using queue_bytes [OF n0 _ fit] uw by auto
  have "2 ^ j * 1 \<le> 2 ^ j * unat n" using n0 by (intro mult_le_mono2) simp
  also have "\<dots> \<le> 2 ^ m" using m(3) uw by simp
  finally have jm: "j \<le> m" by (simp add: power_le_imp_le_exp)
  have sz: "2 ^ m div srq_wqe_size_of a = 2 ^ (m - j)" unfolding j(3) by (rule pow2_div_u32 [OF m(1) jm])
  have "2 ^ j * unat n \<le> 2 ^ j * 2 ^ (m - j)" using m(3) uw jm by (simp flip: power_add)
  then have "unat n \<le> 2 ^ (m - j)" by simp
  moreover have "sr_size q' = 2 ^ (m - j)" "lg = of_nat (m - j)"
    using made(2,3) m(1,2) sz by (simp_all add: mult.commute log2_u32_pow2)
  moreover have "sr_log_rcv_wqe_size q' = of_nat j"
    using made(5) j(1) small_log_u8 [of j] by (simp add: j(3) log2_u32_pow2)
  moreover have "sa_receive_max_sges a \<le> sr_rcv_max_sges q'"
    using j(4,5) made(6) by (simp add: word_le_unat)
  ultimately show ?thesis
    using j made(4,6) m(1) jm unfolding a_def [symmetric] n_def [symmetric]
    by (intro exI [of _ j] exI [of _ "m - j"]) simp
qed


section \<open>The creation commands\<close>

text \<open>The creation commands.  A successful creation of a completion queue object or of a shared receive
  queue object has handed one command to the device, from which it reads back every parameter:
  sizes, doorbell page and event queue, flags, protection domain and kind of entries, and where
  the queue and its doorbell record are.  The object takes its number from the answer.\<close>

theorem queue_commands_describe_the_queues:
  assumes "create_cq_obj H uar_id lg off db_id wq_id ov co q h = (DOCA_SUCCESS, q', h')"
    and "create_srq_obj H slg sls soff sdb_id swq_off swq_id s g = (DOCA_SUCCESS, s', g')"
  shows "(\<exists>cmd out eqn. hs_obj_create H cmd h = (DOCA_SUCCESS, cq_obj q', out, h') \<and>
      hs_query_eqn H h = (DOCA_SUCCESS, eqn) \<and> cq_cqn q' = devx_get create_cq_cqn out \<and>
      devx_get cmd_opcode cmd = 0x400 \<and> devx_get cqc_uar_page cmd = take_bit 24 uar_id \<and>
      devx_get cqc_log_cq_size cmd = take_bit 5 lg \<and> devx_get cqc_c_eqn cmd = take_bit 8 eqn \<and>
      devx_get cqc_oi cmd = (if ov then 1 else 0) \<and> devx_get cqc_cc cmd = take_bit 1 (ucast co) \<and>
      devx_get cqc_cqe_sz cmd = 0 \<and>
      devx_get create_cq_umem_id cmd = wq_id \<and> devx_get create_cq_umem_valid cmd = 1 \<and>
      devx_get64 create_cq_umem_offset cmd = 0 \<and> devx_get cqc_dbr_umem_id cmd = db_id \<and>
      devx_get cqc_dbr_umem_valid cmd = 1 \<and> devx_get64 cqc_dbr_addr cmd = off) \<and>
    (\<exists>cmd out pdn. hs_obj_create H cmd g = (DOCA_SUCCESS, sr_obj s', out, g') \<and>
      hs_pdn H (sr_pd s) g = (DOCA_SUCCESS, pdn) \<and> sr_num s' = devx_get create_rmp_rmpn out \<and>
      devx_get cmd_opcode cmd = 0x90c \<and> devx_get rmpc_state cmd = 1 \<and>
      devx_get wq_pd cmd = take_bit 24 pdn \<and>
      devx_get wq_wq_type cmd = (if sa_srq_type (sr_init_attr s) = SRQ_TYPE_LINKED_LIST then 0 else 1) \<and>
      devx_get rmpc_basic_cyclic_rcv_wqe cmd =
        (if sa_srq_type (sr_init_attr s) = SRQ_TYPE_LINKED_LIST then 0 else 1) \<and>
      devx_get wq_log_wq_sz cmd = take_bit 5 slg \<and> devx_get wq_log_wq_stride cmd = take_bit 4 sls \<and>
      devx_get wq_end_padding_mode cmd = 1 \<and>
      devx_get wq_wq_umem_id cmd = swq_id \<and> devx_get wq_wq_umem_valid cmd = 1 \<and>
      devx_get64 wq_wq_umem_offset cmd = swq_off \<and> devx_get wq_dbr_umem_id cmd = sdb_id \<and>
      devx_get wq_dbr_umem_valid cmd = 1 \<and> devx_get64 wq_dbr_addr cmd = soff)"
proof
  obtain eqn out where c: "hs_query_eqn H h = (DOCA_SUCCESS, eqn)"
      "hs_obj_create H (create_cq_cmd uar_id lg off db_id wq_id ov co eqn) h = (DOCA_SUCCESS, cq_obj q', out, h')"
      "cq_cqn q' = devx_get create_cq_cqn out"
    using assms(1) by (auto simp: create_cq_obj_def split: prod.splits if_splits)
  show "\<exists>cmd out eqn. hs_obj_create H cmd h = (DOCA_SUCCESS, cq_obj q', out, h') \<and>
      hs_query_eqn H h = (DOCA_SUCCESS, eqn) \<and> cq_cqn q' = devx_get create_cq_cqn out \<and>
      devx_get cmd_opcode cmd = 0x400 \<and> devx_get cqc_uar_page cmd = take_bit 24 uar_id \<and>
      devx_get cqc_log_cq_size cmd = take_bit 5 lg \<and> devx_get cqc_c_eqn cmd = take_bit 8 eqn \<and>
      devx_get cqc_oi cmd = (if ov then 1 else 0) \<and> devx_get cqc_cc cmd = take_bit 1 (ucast co) \<and>
      devx_get cqc_cqe_sz cmd = 0 \<and>
      devx_get create_cq_umem_id cmd = wq_id \<and> devx_get create_cq_umem_valid cmd = 1 \<and>
      devx_get64 create_cq_umem_offset cmd = 0 \<and> devx_get cqc_dbr_umem_id cmd = db_id \<and>
      devx_get cqc_dbr_umem_valid cmd = 1 \<and> devx_get64 cqc_dbr_addr cmd = off"
    by (rule exI, rule exI [of _ out], rule exI [of _ eqn], intro conjI, rule c(2), rule c(1), rule c(3))
      (simp_all add: create_cq_cmd_def create_fields cq_field_defs take_bit_word_eq_self)
next
  let ?l = "sa_srq_type (sr_init_attr s) = SRQ_TYPE_LINKED_LIST"
  obtain pdn out where c: "hs_pdn H (sr_pd s) g = (DOCA_SUCCESS, pdn)"
      "hs_obj_create H (create_srq_cmd ?l pdn slg sls soff sdb_id swq_off swq_id) g =
        (DOCA_SUCCESS, sr_obj s', out, g')"
      "sr_num s' = devx_get create_rmp_rmpn out"
    using assms(2) by (auto simp: create_srq_obj_def Let_def split: prod.splits if_splits)
  show "\<exists>cmd out pdn. hs_obj_create H cmd g = (DOCA_SUCCESS, sr_obj s', out, g') \<and>
      hs_pdn H (sr_pd s) g = (DOCA_SUCCESS, pdn) \<and> sr_num s' = devx_get create_rmp_rmpn out \<and>
      devx_get cmd_opcode cmd = 0x90c \<and> devx_get rmpc_state cmd = 1 \<and>
      devx_get wq_pd cmd = take_bit 24 pdn \<and>
      devx_get wq_wq_type cmd = (if ?l then 0 else 1) \<and>
      devx_get rmpc_basic_cyclic_rcv_wqe cmd = (if ?l then 0 else 1) \<and>
      devx_get wq_log_wq_sz cmd = take_bit 5 slg \<and> devx_get wq_log_wq_stride cmd = take_bit 4 sls \<and>
      devx_get wq_end_padding_mode cmd = 1 \<and>
      devx_get wq_wq_umem_id cmd = swq_id \<and> devx_get wq_wq_umem_valid cmd = 1 \<and>
      devx_get64 wq_wq_umem_offset cmd = swq_off \<and> devx_get wq_dbr_umem_id cmd = sdb_id \<and>
      devx_get wq_dbr_umem_valid cmd = 1 \<and> devx_get64 wq_dbr_addr cmd = soff"
    by (rule exI, rule exI [of _ out], rule exI [of _ pdn], intro conjI, rule c(2), rule c(1), rule c(3))
      (simp_all add: create_srq_cmd_def create_fields srq_field_defs take_bit_word_eq_self Let_def)
qed

section \<open>Nothing leaks\<close>

text \<open>What a constructor throws is an error.\<close>

lemma get_or_throw_throws: "get_or_throw r ob h = (Threw e, ob', h') \<Longrightarrow> e \<noteq> DOCA_SUCCESS"
  by (auto simp: get_or_throw_def split: outcome.splits option.splits if_splits prod.splits)

lemma srq_create_throws:
  assumes "srq_open_create env ctx H q h = (Threw e, q', h')"
  shows "e \<noteq> DOCA_SUCCESS"
proof -
  have "fst (srq_checks H ctx q h) \<noteq> Threw DOCA_SUCCESS" "fst (size_srq q1) \<noteq> Threw DOCA_SUCCESS" for q h q1
    by (auto simp: srq_checks_def size_srq_def Let_def split: sum.splits if_splits)
  moreover have "srq_umem_part H env q h \<noteq> (Threw DOCA_SUCCESS, q1, h1)" for q h q1 h1
    unfolding srq_umem_part_def Let_def and_then_def
    by (auto dest: get_or_throw_throws split: prod.splits made.splits)
  ultimately show ?thesis
    using assms unfolding srq_open_create_def with_host_def and_then_def
    by (auto split: prod.splits made.splits if_splits)
qed

text \<open>C24: Nothing leaks from completion queues and shared receive queues.  On a host that behaves as
  documented, a creation that reports an error leaves alive what was alive before; an open queue
  owns exactly what was added, and its destruction succeeds and gives it all back.\<close>

theorem queues_create_destroy_balance:
  assumes "lawful H live uses" "closed live uses h"
    and "cq_create H env ctx calloc_ok dev ca sdk h = Ret (e, cq, h1)"
    and "srq_create H env ctx ptr_ok sa h = Ret (e', srq, h2)"
  shows "balanced live cq_owned (cq_destroy H call) h (e, cq, h1) \<and>
    (case srq of
       None \<Rightarrow> e' \<noteq> DOCA_SUCCESS \<and> live h2 = live h
     | Some q \<Rightarrow> e' = DOCA_SUCCESS \<and> live h2 = live h \<union> srq_owned q \<and> live h \<inter> srq_owned q = {} \<and>
         (\<exists>h3. srq_destroy H srq h2 = (DOCA_SUCCESS, None, h3) \<and> live h3 = live h))"
proof
  show "balanced live cq_owned (cq_destroy H call) h (e, cq, h1)"
  proof (cases ca)
    case None
    then show ?thesis using assms(3) by (simp add: cq_create_def balanced_def)
  next
    case (Some attr)
    define blank where "blank = (case h_member attr of OpenPtr a \<Rightarrow> new_cq a | _ \<Rightarrow> new_cq new_cq_attr)"
    have fresh: "cq_blank blank" by (simp add: blank_def new_cq_def cq_blank_def split: member.splits)
    show ?thesis
      unfolding cq_destroy_def
      by (rule cq.api_create_balanced [where env = env and ctx = ctx,
            OF assms(1,2) fresh assms(3) [unfolded cq_create_def Some option.case]])
        (auto simp: blank_def split: net_dev.splits member.splits)
  qed
next
  consider "e' \<noteq> DOCA_SUCCESS" "srq = None" "h2 = h" | a where "sa = Some a" "ctx \<noteq> null" ptr_ok
    using assms(4) by (auto simp: srq_create_def split: if_splits option.splits)
  then show "case srq of
       None \<Rightarrow> e' \<noteq> DOCA_SUCCESS \<and> live h2 = live h
     | Some q \<Rightarrow> e' = DOCA_SUCCESS \<and> live h2 = live h \<union> srq_owned q \<and> live h \<inter> srq_owned q = {} \<and>
         (\<exists>h3. srq_destroy H srq h2 = (DOCA_SUCCESS, None, h3) \<and> live h3 = live h)"
  proof cases
    case (2 a)
    obtain m h3 where c: "construct (srq_open_create env ctx H) (srq_open_destroy H) (new_srq a) h = (m, h3)"
      by fastforce
    have "srq_blank (new_srq a)" by (simp add: new_srq_def srq_blank_def)
    note t = srq.construct_tidy [OF assms(1,2) this c]
    show ?thesis
    proof (cases m)
      case (Made q)
      then have q: "e' = DOCA_SUCCESS" "srq = Some q" "h2 = h3"
        using assms(4) 2 c by (simp_all add: srq_create_def)
      have t: "tidy live uses (live h) (srq_owned q) h3" using t Made by simp
      obtain st q' h4 where d: "srq_open_destroy H q h3 = (st, q', h4)" by (metis prod_cases3)
      show ?thesis
        using q t srq.destroy_gives_back [OF assms(1) t d] d by (simp add: srq_destroy_def tidy_def)
    next
      case (Threw e)
      then have "srq = None" "e' = e" "h2 = h3" using assms(4) 2 c by (simp_all add: srq_create_def)
      moreover have "e \<noteq> DOCA_SUCCESS"
        using c Threw by (auto simp: construct_def dest: srq_create_throws split: prod.splits made.splits)
      ultimately show ?thesis using t Threw by (simp add: tidy_def)
    next
      case Crashed
      then show ?thesis using assms(4) 2 c by (simp add: srq_create_def)
    qed
  qed simp
qed


section \<open>Instances\<close>

text \<open>A completion queue of 128 entries and a linked list of ten receive entries, on the host of \<open>QpDemo\<close>.\<close>

definition demo_cq_checked :: cq_open where
  "demo_cq_checked = (new_cq (new_cq_attr\<lparr>ca_cq_size := 128\<rparr>))
     \<lparr>cq_device_attr := Some demo_device, cq_num_cqes := 128\<rparr>"

definition demo_cq_placed :: cq_open where
  "demo_cq_placed = demo_cq_checked\<lparr>cq_umem_buf := 1, cq_umem_obj := 2, cq_buf := 1, cq_db_buffer := 8193\<rparr>"

definition demo_cq_made :: cq_open where
  "demo_cq_made = demo_cq_placed\<lparr>cq_ci_dbr := 8193, cq_arm_dbr := 8197, cq_uar_obj := 3,
     cq_uar_db_reg := 196608, cq_obj := 4, cq_cqn := 77\<rparr>"

definition demo_cq_host :: ref_state where
  "demo_cq_host = [(RObj 4, [RUar 3, RUmem 2, RBuf 1]), (RUar 3, []), (RUmem 2, [RBuf 1]), (RBuf 1, [])]"

lemma demo_queue_arith:
  "is_power_of_two 128" "log2_u32 128 = 7" "align_up_uint32 8192 64 = 8192" "align_up_uint32 8256 4096 = 12288"
  "next_power_of_two_u32 64 = 64" "next_power_of_two_u32 640 = 1024" "log2_u32 64 = 6" "log2_u32 16 = 4"
  "align_up_uint32 1024 64 = 1024" "align_up_uint32 1088 4096 = 4096"
  by code_simp+

lemma demo_cq_checks:
  "cq_checks ref_host 1 (new_cq (new_cq_attr\<lparr>ca_cq_size := 128\<rparr>)) h = (Made 7, demo_cq_checked)"
  by (simp add: cq_checks_def verbs_query_device_def demo_query demo_cq_checked_def new_cq_def
      new_cq_attr_def demo_queue_arith demo_device_def verbs_caps_def ref_device_def Let_def)

lemma demo_cq_umem: "cq_umem_part ref_host ref_env demo_cq_checked [] =
    (Made 2, demo_cq_placed, [(RUmem 2, [RBuf 1]), (RBuf 1, [])])"
  by (simp add: cq_umem_part_def demo_cq_placed_def demo_cq_checked_def new_cq_def new_cq_attr_def
      ref_host_def ref_add_def fresh_ptr_def cq_place_def cq_dbr_offset_of_def cq_umem_size_of_def
      demo_queue_arith Let_def)

lemma demo_cq_uar: "cq_uar_part ref_host ref_env (cq_doorbells demo_cq_placed) [(RUmem 2, [RBuf 1]), (RBuf 1, [])] =
    (Made 3, demo_cq_placed\<lparr>cq_ci_dbr := 8193, cq_arm_dbr := 8197, cq_uar_obj := 3, cq_uar_db_reg := 196608\<rparr>,
     tl demo_cq_host)"
  by (simp add: cq_uar_part_def cq_doorbells_def demo_cq_placed_def demo_cq_checked_def new_cq_def
      new_cq_attr_def ref_host_def ref_add_def fresh_ptr_def demo_cq_host_def Let_def)

lemma demo_cq_obj: "create_cq_obj ref_host 3 7 8192 2 2 False 0 (demo_cq_placed\<lparr>cq_ci_dbr := 8193,
      cq_arm_dbr := 8197, cq_uar_obj := 3, cq_uar_db_reg := 196608\<rparr>) (tl demo_cq_host) =
    (DOCA_SUCCESS, demo_cq_made, demo_cq_host)"
  by (simp add: create_cq_obj_def demo_cq_made_def ref_host_def fresh_ptr_def is_obj_def demo_cq_host_def
      create_cq_cqn_def create_fields)

lemma demo_cq_created:
  "cq_create ref_host ref_env 1 True (OpenDev 3) (Some (open_handle (new_cq_attr\<lparr>ca_cq_size := 128\<rparr>)))
      (DOCA_SDK_WRAPPER_NOT_FOUND, None :: unit option) [] =
    Ret (DOCA_SUCCESS, Some (open_handle demo_cq_made), demo_cq_host)"
proof -
  have off: "cq_dbr_offset_of (demo_cq_placed\<lparr>cq_ci_dbr := 8193, cq_arm_dbr := 8197, cq_uar_obj := 3,
      cq_uar_db_reg := 196608\<rparr>) = 8192"
    by (simp add: cq_dbr_offset_of_def demo_cq_placed_def demo_cq_checked_def demo_queue_arith)
  have attr: "ca_cq_overrun (cq_attr demo_cq_placed) = 0" "ca_cq_collapsed (cq_attr demo_cq_placed) = 0"
    by (simp_all add: demo_cq_placed_def demo_cq_checked_def new_cq_def new_cq_attr_def)
  have "cq_open_create ref_env 1 ref_host (new_cq (new_cq_attr\<lparr>ca_cq_size := 128\<rparr>)) [] =
      (Made (), demo_cq_made, demo_cq_host)"
    using demo_cq_obj
    by (simp add: cq_open_create_def with_host_def demo_cq_checks demo_cq_umem demo_cq_uar off attr
        del: One_nat_def)
  then show ?thesis
    by (simp add: cq_create_def api_create_h_def construct_def open_handle_def Let_def)
qed

theorem completion_queue_lies_in_its_region_witness:
  "cq_num_cqes demo_cq_placed = 128 \<and> (\<exists>k. (128 :: u32) = 2 ^ k \<and> 7 = (of_nat k :: u32) \<and>
     (1 :: nat) + 64 * 2 ^ k \<le> 8193)"
  using completion_queue_lies_in_its_region [OF demo_cq_checks demo_cq_umem]
  by (auto simp: new_cq_def new_cq_attr_def demo_cq_placed_def demo_cq_checked_def)

definition demo_srq_attr :: srq_init_attr where
  "demo_srq_attr = new_srq_init_attr\<lparr>sa_pd := 3, sa_srq_wr := 10, sa_receive_max_sges := 3\<rparr>"

definition demo_srq_checked :: srq_open where
  "demo_srq_checked = (new_srq demo_srq_attr)\<lparr>sr_pd := 3, sr_device_attr := Some demo_device\<rparr>"

definition demo_srq_sized :: srq_open where
  "demo_srq_sized = demo_srq_checked\<lparr>sr_rcv_wqe_size := 64, sr_rcv_max_sges := 3,
     sr_log_rcv_wqe_size := 6, sr_size := 16\<rparr>"

definition demo_srq_made :: srq_open where
  "demo_srq_made = demo_srq_sized\<lparr>sr_umem_buf := 1, sr_umem_obj := 2, sr_buf := 1, sr_db_buffer := 1025,
     sr_obj := 3, sr_num := 77\<rparr>"

definition demo_srq_host :: ref_state where
  "demo_srq_host = [(RObj 3, [RUmem 2, RBuf 1]), (RUmem 2, [RBuf 1]), (RBuf 1, [])]"

lemma demo_srq_checks: "srq_checks ref_host 1 (new_srq demo_srq_attr) h = (Made (), demo_srq_checked)"
  by (simp add: srq_checks_def verbs_query_device_def demo_query demo_srq_checked_def new_srq_def
      demo_srq_attr_def new_srq_init_attr_def demo_device_def verbs_caps_def ref_device_def Let_def)

lemma demo_srq_size: "size_srq demo_srq_checked = (Made 4, demo_srq_sized)"
  by (simp add: size_srq_def demo_srq_sized_def demo_srq_checked_def new_srq_def demo_srq_attr_def
      new_srq_init_attr_def srq_wqe_size_of_def srq_sges_of_def demo_queue_arith max_def Let_def)

lemma demo_srq_umem: "srq_umem_part ref_host ref_env demo_srq_sized [] =
    (Made (2, 0, 1024), demo_srq_sized\<lparr>sr_umem_buf := 1, sr_umem_obj := 2, sr_buf := 1\<rparr>, tl demo_srq_host)"
  by (simp add: srq_umem_part_def demo_srq_sized_def demo_srq_checked_def new_srq_def demo_srq_attr_def
      new_srq_init_attr_def ref_host_def ref_add_def fresh_ptr_def srq_dbr_offset_of_def srq_umem_size_of_def
      demo_srq_host_def demo_queue_arith Let_def)

lemma demo_srq_obj: "create_srq_obj ref_host 4 6 1024 2 0 2 (demo_srq_sized\<lparr>sr_umem_buf := 1, sr_umem_obj := 2,
      sr_buf := 1, sr_db_buffer := 1025\<rparr>) (tl demo_srq_host) = (DOCA_SUCCESS, demo_srq_made, demo_srq_host)"
  by (simp add: create_srq_obj_def demo_srq_made_def demo_srq_sized_def demo_srq_checked_def new_srq_def
      demo_srq_attr_def new_srq_init_attr_def ref_host_def fresh_ptr_def is_obj_def demo_srq_host_def
      create_rmp_rmpn_def create_fields Let_def)

lemma demo_srq_created:
  "srq_create ref_host ref_env 1 True (Some demo_srq_attr) [] =
    Ret (DOCA_SUCCESS, Some demo_srq_made, demo_srq_host)"
proof -
  have off: "srq_dbr_offset_of (demo_srq_sized\<lparr>sr_umem_buf := 1, sr_umem_obj := 2, sr_buf := 1\<rparr>) = 1024"
    by (simp add: srq_dbr_offset_of_def demo_srq_sized_def demo_srq_checked_def demo_queue_arith)
  have lg: "sr_log_rcv_wqe_size demo_srq_sized = 6" by (simp add: demo_srq_sized_def)
  have "srq_open_create ref_env 1 ref_host (new_srq demo_srq_attr) [] = (Made (), demo_srq_made, demo_srq_host)"
    using demo_srq_obj
    by (simp add: srq_open_create_def with_host_def demo_srq_checks demo_srq_size demo_srq_umem off lg
        del: One_nat_def)
  then show ?thesis by (simp add: srq_create_def construct_def)
qed

theorem shared_receive_queue_holds_what_was_asked_witness:
  "\<exists>j k. sr_rcv_wqe_size demo_srq_sized = 2 ^ j \<and> sr_size demo_srq_sized = 2 ^ k \<and> (10 :: nat) \<le> 2 ^ k \<and>
    16 + 16 * unat (sr_rcv_max_sges demo_srq_sized) = 2 ^ j"
  using shared_receive_queue_holds_what_was_asked [OF demo_srq_size]
  by (auto simp: demo_srq_checked_def new_srq_def demo_srq_attr_def new_srq_init_attr_def demo_srq_sized_def
      srq_header_def)

theorem queue_commands_describe_the_queues_witness:
  "(\<exists>cmd. devx_get cqc_log_cq_size cmd = 7 \<and> devx_get64 cqc_dbr_addr cmd = 8192) \<and>
   (\<exists>cmd. devx_get wq_log_wq_sz cmd = 4 \<and> devx_get64 wq_dbr_addr cmd = 1024)"
proof -
  have "take_bit 5 (7 :: u32) = 7" "take_bit 5 (4 :: u32) = 4" by simp_all
  then show ?thesis
    using queue_commands_describe_the_queues [OF demo_cq_obj demo_srq_obj] by metis
qed

theorem queues_create_destroy_balance_witness:
  "ref_live demo_cq_host = cq_owned demo_cq_made \<and>
   (\<exists>h. cq_destroy ref_host (\<lambda>p :: unit option. (DOCA_SDK_WRAPPER_NOT_FOUND, p))
     (Some (open_handle demo_cq_made)) demo_cq_host = Ret (DOCA_SUCCESS, h) \<and> ref_live h = {}) \<and>
   (\<exists>h. srq_destroy ref_host (Some demo_srq_made) demo_srq_host = (DOCA_SUCCESS, None, h) \<and> ref_live h = {})"
proof -
  have "closed ref_live ref_uses []" by (simp add: closed_def ref_live_def)
  from queues_create_destroy_balance [OF ref_host_lawful this demo_cq_created demo_srq_created,
      where call = "\<lambda>p :: unit option. (DOCA_SDK_WRAPPER_NOT_FOUND, p)"]
  show ?thesis by (simp add: balanced_def open_handle_def ref_live_def)
qed

end
