(* ===== verification/CudaRes.thy ===== *)
theory CudaRes
  imports VerbsTypes Handle DevQp
begin

text \<open>
  The CUDA, GDRCopy and C library calls behind the GPU side of the host library
  (\<^verbatim>\<open>src/doca_gpunetio.cpp\<close>, \<^verbatim>\<open>src/doca_gpunetio_gdrcopy.cpp\<close>): their interface, and their
  documented behaviour as an account of what is alive.
\<close>

section \<open>The device view as the host builds it\<close>

text \<open>
  \<^verbatim>\<open>struct doca_gpu_dev_verbs_qp\<close> with its four pointers as addresses: the doorbell record and register
  of the send queue, the entries and the doorbell record of its completion queue.
\<close>

record dev_view = dev_qp +
  dv_sq_dbrec :: ptr
  dv_sq_db :: ptr
  dv_cqe_daddr :: ptr
  dv_cq_dbrec :: ptr

section \<open>The interface\<close>

text \<open>
  A call takes the state of the system and gives the new one.  A query gives \<open>None\<close> when it fails.
  \<^verbatim>\<open>DOCA_VERBS_CUDA_CALL_CLEAR_ERROR\<close> passes the result of its call on.
\<close>

datatype register_result = REG_SUCCESS | REG_ALREADY_REGISTERED | REG_FAILED

record 'c cuda =
  cu_device_by_bus_id :: "string \<Rightarrow> 'c \<Rightarrow> int option"
  cu_dmabuf_supported :: "int \<Rightarrow> 'c \<Rightarrow> int option"
  cu_writes_ordering :: "int \<Rightarrow> 'c \<Rightarrow> int option"
  cu_current_device :: "'c \<Rightarrow> int option"
  cu_compute_major :: "int \<Rightarrow> 'c \<Rightarrow> int option"
  cu_malloc :: "u64 \<Rightarrow> 'c \<Rightarrow> bool \<times> ptr \<times> 'c"
  cu_free :: "ptr \<Rightarrow> 'c \<Rightarrow> 'c"
  cu_sync_memops :: "ptr \<Rightarrow> 'c \<Rightarrow> bool \<times> 'c"
  cu_host_register :: "ptr \<Rightarrow> u64 \<Rightarrow> 'c \<Rightarrow> register_result \<times> 'c"
  cu_host_unregister :: "ptr \<Rightarrow> 'c \<Rightarrow> bool \<times> 'c"
  cu_host_device_ptr :: "ptr \<Rightarrow> 'c \<Rightarrow> ptr option"
  cu_dmabuf_fd :: "ptr \<Rightarrow> u64 \<Rightarrow> 'c \<Rightarrow> int option"
  cu_copy_qps :: "ptr \<Rightarrow> dev_view list \<Rightarrow> 'c \<Rightarrow> bool \<times> 'c"
  cu_read_qp :: "ptr \<Rightarrow> 'c \<Rightarrow> dev_view option"
  cu_memset :: "ptr \<Rightarrow> u8 \<Rightarrow> u64 \<Rightarrow> 'c \<Rightarrow> bool \<times> 'c"
  cu_synchronize :: "'c \<Rightarrow> bool"
  cu_calloc :: "u64 \<Rightarrow> u64 \<Rightarrow> 'c \<Rightarrow> ptr \<times> 'c"
  cu_cfree :: "ptr \<Rightarrow> 'c \<Rightarrow> 'c"
  cu_gdr_pin :: "ptr \<Rightarrow> u64 \<Rightarrow> 'c \<Rightarrow> int \<times> nat \<times> 'c"
  cu_gdr_unpin :: "nat \<Rightarrow> 'c \<Rightarrow> 'c"
  cu_gdr_map :: "nat \<Rightarrow> u64 \<Rightarrow> 'c \<Rightarrow> int \<times> ptr \<times> 'c"
  cu_gdr_unmap :: "nat \<Rightarrow> ptr \<Rightarrow> u64 \<Rightarrow> 'c \<Rightarrow> 'c"

section \<open>What is alive\<close>

text \<open>
  A device allocation and a host allocation with their sizes, a registration of host memory with
  its size and the address the device sees it at, a pinned device buffer and a mapping of one.
\<close>

datatype gres =
    GDev ptr u64 | GHost ptr u64 | GReg ptr u64 ptr | GPin nat | GMap nat ptr

text \<open>The device addresses a resource covers.\<close>

fun device_range :: "gres \<Rightarrow> nat set" where
  "device_range (GDev p n) = {p ..< p + unat n}"
| "device_range (GReg p n d) = {d ..< d + unat n}"
| "device_range _ = {}"

type_synonym 'c gpu_live = "'c \<Rightarrow> gres set"

definition gains :: "'c gpu_live \<Rightarrow> 'c \<Rightarrow> gres \<Rightarrow> 'c \<Rightarrow> bool" where
  "gains live c r c' \<longleftrightarrow>
    r \<notin> live c \<and> live c' = insert r (live c) \<and>
    (\<forall>x \<in> live c. device_range x \<inter> device_range r = {})"

text \<open>
  The documented behaviour.  A successful allocation or registration gives something new, at device
  addresses nothing else alive has; a failure changes nothing.  Releasing takes away what is named;
  CUDA answers a release of what it does not know with an error and changes nothing, while the C
  library and GDRCopy only promise something for what is alive.
\<close>

definition cuda_lawful :: "'c cuda \<Rightarrow> 'c gpu_live \<Rightarrow> bool" where
  "cuda_lawful C live \<longleftrightarrow>
    (\<forall>n c p c'. cu_malloc C n c = (True, p, c') \<longrightarrow> n \<noteq> 0 \<longrightarrow> p \<noteq> null \<and> gains live c (GDev p n) c') \<and>
    (\<forall>n c p c'. cu_malloc C n c = (False, p, c') \<longrightarrow> live c' = live c) \<and>
    (\<forall>p c. live (cu_free C p c) = live c - {GDev p n | n. True}) \<and>
    (\<forall>p c ok c'. cu_sync_memops C p c = (ok, c') \<longrightarrow> live c' = live c) \<and>
    (\<forall>p n c c'. cu_host_register C p n c = (REG_SUCCESS, c') \<longrightarrow>
       (\<forall>m e. GReg p m e \<notin> live c) \<and> (\<exists>d. d \<noteq> null \<and> gains live c (GReg p n d) c')) \<and>
    (\<forall>p n c res c'. cu_host_register C p n c = (res, c') \<longrightarrow> res \<noteq> REG_SUCCESS \<longrightarrow> live c' = live c) \<and>
    (\<forall>p c ok c'. cu_host_unregister C p c = (ok, c') \<longrightarrow>
       live c' = live c - {GReg p n d | n d. True} \<and> (ok \<longleftrightarrow> (\<exists>n d. GReg p n d \<in> live c))) \<and>
    (\<forall>p c d n e. cu_host_device_ptr C p c = Some d \<longrightarrow> GReg p n e \<in> live c \<longrightarrow> d = e) \<and>
    (\<forall>p q c ok c'. cu_copy_qps C p q c = (ok, c') \<longrightarrow> live c' = live c) \<and>
    (\<forall>p v n c ok c'. cu_memset C p v n c = (ok, c') \<longrightarrow> live c' = live c) \<and>
    (\<forall>m n c p c'. cu_calloc C m n c = (p, c') \<longrightarrow> p \<noteq> null \<longrightarrow>
       (\<forall>k. GHost p k \<notin> live c) \<and> gains live c (GHost p (m * n)) c' \<and> unat m * unat n < 2 ^ 64) \<and>
    (\<forall>m n c c'. cu_calloc C m n c = (null, c') \<longrightarrow> live c' = live c) \<and>
    (\<forall>p n c. GHost p n \<in> live c \<longrightarrow> live (cu_cfree C p c) = live c - {GHost p k | k. True}) \<and>
    (\<forall>p n c h c'. cu_gdr_pin C p n c = (0, h, c') \<longrightarrow> gains live c (GPin h) c') \<and>
    (\<forall>p n c st h c'. cu_gdr_pin C p n c = (st, h, c') \<longrightarrow> st \<noteq> 0 \<longrightarrow> live c' = live c) \<and>
    (\<forall>h c. GPin h \<in> live c \<longrightarrow> live (cu_gdr_unpin C h c) = live c - {GPin h}) \<and>
    (\<forall>h n c a c'. cu_gdr_map C h n c = (0, a, c') \<longrightarrow> a \<noteq> null \<and> gains live c (GMap h a) c') \<and>
    (\<forall>h n c st a c'. cu_gdr_map C h n c = (st, a, c') \<longrightarrow> st \<noteq> 0 \<longrightarrow> live c' = live c) \<and>
    (\<forall>h a n c. GMap h a \<in> live c \<longrightarrow> live (cu_gdr_unmap C h a n c) = live c - {GMap h a})"

lemmas cuda_law_0 = cuda_lawful_def [THEN iffD1]
lemmas cuda_law_1 = cuda_law_0 [THEN conjunct2]
lemmas cuda_law_2 = cuda_law_1 [THEN conjunct2]
lemmas cuda_law_3 = cuda_law_2 [THEN conjunct2]
lemmas cuda_law_4 = cuda_law_3 [THEN conjunct2]
lemmas cuda_law_5 = cuda_law_4 [THEN conjunct2]
lemmas cuda_law_6 = cuda_law_5 [THEN conjunct2]
lemmas cuda_law_7 = cuda_law_6 [THEN conjunct2]
lemmas cuda_law_8 = cuda_law_7 [THEN conjunct2]
lemmas cuda_law_9 = cuda_law_8 [THEN conjunct2]
lemmas cuda_law_10 = cuda_law_9 [THEN conjunct2]
lemmas cuda_law_11 = cuda_law_10 [THEN conjunct2]
lemmas cuda_law_12 = cuda_law_11 [THEN conjunct2]
lemmas cuda_law_13 = cuda_law_12 [THEN conjunct2]
lemmas cuda_law_14 = cuda_law_13 [THEN conjunct2]
lemmas cuda_law_15 = cuda_law_14 [THEN conjunct2]
lemmas cuda_law_16 = cuda_law_15 [THEN conjunct2]
lemmas cuda_law_17 = cuda_law_16 [THEN conjunct2]
lemmas cuda_law_18 = cuda_law_17 [THEN conjunct2]

text \<open>The laws one by one, in this order.\<close>

lemmas cuda_steps =
  cuda_law_0 [THEN conjunct1, rule_format]
  cuda_law_1 [THEN conjunct1, rule_format]
  cuda_law_2 [THEN conjunct1, rule_format]
  cuda_law_3 [THEN conjunct1, rule_format]
  cuda_law_4 [THEN conjunct1, rule_format]
  cuda_law_5 [THEN conjunct1, rule_format]
  cuda_law_6 [THEN conjunct1, rule_format]
  cuda_law_7 [THEN conjunct1, rule_format]
  cuda_law_8 [THEN conjunct1, rule_format]
  cuda_law_9 [THEN conjunct1, rule_format]
  cuda_law_10 [THEN conjunct1, rule_format]
  cuda_law_11 [THEN conjunct1, rule_format]
  cuda_law_12 [THEN conjunct1, rule_format]
  cuda_law_13 [THEN conjunct1, rule_format]
  cuda_law_14 [THEN conjunct1, rule_format]
  cuda_law_15 [THEN conjunct1, rule_format]
  cuda_law_16 [THEN conjunct1, rule_format]
  cuda_law_17 [THEN conjunct1, rule_format]
  cuda_law_18 [rule_format]

end
