(* ===== verification/GdrCopy.thy ===== *)
theory GdrCopy
  imports CudaRes
begin

text \<open>
  The GDRCopy layer, \<^verbatim>\<open>src/doca_gpunetio_gdrcopy.cpp\<close>: the library is loaded once, on first use,
  and maps device memory into the address space of the CPU.
\<close>

section \<open>Loading the library\<close>

definition ENOENT :: int where "ENOENT = 2"
definition ENOMEM :: int where "ENOMEM = 12"
definition GDR_EIO :: int where "GDR_EIO = 5"

text \<open>
  What the loader finds at a call: the number \<^verbatim>\<open>atoi\<close> reads from the environment variable
  \<^verbatim>\<open>DOCA_GPUNETIO_DISABLE_GDRCOPY\<close> if it is set, whether \<^verbatim>\<open>dlopen\<close>, \<^verbatim>\<open>malloc\<close>, the lookup of a symbol
  and \<^verbatim>\<open>gdr_open\<close> succeed, and whether the small buffer of a mapping can be allocated.
\<close>

record gdr_env =
  ge_disable :: "int option"
  ge_dlopen :: bool
  ge_table_malloc :: bool
  ge_symbol :: "string \<Rightarrow> bool"
  ge_open :: bool
  ge_mh_malloc :: bool

text \<open>The static variables: whether the function table and the handle are there, and the cached answer.\<close>

record gdr_state =
  gdr_ftable :: bool
  gdr_handle :: bool
  is_tried_init :: bool
  is_supported :: bool

definition gdr_unloaded :: gdr_state where
  "gdr_unloaded = \<lparr>gdr_ftable = False, gdr_handle = False, is_tried_init = False, is_supported = False\<rparr>"

definition gdr_symbols :: "string list" where
  "gdr_symbols =
    [''gdr_open'', ''gdr_close'', ''gdr_pin_buffer'', ''gdr_unpin_buffer'', ''gdr_map'', ''gdr_unmap'',
     ''gdr_copy_from_mapping'', ''gdr_copy_to_mapping'', ''gdr_runtime_get_version'',
     ''gdr_driver_get_version'']"

definition gdrcopy_ftable_init :: "gdr_env \<Rightarrow> int" where
  "gdrcopy_ftable_init env =
    (if \<not> ge_dlopen env then ENOENT
     else if \<not> ge_table_malloc env then ENOMEM
     else if \<not> list_all (ge_symbol env) gdr_symbols then ENOENT
     else 0)"

definition init_gdrcopy :: "gdr_env \<Rightarrow> gdr_state \<Rightarrow> int \<times> gdr_state" where
  "init_gdrcopy env g =
    (if gdr_handle g then (0, g)
     else
       let status = (if gdr_ftable g then 0 else gdrcopy_ftable_init env)
       in if status \<noteq> 0 then (status, g)
          else
            let g1 = g\<lparr>gdr_ftable := True\<rparr>
            in if \<not> ge_open env then (GDR_EIO, g1) else (0, g1\<lparr>gdr_handle := True\<rparr>))"

definition enable_gdrcopy :: "gdr_env \<Rightarrow> bool" where
  "enable_gdrcopy env = (case ge_disable env of Some n \<Rightarrow> n = 0 | None \<Rightarrow> True)"

definition gdrcopy_is_supported :: "gdr_env \<Rightarrow> gdr_state \<Rightarrow> bool \<times> gdr_state" where
  "gdrcopy_is_supported env g =
    (if is_tried_init g then (is_supported g, g)
     else if \<not> enable_gdrcopy env then
       (False, g\<lparr>is_supported := False, is_tried_init := True\<rparr>)
     else case init_gdrcopy env g of (status, g1) \<Rightarrow>
       (status = 0, g1\<lparr>is_supported := (status = 0), is_tried_init := True\<rparr>))"

section \<open>Mapping device memory\<close>

text \<open>
  The handle of a pinned buffer lies in a small allocation of its own, which is not tracked.  The
  \<^verbatim>\<open>assert\<close> on the address is a step without a defined outcome when it does not hold.
\<close>

definition priv_gdrcopy_create_mapping :: "gdr_env \<Rightarrow> 'c cuda \<Rightarrow> ptr \<Rightarrow> u64 \<Rightarrow> gdr_state \<Rightarrow> 'c
    \<Rightarrow> (int \<times> (nat \<times> ptr) option \<times> gdr_state \<times> 'c) outcome" where
  "priv_gdrcopy_create_mapping env C dev_aligned_ptr sz g c =
    (case init_gdrcopy env g of (status, g1) \<Rightarrow>
      if status \<noteq> 0 then Ret (status, None, g1, c)
      else if dev_aligned_ptr mod 65536 \<noteq> 0 then Misuse
      else case cu_gdr_pin C dev_aligned_ptr sz c of (st, mh, c1) \<Rightarrow>
        if st \<noteq> 0 then Ret (st, None, g1, c1)
        else case cu_gdr_map C mh sz c1 of (st2, host_ptr, c2) \<Rightarrow>
          if st2 \<noteq> 0 then Ret (st2, None, g1, cu_gdr_unpin C mh c2)
          else Ret (0, Some (mh, host_ptr), g1, c2))"

definition gdrcopy_create_mapping :: "gdr_env \<Rightarrow> 'c cuda \<Rightarrow> ptr \<Rightarrow> u64 \<Rightarrow> gdr_state \<Rightarrow> 'c
    \<Rightarrow> (int \<times> (nat \<times> ptr) option \<times> gdr_state \<times> 'c) outcome" where
  "gdrcopy_create_mapping env C dev_aligned_ptr sz g c =
    (if \<not> ge_mh_malloc env then Ret (ENOMEM, None, g, c)
     else priv_gdrcopy_create_mapping env C dev_aligned_ptr sz g c)"

definition gdrcopy_destroy_mapping :: "'c cuda \<Rightarrow> nat option \<Rightarrow> ptr \<Rightarrow> u64 \<Rightarrow> gdr_state \<Rightarrow> 'c
    \<Rightarrow> 'c outcome" where
  "gdrcopy_destroy_mapping C mh host_ptr sz g c =
    (case mh of
       None \<Rightarrow> Ret c
     | Some h \<Rightarrow>
         if \<not> gdr_handle g then Misuse
         else Ret (cu_gdr_unpin C h (cu_gdr_unmap C h host_ptr sz c)))"

section \<open>Lemmas\<close>

text \<open>Once loaded the library stays loaded, and the cached answer says whether it is.\<close>

definition gdr_wf :: "gdr_state \<Rightarrow> bool" where
  "gdr_wf g \<longleftrightarrow> (gdr_handle g \<longrightarrow> gdr_ftable g) \<and> (is_supported g \<longrightarrow> gdr_handle g)"

lemma init_gdrcopy_props:
  assumes "init_gdrcopy env g = (st, g')" "gdr_wf g"
  shows "gdr_wf g'" "st = 0 \<longleftrightarrow> gdr_handle g'" "gdr_handle g \<Longrightarrow> st = 0 \<and> g' = g"
  using assms by (auto simp: init_gdrcopy_def gdr_wf_def Let_def GDR_EIO_def split: if_splits)

lemma gdrcopy_is_supported_props:
  assumes "gdrcopy_is_supported env g = (b, g')" "gdr_wf g"
  shows "gdr_wf g'" "b \<Longrightarrow> gdr_handle g'" "gdrcopy_is_supported env' g' = (b, g')"
proof -
  have "gdr_wf g' \<and> (b \<longrightarrow> gdr_handle g') \<and> is_tried_init g' \<and> is_supported g' = b"
    using assms by (auto simp: gdrcopy_is_supported_def init_gdrcopy_def gdr_wf_def Let_def GDR_EIO_def
        split: if_splits prod.splits)
  then show "gdr_wf g'" "b \<Longrightarrow> gdr_handle g'" "gdrcopy_is_supported env' g' = (b, g')"
    by (auto simp: gdrcopy_is_supported_def)
qed

lemma create_mapping_account:
  assumes l: "cuda_lawful C live" and m: "gdrcopy_create_mapping env C p n g c = Ret (st, res, g', c')"
  shows "(case res of
      Some (h, a) \<Rightarrow> st = 0 \<and> a \<noteq> null \<and> GPin h \<notin> live c \<and> GMap h a \<notin> live c \<and>
        live c' = insert (GMap h a) (insert (GPin h) (live c))
    | None \<Rightarrow> st \<noteq> 0 \<and> live c' = live c)"
proof -
  obtain s0 g0 where i: "init_gdrcopy env g = (s0, g0)" by fastforce
  obtain s1 h c1 where p: "cu_gdr_pin C p n c = (s1, h, c1)" by (metis prod_cases3)
  obtain s2 a c2 where q: "cu_gdr_map C h n c1 = (s2, a, c2)" by (metis prod_cases3)
  note ps = cuda_steps(14,15) [OF l] cuda_steps(17,18) [OF l]
  show ?thesis
  proof (cases "ge_mh_malloc env \<and> s0 = 0 \<and> p mod 65536 = 0 \<and> s1 = 0")
    case t: True
    have pin: "GPin h \<notin> live c" "live c1 = insert (GPin h) (live c)"
      using ps(1) p t by (auto simp: gains_def)
    show ?thesis
    proof (cases "s2 = 0")
      case True
      then have "a \<noteq> null \<and> gains live c1 (GMap h a) c2" using ps(3) q by blast
      then show ?thesis using True m t i p q pin
        by (auto simp: gdrcopy_create_mapping_def priv_gdrcopy_create_mapping_def gains_def)
    next
      case False
      then have "live c2 = live c1" using ps(4) [OF q] by blast
      then have "live (cu_gdr_unpin C h c2) = live c" using cuda_steps(16) [OF l, of h c2] pin by simp
      then show ?thesis using False m t i p q
        by (auto simp: gdrcopy_create_mapping_def priv_gdrcopy_create_mapping_def)
    qed
  next
    case False
    then show ?thesis using m i p ps(2)
      by (auto simp: gdrcopy_create_mapping_def priv_gdrcopy_create_mapping_def ENOMEM_def split: if_splits)
  qed
qed

end
