(* ===== verification/GpuMem.thy ===== *)
theory GpuMem
  imports GdrCopy "HOL-Library.AList"
begin

text \<open>
  GPU devices and their memory: \<^verbatim>\<open>doca_gpu_create\<close>, \<^verbatim>\<open>doca_gpu_destroy\<close>, \<^verbatim>\<open>doca_gpu_mem_alloc\<close>,
  \<^verbatim>\<open>doca_gpu_mem_free\<close> and \<^verbatim>\<open>doca_gpu_get_dmabuf_fd\<close> of \<^verbatim>\<open>src/doca_gpunetio.cpp\<close>.
\<close>

section \<open>Data\<close>

datatype gpu_mem_type =
    GPU_MEM_TYPE_GPU | GPU_MEM_TYPE_GPU_CPU | GPU_MEM_TYPE_CPU_GPU | GPU_MEM_TYPE_OTHER u32

text \<open>\<^verbatim>\<open>struct doca_gpu_mtable\<close>.  \<open>gdr_mh\<close> is what its pointer points to, if it is not null.\<close>

record mentry =
  base_addr :: ptr
  size_orig :: u64
  align_addr_gpu :: ptr
  align_addr_cpu :: ptr
  me_size :: u64
  me_mtype :: gpu_mem_type
  gdr_mh :: "nat option"

definition new_mentry :: "gpu_mem_type \<Rightarrow> u64 \<Rightarrow> mentry" where
  "new_mentry mtype sz =
    \<lparr>base_addr = null, size_orig = 0, align_addr_gpu = null, align_addr_cpu = null, me_size = sz,
     me_mtype = mtype, gdr_mh = None\<rparr>"

text \<open>
  \<^verbatim>\<open>struct doca_gpu_open\<close>.  The \<^verbatim>\<open>unordered_map\<close> from device addresses to entries is a list of
  pairs with distinct keys: inserting a key that is there changes nothing.
\<close>

record gpu_open =
  gp_cuda_dev :: int
  gp_mtable :: "(ptr \<times> mentry) list"
  gp_support_gdrcopy :: bool
  gp_support_dmabuf :: bool
  gp_support_wq_gpumem :: bool
  gp_support_cq_gpumem :: bool
  gp_support_uar_gpumem :: bool
  gp_support_async_store_release :: bool
  gp_support_bf_uar :: bool
  gp_need_mcst :: bool

definition table_insert :: "ptr \<Rightarrow> mentry \<Rightarrow> (ptr \<times> mentry) list \<Rightarrow> (ptr \<times> mentry) list" where
  "table_insert k e t = (if map_of t k = None then (k, e) # t else t)"

type_synonym 's gpu = "('s, gpu_open) handle"

section \<open>Creating and destroying a device\<close>

definition query_async_store_release_support :: "'c cuda \<Rightarrow> 'c \<Rightarrow> bool" where
  "query_async_store_release_support C c =
    (case cu_current_device C c of
       None \<Rightarrow> False
     | Some dev \<Rightarrow> (case cu_compute_major C dev c of None \<Rightarrow> False | Some major \<Rightarrow> major \<ge> 10))"

text \<open>
  Which allocations of a call succeed: the device handle, the open object and its table; and the
  entry of an allocation and its insertion into the table.
\<close>

record gpu_alloc_env =
  ga_handle :: bool
  ga_open :: bool
  ga_mtable :: bool
  ga_mentry :: bool
  ga_insert :: bool

text \<open>\<^verbatim>\<open>CU_FLUSH_GPU_DIRECT_RDMA_WRITES_TO_OWNER\<close> is 100.\<close>

definition gpu_open_create :: "gpu_alloc_env \<Rightarrow> gdr_env \<Rightarrow> 'c cuda \<Rightarrow> string \<Rightarrow> gdr_state \<Rightarrow> 'c
    \<Rightarrow> gpu_open option \<times> gdr_state" where
  "gpu_open_create ae env C gpu_bus_id g c =
    (if \<not> ga_open ae then (None, g)
     else case cu_device_by_bus_id C gpu_bus_id c of
       None \<Rightarrow> (None, g)
     | Some dev \<Rightarrow>
       (case cu_dmabuf_supported C dev c of
          None \<Rightarrow> (None, g)
        | Some dmabuf_supported \<Rightarrow>
          (case cu_writes_ordering C dev c of
             None \<Rightarrow> (None, g)
           | Some order \<Rightarrow>
             (case gdrcopy_is_supported env g of (gdr, g') \<Rightarrow>
               let ob = \<lparr>gp_cuda_dev = dev, gp_mtable = [], gp_support_gdrcopy = gdr,
                    gp_support_dmabuf = (dmabuf_supported = 1), gp_support_wq_gpumem = True,
                    gp_support_cq_gpumem = True, gp_support_uar_gpumem = True,
                    gp_support_async_store_release = query_async_store_release_support C c,
                    gp_support_bf_uar = True, gp_need_mcst = \<not> order \<ge> 100\<rparr>
               in if ga_mtable ae then (Some ob, g') else (None, g')))))"

text \<open>
  \<open>out_ok\<close>: the result pointer is not null.  The SDK is asked before the arguments are checked, and
  its success is stored through that pointer; its failure with a pointer left in the union frees it
  as an open object.
\<close>

definition gpu_create :: "gpu_alloc_env \<Rightarrow> gdr_env \<Rightarrow> 'c cuda \<Rightarrow> doca_sdk_wrapper_error \<times> 's option
    \<Rightarrow> string option \<Rightarrow> bool \<Rightarrow> gdr_state \<Rightarrow> 'c
    \<Rightarrow> (doca_error \<times> 's gpu option \<times> gdr_state) outcome" where
  "gpu_create ae env C sdk gpu_bus_id out_ok g c =
    (if \<not> ga_handle ae then Ret (DOCA_ERROR_NO_MEMORY, None, g)
     else case sdk of (err, p) \<Rightarrow>
       (case err of
          DOCA_SDK_WRAPPER_SUCCESS \<Rightarrow>
            if out_ok then Ret (DOCA_SUCCESS, Some \<lparr>h_type = LIB_TYPE_SDK, h_member = sdk_ptr p\<rparr>, g)
            else Misuse
        | DOCA_SDK_WRAPPER_API_ERROR \<Rightarrow>
            if p = None then Ret (DOCA_ERROR_INITIALIZATION, None, g) else Misuse
        | _ \<Rightarrow>
            (case gpu_bus_id of
               None \<Rightarrow> if p = None then Ret (DOCA_ERROR_INITIALIZATION, None, g) else Misuse
             | Some bus_id \<Rightarrow>
               if \<not> out_ok then (if p = None then Ret (DOCA_ERROR_INITIALIZATION, None, g) else Misuse)
               else case gpu_open_create ae env C bus_id g c of
                 (None, g') \<Rightarrow> Ret (DOCA_ERROR_INITIALIZATION, None, g')
               | (Some ob, g') \<Rightarrow> Ret (DOCA_SUCCESS, Some (open_handle ob), g'))))"

text \<open>
  The handle is freed on every path.  The result also says whether the table object was left
  behind, which happens when it is not empty.
\<close>

definition gpu_destroy_open :: "('s, gpu_open) member \<Rightarrow> (doca_error \<times> bool) outcome" where
  "gpu_destroy_open m =
    (case m of
       Null \<Rightarrow> Ret (DOCA_ERROR_INVALID_VALUE, False)
     | SdkPtr s \<Rightarrow> Misuse
     | OpenPtr ob \<Rightarrow>
         if gp_mtable ob \<noteq> [] then Ret (DOCA_ERROR_INVALID_VALUE, True) else Ret (DOCA_SUCCESS, False))"

definition gpu_destroy :: "'s sdk_call \<Rightarrow> 's gpu option \<Rightarrow> (doca_error \<times> bool) outcome" where
  "gpu_destroy call gpu_dev =
    (case gpu_dev of
       None \<Rightarrow> Ret (DOCA_ERROR_INVALID_VALUE, False)
     | Some h \<Rightarrow>
         if h_type h = LIB_TYPE_SDK then
           case sdk_obj (h_member h) of
             Misuse \<Rightarrow> Misuse
           | Ret p \<Rightarrow>
               (case call p of (err, p') \<Rightarrow>
                 (case err of
                    DOCA_SDK_WRAPPER_SUCCESS \<Rightarrow> Ret (DOCA_SUCCESS, False)
                  | DOCA_SDK_WRAPPER_API_ERROR \<Rightarrow>
                      if p' = None then Ret (DOCA_ERROR_UNEXPECTED, False) else Misuse
                  | _ \<Rightarrow> gpu_destroy_open (sdk_ptr p' :: ('s, gpu_open) member)))
         else gpu_destroy_open (h_member h))"

section \<open>Allocating\<close>

definition align_address :: "u64 \<Rightarrow> ptr \<Rightarrow> ptr" where
  "align_address alignment p =
    (if alignment \<noteq> 0 \<and> p mod unat alignment \<noteq> 0 then p + (unat alignment - p mod unat alignment) else p)"

definition GPU_PAGE_SIZE :: u64 where
  "GPU_PAGE_SIZE = push_bit 16 1"

text \<open>
  The three branches: the entry filled in, or \<open>None\<close>, which is \<^verbatim>\<open>DOCA_ERROR_DRIVER\<close>.  Device memory,
  with \<^verbatim>\<open>size_orig\<close> in 64 bits:
\<close>

definition alloc_gpu :: "'c cuda \<Rightarrow> u64 \<Rightarrow> mentry \<Rightarrow> 'c \<Rightarrow> mentry option \<times> 'c" where
  "alloc_gpu C alignment me c =
    (let me = me\<lparr>size_orig := me_size me + alignment\<rparr>
     in case cu_malloc C (size_orig me) c of (ok, orig, c1) \<Rightarrow>
       if \<not> ok then (None, c1)
       else
         let memptr_gpu = align_address alignment orig
         in case cu_sync_memops C memptr_gpu c1 of (ok2, c2) \<Rightarrow>
           if \<not> ok2 then (None, cu_free C orig c2)
           else (Some (me\<lparr>base_addr := orig, align_addr_gpu := memptr_gpu, align_addr_cpu := null\<rparr>), c2))"

text \<open>Device memory mapped for the CPU with GDRCopy, and what stands in for it without GDRCopy.\<close>

definition alloc_gpu_cpu :: "gdr_env \<Rightarrow> 'c cuda \<Rightarrow> u64 \<Rightarrow> mentry \<Rightarrow> gdr_state \<Rightarrow> 'c
    \<Rightarrow> (mentry option \<times> gdr_state \<times> 'c) outcome" where
  "alloc_gpu_cpu env C alignment me g c =
    (case alloc_gpu C alignment me c of
       (None, c1) \<Rightarrow> Ret (None, g, c1)
     | (Some me1, c1) \<Rightarrow>
         (case gdrcopy_create_mapping env C (align_addr_gpu me1) (me_size me1) g c1 of
            Misuse \<Rightarrow> Misuse
          | Ret (st, res, g', c2) \<Rightarrow>
              (case res of
                 None \<Rightarrow> Ret (None, g', c2)
               | Some (mh, host_ptr) \<Rightarrow>
                   Ret (Some (me1\<lparr>gdr_mh := Some mh, align_addr_cpu := host_ptr\<rparr>), g', c2))))"

definition alloc_fallback :: "'c cuda \<Rightarrow> u64 \<Rightarrow> mentry \<Rightarrow> 'c \<Rightarrow> mentry option \<times> 'c" where
  "alloc_fallback C alignment me c =
    (let me = me\<lparr>size_orig := me_size me\<rparr>
     in case cu_calloc C alignment (size_orig me) c of (memptr_cpu, c1) \<Rightarrow>
       if memptr_cpu = null then (None, c1)
       else case cu_host_register C memptr_cpu (size_orig me) c1 of (res, c2) \<Rightarrow>
         if res \<noteq> REG_SUCCESS then (None, cu_cfree C memptr_cpu c2)
         else case cu_host_device_ptr C memptr_cpu c2 of
           None \<Rightarrow> (None, cu_cfree C memptr_cpu c2)
         | Some memptr_gpu \<Rightarrow>
             (Some (me\<lparr>base_addr := memptr_cpu, align_addr_gpu := memptr_gpu,
                align_addr_cpu := memptr_cpu\<rparr>), c2))"

text \<open>Host memory registered with CUDA.\<close>

definition alloc_cpu_gpu :: "'c cuda \<Rightarrow> u64 \<Rightarrow> mentry \<Rightarrow> 'c \<Rightarrow> mentry option \<times> 'c" where
  "alloc_cpu_gpu C alignment me c =
    (let me = me\<lparr>size_orig := me_size me + alignment\<rparr>
     in case cu_calloc C (size_orig me) 1 c of (orig, c1) \<Rightarrow>
       if orig = null then (None, c1)
       else
         let memptr_cpu = align_address alignment orig
         in case cu_host_register C memptr_cpu (me_size me) c1 of (res, c2) \<Rightarrow>
           if res \<noteq> REG_SUCCESS then (None, cu_cfree C orig c2)
           else case cu_host_device_ptr C memptr_cpu c2 of
             None \<Rightarrow> (None, cu_cfree C orig (snd (cu_host_unregister C memptr_cpu c2)))
           | Some memptr_gpu \<Rightarrow>
               (Some (me\<lparr>base_addr := orig, align_addr_gpu := memptr_gpu,
                  align_addr_cpu := memptr_cpu\<rparr>), c2))"

definition alloc_kind :: "gdr_env \<Rightarrow> 'c cuda \<Rightarrow> bool \<Rightarrow> u64 \<Rightarrow> mentry \<Rightarrow> gdr_state \<Rightarrow> 'c
    \<Rightarrow> (mentry option \<times> gdr_state \<times> 'c) outcome" where
  "alloc_kind env C support_gdrcopy alignment me g c =
    (case me_mtype me of
       GPU_MEM_TYPE_GPU \<Rightarrow> (case alloc_gpu C alignment me c of (r, c') \<Rightarrow> Ret (r, g, c'))
     | GPU_MEM_TYPE_GPU_CPU \<Rightarrow>
         if support_gdrcopy then alloc_gpu_cpu env C alignment me g c
         else (case alloc_fallback C alignment me c of (r, c') \<Rightarrow> Ret (r, g, c'))
     | GPU_MEM_TYPE_CPU_GPU \<Rightarrow> (case alloc_cpu_gpu C alignment me c of (r, c') \<Rightarrow> Ret (r, g, c'))
     | GPU_MEM_TYPE_OTHER n \<Rightarrow> Ret (Some me, g, c))"

text \<open>
  The alignment that is used, or \<open>None\<close> when the request has one that is not a power of two.
  \<open>page_size\<close> is what \<^verbatim>\<open>priv_get_page_size\<close> gives: what \<^verbatim>\<open>sysconf\<close> says, or 4096.
\<close>

definition get_page_size :: "int \<Rightarrow> u64" where
  "get_page_size sysconf_ret = (if sysconf_ret = -1 then 4096 else word_of_int sysconf_ret)"

definition alloc_alignment :: "u64 \<Rightarrow> u64 \<Rightarrow> gpu_mem_type \<Rightarrow> u64 option" where
  "alloc_alignment page_size alignment mtype =
    (let alignment = (if alignment = 0 then page_size else alignment)
     in if \<not> is_power_of_two alignment then None
        else if mtype = GPU_MEM_TYPE_GPU_CPU \<and> alignment \<noteq> GPU_PAGE_SIZE then Some GPU_PAGE_SIZE
        else Some alignment)"

text \<open>
  The open implementation.  \<open>outs\<close> says which of the two result pointers are not null; the result
  says what was stored through them.  \<open>None\<close> for the entry means that its allocation failed: the
  code writes through the null pointer.
\<close>

record alloc_result =
  ar_gpu :: "ptr option"
  ar_cpu :: "ptr option"

definition nothing_stored :: alloc_result where
  "nothing_stored = \<lparr>ar_gpu = None, ar_cpu = None\<rparr>"

definition mem_alloc_open :: "gpu_alloc_env \<Rightarrow> gdr_env \<Rightarrow> 'c cuda \<Rightarrow> u64 \<Rightarrow> u64 \<Rightarrow> u64 \<Rightarrow> gpu_mem_type
    \<Rightarrow> bool \<Rightarrow> bool \<Rightarrow> gpu_open \<Rightarrow> gdr_state \<Rightarrow> 'c
    \<Rightarrow> (doca_error \<times> alloc_result \<times> gpu_open \<times> gdr_state \<times> 'c) outcome" where
  "mem_alloc_open ae env C page_size sz alignment mtype gpu_out cpu_out ob g c =
    (let invalid = Ret (DOCA_ERROR_INVALID_VALUE, nothing_stored, ob, g, c)
     in if \<not> gpu_out then invalid
     else if mtype \<noteq> GPU_MEM_TYPE_GPU \<and> \<not> cpu_out then invalid
     else if sz = 0 then invalid
     else case alloc_alignment page_size alignment mtype of
       None \<Rightarrow> invalid
     | Some al \<Rightarrow>
       if \<not> ga_mentry ae then Misuse
       else case alloc_kind env C (gp_support_gdrcopy ob) al (new_mentry mtype sz) g c of
         Misuse \<Rightarrow> Misuse
       | Ret (None, g', c') \<Rightarrow> Ret (DOCA_ERROR_DRIVER, nothing_stored, ob, g', c')
       | Ret (Some me, g', c') \<Rightarrow>
           let res = \<lparr>ar_gpu = Some (align_addr_gpu me),
                      ar_cpu = (if cpu_out then Some (align_addr_cpu me) else None)\<rparr>
           in if \<not> ga_insert ae then Ret (DOCA_ERROR_DRIVER, res, ob, g', c')
              else Ret (DOCA_SUCCESS, res,
                ob\<lparr>gp_mtable := table_insert (align_addr_gpu me) me (gp_mtable ob)\<rparr>, g', c'))"

section \<open>Freeing\<close>

definition release_kind :: "'c cuda \<Rightarrow> bool \<Rightarrow> mentry \<Rightarrow> gdr_state \<Rightarrow> 'c \<Rightarrow> 'c outcome" where
  "release_kind C support_gdrcopy me g c =
    (case me_mtype me of
       GPU_MEM_TYPE_GPU \<Rightarrow> Ret (cu_free C (base_addr me) c)
     | GPU_MEM_TYPE_GPU_CPU \<Rightarrow>
         (case (if support_gdrcopy
                then gdrcopy_destroy_mapping C (gdr_mh me) (align_addr_cpu me) (me_size me) g c
                else Ret c) of
            Misuse \<Rightarrow> Misuse
          | Ret c1 \<Rightarrow> Ret (cu_free C (base_addr me) c1))
     | _ \<Rightarrow> Ret (cu_cfree C (base_addr me) (snd (cu_host_unregister C (align_addr_cpu me) c))))"

definition mem_free_open :: "'c cuda \<Rightarrow> ptr \<Rightarrow> gpu_open \<Rightarrow> gdr_state \<Rightarrow> 'c
    \<Rightarrow> (doca_error \<times> gpu_open \<times> 'c) outcome" where
  "mem_free_open C memptr_gpu ob g c =
    (if memptr_gpu = null then Ret (DOCA_ERROR_INVALID_VALUE, ob, c)
     else case map_of (gp_mtable ob) memptr_gpu of
       None \<Rightarrow> Ret (DOCA_ERROR_INVALID_VALUE, ob, c)
     | Some me \<Rightarrow>
       (case release_kind C (gp_support_gdrcopy ob) me g c of
          Misuse \<Rightarrow> Misuse
        | Ret c' \<Rightarrow> Ret (DOCA_SUCCESS, ob\<lparr>gp_mtable := AList.delete memptr_gpu (gp_mtable ob)\<rparr>, c')))"

section \<open>The API functions\<close>

text \<open>
  An API function that works on the memory of a device: an SDK device is offered the call first.
  \<open>open_op\<close> is the open implementation, with the result and the states it changes.
\<close>

definition on_gpu :: "('s option \<Rightarrow> doca_sdk_wrapper_error \<times> 'r \<times> 'c) \<Rightarrow> 'r
    \<Rightarrow> (gpu_open \<Rightarrow> (doca_error \<times> 'r \<times> gpu_open \<times> gdr_state \<times> 'c) outcome)
    \<Rightarrow> 's gpu option \<Rightarrow> gdr_state \<Rightarrow> 'c
    \<Rightarrow> (doca_error \<times> 'r \<times> 's gpu option \<times> gdr_state \<times> 'c) outcome" where
  "on_gpu call nothing open_op gpu_dev g c =
    (case gpu_dev of
       None \<Rightarrow> Ret (DOCA_ERROR_INVALID_VALUE, nothing, gpu_dev, g, c)
     | Some h \<Rightarrow>
       (let fall = (case h_member h of
              Null \<Rightarrow> Ret (DOCA_ERROR_INVALID_VALUE, nothing, gpu_dev, g, c)
            | SdkPtr s \<Rightarrow> Misuse
            | OpenPtr ob \<Rightarrow>
                (case open_op ob of
                   Misuse \<Rightarrow> Misuse
                 | Ret (e, r, ob', g', c') \<Rightarrow> Ret (e, r, Some (h\<lparr>h_member := OpenPtr ob'\<rparr>), g', c')))
        in if h_type h = LIB_TYPE_SDK then
             case sdk_obj (h_member h) of
               Misuse \<Rightarrow> Misuse
             | Ret p \<Rightarrow>
                 (case call p of
                    (DOCA_SDK_WRAPPER_SUCCESS, r, c') \<Rightarrow> Ret (DOCA_SUCCESS, r, gpu_dev, g, c')
                  | (DOCA_SDK_WRAPPER_API_ERROR, r, c') \<Rightarrow> Ret (DOCA_ERROR_UNEXPECTED, r, gpu_dev, g, c')
                  | _ \<Rightarrow> fall)
           else fall))"

definition gpu_mem_alloc :: "gpu_alloc_env \<Rightarrow> gdr_env \<Rightarrow> 'c cuda
    \<Rightarrow> ('s option \<Rightarrow> doca_sdk_wrapper_error \<times> alloc_result \<times> 'c)
    \<Rightarrow> u64 \<Rightarrow> u64 \<Rightarrow> u64 \<Rightarrow> gpu_mem_type \<Rightarrow> bool \<Rightarrow> bool \<Rightarrow> 's gpu option \<Rightarrow> gdr_state \<Rightarrow> 'c
    \<Rightarrow> (doca_error \<times> alloc_result \<times> 's gpu option \<times> gdr_state \<times> 'c) outcome" where
  "gpu_mem_alloc ae env C call page_size sz alignment mtype gpu_out cpu_out gpu_dev g c =
    on_gpu call nothing_stored
      (\<lambda>ob. mem_alloc_open ae env C page_size sz alignment mtype gpu_out cpu_out ob g c) gpu_dev g c"

definition gpu_mem_free :: "'c cuda \<Rightarrow> ('s option \<Rightarrow> doca_sdk_wrapper_error \<times> unit \<times> 'c) \<Rightarrow> ptr
    \<Rightarrow> 's gpu option \<Rightarrow> gdr_state \<Rightarrow> 'c
    \<Rightarrow> (doca_error \<times> unit \<times> 's gpu option \<times> gdr_state \<times> 'c) outcome" where
  "gpu_mem_free C call memptr_gpu gpu_dev g c =
    on_gpu call ()
      (\<lambda>ob. case mem_free_open C memptr_gpu ob g c of
         Misuse \<Rightarrow> Misuse | Ret (e, ob', c') \<Rightarrow> Ret (e, (), ob', g, c')) gpu_dev g c"

definition dmabuf_fd_open :: "'c cuda \<Rightarrow> ptr \<Rightarrow> u64 \<Rightarrow> bool \<Rightarrow> gpu_open \<Rightarrow> 'c \<Rightarrow> doca_error \<times> int option" where
  "dmabuf_fd_open C memptr_gpu sz fd_out ob c =
    (if \<not> gp_support_dmabuf ob then (DOCA_ERROR_NOT_SUPPORTED, None)
     else if \<not> fd_out then (DOCA_ERROR_INVALID_VALUE, None)
     else case cu_dmabuf_fd C memptr_gpu sz c of
       None \<Rightarrow> (DOCA_ERROR_NOT_SUPPORTED, None)
     | Some fd \<Rightarrow> (DOCA_SUCCESS, Some fd))"

text \<open>Without DMA-BUF in the CUDA headers the function is compiled to a constant.\<close>

definition gpu_get_dmabuf_fd :: "bool \<Rightarrow> 'c cuda
    \<Rightarrow> ('s option \<Rightarrow> doca_sdk_wrapper_error \<times> int option \<times> 'c) \<Rightarrow> ptr \<Rightarrow> u64 \<Rightarrow> bool
    \<Rightarrow> 's gpu option \<Rightarrow> gdr_state \<Rightarrow> 'c
    \<Rightarrow> (doca_error \<times> int option \<times> 's gpu option \<times> gdr_state \<times> 'c) outcome" where
  "gpu_get_dmabuf_fd have_dmabuf C call memptr_gpu sz fd_out gpu_dev g c =
    (if \<not> have_dmabuf then Ret (DOCA_ERROR_NOT_SUPPORTED, None, gpu_dev, g, c)
     else on_gpu call None
       (\<lambda>ob. case dmabuf_fd_open C memptr_gpu sz fd_out ob c of (e, r) \<Rightarrow> Ret (e, r, ob, g, c))
       gpu_dev g c)"

end
