(* ===== verification/GpuMemProofs.thy ===== *)
theory GpuMemProofs
  imports GpuMem
begin

text \<open>
  What the memory of a device owns, and the account that allocation and release keep: the contract
  of a kind of memory, its instances for the three kinds, and the table over them.
\<close>

section \<open>Account\<close>

text \<open>What an entry of the table stands for.\<close>

definition entry_owns :: "mentry \<Rightarrow> gres set" where
  "entry_owns me =
    (case me_mtype me of
       GPU_MEM_TYPE_GPU \<Rightarrow> {GDev (base_addr me) (size_orig me)}
     | GPU_MEM_TYPE_GPU_CPU \<Rightarrow>
         insert (GDev (base_addr me) (size_orig me))
           (case gdr_mh me of None \<Rightarrow> {} | Some h \<Rightarrow> {GPin h, GMap h (align_addr_cpu me)})
     | GPU_MEM_TYPE_CPU_GPU \<Rightarrow>
         {GHost (base_addr me) (size_orig me), GReg (align_addr_cpu me) (me_size me) (align_addr_gpu me)}
     | GPU_MEM_TYPE_OTHER n \<Rightarrow> {})"

text \<open>Its device address is in the memory it stands for.\<close>

definition entry_ok :: "mentry \<Rightarrow> bool" where
  "entry_ok me \<longleftrightarrow> align_addr_gpu me \<noteq> null \<and>
    (\<exists>r \<in> entry_owns me. align_addr_gpu me \<in> device_range r) \<and>
    (me_mtype me = GPU_MEM_TYPE_GPU_CPU \<longrightarrow> gdr_mh me \<noteq> None)"

text \<open>A state of the system in which device addresses and registrations are unambiguous.\<close>

definition sound :: "gres set \<Rightarrow> bool" where
  "sound S \<longleftrightarrow>
    (\<forall>x \<in> S. \<forall>y \<in> S. x \<noteq> y \<longrightarrow> device_range x \<inter> device_range y = {}) \<and>
    (\<forall>p n d m e. GReg p n d \<in> S \<longrightarrow> GReg p m e \<in> S \<longrightarrow> n = m \<and> d = e) \<and>
    (\<forall>p n m. GHost p n \<in> S \<longrightarrow> GHost p m \<in> S \<longrightarrow> n = m) \<and>
    (\<forall>p. GDev p 0 \<notin> S)"

lemma sound_subset: "sound S \<Longrightarrow> S' \<subseteq> S \<Longrightarrow> sound S'"
  unfolding sound_def by blast

lemma sound_gains:
  assumes "sound (live c)" "gains live c r c'"
    and "\<And>p. r \<noteq> GDev p 0" "\<And>p n d m e. r = GReg p n d \<Longrightarrow> GReg p m e \<notin> live c"
    and "\<And>p n m. r = GHost p n \<Longrightarrow> GHost p m \<notin> live c"
  shows "sound (live c')"
proof -
  have r: "live c' = insert r (live c)" "\<forall>x \<in> live c. device_range x \<inter> device_range r = {}"
    using assms(2) by (auto simp: gains_def)
  show ?thesis
    using assms(1,3-5) r(2) unfolding sound_def r(1) by (auto simp: Int_commute)
qed

lemma sound_dev_unique:
  assumes "sound S" "GDev p n \<in> S"
  shows "S - {GDev p m | m. True} = S - {GDev p n}"
proof -
  have "m = n" if "GDev p m \<in> S" for m
  proof (rule ccontr)
    assume "m \<noteq> n"
    then have "device_range (GDev p m) \<inter> device_range (GDev p n) = {}"
      using assms that unfolding sound_def by blast
    moreover have "m \<noteq> 0" "n \<noteq> 0" using assms that unfolding sound_def by metis+
    then have "p \<in> device_range (GDev p m) \<inter> device_range (GDev p n)"
      by (simp add: unat_gt_0)
    ultimately show False by blast
  qed
  then show ?thesis by auto
qed

lemma sound_reg_unique:
  assumes "sound S" "GReg p n d \<in> S"
  shows "S - {GReg p m e | m e. True} = S - {GReg p n d}"
  using assms unfolding sound_def by blast

lemma sound_host_unique:
  assumes "sound S" "GHost p n \<in> S"
  shows "S - {GHost p m | m. True} = S - {GHost p n}"
  using assms unfolding sound_def by blast

section \<open>Alignment\<close>

lemma align_address_props:
  assumes "al \<noteq> 0"
  shows "unat al dvd align_address al p" "p \<le> align_address al p" "align_address al p < p + unat al"
proof -
  define a where "a = unat al"
  define m where "m = p mod a"
  have a: "0 < a" using assms by (simp add: a_def unat_gt_0)
  then have m: "m < a" by (simp add: m_def)
  have p: "p = a * (p div a) + m" by (simp add: m_def)
  have eq: "align_address al p = (if m = 0 then p else p + (a - m))"
    using assms by (simp add: align_address_def a_def m_def)
  have "a dvd align_address al p \<and> p \<le> align_address al p \<and> align_address al p < p + a"
  proof (cases "m = 0")
    case True
    then show ?thesis using eq a p by (metis add.right_neutral dvd_triv_left le_refl less_add_same_cancel1)
  next
    case False
    have "p + (a - m) = a * (p div a) + a" using p m by linarith
    then have "a dvd p + (a - m)" by (metis dvd_add dvd_triv_left dvd_refl)
    then show ?thesis using False eq m by simp
  qed
  then show "unat al dvd align_address al p" "p \<le> align_address al p" "align_address al p < p + unat al"
    by (simp_all add: a_def)
qed

lemma align_address_pos: "al \<noteq> 0 \<Longrightarrow> p \<noteq> null \<Longrightarrow> align_address al p \<noteq> null"
  using align_address_props(2) [of al p] by simp

text \<open>The request fits into 64 bits together with its alignment.\<close>

definition fits :: "u64 \<Rightarrow> mentry \<Rightarrow> bool" where
  "fits al me \<longleftrightarrow> al \<noteq> 0 \<and> me_size me \<noteq> 0 \<and> unat (me_size me) + unat al < 2 ^ 64"

lemma fits_add:
  assumes "fits al me"
  shows "unat (me_size me + al) = unat (me_size me) + unat al" "me_size me + al \<noteq> 0"
proof -
  show u: "unat (me_size me + al) = unat (me_size me) + unat al"
    using assms by (intro unat_add_no_overflow) (simp add: fits_def)
  show "me_size me + al \<noteq> 0"
  proof
    assume "me_size me + al = 0"
    then have "unat (me_size me) + unat al = 0" using u by simp
    then show False using assms by (simp add: fits_def unat_eq_0)
  qed
qed

section \<open>The table\<close>

definition table_owns :: "(ptr \<times> mentry) list \<Rightarrow> gres set" where
  "table_owns t = (\<Union>(k, me) \<in> set t. entry_owns me)"

text \<open>
  The account of a table: everything alive is either foreign, in \<open>L\<close>, or what exactly one entry
  stands for, and an entry is found under its device address.
\<close>

definition accounted :: "gres set \<Rightarrow> (ptr \<times> mentry) list \<Rightarrow> gres set \<Rightarrow> bool" where
  "accounted L t S \<longleftrightarrow>
    distinct (map fst t) \<and> (\<forall>(k, me) \<in> set t. entry_ok me \<and> k = align_addr_gpu me) \<and>
    (\<forall>x \<in> set t. \<forall>y \<in> set t. x \<noteq> y \<longrightarrow> entry_owns (snd x) \<inter> entry_owns (snd y) = {}) \<and>
    S = L \<union> table_owns t \<and> L \<inter> table_owns t = {} \<and> sound S"

lemma accounted_start: "sound S \<Longrightarrow> accounted S [] S"
  by (simp add: accounted_def table_owns_def)

lemma accountedD:
  assumes "accounted L t S"
  shows "distinct (map fst t)" "(k, me) \<in> set t \<Longrightarrow> entry_ok me" "(k, me) \<in> set t \<Longrightarrow> k = align_addr_gpu me"
    and "x \<in> set t \<Longrightarrow> y \<in> set t \<Longrightarrow> x \<noteq> y \<Longrightarrow> entry_owns (snd x) \<inter> entry_owns (snd y) = {}"
    and "S = L \<union> table_owns t" "L \<inter> table_owns t = {}" "sound S"
proof -
  note a = assms [unfolded accounted_def]
  show "distinct (map fst t)" using a by (elim conjE)
  show "(k, me) \<in> set t \<Longrightarrow> entry_ok me" "(k, me) \<in> set t \<Longrightarrow> k = align_addr_gpu me"
    using a [THEN conjunct2, THEN conjunct1] by auto
  show "x \<in> set t \<Longrightarrow> y \<in> set t \<Longrightarrow> x \<noteq> y \<Longrightarrow> entry_owns (snd x) \<inter> entry_owns (snd y) = {}"
    using a [THEN conjunct2, THEN conjunct2, THEN conjunct1] by blast
  show "S = L \<union> table_owns t" using a by (elim conjE)
  show "L \<inter> table_owns t = {}" using a by (elim conjE)
  show "sound S" using a by (elim conjE)
qed

lemma table_owns_Cons [simp]: "table_owns ((k, me) # t) = entry_owns me \<union> table_owns t"
  by (simp add: table_owns_def)

lemma table_owns_mem: "(k, me) \<in> set t \<Longrightarrow> entry_owns me \<subseteq> table_owns t"
  by (auto simp: table_owns_def)

lemma accounted_delete:
  assumes a: "accounted L t S" and k: "map_of t k = Some me"
  shows "accounted L (AList.delete k t) (S - entry_owns me)" "entry_ok me" "entry_owns me \<subseteq> S"
proof -
  have m: "(k, me) \<in> set t" by (rule map_of_SomeD [OF k])
  have u: "b = me" if "(k, b) \<in> set t" for b
    using map_of_is_SomeI [OF accountedD(1) [OF a] that] k by simp
  have rest: "set (AList.delete k t) = set t - {(k, me)}"
    using m by (auto simp: AList.delete_eq dest: u)
  have owns: "table_owns t = entry_owns me \<union> table_owns (AList.delete k t)"
    using m by (auto simp: table_owns_def rest)
  have "entry_owns me \<inter> entry_owns (snd y) = {}" if "y \<in> set t - {(k, me)}" for y
    using accountedD(4) [OF a m, of y] that by auto
  then have apart: "entry_owns me \<inter> table_owns (AList.delete k t) = {}"
    unfolding table_owns_def rest by fastforce
  have c2: "\<forall>(k', e) \<in> set t - {(k, me)}. entry_ok e \<and> k' = align_addr_gpu e"
    using accountedD(2,3) [OF a] by blast
  have c3: "\<forall>x \<in> set t - {(k, me)}. \<forall>y \<in> set t - {(k, me)}. x \<noteq> y \<longrightarrow>
      entry_owns (snd x) \<inter> entry_owns (snd y) = {}"
    using accountedD(4) [OF a] by blast
  show "entry_ok me" by (rule accountedD(2) [OF a m])
  show "entry_owns me \<subseteq> S" using table_owns_mem [OF m] accountedD(5) [OF a] by blast
  have "S - entry_owns me = L \<union> table_owns (AList.delete k t)"
    using accountedD(5,6) [OF a] owns apart by blast
  moreover have "L \<inter> table_owns (AList.delete k t) = {}" using accountedD(6) [OF a] owns by blast
  moreover have "sound (S - entry_owns me)"
    by (rule sound_subset [OF accountedD(7) [OF a]]) blast
  moreover have "distinct (map fst (AList.delete k t))"
    using accountedD(1) [OF a] by (rule distinct_delete)
  ultimately show "accounted L (AList.delete k t) (S - entry_owns me)"
    unfolding accounted_def rest
    using c2 c3 by (intro conjI) assumption+
qed

text \<open>What taking memory for an entry means, and that the entry can then go into the table.\<close>

definition took :: "mentry \<Rightarrow> gres set \<Rightarrow> mentry \<Rightarrow> gres set \<Rightarrow> bool" where
  "took me S me' S' \<longleftrightarrow>
    S' = S \<union> entry_owns me' \<and> S \<inter> entry_owns me' = {} \<and> sound S' \<and> entry_ok me' \<and>
    me_mtype me' = me_mtype me \<and> me_size me' = me_size me"

lemma accounted_insert:
  assumes a: "accounted L t S" and w: "took me0 S me S'"
  shows "map_of t (align_addr_gpu me) = None"
    and "accounted L (table_insert (align_addr_gpu me) me t) S'"
proof -
  let ?k = "align_addr_gpu me"
  have w': "S' = S \<union> entry_owns me" "S \<inter> entry_owns me = {}" "sound S'" "entry_ok me"
    using w by (auto simp: took_def)
  note S = accountedD(5,6) [OF a]
  have new: "?k \<noteq> align_addr_gpu me2" if e: "(k, me2) \<in> set t" for k me2
  proof
    assume eq: "?k = align_addr_gpu me2"
    obtain x y where x: "x \<in> entry_owns me" "?k \<in> device_range x"
      and y: "y \<in> entry_owns me2" "?k \<in> device_range y"
      using w'(4) accountedD(2) [OF a e] eq unfolding entry_ok_def by auto
    have yl: "y \<in> S" using S table_owns_mem [OF e] y by blast
    then have "x \<noteq> y" using w'(2) x by auto
    then have "device_range x \<inter> device_range y = {}"
      using w'(1,3) x(1) yl by (simp add: sound_def)
    then show False using x y by auto
  qed
  then have k: "?k \<notin> fst ` set t" using accountedD(3) [OF a] by force
  then show n: "map_of t ?k = None" by (simp add: map_of_eq_None_iff)
  have d: "entry_owns me \<inter> entry_owns (snd y) = {}" if "y \<in> set t" for y
    using table_owns_mem [of "fst y" "snd y" t] that w'(2) S by auto
  have p: "entry_owns (snd x) \<inter> entry_owns (snd y) = {}"
    if "x \<in> set ((?k, me) # t)" "y \<in> set ((?k, me) # t)" "x \<noteq> y" for x y
  proof -
    consider "x = (?k, me)" "y \<in> set t" | "y = (?k, me)" "x \<in> set t" | "x \<in> set t" "y \<in> set t"
      using \<open>x \<in> _\<close> \<open>y \<in> _\<close> \<open>x \<noteq> y\<close> by auto
    then show ?thesis
      by cases (use d accountedD(4) [OF a _ _ \<open>x \<noteq> y\<close>] in \<open>simp_all add: Int_commute\<close>)
  qed
  have "S' = L \<union> table_owns ((?k, me) # t)" "L \<inter> table_owns ((?k, me) # t) = {}"
    using S w'(1,2) by auto
  moreover have "distinct (map fst ((?k, me) # t))" using k accountedD(1) [OF a] by simp
  moreover have "\<forall>(k, e) \<in> set ((?k, me) # t). entry_ok e \<and> k = align_addr_gpu e"
    using accountedD(2,3) [OF a] w'(4) by auto
  ultimately show "accounted L (table_insert ?k me t) S'"
    unfolding accounted_def table_insert_def if_P [OF n] using p w'(3) by (intro conjI) (assumption | blast)+
qed

section \<open>The contract of a kind of memory\<close>

text \<open>
  A blank entry is filled in by \<open>take\<close>, which makes what it then stands for alive, or fails and
  leaves everything; \<open>give\<close> takes it away.  \<open>kind\<close> says which entries, \<open>ready\<close> when.
\<close>

locale mem_kind =
  fixes take :: "'c cuda \<Rightarrow> u64 \<Rightarrow> mentry \<Rightarrow> gdr_state \<Rightarrow> 'c \<Rightarrow> (mentry option \<times> gdr_state \<times> 'c) outcome"
    and give :: "'c cuda \<Rightarrow> mentry \<Rightarrow> gdr_state \<Rightarrow> 'c \<Rightarrow> 'c outcome"
    and kind :: "mentry \<Rightarrow> bool" and ready :: "'c cuda \<Rightarrow> gdr_state \<Rightarrow> bool"
  assumes take_law:
      "\<lbrakk>cuda_lawful C live; sound (live c); me = new_mentry t sz; kind me; fits al me; ready C g;
        t = GPU_MEM_TYPE_GPU_CPU \<Longrightarrow> al = GPU_PAGE_SIZE\<rbrakk>
       \<Longrightarrow> \<exists>r g' c'. take C al me g c = Ret (r, g', c') \<and> ready C g' \<and>
            (case r of None \<Rightarrow> live c' = live c | Some me' \<Rightarrow> kind me' \<and> took me (live c) me' (live c'))"
    and give_law:
      "\<lbrakk>cuda_lawful C live; sound (live c); kind me; ready C g; entry_ok me; entry_owns me \<subseteq> live c\<rbrakk>
       \<Longrightarrow> \<exists>c'. give C me g c = Ret c' \<and> live c' = live c - entry_owns me"
begin

lemma take_table:
  assumes l: "cuda_lawful C live" and a: "accounted L t (live c)" and k: "kind (new_mentry mt sz)"
    and f: "fits al (new_mentry mt sz)" and r: "ready C g"
    and al: "mt = GPU_MEM_TYPE_GPU_CPU \<Longrightarrow> al = GPU_PAGE_SIZE"
  shows "\<exists>me g' c'. take C al (new_mentry mt sz) g c = Ret (me, g', c') \<and> ready C g' \<and>
    (case me of None \<Rightarrow> live c' = live c
     | Some me \<Rightarrow> kind me \<and> accounted L (table_insert (align_addr_gpu me) me t) (live c'))"
proof -
  have s: "sound (live c)" using a unfolding accounted_def by (elim conjE)
  obtain me g' c' where t: "take C al (new_mentry mt sz) g c = Ret (me, g', c')" "ready C g'"
    "case me of None \<Rightarrow> live c' = live c
     | Some me' \<Rightarrow> kind me' \<and> took (new_mentry mt sz) (live c) me' (live c')"
    using take_law [OF l s refl k f r al] by auto
  then show ?thesis using accounted_insert(2) [OF a]
    by (cases me) (simp_all, blast)
qed

lemma give_delete:
  assumes l: "cuda_lawful C live" and a: "accounted L t (live c)" and m: "map_of t k = Some me"
    and r: "kind me" "ready C g"
  shows "\<exists>c'. give C me g c = Ret c' \<and> accounted L (AList.delete k t) (live c')"
proof -
  note d = accounted_delete [OF a m]
  have "sound (live c)" using a unfolding accounted_def by (elim conjE)
  from give_law [OF l this r d(2,3)] show ?thesis using d(1) by auto
qed

lemma take_give:
  assumes l: "cuda_lawful C live" and s: "sound (live c)" and k: "kind (new_mentry t sz)"
    and f: "fits al (new_mentry t sz)" and r: "ready C g"
    and al: "t = GPU_MEM_TYPE_GPU_CPU \<Longrightarrow> al = GPU_PAGE_SIZE"
    and t: "take C al (new_mentry t sz) g c = Ret (Some me, g', c')"
  shows "\<exists>c''. give C me g' c' = Ret c'' \<and> live c'' = live c"
proof -
  have "ready C g' \<and> kind me \<and> took (new_mentry t sz) (live c) me (live c')"
    using take_law [OF l s refl k f r al] t by auto
  moreover from this have "live c \<union> entry_owns me - entry_owns me = live c" by (auto simp: took_def)
  ultimately show ?thesis using give_law [OF l, of c' me g'] by (auto simp: took_def)
qed

end

end
