(* ===== verification/GpuKinds.thy ===== *)
theory GpuKinds
  imports GpuMemProofs
begin

text \<open>
  The three kinds of memory keep the contract, and so does the dispatch over them.
\<close>

section \<open>Device memory\<close>

lemma gpu_account:
  assumes l: "cuda_lawful C live" and s: "sound (live c)" and f: "fits al me"
    and t: "alloc_gpu C al me c = (r, c')"
  shows "case r of None \<Rightarrow> live c' = live c
    | Some me' \<Rightarrow> \<exists>p. p \<noteq> null \<and> gains live c (GDev p (me_size me + al)) c' \<and> sound (live c') \<and>
        me' = me\<lparr>size_orig := me_size me + al, base_addr := p, align_addr_gpu := align_address al p,
          align_addr_cpu := null\<rparr>"
proof -
  let ?n = "me_size me + al"
  obtain ok p c1 where m: "cu_malloc C ?n c = (ok, p, c1)" by (metis prod_cases3)
  note n = fits_add [OF f]
  show ?thesis
  proof (cases ok)
    case True
    have g: "p \<noteq> null" "gains live c (GDev p ?n) c1" using cuda_steps(1) [OF l, of ?n c p c1] m True n(2) by simp_all
    have s1: "sound (live c1)" by (rule sound_gains [OF s g(2)]) (use n(2) in auto)
    obtain ok2 c2 where y: "cu_sync_memops C (align_address al p) c1 = (ok2, c2)" by fastforce
    have l2: "live c2 = live c1" by (rule cuda_steps(4) [OF l y])
    have "GDev p ?n \<in> live c2" "live c2 - {GDev p ?n} = live c" using g(2) l2 by (auto simp: gains_def)
    then have fr: "live (cu_free C p c2) = live c"
      using cuda_steps(3) [OF l] sound_dev_unique [of "live c2" p ?n] s1 l2 by simp
    have "gains live c (GDev p ?n) c2" using g(2) l2 by (simp add: gains_def)
    then show ?thesis
      using t m True y g(1) s1 l2 fr by (auto simp: alloc_gpu_def Let_def split: if_splits)
  next
    case False
    then show ?thesis using t m cuda_steps(2) [OF l] by (auto simp: alloc_gpu_def Let_def)
  qed
qed

lemma aligned_in_range:
  assumes f: "fits al me" and p: "p \<noteq> null"
  shows "align_address al p \<in> device_range (GDev p (me_size me + al))" "align_address al p \<noteq> null"
  using align_address_props(2,3) [of al p] align_address_pos [OF _ p] f fits_add(1) [OF f]
  by (auto simp: fits_def)

definition take_gpu :: "'c cuda \<Rightarrow> u64 \<Rightarrow> mentry \<Rightarrow> gdr_state \<Rightarrow> 'c \<Rightarrow> (mentry option \<times> gdr_state \<times> 'c) outcome" where
  "take_gpu C al me g c = (case alloc_gpu C al me c of (r, c') \<Rightarrow> Ret (r, g, c'))"

definition give_gpu :: "'c cuda \<Rightarrow> mentry \<Rightarrow> gdr_state \<Rightarrow> 'c \<Rightarrow> 'c outcome" where
  "give_gpu C me g c = Ret (cu_free C (base_addr me) c)"

interpretation gpu: mem_kind take_gpu give_gpu "\<lambda>me. me_mtype me = GPU_MEM_TYPE_GPU" "\<lambda>C g. True"
proof unfold_locales
  fix C :: "'c cuda" and live :: "'c gpu_live" and c me t sz al g
  assume l: "cuda_lawful C live" and s: "sound (live c)" and me: "me = new_mentry t sz"
    "me_mtype me = GPU_MEM_TYPE_GPU" and f: "fits al me"
  obtain r c' where a: "alloc_gpu C al me c = (r, c')" by fastforce
  have "case r of None \<Rightarrow> live c' = live c
    | Some me' \<Rightarrow> me_mtype me' = GPU_MEM_TYPE_GPU \<and> took me (live c) me' (live c')"
    using gpu_account [OF l s f a] aligned_in_range [OF f] me
    by (cases r) (auto simp: took_def entry_ok_def entry_owns_def gains_def)
  then show "\<exists>r g' c'. take_gpu C al me g c = Ret (r, g', c') \<and> True \<and>
      (case r of None \<Rightarrow> live c' = live c
       | Some me' \<Rightarrow> me_mtype me' = GPU_MEM_TYPE_GPU \<and> took me (live c) me' (live c'))"
    using a by (simp add: take_gpu_def)
next
  fix C :: "'c cuda" and live :: "'c gpu_live" and c me g
  assume l: "cuda_lawful C live" and s: "sound (live c)" and k: "me_mtype me = GPU_MEM_TYPE_GPU"
    and o: "entry_owns me \<subseteq> live c"
  then show "\<exists>c'. give_gpu C me g c = Ret c' \<and> live c' = live c - entry_owns me"
    using sound_dev_unique [OF s] cuda_steps(3) [OF l] by (auto simp: give_gpu_def entry_owns_def)
qed

section \<open>Registered host memory\<close>

definition take_cpu_gpu :: "'c cuda \<Rightarrow> u64 \<Rightarrow> mentry \<Rightarrow> gdr_state \<Rightarrow> 'c
    \<Rightarrow> (mentry option \<times> gdr_state \<times> 'c) outcome" where
  "take_cpu_gpu C al me g c = (case alloc_cpu_gpu C al me c of (r, c') \<Rightarrow> Ret (r, g, c'))"

definition give_host :: "'c cuda \<Rightarrow> mentry \<Rightarrow> gdr_state \<Rightarrow> 'c \<Rightarrow> 'c outcome" where
  "give_host C me g c =
    Ret (cu_cfree C (base_addr me) (snd (cu_host_unregister C (align_addr_cpu me) c)))"

lemma cpu_gpu_account:
  assumes l: "cuda_lawful C live" and s: "sound (live c)" and f: "fits al me"
    and me: "me_mtype me = GPU_MEM_TYPE_CPU_GPU" and t: "alloc_cpu_gpu C al me c = (r, c')"
  shows "case r of None \<Rightarrow> live c' = live c
    | Some me' \<Rightarrow> me_mtype me' = GPU_MEM_TYPE_CPU_GPU \<and> took me (live c) me' (live c')"
proof -
  let ?n = "me_size me + al"
  obtain p c1 where m: "cu_calloc C ?n 1 c = (p, c1)" by fastforce
  show ?thesis
  proof (cases "p = null")
    case True
    then show ?thesis using t m cuda_steps(12) [OF l] by (auto simp: alloc_cpu_gpu_def Let_def)
  next
    case False
    let ?a = "align_address al p"
    have g1: "gains live c (GHost p ?n) c1" and new: "\<forall>k. GHost p k \<notin> live c"
      using cuda_steps(11) [OF l m False] by simp_all
    have s1: "sound (live c1)" by (rule sound_gains [OF s g1]) (use new in auto)
    have freed: "live (cu_cfree C p c2) = live c" if "live c2 = live c1" for c2
    proof -
      have "GHost p ?n \<in> live c2" "sound (live c2)" "live c2 - {GHost p ?n} = live c"
        using that g1 s1 by (auto simp: gains_def)
      then show ?thesis using cuda_steps(13) [OF l] sound_host_unique by metis
    qed
    obtain res c2 where h: "cu_host_register C ?a (me_size me) c1 = (res, c2)" by fastforce
    show ?thesis
    proof (cases "res = REG_SUCCESS")
      case r: False
      have "live (cu_cfree C p c2) = live c" by (rule freed [OF cuda_steps(6) [OF l h r]])
      then show ?thesis using t m False h r by (auto simp: alloc_cpu_gpu_def Let_def)
    next
      case r: True
      obtain d where d: "d \<noteq> null" "gains live c1 (GReg ?a (me_size me) d) c2"
          "\<forall>m e. GReg ?a m e \<notin> live c1"
        using cuda_steps(5) [OF l h [unfolded r]] by blast
      have s2: "sound (live c2)" by (rule sound_gains [OF s1 d(2)]) (use d(3) in auto)
      have live2: "live c2 = insert (GReg ?a (me_size me) d) (insert (GHost p ?n) (live c))"
          "GReg ?a (me_size me) d \<notin> live c1" "GHost p ?n \<notin> live c" "live c1 = insert (GHost p ?n) (live c)"
        using g1 d(2) by (auto simp: gains_def)
      show ?thesis
      proof (cases "cu_host_device_ptr C ?a c2")
        case None
        obtain ok c3 where u: "cu_host_unregister C ?a c2 = (ok, c3)" by fastforce
        have "live c3 = live c1"
          using cuda_steps(7) [OF l u] sound_reg_unique [OF s2, of ?a "me_size me" d] live2 by simp
        then have "live (cu_cfree C p c3) = live c" by (rule freed)
        then show ?thesis using t m False h r None u by (auto simp: alloc_cpu_gpu_def Let_def)
      next
        case (Some q)
        have q: "q = d" using cuda_steps(8) [OF l Some, of "me_size me" d] live2 by simp
        have "0 < unat (me_size me)" using f by (simp add: fits_def unat_gt_0)
        then show ?thesis
          using t m False h r Some me live2 s2 d(1)
          by (auto simp: q alloc_cpu_gpu_def Let_def took_def entry_ok_def entry_owns_def)
      qed
    qed
  qed
qed

interpretation host: mem_kind take_cpu_gpu give_host "\<lambda>me. me_mtype me = GPU_MEM_TYPE_CPU_GPU" "\<lambda>C g. True"
proof unfold_locales
  fix C :: "'c cuda" and live :: "'c gpu_live" and c me t sz al g
  assume a: "cuda_lawful C live" "sound (live c)" "fits al me" "me_mtype me = GPU_MEM_TYPE_CPU_GPU"
  obtain r c' where t: "alloc_cpu_gpu C al me c = (r, c')" by fastforce
  from cpu_gpu_account [OF a t] show "\<exists>r g' c'. take_cpu_gpu C al me g c = Ret (r, g', c') \<and> True \<and>
      (case r of None \<Rightarrow> live c' = live c
       | Some me' \<Rightarrow> me_mtype me' = GPU_MEM_TYPE_CPU_GPU \<and> took me (live c) me' (live c'))"
    using t by (simp add: take_cpu_gpu_def)
next
  fix C :: "'c cuda" and live :: "'c gpu_live" and c me g
  assume l: "cuda_lawful C live" and s: "sound (live c)" and k: "me_mtype me = GPU_MEM_TYPE_CPU_GPU"
    and o: "entry_owns me \<subseteq> live c"
  let ?h = "GHost (base_addr me) (size_orig me)"
  let ?r = "GReg (align_addr_cpu me) (me_size me) (align_addr_gpu me)"
  obtain ok c1 where u: "cu_host_unregister C (align_addr_cpu me) c = (ok, c1)" by fastforce
  have l1: "live c1 = live c - {?r}"
    using cuda_steps(7) [OF l u] sound_reg_unique [OF s] o k by (auto simp: entry_owns_def)
  have "sound (live c - {?r})" by (rule sound_subset [OF s]) blast
  moreover have "?h \<in> live c - {?r}" using o k by (auto simp: entry_owns_def)
  ultimately have "live (cu_cfree C (base_addr me) c1) = live c - {?r} - {?h}"
    using cuda_steps(13) [OF l, of "base_addr me" "size_orig me" c1] sound_host_unique l1 by metis
  then show "\<exists>c'. give_host C me g c = Ret c' \<and> live c' = live c - entry_owns me"
    using u k by (auto simp: give_host_def entry_owns_def)
qed

section \<open>Mapped device memory\<close>

text \<open>
  When GDRCopy does not fail.  Its failure after the device memory is allocated is the subject of
  \<open>failed_mapping_leaks\<close> below.
\<close>

definition gdr_ready :: "gdr_env \<Rightarrow> 'c cuda \<Rightarrow> gdr_state \<Rightarrow> bool" where
  "gdr_ready env C g \<longleftrightarrow>
    ge_mh_malloc env \<and> gdr_handle g \<and>
    (\<forall>p n c. fst (cu_gdr_pin C p n c) = 0) \<and> (\<forall>h n c. fst (cu_gdr_map C h n c) = 0)"

definition give_gpu_cpu :: "'c cuda \<Rightarrow> mentry \<Rightarrow> gdr_state \<Rightarrow> 'c \<Rightarrow> 'c outcome" where
  "give_gpu_cpu C me g c =
    (case gdrcopy_destroy_mapping C (gdr_mh me) (align_addr_cpu me) (me_size me) g c of
       Misuse \<Rightarrow> Misuse | Ret c1 \<Rightarrow> Ret (cu_free C (base_addr me) c1))"

lemma page_aligned:
  assumes "al = GPU_PAGE_SIZE"
  shows "align_address al p mod 65536 = 0"
proof -
  have "unat al = 65536" "al \<noteq> 0" using assms by (simp_all add: GPU_PAGE_SIZE_def)
  then show ?thesis using align_address_props(1) [of al p] by (simp add: dvd_eq_mod_eq_0)
qed

lemma gpu_cpu_account:
  assumes l: "cuda_lawful C live" and s: "sound (live c)" and f: "fits al me"
    and me: "me_mtype me = GPU_MEM_TYPE_GPU_CPU" and al: "al = GPU_PAGE_SIZE" and g: "gdr_ready env C g"
  shows "\<exists>r c'. alloc_gpu_cpu env C al me g c = Ret (r, g, c') \<and>
    (case r of None \<Rightarrow> live c' = live c
     | Some me' \<Rightarrow> me_mtype me' = GPU_MEM_TYPE_GPU_CPU \<and> took me (live c) me' (live c'))"
proof -
  obtain r1 c1 where a: "alloc_gpu C al me c = (r1, c1)" by fastforce
  show ?thesis
  proof (cases r1)
    case None
    then show ?thesis using a gpu_account [OF l s f a] by (simp add: alloc_gpu_cpu_def)
  next
    case (Some me1)
    then obtain p where p: "p \<noteq> null" "gains live c (GDev p (me_size me + al)) c1" "sound (live c1)"
        "me1 = me\<lparr>size_orig := me_size me + al, base_addr := p, align_addr_gpu := align_address al p,
          align_addr_cpu := null\<rparr>"
      using gpu_account [OF l s f a] by auto
    let ?a = "align_address al p" and ?n = "me_size me + al"
    obtain h c2 where pin: "cu_gdr_pin C ?a (me_size me) c1 = (0, h, c2)"
      using g unfolding gdr_ready_def by (metis prod.collapse)
    obtain q c3 where map: "cu_gdr_map C h (me_size me) c2 = (0, q, c3)"
      using g unfolding gdr_ready_def by (metis prod.collapse)
    have i: "init_gdrcopy env g = (0, g)" using g by (simp add: init_gdrcopy_def gdr_ready_def)
    have m: "gdrcopy_create_mapping env C ?a (me_size me) g c1 = Ret (0, Some (h, q), g, c3)"
      using g i page_aligned [OF al] pin map
      by (simp add: gdrcopy_create_mapping_def priv_gdrcopy_create_mapping_def gdr_ready_def)
    have g2: "gains live c1 (GPin h) c2" by (rule cuda_steps(14) [OF l pin])
    have s2: "sound (live c2)" by (rule sound_gains [OF p(3) g2]) auto
    have g3: "gains live c2 (GMap h q) c3" using cuda_steps(17) [OF l map] by simp
    have s3: "sound (live c3)" by (rule sound_gains [OF s2 g3]) auto
    have "alloc_gpu_cpu env C al me g c =
        Ret (Some (me1\<lparr>gdr_mh := Some h, align_addr_cpu := q\<rparr>), g, c3)"
      using a Some m p(4) by (simp add: alloc_gpu_cpu_def)
    moreover have "took me (live c) (me1\<lparr>gdr_mh := Some h, align_addr_cpu := q\<rparr>) (live c3)"
      using p g2 g3 s3 me aligned_in_range [OF f p(1)]
      by (auto simp: took_def entry_ok_def entry_owns_def gains_def)
    ultimately show ?thesis using me p(4) by simp
  qed
qed

interpretation mapped: mem_kind "alloc_gpu_cpu env" give_gpu_cpu
  "\<lambda>me. me_mtype me = GPU_MEM_TYPE_GPU_CPU" "gdr_ready env"
proof unfold_locales
  fix C :: "'c cuda" and live :: "'c gpu_live" and c me t sz al g
  assume a: "cuda_lawful C live" "sound (live c)" "fits al me" "me_mtype me = GPU_MEM_TYPE_GPU_CPU"
    "me = new_mentry t sz" "gdr_ready env C g" "t = GPU_MEM_TYPE_GPU_CPU \<Longrightarrow> al = GPU_PAGE_SIZE"
  then have "al = GPU_PAGE_SIZE" by (simp add: new_mentry_def)
  from gpu_cpu_account [OF a(1-4) this a(6)] a(6)
  show "\<exists>r g' c'. alloc_gpu_cpu env C al me g c = Ret (r, g', c') \<and> gdr_ready env C g' \<and>
      (case r of None \<Rightarrow> live c' = live c
       | Some me' \<Rightarrow> me_mtype me' = GPU_MEM_TYPE_GPU_CPU \<and> took me (live c) me' (live c'))" by blast
next
  fix C :: "'c cuda" and live :: "'c gpu_live" and c me g
  assume l: "cuda_lawful C live" and s: "sound (live c)" and k: "me_mtype me = GPU_MEM_TYPE_GPU_CPU"
    and g: "gdr_ready env C g" and e: "entry_ok me" and o: "entry_owns me \<subseteq> live c"
  obtain h where h: "gdr_mh me = Some h" using e k by (auto simp: entry_ok_def)
  let ?d = "GDev (base_addr me) (size_orig me)" and ?m = "GMap h (align_addr_cpu me)"
  let ?c1 = "cu_gdr_unmap C h (align_addr_cpu me) (me_size me) c"
  have owns: "entry_owns me = {?d, GPin h, ?m}" using k h by (simp add: entry_owns_def)
  then have l1: "live ?c1 = live c - {?m}" using cuda_steps(19) [OF l] o by simp
  then have l2: "live (cu_gdr_unpin C h ?c1) = live c - {?m} - {GPin h}"
    using cuda_steps(16) [OF l, of h ?c1] o owns by simp
  have "sound (live c - {?m} - {GPin h})" by (rule sound_subset [OF s]) blast
  moreover have "?d \<in> live c - {?m} - {GPin h}" using o owns by auto
  ultimately have "live (cu_free C (base_addr me) (cu_gdr_unpin C h ?c1)) = live c - {?m} - {GPin h} - {?d}"
    using cuda_steps(3) [OF l] l2 sound_dev_unique by metis
  then show "\<exists>c'. give_gpu_cpu C me g c = Ret c' \<and> live c' = live c - entry_owns me"
    using h g owns by (auto simp: give_gpu_cpu_def gdrcopy_destroy_mapping_def gdr_ready_def)
qed

section \<open>All kinds\<close>

text \<open>
  The dispatch: \<open>w\<close> says whether mapped memory is in use, which then needs GDRCopy.
\<close>

definition served :: "bool \<Rightarrow> mentry \<Rightarrow> bool" where
  "served w me \<longleftrightarrow>
    (case me_mtype me of GPU_MEM_TYPE_GPU_CPU \<Rightarrow> w | GPU_MEM_TYPE_OTHER n \<Rightarrow> False | _ \<Rightarrow> True)"

interpretation kinds: mem_kind "\<lambda>C. alloc_kind env C sg" "\<lambda>C. release_kind C sg"
  "served w" "\<lambda>C g. w \<longrightarrow> sg \<and> gdr_ready env C g"
proof unfold_locales
  fix C :: "'c cuda" and live :: "'c gpu_live" and c me t sz al g
  assume a: "cuda_lawful C live" "sound (live c)" "me = new_mentry t sz" and sv: "served w me"
    and f: "fits al me" and g: "w \<longrightarrow> sg \<and> gdr_ready env C g"
    and al: "t = GPU_MEM_TYPE_GPU_CPU \<Longrightarrow> al = GPU_PAGE_SIZE"
  have mt: "me_mtype me = t" using a(3) by (simp add: new_mentry_def)
  show "\<exists>r g' c'. alloc_kind env C sg al me g c = Ret (r, g', c') \<and>
      (w \<longrightarrow> sg \<and> gdr_ready env C g') \<and>
      (case r of None \<Rightarrow> live c' = live c
       | Some me' \<Rightarrow> served w me' \<and> took me (live c) me' (live c'))"
  proof (cases t)
    case GPU_MEM_TYPE_GPU
    then show ?thesis using gpu.take_law [OF a _ f, of g] al mt g
      by (fastforce simp: alloc_kind_def take_gpu_def served_def split: option.splits prod.splits)
  next
    case GPU_MEM_TYPE_CPU_GPU
    then show ?thesis using host.take_law [OF a _ f, of g] al mt g
      by (fastforce simp: alloc_kind_def take_cpu_gpu_def served_def split: option.splits prod.splits)
  next
    case GPU_MEM_TYPE_GPU_CPU
    then have "w" using sv mt by (simp add: served_def)
    then have g': "sg" "gdr_ready env C g" using g by auto
    from GPU_MEM_TYPE_GPU_CPU show ?thesis using mapped.take_law [OF a _ f g'(2)] al mt g'(1) \<open>w\<close>
      by (fastforce simp: alloc_kind_def served_def split: option.splits)
  next
    case (GPU_MEM_TYPE_OTHER n)
    then show ?thesis using sv mt by (simp add: served_def)
  qed
next
  fix C :: "'c cuda" and live :: "'c gpu_live" and c me g
  assume a: "cuda_lawful C live" "sound (live c)" and sv: "served w me"
    and g: "w \<longrightarrow> sg \<and> gdr_ready env C g" and e: "entry_ok me" "entry_owns me \<subseteq> live c"
  show "\<exists>c'. release_kind C sg me g c = Ret c' \<and> live c' = live c - entry_owns me"
  proof (cases "me_mtype me")
    case GPU_MEM_TYPE_GPU
    then show ?thesis using gpu.give_law [OF a _ _ e, of g] by (simp add: release_kind_def give_gpu_def)
  next
    case GPU_MEM_TYPE_CPU_GPU
    then show ?thesis using host.give_law [OF a _ _ e, of g] by (simp add: release_kind_def give_host_def)
  next
    case GPU_MEM_TYPE_GPU_CPU
    then have "sg" "gdr_ready env C g" using sv g by (auto simp: served_def)
    then show ?thesis using mapped.give_law [OF a _ _ e, of env g] GPU_MEM_TYPE_GPU_CPU
      by (simp add: release_kind_def give_gpu_cpu_def)
  next
    case (GPU_MEM_TYPE_OTHER n)
    then show ?thesis using sv by (simp add: served_def)
  qed
qed

end
