(* ===== verification/GpuDemo.thy ===== *)
theory GpuDemo
  imports GpuKinds
begin

text \<open>
  A concrete system for the witnesses: its state is the list of what is alive, and everything new
  gets addresses above all others.
\<close>

fun top_address :: "gres \<Rightarrow> nat" where
  "top_address (GDev p n) = p + unat n"
| "top_address (GHost p n) = p + unat n"
| "top_address (GReg p n d) = d + unat n"
| "top_address (GPin h) = h"
| "top_address (GMap h a) = max h a"

fun fresh_address :: "gres list \<Rightarrow> nat" where
  "fresh_address [] = 1"
| "fresh_address (r # rs) = max (Suc (top_address r)) (fresh_address rs)"

lemma fresh_address_above: "r \<in> set rs \<Longrightarrow> top_address r < fresh_address rs"
  by (induction rs) auto

lemma fresh_address_pos: "0 < fresh_address rs"
  by (induction rs) auto

definition registered_at :: "ptr \<Rightarrow> gres \<Rightarrow> bool" where
  "registered_at p r = (case r of GReg q n d \<Rightarrow> q = p | _ \<Rightarrow> False)"

definition device_address :: "gres \<Rightarrow> ptr" where
  "device_address r = (case r of GReg q n d \<Rightarrow> d | _ \<Rightarrow> null)"

definition allocated_at :: "ptr \<Rightarrow> gres \<Rightarrow> bool" where
  "allocated_at p r = (case r of GDev q n \<Rightarrow> q = p | _ \<Rightarrow> False)"

definition host_at :: "ptr \<Rightarrow> gres \<Rightarrow> bool" where
  "host_at p r = (case r of GHost q n \<Rightarrow> q = p | _ \<Rightarrow> False)"

definition ref_cuda :: "gres list cuda" where
  "ref_cuda =
    \<lparr>cu_device_by_bus_id = (\<lambda>b c. Some 0), cu_dmabuf_supported = (\<lambda>d c. Some 1),
     cu_writes_ordering = (\<lambda>d c. Some 100), cu_current_device = (\<lambda>c. Some 0),
     cu_compute_major = (\<lambda>d c. Some 9),
     cu_malloc = (\<lambda>n c. if n = 0 then (False, null, c) else (True, fresh_address c, GDev (fresh_address c) n # c)),
     cu_free = (\<lambda>p c. filter (\<lambda>r. \<not> allocated_at p r) c),
     cu_sync_memops = (\<lambda>p c. (True, c)),
     cu_host_register = (\<lambda>p n c. if list_ex (registered_at p) c then (REG_ALREADY_REGISTERED, c)
       else (REG_SUCCESS, GReg p n (fresh_address c) # c)),
     cu_host_unregister = (\<lambda>p c. (list_ex (registered_at p) c, filter (\<lambda>r. \<not> registered_at p r) c)),
     cu_host_device_ptr = (\<lambda>p c. case filter (registered_at p) c of [r] \<Rightarrow> Some (device_address r) | _ \<Rightarrow> None),
     cu_dmabuf_fd = (\<lambda>p n c. Some 3), cu_copy_qps = (\<lambda>p q c. (True, c)), cu_read_qp = (\<lambda>p c. None),
     cu_memset = (\<lambda>p v n c. (True, c)), cu_synchronize = (\<lambda>c. True),
     cu_calloc = (\<lambda>m n c. if unat m * unat n < 2 ^ 64
       then (fresh_address c, GHost (fresh_address c) (m * n) # c) else (null, c)),
     cu_cfree = (\<lambda>p c. filter (\<lambda>r. \<not> host_at p r) c),
     cu_gdr_pin = (\<lambda>p n c. (0, fresh_address c, GPin (fresh_address c) # c)),
     cu_gdr_unpin = (\<lambda>h c. filter (\<lambda>r. r \<noteq> GPin h) c),
     cu_gdr_map = (\<lambda>h n c. (0, fresh_address c, GMap h (fresh_address c) # c)),
     cu_gdr_unmap = (\<lambda>h a n c. filter (\<lambda>r. r \<noteq> GMap h a) c)\<rparr>"

lemma ref_gains:
  assumes "device_range r \<inter> {..< fresh_address c} = {}" "fresh_address c \<le> top_address r"
  shows "gains set c r (r # c)"
proof -
  have "device_range x \<subseteq> {..< fresh_address c}" if "x \<in> set c" for x
    using fresh_address_above [OF that] by (cases x) auto
  then show ?thesis using assms fresh_address_above [of r c] by (auto simp: gains_def)
qed

lemma registered_at_iff: "registered_at p r \<longleftrightarrow> (\<exists>n d. r = GReg p n d)"
  by (cases r) (auto simp: registered_at_def)

lemma allocated_at_iff: "allocated_at p r \<longleftrightarrow> (\<exists>n. r = GDev p n)"
  by (cases r) (auto simp: allocated_at_def)

lemma host_at_iff: "host_at p r \<longleftrightarrow> (\<exists>n. r = GHost p n)"
  by (cases r) (auto simp: host_at_def)

lemma ref_not_old: "r \<in> set c \<Longrightarrow> fresh_address c \<le> top_address r \<Longrightarrow> False"
  using fresh_address_above [of r c] by simp

lemma ref_device_ptr:
  assumes "cu_host_device_ptr ref_cuda p c = Some d" "GReg p n e \<in> set c"
  shows "d = e"
proof -
  obtain r where r: "filter (registered_at p) c = [r]" "d = device_address r"
    using assms(1) by (auto simp: ref_cuda_def split: list.splits)
  have "GReg p n e \<in> set (filter (registered_at p) c)"
    using assms(2) by (simp add: registered_at_iff)
  then have "r = GReg p n e" using r by simp
  then show ?thesis using r by (simp add: device_address_def)
qed

lemma ref_cuda_lawful: "cuda_lawful ref_cuda set"
proof -
  have new: "0 < fresh_address c" "fresh_address c \<noteq> null" "fresh_address c = null \<longleftrightarrow> False" for c
    using fresh_address_pos [of c] by simp_all
  have g: "gains set c (GDev (fresh_address c) n) (GDev (fresh_address c) n # c)"
      "gains set c (GReg p n (fresh_address c)) (GReg p n (fresh_address c) # c)"
      "gains set c (GHost (fresh_address c) n) (GHost (fresh_address c) n # c)"
      "gains set c (GPin (fresh_address c)) (GPin (fresh_address c) # c)"
      "gains set c (GMap h (fresh_address c)) (GMap h (fresh_address c) # c)" for c n p h
    by (rule ref_gains; auto)+
  have host: "GHost (fresh_address c) k \<notin> set c" for c k
    using ref_not_old [of "GHost (fresh_address c) k" c] by auto
  have reg: "\<exists>d. d \<noteq> null \<and> gains set c (GReg p n d) (GReg p n (fresh_address c) # c)" for c p n
    using g(2) new(2) by blast
  show ?thesis
    unfolding cuda_lawful_def
    by (intro conjI allI impI;
        ((drule ref_device_ptr; simp) |
         (use g new host reg in \<open>auto simp: ref_cuda_def registered_at_iff allocated_at_iff host_at_iff
            list_ex_iff new simp del: neq0_conv split: if_splits\<close>)))
qed

end
