(* ===== verification/GpuMemProps.thy ===== *)
theory GpuMemProps
  imports GpuDemo
begin

text \<open>Properties of device memory: sessions of allocations and releases, placement, and the leaks.\<close>

section \<open>Sessions\<close>

datatype mem_op =
    Alloc gpu_alloc_env u64 u64 gpu_mem_type bool bool
  | Free ptr

text \<open>A session of calls on one open device; the first misuse ends it.\<close>

fun mem_step :: "gdr_env \<Rightarrow> 'c cuda \<Rightarrow> u64 \<Rightarrow> mem_op \<Rightarrow> gpu_open \<times> gdr_state \<times> 'c
    \<Rightarrow> (gpu_open \<times> gdr_state \<times> 'c) outcome" where
  "mem_step env C page (Alloc ae sz alignment mtype gpu_out cpu_out) (ob, g, c) =
    (case mem_alloc_open ae env C page sz alignment mtype gpu_out cpu_out ob g c of
       Misuse \<Rightarrow> Misuse | Ret (e, r, s) \<Rightarrow> Ret s)"
| "mem_step env C page (Free p) (ob, g, c) =
    (case mem_free_open C p ob g c of Misuse \<Rightarrow> Misuse | Ret (e, ob', c') \<Rightarrow> Ret (ob', g, c'))"

fun mem_run :: "gdr_env \<Rightarrow> 'c cuda \<Rightarrow> u64 \<Rightarrow> mem_op list \<Rightarrow> gpu_open \<times> gdr_state \<times> 'c
    \<Rightarrow> (gpu_open \<times> gdr_state \<times> 'c) outcome" where
  "mem_run env C page [] s = Ret s"
| "mem_run env C page (x # xs) s =
    (case mem_step env C page x s of Misuse \<Rightarrow> Misuse | Ret s' \<Rightarrow> mem_run env C page xs s')"

text \<open>
  A request of a kind that is served, whose size and alignment add up within 64 bits, and for which
  the small allocations of the library succeed.
\<close>

fun op_ok :: "bool \<Rightarrow> u64 \<Rightarrow> mem_op \<Rightarrow> bool" where
  "op_ok w page (Alloc ae sz alignment mtype gpu_out cpu_out) \<longleftrightarrow>
    ga_mentry ae \<and> ga_insert ae \<and> served w (new_mentry mtype sz) \<and>
    (case alloc_alignment page alignment mtype of None \<Rightarrow> True | Some al \<Rightarrow> unat sz + unat al < 2 ^ 64)"
| "op_ok w page (Free p) \<longleftrightarrow> True"

definition session_inv :: "gdr_env \<Rightarrow> 'c cuda \<Rightarrow> 'c gpu_live \<Rightarrow> bool \<Rightarrow> gres set
    \<Rightarrow> gpu_open \<times> gdr_state \<times> 'c \<Rightarrow> bool" where
  "session_inv env C live w L s \<longleftrightarrow>
    (case s of (ob, g, c) \<Rightarrow>
      accounted L (gp_mtable ob) (live c) \<and> (\<forall>(k, me) \<in> set (gp_mtable ob). served w me) \<and>
      (w \<longrightarrow> gp_support_gdrcopy ob \<and> gdr_ready env C g))"

lemma alloc_alignment_props:
  assumes "alloc_alignment page alignment mtype = Some al"
  shows "is_power_of_two al" "al \<noteq> 0" "mtype = GPU_MEM_TYPE_GPU_CPU \<Longrightarrow> al = GPU_PAGE_SIZE"
proof -
  have g: "is_power_of_two GPU_PAGE_SIZE" by (simp add: GPU_PAGE_SIZE_def is_power_of_two_def)
  show p: "is_power_of_two al" using assms g
    by (auto simp: alloc_alignment_def Let_def split: if_splits)
  then show "al \<noteq> 0" by (auto simp: is_power_of_two_def)
  show "mtype = GPU_MEM_TYPE_GPU_CPU \<Longrightarrow> al = GPU_PAGE_SIZE"
    using assms by (auto simp: alloc_alignment_def Let_def split: if_splits)
qed

lemma set_delete_subset: "set (AList.delete k t) \<subseteq> set t"
  by (auto simp: AList.delete_eq)

lemma set_table_insert: "set (table_insert k e t) \<subseteq> insert (k, e) (set t)"
  by (auto simp: table_insert_def)

lemma mem_step_inv:
  assumes l: "cuda_lawful C live" and i: "session_inv env C live w L s" and x: "op_ok w page x"
  shows "\<exists>s'. mem_step env C page x s = Ret s' \<and> session_inv env C live w L s'"
proof -
  obtain ob g c where s: "s = (ob, g, c)" by (metis prod_cases3)
  have a: "accounted L (gp_mtable ob) (live c)" and sv: "\<forall>(k, me) \<in> set (gp_mtable ob). served w me"
    and r: "w \<longrightarrow> gp_support_gdrcopy ob \<and> gdr_ready env C g"
    using i by (auto simp: session_inv_def s)
  show ?thesis
  proof (cases x)
    case (Alloc ae sz alignment mtype gpu_out cpu_out)
    let ?e = "new_mentry mtype sz"
    show ?thesis
    proof (cases "gpu_out \<and> (mtype = GPU_MEM_TYPE_GPU \<or> cpu_out) \<and> sz \<noteq> 0 \<and>
        alloc_alignment page alignment mtype \<noteq> None")
      case True
      then obtain al where al: "alloc_alignment page alignment mtype = Some al" by blast
      have ok: "ga_mentry ae" "ga_insert ae" "served w ?e" "unat sz + unat al < 2 ^ 64"
        using x al by (auto simp: Alloc)
      have f: "fits al ?e"
        using ok(4) True alloc_alignment_props(2) [OF al] by (simp add: fits_def new_mentry_def)
      obtain me g' c' where k: "alloc_kind env C (gp_support_gdrcopy ob) al ?e g c = Ret (me, g', c')"
        "w \<longrightarrow> gp_support_gdrcopy ob \<and> gdr_ready env C g'"
        "case me of None \<Rightarrow> live c' = live c
          | Some m \<Rightarrow> served w m \<and> accounted L (table_insert (align_addr_gpu m) m (gp_mtable ob)) (live c')"
        using kinds.take_table [OF l a ok(3) f r alloc_alignment_props(3) [OF al]] by auto
      show ?thesis
      proof (cases me)
        case None
        then show ?thesis using k True al ok a sv
          by (auto simp: s Alloc mem_alloc_open_def session_inv_def)
      next
        case (Some m)
        then show ?thesis using k True al ok sv set_table_insert [of "align_addr_gpu m" m "gp_mtable ob"]
          by (fastforce simp: s Alloc mem_alloc_open_def session_inv_def Let_def)
      qed
    next
      case False
      then show ?thesis using i by (auto simp: s Alloc mem_alloc_open_def Let_def)
    qed
  next
    case (Free p)
    show ?thesis
    proof (cases "p = null \<or> map_of (gp_mtable ob) p = None")
      case True
      then show ?thesis using i by (auto simp: s Free mem_free_open_def)
    next
      case False
      then obtain me where m: "map_of (gp_mtable ob) p = Some me" by blast
      have "served w me" using sv map_of_SomeD [OF m] by auto
      from kinds.give_delete [OF l a m this r] obtain c'
        where "release_kind C (gp_support_gdrcopy ob) me g c = Ret c'"
          "accounted L (AList.delete p (gp_mtable ob)) (live c')" by blast
      then show ?thesis using False m sv r set_delete_subset [of p "gp_mtable ob"]
        by (auto simp: s Free mem_free_open_def session_inv_def)
    qed
  qed
qed

lemma mem_run_inv:
  assumes "cuda_lawful C live"
  shows "session_inv env C live w L s \<Longrightarrow> list_all (op_ok w page) xs \<Longrightarrow>
    \<exists>s'. mem_run env C page xs s = Ret s' \<and> session_inv env C live w L s'"
proof (induction xs arbitrary: s)
  case (Cons x xs)
  obtain s1 where "mem_step env C page x s = Ret s1" "session_inv env C live w L s1"
    using mem_step_inv [OF assms Cons.prems(1), of page x] Cons.prems(2) by auto
  then show ?case using Cons.IH [of s1] Cons.prems(2) by simp
qed simp

text \<open>C26: Memory is accounted for.  Start from an open device that has no memory, on a system that
  behaves as documented.  A session of allocations and releases, of device memory, registered
  host memory and, when GDRCopy works, mapped device memory, with any sizes and alignments that add up
  within 64 bits and any failures of CUDA, has a defined outcome, provided that the library's own
  small allocations, of a table entry and of a node of the table, succeed.  After it, what is alive is what was
  alive before and what exactly one entry of the table stands for, and the entry is found under its
  device address.  Once every entry has been freed, the system is as before and the device can be
  destroyed.\<close>

theorem gpu_memory_is_accounted:
  assumes "cuda_lawful C live" and "sound (live c)" and "gp_mtable ob = []"
    and "list_all (op_ok w page) xs" and "w \<longrightarrow> gp_support_gdrcopy ob \<and> gdr_ready env C g"
  shows "\<exists>ob' g' c'. mem_run env C page xs (ob, g, c) = Ret (ob', g', c') \<and>
    accounted (live c) (gp_mtable ob') (live c') \<and>
    (gp_mtable ob' = [] \<longrightarrow> live c' = live c \<and>
      gpu_destroy call (Some (open_handle ob')) = Ret (DOCA_SUCCESS, False))"
proof -
  have "session_inv env C live w (live c) (ob, g, c)"
    using assms(2,3,5) by (simp add: session_inv_def accounted_start)
  from mem_run_inv [OF assms(1) this assms(4)] obtain ob' g' c' where
    r: "mem_run env C page xs (ob, g, c) = Ret (ob', g', c')" "accounted (live c) (gp_mtable ob') (live c')"
    by (auto simp: session_inv_def)
  moreover have "live c' = live c" if "gp_mtable ob' = []"
    using accountedD(5) [OF r(2)] that by (simp add: table_owns_def)
  ultimately show ?thesis by (auto simp: gpu_destroy_def gpu_destroy_open_def open_handle_def)
qed

section \<open>Placement\<close>

lemma alloc_gpu_placed:
  assumes "alloc_gpu C al me c = (Some me', c')" "fits al me"
  shows "(\<exists>c1. cu_malloc C (size_orig me') c = (True, base_addr me', c1)) \<and>
    unat (size_orig me') = unat (me_size me) + unat al \<and> me_mtype me' = me_mtype me \<and>
    align_addr_gpu me' = align_address al (base_addr me')"
  using assms fits_add(1) [OF assms(2)] by (auto simp: alloc_gpu_def Let_def split: prod.splits if_splits)

text \<open>Placement.  When size and alignment add up within 64 bits and a request for device memory or
  mapped memory succeeds, the address it gives is a multiple of the alignment (the page size if
  none is asked for, 64 KiB for mapped memory), and the bytes asked for lie in the block that
  \<^verbatim>\<open>cudaMalloc\<close> gave.  Registered host memory lies likewise in the block that \<^verbatim>\<open>calloc\<close> gave, and
  exactly the bytes asked for are registered.\<close>

theorem allocated_memory_is_aligned_and_inside:
  assumes "mem_alloc_open ae env C page sz alignment mtype gpu_out cpu_out ob g c =
      Ret (DOCA_SUCCESS, r, ob', g', c')"
    and "alloc_alignment page alignment mtype = Some al" and "unat sz + unat al < 2 ^ 64"
    and "mtype \<in> {GPU_MEM_TYPE_GPU, GPU_MEM_TYPE_CPU_GPU} \<or>
         mtype = GPU_MEM_TYPE_GPU_CPU \<and> gp_support_gdrcopy ob"
  shows "\<exists>p n. unat n = unat sz + unat al \<and>
    (if mtype = GPU_MEM_TYPE_CPU_GPU then
       (\<exists>q c1 c2. cu_calloc C n 1 c = (p, c1) \<and> ar_cpu r = Some q \<and>
          unat al dvd q \<and> p \<le> q \<and> q + unat sz \<le> p + unat n \<and>
          cu_host_register C q sz c1 = (REG_SUCCESS, c2))
     else
       (\<exists>q c1. cu_malloc C n c = (True, p, c1) \<and> ar_gpu r = Some q \<and>
          unat al dvd q \<and> p \<le> q \<and> q + unat sz \<le> p + unat n))"
proof -
  have al: "al \<noteq> 0" by (rule alloc_alignment_props(2) [OF assms(2)])
  have sz: "sz \<noteq> 0" "gpu_out" "mtype \<noteq> GPU_MEM_TYPE_GPU \<Longrightarrow> cpu_out" "ga_mentry ae"
    using assms(1,2) by (auto simp: mem_alloc_open_def Let_def split: if_splits)
  let ?e = "new_mentry mtype sz"
  have f: "fits al ?e" using al sz assms(3) by (simp add: fits_def new_mentry_def)
  obtain me g1 c1 where k: "alloc_kind env C (gp_support_gdrcopy ob) al ?e g c = Ret (Some me, g1, c1)"
      "ar_gpu r = Some (align_addr_gpu me)" "cpu_out \<Longrightarrow> ar_cpu r = Some (align_addr_cpu me)"
    using assms(1,2) sz
    by (auto simp: mem_alloc_open_def Let_def split: if_splits option.splits outcome.splits)
  have mt: "me_mtype ?e = mtype" "me_size ?e = sz" by (simp_all add: new_mentry_def)
  have inside: "unat al dvd align_address al p \<and> p \<le> align_address al p \<and>
      align_address al p + unat sz \<le> p + (unat sz + unat al)" for p
    using align_address_props [OF al, of p] by simp
  show ?thesis
  proof (cases "mtype = GPU_MEM_TYPE_CPU_GPU")
    case True
    have a: "alloc_cpu_gpu C al ?e c = (Some me, c1)"
      using k(1) mt True by (auto simp: alloc_kind_def split: prod.splits)
    have n: "unat (sz + al) = unat sz + unat al" using fits_add(1) [OF f] mt by simp
    from a obtain c2 c3 where "cu_calloc C (sz + al) 1 c = (base_addr me, c2)"
        "align_addr_cpu me = align_address al (base_addr me)"
        "cu_host_register C (align_address al (base_addr me)) sz c2 = (REG_SUCCESS, c3)"
      by (auto simp: alloc_cpu_gpu_def Let_def mt split: prod.splits if_splits option.splits)
    then show ?thesis using True k(3) sz(3) inside [of "base_addr me"] n
      by (intro exI [of _ "base_addr me"] exI [of _ "sz + al"]) auto
  next
    case False
    obtain me1 c2 where a: "alloc_gpu C al ?e c = (Some me1, c2)" "align_addr_gpu me1 = align_addr_gpu me"
      using k(1) mt False assms(4)
      by (auto simp: alloc_kind_def alloc_gpu_cpu_def split: prod.splits option.splits outcome.splits)
    from alloc_gpu_placed [OF a(1) f] show ?thesis
      using False k(2) inside [of "base_addr me1"] mt a(2) by (intro exI [of _ "base_addr me1"] exI [of _ "size_orig me1"]) auto
  qed
qed

section \<open>Leaks\<close>

text \<open>
  Without GDRCopy a request for mapped memory is served with registered host memory, but the entry
  keeps its kind.  Its release then calls \<^verbatim>\<open>cudaFree\<close> on the host buffer: it reports success, and the
  buffer and its registration stay.
\<close>

text \<open>Host memory in place of mapped memory is never released.  On a device without GDRCopy, when
  a request for mapped memory succeeds, the release of the address it gave reports success and
  takes the entry out of the table, and yet a host buffer of 65536 times the size that was asked
  for, and its registration, which the request made, are still alive.\<close>

theorem fallback_memory_is_not_released:
  assumes "cuda_lawful C live" and "\<not> gp_support_gdrcopy ob"
    and "mem_alloc_open ae env C page sz alignment GPU_MEM_TYPE_GPU_CPU gpu_out cpu_out ob g c =
      Ret (DOCA_SUCCESS, r, ob', g', c')"
    and "ar_gpu r = Some q" and "map_of (gp_mtable ob) q = None"
  shows "\<exists>p d ob'' c''. mem_free_open C q ob' g' c' = Ret (DOCA_SUCCESS, ob'', c'') \<and>
    map_of (gp_mtable ob'') q = None \<and>
    {GReg p sz d, GHost p (65536 * sz)} \<subseteq> live c'' \<and>
    {GReg p sz d, GHost p (65536 * sz)} \<inter> live c = {} \<and> 65536 * unat sz < 2 ^ 64"
proof -
  let ?e = "new_mentry GPU_MEM_TYPE_GPU_CPU sz"
  obtain al where al: "alloc_alignment page alignment GPU_MEM_TYPE_GPU_CPU = Some al" and sz: "sz \<noteq> 0"
    using assms(3) by (auto simp: mem_alloc_open_def Let_def split: if_splits option.splits)
  have p: "al = GPU_PAGE_SIZE" "unat al = 65536" "al = 65536"
    using alloc_alignment_props(3) [OF al] by (simp_all add: GPU_PAGE_SIZE_def)
  obtain me where a: "alloc_fallback C al ?e c = (Some me, c')" "q = align_addr_gpu me"
      "ob' = ob\<lparr>gp_mtable := (q, me) # gp_mtable ob\<rparr>"
    using assms(2-5) al
    by (auto simp: mem_alloc_open_def Let_def alloc_kind_def new_mentry_def table_insert_def
        split: if_splits option.splits prod.splits outcome.splits)
  obtain b c1 where m: "cu_calloc C al sz c = (b, c1)" by fastforce
  obtain res c2 where h: "cu_host_register C b sz c1 = (res, c2)" by fastforce
  have f: "b \<noteq> null" "res = REG_SUCCESS" "cu_host_device_ptr C b c2 = Some q" "c' = c2"
      "me = ?e\<lparr>size_orig := sz, base_addr := b, align_addr_gpu := q, align_addr_cpu := b\<rparr>"
    using a(1,2) m h by (auto simp: alloc_fallback_def Let_def new_mentry_def split: if_splits option.splits)
  have g1: "gains live c (GHost b (al * sz)) c1" "unat al * unat sz < 2 ^ 64"
    using cuda_steps(11) [OF assms(1) m f(1)] by simp_all
  obtain d where d: "d \<noteq> null" "gains live c1 (GReg b sz d) c2"
    using cuda_steps(5) [OF assms(1) h [unfolded f(2)]] by blast
  have live2: "live c2 = insert (GReg b sz d) (insert (GHost b (al * sz)) (live c))"
      "GReg b sz d \<notin> live c" "GHost b (al * sz) \<notin> live c"
    using g1 d(2) by (auto simp: gains_def)
  have q: "q = d" using cuda_steps(8) [OF assms(1) f(3), of sz d] live2 by simp
  have "live (cu_free C b c2) = live c2 - {GDev b n | n. True}" by (rule cuda_steps(3) [OF assms(1)])
  then have "{GReg b sz d, GHost b (al * sz)} \<subseteq> live (cu_free C b c2)" using live2 by auto
  moreover have "mem_free_open C q ob' g' c' =
      Ret (DOCA_SUCCESS, ob'\<lparr>gp_mtable := AList.delete q (gp_mtable ob')\<rparr>, cu_free C b c2)"
    using assms(2) a(3) f(4,5) d(1) q by (simp add: mem_free_open_def release_kind_def new_mentry_def)
  moreover have "map_of (AList.delete q (gp_mtable ob')) q = None"
    by (simp add: delete_conv)
  ultimately show ?thesis using live2(2,3) g1(2) p by auto
qed

text \<open>
  A failed mapping leaves the device memory of the request allocated.
\<close>

lemma failed_mapping_leaks:
  assumes l: "cuda_lawful C live" and s: "sound (live c)" and sg: "gp_support_gdrcopy ob" and out: "gpu_out" "cpu_out"
    and al: "alloc_alignment page alignment GPU_MEM_TYPE_GPU_CPU = Some al"
    and sz: "sz \<noteq> 0" "unat sz + unat al < 2 ^ 64" and ae: "ga_mentry ae"
    and a: "alloc_gpu C al (new_mentry GPU_MEM_TYPE_GPU_CPU sz) c = (Some me, c1)"
    and m: "gdrcopy_create_mapping env C (align_addr_gpu me) sz g c1 = Ret (st, None, g', c')"
  shows "\<exists>p. mem_alloc_open ae env C page sz alignment GPU_MEM_TYPE_GPU_CPU gpu_out cpu_out ob g c =
      Ret (DOCA_ERROR_DRIVER, nothing_stored, ob, g', c') \<and>
    live c' = insert (GDev p (sz + al)) (live c) \<and> GDev p (sz + al) \<notin> live c"
proof -
  have f: "fits al (new_mentry GPU_MEM_TYPE_GPU_CPU sz)"
    using sz alloc_alignment_props(2) [OF al] by (simp add: fits_def new_mentry_def)
  obtain p where "gains live c (GDev p (sz + al)) c1" "me_size me = sz"
    using gpu_account [OF l s f a] by (auto simp: new_mentry_def)
  moreover from this have "live c' = live c1" using create_mapping_account [OF l m] by simp
  ultimately show ?thesis
    using sg out al sz ae a m
    by (auto simp: mem_alloc_open_def Let_def alloc_kind_def new_mentry_def alloc_gpu_cpu_def gains_def)
qed

text \<open>
  When size and alignment do not add up within 64 bits, the sum wraps: a request for almost all of
  the address space is served with a block of one page.
\<close>

lemma oversized_request_wraps:
  "case alloc_gpu ref_cuda 4096 (new_mentry GPU_MEM_TYPE_GPU (- 1)) [] of
     (r, c) \<Rightarrow> map_option me_size r = Some (- 1) \<and> c = [GDev 1 4095]"
  by (simp add: alloc_gpu_def new_mentry_def Let_def ref_cuda_def align_address_def)

section \<open>Witnesses\<close>

definition demo_gpu :: "bool \<Rightarrow> gpu_open" where
  "demo_gpu gdrcopy =
    \<lparr>gp_cuda_dev = 0, gp_mtable = [], gp_support_gdrcopy = gdrcopy, gp_support_dmabuf = True,
     gp_support_wq_gpumem = True, gp_support_cq_gpumem = True, gp_support_uar_gpumem = True,
     gp_support_async_store_release = False, gp_support_bf_uar = True, gp_need_mcst = False\<rparr>"

definition demo_alloc_env :: gpu_alloc_env where
  "demo_alloc_env =
    \<lparr>ga_handle = True, ga_open = True, ga_mtable = True, ga_mentry = True, ga_insert = True\<rparr>"

definition demo_gdr_env :: gdr_env where
  "demo_gdr_env =
    \<lparr>ge_disable = None, ge_dlopen = True, ge_table_malloc = True, ge_symbol = (\<lambda>s. True), ge_open = True,
     ge_mh_malloc = True\<rparr>"

definition gdr_loaded :: gdr_state where
  "gdr_loaded = \<lparr>gdr_ftable = True, gdr_handle = True, is_tried_init = True, is_supported = True\<rparr>"

definition demo_session :: "mem_op list" where
  "demo_session =
    [Alloc demo_alloc_env 100 0 GPU_MEM_TYPE_GPU True False,
     Alloc demo_alloc_env 8 256 GPU_MEM_TYPE_CPU_GPU True True,
     Alloc demo_alloc_env 64 0 GPU_MEM_TYPE_GPU_CPU True True, Free 4096]"

lemma demo_session_ok: "list_all (op_ok True 4096) demo_session"
  by (simp add: demo_session_def demo_alloc_env_def served_def new_mentry_def alloc_alignment_def
      is_power_of_two_def GPU_PAGE_SIZE_def)

lemma demo_gdr_ready: "gdr_ready demo_gdr_env ref_cuda gdr_loaded"
  by (simp add: gdr_ready_def demo_gdr_env_def gdr_loaded_def ref_cuda_def)

theorem gpu_memory_is_accounted_witness:
  "\<exists>ob' g' c'. mem_run demo_gdr_env ref_cuda 4096 demo_session (demo_gpu True, gdr_loaded, []) =
      Ret (ob', g', c') \<and> accounted {} (gp_mtable ob') (set c')"
proof -
  have "sound (set [])" "gp_mtable (demo_gpu True) = []"
    "True \<longrightarrow> gp_support_gdrcopy (demo_gpu True) \<and> gdr_ready demo_gdr_env ref_cuda gdr_loaded"
    using demo_gdr_ready by (simp_all add: sound_def demo_gpu_def)
  from gpu_memory_is_accounted [OF ref_cuda_lawful this(1,2) demo_session_ok this(3),
      where call = "\<lambda>p :: unit option. (DOCA_SDK_WRAPPER_SUCCESS, p)"]
  show ?thesis by auto
qed

lemma demo_alloc:
  "mem_alloc_open demo_alloc_env demo_gdr_env ref_cuda 4096 100 0 GPU_MEM_TYPE_GPU True False
     (demo_gpu True) gdr_loaded [] =
   Ret (DOCA_SUCCESS, \<lparr>ar_gpu = Some 4096, ar_cpu = None\<rparr>,
     (demo_gpu True)\<lparr>gp_mtable := [(4096, \<lparr>base_addr = 1, size_orig = 4196, align_addr_gpu = 4096,
        align_addr_cpu = null, me_size = 100, me_mtype = GPU_MEM_TYPE_GPU, gdr_mh = None\<rparr>)]\<rparr>,
     gdr_loaded, [GDev 1 4196])"
  by (simp add: mem_alloc_open_def Let_def alloc_alignment_def is_power_of_two_def alloc_kind_def alloc_gpu_def
      new_mentry_def ref_cuda_def align_address_def demo_gpu_def demo_alloc_env_def table_insert_def)

theorem allocated_memory_is_aligned_and_inside_witness:
  "\<exists>p n. unat n = 100 + 4096 \<and> (\<exists>q c1. cu_malloc ref_cuda n [] = (True, p, c1) \<and> q = (4096 :: ptr) \<and>
     4096 dvd q \<and> p \<le> q \<and> q + 100 \<le> p + unat n)"
  using allocated_memory_is_aligned_and_inside [OF demo_alloc, of 4096]
  by (simp add: alloc_alignment_def is_power_of_two_def)

lemma demo_fallback:
  "mem_alloc_open demo_alloc_env demo_gdr_env ref_cuda 4096 16 0 GPU_MEM_TYPE_GPU_CPU True True
     (demo_gpu False) gdr_unloaded [] =
   Ret (DOCA_SUCCESS, \<lparr>ar_gpu = Some 1048578, ar_cpu = Some 1\<rparr>,
     (demo_gpu False)\<lparr>gp_mtable := [(1048578, \<lparr>base_addr = 1, size_orig = 16, align_addr_gpu = 1048578,
        align_addr_cpu = 1, me_size = 16, me_mtype = GPU_MEM_TYPE_GPU_CPU, gdr_mh = None\<rparr>)]\<rparr>,
     gdr_unloaded, [GReg 1 16 1048578, GHost 1 1048576])"
  by (simp add: mem_alloc_open_def Let_def alloc_alignment_def is_power_of_two_def alloc_kind_def alloc_fallback_def
      new_mentry_def ref_cuda_def GPU_PAGE_SIZE_def demo_gpu_def demo_alloc_env_def table_insert_def
      registered_at_def device_address_def)

theorem fallback_memory_is_not_released_witness:
  "\<exists>p d ob'' c''. mem_free_open ref_cuda 1048578
      ((demo_gpu False)\<lparr>gp_mtable := [(1048578, \<lparr>base_addr = 1, size_orig = 16, align_addr_gpu = 1048578,
        align_addr_cpu = 1, me_size = 16, me_mtype = GPU_MEM_TYPE_GPU_CPU, gdr_mh = None\<rparr>)]\<rparr>)
      gdr_unloaded [GReg 1 16 1048578, GHost 1 1048576] = Ret (DOCA_SUCCESS, ob'', c'') \<and>
    {GReg p 16 d, GHost p 1048576} \<subseteq> set c''"
  using fallback_memory_is_not_released [OF ref_cuda_lawful _ demo_fallback, of 1048578]
  by (auto simp: demo_gpu_def)

end
