(* ===== verification/GpuUar.thy ===== *)
theory GpuUar
  imports GpuDemo
begin

text \<open>
  Doorbell registers mapped for the GPU: \<^verbatim>\<open>doca_gpu_verbs_can_gpu_register_uar\<close>,
  \<^verbatim>\<open>doca_gpu_verbs_export_uar\<close> and \<^verbatim>\<open>doca_gpu_verbs_unexport_uar\<close> of \<^verbatim>\<open>src/doca_gpunetio.cpp\<close>.  They
  hold one mutex from start to end, so each is one step.
\<close>

section \<open>The operations\<close>

text \<open>
  The static variables: the cached answer and whether it was computed, and the reference counts,
  32 bits wide, by host address.
\<close>

record uar_state =
  registration_checked :: bool
  can_register :: bool
  uar_refcount :: "(ptr \<times> u32) list"

definition uar_start :: uar_state where
  "uar_start = \<lparr>registration_checked = False, can_register = False, uar_refcount = []\<rparr>"

definition DB_UAR_SIZE :: u64 where "DB_UAR_SIZE = 8"

text \<open>\<open>out_ok\<close>: the result pointer is not null.\<close>

definition can_gpu_register_uar :: "'c cuda \<Rightarrow> ptr \<Rightarrow> bool \<Rightarrow> uar_state \<Rightarrow> 'c
    \<Rightarrow> doca_error \<times> bool option \<times> uar_state \<times> 'c" where
  "can_gpu_register_uar C db out_ok u c =
    (if \<not> out_ok then (DOCA_ERROR_INVALID_VALUE, None, u, c)
     else if registration_checked u then (DOCA_SUCCESS, Some (can_register u), u, c)
     else if db = null then (DOCA_ERROR_INVALID_VALUE, None, u, c)
     else case cu_host_register C db DB_UAR_SIZE c of (res, c1) \<Rightarrow>
       let can = (res = REG_SUCCESS \<or> res = REG_ALREADY_REGISTERED);
           c2 = (if res = REG_SUCCESS then snd (cu_host_unregister C db c1) else c1)
       in (DOCA_SUCCESS, Some can, u\<lparr>can_register := can, registration_checked := True\<rparr>, c2))"

definition uar_count :: "uar_state \<Rightarrow> ptr \<Rightarrow> u32" where
  "uar_count u p = (case map_of (uar_refcount u) p of Some n \<Rightarrow> n | None \<Rightarrow> 0)"

definition set_count :: "ptr \<Rightarrow> u32 \<Rightarrow> uar_state \<Rightarrow> uar_state" where
  "set_count p n u = u\<lparr>uar_refcount := AList.update p n (uar_refcount u)\<rparr>"

definition export_uar :: "'c cuda \<Rightarrow> ptr \<Rightarrow> bool \<Rightarrow> uar_state \<Rightarrow> 'c
    \<Rightarrow> doca_error \<times> ptr option \<times> uar_state \<times> 'c" where
  "export_uar C sq_db out_ok u c =
    (if sq_db = null \<or> \<not> out_ok then (DOCA_ERROR_INVALID_VALUE, None, u, c)
     else
       let u = (if map_of (uar_refcount u) sq_db = None then set_count sq_db 0 u else u);
           first = (uar_count u sq_db = 0)
       in case (if first then cu_host_register C sq_db DB_UAR_SIZE c else (REG_SUCCESS, c)) of (res, c1) \<Rightarrow>
         if res \<noteq> REG_SUCCESS then (DOCA_ERROR_DRIVER, None, u, c1)
         else case cu_host_device_ptr C sq_db c1 of
           None \<Rightarrow>
             (DOCA_ERROR_DRIVER, None, u, if first then snd (cu_host_unregister C sq_db c1) else c1)
         | Some p \<Rightarrow> (DOCA_SUCCESS, Some p, set_count sq_db (uar_count u sq_db + 1) u, c1))"

text \<open>The \<^verbatim>\<open>assert\<close> that an unsigned count is not negative always holds.\<close>

definition unexport_uar :: "'c cuda \<Rightarrow> ptr \<Rightarrow> uar_state \<Rightarrow> 'c \<Rightarrow> doca_error \<times> uar_state \<times> 'c" where
  "unexport_uar C uar_addr_gpu u c =
    (if uar_addr_gpu = null then (DOCA_ERROR_INVALID_VALUE, u, c)
     else if map_of (uar_refcount u) uar_addr_gpu = None then (DOCA_ERROR_INVALID_VALUE, u, c)
     else
       let u = set_count uar_addr_gpu (uar_count u uar_addr_gpu - 1) u
       in if uar_count u uar_addr_gpu = 0 then
            let u = u\<lparr>uar_refcount := AList.delete uar_addr_gpu (uar_refcount u)\<rparr>
            in case cu_host_unregister C uar_addr_gpu c of (ok, c1) \<Rightarrow>
              (if ok then DOCA_SUCCESS else DOCA_ERROR_DRIVER, u, c1)
          else (DOCA_SUCCESS, u, c))"

section \<open>Counts and registrations\<close>

text \<open>
  Clients share a register by exporting it more than once.  \<open>out\<close> says how many exports of each
  address a client still holds.  In a session, a client only gives back what it holds, and holds
  less than 2^32 - 1 exports of an address when it asks for another.
\<close>

inductive uar_session :: "'c cuda \<Rightarrow> uar_state \<Rightarrow> 'c \<Rightarrow> uar_state \<Rightarrow> 'c \<Rightarrow> (ptr \<Rightarrow> nat) \<Rightarrow> bool"
  for C :: "'c cuda" and u0 :: uar_state and c0 :: 'c where
  start: "uar_session C u0 c0 u0 c0 (\<lambda>p. 0)"
| ask: "uar_session C u0 c0 u c out \<Longrightarrow> can_gpu_register_uar C db b u c = (e, can, u', c')
    \<Longrightarrow> uar_session C u0 c0 u' c' out"
| exp: "uar_session C u0 c0 u c out \<Longrightarrow> out p < 2 ^ 32 - 1 \<Longrightarrow> export_uar C p b u c = (e, a, u', c')
    \<Longrightarrow> uar_session C u0 c0 u' c' (if e = DOCA_SUCCESS then out(p := Suc (out p)) else out)"
| unexp: "uar_session C u0 c0 u c out \<Longrightarrow> 0 < out p \<Longrightarrow> unexport_uar C p u c = (e, u', c')
    \<Longrightarrow> uar_session C u0 c0 u' c' (out(p := out p - 1))"

text \<open>
  The abstract account: every count is what the clients hold, and exactly the addresses they hold are
  registered, besides what was alive before.
\<close>

definition uar_regs :: "(ptr \<rightharpoonup> ptr) \<Rightarrow> gres set" where
  "uar_regs D = {GReg p DB_UAR_SIZE d | p d. D p = Some d}"

definition uar_account :: "gres set \<Rightarrow> uar_state \<Rightarrow> (ptr \<Rightarrow> nat) \<Rightarrow> gres set \<Rightarrow> bool" where
  "uar_account L u out S \<longleftrightarrow>
    (\<forall>p. unat (uar_count u p) = out p) \<and> sound S \<and>
    (\<exists>D. dom D = {p. 0 < out p} \<and> S = L \<union> uar_regs D \<and> L \<inter> uar_regs D = {})"

lemma uar_regs_mem: "GReg p DB_UAR_SIZE d \<in> uar_regs D \<longleftrightarrow> D p = Some d"
  by (auto simp: uar_regs_def)

lemma uar_regs_add: "D p = None \<Longrightarrow> uar_regs (D(p \<mapsto> d)) = insert (GReg p DB_UAR_SIZE d) (uar_regs D)"
  by (auto simp: uar_regs_def)

lemma uar_regs_del: "D p = Some d \<Longrightarrow> uar_regs (D(p := None)) = uar_regs D - {GReg p DB_UAR_SIZE d}"
  by (rule set_eqI) (auto simp: uar_regs_def split: if_splits, metis option.inject)

lemma uar_accountI:
  assumes "\<And>p. unat (uar_count u p) = out p" "sound S" "dom D = {p. 0 < out p}" "S = L \<union> uar_regs D"
    and "L \<inter> uar_regs D = {}"
  shows "uar_account L u out S"
  using assms unfolding uar_account_def by metis

lemma uar_count_simps [simp]:
  "uar_count (set_count p n u) q = (if q = p then n else uar_count u q)"
  "uar_count (u\<lparr>can_register := b\<rparr>) q = uar_count u q"
  "uar_count (u\<lparr>registration_checked := b\<rparr>) q = uar_count u q"
  "uar_count (u\<lparr>uar_refcount := AList.delete p (uar_refcount u)\<rparr>) q = (if q = p then 0 else uar_count u q)"
  by (simp_all add: uar_count_def set_count_def update_conv' delete_conv')

lemma uar_account_same:
  assumes "uar_account L u out S" "\<And>p. uar_count u' p = uar_count u p"
  shows "uar_account L u' out S"
  using assms by (simp add: uar_account_def)

lemma probe_leaves:
  assumes l: "cuda_lawful C live" and s: "sound (live c)"
    and r: "cu_host_register C p n c = (REG_SUCCESS, c1)"
  shows "live (snd (cu_host_unregister C p c1)) = live c"
proof -
  obtain d where d: "gains live c (GReg p n d) c1" "\<forall>m e. GReg p m e \<notin> live c"
    using cuda_steps(5) [OF l r] by blast
  obtain ok c2 where u: "cu_host_unregister C p c1 = (ok, c2)" by fastforce
  have s1: "sound (live c1)" by (rule sound_gains [OF s d(1)]) (use d(2) in auto)
  have "GReg p n d \<in> live c1" "live c1 - {GReg p n d} = live c" using d by (auto simp: gains_def)
  then have "live c2 = live c" using cuda_steps(7) [OF l u] sound_reg_unique [OF s1] by metis
  then show ?thesis using u by simp
qed

lemma ask_account:
  assumes l: "cuda_lawful C live" and a: "uar_account L u out (live c)"
    and r: "can_gpu_register_uar C db b u c = (e, can, u', c')"
  shows "uar_account L u' out (live c')"
proof -
  have s: "sound (live c)" using a by (simp add: uar_account_def)
  have "live c' = live c \<and> (\<forall>p. uar_count u' p = uar_count u p)"
    using r probe_leaves [OF l s] cuda_steps(6) [OF l]
    by (auto simp: can_gpu_register_uar_def Let_def split: if_splits prod.splits)
  then show ?thesis using a uar_account_same by metis
qed

lemma export_account:
  assumes l: "cuda_lawful C live" and a: "uar_account L u out (live c)" and out: "out p < 2 ^ 32 - 1"
    and r: "export_uar C p b u c = (e, addr, u', c')"
  shows "uar_account L u' (if e = DOCA_SUCCESS then out(p := Suc (out p)) else out) (live c') \<and>
    (e = DOCA_SUCCESS \<longrightarrow> (\<exists>d. addr = Some d \<and> GReg p DB_UAR_SIZE d \<in> live c'))"
proof (cases "p = null \<or> \<not> b")
  case True
  then show ?thesis using r a by (auto simp: export_uar_def)
next
  case False
  define u1 where "u1 = (if map_of (uar_refcount u) p = None then set_count p 0 u else u)"
  have u1: "uar_count u1 q = uar_count u q" for q
    by (auto simp: u1_def) (simp add: uar_count_def)
  obtain D where s: "sound (live c)" and cnt: "\<And>q. unat (uar_count u q) = out q"
    and D: "dom D = {q. 0 < out q}" "live c = L \<union> uar_regs D" "L \<inter> uar_regs D = {}"
    using a unfolding uar_account_def by blast
  have plus: "unat (uar_count u p + 1) = Suc (out p)"
    using out cnt [of p] unat_add_no_overflow [of "uar_count u p" 1] by simp
  have zero: "uar_count u p = 0 \<longleftrightarrow> out p = 0" using cnt [of p] by (metis unat_eq_0)
  obtain res c1 where reg: "(if uar_count u p = 0 then cu_host_register C p DB_UAR_SIZE c else (REG_SUCCESS, c)) = (res, c1)"
    by fastforce
  have a1: "uar_account L u1 out (live c)" by (rule uar_account_same [OF a u1])
  show ?thesis
  proof (cases "res = REG_SUCCESS")
    case res: False
    then have "live c1 = live c" using reg cuda_steps(6) [OF l] by (auto split: if_splits)
    then show ?thesis using r False reg res a1 unfolding export_uar_def Let_def
      by (auto simp: u1 u1_def [symmetric])
  next
    case res: True
    show ?thesis
    proof (cases "cu_host_device_ptr C p c1")
      case None
      have "live (if uar_count u p = 0 then snd (cu_host_unregister C p c1) else c1) = live c"
        using reg res probe_leaves [OF l s] by (auto split: if_splits)
      then show ?thesis using r False reg res None a1 unfolding export_uar_def Let_def
        by (auto simp: u1 u1_def [symmetric])
    next
      case (Some q)
      have r': "e = DOCA_SUCCESS" "addr = Some q" "c' = c1" "u' = set_count p (uar_count u p + 1) u1"
        using r False reg res Some unfolding export_uar_def Let_def by (auto simp: u1 u1_def [symmetric])
      have cnt': "unat (uar_count u' x) = (out(p := Suc (out p))) x" for x
        using plus cnt by (simp add: r'(4) u1)
      show ?thesis
      proof (cases "out p = 0")
        case True
        then have h: "cu_host_register C p DB_UAR_SIZE c = (REG_SUCCESS, c1)" using reg res zero by simp
        obtain d where d: "gains live c (GReg p DB_UAR_SIZE d) c1" "\<forall>m e. GReg p m e \<notin> live c"
          using cuda_steps(5) [OF l h] by blast
        have s1: "sound (live c1)" by (rule sound_gains [OF s d(1)]) (use d(2) in auto)
        have live1: "live c1 = insert (GReg p DB_UAR_SIZE d) (live c)" using d(1) by (simp add: gains_def)
        have "q = d" using cuda_steps(8) [OF l Some, of DB_UAR_SIZE d] live1 by simp
        moreover have "p \<notin> dom D" using D(1) True by simp
        then have n: "D p = None" by (simp add: domIff)
        have "uar_account L u' (out(p := Suc (out p))) (live c1)"
        proof (rule uar_accountI [OF cnt' s1])
          show "dom (D(p \<mapsto> d)) = {x. 0 < (out(p := Suc (out p))) x}" using D(1) by auto
          show "live c1 = L \<union> uar_regs (D(p \<mapsto> d))" using live1 D(2) by (simp add: uar_regs_add [of D p, OF n])
          show "L \<inter> uar_regs (D(p \<mapsto> d)) = {}" using D(2,3) d(2) by (simp add: uar_regs_add [of D p, OF n])
        qed
        ultimately show ?thesis using r' live1 by simp
      next
        case False
        then have c1: "c1 = c" using reg zero by simp
        obtain d where d: "D p = Some d" using D(1) False by blast
        then have "GReg p DB_UAR_SIZE d \<in> live c" using D(2) by (simp add: uar_regs_mem)
        moreover from this have "q = d" using cuda_steps(8) [OF l Some, of DB_UAR_SIZE d] c1 by simp
        moreover have "uar_account L u' (out(p := Suc (out p))) (live c)"
          by (rule uar_accountI [OF cnt' s _ D(2,3)]) (use D(1) False in auto)
        ultimately show ?thesis using r' c1 by simp
      qed
    qed
  qed
qed

lemma unexport_account:
  assumes l: "cuda_lawful C live" and a: "uar_account L u out (live c)" and out: "0 < out p" "p \<noteq> null"
    and r: "unexport_uar C p u c = (e, u', c')"
  shows "e = DOCA_SUCCESS \<and> uar_account L u' (out(p := out p - 1)) (live c')"
proof -
  obtain D where s: "sound (live c)" and cnt: "\<And>q. unat (uar_count u q) = out q"
    and D: "dom D = {q. 0 < out q}" "live c = L \<union> uar_regs D" "L \<inter> uar_regs D = {}"
    using a unfolding uar_account_def by blast
  obtain d where d: "D p = Some d" using D(1) out by blast
  then have g: "GReg p DB_UAR_SIZE d \<in> live c" using D(2) by (simp add: uar_regs_mem)
  have minus: "unat (uar_count u p - 1) = out p - 1"
    using out cnt [of p] unat_sub_le [of 1 "uar_count u p"] by (simp add: word_le_unat)
  have k: "map_of (uar_refcount u) p \<noteq> None"
  proof
    assume "map_of (uar_refcount u) p = None"
    then have "uar_count u p = 0" by (simp add: uar_count_def)
    then show False using cnt [of p] out by simp
  qed
  show ?thesis
  proof (cases "out p = 1")
    case True
    then have z: "uar_count u p - 1 = 0" using minus by (simp add: unat_eq_0)
    obtain ok c1 where h: "cu_host_unregister C p c = (ok, c1)" by fastforce
    have live1: "live c1 = live c - {GReg p DB_UAR_SIZE d}" and ok
      using cuda_steps(7) [OF l h] sound_reg_unique [OF s g] g by auto
    have u': "e = DOCA_SUCCESS" "c' = c1" "uar_count u' q = (if q = p then 0 else uar_count u q)" for q
      using r out k z h \<open>ok\<close> by (auto simp: unexport_uar_def Let_def)
    have "sound (live c1)" unfolding live1 by (rule sound_subset [OF s]) blast
    then have "uar_account L u' (out(p := out p - 1)) (live c1)"
    proof (rule uar_accountI [of u' "out(p := out p - 1)", rotated])
      show "unat (uar_count u' x) = (out(p := out p - 1)) x" for x using u'(3) cnt True by simp
      show "dom (D(p := None)) = {x. 0 < (out(p := out p - 1)) x}" using D(1) True by auto
      show "live c1 = L \<union> uar_regs (D(p := None))"
        using live1 D(2,3) d uar_regs_mem [of p d D] by (auto simp: uar_regs_del [of D p, OF d])
      show "L \<inter> uar_regs (D(p := None)) = {}" using D(3) by (auto simp: uar_regs_del [of D p, OF d])
    qed
    then show ?thesis using u'(1,2) by simp
  next
    case False
    then have z: "uar_count u p - 1 \<noteq> 0" using minus out by (metis One_nat_def diff_is_0_eq le_antisym less_eq_Suc_le unat_0)
    then have u': "e = DOCA_SUCCESS" "c' = c" "u' = set_count p (uar_count u p - 1) u"
      using r out k by (auto simp: unexport_uar_def Let_def)
    have "uar_account L u' (out(p := out p - 1)) (live c)"
    proof (rule uar_accountI [OF _ s _ D(2,3)])
      show "unat (uar_count u' x) = (out(p := out p - 1)) x" for x using minus cnt by (simp add: u'(3))
      show "dom D = {x. 0 < (out(p := out p - 1)) x}" using D(1) False out by auto
    qed
    then show ?thesis using u'(1,2) by simp
  qed
qed

section \<open>Sessions\<close>

lemma uar_account_start:
  assumes "sound S" "uar_refcount u = []"
  shows "uar_account S u (\<lambda>p. 0) S"
  by (rule uar_accountI [where D = Map.empty])
    (use assms in \<open>simp_all add: uar_count_def uar_regs_def\<close>)

lemma uar_session_account:
  assumes "uar_session C u0 c0 u c out" and l: "cuda_lawful C live"
    and "sound (live c0)" "uar_refcount u0 = []"
  shows "uar_account (live c0) u out (live c) \<and> out null = 0"
  using assms(1)
proof induction
  case start
  show ?case using uar_account_start [OF assms(3,4)] by simp
next
  case (ask u c out db b e can u' c')
  then show ?case using ask_account [OF l] by blast
next
  case (exp u c out p b e a u' c')
  then have "e = DOCA_SUCCESS \<Longrightarrow> p \<noteq> null" by (cases "p = null") (simp_all add: export_uar_def)
  then show ?case using exp export_account [OF l, of "live c0" u out c p b e a u' c'] by auto
next
  case (unexp u c out p e u' c')
  then have "p \<noteq> null" by (cases "p = null") simp_all
  then show ?case using unexp unexport_account [OF l, of "live c0" u out c p e u' c'] by (auto simp: fun_upd_def)
qed

text \<open>C27: Doorbell registers are shared by count.  Clients ask, export and unexport in any order, while
  any call to CUDA may fail, each client giving back what it holds.  Then the count of an address is
  always the number of exports held, the addresses held are exactly those registered on top of what
  was alive before, and every unexport of a held address succeeds.  A successful export gives the
  address at which the device sees the register.  When nothing is held any more, the system is as
  it was before.\<close>

theorem uar_exports_are_counted:
  assumes "cuda_lawful C live" and "sound (live c0)" and "uar_refcount u0 = []"
    and "uar_session C u0 c0 u c out"
  shows "unat (uar_count u p) = out p \<and>
    (\<exists>D. dom D = {q. 0 < out q} \<and> live c = live c0 \<union> uar_regs D \<and> live c0 \<inter> uar_regs D = {}) \<and>
    (0 < out p \<longrightarrow> fst (unexport_uar C p u c) = DOCA_SUCCESS) \<and>
    (out p < 2 ^ 32 - 1 \<longrightarrow> fst (export_uar C p True u c) = DOCA_SUCCESS \<longrightarrow>
      (\<exists>d u' c'. export_uar C p True u c = (DOCA_SUCCESS, Some d, u', c') \<and>
        GReg p DB_UAR_SIZE d \<in> live c')) \<and>
    (out = (\<lambda>p. 0) \<longrightarrow> live c = live c0)"
proof -
  have a: "uar_account (live c0) u out (live c)" "out null = 0"
    using uar_session_account [OF assms(4,1,2,3)] by auto
  obtain D where cnt: "unat (uar_count u p) = out p"
    and D: "dom D = {q. 0 < out q}" "live c = live c0 \<union> uar_regs D" "live c0 \<inter> uar_regs D = {}"
    using a(1) unfolding uar_account_def by blast
  have u: "fst (unexport_uar C p u c) = DOCA_SUCCESS" if "0 < out p"
  proof -
    have "p \<noteq> null" using that a(2) by (cases "p = null") simp_all
    then show ?thesis
      using unexport_account [OF assms(1) a(1) that] by (metis prod.collapse)
  qed
  have x: "\<exists>d u' c'. export_uar C p True u c = (DOCA_SUCCESS, Some d, u', c') \<and> GReg p DB_UAR_SIZE d \<in> live c'"
    if "out p < 2 ^ 32 - 1" "fst (export_uar C p True u c) = DOCA_SUCCESS"
  proof -
    obtain e ad u' c' where r: "export_uar C p True u c = (e, ad, u', c')" by (metis prod_cases4)
    then show ?thesis using export_account [OF assms(1) a(1) that(1) r] that(2) by auto
  qed
  have "live c = live c0" if "out = (\<lambda>p. 0)"
    using D(1,2) that by (auto simp: uar_regs_def)
  then show ?thesis using cnt D u x by blast
qed

text \<open>
  A failed export leaves an entry with count 0 behind.  Giving the address back then, which no client
  should, wraps the count around instead of being rejected, and the next exports find it registered.
\<close>

lemma unexport_after_failed_export_wraps:
  assumes "p \<noteq> null" "map_of (uar_refcount u) p = Some 0"
  shows "unexport_uar C p u c = (DOCA_SUCCESS, set_count p (- 1) u, c)"
proof -
  have "uar_count u p = 0" using assms by (simp add: uar_count_def)
  then show ?thesis using assms by (simp add: unexport_uar_def Let_def)
qed

lemma demo_uar_session:
  "uar_session ref_cuda uar_start [] (uar_start\<lparr>uar_refcount := [(16, 2)]\<rparr>) [GReg 16 8 1]
    ((\<lambda>p. 0)(16 := 2))"
proof -
  have e1: "export_uar ref_cuda 16 True uar_start [] =
      (DOCA_SUCCESS, Some 1, uar_start\<lparr>uar_refcount := [(16, 1)]\<rparr>, [GReg 16 8 1])"
    and e2: "export_uar ref_cuda 16 True (uar_start\<lparr>uar_refcount := [(16, 1)]\<rparr>) [GReg 16 8 1] =
      (DOCA_SUCCESS, Some 1, uar_start\<lparr>uar_refcount := [(16, 2)]\<rparr>, [GReg 16 8 1])"
    by (simp_all add: export_uar_def uar_start_def uar_count_def set_count_def ref_cuda_def Let_def
        DB_UAR_SIZE_def registered_at_def device_address_def)
  have "uar_session ref_cuda uar_start [] (uar_start\<lparr>uar_refcount := [(16, 1)]\<rparr>) [GReg 16 8 1] ((\<lambda>p. 0)(16 := Suc 0))"
    using uar_session.exp [OF uar_session.start _ e1] by simp
  moreover have "((\<lambda>p. 0)((16 :: ptr) := Suc 0)) 16 < (2 :: nat) ^ 32 - 1" by simp
  ultimately have "uar_session ref_cuda uar_start [] (uar_start\<lparr>uar_refcount := [(16, 2)]\<rparr>) [GReg 16 8 1]
      (if DOCA_SUCCESS = DOCA_SUCCESS then ((\<lambda>p. 0)(16 := Suc 0))(16 := Suc (((\<lambda>p. 0)((16 :: ptr) := Suc 0)) 16))
       else (\<lambda>p. 0)(16 := Suc 0))"
    by (rule uar_session.exp [OF _ _ e2])
  then show ?thesis by (simp add: fun_upd_def numeral_2_eq_2 cong: if_cong)
qed

theorem uar_exports_are_counted_witness:
  "unat (uar_count (uar_start\<lparr>uar_refcount := [(16, 2)]\<rparr>) 16) = 2 \<and>
   fst (unexport_uar ref_cuda 16 (uar_start\<lparr>uar_refcount := [(16, 2)]\<rparr>) [GReg 16 8 1]) = DOCA_SUCCESS"
  using uar_exports_are_counted [OF ref_cuda_lawful _ _ demo_uar_session, of 16]
  by (simp add: sound_def uar_start_def)

end
