(* ===== verification/GpuExport.thy ===== *)
theory GpuExport
  imports GpuUar VerbsCq DevSq
begin

text \<open>
  Handing a queue pair to the GPU, \<^verbatim>\<open>src/doca_gpunetio.cpp\<close>: \<^verbatim>\<open>doca_gpu_verbs_export_qp\<close> builds the device
  view of a queue pair and its completion queue, the other functions copy it to the device, take it
  back and reset it.
\<close>

section \<open>Data\<close>

datatype send_dbr_mode_ext =
    SEND_DBR_MODE_EXT_VALID_DBR | SEND_DBR_MODE_EXT_NO_DBR_HW | SEND_DBR_MODE_EXT_NO_DBR_SW_EMULATED

text \<open>
  \<^verbatim>\<open>struct doca_gpu_verbs_qp\<close>.  Its pointers to the device and to the verbs queue pair are arguments of the
  functions that use them.  \<open>gv_qp_cpu\<close> is the host copy of the device view.
\<close>

record gpu_verbs_qp =
  gv_cpu_db :: ptr
  gv_sq_wqe_pi_last :: u64
  gv_sq_db :: ptr
  gv_sq_dbrec :: ptr
  gv_cpu_proxy :: bool
  gv_sq_num_shift8_be :: u32
  gv_send_dbr_mode_ext :: send_dbr_mode_ext
  gv_qp_cpu :: dev_view
  gv_qp_gpu :: ptr
  gv_qp_gpu_h :: ptr

text \<open>Sizes and offsets of the packed \<^verbatim>\<open>struct doca_gpu_dev_verbs_qp\<close>.\<close>

definition DEV_QP_SIZE :: u64 where "DEV_QP_SIZE = 296"
definition SQ_WQE_PI_OFFSET :: nat where "SQ_WQE_PI_OFFSET = 16"

section \<open>What export reads from the verbs layer\<close>

text \<open>
  The SDK behind the verbs functions, the device a query goes to, the results of the small
  allocations, and the memory of the completion queue.
\<close>

record ('s, 'd) verbs_calls =
  vc_driver :: "'d driver"
  vc_qp_wq :: "('s, ptr \<times> u32 \<times> ptr \<times> u32 \<times> u32) sdk_get"
  vc_qp_dbr :: "('s, ptr) sdk_get"
  vc_qpn :: "('s, u32) sdk_get"
  vc_qp_uar :: "('s, ptr) sdk_get"
  vc_qp_query :: "'s option \<Rightarrow> ('s, qp_attr_open) handle \<Rightarrow> ('s, qp_init_attr_open) handle
    \<Rightarrow> doca_sdk_wrapper_error \<times> ('s, qp_attr_open) handle \<times> ('s, qp_init_attr_open) handle"
  vc_cq_wq :: "('s, ptr \<times> u32 \<times> u8) sdk_get"
  vc_cq_dbr :: "('s, ptr \<times> ptr \<times> ptr) sdk_get"
  vc_cqn :: "('s, u32) sdk_get"
  vc_init_create :: "bool \<times> (doca_sdk_wrapper_error \<times> 's option) \<times> bool"
  vc_attr_create :: "bool \<times> (doca_sdk_wrapper_error \<times> 's option) \<times> bool"
  vc_init_destroy :: "'s sdk_call"
  vc_attr_destroy :: "'s sdk_call"
  vc_dbr_mode :: "('s, u32) sdk_get"
  vc_state :: "('s, qp_state) sdk_get"
  vc_cqes :: "ptr \<Rightarrow> u32 \<Rightarrow> cqe64 list"
  vc_u32 :: "ptr \<Rightarrow> u32"

text \<open>\<^verbatim>\<open>doca_verbs_qp_query\<close>.\<close>

definition qp_query :: "('s, 'd) verbs_calls \<Rightarrow> 's verbs_qp \<Rightarrow> 's qp_attr \<Rightarrow> 's qp_init_attr \<Rightarrow> 'd
    \<Rightarrow> (doca_error \<times> 's qp_attr \<times> 's qp_init_attr) outcome" where
  "qp_query V qp qa ia d =
    (case (qp, qa, ia) of
       (Some h, Some a, Some i) \<Rightarrow>
         (let fall =
            (case (h_member h, h_member a, h_member i) of
               (Null, _, _) \<Rightarrow> Ret (DOCA_ERROR_INVALID_VALUE, qa, ia)
             | (_, Null, _) \<Rightarrow> Ret (DOCA_ERROR_INVALID_VALUE, qa, ia)
             | (_, _, Null) \<Rightarrow> Ret (DOCA_ERROR_INVALID_VALUE, qa, ia)
             | (OpenPtr q, OpenPtr ao, OpenPtr io) \<Rightarrow>
                 (case query_qp (vc_driver V) q ao io d of
                    (e, ao', io') \<Rightarrow>
                      Ret (e, Some (a\<lparr>h_member := OpenPtr ao'\<rparr>), Some (i\<lparr>h_member := OpenPtr io'\<rparr>)))
             | _ \<Rightarrow> Misuse)
          in if h_type h = LIB_TYPE_SDK then
               case sdk_obj (h_member h) of
                 Misuse \<Rightarrow> Misuse
               | Ret p \<Rightarrow>
                   (case vc_qp_query V p a i of
                      (DOCA_SDK_WRAPPER_SUCCESS, a', i') \<Rightarrow> Ret (DOCA_SUCCESS, Some a', Some i')
                    | (DOCA_SDK_WRAPPER_API_ERROR, a', i') \<Rightarrow> Ret (DOCA_ERROR_UNEXPECTED, Some a', Some i')
                    | _ \<Rightarrow> fall)
             else fall)
     | _ \<Rightarrow> Ret (DOCA_ERROR_INVALID_VALUE, qa, ia))"

text \<open>
  Creating two attribute objects, querying the queue pair, reading something from them, and destroying
  both, whose results do not count.
\<close>

definition free_attrs :: "('s, 'd) verbs_calls \<Rightarrow> 's qp_attr \<Rightarrow> 's qp_init_attr \<Rightarrow> 'r \<Rightarrow> 'r outcome" where
  "free_attrs V qa ia r =
    (case (if qa = None then Ret DOCA_SUCCESS else qp_attr_destroy (vc_attr_destroy V) qa) of
       Misuse \<Rightarrow> Misuse
     | Ret e1 \<Rightarrow>
       (case (if ia = None then Ret DOCA_SUCCESS else qp_init_attr_destroy (vc_init_destroy V) ia) of
          Misuse \<Rightarrow> Misuse
        | Ret e2 \<Rightarrow> Ret r))"

definition create_init :: "('s, 'd) verbs_calls \<Rightarrow> (doca_error \<times> 's qp_init_attr) outcome" where
  "create_init V = (case vc_init_create V of (a, s, n) \<Rightarrow> qp_init_attr_create a s n)"

definition create_attr :: "('s, 'd) verbs_calls \<Rightarrow> (doca_error \<times> 's qp_attr) outcome" where
  "create_attr V = (case vc_attr_create V of (a, s, n) \<Rightarrow> qp_attr_create a s n)"

definition query_send_dbr_mode :: "('s, 'd) verbs_calls \<Rightarrow> 's verbs_qp \<Rightarrow> 'd
    \<Rightarrow> (doca_error \<times> u32 option) outcome" where
  "query_send_dbr_mode V qp d =
    (case create_init V of
       Misuse \<Rightarrow> Misuse
     | Ret (e, ia) \<Rightarrow>
       if e \<noteq> DOCA_SUCCESS then free_attrs V None ia (e, None)
       else (case create_attr V of
          Misuse \<Rightarrow> Misuse
        | Ret (e, qa) \<Rightarrow>
          if e \<noteq> DOCA_SUCCESS then free_attrs V qa ia (e, None)
          else (case qp_query V qp qa ia d of
             Misuse \<Rightarrow> Misuse
           | Ret (e, qa, ia) \<Rightarrow>
             if e \<noteq> DOCA_SUCCESS then free_attrs V qa ia (e, None)
             else (case qp_init_attr_get_send_dbr_mode (vc_dbr_mode V) ia of
                Misuse \<Rightarrow> Misuse
              | Ret (e, m) \<Rightarrow> free_attrs V qa ia (e, m)))))"

definition bind_get :: "(doca_error \<times> 'v option) outcome \<Rightarrow> (doca_error \<Rightarrow> 'r outcome)
    \<Rightarrow> ('v \<Rightarrow> 'r outcome) \<Rightarrow> 'r outcome" where
  "bind_get m fail k =
    (case m of
       Misuse \<Rightarrow> Misuse
     | Ret (e, v) \<Rightarrow> if e \<noteq> DOCA_SUCCESS then fail e else (case v of None \<Rightarrow> Misuse | Some x \<Rightarrow> k x))"

text \<open>
  What is read of the queue pair, in the order of the code.  The result of \<^verbatim>\<open>doca_verbs_qp_get_wq\<close> is
  not checked; when it fails, a number of entries that was never set is used.
\<close>

record qp_inputs =
  qi_sq_buf :: ptr
  qi_sq_num :: u32
  qi_dbrec :: ptr
  qi_qpn :: u32
  qi_mode :: u32
  qi_sq_db :: ptr

definition mode_matches :: "send_dbr_mode_ext \<Rightarrow> u32 \<Rightarrow> bool" where
  "mode_matches ext mode \<longleftrightarrow>
    \<not> (ext = SEND_DBR_MODE_EXT_VALID_DBR \<and> mode \<noteq> ucast SEND_DBR_MODE_DBR_VALID \<or>
       ext = SEND_DBR_MODE_EXT_NO_DBR_HW \<and> mode \<noteq> ucast SEND_DBR_MODE_NO_DBR_EXT)"

definition read_qp :: "('s, 'd) verbs_calls \<Rightarrow> 's verbs_qp \<Rightarrow> send_dbr_mode_ext \<Rightarrow> 'd
    \<Rightarrow> (doca_error + qp_inputs) outcome" where
  "read_qp V qp ext d =
    (case qp_get_wq (vc_qp_wq V) True qp of
       Misuse \<Rightarrow> Misuse
     | Ret (e, None) \<Rightarrow> Misuse
     | Ret (e, Some (sq_buf, sq_size, rq_buf, rq_size, rcv_size)) \<Rightarrow>
       bind_get (qp_get_dbr_addr (vc_qp_dbr V) True qp) (\<lambda>e. Ret (Inl e)) (\<lambda>dbrec.
       bind_get (qp_get_qpn (vc_qpn V) True qp) (\<lambda>e. Ret (Inl e)) (\<lambda>qpn.
       bind_get (query_send_dbr_mode V qp d) (\<lambda>e. Ret (Inl e)) (\<lambda>mode.
       if \<not> mode_matches ext mode then Ret (Inl DOCA_ERROR_INVALID_VALUE)
       else bind_get (qp_get_uar_addr (vc_qp_uar V) True qp) (\<lambda>e. Ret (Inl e)) (\<lambda>sq_db.
         Ret (Inr \<lparr>qi_sq_buf = sq_buf, qi_sq_num = sq_size, qi_dbrec = dbrec, qi_qpn = qpn,
           qi_mode = mode, qi_sq_db = sq_db\<rparr>))))))"

section \<open>Building the view\<close>

text \<open>The completion queue of a zeroed view.\<close>

definition zero_dev_cq :: dev_cq where
  "zero_dev_cq = \<lparr>cqe_daddr = [], cq_num = 0, cqe_num = 0, cq_dbrec = 0, cqe_ci = 0, cqe_mask = 0,
     cqe_size = 0, cqe_rsvd = 0\<rparr>"

text \<open>The doorbell record of the send queue is the second word.\<close>

definition qp_view :: "qp_inputs \<Rightarrow> dev_view" where
  "qp_view i =
    dev_qp.extend (init_dev_qp (qi_qpn i) (qi_sq_num i) (qi_sq_buf i) zero_dev_cq NIC_HANDLER_AUTO)
      (dev_view.fields (qi_dbrec i + 4) null null null)"

definition new_gverbs :: "send_dbr_mode_ext \<Rightarrow> dev_view \<Rightarrow> gpu_verbs_qp" where
  "new_gverbs ext v =
    \<lparr>gv_cpu_db = null, gv_sq_wqe_pi_last = 0, gv_sq_db = null, gv_sq_dbrec = null, gv_cpu_proxy = False,
     gv_sq_num_shift8_be = 0, gv_send_dbr_mode_ext = ext, gv_qp_cpu = v, gv_qp_gpu = null,
     gv_qp_gpu_h = null\<rparr>"

text \<open>The GPU side: CUDA, GDRCopy, the allocations of the library, the SDK, the page size; and its state.\<close>

record ('g, 'c) gpu_calls =
  gc_cuda :: "'c cuda"
  gc_gdr_env :: gdr_env
  gc_alloc_env :: gpu_alloc_env
  gc_page_size :: u64
  gc_sdk_alloc :: "'g option \<Rightarrow> doca_sdk_wrapper_error \<times> alloc_result \<times> 'c"
  gc_sdk_free :: "'g option \<Rightarrow> doca_sdk_wrapper_error \<times> unit \<times> 'c"
  gc_calloc :: bool

record 'c gpu_lib =
  gl_gdr :: gdr_state
  gl_uar :: uar_state
  gl_sys :: 'c

definition lib_alloc :: "('g, 'c) gpu_calls \<Rightarrow> u64 \<Rightarrow> u64 \<Rightarrow> gpu_mem_type \<Rightarrow> 'g gpu option \<Rightarrow> 'c gpu_lib
    \<Rightarrow> (doca_error \<times> alloc_result \<times> 'g gpu option \<times> 'c gpu_lib) outcome" where
  "lib_alloc G sz alignment mtype dev l =
    (case gpu_mem_alloc (gc_alloc_env G) (gc_gdr_env G) (gc_cuda G) (gc_sdk_alloc G) (gc_page_size G) sz
        alignment mtype True True dev (gl_gdr l) (gl_sys l) of
       Misuse \<Rightarrow> Misuse
     | Ret (e, r, dev', g', c') \<Rightarrow> Ret (e, r, dev', l\<lparr>gl_gdr := g', gl_sys := c'\<rparr>))"

definition lib_free :: "('g, 'c) gpu_calls \<Rightarrow> ptr \<Rightarrow> 'g gpu option \<Rightarrow> 'c gpu_lib
    \<Rightarrow> (doca_error \<times> 'g gpu option \<times> 'c gpu_lib) outcome" where
  "lib_free G p dev l =
    (case gpu_mem_free (gc_cuda G) (gc_sdk_free G) p dev (gl_gdr l) (gl_sys l) of
       Misuse \<Rightarrow> Misuse
     | Ret (e, u, dev', g', c') \<Rightarrow> Ret (e, dev', l\<lparr>gl_gdr := g', gl_sys := c'\<rparr>))"

definition lib_export_uar :: "('g, 'c) gpu_calls \<Rightarrow> ptr \<Rightarrow> 'c gpu_lib
    \<Rightarrow> doca_error \<times> ptr option \<times> 'c gpu_lib" where
  "lib_export_uar G p l =
    (case export_uar (gc_cuda G) p True (gl_uar l) (gl_sys l) of
       (e, a, u, c) \<Rightarrow> (e, a, l\<lparr>gl_uar := u, gl_sys := c\<rparr>))"

definition lib_unexport_uar :: "('g, 'c) gpu_calls \<Rightarrow> ptr \<Rightarrow> 'c gpu_lib \<Rightarrow> doca_error \<times> 'c gpu_lib" where
  "lib_unexport_uar G p l =
    (case unexport_uar (gc_cuda G) p (gl_uar l) (gl_sys l) of
       (e, u, c) \<Rightarrow> (e, l\<lparr>gl_uar := u, gl_sys := c\<rparr>))"

text \<open>
  The doorbell: exported to the GPU, or a word of shared memory that the CPU proxy watches.  The
  view's doorbell pointer stays null when its export failed.
\<close>

definition direct_handler :: "nic_handler \<Rightarrow> send_dbr_mode_ext \<Rightarrow> u32 \<Rightarrow> nic_handler" where
  "direct_handler nic ext mode =
    (if nic = NIC_HANDLER_AUTO then
       if mode = ucast SEND_DBR_MODE_NO_DBR_EXT \<or> ext = SEND_DBR_MODE_EXT_NO_DBR_SW_EMULATED
       then NIC_HANDLER_GPU_SM_NO_DBR else NIC_HANDLER_GPU_SM_DB
     else nic)"

definition set_direct :: "nic_handler \<Rightarrow> qp_inputs \<Rightarrow> ptr \<Rightarrow> gpu_verbs_qp \<Rightarrow> gpu_verbs_qp" where
  "set_direct nic i p gv =
    (let gv = (if gv_send_dbr_mode_ext gv = SEND_DBR_MODE_EXT_NO_DBR_SW_EMULATED
          then gv\<lparr>gv_sq_dbrec := dv_sq_dbrec (gv_qp_cpu gv), gv_sq_db := qi_sq_db i, gv_cpu_proxy := True\<rparr>
          else gv)
     in gv\<lparr>gv_qp_cpu := (gv_qp_cpu gv)\<lparr>dv_sq_db := p,
          qp_nic_handler := direct_handler nic (gv_send_dbr_mode_ext gv) (qi_mode i)\<rparr>\<rparr>)"

definition set_proxy :: "qp_inputs \<Rightarrow> ptr \<Rightarrow> gpu_verbs_qp \<Rightarrow> gpu_verbs_qp" where
  "set_proxy i cpu_db gv =
    (let v = (gv_qp_cpu gv)\<lparr>dv_sq_db := cpu_db, qp_nic_handler := NIC_HANDLER_CPU_PROXY\<rparr>
     in gv\<lparr>gv_cpu_db := cpu_db, gv_cpu_proxy := True, gv_sq_num_shift8_be := sq_num_shift8_be v,
          gv_sq_dbrec := dv_sq_dbrec v, gv_sq_db := qi_sq_db i, gv_qp_cpu := v\<rparr>)"

definition set_doorbell :: "('g, 'c) gpu_calls \<Rightarrow> nic_handler \<Rightarrow> qp_inputs \<Rightarrow> gpu_verbs_qp \<Rightarrow> 'g gpu option
    \<Rightarrow> 'c gpu_lib \<Rightarrow> (doca_error \<times> gpu_verbs_qp \<times> 'g gpu option \<times> 'c gpu_lib) outcome" where
  "set_doorbell G nic i gv dev l =
    (case (if nic \<noteq> NIC_HANDLER_CPU_PROXY then lib_export_uar G (qi_sq_db i) l else (DOCA_SUCCESS, None, l)) of
       (e, a, l) \<Rightarrow>
         if e \<noteq> DOCA_SUCCESS \<and> nic \<noteq> NIC_HANDLER_AUTO then Ret (e, gv, dev, l)
         else if e \<noteq> DOCA_SUCCESS \<or> nic = NIC_HANDLER_CPU_PROXY then
           (case lib_alloc G 8 (gc_page_size G) GPU_MEM_TYPE_CPU_GPU dev l of
              Misuse \<Rightarrow> Misuse
            | Ret (e, r, dev, l) \<Rightarrow>
                if e \<noteq> DOCA_SUCCESS then Ret (e, gv, dev, l)
                else (case ar_cpu r of
                   None \<Rightarrow> Misuse
                 | Some p \<Rightarrow> if p = null then Misuse else Ret (DOCA_SUCCESS, set_proxy i p gv, dev, l)))
         else (case a of None \<Rightarrow> Misuse | Some p \<Rightarrow> Ret (DOCA_SUCCESS, set_direct nic i p gv, dev, l)))"

text \<open>The completion queue; the results of reading its buffer and its number are not checked.\<close>

definition set_cq :: "('s, 'd) verbs_calls \<Rightarrow> 's verbs_cq \<Rightarrow> gpu_verbs_qp
    \<Rightarrow> (doca_error \<times> gpu_verbs_qp) outcome" where
  "set_cq V cq gv =
    (case cq_get_wq (vc_cq_wq V) cq of
       Misuse \<Rightarrow> Misuse
     | Ret (e, wq) \<Rightarrow>
       let (addr, n, sz) = (case wq of Some w \<Rightarrow> w | None \<Rightarrow> (null, 0, 0));
           v = gv_qp_cpu gv;
           v = v\<lparr>dv_cqe_daddr := addr, cq_sq := (cq_sq v)\<lparr>cqe_daddr := vc_cqes V addr n, cqe_num := n, cqe_size := sz\<rparr>\<rparr>
       in bind_get (cq_get_dbr_addr (vc_cq_dbr V) cq) (\<lambda>e. Ret (e, gv\<lparr>gv_qp_cpu := v\<rparr>)) (\<lambda>(db_reg, ci_dbr, arm_dbr).
         case cq_get_cqn (vc_cqn V) cq of
           Misuse \<Rightarrow> Misuse
         | Ret (e, cqn) \<Rightarrow>
             Ret (DOCA_SUCCESS, gv\<lparr>gv_qp_cpu := v\<lparr>dv_cq_dbrec := ci_dbr,
               cq_sq := (cq_sq v)\<lparr>cq_dbrec := vc_u32 V ci_dbr, cq_num := (case cqn of Some x \<Rightarrow> x | None \<Rightarrow> 0),
                 cqe_mask := n - 1, cqe_ci := 0, cqe_rsvd := 0\<rparr>\<rparr>\<rparr>)))"

section \<open>Export and unexport\<close>

text \<open>
  On an error the doorbell is unexported unless the proxy is in use.  The address given back is the
  one of the device.
\<close>

definition export_cleanup :: "('g, 'c) gpu_calls \<Rightarrow> gpu_verbs_qp \<Rightarrow> 'c gpu_lib \<Rightarrow> 'c gpu_lib" where
  "export_cleanup G gv l =
    (if dv_sq_db (gv_qp_cpu gv) \<noteq> null \<and> qp_nic_handler (gv_qp_cpu gv) \<noteq> NIC_HANDLER_CPU_PROXY
     then snd (lib_unexport_uar G (dv_sq_db (gv_qp_cpu gv)) l) else l)"

definition export_qp_open :: "('s, 'd) verbs_calls \<Rightarrow> ('g, 'c) gpu_calls \<Rightarrow> 'd \<Rightarrow> 's verbs_qp \<Rightarrow> nic_handler
    \<Rightarrow> 's verbs_cq \<Rightarrow> send_dbr_mode_ext \<Rightarrow> 'g gpu option \<Rightarrow> 'c gpu_lib
    \<Rightarrow> (doca_error \<times> gpu_verbs_qp option \<times> 'g gpu option \<times> 'c gpu_lib) outcome" where
  "export_qp_open V G d qp nic cq ext dev l =
    (case read_qp V qp ext d of
       Misuse \<Rightarrow> Misuse
     | Ret (Inl e) \<Rightarrow> Ret (e, None, dev, l)
     | Ret (Inr i) \<Rightarrow>
       (case set_doorbell G nic i (new_gverbs ext (qp_view i)) dev l of
          Misuse \<Rightarrow> Misuse
        | Ret (e, gv, dev, l) \<Rightarrow>
          if e \<noteq> DOCA_SUCCESS then Ret (e, None, dev, export_cleanup G gv l)
          else (case set_cq V cq gv of
             Misuse \<Rightarrow> Misuse
           | Ret (e, gv) \<Rightarrow>
             if e \<noteq> DOCA_SUCCESS then Ret (e, None, dev, export_cleanup G gv l)
             else Ret (DOCA_SUCCESS, Some gv, dev, l))))"

definition export_qp :: "('s, 'd) verbs_calls \<Rightarrow> ('g, 'c) gpu_calls \<Rightarrow> 'd \<Rightarrow> 's verbs_qp \<Rightarrow> nic_handler
    \<Rightarrow> 's verbs_cq \<Rightarrow> send_dbr_mode_ext \<Rightarrow> 'g gpu option \<Rightarrow> 'c gpu_lib
    \<Rightarrow> (doca_error \<times> gpu_verbs_qp option \<times> 'g gpu option \<times> 'c gpu_lib) outcome" where
  "export_qp V G d qp nic cq ext dev l =
    (case dev of
       None \<Rightarrow> Misuse
     | Some h \<Rightarrow>
       (case h_member h of
          SdkPtr s \<Rightarrow> Misuse
        | Null \<Rightarrow> Ret (DOCA_ERROR_INVALID_VALUE, None, dev, l)
        | OpenPtr ob \<Rightarrow>
            if qp = None \<or> cq = None then Ret (DOCA_ERROR_INVALID_VALUE, None, dev, l)
            else if nic = NIC_HANDLER_GPU_SM_NO_DBR \<and> ext = SEND_DBR_MODE_EXT_VALID_DBR
            then Ret (DOCA_ERROR_INVALID_VALUE, None, dev, l)
            else if ext = SEND_DBR_MODE_EXT_NO_DBR_SW_EMULATED \<and> \<not> gp_support_gdrcopy ob
            then Ret (DOCA_ERROR_INVALID_VALUE, None, dev, l)
            else if \<not> gc_calloc G then Ret (DOCA_ERROR_NO_MEMORY, None, dev, l)
            else export_qp_open V G d qp nic cq ext dev l))"

text \<open>The results of releasing memory and doorbell do not count.  \<open>null_qp\<close>: the argument is null.\<close>

definition unexport_qp :: "('g, 'c) gpu_calls \<Rightarrow> gpu_verbs_qp option \<Rightarrow> 'g gpu option \<Rightarrow> 'c gpu_lib
    \<Rightarrow> (doca_error \<times> 'g gpu option \<times> 'c gpu_lib) outcome" where
  "unexport_qp G gvo dev l =
    (case (dev, gvo) of
       (Some h, Some gv) \<Rightarrow>
         (let v = gv_qp_cpu gv in
          case (if gv_cpu_db gv \<noteq> null \<and>
                   (gv_send_dbr_mode_ext gv \<noteq> SEND_DBR_MODE_EXT_NO_DBR_SW_EMULATED \<or>
                    qp_nic_handler v = NIC_HANDLER_CPU_PROXY)
                then lib_free G (gv_cpu_db gv) dev l else Ret (DOCA_SUCCESS, dev, l)) of
            Misuse \<Rightarrow> Misuse
          | Ret (e, dev, l) \<Rightarrow>
              let l = (if qp_nic_handler v \<noteq> NIC_HANDLER_CPU_PROXY
                       then snd (lib_unexport_uar G (dv_sq_db v) l) else l)
              in (case (if gv_qp_gpu gv \<noteq> null then lib_free G (gv_qp_gpu gv) dev l
                        else Ret (DOCA_SUCCESS, dev, l)) of
                    Misuse \<Rightarrow> Misuse
                  | Ret (e, dev, l) \<Rightarrow> Ret (DOCA_SUCCESS, dev, l)))
     | _ \<Rightarrow> Ret (DOCA_ERROR_INVALID_VALUE, dev, l))"

section \<open>The copy on the device\<close>

definition view_mem_type :: "bool \<Rightarrow> gpu_mem_type" where
  "view_mem_type mapped = (if mapped then GPU_MEM_TYPE_GPU_CPU else GPU_MEM_TYPE_GPU)"

definition copy_views :: "('g, 'c) gpu_calls \<Rightarrow> ptr \<Rightarrow> dev_view list \<Rightarrow> 'c gpu_lib \<Rightarrow> bool \<times> 'c gpu_lib" where
  "copy_views G p vs l = (case cu_copy_qps (gc_cuda G) p vs (gl_sys l) of (ok, c) \<Rightarrow> (ok, l\<lparr>gl_sys := c\<rparr>))"

text \<open>
  The queue pair whose index the CPU must watch in device memory: the one that emulates the doorbell
  record in software and is not driven by the proxy.
\<close>

definition watched :: "gpu_verbs_qp \<Rightarrow> bool" where
  "watched gv \<longleftrightarrow> gv_send_dbr_mode_ext gv = SEND_DBR_MODE_EXT_NO_DBR_SW_EMULATED \<and>
    qp_nic_handler (gv_qp_cpu gv) \<noteq> NIC_HANDLER_CPU_PROXY"

definition get_qp_dev :: "('g, 'c) gpu_calls \<Rightarrow> gpu_verbs_qp \<Rightarrow> 'g gpu option \<Rightarrow> 'c gpu_lib
    \<Rightarrow> (doca_error \<times> ptr option \<times> gpu_verbs_qp \<times> 'g gpu option \<times> 'c gpu_lib) outcome" where
  "get_qp_dev G gv dev l =
    (if gv_qp_gpu gv \<noteq> null then Ret (DOCA_SUCCESS, Some (gv_qp_gpu gv), gv, dev, l)
     else
       let mtype = view_mem_type (gv_send_dbr_mode_ext gv = SEND_DBR_MODE_EXT_NO_DBR_SW_EMULATED)
       in case lib_alloc G DEV_QP_SIZE (gc_page_size G) mtype dev l of
            Misuse \<Rightarrow> Misuse
          | Ret (e, r, dev, l) \<Rightarrow>
            let gv = gv\<lparr>gv_qp_gpu := (case ar_gpu r of Some p \<Rightarrow> p | None \<Rightarrow> null),
                        gv_qp_gpu_h := (case ar_cpu r of Some p \<Rightarrow> p | None \<Rightarrow> gv_qp_gpu_h gv)\<rparr>
            in if e \<noteq> DOCA_SUCCESS then Ret (e, None, gv, dev, l)
               else case copy_views G (gv_qp_gpu gv) [gv_qp_cpu gv] l of (ok, l) \<Rightarrow>
                 if \<not> ok then
                   (case lib_free G (gv_qp_gpu gv) dev l of
                      Misuse \<Rightarrow> Misuse
                    | Ret (e, dev, l) \<Rightarrow>
                        Ret (DOCA_ERROR_DRIVER, None, gv\<lparr>gv_qp_gpu := null, gv_qp_gpu_h := null\<rparr>, dev, l))
                 else
                   let gv = (if watched gv then gv\<lparr>gv_cpu_db := gv_qp_gpu_h gv + SQ_WQE_PI_OFFSET\<rparr> else gv)
                   in Ret (DOCA_SUCCESS, Some (gv_qp_gpu gv), gv, dev, l))"

text \<open>
  Many queue pairs at once: an array on the device.  \<open>host_ok\<close>: the host buffer for the copies could be
  allocated; when it could not, the array stays allocated and the call reports success without
  having done anything else.
\<close>

definition place_qp :: "ptr \<Rightarrow> ptr \<Rightarrow> nat \<Rightarrow> gpu_verbs_qp \<Rightarrow> gpu_verbs_qp" where
  "place_qp qp_gpus_d qp_cpus i gv =
    (let gv = gv\<lparr>gv_qp_gpu := qp_gpus_d + i * unat DEV_QP_SIZE\<rparr>
     in if watched gv
        then let h = qp_cpus + i * unat DEV_QP_SIZE
             in gv\<lparr>gv_qp_gpu_h := h, gv_cpu_db := h + SQ_WQE_PI_OFFSET\<rparr>
        else gv)"

definition export_multi_qps_dev :: "('g, 'c) gpu_calls \<Rightarrow> bool \<Rightarrow> gpu_verbs_qp list \<Rightarrow> 'g gpu option
    \<Rightarrow> 'c gpu_lib \<Rightarrow> (doca_error \<times> ptr option \<times> gpu_verbs_qp list \<times> 'g gpu option \<times> 'c gpu_lib) outcome" where
  "export_multi_qps_dev G host_ok gvs dev l =
    (if dev = None \<or> gvs = [] then Ret (DOCA_ERROR_INVALID_VALUE, None, gvs, dev, l)
     else
       let mapped = list_ex (\<lambda>gv. gv_send_dbr_mode_ext gv = SEND_DBR_MODE_EXT_NO_DBR_SW_EMULATED) gvs;
           sz = DEV_QP_SIZE * of_nat (length gvs)
       in case lib_alloc G sz GPU_PAGE_SIZE (view_mem_type mapped) dev l of
            Misuse \<Rightarrow> Misuse
          | Ret (e, r, dev, l) \<Rightarrow>
            let qp_gpus_d = (case ar_gpu r of Some p \<Rightarrow> p | None \<Rightarrow> null);
                qp_cpus = (case ar_cpu r of Some p \<Rightarrow> p | None \<Rightarrow> null);
                fail = (\<lambda>e gvs l. if qp_gpus_d = null then Ret (e, None, gvs, dev, l)
                  else case lib_free G qp_gpus_d dev l of
                    Misuse \<Rightarrow> Misuse | Ret (e', dev, l) \<Rightarrow> Ret (e, None, gvs, dev, l))
            in if e \<noteq> DOCA_SUCCESS then fail e gvs l
               else if \<not> host_ok then Ret (DOCA_SUCCESS, None, gvs, dev, l)
               else
                 let gvs' = map (\<lambda>i. place_qp qp_gpus_d qp_cpus i (gvs ! i)) [0 ..< length gvs]
                 in case copy_views G qp_gpus_d (map gv_qp_cpu gvs') l of (ok, l) \<Rightarrow>
                      if \<not> ok then fail DOCA_ERROR_DRIVER gvs' l
                      else Ret (DOCA_SUCCESS, Some qp_gpus_d, gvs', dev, l))"

definition unexport_multi_qps_dev :: "('g, 'c) gpu_calls \<Rightarrow> gpu_verbs_qp list \<Rightarrow> ptr \<Rightarrow> 'g gpu option
    \<Rightarrow> 'c gpu_lib \<Rightarrow> (doca_error \<times> gpu_verbs_qp list \<times> 'g gpu option \<times> 'c gpu_lib) outcome" where
  "unexport_multi_qps_dev G gvs qp_gpus dev l =
    (if dev = None \<or> gvs = [] \<or> qp_gpus = null then Ret (DOCA_ERROR_INVALID_VALUE, gvs, dev, l)
     else case lib_free G qp_gpus dev l of
       Misuse \<Rightarrow> Misuse
     | Ret (e, dev, l) \<Rightarrow> Ret (e, map (\<lambda>gv. gv\<lparr>gv_qp_gpu := null, gv_qp_gpu_h := null\<rparr>) gvs, dev, l))"

section \<open>Errors and reset\<close>

text \<open>
  When the destruction of an attribute object reports an error, which it does after freeing the handle,
  the exit label destroys the same handle again: a step without a defined outcome.
\<close>

definition query_last_error :: "('s, 'd) verbs_calls \<Rightarrow> 's verbs_qp \<Rightarrow> bool \<Rightarrow> 'd
    \<Rightarrow> (doca_error \<times> bool option) outcome" where
  "query_last_error V qp out_ok d =
    (if qp = None \<or> \<not> out_ok then Ret (DOCA_ERROR_INVALID_VALUE, None)
     else case create_init V of
       Misuse \<Rightarrow> Misuse
     | Ret (e, ia) \<Rightarrow>
       if e \<noteq> DOCA_SUCCESS then free_attrs V None ia (e, Some False)
       else (case create_attr V of
          Misuse \<Rightarrow> Misuse
        | Ret (e, qa) \<Rightarrow>
          if e \<noteq> DOCA_SUCCESS then free_attrs V qa ia (e, Some False)
          else (case qp_query V qp qa ia d of
             Misuse \<Rightarrow> Misuse
           | Ret (e, qa, ia) \<Rightarrow>
             if e \<noteq> DOCA_SUCCESS then free_attrs V qa ia (e, Some False)
             else bind_get (qp_attr_get_current_state (vc_state V) qa) (\<lambda>e. free_attrs V qa ia (e, Some False))
               (\<lambda>st. let err = Some (st = QP_STATE_ERR) in
                 case qp_init_attr_destroy (vc_init_destroy V) ia of
                   Misuse \<Rightarrow> Misuse
                 | Ret e \<Rightarrow>
                   if e \<noteq> DOCA_SUCCESS then Misuse
                   else (case qp_attr_destroy (vc_attr_destroy V) qa of
                      Misuse \<Rightarrow> Misuse
                    | Ret e \<Rightarrow>
                      if e \<noteq> DOCA_SUCCESS then Misuse
                      else Ret (DOCA_SUCCESS, err))))))"

text \<open>
  The reset.  The stores to the doorbell record and to the word the CPU watches go through the CPU when
  it is involved, and are reported as in \<open>DevSq\<close>.  The \<^verbatim>\<open>assert\<close>s on the pointers are steps without a
  defined outcome when they do not hold.
\<close>

definition reset_fields :: "u64 \<Rightarrow> gpu_verbs_qp \<Rightarrow> gpu_verbs_qp" where
  "reset_fields rsvd gv =
    (let v = gv_qp_cpu gv
     in gv\<lparr>gv_sq_wqe_pi_last := 0,
          gv_qp_cpu := v\<lparr>sq_wqe_pi := 0, sq_rsvd_index := 0, sq_ready_index := 0, sq_lock := 0,
            cq_sq := (cq_sq v)\<lparr>cqe_ci := 0, cqe_rsvd := rsvd\<rparr>\<rparr>\<rparr>)"

definition reset_tracking_and_memory :: "('g, 'c) gpu_calls \<Rightarrow> gpu_verbs_qp option \<Rightarrow> 'c
    \<Rightarrow> (doca_error \<times> gpu_verbs_qp option \<times> nic_write list \<times> 'c) outcome" where
  "reset_tracking_and_memory G gvo c =
    (case gvo of
       None \<Rightarrow> Ret (DOCA_ERROR_INVALID_VALUE, None, [], c)
     | Some gv \<Rightarrow>
       if gv_qp_gpu gv = null then Misuse
       else case cu_read_qp (gc_cuda G) (gv_qp_gpu gv) c of
         None \<Rightarrow> Ret (DOCA_ERROR_DRIVER, Some gv, [], c)
       | Some qp_gpu_h \<Rightarrow>
         let gv = reset_fields (sq_rsvd_index qp_gpu_h) gv; v = gv_qp_cpu gv;
             rest = (\<lambda>writes c.
               if dv_cqe_daddr v = null then Misuse
               else case cu_memset (gc_cuda G) (dv_cqe_daddr v) 0xff
                   (ucast (cqe_num (cq_sq v) * ucast (cqe_size (cq_sq v)))) c of (ok, c) \<Rightarrow>
                 if \<not> ok then Ret (DOCA_ERROR_DRIVER, Some gv, writes, c)
                 else if sq_wqe_daddr v = null then Misuse
                 else case cu_memset (gc_cuda G) (sq_wqe_daddr v) 0 (ucast (sq_wqe_num v) * 64) c of (ok, c) \<Rightarrow>
                   if \<not> ok then Ret (DOCA_ERROR_DRIVER, Some gv, writes, c)
                   else case cu_copy_qps (gc_cuda G) (gv_qp_gpu gv) [v] c of (ok, c) \<Rightarrow>
                     if \<not> ok \<or> \<not> cu_synchronize (gc_cuda G) c
                     then Ret (DOCA_ERROR_DRIVER, Some gv, writes, c)
                     else Ret (DOCA_SUCCESS, Some gv, writes, c))
         in if gv_cpu_proxy gv then
              (if gv_sq_dbrec gv = null \<or> gv_cpu_db gv = null then Misuse
               else rest [WRITE_DBREC 0, STORE_PROXY 0] c)
            else if dv_sq_dbrec v = null then Misuse
            else case cu_memset (gc_cuda G) (dv_sq_dbrec v) 0 4 c of (ok, c) \<Rightarrow>
              if \<not> ok then Ret (DOCA_ERROR_DRIVER, Some gv, [], c) else rest [] c)"

section \<open>Versions\<close>

definition GPUNETIO_VERSION :: u32 where
  "GPUNETIO_VERSION = push_bit 16 3 OR push_bit 8 0 OR push_bit 0 0"

definition MIN_COMPAT_DEVICE_CODE_VERSION :: u32 where
  "MIN_COMPAT_DEVICE_CODE_VERSION = push_bit 16 2 OR push_bit 8 0 OR push_bit 0 0"

definition MIN_COMPAT_HOST_CODE_VERSION :: u32 where
  "MIN_COMPAT_HOST_CODE_VERSION = push_bit 16 3 OR push_bit 8 0 OR push_bit 0 0"

definition check_device_code_compatibility :: "u32 \<Rightarrow> doca_error" where
  "check_device_code_compatibility v =
    (if v < MIN_COMPAT_DEVICE_CODE_VERSION \<or> v > GPUNETIO_VERSION then DOCA_ERROR_NOT_SUPPORTED
     else DOCA_SUCCESS)"

definition check_host_code_compatibility :: "u32 \<Rightarrow> doca_error" where
  "check_host_code_compatibility v =
    (if v < MIN_COMPAT_HOST_CODE_VERSION \<or> v > GPUNETIO_VERSION then DOCA_ERROR_NOT_SUPPORTED
     else DOCA_SUCCESS)"

end
