(* ===== verification/CpuProxy.thy ===== *)
theory CpuProxy
  imports GpuExport
begin

text \<open>
  The CPU proxy, \<^verbatim>\<open>src/doca_gpunetio.cpp\<close>: a thread of the host watches the word in which the GPU leaves
  its producer index and rings the doorbells for it.
\<close>

section \<open>One step\<close>

text \<open>
  The first eight bytes of the control segment that is stored to the doorbell register; the index is
  32 bits wide here.
\<close>

definition proxy_db :: "u32 \<Rightarrow> u32 \<Rightarrow> u64" where
  "proxy_db qpn_ds tmp_db =
    (case ctrl_words (zero_ctrl\<lparr>cs_opmod_idx_opcode := bswap32 (push_bit 8 tmp_db), cs_qpn_ds := qpn_ds\<rparr>) of
       (w0, w1, _, _) \<Rightarrow> ucast w0 OR push_bit 32 (ucast w1))"

text \<open>\<open>cpu_db\<close> is the value loaded from the watched word.\<close>

definition progress_full_assisted :: "gpu_verbs_qp \<Rightarrow> u64 \<Rightarrow> bool \<times> gpu_verbs_qp \<times> nic_write list" where
  "progress_full_assisted gv cpu_db =
    (let tmp_db = (ucast cpu_db :: u32)
     in if ucast tmp_db \<noteq> gv_sq_wqe_pi_last gv then
          let ring = RING_DB (proxy_db (gv_sq_num_shift8_be gv) tmp_db);
              writes = (if gv_send_dbr_mode_ext gv \<noteq> SEND_DBR_MODE_EXT_NO_DBR_HW
                        then [ring, WRITE_DBREC (bswap32 (tmp_db AND 0xffff)), ring] else [ring])
          in (True, gv\<lparr>gv_sq_wqe_pi_last := ucast tmp_db\<rparr>, writes)
        else (False, gv, []))"

definition progress_dbr_assisted :: "gpu_verbs_qp \<Rightarrow> u64 \<Rightarrow> gpu_verbs_qp \<times> nic_write list" where
  "progress_dbr_assisted gv cpu_db =
    (let tmp_db = (ucast cpu_db :: u32)
     in if ucast tmp_db \<noteq> gv_sq_wqe_pi_last gv then
          (gv\<lparr>gv_sq_wqe_pi_last := ucast tmp_db\<rparr>,
           [WRITE_DBREC (bswap32 (tmp_db AND 0xffff)), RING_DB (proxy_db (gv_sq_num_shift8_be gv) tmp_db)])
        else (gv, []))"

text \<open>
  \<^verbatim>\<open>doca_gpu_verbs_cpu_proxy_progress\<close>; its second result is what it stores in \<^verbatim>\<open>out_progressed\<close>.
\<close>

definition cpu_proxy_progress :: "gpu_verbs_qp option \<Rightarrow> u64
    \<Rightarrow> doca_error \<times> bool \<times> gpu_verbs_qp option \<times> nic_write list" where
  "cpu_proxy_progress gvo cpu_db =
    (case gvo of
       None \<Rightarrow> (DOCA_ERROR_INVALID_VALUE, False, None, [])
     | Some gv \<Rightarrow>
       if \<not> gv_cpu_proxy gv then (DOCA_ERROR_NOT_SUPPORTED, False, gvo, [])
       else if watched gv
       then (case progress_dbr_assisted gv cpu_db of (gv', w) \<Rightarrow> (DOCA_SUCCESS, False, Some gv', w))
       else (case progress_full_assisted gv cpu_db of (p, gv', w) \<Rightarrow> (DOCA_SUCCESS, p, Some gv', w)))"

section \<open>The service thread\<close>

text \<open>
  The queue pairs a service monitors are a set of pointers; the model keeps what they point to in a map
  and the pointers in ascending order, as \<^verbatim>\<open>std::set\<close> does.  The values of the watched words are given by
  a history: what the visit at time \<open>t\<close> finds at pointer \<open>p\<close>.  One pass visits every queue pair; it is
  repeated while one of them progressed.
\<close>

type_synonym monitored = "(ptr \<times> gpu_verbs_qp) list"

fun service_pass :: "(nat \<Rightarrow> ptr \<Rightarrow> u64) \<Rightarrow> nat \<Rightarrow> monitored
    \<Rightarrow> bool \<times> monitored \<times> (ptr \<times> nic_write list) list" where
  "service_pass env t [] = (False, [], [])"
| "service_pass env t ((p, gv) # qps) =
    (case cpu_proxy_progress (Some gv) (env t p) of (e, b, gvo, w) \<Rightarrow>
      (case service_pass env (Suc t) qps of (b', qps', ws) \<Rightarrow>
        (b \<or> b', (p, case gvo of Some gv' \<Rightarrow> gv' | None \<Rightarrow> gv) # qps', (p, w) # ws)))"

text \<open>The inner loop, which may never end while the GPU keeps posting.\<close>

partial_function (option) service_round :: "(nat \<Rightarrow> ptr \<Rightarrow> u64) \<Rightarrow> nat \<Rightarrow> monitored
    \<Rightarrow> (nat \<times> monitored \<times> (ptr \<times> nic_write list) list) option" where
  "service_round env t qps =
    (case service_pass env t qps of (progressed, qps', ws) \<Rightarrow>
      if progressed
      then Option.bind (service_round env (t + length qps) qps') (\<lambda>(t', qps'', ws'). Some (t', qps'', ws @ ws'))
      else Some (t + length qps, qps', ws))"

text \<open>
  The service object and its operations.  \<^verbatim>\<open>lock_ok\<close> and \<^verbatim>\<open>thread_ok\<close>: the lock and the thread could be
  created.
\<close>

record service =
  sv_running :: bool
  sv_qps :: "ptr list"

definition create_service :: "bool \<Rightarrow> bool \<Rightarrow> bool \<Rightarrow> bool \<Rightarrow> doca_error \<times> service option" where
  "create_service out_ok calloc_ok lock_ok thread_ok =
    (if \<not> out_ok then (DOCA_ERROR_INVALID_VALUE, None)
     else if \<not> calloc_ok then (DOCA_ERROR_NO_MEMORY, None)
     else if \<not> lock_ok then (DOCA_ERROR_DRIVER, None)
     else if \<not> thread_ok then (DOCA_ERROR_DRIVER, None)
     else (DOCA_SUCCESS, Some \<lparr>sv_running = True, sv_qps = []\<rparr>))"

definition service_monitor_qp :: "service option \<Rightarrow> ptr \<Rightarrow> doca_error \<times> service option" where
  "service_monitor_qp svo qp =
    (case svo of
       None \<Rightarrow> (DOCA_ERROR_INVALID_VALUE, None)
     | Some sv \<Rightarrow>
       if qp = null then (DOCA_ERROR_INVALID_VALUE, svo)
       else (DOCA_SUCCESS, Some (sv\<lparr>sv_qps := insort_insert qp (sv_qps sv)\<rparr>)))"

definition destroy_service :: "service option \<Rightarrow> doca_error \<times> service option" where
  "destroy_service svo =
    (case svo of None \<Rightarrow> (DOCA_ERROR_INVALID_VALUE, None) | Some sv \<Rightarrow> (DOCA_SUCCESS, None))"

section \<open>Equivalence with the GPU's own doorbells\<close>

lemma ucast_push_db: "(ucast (push_bit 8 (i :: u64)) :: u32) = push_bit 8 (ucast i)"
  by (rule bit_word_eqI) (auto simp: bit_simps)

lemma proxy_db_eq: "proxy_db qpn_ds (ucast i) = common_prepare_db qpn_ds i"
  by (simp add: proxy_db_def common_prepare_db_def ucast_push_db ctrl_words_def)

text \<open>
  What a queue pair view that is handled by the GPU itself would store for a new index.
\<close>

definition gpu_rings :: "send_dbr_mode_ext \<Rightarrow> dev_qp \<Rightarrow> u64 \<Rightarrow> nic_write list" where
  "gpu_rings ext qp prod_index =
    (if ext = SEND_DBR_MODE_EXT_NO_DBR_HW then ring_db qp prod_index
     else ring_db qp prod_index @ update_dbr (ucast prod_index) @ ring_db qp prod_index)"

lemma progress_full_eq:
  assumes "gv_sq_num_shift8_be gv = sq_num_shift8_be qp"
  shows "progress_full_assisted gv i =
    (if ucast (ucast i :: u32) = gv_sq_wqe_pi_last gv then (False, gv, [])
     else (True, gv\<lparr>gv_sq_wqe_pi_last := ucast (ucast i :: u32)\<rparr>, gpu_rings (gv_send_dbr_mode_ext gv) qp i))"
  using assms
  by (simp add: progress_full_assisted_def Let_def gpu_rings_def ring_db_def update_dbr_def prepare_db_def
      proxy_db_eq prepare_dbr_def)

end
