(* ===== verification/GpuExportProofs.thy ===== *)
theory GpuExportProofs
  imports CpuProxy GpuMemProps
begin

text \<open>Proofs about export: the account of what it takes, and what the view says.\<close>

section \<open>Memory through the API\<close>

definition demands_ok :: "('g, 'c) gpu_calls \<Rightarrow> bool" where
  "demands_ok G \<longleftrightarrow> ga_mentry (gc_alloc_env G) \<and> ga_insert (gc_alloc_env G) \<and>
    unat (gc_page_size G) \<le> 2 ^ 32"

lemma alloc_alignment_small:
  assumes "alloc_alignment page alignment mtype = Some al" "mtype \<noteq> GPU_MEM_TYPE_GPU_CPU"
  shows "al = (if alignment = 0 then page else alignment)"
  using assms by (auto simp: alloc_alignment_def Let_def split: if_splits)

text \<open>The device sees registered memory at the address the host has it at.\<close>

definition same_addresses :: "'c cuda \<Rightarrow> bool" where
  "same_addresses C \<longleftrightarrow> (\<forall>p c d. cu_host_device_ptr C p c = Some d \<longrightarrow> d = p)"

lemma lib_alloc_account:
  assumes l: "cuda_lawful (gc_cuda G) live" and a: "accounted L (gp_mtable ob) (live (gl_sys lib))"
    and mt: "mtype = GPU_MEM_TYPE_GPU \<or> mtype = GPU_MEM_TYPE_CPU_GPU"
    and ok: "demands_ok G" and sz: "unat sz \<le> 2 ^ 32"
    and r: "lib_alloc G sz (gc_page_size G) mtype (Some (open_handle ob)) lib = Ret (e, r, dev', lib')"
  shows "\<exists>t'. dev' = Some (open_handle (ob\<lparr>gp_mtable := t'\<rparr>)) \<and> gl_uar lib' = gl_uar lib \<and>
    (if e = DOCA_SUCCESS then
       (\<exists>me. ar_gpu r = Some (align_addr_gpu me) \<and> ar_cpu r = Some (align_addr_cpu me) \<and> served False me \<and>
          me_mtype me = mtype \<and>
          (mtype = GPU_MEM_TYPE_CPU_GPU \<and> same_addresses (gc_cuda G) \<longrightarrow> align_addr_cpu me = align_addr_gpu me) \<and>
          t' = (align_addr_gpu me, me) # gp_mtable ob \<and> map_of (gp_mtable ob) (align_addr_gpu me) = None \<and>
          accounted L t' (live (gl_sys lib')))
     else r = nothing_stored \<and> t' = gp_mtable ob \<and> live (gl_sys lib') = live (gl_sys lib))"
proof -
  obtain s ob1 g1 c1 where m: "mem_alloc_open (gc_alloc_env G) (gc_gdr_env G) (gc_cuda G) (gc_page_size G) sz
        (gc_page_size G) mtype True True ob (gl_gdr lib) (gl_sys lib) = Ret (e, r, ob1, g1, c1)"
      and d: "dev' = Some (open_handle ob1)" "lib' = lib\<lparr>gl_gdr := g1, gl_sys := c1\<rparr>"
    using r by (auto simp: lib_alloc_def gpu_mem_alloc_def on_gpu_def open_handle_def Let_def
        split: outcome.splits)
  show ?thesis
  proof (cases "sz \<noteq> 0 \<and> alloc_alignment (gc_page_size G) (gc_page_size G) mtype \<noteq> None")
    case False
    then have "e = DOCA_ERROR_INVALID_VALUE" "ob1 = ob" "c1 = gl_sys lib" "r = nothing_stored"
      using m by (auto simp: mem_alloc_open_def Let_def split: if_splits)
    then show ?thesis using d by simp
  next
    case True
    then obtain al where al: "alloc_alignment (gc_page_size G) (gc_page_size G) mtype = Some al" by blast
    have small: "unat al \<le> 2 ^ 32"
      using alloc_alignment_small [OF al] mt ok by (auto simp: demands_ok_def)
    have f: "fits al (new_mentry mtype sz)"
      using alloc_alignment_props(2) [OF al] True small sz by (simp add: fits_def new_mentry_def)
    have k: "served False (new_mentry mtype sz)" using mt by (auto simp: served_def new_mentry_def)
    obtain me g' c' where t: "alloc_kind (gc_gdr_env G) (gc_cuda G) (gp_support_gdrcopy ob) al (new_mentry mtype sz)
          (gl_gdr lib) (gl_sys lib) = Ret (me, g', c')"
        "case me of None \<Rightarrow> live c' = live (gl_sys lib)
          | Some m \<Rightarrow> served False m \<and> accounted L (table_insert (align_addr_gpu m) m (gp_mtable ob)) (live c')"
      using kinds.take_table [OF l a k f, of "gp_support_gdrcopy ob" "gc_gdr_env G" "gl_gdr lib"] mt by auto
    show ?thesis
    proof (cases me)
      case None
      then show ?thesis using m d t True al ok by (auto simp: mem_alloc_open_def Let_def demands_ok_def)
    next
      case (Some x)
      have s: "sound (live (gl_sys lib))" by (rule accountedD(7) [OF a])
      have w: "took (new_mentry mtype sz) (live (gl_sys lib)) x (live c')"
        using kinds.take_law [OF l s refl k f, of "gp_support_gdrcopy ob" "gc_gdr_env G" "gl_gdr lib"] mt t(1) Some by auto
      have n: "map_of (gp_mtable ob) (align_addr_gpu x) = None" by (rule accounted_insert(1) [OF a w])
      have x: "me_mtype x = mtype" using w by (simp add: took_def new_mentry_def)
      have eq: "align_addr_cpu x = align_addr_gpu x"
        if "mtype = GPU_MEM_TYPE_CPU_GPU" "same_addresses (gc_cuda G)"
        using t(1) Some that
        by (auto simp: alloc_kind_def new_mentry_def alloc_cpu_gpu_def Let_def same_addresses_def
            split: prod.splits if_splits option.splits) metis
      have r': "e = DOCA_SUCCESS" "r = \<lparr>ar_gpu = Some (align_addr_gpu x), ar_cpu = Some (align_addr_cpu x)\<rparr>"
          "ob1 = ob\<lparr>gp_mtable := (align_addr_gpu x, x) # gp_mtable ob\<rparr>" "c1 = c'"
        using m t True al ok Some mt n
        by (auto simp: mem_alloc_open_def Let_def demands_ok_def table_insert_def)
      have "accounted L ((align_addr_gpu x, x) # gp_mtable ob) (live c')" "served False x"
        using t(2) Some n by (auto simp: table_insert_def)
      then show ?thesis
        using d r' x eq n by (intro exI [of _ "(align_addr_gpu x, x) # gp_mtable ob"]) auto
    qed
  qed
qed

lemma lib_free_account:
  assumes l: "cuda_lawful (gc_cuda G) live" and a: "accounted L (gp_mtable ob) (live (gl_sys lib))"
    and m: "map_of (gp_mtable ob) p = Some me" and k: "served False me"
  shows "\<exists>c'. lib_free G p (Some (open_handle ob)) lib =
      Ret (DOCA_SUCCESS, Some (open_handle (ob\<lparr>gp_mtable := AList.delete p (gp_mtable ob)\<rparr>)), lib\<lparr>gl_sys := c'\<rparr>) \<and>
    accounted L (AList.delete p (gp_mtable ob)) (live c')"
proof -
  have "entry_ok me" by (rule accountedD(2) [OF a map_of_SomeD [OF m]])
  moreover have "p = align_addr_gpu me" by (rule accountedD(3) [OF a map_of_SomeD [OF m]])
  ultimately have p: "p \<noteq> null" by (simp add: entry_ok_def)
  obtain c' where "release_kind (gc_cuda G) (gp_support_gdrcopy ob) me (gl_gdr lib) (gl_sys lib) = Ret c'"
      "accounted L (AList.delete p (gp_mtable ob)) (live c')"
    using kinds.give_delete [OF l a m k, of "gp_support_gdrcopy ob" "gc_gdr_env G" "gl_gdr lib"] by auto
  then show ?thesis using m p
    by (auto simp: lib_free_def gpu_mem_free_def on_gpu_def open_handle_def Let_def mem_free_open_def)
qed

section \<open>Doorbells\<close>

text \<open>
  What an export adds, \<open>X\<close>, an unexport takes away again, whatever happened to the rest in between.
\<close>

lemma export_uar_undone:
  assumes l: "cuda_lawful C live" and s: "sound (live c)" and same: "same_addresses C"
    and n: "uar_count u p \<noteq> - 1" and e: "export_uar C p True u c = (e, a, u1, c1)"
  shows "if e = DOCA_SUCCESS then
      a = Some p \<and> p \<noteq> null \<and>
      (\<exists>X. live c1 = live c \<union> X \<and> live c \<inter> X = {} \<and> sound (live c1) \<and>
        (\<forall>c2. X \<subseteq> live c2 \<longrightarrow> sound (live c2) \<longrightarrow>
          (\<exists>u2 c3. unexport_uar C p u1 c2 = (DOCA_SUCCESS, u2, c3) \<and> live c3 = live c2 - X \<and>
             uar_count u2 = uar_count u)))
    else live c1 = live c \<and> uar_count u1 = uar_count u"
proof -
  define u0 where "u0 = (if map_of (uar_refcount u) p = None then set_count p 0 u else u)"
  have u0: "uar_count u0 = uar_count u"
    by (simp add: u0_def fun_eq_iff) (simp add: uar_count_def)
  obtain res c0 where reg: "(if uar_count u p = 0 then cu_host_register C p DB_UAR_SIZE c else (REG_SUCCESS, c)) = (res, c0)"
    by fastforce
  have k: "map_of (uar_refcount (set_count p m u0)) p = Some m" for m
    by (simp add: set_count_def update_conv')
  consider "p = null" | "p \<noteq> null" "res \<noteq> REG_SUCCESS" | "p \<noteq> null" "res = REG_SUCCESS" "cu_host_device_ptr C p c0 = None"
    | q where "p \<noteq> null" "res = REG_SUCCESS" "cu_host_device_ptr C p c0 = Some q" by blast
  then show ?thesis
  proof cases
    case 1
    then show ?thesis using e by (auto simp: export_uar_def)
  next
    case 2
    then have "live c0 = live c" using reg cuda_steps(6) [OF l] by (auto split: if_splits)
    then show ?thesis using e 2 reg u0 unfolding export_uar_def Let_def by (auto simp: u0_def [symmetric])
  next
    case 3
    then have "live (if uar_count u p = 0 then snd (cu_host_unregister C p c0) else c0) = live c"
      using reg probe_leaves [OF l s] by (auto split: if_splits)
    then show ?thesis using e 3 reg u0 unfolding export_uar_def Let_def by (auto simp: u0_def [symmetric])
  next
    case (4 q)
    then have q: "q = p" using same by (simp add: same_addresses_def)
    have r: "e = DOCA_SUCCESS" "a = Some p" "u1 = set_count p (uar_count u p + 1) u0" "c1 = c0"
      using e 4 q reg u0 unfolding export_uar_def Let_def by (auto simp: u0_def [symmetric])
    show ?thesis
    proof (cases "uar_count u p = 0")
      case True
      then have h: "cu_host_register C p DB_UAR_SIZE c = (REG_SUCCESS, c0)" using reg 4 by simp
      obtain d where d: "gains live c (GReg p DB_UAR_SIZE d) c0" "\<forall>m e. GReg p m e \<notin> live c"
        using cuda_steps(5) [OF l h] by blast
      let ?X = "{GReg p DB_UAR_SIZE d}"
      have s0: "sound (live c0)" by (rule sound_gains [OF s d(1)]) (use d(2) in auto)
      have undo: "\<exists>u2 c3. unexport_uar C p u1 c2 = (DOCA_SUCCESS, u2, c3) \<and> live c3 = live c2 - ?X \<and>
          uar_count u2 = uar_count u" if x: "?X \<subseteq> live c2" "sound (live c2)" for c2
      proof -
        obtain ok c3 where h: "cu_host_unregister C p c2 = (ok, c3)" by fastforce
        have "live c3 = live c2 - ?X" ok
          using cuda_steps(7) [OF l h] sound_reg_unique [OF x(2)] x(1) by auto
        moreover have "uar_count (set_count p 0 u1\<lparr>uar_refcount := AList.delete p (uar_refcount (set_count p 0 u1))\<rparr>) = uar_count u"
          using True u0 by (auto simp: fun_eq_iff r(3))
        ultimately show ?thesis
          using 4(1) h k True by (simp add: unexport_uar_def Let_def r(3))
      qed
      have "live c0 = live c \<union> ?X" "live c \<inter> ?X = {}" using d by (auto simp: gains_def)
      then show ?thesis unfolding r(1,2,4) if_P [OF refl] using 4(1) s0 undo by blast
    next
      case False
      then have c0: "c0 = c" using reg by simp
      have undo: "\<exists>u2 c3. unexport_uar C p u1 c2 = (DOCA_SUCCESS, u2, c3) \<and> live c3 = live c2 - {} \<and>
          uar_count u2 = uar_count u" for c2
        using 4(1) False k u0 by (auto simp: unexport_uar_def Let_def r(3) fun_eq_iff)
      then have "\<exists>X. live c0 = live c \<union> X \<and> live c \<inter> X = {} \<and> sound (live c0) \<and>
          (\<forall>c2. X \<subseteq> live c2 \<longrightarrow> sound (live c2) \<longrightarrow>
            (\<exists>u2 c3. unexport_uar C p u1 c2 = (DOCA_SUCCESS, u2, c3) \<and> live c3 = live c2 - X \<and>
              uar_count u2 = uar_count u))"
        using c0 s by (intro exI [of _ "{}"]) simp
      then show ?thesis unfolding r(1,2,4) if_P [OF refl] using 4(1) by blast
    qed
  qed
qed

lemma accounted_more:
  assumes "accounted L t S" "S' = S \<union> X" "S \<inter> X = {}" "sound S'"
  shows "accounted (L \<union> X) t S'"
proof -
  note a = accountedD(5,6) [OF assms(1)]
  have "S' = L \<union> X \<union> table_owns t" "(L \<union> X) \<inter> table_owns t = {}" using a assms(2,3) by auto
  then show ?thesis
    using assms(1,4) unfolding accounted_def by (elim conjE) (intro conjI; assumption)
qed

lemma accounted_less:
  assumes "accounted (L \<union> X) t S" "L \<inter> X = {}" "S' = S - X"
  shows "accounted L t S'"
proof -
  note a = accountedD(5,6) [OF assms(1)]
  have "S' = L \<union> table_owns t" "L \<inter> table_owns t = {}" using a assms(2,3) by auto
  moreover have "sound S'" unfolding assms(3) by (rule sound_subset [OF accountedD(7) [OF assms(1)]]) blast
  ultimately show ?thesis
    using assms(1) unfolding accounted_def by (elim conjE) (intro conjI; assumption)
qed

end
