(* ===== verification/GpuExportAccount.thy ===== *)
theory GpuExportAccount
  imports GpuExportProofs
begin

text \<open>What export makes of the queues, and the account of what export and unexport take and give back.\<close>

section \<open>The view\<close>

lemma getters_open:
  "qp_get_wq s1 True (Some (open_handle q)) = Ret (DOCA_SUCCESS, Some (wq_of q))"
  "qp_get_dbr_addr s2 True (Some (open_handle q)) = Ret (DOCA_SUCCESS, Some (m_db_buffer q))"
  "qp_get_qpn s3 True (Some (open_handle q)) = Ret (DOCA_SUCCESS, Some (m_qp_num q))"
  "qp_get_uar_addr s2 True (Some (open_handle q)) = Ret (DOCA_SUCCESS, Some (m_uar_db_reg q))"
  "cq_get_wq s4 (Some (open_handle c)) = Ret (DOCA_SUCCESS, Some (cq_wq_of c))"
  "cq_get_dbr_addr s5 (Some (open_handle c)) = Ret (DOCA_SUCCESS, Some (cq_dbr_of c))"
  "cq_get_cqn s6 (Some (open_handle c)) = Ret (DOCA_SUCCESS, Some (cq_cqn c))"
  by (simp_all add: qp_get_wq_def qp_get_dbr_addr_def qp_get_qpn_def qp_get_uar_addr_def cq_get_wq_def
      cq_get_dbr_addr_def cq_get_cqn_def get_handle_def try_sdk_get_def get_open_def open_handle_def)

lemma read_qp_open:
  assumes "read_qp V (Some (open_handle q)) ext d = Ret (Inr i)"
  shows "qi_sq_buf i = m_sq_buf q \<and> qi_sq_num i = m_sq_size_wqebb q \<and> qi_dbrec i = m_db_buffer q \<and>
    qi_qpn i = m_qp_num q \<and> qi_sq_db i = m_uar_db_reg q \<and> mode_matches ext (qi_mode i)"
  using assms
  by (auto simp: read_qp_def getters_open wq_of_def bind_get_def split: outcome.splits if_splits option.splits)

lemma read_qp_error: "read_qp V qp ext d = Ret (Inl e) \<Longrightarrow> e \<noteq> DOCA_SUCCESS"
  by (auto simp: read_qp_def bind_get_def split: outcome.splits if_splits option.splits)

text \<open>The device completion queue that an open completion queue is exported as.\<close>

definition exported_cq :: "('s, 'd) verbs_calls \<Rightarrow> cq_open \<Rightarrow> dev_cq" where
  "exported_cq V c =
    \<lparr>cqe_daddr = vc_cqes V (cq_buf c) (cq_num_cqes c), cq_num = cq_cqn c, cqe_num = cq_num_cqes c,
     cq_dbrec = vc_u32 V (cq_ci_dbr c), cqe_ci = 0, cqe_mask = cq_num_cqes c - 1, cqe_size = 64, cqe_rsvd = 0\<rparr>"

lemma set_cq_open:
  assumes "cq_sq (gv_qp_cpu gv) = zero_dev_cq"
  shows "set_cq V (Some (open_handle c)) gv =
    Ret (DOCA_SUCCESS, gv\<lparr>gv_qp_cpu := (gv_qp_cpu gv)\<lparr>dv_cqe_daddr := cq_buf c, dv_cq_dbrec := cq_ci_dbr c,
      cq_sq := exported_cq V c\<rparr>\<rparr>)"
  using assms
  by (simp add: set_cq_def getters_open cq_wq_of_def cq_dbr_of_def bind_get_def Let_def exported_cq_def zero_dev_cq_def)

text \<open>The two ways the doorbell is set up.\<close>

lemma set_doorbell_cases:
  assumes "set_doorbell G nic i gv dev lib = Ret (e, gv', dev', lib')"
  obtains (direct) p where "e = DOCA_SUCCESS" "nic \<noteq> NIC_HANDLER_CPU_PROXY" "gv' = set_direct nic i p gv" "dev' = dev"
      "lib_export_uar G (qi_sq_db i) lib = (DOCA_SUCCESS, Some p, lib')"
  | (proxy) ex a lx r p where "e = DOCA_SUCCESS" "gv' = set_proxy i p gv" "p \<noteq> null" "ar_cpu r = Some p"
      "if nic = NIC_HANDLER_CPU_PROXY then lx = lib
       else nic = NIC_HANDLER_AUTO \<and> lib_export_uar G (qi_sq_db i) lib = (ex, a, lx) \<and> ex \<noteq> DOCA_SUCCESS"
      "lib_alloc G 8 (gc_page_size G) GPU_MEM_TYPE_CPU_GPU dev lx = Ret (DOCA_SUCCESS, r, dev', lib')"
  | (no_memory) ex a lx r where "e \<noteq> DOCA_SUCCESS" "gv' = gv"
      "if nic = NIC_HANDLER_CPU_PROXY then lx = lib
       else nic = NIC_HANDLER_AUTO \<and> lib_export_uar G (qi_sq_db i) lib = (ex, a, lx) \<and> ex \<noteq> DOCA_SUCCESS"
      "lib_alloc G 8 (gc_page_size G) GPU_MEM_TYPE_CPU_GPU dev lx = Ret (e, r, dev', lib')"
  | (no_doorbell) a where "e \<noteq> DOCA_SUCCESS" "gv' = gv" "dev' = dev" "nic \<noteq> NIC_HANDLER_CPU_PROXY"
      "lib_export_uar G (qi_sq_db i) lib = (e, a, lib')"
proof (cases "nic = NIC_HANDLER_CPU_PROXY")
  case True
  then show ?thesis using assms proxy [where lx = lib] no_memory [where lx = lib]
    by (auto simp: set_doorbell_def split: outcome.splits if_splits option.splits)
next
  case False
  obtain ex a lx where x: "lib_export_uar G (qi_sq_db i) lib = (ex, a, lx)" by (metis prod_cases3)
  show ?thesis
  proof (cases "ex = DOCA_SUCCESS")
    case True
    then show ?thesis using assms x False direct
      by (auto simp: set_doorbell_def split: option.splits)
  next
    case ex: False
    show ?thesis
    proof (cases "nic = NIC_HANDLER_AUTO")
      case True
      then show ?thesis using assms x False ex proxy [where lx = lx and ex = ex and a = a] no_memory [where lx = lx and ex = ex and a = a]
        by (auto simp: set_doorbell_def split: outcome.splits if_splits option.splits)
    next
      case n: False
      then show ?thesis using assms x False ex no_doorbell [where a = a]
        by (auto simp: set_doorbell_def)
    qed
  qed
qed

lemma qp_view_fields:
  "dev_qp.truncate (qp_view i) = init_dev_qp (qi_qpn i) (qi_sq_num i) (qi_sq_buf i) zero_dev_cq NIC_HANDLER_AUTO"
  "cq_sq (qp_view i) = zero_dev_cq" "dv_sq_dbrec (qp_view i) = qi_dbrec i + 4" "dv_sq_db (qp_view i) = null"
  "qp_nic_handler (qp_view i) = NIC_HANDLER_AUTO" "sq_num_shift8_be (qp_view i) = bswap32 (push_bit 8 (qi_qpn i))"
  by (simp_all add: qp_view_def dev_qp.defs dev_view.defs init_dev_qp_def Let_def)

lemma truncate_update:
  "dev_qp.truncate (v\<lparr>dv_sq_db := a\<rparr>) = dev_qp.truncate v"
  "dev_qp.truncate (v\<lparr>dv_cqe_daddr := a\<rparr>) = dev_qp.truncate v"
  "dev_qp.truncate (v\<lparr>dv_cq_dbrec := a\<rparr>) = dev_qp.truncate v"
  "dev_qp.truncate (v\<lparr>cq_sq := c\<rparr>) = (dev_qp.truncate v)\<lparr>cq_sq := c\<rparr>"
  "dev_qp.truncate (v\<lparr>qp_nic_handler := n\<rparr>) = (dev_qp.truncate v)\<lparr>qp_nic_handler := n\<rparr>"
  by (simp_all add: dev_qp.defs)

lemma init_dev_qp_update:
  "(init_dev_qp num n d c h)\<lparr>cq_sq := c'\<rparr> = init_dev_qp num n d c' h"
  "(init_dev_qp num n d c h)\<lparr>qp_nic_handler := h'\<rparr> = init_dev_qp num n d c h'"
  by (simp_all add: init_dev_qp_def Let_def)

lemma export_view:
  assumes "export_qp V G d (Some (open_handle q)) nic (Some (open_handle c)) ext dev lib =
    Ret (DOCA_SUCCESS, Some gv, dev', lib')"
  shows "\<exists>handler. dev_qp.truncate (gv_qp_cpu gv) =
      init_dev_qp (m_qp_num q) (m_sq_size_wqebb q) (m_sq_buf q) (exported_cq V c) handler \<and>
    dv_sq_dbrec (gv_qp_cpu gv) = m_db_buffer q + 4 \<and> dv_cqe_daddr (gv_qp_cpu gv) = cq_buf c \<and>
    dv_cq_dbrec (gv_qp_cpu gv) = cq_ci_dbr c \<and>
    gv_sq_wqe_pi_last gv = 0 \<and> gv_send_dbr_mode_ext gv = ext \<and> gv_qp_gpu gv = null \<and>
    (if handler = NIC_HANDLER_CPU_PROXY then
       nic \<in> {NIC_HANDLER_CPU_PROXY, NIC_HANDLER_AUTO} \<and> gv_cpu_proxy gv \<and> gv_cpu_db gv \<noteq> null \<and>
       dv_sq_db (gv_qp_cpu gv) = gv_cpu_db gv \<and> gv_sq_db gv = m_uar_db_reg q \<and>
       gv_sq_dbrec gv = m_db_buffer q + 4 \<and>
       gv_sq_num_shift8_be gv = bswap32 (push_bit 8 (m_qp_num q))
     else
       gv_cpu_db gv = null \<and> gv_sq_num_shift8_be gv = 0 \<and> gv_cpu_proxy gv = (ext = SEND_DBR_MODE_EXT_NO_DBR_SW_EMULATED) \<and>
       (\<exists>mode. mode_matches ext mode \<and> handler = direct_handler nic ext mode))"
proof -
  obtain i gv1 where r: "read_qp V (Some (open_handle q)) ext d = Ret (Inr i)"
      "set_doorbell G nic i (new_gverbs ext (qp_view i)) dev lib = Ret (DOCA_SUCCESS, gv1, dev', lib')"
      "set_cq V (Some (open_handle c)) gv1 = Ret (DOCA_SUCCESS, gv)"
    using assms
    by (auto simp: export_qp_def export_qp_open_def split: option.splits member.splits if_splits outcome.splits sum.splits)
  note i = read_qp_open [OF r(1)]
  note view = qp_view_fields [of i] truncate_update init_dev_qp_update
  show ?thesis
  proof (rule set_doorbell_cases [OF r(2)])
    fix p assume "nic \<noteq> NIC_HANDLER_CPU_PROXY" "gv1 = set_direct nic i p (new_gverbs ext (qp_view i))"
    moreover from this have "direct_handler nic ext (qi_mode i) \<noteq> NIC_HANDLER_CPU_PROXY"
      by (simp add: direct_handler_def)
    ultimately show ?thesis
      using r(3) i set_cq_open [of gv1 V c]
      by (auto simp: set_direct_def new_gverbs_def Let_def view intro!: exI [of _ "direct_handler nic ext (qi_mode i)"])
  next
    fix e1 a lib1 r1 p
    assume "gv1 = set_proxy i p (new_gverbs ext (qp_view i))" "p \<noteq> null"
      "if nic = NIC_HANDLER_CPU_PROXY then lib1 = lib
       else nic = NIC_HANDLER_AUTO \<and> lib_export_uar G (qi_sq_db i) lib = (e1, a, lib1) \<and> e1 \<noteq> DOCA_SUCCESS"
    then show ?thesis
      using r(3) i set_cq_open [of gv1 V c]
      by (auto simp: set_proxy_def new_gverbs_def Let_def view split: if_splits intro!: exI [of _ NIC_HANDLER_CPU_PROXY])
  qed simp_all
qed

section \<open>Taking back\<close>

lemma delete_append: "AList.delete k (xs @ ys) = AList.delete k xs @ AList.delete k ys"
  unfolding AList.delete_eq by (rule filter_append)
lemma delete_middle:
  assumes "distinct (map fst (xs @ (k, e) # ys))"
  shows "AList.delete k (xs @ (k, e) # ys) = xs @ ys" "map_of (xs @ (k, e) # ys) k = Some e"
proof -
  have x: "k \<notin> fst ` set xs" "k \<notin> fst ` set ys"
    using assms by (simp_all)
  show "AList.delete k (xs @ (k, e) # ys) = xs @ ys"
    using x unfolding delete_append by simp
  have "map_of xs k = None" using x(1) by (simp add: map_of_eq_None_iff)
  then show "map_of (xs @ (k, e) # ys) k = Some e" by (simp add: map_add_def)
qed

definition unless_null :: "ptr \<Rightarrow> mentry \<Rightarrow> (ptr \<times> mentry) list" where
  "unless_null p me = (if p = null then [] else [(p, me)])"

lemma free_in_table:
  assumes l: "cuda_lawful (gc_cuda G) live" and a: "accounted L (xs @ unless_null p me @ ys) (live (gl_sys lib))"
    and k: "p \<noteq> null \<Longrightarrow> served False me"
  shows "\<exists>c'. (if p \<noteq> null then lib_free G p (Some (open_handle (ob\<lparr>gp_mtable := xs @ unless_null p me @ ys\<rparr>))) lib
      else Ret (DOCA_SUCCESS, Some (open_handle (ob\<lparr>gp_mtable := xs @ unless_null p me @ ys\<rparr>)), lib)) =
    Ret (DOCA_SUCCESS, Some (open_handle (ob\<lparr>gp_mtable := xs @ ys\<rparr>)), lib\<lparr>gl_sys := c'\<rparr>) \<and>
    accounted L (xs @ ys) (live c')"
proof (cases "p = null")
  case True
  then show ?thesis using a by (auto simp: unless_null_def intro!: exI [of _ "gl_sys lib"])
next
  case False
  let ?ob = "ob\<lparr>gp_mtable := xs @ (p, me) # ys\<rparr>"
  have t: "xs @ unless_null p me @ ys = gp_mtable ?ob" using False by (simp add: unless_null_def)
  have d: "distinct (map fst (xs @ (p, me) # ys))"
    using accountedD(1) [OF a] False by (simp add: unless_null_def)
  have "map_of (gp_mtable ?ob) p = Some me" using delete_middle(2) [OF d] by simp
  from lib_free_account [OF l a [unfolded t] this k [OF False]] show ?thesis
    using False delete_middle(1) [OF d] by (auto simp: unless_null_def)
qed

text \<open>
  What a handle holds: \<open>cnt\<close> are the counts before, \<open>X\<close> what the export of the doorbell added to what is
  foreign to the table.
\<close>

definition held_by :: "('g, 'c) gpu_calls \<Rightarrow> 'c gpu_live \<Rightarrow> gres set \<Rightarrow> (ptr \<Rightarrow> u32) \<Rightarrow> (ptr \<times> mentry) list
    \<Rightarrow> gres set \<Rightarrow> mentry \<Rightarrow> mentry \<Rightarrow> gpu_verbs_qp \<Rightarrow> 'c gpu_lib \<Rightarrow> bool" where
  "held_by G live L cnt t X me1 me2 gv lib \<longleftrightarrow>
    accounted (L \<union> X) (unless_null (gv_qp_gpu gv) me2 @ unless_null (gv_cpu_db gv) me1 @ t) (live (gl_sys lib)) \<and>
    L \<inter> X = {} \<and> served False me1 \<and> served False me2 \<and>
    gv_send_dbr_mode_ext gv \<noteq> SEND_DBR_MODE_EXT_NO_DBR_SW_EMULATED \<and>
    (if gv_cpu_db gv = null then
       qp_nic_handler (gv_qp_cpu gv) \<noteq> NIC_HANDLER_CPU_PROXY \<and>
       (\<forall>c2. X \<subseteq> live c2 \<longrightarrow> sound (live c2) \<longrightarrow>
          (\<exists>u2 c3. unexport_uar (gc_cuda G) (dv_sq_db (gv_qp_cpu gv)) (gl_uar lib) c2 = (DOCA_SUCCESS, u2, c3) \<and>
             live c3 = live c2 - X \<and> uar_count u2 = cnt))
     else qp_nic_handler (gv_qp_cpu gv) = NIC_HANDLER_CPU_PROXY \<and> X = {} \<and> uar_count (gl_uar lib) = cnt)"

lemma unexport_returns:
  assumes l: "cuda_lawful (gc_cuda G) live" and h: "held_by G live L cnt t X me1 me2 gv lib"
  shows "\<exists>lib3. unexport_qp G (Some gv)
      (Some (open_handle (ob\<lparr>gp_mtable := unless_null (gv_qp_gpu gv) me2 @ unless_null (gv_cpu_db gv) me1 @ t\<rparr>))) lib =
      Ret (DOCA_SUCCESS, Some (open_handle (ob\<lparr>gp_mtable := t\<rparr>)), lib3) \<and>
    accounted L t (live (gl_sys lib3)) \<and> uar_count (gl_uar lib3) = cnt"
proof -
  let ?g = "unless_null (gv_qp_gpu gv) me2" and ?p = "unless_null (gv_cpu_db gv) me1"
  let ?v = "gv_qp_cpu gv"
  have a: "accounted (L \<union> X) (?g @ ?p @ t) (live (gl_sys lib))" "L \<inter> X = {}" "served False me1" "served False me2"
    and ext: "gv_send_dbr_mode_ext gv \<noteq> SEND_DBR_MODE_EXT_NO_DBR_SW_EMULATED"
    using h by (simp_all add: held_by_def)
  obtain c1 where c1: "(if gv_cpu_db gv \<noteq> null then lib_free G (gv_cpu_db gv) (Some (open_handle (ob\<lparr>gp_mtable := ?g @ ?p @ t\<rparr>))) lib
      else Ret (DOCA_SUCCESS, Some (open_handle (ob\<lparr>gp_mtable := ?g @ ?p @ t\<rparr>)), lib)) =
    Ret (DOCA_SUCCESS, Some (open_handle (ob\<lparr>gp_mtable := ?g @ t\<rparr>)), lib\<lparr>gl_sys := c1\<rparr>)"
    "accounted (L \<union> X) (?g @ t) (live c1)"
    using free_in_table [OF l a(1)] a(3) by blast
  obtain u2 c2 where u: "(if qp_nic_handler ?v \<noteq> NIC_HANDLER_CPU_PROXY
        then snd (lib_unexport_uar G (dv_sq_db ?v) (lib\<lparr>gl_sys := c1\<rparr>)) else lib\<lparr>gl_sys := c1\<rparr>) =
      lib\<lparr>gl_sys := c2, gl_uar := u2\<rparr>" "accounted L (?g @ t) (live c2)" "uar_count u2 = cnt"
  proof (cases "gv_cpu_db gv = null")
    case True
    have "X \<subseteq> live c1" "sound (live c1)" using accountedD(5,7) [OF c1(2)] by auto
    then obtain u2 c2 where x: "unexport_uar (gc_cuda G) (dv_sq_db ?v) (gl_uar lib) c1 = (DOCA_SUCCESS, u2, c2)"
        "live c2 = live c1 - X" "uar_count u2 = cnt"
      using h True unfolding held_by_def by auto
    show ?thesis
    proof (rule that)
      show "accounted L (?g @ t) (live c2)" by (rule accounted_less [OF c1(2) a(2) x(2)])
    qed (use h True x in \<open>auto simp: held_by_def lib_unexport_uar_def\<close>)
  next
    case False
    then show ?thesis using h c1(2) that [of "gl_uar lib" c1] by (simp add: held_by_def)
  qed
  let ?l2 = "lib\<lparr>gl_sys := c2, gl_uar := u2\<rparr>"
  obtain c3 where c3: "(if gv_qp_gpu gv \<noteq> null then lib_free G (gv_qp_gpu gv) (Some (open_handle (ob\<lparr>gp_mtable := ?g @ t\<rparr>))) ?l2
      else Ret (DOCA_SUCCESS, Some (open_handle (ob\<lparr>gp_mtable := ?g @ t\<rparr>)), ?l2)) =
    Ret (DOCA_SUCCESS, Some (open_handle (ob\<lparr>gp_mtable := t\<rparr>)), ?l2\<lparr>gl_sys := c3\<rparr>)"
    "accounted L t (live c3)"
    using free_in_table [OF l, of L "[]" "gv_qp_gpu gv" me2 t ?l2 ob, unfolded append_Nil] u(2) a(4) by auto
  show ?thesis
    using c1(1) u(1,3) c3 ext by (auto simp: unexport_qp_def Let_def cong: if_cong)
qed

lemma copy_keeps_held:
  assumes l: "cuda_lawful (gc_cuda G) live" and ok: "demands_ok G"
    and h: "held_by G live L cnt t X me1 me2 gv lib" and n: "gv_qp_gpu gv = null"
    and r: "get_qp_dev G gv (Some (open_handle (ob\<lparr>gp_mtable := unless_null (gv_cpu_db gv) me1 @ t\<rparr>))) lib =
      Ret (e, p, gv2, dev2, lib2)"
  shows "\<exists>me2. held_by G live L cnt t X me1 me2 gv2 lib2 \<and>
    dev2 = Some (open_handle (ob\<lparr>gp_mtable := unless_null (gv_qp_gpu gv2) me2 @ unless_null (gv_cpu_db gv2) me1 @ t\<rparr>))"
proof -
  let ?t = "unless_null (gv_cpu_db gv) me1 @ t"
  let ?ob = "ob\<lparr>gp_mtable := ?t\<rparr>"
  have ext: "gv_send_dbr_mode_ext gv \<noteq> SEND_DBR_MODE_EXT_NO_DBR_SW_EMULATED" using h by (simp add: held_by_def)
  then have w: "\<not> watched (gv\<lparr>gv_qp_gpu := x, gv_qp_gpu_h := y\<rparr>)" for x y by (simp add: watched_def)
  have a: "accounted (L \<union> X) (gp_mtable ?ob) (live (gl_sys lib))"
    using h n by (simp add: held_by_def unless_null_def)
  have held: "held_by G live L cnt t X me1 me (gv\<lparr>gv_qp_gpu := x, gv_qp_gpu_h := y\<rparr>) lb"
    if "accounted (L \<union> X) (unless_null x me @ ?t) (live (gl_sys lb))" "gl_uar lb = gl_uar lib" "served False me"
    for me x y lb using h that by (simp add: held_by_def)
  obtain e1 r1 dev1 lib1 where m: "lib_alloc G DEV_QP_SIZE (gc_page_size G) GPU_MEM_TYPE_GPU (Some (open_handle ?ob)) lib =
      Ret (e1, r1, dev1, lib1)"
    using r n ext by (auto simp: get_qp_dev_def view_mem_type_def Let_def split: outcome.splits)
  obtain t1 where t1: "dev1 = Some (open_handle (?ob\<lparr>gp_mtable := t1\<rparr>))" "gl_uar lib1 = gl_uar lib" and
    c1: "if e1 = DOCA_SUCCESS then
       (\<exists>me. ar_gpu r1 = Some (align_addr_gpu me) \<and> ar_cpu r1 = Some (align_addr_cpu me) \<and> served False me \<and>
          me_mtype me = GPU_MEM_TYPE_GPU \<and>
          (GPU_MEM_TYPE_GPU = GPU_MEM_TYPE_CPU_GPU \<and> same_addresses (gc_cuda G) \<longrightarrow> align_addr_cpu me = align_addr_gpu me) \<and>
          t1 = (align_addr_gpu me, me) # gp_mtable ?ob \<and> map_of (gp_mtable ?ob) (align_addr_gpu me) = None \<and>
          accounted (L \<union> X) t1 (live (gl_sys lib1)))
     else r1 = nothing_stored \<and> t1 = gp_mtable ?ob \<and> live (gl_sys lib1) = live (gl_sys lib)"
    using lib_alloc_account [OF l a _ ok _ m] by (auto simp: DEV_QP_SIZE_def)
  have sv: "served False me2" using h by (simp add: held_by_def)
  show ?thesis
  proof (cases "e1 = DOCA_SUCCESS")
    case False
    then have c: "r1 = nothing_stored" "t1 = ?t" "live (gl_sys lib1) = live (gl_sys lib)" using c1 by auto
    have g: "gv2 = gv\<lparr>gv_qp_gpu := null, gv_qp_gpu_h := gv_qp_gpu_h gv\<rparr>" "dev2 = dev1" "lib2 = lib1"
      using r n ext m False c(1) by (auto simp: get_qp_dev_def view_mem_type_def Let_def nothing_stored_def)
    show ?thesis
      using held [of null me2 lib1 "gv_qp_gpu_h gv"] a c t1 sv g by (auto simp: unless_null_def)
  next
    case True
    then obtain me where me: "ar_gpu r1 = Some (align_addr_gpu me)" "ar_cpu r1 = Some (align_addr_cpu me)" "served False me"
        "t1 = (align_addr_gpu me, me) # ?t" "accounted (L \<union> X) t1 (live (gl_sys lib1))"
      using c1 by auto
    have nn: "align_addr_gpu me \<noteq> null"
      using accountedD(2) [OF me(5), of "align_addr_gpu me" me] me(4) by (simp add: entry_ok_def)
    let ?gv = "gv\<lparr>gv_qp_gpu := align_addr_gpu me, gv_qp_gpu_h := align_addr_cpu me\<rparr>"
    obtain okc lib3 where cp: "copy_views G (align_addr_gpu me) [gv_qp_cpu gv] lib1 = (okc, lib3)" by fastforce
    have l3: "live (gl_sys lib3) = live (gl_sys lib1)" "gl_uar lib3 = gl_uar lib1"
      using cp cuda_steps(9) [OF l] by (auto simp: copy_views_def split: prod.splits)
    have a3: "accounted (L \<union> X) (unless_null (align_addr_gpu me) me @ ?t) (live (gl_sys lib3))"
      using me(4,5) l3(1) nn by (simp add: unless_null_def)
    show ?thesis
    proof (cases okc)
      case True
      then have "gv2 = ?gv" "dev2 = dev1" "lib2 = lib3"
        using r n ext m \<open>e1 = _\<close> me(1,2) cp w by (auto simp: get_qp_dev_def view_mem_type_def Let_def)
      then show ?thesis
        using held [OF a3, of "align_addr_cpu me"] l3(2) t1 me(3,4) nn by (auto simp: unless_null_def)
    next
      case False
      obtain c4 where f: "lib_free G (align_addr_gpu me) (Some (open_handle (ob\<lparr>gp_mtable := unless_null (align_addr_gpu me) me @ ?t\<rparr>))) lib3 =
          Ret (DOCA_SUCCESS, Some (open_handle (ob\<lparr>gp_mtable := ?t\<rparr>)), lib3\<lparr>gl_sys := c4\<rparr>)"
          "accounted (L \<union> X) ?t (live c4)"
        using free_in_table [OF l, of "L \<union> X" "[]" "align_addr_gpu me" me ?t lib3 ob, unfolded append_Nil] a3 me(3) nn by auto
      have d1: "dev1 = Some (open_handle (ob\<lparr>gp_mtable := unless_null (align_addr_gpu me) me @ ?t\<rparr>))"
        using t1(1) me(4) nn by (simp add: unless_null_def)
      have "gv2 = gv\<lparr>gv_qp_gpu := null, gv_qp_gpu_h := null\<rparr>" "dev2 = Some (open_handle ?ob)" "lib2 = lib3\<lparr>gl_sys := c4\<rparr>"
        using r n ext m \<open>e1 = _\<close> me(1,2) cp False f(1) d1 by (auto simp: get_qp_dev_def view_mem_type_def Let_def)
      then show ?thesis
        using held [of null me2 "lib3\<lparr>gl_sys := c4\<rparr>" null] f(2) l3(2) t1(2) sv by (auto simp: unless_null_def)
    qed
  qed
qed

lemma word_alloc_account:
  assumes l: "cuda_lawful (gc_cuda G) live" and same: "same_addresses (gc_cuda G)" and ok: "demands_ok G"
    and a: "accounted L (gp_mtable ob) (live (gl_sys ly))"
    and x: "lib_alloc G 8 (gc_page_size G) GPU_MEM_TYPE_CPU_GPU (Some (open_handle ob)) ly = Ret (ex, rx, devx, lx)"
  shows "gl_uar lx = gl_uar ly \<and>
    (if ex = DOCA_SUCCESS then
       (\<exists>me. ar_cpu rx = Some (align_addr_gpu me) \<and> served False me \<and>
          devx = Some (open_handle (ob\<lparr>gp_mtable := (align_addr_gpu me, me) # gp_mtable ob\<rparr>)) \<and>
          accounted L ((align_addr_gpu me, me) # gp_mtable ob) (live (gl_sys lx)))
     else devx = Some (open_handle ob) \<and> live (gl_sys lx) = live (gl_sys ly))"
proof -
  have m: "GPU_MEM_TYPE_CPU_GPU = GPU_MEM_TYPE_GPU \<or> GPU_MEM_TYPE_CPU_GPU = GPU_MEM_TYPE_CPU_GPU" by simp
  have small: "unat (8 :: u64) \<le> 2 ^ 32" by simp
  obtain t' where t: "devx = Some (open_handle (ob\<lparr>gp_mtable := t'\<rparr>))" "gl_uar lx = gl_uar ly" and
    c: "if ex = DOCA_SUCCESS then
       (\<exists>me. ar_gpu rx = Some (align_addr_gpu me) \<and> ar_cpu rx = Some (align_addr_cpu me) \<and> served False me \<and>
          me_mtype me = GPU_MEM_TYPE_CPU_GPU \<and>
          (GPU_MEM_TYPE_CPU_GPU = GPU_MEM_TYPE_CPU_GPU \<and> same_addresses (gc_cuda G) \<longrightarrow> align_addr_cpu me = align_addr_gpu me) \<and>
          t' = (align_addr_gpu me, me) # gp_mtable ob \<and> map_of (gp_mtable ob) (align_addr_gpu me) = None \<and>
          accounted L t' (live (gl_sys lx)))
     else rx = nothing_stored \<and> t' = gp_mtable ob \<and> live (gl_sys lx) = live (gl_sys ly)"
    using lib_alloc_account [OF l a m ok small x] by blast
  show ?thesis
  proof (cases "ex = DOCA_SUCCESS")
    case True
    then show ?thesis using t c same by auto
  next
    case False
    then show ?thesis using t c by simp
  qed
qed

text \<open>The end of export, from what the doorbell gave.\<close>

lemma export_stops:
  assumes "export_qp_open V G d qp nic cq ext dev lib = Ret (e, gvo, dev', lib')"
    and "read_qp V qp ext d = Ret (Inr i)"
    and "set_doorbell G nic i (new_gverbs ext (qp_view i)) dev lib = Ret (e1, new_gverbs ext (qp_view i), dev1, lib1)"
    and "e1 \<noteq> DOCA_SUCCESS"
  shows "e = e1 \<and> gvo = None \<and> dev' = dev1 \<and> lib' = lib1"
  using assms by (simp add: export_qp_open_def export_cleanup_def new_gverbs_def qp_view_fields)

lemma export_finishes:
  assumes "export_qp_open V G d qp nic (Some (open_handle c)) ext dev lib = Ret (e, gvo, dev', lib')"
    and "read_qp V qp ext d = Ret (Inr i)"
    and "set_doorbell G nic i (new_gverbs ext (qp_view i)) dev lib = Ret (DOCA_SUCCESS, gv1, dev1, lib1)"
    and "cq_sq (gv_qp_cpu gv1) = zero_dev_cq"
  shows "\<exists>gv. e = DOCA_SUCCESS \<and> gvo = Some gv \<and> dev' = dev1 \<and> lib' = lib1 \<and>
    gv_qp_gpu gv = gv_qp_gpu gv1 \<and> gv_cpu_db gv = gv_cpu_db gv1 \<and>
    dv_sq_db (gv_qp_cpu gv) = dv_sq_db (gv_qp_cpu gv1) \<and>
    qp_nic_handler (gv_qp_cpu gv) = qp_nic_handler (gv_qp_cpu gv1) \<and>
    gv_send_dbr_mode_ext gv = gv_send_dbr_mode_ext gv1"
  using assms(1-3) set_cq_open [OF assms(4), of V c] by (simp add: export_qp_open_def) auto

lemma new_views:
  "cq_sq (gv_qp_cpu (new_gverbs ext (qp_view i))) = zero_dev_cq"
  "gv_qp_gpu (new_gverbs ext (qp_view i)) = null" "gv_cpu_db (new_gverbs ext (qp_view i)) = null"
  "gv_send_dbr_mode_ext (new_gverbs ext (qp_view i)) = ext"
  by (simp_all add: new_gverbs_def qp_view_fields)

lemma set_direct_fields:
  "cq_sq (gv_qp_cpu (set_direct nic i p gv)) = cq_sq (gv_qp_cpu gv)"
  "gv_qp_gpu (set_direct nic i p gv) = gv_qp_gpu gv" "gv_cpu_db (set_direct nic i p gv) = gv_cpu_db gv"
  "dv_sq_db (gv_qp_cpu (set_direct nic i p gv)) = p"
  "qp_nic_handler (gv_qp_cpu (set_direct nic i p gv)) = direct_handler nic (gv_send_dbr_mode_ext gv) (qi_mode i)"
  "gv_send_dbr_mode_ext (set_direct nic i p gv) = gv_send_dbr_mode_ext gv"
  by (simp_all add: set_direct_def Let_def)

lemma set_proxy_fields:
  "cq_sq (gv_qp_cpu (set_proxy i p gv)) = cq_sq (gv_qp_cpu gv)"
  "gv_qp_gpu (set_proxy i p gv) = gv_qp_gpu gv" "gv_cpu_db (set_proxy i p gv) = p"
  "qp_nic_handler (gv_qp_cpu (set_proxy i p gv)) = NIC_HANDLER_CPU_PROXY"
  "gv_send_dbr_mode_ext (set_proxy i p gv) = gv_send_dbr_mode_ext gv"
  by (simp_all add: set_proxy_def Let_def)

text \<open>The effect of exporting the doorbell register of a queue pair.\<close>

definition undone_by_unexport :: "('g, 'c) gpu_calls \<Rightarrow> 'c gpu_live \<Rightarrow> (ptr \<Rightarrow> u32) \<Rightarrow> ptr \<Rightarrow> gres set
    \<Rightarrow> 'c gpu_lib \<Rightarrow> bool" where
  "undone_by_unexport G live cnt p X lx \<longleftrightarrow>
    (\<forall>c2. X \<subseteq> live c2 \<longrightarrow> sound (live c2) \<longrightarrow>
      (\<exists>u2 c3. unexport_uar (gc_cuda G) p (gl_uar lx) c2 = (DOCA_SUCCESS, u2, c3) \<and>
        live c3 = live c2 - X \<and> uar_count u2 = cnt))"

lemma lib_export_account:
  assumes l: "cuda_lawful (gc_cuda G) live" and same: "same_addresses (gc_cuda G)"
    and s: "sound (live (gl_sys lib))" and n: "uar_count (gl_uar lib) p \<noteq> - 1"
    and x: "lib_export_uar G p lib = (e2, pa, lx)"
  shows "if e2 = DOCA_SUCCESS then
      pa = Some p \<and> p \<noteq> null \<and>
      (\<exists>X. live (gl_sys lx) = live (gl_sys lib) \<union> X \<and> live (gl_sys lib) \<inter> X = {} \<and> sound (live (gl_sys lx)) \<and>
        undone_by_unexport G live (uar_count (gl_uar lib)) p X lx)
    else live (gl_sys lx) = live (gl_sys lib) \<and> uar_count (gl_uar lx) = uar_count (gl_uar lib)"
proof -
  obtain u1 c1 where y: "export_uar (gc_cuda G) p True (gl_uar lib) (gl_sys lib) = (e2, pa, u1, c1)"
      "lx = lib\<lparr>gl_uar := u1, gl_sys := c1\<rparr>"
    using x by (auto simp: lib_export_uar_def split: prod.splits)
  from export_uar_undone [OF l s same n y(1)] show ?thesis
    using y(2) by (simp add: undone_by_unexport_def)
qed

lemma export_held_direct:
  assumes l: "cuda_lawful (gc_cuda G) live" and same: "same_addresses (gc_cuda G)"
    and a: "accounted L t (live (gl_sys lib))" and n: "uar_count (gl_uar lib) p \<noteq> - 1"
    and nic: "nic \<noteq> NIC_HANDLER_CPU_PROXY" and ext: "ext \<noteq> SEND_DBR_MODE_EXT_NO_DBR_SW_EMULATED"
    and x: "lib_export_uar G p lib = (DOCA_SUCCESS, Some p', lib1)"
    and g: "gv_qp_gpu gv = null" "gv_cpu_db gv = null" "dv_sq_db (gv_qp_cpu gv) = p'"
      "qp_nic_handler (gv_qp_cpu gv) = direct_handler nic ext mode" "gv_send_dbr_mode_ext gv = ext"
  shows "\<exists>X me1 me2. held_by G live L (uar_count (gl_uar lib)) t X me1 me2 gv lib1"
proof -
  obtain X where X: "p' = p" "live (gl_sys lib1) = live (gl_sys lib) \<union> X" "live (gl_sys lib) \<inter> X = {}"
      "sound (live (gl_sys lib1))" "undone_by_unexport G live (uar_count (gl_uar lib)) p X lib1"
    using lib_export_account [OF l same accountedD(7) [OF a] n x, unfolded if_P [OF refl]] by blast
  have acc: "accounted (L \<union> X) t (live (gl_sys lib1))" by (rule accounted_more [OF a X(2-4)])
  have disj: "L \<inter> X = {}" using X(3) accountedD(5) [OF a] by auto
  have nh: "direct_handler nic ext mode \<noteq> NIC_HANDLER_CPU_PROXY" using nic by (simp add: direct_handler_def)
  have "served False (new_mentry GPU_MEM_TYPE_GPU 0)" by (simp add: served_def new_mentry_def)
  then have "held_by G live L (uar_count (gl_uar lib)) t X (new_mentry GPU_MEM_TYPE_GPU 0) (new_mentry GPU_MEM_TYPE_GPU 0) gv lib1"
    using acc disj X(5) ext nh
    unfolding held_by_def undone_by_unexport_def unless_null_def g X(1) if_P [OF refl] append_Nil by blast
  then show ?thesis by blast
qed

lemma export_held:
  assumes l: "cuda_lawful (gc_cuda G) live" and same: "same_addresses (gc_cuda G)" and ok: "demands_ok G"
    and a: "accounted L (gp_mtable ob) (live (gl_sys lib))" and n: "uar_count (gl_uar lib) (m_uar_db_reg q) \<noteq> - 1"
    and ext: "ext \<noteq> SEND_DBR_MODE_EXT_NO_DBR_SW_EMULATED"
    and r: "export_qp V G d (Some (open_handle q)) nic (Some (open_handle c)) ext (Some (open_handle ob)) lib =
      Ret (e, gvo, dev', lib')"
  shows "if e = DOCA_SUCCESS then
      \<exists>gv X me1 me2. gvo = Some gv \<and> gv_qp_gpu gv = null \<and>
        held_by G live L (uar_count (gl_uar lib)) (gp_mtable ob) X me1 me2 gv lib' \<and>
        dev' = Some (open_handle (ob\<lparr>gp_mtable := unless_null (gv_cpu_db gv) me1 @ gp_mtable ob\<rparr>))
    else gvo = None \<and> dev' = Some (open_handle ob) \<and> live (gl_sys lib') = live (gl_sys lib) \<and>
      uar_count (gl_uar lib') = uar_count (gl_uar lib)"
proof -
  let ?dev = "Some (open_handle ob)" and ?cnt = "uar_count (gl_uar lib)"
  have e0: "e \<noteq> DOCA_SUCCESS \<and> gvo = None \<and> dev' = ?dev \<and> lib' = lib \<or>
      export_qp_open V G d (Some (open_handle q)) nic (Some (open_handle c)) ext ?dev lib = Ret (e, gvo, dev', lib')"
    using r by (auto simp: export_qp_def open_handle_def split: if_splits)
  show ?thesis
  proof (cases "e \<noteq> DOCA_SUCCESS \<and> gvo = None \<and> dev' = ?dev \<and> lib' = lib")
    case True
    then show ?thesis by simp
  next
    case False
    then have r': "export_qp_open V G d (Some (open_handle q)) nic (Some (open_handle c)) ext ?dev lib = Ret (e, gvo, dev', lib')"
      using e0 by blast
    then obtain i where i: "read_qp V (Some (open_handle q)) ext d = Ret (Inr i)"
      using False by (auto simp: export_qp_open_def dest: read_qp_error split: outcome.splits sum.splits)
    let ?gv = "new_gverbs ext (qp_view i)"
    obtain e1 gv1 dev1 lib1 where b: "set_doorbell G nic i ?gv ?dev lib = Ret (e1, gv1, dev1, lib1)"
      using r' i by (auto simp: export_qp_open_def split: outcome.splits)
    have reg: "qi_sq_db i = m_uar_db_reg q" using read_qp_open [OF i] by simp
    note uar = lib_export_account [OF l same accountedD(7) [OF a] n]
    show ?thesis
    proof (rule set_doorbell_cases [OF b])
      fix p assume h: "e1 = DOCA_SUCCESS" "nic \<noteq> NIC_HANDLER_CPU_PROXY" "gv1 = set_direct nic i p ?gv" "dev1 = ?dev"
        "lib_export_uar G (qi_sq_db i) lib = (DOCA_SUCCESS, Some p, lib1)"
      obtain gv where g: "e = DOCA_SUCCESS" "gvo = Some gv" "dev' = ?dev" "lib' = lib1" "gv_qp_gpu gv = null" "gv_cpu_db gv = null"
          "dv_sq_db (gv_qp_cpu gv) = p" "qp_nic_handler (gv_qp_cpu gv) = direct_handler nic ext (qi_mode i)" "gv_send_dbr_mode_ext gv = ext"
        using export_finishes [OF r' i b [unfolded h(1,3,4)]] by (auto simp: set_direct_fields new_views)
      obtain X me1 me2 where "held_by G live L ?cnt (gp_mtable ob) X me1 me2 gv lib1"
        using export_held_direct [OF l same a n h(2) ext h(5) [unfolded reg] g(5-9)] by blast
      then show ?thesis using g by (auto simp: unless_null_def)
    next
      fix ea pa lx rx p assume h: "e1 = DOCA_SUCCESS" "gv1 = set_proxy i p ?gv" "p \<noteq> null" "ar_cpu rx = Some p"
        "if nic = NIC_HANDLER_CPU_PROXY then lx = lib
         else nic = NIC_HANDLER_AUTO \<and> lib_export_uar G (qi_sq_db i) lib = (ea, pa, lx) \<and> ea \<noteq> DOCA_SUCCESS"
        "lib_alloc G 8 (gc_page_size G) GPU_MEM_TYPE_CPU_GPU ?dev lx = Ret (DOCA_SUCCESS, rx, dev1, lib1)"
      have lx: "live (gl_sys lx) = live (gl_sys lib)" "uar_count (gl_uar lx) = ?cnt"
        using h(5) uar [of ea pa lx] by (auto simp: reg split: if_splits)
      obtain me where me: "dev1 = Some (open_handle (ob\<lparr>gp_mtable := (p, me) # gp_mtable ob\<rparr>))" "gl_uar lib1 = gl_uar lx"
          "served False me" "accounted L ((p, me) # gp_mtable ob) (live (gl_sys lib1))"
        using word_alloc_account [OF l same ok a [folded lx(1)] h(6)] h(4) by auto
      obtain gv where g: "e = DOCA_SUCCESS" "gvo = Some gv" "dev' = dev1" "lib' = lib1" "gv_qp_gpu gv = null" "gv_cpu_db gv = p"
          "qp_nic_handler (gv_qp_cpu gv) = NIC_HANDLER_CPU_PROXY" "gv_send_dbr_mode_ext gv = ext"
        using export_finishes [OF r' i b [unfolded h(1,2)]] by (auto simp: set_proxy_fields new_views)
      have "held_by G live L ?cnt (gp_mtable ob) {} me me gv lib'"
        using g me h(3) lx(2) ext by (simp add: held_by_def unless_null_def)
      then show ?thesis using g me h(3) by (auto simp: unless_null_def)
    next
      fix ea pa lx rx assume h: "e1 \<noteq> DOCA_SUCCESS" "gv1 = ?gv"
        "if nic = NIC_HANDLER_CPU_PROXY then lx = lib
         else nic = NIC_HANDLER_AUTO \<and> lib_export_uar G (qi_sq_db i) lib = (ea, pa, lx) \<and> ea \<noteq> DOCA_SUCCESS"
        "lib_alloc G 8 (gc_page_size G) GPU_MEM_TYPE_CPU_GPU ?dev lx = Ret (e1, rx, dev1, lib1)"
      have lx: "live (gl_sys lx) = live (gl_sys lib)" "uar_count (gl_uar lx) = ?cnt"
        using h(3) uar [of ea pa lx] by (auto simp: reg split: if_splits)
      have "dev1 = ?dev" "gl_uar lib1 = gl_uar lx" "live (gl_sys lib1) = live (gl_sys lib)"
        using word_alloc_account [OF l same ok a [folded lx(1)] h(4)] h(1) lx(1) by auto
      then show ?thesis using export_stops [OF r' i b [unfolded h(2)] h(1)] h(1) lx(2) by simp
    next
      fix pa assume h: "e1 \<noteq> DOCA_SUCCESS" "gv1 = ?gv" "dev1 = ?dev"
        "lib_export_uar G (qi_sq_db i) lib = (e1, pa, lib1)"
      then show ?thesis
        using uar [OF h(4) [unfolded reg]] export_stops [OF r' i b [unfolded h(2)] h(1)] by simp
    qed
  qed
qed

end
