(* ===== verification/GpuExportProps.thy ===== *)
theory GpuExportProps
  imports GpuExportAccount QpDemo
begin

text \<open>Properties of export: what the device view says, and that everything taken is given back.\<close>

section \<open>The properties\<close>

text \<open>C28: Export.  When the export of an open queue pair with an open completion queue succeeds, the view
  for the device is the one whose entries, number and ring the device library works with: built
  from the send buffer, its number of entries and the queue number, over the completion queue's
  buffer and number of entries, with all indices zero.  Its doorbell record is the second word of
  the queue pair's.  With the CPU proxy, the view's doorbell is the word that the proxy watches, and
  the proxy has the real doorbell, the doorbell record and the queue number; otherwise the handler
  is the one asked for, or the one that fits the doorbell record mode.\<close>

theorem exported_view_describes_the_queues:
  assumes "export_qp V G d (Some (open_handle q)) nic (Some (open_handle c)) ext dev lib =
    Ret (DOCA_SUCCESS, Some gv, dev', lib')"
  shows "\<exists>handler. dev_qp.truncate (gv_qp_cpu gv) =
      init_dev_qp (m_qp_num q) (m_sq_size_wqebb q) (m_sq_buf q) (exported_cq V c) handler \<and>
    dv_sq_dbrec (gv_qp_cpu gv) = m_db_buffer q + 4 \<and> dv_cqe_daddr (gv_qp_cpu gv) = cq_buf c \<and>
    dv_cq_dbrec (gv_qp_cpu gv) = cq_ci_dbr c \<and>
    gv_sq_wqe_pi_last gv = 0 \<and> gv_send_dbr_mode_ext gv = ext \<and> gv_qp_gpu gv = null \<and>
    (if handler = NIC_HANDLER_CPU_PROXY then
       nic \<in> {NIC_HANDLER_CPU_PROXY, NIC_HANDLER_AUTO} \<and> gv_cpu_proxy gv \<and> gv_cpu_db gv \<noteq> null \<and>
       dv_sq_db (gv_qp_cpu gv) = gv_cpu_db gv \<and> gv_sq_db gv = m_uar_db_reg q \<and>
       gv_sq_dbrec gv = m_db_buffer q + 4 \<and>
       gv_sq_num_shift8_be gv = bswap32 (push_bit 8 (m_qp_num q))
     else
       gv_cpu_db gv = null \<and> gv_sq_num_shift8_be gv = 0 \<and> gv_cpu_proxy gv = (ext = SEND_DBR_MODE_EXT_NO_DBR_SW_EMULATED) \<and>
       (\<exists>mode. mode_matches ext mode \<and> handler = direct_handler nic ext mode))"
  by (rule export_view [OF assms])

text \<open>C29: Export is undone by unexport.  The host has registered memory at the address the device sees it
  at, the queue pair and the completion queue are open objects, doorbell records are not emulated in
  software, and any call to CUDA or the driver may fail; the library's own small allocations, of a
  table entry and of a node of the table, succeed, and a page is of at most 4 GB.  When the export fails, the same memory is
  alive as before, and the table and the counts are as before.  When it succeeds, whether or not the
  copy of the view to the device then succeeds, unexport reports success and everything taken
  is given back: the device is as it was, the same memory is alive, and the counts of all
  doorbells are as before.\<close>

theorem export_is_undone_by_unexport:
  assumes "cuda_lawful (gc_cuda G) live" and "same_addresses (gc_cuda G)" and "demands_ok G"
    and "accounted L (gp_mtable ob) (live (gl_sys lib))" and "uar_count (gl_uar lib) (m_uar_db_reg q) \<noteq> - 1"
    and "ext \<noteq> SEND_DBR_MODE_EXT_NO_DBR_SW_EMULATED"
    and "export_qp V G d (Some (open_handle q)) nic (Some (open_handle c)) ext (Some (open_handle ob)) lib =
      Ret (e, gvo, dev', lib')"
  shows "if e = DOCA_SUCCESS then
      \<exists>gv. gvo = Some gv \<and>
        (\<forall>e2 p gv2 dev2 lib2. get_qp_dev G gv dev' lib' = Ret (e2, p, gv2, dev2, lib2) \<longrightarrow>
          (\<exists>lib3. unexport_qp G (Some gv2) dev2 lib2 = Ret (DOCA_SUCCESS, Some (open_handle ob), lib3) \<and>
             live (gl_sys lib3) = live (gl_sys lib) \<and> uar_count (gl_uar lib3) = uar_count (gl_uar lib)))
    else gvo = None \<and> dev' = Some (open_handle ob) \<and> live (gl_sys lib') = live (gl_sys lib) \<and>
      uar_count (gl_uar lib') = uar_count (gl_uar lib)"
proof (cases "e = DOCA_SUCCESS")
  case True
  then obtain gv X me1 me2 where g: "gvo = Some gv" "gv_qp_gpu gv = null"
      "held_by G live L (uar_count (gl_uar lib)) (gp_mtable ob) X me1 me2 gv lib'"
      "dev' = Some (open_handle (ob\<lparr>gp_mtable := unless_null (gv_cpu_db gv) me1 @ gp_mtable ob\<rparr>))"
    using export_held [OF assms] by auto
  have "\<exists>lib3. unexport_qp G (Some gv2) dev2 lib2 = Ret (DOCA_SUCCESS, Some (open_handle ob), lib3) \<and>
      live (gl_sys lib3) = live (gl_sys lib) \<and> uar_count (gl_uar lib3) = uar_count (gl_uar lib)"
    if r: "get_qp_dev G gv dev' lib' = Ret (e2, p, gv2, dev2, lib2)" for e2 p gv2 dev2 lib2
  proof -
    obtain me where h: "held_by G live L (uar_count (gl_uar lib)) (gp_mtable ob) X me1 me gv2 lib2"
        "dev2 = Some (open_handle (ob\<lparr>gp_mtable := unless_null (gv_qp_gpu gv2) me @ unless_null (gv_cpu_db gv2) me1 @ gp_mtable ob\<rparr>))"
      using copy_keeps_held [OF assms(1,3) g(3,2) r [unfolded g(4)]] by auto
    obtain lib3 where u: "unexport_qp G (Some gv2) dev2 lib2 = Ret (DOCA_SUCCESS, Some (open_handle ob), lib3)"
        "accounted L (gp_mtable ob) (live (gl_sys lib3))" "uar_count (gl_uar lib3) = uar_count (gl_uar lib)"
      using unexport_returns [OF assms(1) h(1), of ob] h(2) by auto
    have "live (gl_sys lib3) = live (gl_sys lib)"
      using accountedD(5) [OF u(2)] accountedD(5) [OF assms(4)] by simp
    then show ?thesis using u by blast
  qed
  then show ?thesis using True g(1) by auto
next
  case False
  then show ?thesis using export_held [OF assms] by simp
qed

text \<open>C30: Emulated doorbells name queue 0.  The export that emulates doorbell records in software, without
  the CPU proxy, leaves the queue number of the handle zero, so every doorbell that the CPU rings
  for this queue pair carries the number 0 whatever the number of the queue pair is.  With the CPU
  proxy the doorbells carry the number of the queue pair.\<close>

theorem emulated_doorbells_name_queue_zero:
  assumes "export_qp V G d (Some (open_handle q)) nic (Some (open_handle c)) ext dev lib =
      Ret (DOCA_SUCCESS, Some gv, dev', lib')"
    and "cpu_proxy_progress (Some gv) cpu_db = (e, b, gvo, writes)" and "RING_DB v \<in> set writes"
    and "unat (m_qp_num q) < 2 ^ 24"
  shows "db_index v = ucast cpu_db \<and> db_qpn v = (if watched gv then 0 else m_qp_num q)"
proof -
  obtain handler where h: "dev_qp.truncate (gv_qp_cpu gv) =
      init_dev_qp (m_qp_num q) (m_sq_size_wqebb q) (m_sq_buf q) (exported_cq V c) handler"
    "gv_send_dbr_mode_ext gv = ext"
    "if handler = NIC_HANDLER_CPU_PROXY then gv_sq_num_shift8_be gv = bswap32 (push_bit 8 (m_qp_num q))
     else gv_sq_num_shift8_be gv = 0 \<and> gv_cpu_proxy gv = (ext = SEND_DBR_MODE_EXT_NO_DBR_SW_EMULATED)"
    using export_view [OF assms(1)] by (auto split: if_splits)
  have "qp_nic_handler (gv_qp_cpu gv) = handler"
    using arg_cong [OF h(1), of qp_nic_handler] by (simp add: dev_qp.defs init_dev_qp_def Let_def)
  then have w: "watched gv \<longleftrightarrow> handler \<noteq> NIC_HANDLER_CPU_PROXY \<and> ext = SEND_DBR_MODE_EXT_NO_DBR_SW_EMULATED"
    using h(2) by (auto simp: watched_def)
  have proxy: "gv_cpu_proxy gv" using assms(2,3) by (auto simp: cpu_proxy_progress_def split: if_splits)
  let ?n = "if watched gv then 0 else m_qp_num q"
  have zero: "bswap32 0 = 0" by (simp add: bswap32_def byte_of_def)
  have n: "gv_sq_num_shift8_be gv = bswap32 (push_bit 8 ?n)"
    using h(3) w proxy zero by (auto split: if_splits)
  have v: "v = common_prepare_db (gv_sq_num_shift8_be gv) cpu_db"
    using assms(2,3) proxy proxy_db_eq [of "gv_sq_num_shift8_be gv" cpu_db]
    by (auto simp: cpu_proxy_progress_def progress_full_assisted_def progress_dbr_assisted_def Let_def
        split: if_splits)
  let ?qp = "init_dev_qp ?n 0 0 zero_dev_cq NIC_HANDLER_AUTO"
  have "v = prepare_db ?qp cpu_db"
    unfolding v n prepare_db_def by (simp add: init_dev_qp_def Let_def)
  moreover have "num_fields_ok ?qp" by (rule init_num_fields_ok) (use assms(4) in simp)
  moreover have "sq_num ?qp = ?n" by (simp add: init_dev_qp_def Let_def)
  ultimately show ?thesis using db_roundtrip [of ?qp cpu_db] by simp
qed

section \<open>A concrete system\<close>

text \<open>
  A concrete system for the witnesses of export: registered host memory has the same address on the
  device, as with unified addressing.
\<close>

definition overlaps :: "ptr \<Rightarrow> u64 \<Rightarrow> gres \<Rightarrow> bool" where
  "overlaps p n r =
    (case r of GDev q m \<Rightarrow> p < q + unat m \<and> q < p + unat n
     | GReg q m d \<Rightarrow> p < d + unat m \<and> d < p + unat n
     | _ \<Rightarrow> False)"

definition unified_register :: "ptr \<Rightarrow> u64 \<Rightarrow> gres list \<Rightarrow> register_result \<times> gres list" where
  "unified_register p n c =
    (if list_ex (registered_at p) c then (REG_ALREADY_REGISTERED, c)
     else if p = null \<or> list_ex (overlaps p n) c then (REG_FAILED, c)
     else (REG_SUCCESS, GReg p n p # c))"

definition unified_ptr :: "ptr \<Rightarrow> gres list \<Rightarrow> ptr option" where
  "unified_ptr p c =
    (if list_ex (registered_at p) c \<and> list_all (\<lambda>r. registered_at p r \<longrightarrow> device_address r = p) c
     then Some p else None)"

definition unified_cuda :: "gres list cuda" where
  "unified_cuda = ref_cuda\<lparr>cu_host_register := unified_register, cu_host_device_ptr := unified_ptr\<rparr>"

lemma overlaps_ranges: "\<not> overlaps p n r \<Longrightarrow> device_range r \<inter> {p ..< p + unat n} = {}"
  by (cases r) (auto simp: overlaps_def)

lemma unified_gains:
  "unified_register p n c = (REG_SUCCESS, c') \<Longrightarrow>
    (\<forall>m e. GReg p m e \<notin> set c) \<and> (\<exists>d. d \<noteq> null \<and> gains set c (GReg p n d) c')"
  using overlaps_ranges [of p n]
  by (auto simp: unified_register_def gains_def list_ex_iff registered_at_iff split: if_splits
      intro!: exI [of _ p])

lemma lawful_update:
  assumes "cuda_lawful C live"
    and "\<And>p n c c'. f p n c = (REG_SUCCESS, c') \<Longrightarrow>
       (\<forall>m e. GReg p m e \<notin> live c) \<and> (\<exists>d. d \<noteq> null \<and> gains live c (GReg p n d) c')"
    and "\<And>p n c res c'. f p n c = (res, c') \<Longrightarrow> res \<noteq> REG_SUCCESS \<Longrightarrow> live c' = live c"
    and "\<And>p c d n e. g p c = Some d \<Longrightarrow> GReg p n e \<in> live c \<Longrightarrow> d = e"
  shows "cuda_lawful (C\<lparr>cu_host_register := f, cu_host_device_ptr := g\<rparr>) live"
  using assms
  by (cases C) (simp only: cuda_lawful_def cuda.update_convs cuda.select_convs, elim conjE, intro conjI;
      (assumption | blast))

lemma unified_cuda_lawful: "cuda_lawful unified_cuda set"
  unfolding unified_cuda_def
proof (rule lawful_update [OF ref_cuda_lawful unified_gains])
  fix p c d n e assume "unified_ptr p c = Some d" "GReg p n e \<in> set c"
  then show "d = e"
    by (auto simp: unified_ptr_def list_all_iff registered_at_iff device_address_def split: if_splits)
qed (auto simp: unified_register_def split: if_splits)

lemma unified_same: "same_addresses unified_cuda"
  by (simp add: same_addresses_def unified_cuda_def unified_ptr_def)

text \<open>The verbs layer in open mode, where the SDK is never asked.\<close>

definition demo_verbs :: "(unit, qp_state \<times> devx_buf) verbs_calls" where
  "demo_verbs =
    \<lparr>vc_driver = ref_driver\<lparr>drv_obj_query := (\<lambda>ob cmd d. (DOCA_SUCCESS, devx_set qpc_mtu 3 devx_zero))\<rparr>,
     vc_qp_wq = (\<lambda>s. (DOCA_SDK_WRAPPER_NOT_FOUND, (null, 0, null, 0, 0))),
     vc_qp_dbr = (\<lambda>s. (DOCA_SDK_WRAPPER_NOT_FOUND, null)), vc_qpn = (\<lambda>s. (DOCA_SDK_WRAPPER_NOT_FOUND, 0)),
     vc_qp_uar = (\<lambda>s. (DOCA_SDK_WRAPPER_NOT_FOUND, null)),
     vc_qp_query = (\<lambda>s a i. (DOCA_SDK_WRAPPER_NOT_FOUND, a, i)),
     vc_cq_wq = (\<lambda>s. (DOCA_SDK_WRAPPER_NOT_FOUND, (null, 0, 0))),
     vc_cq_dbr = (\<lambda>s. (DOCA_SDK_WRAPPER_NOT_FOUND, (null, null, null))),
     vc_cqn = (\<lambda>s. (DOCA_SDK_WRAPPER_NOT_FOUND, 0)),
     vc_init_create = (True, (DOCA_SDK_WRAPPER_NOT_FOUND, None), True),
     vc_attr_create = (True, (DOCA_SDK_WRAPPER_NOT_FOUND, None), True),
     vc_init_destroy = (\<lambda>s. (DOCA_SDK_WRAPPER_NOT_FOUND, s)), vc_attr_destroy = (\<lambda>s. (DOCA_SDK_WRAPPER_NOT_FOUND, s)),
     vc_dbr_mode = (\<lambda>s. (DOCA_SDK_WRAPPER_NOT_FOUND, 0)), vc_state = (\<lambda>s. (DOCA_SDK_WRAPPER_NOT_FOUND, QP_STATE_RST)),
     vc_cqes = (\<lambda>p n. []), vc_u32 = (\<lambda>p. 0)\<rparr>"

definition demo_gpu_calls :: "(unit, gres list) gpu_calls" where
  "demo_gpu_calls =
    \<lparr>gc_cuda = unified_cuda, gc_gdr_env = demo_gdr_env, gc_alloc_env = demo_alloc_env, gc_page_size = 4096,
     gc_sdk_alloc = (\<lambda>s. (DOCA_SDK_WRAPPER_NOT_FOUND, nothing_stored, [])),
     gc_sdk_free = (\<lambda>s. (DOCA_SDK_WRAPPER_NOT_FOUND, (), [])), gc_calloc = True\<rparr>"

definition demo_lib :: "gres list gpu_lib" where
  "demo_lib = \<lparr>gl_gdr = gdr_loaded, gl_uar = uar_start, gl_sys = []\<rparr>"


lemma open_calls:
  "api_create True (DOCA_SDK_WRAPPER_NOT_FOUND, s) (Some ob) = Ret (DOCA_SUCCESS, Some (open_handle ob))"
  "api_destroy call f (Some (open_handle ob)) = Ret (f ob)"
  "qp_query V (Some (open_handle q)) (Some (open_handle a)) (Some (open_handle i)) x =
    (case query_qp (vc_driver V) q a i x of (e, a', i') \<Rightarrow> Ret (e, Some (open_handle a'), Some (open_handle i')))"
  "qp_init_attr_get_send_dbr_mode g (Some (open_handle i)) = Ret (DOCA_SUCCESS, Some (ucast (ia_send_dbr_mode i)))"
  by (simp_all add: api_create_def api_destroy_def destroy_open_def delete_open_def open_handle_def qp_query_def
      qp_init_attr_get_send_dbr_mode_def get_handle_def try_sdk_get_def get_open_def)

lemma demo_attrs:
  "create_init demo_verbs = Ret (DOCA_SUCCESS, Some (open_handle new_qp_init_attr))"
  "create_attr demo_verbs = Ret (DOCA_SUCCESS, Some (open_handle new_qp_attr))"
  "free_attrs demo_verbs (Some (open_handle a)) (Some (open_handle i)) r = Ret r"
  by (simp_all add: create_init_def create_attr_def qp_init_attr_create_def qp_attr_create_def free_attrs_def
      qp_attr_destroy_def qp_init_attr_destroy_def open_calls demo_verbs_def)

lemma demo_queried:
  "\<exists>a'. query_qp (vc_driver demo_verbs) q a i x = (DOCA_SUCCESS, a', query_init_attr q (devx_set qpc_mtu 3 devx_zero) i)"
  by (simp add: query_qp_def demo_verbs_def devx_fields convert_prm_qp_state_to_doca_verbs_qp_state_def
      convert_prm_mtu_size_to_doca_verbs_mtu_size_def)

lemma demo_mode: "query_send_dbr_mode demo_verbs (Some (open_handle q)) x =
    Ret (DOCA_SUCCESS, Some (ucast (ia_send_dbr_mode (m_init_attr q))))"
proof -
  obtain a' where "query_qp (vc_driver demo_verbs) q new_qp_attr new_qp_init_attr x =
      (DOCA_SUCCESS, a', query_init_attr q (devx_set qpc_mtu 3 devx_zero) new_qp_init_attr)"
    using demo_queried by blast
  then show ?thesis
    by (simp add: query_send_dbr_mode_def demo_attrs open_calls query_init_attr_def)
qed

lemma demo_read:
  assumes "mode_matches ext (ucast (ia_send_dbr_mode (m_init_attr q)))"
  shows "read_qp demo_verbs (Some (open_handle q)) ext x =
    Ret (Inr \<lparr>qi_sq_buf = m_sq_buf q, qi_sq_num = m_sq_size_wqebb q, qi_dbrec = m_db_buffer q, qi_qpn = m_qp_num q,
      qi_mode = ucast (ia_send_dbr_mode (m_init_attr q)), qi_sq_db = m_uar_db_reg q\<rparr>)"
  using assms by (simp add: read_qp_def getters_open wq_of_def bind_get_def demo_mode)

text \<open>Two queues with the numbers of the demonstration queues.\<close>

definition demo_export_qp :: qp_open where
  "demo_export_qp = new_qp\<lparr>m_sq_buf := 1026, m_sq_size_wqebb := 128, m_db_buffer := 9218, m_uar_db_reg := 65536,
     m_qp_num := 77\<rparr>"

definition demo_export_cq :: cq_open where
  "demo_export_cq = (new_cq new_cq_attr)\<lparr>cq_buf := 1, cq_num_cqes := 128, cq_ci_dbr := 8193, cq_cqn := 78\<rparr>"


definition demo_exported :: "gres list gpu_lib" where
  "demo_exported = demo_lib\<lparr>gl_uar := set_count 65536 1 (set_count 65536 0 uar_start),
     gl_sys := [GReg 65536 8 65536]\<rparr>"

lemma demo_doorbell: "lib_export_uar demo_gpu_calls 65536 demo_lib = (DOCA_SUCCESS, Some 65536, demo_exported)"
  by (simp add: lib_export_uar_def export_uar_def demo_gpu_calls_def demo_lib_def uar_start_def uar_count_def
      unified_cuda_def unified_register_def unified_ptr_def registered_at_def device_address_def
      demo_exported_def DB_UAR_SIZE_def set_count_def Let_def)

lemma demo_export_ok:
  assumes "ext \<noteq> SEND_DBR_MODE_EXT_NO_DBR_HW"
  shows "\<exists>gv. export_qp demo_verbs demo_gpu_calls x (Some (open_handle demo_export_qp)) NIC_HANDLER_AUTO
      (Some (open_handle demo_export_cq)) ext (Some (open_handle (demo_gpu True))) demo_lib =
    Ret (DOCA_SUCCESS, Some gv, Some (open_handle (demo_gpu True)), demo_exported) \<and>
    gv_sq_wqe_pi_last gv = 0 \<and> gv_send_dbr_mode_ext gv = ext \<and>
    gv_cpu_proxy gv = (ext = SEND_DBR_MODE_EXT_NO_DBR_SW_EMULATED) \<and>
    qp_nic_handler (gv_qp_cpu gv) = direct_handler NIC_HANDLER_AUTO ext 0"
proof -
  have m: "mode_matches ext (ucast (ia_send_dbr_mode (m_init_attr demo_export_qp)))"
    using assms by (simp add: mode_matches_def demo_export_qp_def new_qp_def new_qp_init_attr_def SEND_DBR_MODE_DBR_VALID_def)
  let ?i = "\<lparr>qi_sq_buf = 1026, qi_sq_num = 128, qi_dbrec = 9218, qi_qpn = 77, qi_mode = 0, qi_sq_db = 65536\<rparr>"
  have r: "read_qp demo_verbs (Some (open_handle demo_export_qp)) ext x = Ret (Inr ?i)"
    using demo_read [OF m] by (simp add: demo_export_qp_def new_qp_def new_qp_init_attr_def SEND_DBR_MODE_DBR_VALID_def)
  let ?gv = "set_direct NIC_HANDLER_AUTO ?i 65536 (new_gverbs ext (qp_view ?i))"
  have d: "set_doorbell demo_gpu_calls NIC_HANDLER_AUTO ?i (new_gverbs ext (qp_view ?i)) (Some (open_handle (demo_gpu True))) demo_lib =
      Ret (DOCA_SUCCESS, ?gv, Some (open_handle (demo_gpu True)), demo_exported)"
    by (simp add: set_doorbell_def demo_doorbell)
  have z: "cq_sq (gv_qp_cpu ?gv) = zero_dev_cq" by (simp add: set_direct_fields new_views)
  show ?thesis
    using r d set_cq_open [OF z, of demo_verbs demo_export_cq] assms
    by (simp add: export_qp_def open_handle_def demo_gpu_def demo_gpu_calls_def export_qp_open_def
        set_direct_def new_gverbs_def Let_def qp_view_fields)
qed


section \<open>Witnesses\<close>

theorem exported_view_describes_the_queues_witness:
  "\<exists>gv dev' lib'. export_qp demo_verbs demo_gpu_calls (QP_STATE_RST, devx_zero) (Some (open_handle demo_export_qp)) NIC_HANDLER_AUTO
      (Some (open_handle demo_export_cq)) SEND_DBR_MODE_EXT_VALID_DBR (Some (open_handle (demo_gpu True))) demo_lib =
    Ret (DOCA_SUCCESS, Some gv, dev', lib') \<and>
    dv_sq_dbrec (gv_qp_cpu gv) = 9222 \<and> dv_cqe_daddr (gv_qp_cpu gv) = 1 \<and> dv_cq_dbrec (gv_qp_cpu gv) = 8193"
proof -
  obtain gv dev' lib' where e: "export_qp demo_verbs demo_gpu_calls (QP_STATE_RST, devx_zero) (Some (open_handle demo_export_qp))
      NIC_HANDLER_AUTO (Some (open_handle demo_export_cq)) SEND_DBR_MODE_EXT_VALID_DBR
      (Some (open_handle (demo_gpu True))) demo_lib = Ret (DOCA_SUCCESS, Some gv, dev', lib')"
    using demo_export_ok [of SEND_DBR_MODE_EXT_VALID_DBR] by blast
  from exported_view_describes_the_queues [OF e] show ?thesis
    using e by (auto simp: demo_export_qp_def demo_export_cq_def)
qed

theorem export_is_undone_by_unexport_witness:
  "\<exists>gv dev' lib'. export_qp demo_verbs demo_gpu_calls (QP_STATE_RST, devx_zero) (Some (open_handle demo_export_qp)) NIC_HANDLER_AUTO
      (Some (open_handle demo_export_cq)) SEND_DBR_MODE_EXT_VALID_DBR (Some (open_handle (demo_gpu True))) demo_lib =
    Ret (DOCA_SUCCESS, Some gv, dev', lib') \<and> gl_sys lib' = [GReg 65536 8 65536] \<and>
    (\<forall>e2 p gv2 dev2 lib2. get_qp_dev demo_gpu_calls gv dev' lib' = Ret (e2, p, gv2, dev2, lib2) \<longrightarrow>
      (\<exists>lib3. unexport_qp demo_gpu_calls (Some gv2) dev2 lib2 = Ret (DOCA_SUCCESS, Some (open_handle (demo_gpu True)), lib3) \<and>
         gl_sys lib3 = []))"
proof -
  obtain gv where e: "export_qp demo_verbs demo_gpu_calls (QP_STATE_RST, devx_zero) (Some (open_handle demo_export_qp))
      NIC_HANDLER_AUTO (Some (open_handle demo_export_cq)) SEND_DBR_MODE_EXT_VALID_DBR
      (Some (open_handle (demo_gpu True))) demo_lib =
      Ret (DOCA_SUCCESS, Some gv, Some (open_handle (demo_gpu True)), demo_exported)"
    using demo_export_ok [of SEND_DBR_MODE_EXT_VALID_DBR] by blast
  have l: "cuda_lawful (gc_cuda demo_gpu_calls) set" "same_addresses (gc_cuda demo_gpu_calls)" "demands_ok demo_gpu_calls"
    using unified_cuda_lawful unified_same by (simp_all add: demo_gpu_calls_def demands_ok_def demo_alloc_env_def)
  have a: "accounted {} (gp_mtable (demo_gpu True)) (set (gl_sys demo_lib))"
    by (simp add: accounted_def demo_gpu_def demo_lib_def sound_def table_owns_def)
  have n: "uar_count (gl_uar demo_lib) (m_uar_db_reg demo_export_qp) \<noteq> - 1"
    by (simp add: uar_count_def demo_lib_def uar_start_def)
  have "SEND_DBR_MODE_EXT_VALID_DBR \<noteq> SEND_DBR_MODE_EXT_NO_DBR_SW_EMULATED" by simp
  from export_is_undone_by_unexport [OF l a n this e] show ?thesis
    using e by (auto simp: demo_exported_def demo_lib_def)
qed

theorem emulated_doorbells_name_queue_zero_witness:
  "\<exists>gv dev' lib' gvo v. export_qp demo_verbs demo_gpu_calls (QP_STATE_RST, devx_zero) (Some (open_handle demo_export_qp)) NIC_HANDLER_AUTO
      (Some (open_handle demo_export_cq)) SEND_DBR_MODE_EXT_NO_DBR_SW_EMULATED (Some (open_handle (demo_gpu True))) demo_lib =
    Ret (DOCA_SUCCESS, Some gv, dev', lib') \<and> m_qp_num demo_export_qp = 77 \<and>
    cpu_proxy_progress (Some gv) 5 = (DOCA_SUCCESS, False, gvo, [WRITE_DBREC (bswap32 5), RING_DB v]) \<and>
    db_index v = 5 \<and> db_qpn v = 0"
proof -
  obtain gv where e: "export_qp demo_verbs demo_gpu_calls (QP_STATE_RST, devx_zero) (Some (open_handle demo_export_qp))
      NIC_HANDLER_AUTO (Some (open_handle demo_export_cq)) SEND_DBR_MODE_EXT_NO_DBR_SW_EMULATED
      (Some (open_handle (demo_gpu True))) demo_lib =
      Ret (DOCA_SUCCESS, Some gv, Some (open_handle (demo_gpu True)), demo_exported)"
      "gv_sq_wqe_pi_last gv = 0" "gv_send_dbr_mode_ext gv = SEND_DBR_MODE_EXT_NO_DBR_SW_EMULATED" "gv_cpu_proxy gv"
      "qp_nic_handler (gv_qp_cpu gv) = NIC_HANDLER_GPU_SM_NO_DBR"
    using demo_export_ok [of SEND_DBR_MODE_EXT_NO_DBR_SW_EMULATED] by (auto simp: direct_handler_def)
  let ?v = "proxy_db (gv_sq_num_shift8_be gv) 5"
  have w: "watched gv" using e(3,5) by (simp add: watched_def)
  have p: "cpu_proxy_progress (Some gv) 5 =
      (DOCA_SUCCESS, False, Some (gv\<lparr>gv_sq_wqe_pi_last := 5\<rparr>), [WRITE_DBREC (bswap32 5), RING_DB ?v])"
    using e(2,4) w by (simp add: cpu_proxy_progress_def progress_dbr_assisted_def Let_def)
  from emulated_doorbells_name_queue_zero [OF e(1) p, of ?v] show ?thesis
    using e(1) p w by (auto simp: demo_export_qp_def)
qed

end
