(* ===== verification/CpuProxyProps.thy ===== *)
theory CpuProxyProps
  imports CpuProxy GpuExportProps
begin

text \<open>
  Properties of the CPU proxy: the doorbells it rings are those that the GPU would have rung itself,
  and its service loop ends with every queue pair caught up.
\<close>

section \<open>Sessions\<close>

text \<open>
  A session of one queue pair: the GPU submits indices, and the proxy visits the queue pair.  The
  watched word is what the stores of \<open>submit_proxy\<close> make of it.
\<close>

datatype proxy_event = Submit u64 | Visit

fun store_word :: "u64 \<Rightarrow> nic_write \<Rightarrow> u64" where
  "store_word w (STORE_PROXY v) = v"
| "store_word w (MAX_PROXY v) = max w v"
| "store_word w x = w"

fun proxied :: "sharing_mode \<Rightarrow> u32 \<Rightarrow> proxy_event list \<Rightarrow> u64 \<Rightarrow> dev_qp \<Rightarrow> gpu_verbs_qp
    \<Rightarrow> (nic_write list \<times> gpu_verbs_qp) option" where
  "proxied mode opt [] w qp gv = Some ([], gv)"
| "proxied mode opt (Submit i # es) w qp gv =
    (case submit_proxy mode qp i opt of
       None \<Rightarrow> None
     | Some (qp', ws) \<Rightarrow> proxied mode opt es (foldl store_word w ws) qp' gv)"
| "proxied mode opt (Visit # es) w qp gv =
    (case cpu_proxy_progress (Some gv) w of
       (e, b, Some gv', ws) \<Rightarrow> map_option (\<lambda>(ws', gv''). (ws @ ws', gv'')) (proxied mode opt es w qp gv')
     | _ \<Rightarrow> None)"

text \<open>What the visits find in the word, and the indices submitted in ascending order.\<close>

fun seen :: "proxy_event list \<Rightarrow> u64 \<Rightarrow> u64 list" where
  "seen [] w = []"
| "seen (Submit i # es) w = seen es (max w i)"
| "seen (Visit # es) w = w # seen es w"

fun ascending :: "proxy_event list \<Rightarrow> u64 \<Rightarrow> bool" where
  "ascending [] w = True"
| "ascending (Submit i # es) w = (w \<le> i \<and> ascending es i)"
| "ascending (Visit # es) w = ascending es w"

fun small :: "proxy_event \<Rightarrow> bool" where
  "small (Submit i) = (i < 2 ^ 32)"
| "small Visit = True"

text \<open>The GPU's own submissions, with the protocol that fits the doorbell record mode.\<close>

fun direct :: "sharing_mode \<Rightarrow> send_dbr_mode_ext \<Rightarrow> u64 list \<Rightarrow> dev_qp \<Rightarrow> (nic_write list \<times> dev_qp) option" where
  "direct mode ext [] qp = Some ([], qp)"
| "direct mode ext (i # is) qp =
    (case (if ext = SEND_DBR_MODE_EXT_NO_DBR_HW then submit_db_no_dbr mode qp i 0 else submit_db mode qp i 0) of
       None \<Rightarrow> None
     | Some (qp', ws) \<Rightarrow> map_option (\<lambda>(ws', qp''). (ws @ ws', qp'')) (direct mode ext is qp'))"

text \<open>A handle that the proxy serves in full, in step with a queue pair of the GPU.\<close>

definition in_step :: "gpu_verbs_qp \<Rightarrow> dev_qp \<Rightarrow> bool" where
  "in_step gv qp \<longleftrightarrow> gv_cpu_proxy gv \<and> \<not> watched gv \<and> gv_sq_num_shift8_be gv = sq_num_shift8_be qp \<and>
    gv_sq_wqe_pi_last gv = sq_wqe_pi qp"

lemma low_word: "(w :: u64) < 2 ^ 32 \<Longrightarrow> ucast (ucast w :: u32) = w"
  by (rule word_unat_eq_iff [THEN iffD2]) (simp add: unsigned_ucast_eq unsigned_take_bit_eq take_bit_nat_eq_self word_less_nat_alt)

lemma visit_is_submission:
  assumes s: "in_step gv qp" and w: "w < 2 ^ 32" "sq_wqe_pi qp \<le> w"
    and m: "shareable mode" and l: "lock_free mode qp"
  shows "\<exists>b gv' qp' ws. cpu_proxy_progress (Some gv) w = (DOCA_SUCCESS, b, Some gv', ws) \<and>
    (if gv_send_dbr_mode_ext gv = SEND_DBR_MODE_EXT_NO_DBR_HW then submit_db_no_dbr mode qp w 0
     else submit_db mode qp w 0) = Some (qp', ws) \<and>
    in_step gv' qp' \<and> lock_free mode qp' \<and> sq_wqe_pi qp' = w \<and>
    gv_send_dbr_mode_ext gv' = gv_send_dbr_mode_ext gv"
proof -
  have n: "\<not> skips_db 0" by (simp add: skips_db_def)
  have eq: "gv_sq_num_shift8_be gv = sq_num_shift8_be qp" "gv_sq_wqe_pi_last gv = sq_wqe_pi qp"
      "gv_cpu_proxy gv" "\<not> watched gv"
    using s by (simp_all add: in_step_def)
  have new: "w = sq_wqe_pi qp \<longleftrightarrow> \<not> sq_wqe_pi qp < w" "max (sq_wqe_pi qp) w = w" using w(2) by auto
  have keep: "watched (gv\<lparr>gv_sq_wqe_pi_last := x\<rparr>) = watched gv" for x by (simp add: watched_def)
  show ?thesis
    using eq w m l n
    by (simp add: cpu_proxy_progress_def progress_full_eq [OF eq(1)] low_word new submit_db_eq submit_db_no_dbr_def
        gpu_rings_def db_stores_def ring_db_def update_dbr_def Let_def keep in_step_def lock_free_def) auto
qed


lemma submit_stores:
  assumes "shareable mode" and "mode = SHARING_MODE_EXCLUSIVE \<Longrightarrow> w \<le> i"
  shows "\<exists>qp' ws. submit_proxy mode dq i opt = Some (qp', ws) \<and> foldl store_word w ws = max w i"
  using assms by (auto simp: submit_proxy_def ring_proxy_def Let_def max_def)

lemma proxied_is_direct:
  assumes "shareable mode" and "in_step gv qp" and "lock_free mode qp"
    and "w < 2 ^ 32" and "sq_wqe_pi qp \<le> w" and "list_all small es"
    and "mode = SHARING_MODE_EXCLUSIVE \<longrightarrow> ascending es w"
  shows "\<exists>ws gv' qp'. proxied mode opt es w dq gv = Some (ws, gv') \<and>
    direct mode (gv_send_dbr_mode_ext gv) (seen es w) qp = Some (ws, qp') \<and> in_step gv' qp'"
  using assms(2-)
proof (induction es arbitrary: w dq gv qp)
  case Nil
  then show ?case by simp
next
  case (Cons ev es)
  show ?case
  proof (cases ev)
    case (Submit i)
    have asc: "w \<le> i \<and> ascending es i" if "mode = SHARING_MODE_EXCLUSIVE"
      using Cons.prems(6) Submit that by simp
    obtain dq' ws where d: "submit_proxy mode dq i opt = Some (dq', ws)" "foldl store_word w ws = max w i"
      using submit_stores [OF assms(1), of w i dq opt] asc by blast
    have up: "max w i < 2 ^ 32" "sq_wqe_pi qp \<le> max w i"
      "mode = SHARING_MODE_EXCLUSIVE \<longrightarrow> ascending es (max w i)" "list_all small es"
      using Cons.prems(3,4,5) Submit asc by (auto simp: max_def)
    show ?thesis
      using Cons.IH [OF Cons.prems(1,2) up(1,2,4,3), of dq'] d Submit by simp
  next
    case Visit
    obtain b gv1 qp1 ws where v: "cpu_proxy_progress (Some gv) w = (DOCA_SUCCESS, b, Some gv1, ws)"
      "(if gv_send_dbr_mode_ext gv = SEND_DBR_MODE_EXT_NO_DBR_HW then submit_db_no_dbr mode qp w 0
        else submit_db mode qp w 0) = Some (qp1, ws)"
      "in_step gv1 qp1" "lock_free mode qp1" "sq_wqe_pi qp1 = w" "gv_send_dbr_mode_ext gv1 = gv_send_dbr_mode_ext gv"
      using visit_is_submission [OF Cons.prems(1,3,4) assms(1) Cons.prems(2)] by blast
    have rest: "sq_wqe_pi qp1 \<le> w" "list_all small es" "mode = SHARING_MODE_EXCLUSIVE \<longrightarrow> ascending es w"
      using v(5) Cons.prems(5,6) Visit by auto
    obtain ws' gv2 qp2 where "proxied mode opt es w dq gv1 = Some (ws', gv2)"
      "direct mode (gv_send_dbr_mode_ext gv) (seen es w) qp1 = Some (ws', qp2)" "in_step gv2 qp2"
      using Cons.IH [OF v(3,4) Cons.prems(3) rest, of dq] v(6) by auto
    then show ?thesis
      using v(1,2) Visit by auto
  qed
qed

text \<open>C31: The proxy rings like the GPU.  A session of submissions through the CPU proxy and visits of
  the proxy, with indices below 2^32, makes exactly the stores to the NIC, in the same order, that
  a queue pair driven by the GPU would make if at each visit it submitted what the watched word
  holds, which is the largest index submitted so far; with exclusive use, where the word is
  overwritten, provided that the indices ascend.  Afterwards the index last rung is the same.\<close>

theorem proxied_session_rings_like_the_gpu:
  assumes "shareable mode" and "in_step gv qp" and "lock_free mode qp"
    and "w < 2 ^ 32" and "sq_wqe_pi qp \<le> w" and "list_all small es"
    and "mode = SHARING_MODE_EXCLUSIVE \<longrightarrow> ascending es w"
  shows "\<exists>ws gv' qp'. proxied mode opt es w dq gv = Some (ws, gv') \<and>
    direct mode (gv_send_dbr_mode_ext gv) (seen es w) qp = Some (ws, qp') \<and>
    gv_sq_wqe_pi_last gv' = sq_wqe_pi qp'"
  using proxied_is_direct [OF assms, of opt dq] by (auto simp: in_step_def)

section \<open>The service loop\<close>

text \<open>A handle that is rung up to what the visit found.\<close>

definition rung :: "u64 \<Rightarrow> gpu_verbs_qp \<Rightarrow> bool" where
  "rung v gv \<longleftrightarrow> (gv_cpu_proxy gv \<longrightarrow> gv_sq_wqe_pi_last gv = ucast (ucast v :: u32))"

lemma progress_rings:
  "\<exists>e b gv' ws. cpu_proxy_progress (Some gv) v = (e, b, Some gv', ws) \<and> rung v gv' \<and>
    (rung v gv \<longrightarrow> \<not> b \<and> gv' = gv) \<and> gv_cpu_proxy gv' = gv_cpu_proxy gv"
  by (auto simp: cpu_proxy_progress_def progress_dbr_assisted_def progress_full_assisted_def rung_def Let_def)

lemma service_pass_rings:
  assumes "service_pass env t qps = (b, qps', ws)"
  shows "map fst qps' = map fst qps \<and>
    (\<forall>k < length qps. rung (env (t + k) (fst (qps ! k))) (snd (qps' ! k))) \<and>
    ((\<forall>k < length qps. rung (env (t + k) (fst (qps ! k))) (snd (qps ! k))) \<longrightarrow> \<not> b)"
  using assms
proof (induction qps arbitrary: t b qps' ws)
  case Nil
  then show ?case by simp
next
  case (Cons x qps)
  obtain p gv where x: "x = (p, gv)" by fastforce
  obtain e b1 gv1 w1 where p: "cpu_proxy_progress (Some gv) (env t p) = (e, b1, Some gv1, w1)"
      "rung (env t p) gv1" "rung (env t p) gv \<Longrightarrow> \<not> b1"
    using progress_rings [of gv "env t p"] by blast
  obtain b2 qps2 ws2 where r: "service_pass env (Suc t) qps = (b2, qps2, ws2)" by (metis prod_cases3)
  have "b = (b1 \<or> b2)" "qps' = (p, gv1) # qps2" using Cons.prems x p(1) r by auto
  then show ?case
    using Cons.IH [OF r] p(2,3) x by (auto simp: All_less_Suc2)
qed

definition caught_up :: "(nat \<Rightarrow> ptr \<Rightarrow> u64) \<Rightarrow> nat \<Rightarrow> monitored \<Rightarrow> nat \<Rightarrow> monitored \<Rightarrow> bool" where
  "caught_up env t qps t' qps' \<longleftrightarrow>
    (\<exists>s \<ge> t. t' = s + length qps \<and> map fst qps' = map fst qps \<and>
      (\<forall>k < length qps. rung (env (s + k) (fst (qps ! k))) (snd (qps' ! k))))"

lemma pass_stops:
  assumes "service_pass env t qps = (False, qps', ws)"
  shows "service_round env t qps = Some (t + length qps, qps', ws)" "caught_up env t qps (t + length qps) qps'"
  using assms service_pass_rings [OF assms] service_round.simps [of env t qps]
  by (auto simp: caught_up_def intro!: exI [of _ t])

lemma pass_goes_on:
  assumes "service_pass env t qps = (True, qps1, ws1)"
    and "service_round env (t + length qps) qps1 = Some (t', qps', ws)"
    and "caught_up env (t + length qps) qps1 t' qps'"
  shows "service_round env t qps = Some (t', qps', ws1 @ ws)" "caught_up env t qps t' qps'"
proof -
  show "service_round env t qps = Some (t', qps', ws1 @ ws)"
    using assms(1,2) service_round.simps [of env t qps] by simp
  have f: "map fst qps1 = map fst qps" using service_pass_rings [OF assms(1)] by blast
  then have n: "length qps1 = length qps" using map_eq_imp_length_eq by blast
  have "fst (qps1 ! k) = fst (qps ! k)" if "k < length qps" for k
    using f that n by (metis nth_map)
  then show "caught_up env t qps t' qps'"
    using assms(3) f n unfolding caught_up_def by (elim exE conjE) (intro exI conjI; simp)
qed

lemma service_round_ends:
  assumes still: "\<And>t p. T \<le> t \<Longrightarrow> env t p = env T p"
  shows "\<exists>t' qps' ws. service_round env t qps = Some (t', qps', ws) \<and> caught_up env t qps t' qps'"
proof (induction "T - t" arbitrary: t qps rule: less_induct)
  case less
  obtain b qps1 ws1 where p: "service_pass env t qps = (b, qps1, ws1)" by (metis prod_cases3)
  note r = service_pass_rings [OF p]
  have n: "length qps1 = length qps" using r map_eq_imp_length_eq by blast
  show ?case
  proof (cases b)
    case False
    then have "service_pass env t qps = (False, qps1, ws1)" using p by simp
    then show ?thesis using pass_stops by blast
  next
    case True
    then have ne: "qps \<noteq> []" using p by auto
    have "\<exists>t' qps' ws. service_round env (t + length qps) qps1 = Some (t', qps', ws) \<and>
        caught_up env (t + length qps) qps1 t' qps'"
    proof (cases "t < T")
      case True
      then have "T - (t + length qps) < T - t" using ne by (cases qps) auto
      then show ?thesis by (rule less)
    next
      case False
      obtain b2 qps2 ws2 where p2: "service_pass env (t + length qps) qps1 = (b2, qps2, ws2)" by (metis prod_cases3)
      have "rung (env (t + length qps + k) (fst (qps1 ! k))) (snd (qps1 ! k))" if k: "k < length qps1" for k
      proof -
        have "fst (qps1 ! k) = fst (qps ! k)" using r k n by (metis nth_map)
        moreover have "rung (env (t + k) (fst (qps ! k))) (snd (qps1 ! k))" using r k n by simp
        moreover have "env (t + length qps + k) q = env (t + k) q" for q
          using still [of "t + length qps + k" q] still [of "t + k" q] False by simp
        ultimately show ?thesis by simp
      qed
      then have "\<not> b2" using service_pass_rings [OF p2] by blast
      then have "service_pass env (t + length qps) qps1 = (False, qps2, ws2)" using p2 by simp
      then show ?thesis using pass_stops by blast
    qed
    moreover have "service_pass env t qps = (True, qps1, ws1)" using p True by simp
    ultimately show ?thesis using pass_goes_on by blast
  qed
qed

text \<open>C32: The service loop ends.  Once the GPU stops submitting, from any time on, the loop over the
  monitored queue pairs that repeats while one of them progressed ends, with the same queue pairs,
  and each of them that uses the proxy has been rung up to what its visit in the last pass found.\<close>

theorem service_loop_ends_caught_up:
  assumes "\<And>t p. T \<le> t \<Longrightarrow> env t p = env T p"
  shows "\<exists>t' qps' ws s. service_round env t qps = Some (t', qps', ws) \<and> t \<le> s \<and> t' = s + length qps \<and>
    map fst qps' = map fst qps \<and>
    (\<forall>k < length qps. gv_cpu_proxy (snd (qps' ! k)) \<longrightarrow>
      gv_sq_wqe_pi_last (snd (qps' ! k)) = ucast (ucast (env (s + k) (fst (qps ! k))) :: u32))"
  using service_round_ends [of T env t qps, OF assms] unfolding caught_up_def rung_def by blast

section \<open>Witnesses\<close>

definition proxy_handle :: gpu_verbs_qp where
  "proxy_handle = (new_gverbs SEND_DBR_MODE_EXT_VALID_DBR (qp_view \<lparr>qi_sq_buf = 1026, qi_sq_num = 128, qi_dbrec = 9218,
     qi_qpn = 77, qi_mode = 0, qi_sq_db = 65536\<rparr>))
     \<lparr>gv_cpu_proxy := True, gv_sq_num_shift8_be := bswap32 (push_bit 8 77)\<rparr>"

theorem proxied_session_rings_like_the_gpu_witness:
  "\<exists>ws gv' qp'. proxied SHARING_MODE_GPU 0 [Submit 2, Submit 1, Visit, Visit, Submit 7, Visit] 0
      (init_dev_qp 77 128 1026 zero_dev_cq NIC_HANDLER_CPU_PROXY) proxy_handle = Some (ws, gv') \<and>
    direct SHARING_MODE_GPU SEND_DBR_MODE_EXT_VALID_DBR [2, 2, 7]
      (init_dev_qp 77 128 1026 zero_dev_cq NIC_HANDLER_AUTO) = Some (ws, qp') \<and>
    gv_sq_wqe_pi_last gv' = sq_wqe_pi qp'"
proof -
  let ?qp = "init_dev_qp 77 128 1026 zero_dev_cq NIC_HANDLER_AUTO"
  let ?es = "[Submit 2, Submit 1, Visit, Visit, Submit 7, Visit]"
  have "in_step proxy_handle ?qp" "lock_free SHARING_MODE_GPU ?qp" "sq_wqe_pi ?qp \<le> 0"
    by (simp_all add: in_step_def proxy_handle_def new_gverbs_def watched_def init_dev_qp_def lock_free_def Let_def)
  moreover have "list_all small ?es" "SHARING_MODE_GPU \<noteq> SHARING_MODE_MAX" "(0 :: u64) < 2 ^ 32"
    "SHARING_MODE_GPU = SHARING_MODE_EXCLUSIVE \<longrightarrow> ascending ?es 0" by simp_all
  moreover have "seen ?es 0 = [2, 2, 7]" "gv_send_dbr_mode_ext proxy_handle = SEND_DBR_MODE_EXT_VALID_DBR"
    by (simp_all add: max_def word_le_nat_alt proxy_handle_def new_gverbs_def)
  ultimately show ?thesis
    using proxied_session_rings_like_the_gpu [of SHARING_MODE_GPU proxy_handle ?qp 0 ?es 0
        "init_dev_qp 77 128 1026 zero_dev_cq NIC_HANDLER_CPU_PROXY"] by metis
qed

theorem service_loop_ends_caught_up_witness:
  "\<exists>t' qps' ws s. service_round (\<lambda>t p. if t < 3 then of_nat t else 9) 0 [(4096, proxy_handle), (8192, proxy_handle)] =
      Some (t', qps', ws) \<and> t' = s + 2 \<and> map fst qps' = [4096, 8192]"
  using service_loop_ends_caught_up [of 3 "\<lambda>t p. if t < 3 then of_nat t else 9" 0
      "[(4096, proxy_handle), (8192, proxy_handle)]"]
  by auto

end
