(* ===== verification/DlLoad.thy ===== *)
theory DlLoad
  imports Handle VerbsTypes
begin

text \<open>
  Libraries that are opened at run time: the pattern of every \<^verbatim>\<open>*_wrapper.cpp\<close>.  A file opens its
  libraries and looks up its function pointers once in the life of the process
  (\<^verbatim>\<open>std::call_once\<close>); each of its functions loads first, and then calls through a pointer.

  The environment (the variable \<^verbatim>\<open>DOCA_SDK_LIB_PATH\<close>, the files, the linker) is an argument of every
  call, since it may change between two calls.  Logging and the \<^verbatim>\<open>RTLD\<close> flags are left out.
\<close>

record dl_env =
  ev_sdk_path :: "string option"
  ev_dlopen :: "string \<Rightarrow> ptr"
  ev_dlsym :: "ptr \<Rightarrow> string \<Rightarrow> ptr"

text \<open>
  What a file keeps: the result of the load, its function pointers by the name of the symbol, and
  the libraries that are open.  Before the first call there is nothing (\<open>None\<close>).
\<close>

record dl_unit =
  du_ret :: int
  du_sym :: "string \<Rightarrow> ptr"
  du_open :: "ptr list"

type_synonym 'r loaded = "'r outcome \<times> dl_unit option"

section \<open>Loading\<close>

text \<open>Libraries in the order in which they are opened; a symbol and the library it is looked up in.\<close>

record dl_file =
  df_symbols :: "(string \<times> nat) list"
  df_required :: "string list"

definition look_up :: "dl_env \<Rightarrow> ptr list \<Rightarrow> (string \<times> nat) list \<Rightarrow> string \<Rightarrow> ptr" where
  "look_up env handles symbols s =
    (case map_of symbols s of None \<Rightarrow> null | Some i \<Rightarrow> ev_dlsym env (handles ! i) s)"

definition failed_load :: dl_unit where
  "failed_load = \<lparr>du_ret = - 1, du_sym = \<lambda>_. null, du_open = []\<rparr>"

text \<open>When a required symbol is missing the libraries are closed again; the pointers stay.\<close>

definition take_symbols :: "dl_file \<Rightarrow> dl_env \<Rightarrow> ptr list \<Rightarrow> dl_unit" where
  "take_symbols F env handles =
    (let sym = look_up env handles (df_symbols F)
     in if list_all (\<lambda>s. sym s \<noteq> null) (df_required F)
        then \<lparr>du_ret = 0, du_sym = sym, du_open = handles\<rparr>
        else \<lparr>du_ret = - 1, du_sym = sym, du_open = []\<rparr>)"

definition call_once :: "(dl_env \<Rightarrow> dl_unit) \<Rightarrow> dl_env \<Rightarrow> dl_unit option \<Rightarrow> dl_unit" where
  "call_once load env u = (case u of None \<Rightarrow> load env | Some U \<Rightarrow> U)"

text \<open>A call through a null pointer, or into a library that was closed, has no defined outcome.\<close>

definition through :: "dl_unit \<Rightarrow> string \<Rightarrow> 'r \<Rightarrow> 'r outcome" where
  "through U s r = (if du_sym U s = null \<or> du_open U = [] then Misuse else Ret r)"

text \<open>A unit that a file can be in: not loaded yet, or loaded in some environment.\<close>

definition reachable_unit :: "(dl_env \<Rightarrow> dl_unit) \<Rightarrow> dl_unit option \<Rightarrow> bool" where
  "reachable_unit load u \<longleftrightarrow> (\<forall>U. u = Some U \<longrightarrow> (\<exists>env. U = load env))"

lemma reachable_unit_step: "reachable_unit load u \<Longrightarrow> reachable_unit load (Some (call_once load env u))"
  by (cases u) (auto simp: reachable_unit_def call_once_def)

lemma call_once_stable [simp]: "call_once load env' (Some (call_once load env u)) = call_once load env u"
  by (simp add: call_once_def)

text \<open>What every load gives: all that is required, or nothing that is open.\<close>

definition sound_load :: "string list \<Rightarrow> (dl_env \<Rightarrow> dl_unit) \<Rightarrow> bool" where
  "sound_load required load \<longleftrightarrow> (\<forall>env.
    (du_ret (load env) = 0 \<longrightarrow> du_open (load env) \<noteq> [] \<and> (\<forall>s \<in> set required. du_sym (load env) s \<noteq> null)) \<and>
    (du_ret (load env) \<noteq> 0 \<longrightarrow> du_open (load env) = []))"

lemma sound_call_once:
  assumes "sound_load required load" "reachable_unit load u" "du_ret (call_once load env u) = 0"
  shows "du_open (call_once load env u) \<noteq> []"
    and "s \<in> set required \<Longrightarrow> du_sym (call_once load env u) s \<noteq> null"
  using assms by (cases u; force simp: call_once_def sound_load_def reachable_unit_def)+

lemma take_symbols_sound:
  "handles \<noteq> [] \<Longrightarrow> du_ret (take_symbols F env handles) = 0 \<Longrightarrow>
     du_open (take_symbols F env handles) = handles \<and> (\<forall>s \<in> set (df_required F). du_sym (take_symbols F env handles) s \<noteq> null)"
  "du_ret (take_symbols F env handles) \<noteq> 0 \<Longrightarrow> du_open (take_symbols F env handles) = []"
  by (auto simp: take_symbols_def Let_def list_all_iff split: if_splits)

section \<open>The libraries of the DOCA SDK\<close>

definition SDK_PATH_LENGTH :: nat where "SDK_PATH_LENGTH = 2048"

text \<open>\<^verbatim>\<open>snprintf\<close> cuts the path to the buffer.\<close>

definition sdk_lib_path :: "dl_env \<Rightarrow> string \<Rightarrow> string" where
  "sdk_lib_path env lib =
    take (SDK_PATH_LENGTH - 1) (case ev_sdk_path env of None \<Rightarrow> lib | Some dir \<Rightarrow> dir @ ''/'' @ lib)"

fun open_all :: "dl_env \<Rightarrow> string list \<Rightarrow> ptr list option" where
  "open_all env [] = Some []"
| "open_all env (l # ls) =
    (let h = ev_dlopen env (sdk_lib_path env l)
     in if h = null then None else map_option (Cons h) (open_all env ls))"

definition sdk_load :: "string list \<Rightarrow> dl_file \<Rightarrow> dl_env \<Rightarrow> dl_unit" where
  "sdk_load libs F env =
    (case open_all env libs of None \<Rightarrow> failed_load | Some handles \<Rightarrow> take_symbols F env handles)"

definition get_sdk_wrapper_env_var :: "dl_env \<Rightarrow> int" where
  "get_sdk_wrapper_env_var env =
    (case ev_sdk_path env of None \<Rightarrow> - 1 | Some val \<Rightarrow> if val = '''' then - 1 else 1)"

lemma open_all_length: "open_all env ls = Some hs \<Longrightarrow> length hs = length ls \<and> null \<notin> set hs"
  by (induction ls arbitrary: hs) (auto simp: Let_def split: if_splits)

lemma sdk_load_sound:
  assumes "libs \<noteq> []"
  shows "sound_load (df_required F) (sdk_load libs F)"
proof -
  have "hs \<noteq> []" if "open_all env libs = Some hs" for env hs
    using open_all_length [OF that] assms by auto
  then show ?thesis
    using take_symbols_sound unfolding sound_load_def sdk_load_def
    by (auto simp: failed_load_def split: option.splits)
qed

section \<open>The system's libraries\<close>

text \<open>The first name that can be opened; every symbol is looked up in it and required.\<close>

definition net_load :: "string list \<Rightarrow> string list \<Rightarrow> dl_env \<Rightarrow> dl_unit" where
  "net_load names symbols env =
    (case find (\<lambda>l. ev_dlopen env l \<noteq> null) names of
       None \<Rightarrow> failed_load
     | Some l \<Rightarrow> take_symbols \<lparr>df_symbols = map (\<lambda>s. (s, 0)) symbols, df_required = symbols\<rparr> env [ev_dlopen env l])"

lemma net_load_sound: "sound_load symbols (net_load names symbols)"
  using take_symbols_sound [where handles = "[h]" and F = "\<lparr>df_symbols = map (\<lambda>s. (s, 0)) symbols, df_required = symbols\<rparr>" for h]
  unfolding sound_load_def net_load_def by (auto simp: failed_load_def split: option.splits)

section \<open>Calls\<close>

text \<open>A function of an SDK wrapper: the variable, the load, and then \<open>k\<close> on the loaded unit.\<close>

definition via_sdk :: "(dl_env \<Rightarrow> dl_unit) \<Rightarrow> dl_env \<Rightarrow> dl_unit option \<Rightarrow> 'r
    \<Rightarrow> (dl_unit \<Rightarrow> (doca_sdk_wrapper_error \<times> 'r) outcome) \<Rightarrow> (doca_sdk_wrapper_error \<times> 'r) loaded" where
  "via_sdk load env u r k =
    (if get_sdk_wrapper_env_var env > 0 then
       (let U = call_once load env u
        in (if du_ret U \<noteq> 0 then Ret (DOCA_SDK_WRAPPER_NOT_FOUND, r) else k U, Some U))
     else (Ret (DOCA_SDK_WRAPPER_NOT_SUPPORTED, r), u))"

definition answer :: "doca_error \<times> 'r \<Rightarrow> doca_sdk_wrapper_error \<times> 'r" where
  "answer a = (if fst a = DOCA_SUCCESS then DOCA_SDK_WRAPPER_SUCCESS else DOCA_SDK_WRAPPER_API_ERROR, snd a)"

text \<open>\<open>r\<close> is what the caller's variables hold before the call, \<open>a\<close> the answer of the SDK's function.\<close>

definition call_sdk :: "(dl_env \<Rightarrow> dl_unit) \<Rightarrow> string \<Rightarrow> dl_env \<Rightarrow> dl_unit option \<Rightarrow> 'r \<Rightarrow> doca_error \<times> 'r
    \<Rightarrow> (doca_sdk_wrapper_error \<times> 'r) loaded" where
  "call_sdk load s env u r a = via_sdk load env u r (\<lambda>U. through U s (answer a))"

text \<open>A getter of the SDK that cannot fail.\<close>

definition get_sdk :: "(dl_env \<Rightarrow> dl_unit) \<Rightarrow> string \<Rightarrow> dl_env \<Rightarrow> dl_unit option \<Rightarrow> 'r \<Rightarrow> 'r
    \<Rightarrow> (doca_sdk_wrapper_error \<times> 'r) loaded" where
  "get_sdk load s env u r v = via_sdk load env u r (\<lambda>U. through U s (DOCA_SDK_WRAPPER_SUCCESS, v))"

text \<open>A function whose symbol is optional.\<close>

definition call_optional :: "(dl_env \<Rightarrow> dl_unit) \<Rightarrow> string \<Rightarrow> dl_env \<Rightarrow> dl_unit option \<Rightarrow> 'r
    \<Rightarrow> doca_sdk_wrapper_error \<times> 'r \<Rightarrow> (doca_sdk_wrapper_error \<times> 'r) loaded" where
  "call_optional load s env u r a =
    via_sdk load env u r (\<lambda>U. if du_sym U s = null then Ret (DOCA_SDK_WRAPPER_NOT_SUPPORTED, r) else through U s a)"

text \<open>A function of a system wrapper.\<close>

definition via_net :: "(dl_env \<Rightarrow> dl_unit) \<Rightarrow> string \<Rightarrow> dl_env \<Rightarrow> dl_unit option \<Rightarrow> 'r \<Rightarrow> 'r \<Rightarrow> 'r loaded" where
  "via_net load s env u failed r =
    (let U = call_once load env u in (if du_ret U \<noteq> 0 then Ret failed else through U s r, Some U))"

section \<open>Calls are defined\<close>

lemma via_sdk_defined:
  assumes "\<And>U. du_ret U = 0 \<Longrightarrow> U = call_once load env u \<Longrightarrow> k U \<noteq> Misuse"
  shows "fst (via_sdk load env u r k) \<noteq> Misuse"
  using assms by (auto simp: via_sdk_def Let_def)

lemma via_sdk_reachable: "reachable_unit load u \<Longrightarrow> reachable_unit load (snd (via_sdk load env u r k))"
  using reachable_unit_step by (auto simp: via_sdk_def Let_def)

lemma through_defined:
  assumes "sound_load required load" "reachable_unit load u" "du_ret (call_once load env u) = 0" "s \<in> set required"
  shows "through (call_once load env u) s r = Ret r"
  using sound_call_once [OF assms(1-3)] assms(4) by (simp add: through_def)

lemma call_sdk_defined:
  assumes "sound_load required load" "reachable_unit load u" "s \<in> set required"
  shows "fst (call_sdk load s env u r a) \<noteq> Misuse" "fst (get_sdk load s env u r v) \<noteq> Misuse"
  unfolding call_sdk_def get_sdk_def
  by (intro via_sdk_defined; simp add: through_defined [OF assms(1,2) _ assms(3)])+

lemma call_optional_defined:
  assumes "sound_load required load" "reachable_unit load u"
  shows "fst (call_optional load s env u r a) \<noteq> Misuse"
  using sound_call_once(1) [OF assms] unfolding call_optional_def
  by (intro via_sdk_defined) (auto simp: through_def)

lemma via_net_defined:
  assumes "sound_load required load" "reachable_unit load u" "s \<in> set required"
  shows "fst (via_net load s env u failed r) \<noteq> Misuse"
  by (simp add: via_net_def Let_def through_defined [OF assms(1,2) _ assms(3)])

end
