(* ===== verification/SdkWrapper.thy ===== *)
theory SdkWrapper
  imports DlLoad
begin

text \<open>
  The functions of \<^verbatim>\<open>src/*_sdk_wrapper.cpp\<close>: each loads the libraries of the DOCA SDK and hands the call
  on.  The SDK's functions are parameters: \<open>f\<close> gives the error code and what the SDK's object, or the
  caller's variable, holds afterwards.  The handles that are passed as arguments are read here for
  their tag and their SDK pointer; following a null handle has no defined outcome.
\<close>

section \<open>What each file loads\<close>

definition qp_sdk_symbols :: "(string \<times> nat) list" where
  "qp_sdk_symbols =
    [(''doca_verbs_qp_init_attr_create'', 1),
     (''doca_verbs_qp_init_attr_destroy'', 1),
     (''doca_verbs_qp_init_attr_set_pd'', 1),
     (''doca_verbs_qp_init_attr_set_send_cq'', 1),
     (''doca_verbs_qp_init_attr_set_receive_cq'', 1),
     (''doca_verbs_qp_init_attr_set_sq_sig_all'', 1),
     (''doca_verbs_qp_init_attr_set_sq_wr'', 1),
     (''doca_verbs_qp_init_attr_set_rq_wr'', 1),
     (''doca_verbs_qp_init_attr_set_send_max_sges'', 1),
     (''doca_verbs_qp_init_attr_set_receive_max_sges'', 1),
     (''doca_verbs_qp_init_attr_set_max_inline_data'', 1),
     (''doca_verbs_qp_init_attr_set_user_index'', 1),
     (''doca_verbs_qp_init_attr_set_qp_type'', 1),
     (''doca_verbs_qp_init_attr_set_external_umem'', 1),
     (''doca_verbs_qp_init_attr_set_external_dbr_umem'', 1),
     (''doca_verbs_qp_init_attr_get_external_umem'', 1),
     (''doca_verbs_qp_init_attr_set_external_datapath_en'', 1),
     (''doca_verbs_qp_init_attr_set_external_uar'', 1),
     (''doca_verbs_qp_init_attr_get_external_uar'', 1),
     (''doca_verbs_qp_init_attr_set_qp_context'', 1),
     (''doca_verbs_qp_init_attr_set_srq'', 1),
     (''doca_verbs_qp_init_attr_set_core_direct_master'', 1),
     (''doca_verbs_qp_init_attr_set_send_dbr_mode'', 1),
     (''doca_verbs_qp_init_attr_get_send_dbr_mode'', 1),
     (''doca_verbs_qp_init_attr_set_ordering_semantic'', 1),
     (''doca_verbs_qp_init_attr_get_ordering_semantic'', 1),
     (''doca_verbs_qp_attr_create'', 1),
     (''doca_verbs_qp_attr_destroy'', 1),
     (''doca_verbs_qp_attr_set_next_state'', 1),
     (''doca_verbs_qp_attr_set_current_state'', 1),
     (''doca_verbs_qp_attr_get_current_state'', 1),
     (''doca_verbs_qp_attr_set_path_mtu'', 1),
     (''doca_verbs_qp_attr_set_rq_psn'', 1),
     (''doca_verbs_qp_attr_set_sq_psn'', 1),
     (''doca_verbs_qp_attr_set_dest_qp_num'', 1),
     (''doca_verbs_qp_attr_set_allow_remote_write'', 1),
     (''doca_verbs_qp_attr_set_allow_remote_read'', 1),
     (''doca_verbs_qp_attr_set_atomic_mode'', 1),
     (''doca_verbs_qp_attr_set_ah_attr'', 1),
     (''doca_verbs_qp_attr_set_pkey_index'', 1),
     (''doca_verbs_qp_attr_set_port_num'', 1),
     (''doca_verbs_qp_attr_set_ack_timeout'', 1),
     (''doca_verbs_qp_attr_set_retry_cnt'', 1),
     (''doca_verbs_qp_attr_set_rnr_retry'', 1),
     (''doca_verbs_qp_attr_set_min_rnr_timer'', 1),
     (''doca_verbs_qp_attr_set_max_rd_atomic'', 1),
     (''doca_verbs_qp_attr_set_max_dest_rd_atomic'', 1),
     (''doca_verbs_ah_attr_create'', 1),
     (''doca_verbs_ah_attr_destroy'', 1),
     (''doca_verbs_ah_attr_set_gid'', 1),
     (''doca_verbs_ah_attr_set_addr_type'', 1),
     (''doca_verbs_ah_attr_set_dlid'', 1),
     (''doca_verbs_ah_attr_set_sl'', 1),
     (''doca_verbs_ah_attr_set_sgid_index'', 1),
     (''doca_verbs_ah_attr_set_static_rate'', 1),
     (''doca_verbs_ah_attr_set_hop_limit'', 1),
     (''doca_verbs_ah_attr_set_traffic_class'', 1),
     (''doca_verbs_qp_create'', 1),
     (''doca_verbs_qp_destroy'', 1),
     (''doca_verbs_qp_modify'', 1),
     (''doca_verbs_qp_query'', 1),
     (''doca_verbs_qp_get_wq'', 1),
     (''doca_verbs_qp_init_attr_get_qp_context'', 1),
     (''doca_verbs_qp_get_dbr_addr'', 1),
     (''doca_verbs_qp_get_uar_addr'', 1),
     (''doca_verbs_qp_get_qpn'', 1),
     (''doca_rdma_bridge_get_dev_pd'', 0),
     (''doca_verbs_bridge_verbs_pd_import'', 1),
     (''doca_verbs_bridge_verbs_context_import'', 1),
     (''doca_log_backend_create_with_file_sdk'', 1)]"

definition qp_sdk_required :: "string list" where
  "qp_sdk_required =
    [''doca_verbs_qp_init_attr_create'', ''doca_verbs_qp_init_attr_destroy'',
     ''doca_verbs_qp_init_attr_set_pd'', ''doca_verbs_qp_init_attr_set_send_cq'',
     ''doca_verbs_qp_init_attr_set_receive_cq'', ''doca_verbs_qp_init_attr_set_sq_sig_all'',
     ''doca_verbs_qp_init_attr_set_sq_wr'', ''doca_verbs_qp_init_attr_set_rq_wr'',
     ''doca_verbs_qp_init_attr_set_send_max_sges'', ''doca_verbs_qp_init_attr_set_receive_max_sges'',
     ''doca_verbs_qp_init_attr_set_max_inline_data'', ''doca_verbs_qp_init_attr_set_user_index'',
     ''doca_verbs_qp_init_attr_set_qp_type'', ''doca_verbs_qp_init_attr_set_external_umem'',
     ''doca_verbs_qp_init_attr_set_external_dbr_umem'', ''doca_verbs_qp_init_attr_get_external_umem'',
     ''doca_verbs_qp_init_attr_set_external_datapath_en'', ''doca_verbs_qp_init_attr_set_external_uar'',
     ''doca_verbs_qp_init_attr_get_external_uar'', ''doca_verbs_qp_init_attr_set_qp_context'',
     ''doca_verbs_qp_init_attr_set_srq'', ''doca_verbs_qp_init_attr_set_core_direct_master'',
     ''doca_verbs_qp_attr_create'', ''doca_verbs_qp_attr_destroy'',
     ''doca_verbs_qp_attr_set_next_state'', ''doca_verbs_qp_attr_set_current_state'',
     ''doca_verbs_qp_attr_get_current_state'', ''doca_verbs_qp_attr_set_path_mtu'',
     ''doca_verbs_qp_attr_set_rq_psn'', ''doca_verbs_qp_attr_set_sq_psn'',
     ''doca_verbs_qp_attr_set_dest_qp_num'', ''doca_verbs_qp_attr_set_allow_remote_write'',
     ''doca_verbs_qp_attr_set_allow_remote_read'', ''doca_verbs_qp_attr_set_atomic_mode'',
     ''doca_verbs_qp_attr_set_ah_attr'', ''doca_verbs_qp_attr_set_pkey_index'',
     ''doca_verbs_qp_attr_set_port_num'', ''doca_verbs_qp_attr_set_ack_timeout'',
     ''doca_verbs_qp_attr_set_retry_cnt'', ''doca_verbs_qp_attr_set_rnr_retry'',
     ''doca_verbs_qp_attr_set_min_rnr_timer'', ''doca_verbs_qp_attr_set_max_rd_atomic'',
     ''doca_verbs_qp_attr_set_max_dest_rd_atomic'', ''doca_verbs_ah_attr_create'',
     ''doca_verbs_ah_attr_destroy'', ''doca_verbs_ah_attr_set_gid'',
     ''doca_verbs_ah_attr_set_addr_type'', ''doca_verbs_ah_attr_set_dlid'',
     ''doca_verbs_ah_attr_set_sl'', ''doca_verbs_ah_attr_set_sgid_index'',
     ''doca_verbs_ah_attr_set_static_rate'', ''doca_verbs_ah_attr_set_hop_limit'',
     ''doca_verbs_ah_attr_set_traffic_class'', ''doca_verbs_qp_create'',
     ''doca_verbs_qp_destroy'', ''doca_verbs_qp_modify'',
     ''doca_verbs_qp_query'', ''doca_verbs_qp_get_wq'',
     ''doca_verbs_qp_init_attr_get_qp_context'', ''doca_verbs_qp_get_dbr_addr'',
     ''doca_verbs_qp_get_uar_addr'', ''doca_verbs_qp_get_qpn'',
     ''doca_log_backend_create_with_file_sdk'']"

definition qp_sdk_file :: dl_file where
  "qp_sdk_file = \<lparr>df_symbols = qp_sdk_symbols, df_required = qp_sdk_required\<rparr>"

definition qp_sdk_load :: "dl_env \<Rightarrow> dl_unit" where
  "qp_sdk_load = sdk_load [''libdoca_common.so'', ''libdoca_verbs.so''] qp_sdk_file"

lemmas qp_sdk_file_defs = qp_sdk_file_def qp_sdk_symbols_def qp_sdk_required_def

definition cq_sdk_symbols :: "(string \<times> nat) list" where
  "cq_sdk_symbols =
    [(''doca_verbs_cq_attr_destroy'', 1),
     (''doca_verbs_cq_attr_create'', 1),
     (''doca_verbs_cq_attr_set_cq_size'', 1),
     (''doca_verbs_cq_attr_set_cq_context'', 1),
     (''doca_verbs_cq_attr_set_external_datapath_en'', 1),
     (''doca_verbs_cq_attr_set_external_umem'', 1),
     (''doca_verbs_cq_attr_set_external_uar'', 1),
     (''doca_verbs_cq_attr_set_cq_overrun'', 1),
     (''doca_verbs_cq_attr_set_cq_collapsed'', 1),
     (''doca_verbs_cq_create'', 1),
     (''doca_verbs_cq_destroy'', 1),
     (''doca_verbs_cq_get_wq'', 1),
     (''doca_verbs_cq_get_dbr_addr'', 1),
     (''doca_verbs_cq_get_cqn'', 1)]"

definition cq_sdk_required :: "string list" where
  "cq_sdk_required =
    [''doca_verbs_cq_attr_destroy'', ''doca_verbs_cq_attr_create'',
     ''doca_verbs_cq_attr_set_cq_size'', ''doca_verbs_cq_attr_set_cq_context'',
     ''doca_verbs_cq_attr_set_external_datapath_en'', ''doca_verbs_cq_attr_set_external_umem'',
     ''doca_verbs_cq_attr_set_external_uar'', ''doca_verbs_cq_attr_set_cq_overrun'',
     ''doca_verbs_cq_create'', ''doca_verbs_cq_destroy'',
     ''doca_verbs_cq_get_wq'', ''doca_verbs_cq_get_dbr_addr'',
     ''doca_verbs_cq_get_cqn'']"

definition cq_sdk_file :: dl_file where
  "cq_sdk_file = \<lparr>df_symbols = cq_sdk_symbols, df_required = cq_sdk_required\<rparr>"

definition cq_sdk_load :: "dl_env \<Rightarrow> dl_unit" where
  "cq_sdk_load = sdk_load [''libdoca_common.so'', ''libdoca_verbs.so''] cq_sdk_file"

lemmas cq_sdk_file_defs = cq_sdk_file_def cq_sdk_symbols_def cq_sdk_required_def

definition dev_sdk_symbols :: "(string \<times> nat) list" where
  "dev_sdk_symbols =
    [(''doca_rdma_bridge_open_dev_from_pd'', 1),
     (''doca_dev_close'', 1),
     (''doca_verbs_bridge_verbs_pd_import'', 1),
     (''doca_verbs_bridge_verbs_context_import'', 1),
     (''doca_verbs_pd_destroy'', 1),
     (''doca_verbs_context_destroy'', 1)]"

definition dev_sdk_required :: "string list" where
  "dev_sdk_required =
    [''doca_rdma_bridge_open_dev_from_pd'', ''doca_dev_close'',
     ''doca_verbs_bridge_verbs_pd_import'', ''doca_verbs_bridge_verbs_context_import'',
     ''doca_verbs_pd_destroy'', ''doca_verbs_context_destroy'']"

definition dev_sdk_file :: dl_file where
  "dev_sdk_file = \<lparr>df_symbols = dev_sdk_symbols, df_required = dev_sdk_required\<rparr>"

definition dev_sdk_load :: "dl_env \<Rightarrow> dl_unit" where
  "dev_sdk_load = sdk_load [''libdoca_common.so'', ''libdoca_verbs.so''] dev_sdk_file"

lemmas dev_sdk_file_defs = dev_sdk_file_def dev_sdk_symbols_def dev_sdk_required_def

definition uar_sdk_symbols :: "(string \<times> nat) list" where
  "uar_sdk_symbols =
    [(''doca_uar_create'', 0),
     (''doca_uar_destroy'', 0),
     (''doca_uar_id_get'', 0),
     (''doca_uar_reg_addr_get'', 0)]"

definition uar_sdk_required :: "string list" where
  "uar_sdk_required =
    [''doca_uar_create'', ''doca_uar_destroy'',
     ''doca_uar_id_get'', ''doca_uar_reg_addr_get'']"

definition uar_sdk_file :: dl_file where
  "uar_sdk_file = \<lparr>df_symbols = uar_sdk_symbols, df_required = uar_sdk_required\<rparr>"

definition uar_sdk_load :: "dl_env \<Rightarrow> dl_unit" where
  "uar_sdk_load = sdk_load [''libdoca_common.so''] uar_sdk_file"

lemmas uar_sdk_file_defs = uar_sdk_file_def uar_sdk_symbols_def uar_sdk_required_def

definition umem_sdk_symbols :: "(string \<times> nat) list" where
  "umem_sdk_symbols =
    [(''doca_umem_create'', 1),
     (''doca_umem_gpu_create'', 1),
     (''doca_umem_destroy'', 1),
     (''doca_umem_get_id'', 1),
     (''doca_umem_get_size'', 1),
     (''doca_umem_get_address'', 1)]"

definition umem_sdk_required :: "string list" where
  "umem_sdk_required =
    [''doca_umem_create'', ''doca_umem_gpu_create'',
     ''doca_umem_destroy'', ''doca_umem_get_id'',
     ''doca_umem_get_size'', ''doca_umem_get_address'']"

definition umem_sdk_file :: dl_file where
  "umem_sdk_file = \<lparr>df_symbols = umem_sdk_symbols, df_required = umem_sdk_required\<rparr>"

definition umem_sdk_load :: "dl_env \<Rightarrow> dl_unit" where
  "umem_sdk_load = sdk_load [''libdoca_gpunetio.so'', ''libdoca_common.so''] umem_sdk_file"

lemmas umem_sdk_file_defs = umem_sdk_file_def umem_sdk_symbols_def umem_sdk_required_def

definition gpu_sdk_symbols :: "(string \<times> nat) list" where
  "gpu_sdk_symbols =
    [(''doca_gpu_create'', 2),
     (''doca_gpu_destroy'', 2),
     (''doca_gpu_mem_alloc'', 2),
     (''doca_gpu_mem_free'', 2),
     (''doca_gpu_dmabuf_fd'', 2)]"

definition gpu_sdk_required :: "string list" where
  "gpu_sdk_required =
    [''doca_gpu_create'', ''doca_gpu_destroy'',
     ''doca_gpu_mem_alloc'', ''doca_gpu_mem_free'',
     ''doca_gpu_dmabuf_fd'']"

definition gpu_sdk_file :: dl_file where
  "gpu_sdk_file = \<lparr>df_symbols = gpu_sdk_symbols, df_required = gpu_sdk_required\<rparr>"

definition gpu_sdk_load :: "dl_env \<Rightarrow> dl_unit" where
  "gpu_sdk_load = sdk_load [''libdoca_common.so'', ''libdoca_verbs.so'', ''libdoca_gpunetio.so''] gpu_sdk_file"

lemmas gpu_sdk_file_defs = gpu_sdk_file_def gpu_sdk_symbols_def gpu_sdk_required_def

section \<open>Arguments\<close>

record sdk_arg =
  sa_type :: lib_type
  sa_sdk :: ptr

record sdk_dev =
  sd_type :: lib_type
  sd_sdk :: ptr
  sd_pd :: ptr
  sd_context :: ptr

type_synonym 'r wrapped = "(doca_sdk_wrapper_error \<times> 'r) outcome"
type_synonym 'r wrapping = "(doca_sdk_wrapper_error \<times> 'r) loaded"

definition if_sdk :: "sdk_arg option \<Rightarrow> 'r \<Rightarrow> (ptr \<Rightarrow> 'r wrapped) \<Rightarrow> 'r wrapped" where
  "if_sdk a r k =
    (case a of
       None \<Rightarrow> Misuse
     | Some h \<Rightarrow> if sa_type h \<noteq> LIB_TYPE_SDK then Ret (DOCA_SDK_WRAPPER_NOT_FOUND, r) else k (sa_sdk h))"

definition if_sdk_dev :: "sdk_dev option \<Rightarrow> 'r \<Rightarrow> (sdk_dev \<Rightarrow> 'r wrapped) \<Rightarrow> 'r wrapped" where
  "if_sdk_dev d r k =
    (case d of
       None \<Rightarrow> Misuse
     | Some h \<Rightarrow> if sd_type h \<noteq> LIB_TYPE_SDK then Ret (DOCA_SDK_WRAPPER_NOT_FOUND, r) else k h)"

definition if_elements :: "bool \<Rightarrow> 'r \<Rightarrow> 'r wrapped \<Rightarrow> 'r wrapped" where
  "if_elements present r k = (if \<not> present then Ret (DOCA_SDK_WRAPPER_NOT_FOUND, r) else k)"

definition non_null :: "bool \<Rightarrow> dl_unit option \<Rightarrow> 'r \<Rightarrow> (doca_sdk_wrapper_error \<times> 'r) loaded
    \<Rightarrow> (doca_sdk_wrapper_error \<times> 'r) loaded" where
  "non_null ok u r k = (if \<not> ok then (Ret (DOCA_SDK_WRAPPER_API_INVALID_VALUE, r), u) else k)"

definition after_call :: "dl_unit \<Rightarrow> string \<Rightarrow> doca_error \<times> 'r \<Rightarrow> (doca_error \<Rightarrow> 'r \<Rightarrow> 'q outcome) \<Rightarrow> 'q outcome" where
  "after_call U s a k = (case through U s a of Misuse \<Rightarrow> Misuse | Ret (e, r) \<Rightarrow> k e r)"

section \<open>QP creation attributes\<close>

definition sdk_qp_init_attr_create ::
  "(doca_error \<times> 's option)
    \<Rightarrow> dl_env \<Rightarrow> dl_unit option \<Rightarrow> 's option \<Rightarrow> 's option wrapping" where
  "sdk_qp_init_attr_create f env u result =
    call_sdk qp_sdk_load ''doca_verbs_qp_init_attr_create'' env u result f"

definition sdk_qp_init_attr_destroy ::
  "('s option \<Rightarrow> doca_error \<times> 's option)
    \<Rightarrow> dl_env \<Rightarrow> dl_unit option \<Rightarrow> 's option \<Rightarrow> 's option wrapping" where
  "sdk_qp_init_attr_destroy f env u ob =
    call_sdk qp_sdk_load ''doca_verbs_qp_init_attr_destroy'' env u ob (f ob)"

definition sdk_qp_init_attr_set_pd ::
  "('s option \<Rightarrow> ptr \<Rightarrow> doca_error \<times> 's option)
    \<Rightarrow> dl_env \<Rightarrow> dl_unit option \<Rightarrow> 's option \<Rightarrow> sdk_dev option \<Rightarrow> 's option wrapping" where
  "sdk_qp_init_attr_set_pd f env u ob net_dev =
    non_null (net_dev \<noteq> None) u ob (via_sdk qp_sdk_load env u ob (\<lambda>U.
      if_sdk_dev net_dev ob (\<lambda>d. if_elements (sd_pd d \<noteq> null \<and> sd_context d \<noteq> null) ob
        (through U ''doca_verbs_qp_init_attr_set_pd'' (answer (f ob (sd_pd d)))))))"

definition sdk_qp_init_attr_set_send_cq ::
  "('s option \<Rightarrow> ptr \<Rightarrow> doca_error \<times> 's option)
    \<Rightarrow> dl_env \<Rightarrow> dl_unit option \<Rightarrow> 's option \<Rightarrow> sdk_arg option \<Rightarrow> 's option wrapping" where
  "sdk_qp_init_attr_set_send_cq f env u ob arg =
    non_null (arg \<noteq> None) u ob (via_sdk qp_sdk_load env u ob (\<lambda>U.
      if_sdk arg ob (\<lambda>p. through U ''doca_verbs_qp_init_attr_set_send_cq'' (answer (f ob p)))))"

definition sdk_qp_init_attr_set_receive_cq ::
  "('s option \<Rightarrow> ptr \<Rightarrow> doca_error \<times> 's option)
    \<Rightarrow> dl_env \<Rightarrow> dl_unit option \<Rightarrow> 's option \<Rightarrow> sdk_arg option \<Rightarrow> 's option wrapping" where
  "sdk_qp_init_attr_set_receive_cq f env u ob arg =
    non_null (arg \<noteq> None) u ob (via_sdk qp_sdk_load env u ob (\<lambda>U.
      if_sdk arg ob (\<lambda>p. through U ''doca_verbs_qp_init_attr_set_receive_cq'' (answer (f ob p)))))"

definition sdk_qp_init_attr_set_sq_sig_all ::
  "('s option \<Rightarrow> 'a \<Rightarrow> doca_error \<times> 's option)
    \<Rightarrow> dl_env \<Rightarrow> dl_unit option \<Rightarrow> 's option \<Rightarrow> 'a \<Rightarrow> 's option wrapping" where
  "sdk_qp_init_attr_set_sq_sig_all f env u ob sq_sig_all =
    call_sdk qp_sdk_load ''doca_verbs_qp_init_attr_set_sq_sig_all'' env u ob (f ob sq_sig_all)"

definition sdk_qp_init_attr_set_sq_wr ::
  "('s option \<Rightarrow> 'a \<Rightarrow> doca_error \<times> 's option)
    \<Rightarrow> dl_env \<Rightarrow> dl_unit option \<Rightarrow> 's option \<Rightarrow> 'a \<Rightarrow> 's option wrapping" where
  "sdk_qp_init_attr_set_sq_wr f env u ob sq_wr =
    call_sdk qp_sdk_load ''doca_verbs_qp_init_attr_set_sq_wr'' env u ob (f ob sq_wr)"

definition sdk_qp_init_attr_set_rq_wr ::
  "('s option \<Rightarrow> 'a \<Rightarrow> doca_error \<times> 's option)
    \<Rightarrow> dl_env \<Rightarrow> dl_unit option \<Rightarrow> 's option \<Rightarrow> 'a \<Rightarrow> 's option wrapping" where
  "sdk_qp_init_attr_set_rq_wr f env u ob rq_wr =
    call_sdk qp_sdk_load ''doca_verbs_qp_init_attr_set_rq_wr'' env u ob (f ob rq_wr)"

definition sdk_qp_init_attr_set_send_max_sges ::
  "('s option \<Rightarrow> 'a \<Rightarrow> doca_error \<times> 's option)
    \<Rightarrow> dl_env \<Rightarrow> dl_unit option \<Rightarrow> 's option \<Rightarrow> 'a \<Rightarrow> 's option wrapping" where
  "sdk_qp_init_attr_set_send_max_sges f env u ob send_max_sges =
    call_sdk qp_sdk_load ''doca_verbs_qp_init_attr_set_send_max_sges'' env u ob (f ob send_max_sges)"

definition sdk_qp_init_attr_set_receive_max_sges ::
  "('s option \<Rightarrow> 'a \<Rightarrow> doca_error \<times> 's option)
    \<Rightarrow> dl_env \<Rightarrow> dl_unit option \<Rightarrow> 's option \<Rightarrow> 'a \<Rightarrow> 's option wrapping" where
  "sdk_qp_init_attr_set_receive_max_sges f env u ob receive_max_sges =
    call_sdk qp_sdk_load ''doca_verbs_qp_init_attr_set_receive_max_sges'' env u ob (f ob receive_max_sges)"

definition sdk_qp_init_attr_set_max_inline_data ::
  "('s option \<Rightarrow> 'a \<Rightarrow> doca_error \<times> 's option)
    \<Rightarrow> dl_env \<Rightarrow> dl_unit option \<Rightarrow> 's option \<Rightarrow> 'a \<Rightarrow> 's option wrapping" where
  "sdk_qp_init_attr_set_max_inline_data f env u ob max_inline_data =
    call_sdk qp_sdk_load ''doca_verbs_qp_init_attr_set_max_inline_data'' env u ob (f ob max_inline_data)"

definition sdk_qp_init_attr_set_user_index ::
  "('s option \<Rightarrow> 'a \<Rightarrow> doca_error \<times> 's option)
    \<Rightarrow> dl_env \<Rightarrow> dl_unit option \<Rightarrow> 's option \<Rightarrow> 'a \<Rightarrow> 's option wrapping" where
  "sdk_qp_init_attr_set_user_index f env u ob user_index =
    call_sdk qp_sdk_load ''doca_verbs_qp_init_attr_set_user_index'' env u ob (f ob user_index)"

definition sdk_qp_init_attr_set_qp_type ::
  "('s option \<Rightarrow> 'a \<Rightarrow> doca_error \<times> 's option)
    \<Rightarrow> dl_env \<Rightarrow> dl_unit option \<Rightarrow> 's option \<Rightarrow> 'a \<Rightarrow> 's option wrapping" where
  "sdk_qp_init_attr_set_qp_type f env u ob qp_type =
    call_sdk qp_sdk_load ''doca_verbs_qp_init_attr_set_qp_type'' env u ob (f ob qp_type)"

definition sdk_qp_init_attr_set_external_umem ::
  "('s option \<Rightarrow> ptr \<Rightarrow> u64 \<Rightarrow> doca_error \<times> 's option) \<Rightarrow> ('s option \<Rightarrow> u8 \<Rightarrow> doca_error \<times> 's option)
   \<Rightarrow> dl_env \<Rightarrow> dl_unit option \<Rightarrow> 's option \<Rightarrow> sdk_arg option \<Rightarrow> u64 \<Rightarrow> 's option wrapping" where
  "sdk_qp_init_attr_set_external_umem f datapath_en env u ob arg offset =
    non_null (arg \<noteq> None) u ob (via_sdk qp_sdk_load env u ob (\<lambda>U.
      if_sdk arg ob (\<lambda>p. after_call U ''doca_verbs_qp_init_attr_set_external_umem'' (f ob p offset) (\<lambda>e ob.
        if e = DOCA_SUCCESS then through U ''doca_verbs_qp_init_attr_set_external_datapath_en'' (answer (datapath_en ob 1))
        else Ret (DOCA_SDK_WRAPPER_API_ERROR, ob)))))"

definition sdk_qp_init_attr_set_external_umem_dbr ::
  "('s option \<Rightarrow> ptr \<Rightarrow> u64 \<Rightarrow> doca_error \<times> 's option)
    \<Rightarrow> dl_env \<Rightarrow> dl_unit option \<Rightarrow> 's option \<Rightarrow> sdk_arg option \<Rightarrow> u64 \<Rightarrow> 's option wrapping" where
  "sdk_qp_init_attr_set_external_umem_dbr f env u ob arg offset =
    non_null (arg \<noteq> None) u ob (via_sdk qp_sdk_load env u ob (\<lambda>U.
      if_sdk arg ob (\<lambda>p. through U ''doca_verbs_qp_init_attr_set_external_dbr_umem'' (answer (f ob p offset)))))"

definition sdk_qp_init_attr_set_external_uar ::
  "('s option \<Rightarrow> ptr \<Rightarrow> doca_error \<times> 's option)
    \<Rightarrow> dl_env \<Rightarrow> dl_unit option \<Rightarrow> 's option \<Rightarrow> sdk_arg option \<Rightarrow> 's option wrapping" where
  "sdk_qp_init_attr_set_external_uar f env u ob arg =
    non_null (arg \<noteq> None) u ob (via_sdk qp_sdk_load env u ob (\<lambda>U.
      if_sdk arg ob (\<lambda>p. through U ''doca_verbs_qp_init_attr_set_external_uar'' (answer (f ob p)))))"

definition sdk_qp_init_attr_set_qp_context ::
  "('s option \<Rightarrow> 'a \<Rightarrow> doca_error \<times> 's option)
    \<Rightarrow> dl_env \<Rightarrow> dl_unit option \<Rightarrow> 's option \<Rightarrow> 'a \<Rightarrow> 's option wrapping" where
  "sdk_qp_init_attr_set_qp_context f env u ob qp_context =
    call_sdk qp_sdk_load ''doca_verbs_qp_init_attr_set_qp_context'' env u ob (f ob qp_context)"

definition sdk_qp_init_attr_set_core_direct_master ::
  "('s option \<Rightarrow> 'a \<Rightarrow> doca_error \<times> 's option)
    \<Rightarrow> dl_env \<Rightarrow> dl_unit option \<Rightarrow> 's option \<Rightarrow> 'a \<Rightarrow> 's option wrapping" where
  "sdk_qp_init_attr_set_core_direct_master f env u ob core_direct_master =
    call_sdk qp_sdk_load ''doca_verbs_qp_init_attr_set_core_direct_master'' env u ob (f ob core_direct_master)"

definition sdk_qp_init_attr_set_send_dbr_mode ::
  "('s option \<Rightarrow> 'a \<Rightarrow> doca_error \<times> 's option)
    \<Rightarrow> dl_env \<Rightarrow> dl_unit option \<Rightarrow> 's option \<Rightarrow> 'a \<Rightarrow> 's option wrapping" where
  "sdk_qp_init_attr_set_send_dbr_mode f env u ob v =
    call_optional qp_sdk_load ''doca_verbs_qp_init_attr_set_send_dbr_mode'' env u ob (answer (f ob v))"

definition sdk_qp_init_attr_get_send_dbr_mode ::
  "('s option \<Rightarrow> 'v)
    \<Rightarrow> dl_env \<Rightarrow> dl_unit option \<Rightarrow> 's option \<Rightarrow> 'v \<Rightarrow> 'v wrapping" where
  "sdk_qp_init_attr_get_send_dbr_mode f env u ob result =
    call_optional qp_sdk_load ''doca_verbs_qp_init_attr_get_send_dbr_mode'' env u result (DOCA_SDK_WRAPPER_SUCCESS, f ob)"

definition sdk_qp_init_attr_set_ordering_semantic ::
  "('s option \<Rightarrow> 'a \<Rightarrow> doca_error \<times> 's option)
    \<Rightarrow> dl_env \<Rightarrow> dl_unit option \<Rightarrow> 's option \<Rightarrow> 'a \<Rightarrow> 's option wrapping" where
  "sdk_qp_init_attr_set_ordering_semantic f env u ob v =
    call_optional qp_sdk_load ''doca_verbs_qp_init_attr_set_ordering_semantic'' env u ob (answer (f ob v))"

definition sdk_qp_init_attr_get_ordering_semantic ::
  "('s option \<Rightarrow> 'v)
    \<Rightarrow> dl_env \<Rightarrow> dl_unit option \<Rightarrow> 's option \<Rightarrow> 'v \<Rightarrow> 'v wrapping" where
  "sdk_qp_init_attr_get_ordering_semantic f env u ob result =
    call_optional qp_sdk_load ''doca_verbs_qp_init_attr_get_ordering_semantic'' env u result (DOCA_SDK_WRAPPER_SUCCESS, f ob)"

section \<open>QP modification attributes\<close>

definition sdk_qp_attr_create ::
  "(doca_error \<times> 's option)
    \<Rightarrow> dl_env \<Rightarrow> dl_unit option \<Rightarrow> 's option \<Rightarrow> 's option wrapping" where
  "sdk_qp_attr_create f env u result = call_sdk qp_sdk_load ''doca_verbs_qp_attr_create'' env u result f"

definition sdk_qp_attr_destroy ::
  "('s option \<Rightarrow> doca_error \<times> 's option)
    \<Rightarrow> dl_env \<Rightarrow> dl_unit option \<Rightarrow> 's option \<Rightarrow> 's option wrapping" where
  "sdk_qp_attr_destroy f env u ob = call_sdk qp_sdk_load ''doca_verbs_qp_attr_destroy'' env u ob (f ob)"

definition sdk_qp_attr_set_current_state ::
  "('s option \<Rightarrow> 'a \<Rightarrow> doca_error \<times> 's option)
    \<Rightarrow> dl_env \<Rightarrow> dl_unit option \<Rightarrow> 's option \<Rightarrow> 'a \<Rightarrow> 's option wrapping" where
  "sdk_qp_attr_set_current_state f env u ob current_state =
    call_sdk qp_sdk_load ''doca_verbs_qp_attr_set_current_state'' env u ob (f ob current_state)"

definition sdk_qp_attr_get_current_state ::
  "('s option \<Rightarrow> 'v)
    \<Rightarrow> dl_env \<Rightarrow> dl_unit option \<Rightarrow> 's option \<Rightarrow> 'v \<Rightarrow> 'v wrapping" where
  "sdk_qp_attr_get_current_state f env u ob result =
    get_sdk qp_sdk_load ''doca_verbs_qp_attr_get_current_state'' env u result (f ob)"

definition sdk_qp_attr_set_next_state ::
  "('s option \<Rightarrow> 'a \<Rightarrow> doca_error \<times> 's option)
    \<Rightarrow> dl_env \<Rightarrow> dl_unit option \<Rightarrow> 's option \<Rightarrow> 'a \<Rightarrow> 's option wrapping" where
  "sdk_qp_attr_set_next_state f env u ob next_state =
    call_sdk qp_sdk_load ''doca_verbs_qp_attr_set_next_state'' env u ob (f ob next_state)"

definition sdk_qp_attr_set_path_mtu ::
  "('s option \<Rightarrow> 'a \<Rightarrow> doca_error \<times> 's option)
    \<Rightarrow> dl_env \<Rightarrow> dl_unit option \<Rightarrow> 's option \<Rightarrow> 'a \<Rightarrow> 's option wrapping" where
  "sdk_qp_attr_set_path_mtu f env u ob path_mtu =
    call_sdk qp_sdk_load ''doca_verbs_qp_attr_set_path_mtu'' env u ob (f ob path_mtu)"

definition sdk_qp_attr_set_rq_psn ::
  "('s option \<Rightarrow> 'a \<Rightarrow> doca_error \<times> 's option)
    \<Rightarrow> dl_env \<Rightarrow> dl_unit option \<Rightarrow> 's option \<Rightarrow> 'a \<Rightarrow> 's option wrapping" where
  "sdk_qp_attr_set_rq_psn f env u ob rq_psn =
    call_sdk qp_sdk_load ''doca_verbs_qp_attr_set_rq_psn'' env u ob (f ob rq_psn)"

definition sdk_qp_attr_set_sq_psn ::
  "('s option \<Rightarrow> 'a \<Rightarrow> doca_error \<times> 's option)
    \<Rightarrow> dl_env \<Rightarrow> dl_unit option \<Rightarrow> 's option \<Rightarrow> 'a \<Rightarrow> 's option wrapping" where
  "sdk_qp_attr_set_sq_psn f env u ob sq_psn =
    call_sdk qp_sdk_load ''doca_verbs_qp_attr_set_sq_psn'' env u ob (f ob sq_psn)"

definition sdk_qp_attr_set_dest_qp_num ::
  "('s option \<Rightarrow> 'a \<Rightarrow> doca_error \<times> 's option)
    \<Rightarrow> dl_env \<Rightarrow> dl_unit option \<Rightarrow> 's option \<Rightarrow> 'a \<Rightarrow> 's option wrapping" where
  "sdk_qp_attr_set_dest_qp_num f env u ob dest_qp_num =
    call_sdk qp_sdk_load ''doca_verbs_qp_attr_set_dest_qp_num'' env u ob (f ob dest_qp_num)"

definition sdk_qp_attr_set_allow_remote_write ::
  "('s option \<Rightarrow> 'a \<Rightarrow> doca_error \<times> 's option)
    \<Rightarrow> dl_env \<Rightarrow> dl_unit option \<Rightarrow> 's option \<Rightarrow> 'a \<Rightarrow> 's option wrapping" where
  "sdk_qp_attr_set_allow_remote_write f env u ob allow_remote_write =
    call_sdk qp_sdk_load ''doca_verbs_qp_attr_set_allow_remote_write'' env u ob (f ob allow_remote_write)"

definition sdk_qp_attr_set_allow_remote_read ::
  "('s option \<Rightarrow> 'a \<Rightarrow> doca_error \<times> 's option)
    \<Rightarrow> dl_env \<Rightarrow> dl_unit option \<Rightarrow> 's option \<Rightarrow> 'a \<Rightarrow> 's option wrapping" where
  "sdk_qp_attr_set_allow_remote_read f env u ob allow_remote_read =
    call_sdk qp_sdk_load ''doca_verbs_qp_attr_set_allow_remote_read'' env u ob (f ob allow_remote_read)"

definition sdk_qp_attr_set_atomic_mode ::
  "('s option \<Rightarrow> 'a \<Rightarrow> doca_error \<times> 's option)
    \<Rightarrow> dl_env \<Rightarrow> dl_unit option \<Rightarrow> 's option \<Rightarrow> 'a \<Rightarrow> 's option wrapping" where
  "sdk_qp_attr_set_atomic_mode f env u ob atomic_mode =
    call_sdk qp_sdk_load ''doca_verbs_qp_attr_set_atomic_mode'' env u ob (f ob atomic_mode)"

definition sdk_qp_attr_set_pkey_index ::
  "('s option \<Rightarrow> 'a \<Rightarrow> doca_error \<times> 's option)
    \<Rightarrow> dl_env \<Rightarrow> dl_unit option \<Rightarrow> 's option \<Rightarrow> 'a \<Rightarrow> 's option wrapping" where
  "sdk_qp_attr_set_pkey_index f env u ob pkey_index =
    call_sdk qp_sdk_load ''doca_verbs_qp_attr_set_pkey_index'' env u ob (f ob pkey_index)"

definition sdk_qp_attr_set_port_num ::
  "('s option \<Rightarrow> 'a \<Rightarrow> doca_error \<times> 's option)
    \<Rightarrow> dl_env \<Rightarrow> dl_unit option \<Rightarrow> 's option \<Rightarrow> 'a \<Rightarrow> 's option wrapping" where
  "sdk_qp_attr_set_port_num f env u ob port_num =
    call_sdk qp_sdk_load ''doca_verbs_qp_attr_set_port_num'' env u ob (f ob port_num)"

definition sdk_qp_attr_set_ack_timeout ::
  "('s option \<Rightarrow> 'a \<Rightarrow> doca_error \<times> 's option)
    \<Rightarrow> dl_env \<Rightarrow> dl_unit option \<Rightarrow> 's option \<Rightarrow> 'a \<Rightarrow> 's option wrapping" where
  "sdk_qp_attr_set_ack_timeout f env u ob ack_timeout =
    call_sdk qp_sdk_load ''doca_verbs_qp_attr_set_ack_timeout'' env u ob (f ob ack_timeout)"

definition sdk_qp_attr_set_retry_cnt ::
  "('s option \<Rightarrow> 'a \<Rightarrow> doca_error \<times> 's option)
    \<Rightarrow> dl_env \<Rightarrow> dl_unit option \<Rightarrow> 's option \<Rightarrow> 'a \<Rightarrow> 's option wrapping" where
  "sdk_qp_attr_set_retry_cnt f env u ob retry_cnt =
    call_sdk qp_sdk_load ''doca_verbs_qp_attr_set_retry_cnt'' env u ob (f ob retry_cnt)"

definition sdk_qp_attr_set_rnr_retry ::
  "('s option \<Rightarrow> 'a \<Rightarrow> doca_error \<times> 's option)
    \<Rightarrow> dl_env \<Rightarrow> dl_unit option \<Rightarrow> 's option \<Rightarrow> 'a \<Rightarrow> 's option wrapping" where
  "sdk_qp_attr_set_rnr_retry f env u ob rnr_retry =
    call_sdk qp_sdk_load ''doca_verbs_qp_attr_set_rnr_retry'' env u ob (f ob rnr_retry)"

definition sdk_qp_attr_set_min_rnr_timer ::
  "('s option \<Rightarrow> 'a \<Rightarrow> doca_error \<times> 's option)
    \<Rightarrow> dl_env \<Rightarrow> dl_unit option \<Rightarrow> 's option \<Rightarrow> 'a \<Rightarrow> 's option wrapping" where
  "sdk_qp_attr_set_min_rnr_timer f env u ob min_rnr_timer =
    call_sdk qp_sdk_load ''doca_verbs_qp_attr_set_min_rnr_timer'' env u ob (f ob min_rnr_timer)"

definition sdk_qp_attr_set_max_rd_atomic ::
  "('s option \<Rightarrow> 'a \<Rightarrow> doca_error \<times> 's option)
    \<Rightarrow> dl_env \<Rightarrow> dl_unit option \<Rightarrow> 's option \<Rightarrow> 'a \<Rightarrow> 's option wrapping" where
  "sdk_qp_attr_set_max_rd_atomic f env u ob max_rd_atomic =
    call_sdk qp_sdk_load ''doca_verbs_qp_attr_set_max_rd_atomic'' env u ob (f ob max_rd_atomic)"

definition sdk_qp_attr_set_max_dest_rd_atomic ::
  "('s option \<Rightarrow> 'a \<Rightarrow> doca_error \<times> 's option)
    \<Rightarrow> dl_env \<Rightarrow> dl_unit option \<Rightarrow> 's option \<Rightarrow> 'a \<Rightarrow> 's option wrapping" where
  "sdk_qp_attr_set_max_dest_rd_atomic f env u ob max_dest_rd_atomic =
    call_sdk qp_sdk_load ''doca_verbs_qp_attr_set_max_dest_rd_atomic'' env u ob (f ob max_dest_rd_atomic)"

definition sdk_qp_attr_set_ah_attr ::
  "('s option \<Rightarrow> ptr \<Rightarrow> doca_error \<times> 's option)
    \<Rightarrow> dl_env \<Rightarrow> dl_unit option \<Rightarrow> 's option \<Rightarrow> sdk_arg option \<Rightarrow> 's option wrapping" where
  "sdk_qp_attr_set_ah_attr f env u ob arg =
    via_sdk qp_sdk_load env u ob (\<lambda>U.
      if_sdk arg ob (\<lambda>p. through U ''doca_verbs_qp_attr_set_ah_attr'' (answer (f ob p))))"

section \<open>Address handle attributes\<close>

definition sdk_ah_attr_create ::
  "(ptr \<Rightarrow> doca_error \<times> 's option)
    \<Rightarrow> dl_env \<Rightarrow> dl_unit option \<Rightarrow> sdk_dev option \<Rightarrow> 's option \<Rightarrow> 's option wrapping" where
  "sdk_ah_attr_create f env u net_dev result =
    non_null (net_dev \<noteq> None) u result (via_sdk qp_sdk_load env u result (\<lambda>U.
      if_sdk_dev net_dev result (\<lambda>d. if_elements (sd_context d \<noteq> null) result
        (through U ''doca_verbs_ah_attr_create'' (answer (f (sd_context d)))))))"

definition sdk_ah_attr_destroy ::
  "('s option \<Rightarrow> doca_error \<times> 's option)
    \<Rightarrow> dl_env \<Rightarrow> dl_unit option \<Rightarrow> 's option \<Rightarrow> 's option wrapping" where
  "sdk_ah_attr_destroy f env u ob = call_sdk qp_sdk_load ''doca_verbs_ah_attr_destroy'' env u ob (f ob)"

definition sdk_ah_attr_set_gid ::
  "('s option \<Rightarrow> 'a \<Rightarrow> doca_error \<times> 's option)
    \<Rightarrow> dl_env \<Rightarrow> dl_unit option \<Rightarrow> 's option \<Rightarrow> 'a \<Rightarrow> 's option wrapping" where
  "sdk_ah_attr_set_gid f env u ob gid = call_sdk qp_sdk_load ''doca_verbs_ah_attr_set_gid'' env u ob (f ob gid)"

definition sdk_ah_attr_set_addr_type ::
  "('s option \<Rightarrow> 'a \<Rightarrow> doca_error \<times> 's option)
    \<Rightarrow> dl_env \<Rightarrow> dl_unit option \<Rightarrow> 's option \<Rightarrow> 'a \<Rightarrow> 's option wrapping" where
  "sdk_ah_attr_set_addr_type f env u ob addr_type =
    call_sdk qp_sdk_load ''doca_verbs_ah_attr_set_addr_type'' env u ob (f ob addr_type)"

definition sdk_ah_attr_set_dlid ::
  "('s option \<Rightarrow> 'a \<Rightarrow> doca_error \<times> 's option)
    \<Rightarrow> dl_env \<Rightarrow> dl_unit option \<Rightarrow> 's option \<Rightarrow> 'a \<Rightarrow> 's option wrapping" where
  "sdk_ah_attr_set_dlid f env u ob dlid =
    call_sdk qp_sdk_load ''doca_verbs_ah_attr_set_dlid'' env u ob (f ob dlid)"

definition sdk_ah_attr_set_sl ::
  "('s option \<Rightarrow> 'a \<Rightarrow> doca_error \<times> 's option)
    \<Rightarrow> dl_env \<Rightarrow> dl_unit option \<Rightarrow> 's option \<Rightarrow> 'a \<Rightarrow> 's option wrapping" where
  "sdk_ah_attr_set_sl f env u ob sl = call_sdk qp_sdk_load ''doca_verbs_ah_attr_set_sl'' env u ob (f ob sl)"

definition sdk_ah_attr_set_sgid_index ::
  "('s option \<Rightarrow> 'a \<Rightarrow> doca_error \<times> 's option)
    \<Rightarrow> dl_env \<Rightarrow> dl_unit option \<Rightarrow> 's option \<Rightarrow> 'a \<Rightarrow> 's option wrapping" where
  "sdk_ah_attr_set_sgid_index f env u ob sgid_index =
    call_sdk qp_sdk_load ''doca_verbs_ah_attr_set_sgid_index'' env u ob (f ob sgid_index)"

definition sdk_ah_attr_set_static_rate ::
  "('s option \<Rightarrow> 'a \<Rightarrow> doca_error \<times> 's option)
    \<Rightarrow> dl_env \<Rightarrow> dl_unit option \<Rightarrow> 's option \<Rightarrow> 'a \<Rightarrow> 's option wrapping" where
  "sdk_ah_attr_set_static_rate f env u ob static_rate =
    call_sdk qp_sdk_load ''doca_verbs_ah_attr_set_static_rate'' env u ob (f ob static_rate)"

definition sdk_ah_attr_set_hop_limit ::
  "('s option \<Rightarrow> 'a \<Rightarrow> doca_error \<times> 's option)
    \<Rightarrow> dl_env \<Rightarrow> dl_unit option \<Rightarrow> 's option \<Rightarrow> 'a \<Rightarrow> 's option wrapping" where
  "sdk_ah_attr_set_hop_limit f env u ob hop_limit =
    call_sdk qp_sdk_load ''doca_verbs_ah_attr_set_hop_limit'' env u ob (f ob hop_limit)"

definition sdk_ah_attr_set_traffic_class ::
  "('s option \<Rightarrow> 'a \<Rightarrow> doca_error \<times> 's option)
    \<Rightarrow> dl_env \<Rightarrow> dl_unit option \<Rightarrow> 's option \<Rightarrow> 'a \<Rightarrow> 's option wrapping" where
  "sdk_ah_attr_set_traffic_class f env u ob traffic_class =
    call_sdk qp_sdk_load ''doca_verbs_ah_attr_set_traffic_class'' env u ob (f ob traffic_class)"

section \<open>Queue pairs\<close>

definition sdk_qp_create ::
  "(ptr \<Rightarrow> ptr \<Rightarrow> doca_error \<times> 's option)
    \<Rightarrow> dl_env \<Rightarrow> dl_unit option \<Rightarrow> sdk_dev option \<Rightarrow> sdk_arg option \<Rightarrow> 's option \<Rightarrow> 's option wrapping" where
  "sdk_qp_create f env u net_dev attr result =
    non_null (net_dev \<noteq> None \<and> attr \<noteq> None) u result (via_sdk qp_sdk_load env u result (\<lambda>U.
      if_sdk_dev net_dev result (\<lambda>d. if_elements (sd_pd d \<noteq> null \<and> sd_context d \<noteq> null) result
        (if_sdk attr result (\<lambda>p. through U ''doca_verbs_qp_create'' (answer (f (sd_context d) p)))))))"

definition sdk_qp_destroy ::
  "('s option \<Rightarrow> doca_error \<times> 's option)
    \<Rightarrow> dl_env \<Rightarrow> dl_unit option \<Rightarrow> 's option \<Rightarrow> 's option wrapping" where
  "sdk_qp_destroy f env u ob = call_sdk qp_sdk_load ''doca_verbs_qp_destroy'' env u ob (f ob)"

definition sdk_qp_modify ::
  "('s option \<Rightarrow> ptr \<Rightarrow> u32 \<Rightarrow> doca_error \<times> 's option)
    \<Rightarrow> dl_env \<Rightarrow> dl_unit option \<Rightarrow> 's option \<Rightarrow> sdk_arg option \<Rightarrow> u32 \<Rightarrow> 's option wrapping" where
  "sdk_qp_modify f env u ob attr attr_mask =
    non_null (attr \<noteq> None) u ob (via_sdk qp_sdk_load env u ob (\<lambda>U.
      if_sdk attr ob (\<lambda>p. through U ''doca_verbs_qp_modify'' (answer (f ob p attr_mask)))))"

definition sdk_qp_query ::
  "('s option \<Rightarrow> ptr \<Rightarrow> ptr \<Rightarrow> doca_error \<times> 'v) \<Rightarrow> dl_env \<Rightarrow> dl_unit option \<Rightarrow> 's option \<Rightarrow> sdk_arg option \<Rightarrow> sdk_arg option
   \<Rightarrow> 'v \<Rightarrow> 'v wrapping" where
  "sdk_qp_query f env u ob attr init_attr result =
    non_null (attr \<noteq> None \<and> init_attr \<noteq> None) u result (via_sdk qp_sdk_load env u result (\<lambda>U.
      if_sdk init_attr result (\<lambda>i. if_sdk attr result (\<lambda>p.
        through U ''doca_verbs_qp_query'' (answer (f ob p i))))))"

definition sdk_qp_get_qpn ::
  "('s option \<Rightarrow> 'v)
    \<Rightarrow> dl_env \<Rightarrow> dl_unit option \<Rightarrow> 's option \<Rightarrow> 'v \<Rightarrow> 'v wrapping" where
  "sdk_qp_get_qpn f env u ob result = get_sdk qp_sdk_load ''doca_verbs_qp_get_qpn'' env u result (f ob)"

definition sdk_qp_get_dbr_addr ::
  "('s option \<Rightarrow> 'v)
    \<Rightarrow> dl_env \<Rightarrow> dl_unit option \<Rightarrow> 's option \<Rightarrow> 'v \<Rightarrow> 'v wrapping" where
  "sdk_qp_get_dbr_addr f env u ob result =
    get_sdk qp_sdk_load ''doca_verbs_qp_get_dbr_addr'' env u result (f ob)"

definition sdk_qp_get_uar_addr ::
  "('s option \<Rightarrow> 'v)
    \<Rightarrow> dl_env \<Rightarrow> dl_unit option \<Rightarrow> 's option \<Rightarrow> 'v \<Rightarrow> 'v wrapping" where
  "sdk_qp_get_uar_addr f env u ob result =
    get_sdk qp_sdk_load ''doca_verbs_qp_get_uar_addr'' env u result (f ob)"

definition sdk_qp_get_wq ::
  "('s option \<Rightarrow> 'v)
    \<Rightarrow> dl_env \<Rightarrow> dl_unit option \<Rightarrow> 's option \<Rightarrow> 'v \<Rightarrow> 'v wrapping" where
  "sdk_qp_get_wq f env u ob result = get_sdk qp_sdk_load ''doca_verbs_qp_get_wq'' env u result (f ob)"

section \<open>CQ attributes\<close>

definition sdk_cq_attr_create ::
  "(doca_error \<times> 's option)
    \<Rightarrow> dl_env \<Rightarrow> dl_unit option \<Rightarrow> 's option \<Rightarrow> 's option wrapping" where
  "sdk_cq_attr_create f env u result = call_sdk cq_sdk_load ''doca_verbs_cq_attr_create'' env u result f"

definition sdk_cq_attr_destroy ::
  "('s option \<Rightarrow> doca_error \<times> 's option)
    \<Rightarrow> dl_env \<Rightarrow> dl_unit option \<Rightarrow> 's option \<Rightarrow> 's option wrapping" where
  "sdk_cq_attr_destroy f env u ob = call_sdk cq_sdk_load ''doca_verbs_cq_attr_destroy'' env u ob (f ob)"

definition sdk_cq_attr_set_cq_size ::
  "('s option \<Rightarrow> 'a \<Rightarrow> doca_error \<times> 's option)
    \<Rightarrow> dl_env \<Rightarrow> dl_unit option \<Rightarrow> 's option \<Rightarrow> 'a \<Rightarrow> 's option wrapping" where
  "sdk_cq_attr_set_cq_size f env u ob cq_size =
    call_sdk cq_sdk_load ''doca_verbs_cq_attr_set_cq_size'' env u ob (f ob cq_size)"

definition sdk_cq_attr_set_cq_context ::
  "('s option \<Rightarrow> 'a \<Rightarrow> doca_error \<times> 's option)
    \<Rightarrow> dl_env \<Rightarrow> dl_unit option \<Rightarrow> 's option \<Rightarrow> 'a \<Rightarrow> 's option wrapping" where
  "sdk_cq_attr_set_cq_context f env u ob cq_context =
    call_sdk cq_sdk_load ''doca_verbs_cq_attr_set_cq_context'' env u ob (f ob cq_context)"

definition sdk_cq_attr_set_external_umem ::
  "('s option \<Rightarrow> ptr \<Rightarrow> u64 \<Rightarrow> doca_error \<times> 's option) \<Rightarrow> ('s option \<Rightarrow> u8 \<Rightarrow> doca_error \<times> 's option)
   \<Rightarrow> dl_env \<Rightarrow> dl_unit option \<Rightarrow> 's option \<Rightarrow> sdk_arg option \<Rightarrow> u64 \<Rightarrow> 's option wrapping" where
  "sdk_cq_attr_set_external_umem f datapath_en env u ob arg offset =
    via_sdk cq_sdk_load env u ob (\<lambda>U.
      if_sdk arg ob (\<lambda>p. after_call U ''doca_verbs_cq_attr_set_external_umem'' (f ob p offset) (\<lambda>e ob.
        if e = DOCA_SUCCESS then through U ''doca_verbs_cq_attr_set_external_datapath_en'' (answer (datapath_en ob 1))
        else Ret (DOCA_SDK_WRAPPER_API_ERROR, ob))))"

definition sdk_cq_attr_set_external_uar ::
  "('s option \<Rightarrow> ptr \<Rightarrow> doca_error \<times> 's option)
    \<Rightarrow> dl_env \<Rightarrow> dl_unit option \<Rightarrow> 's option \<Rightarrow> sdk_arg option \<Rightarrow> 's option wrapping" where
  "sdk_cq_attr_set_external_uar f env u ob arg =
    via_sdk cq_sdk_load env u ob (\<lambda>U.
      if_sdk arg ob (\<lambda>p. through U ''doca_verbs_cq_attr_set_external_uar'' (answer (f ob p))))"

definition sdk_cq_attr_set_cq_overrun ::
  "('s option \<Rightarrow> 'a \<Rightarrow> doca_error \<times> 's option)
    \<Rightarrow> dl_env \<Rightarrow> dl_unit option \<Rightarrow> 's option \<Rightarrow> 'a \<Rightarrow> 's option wrapping" where
  "sdk_cq_attr_set_cq_overrun f env u ob overrun =
    call_sdk cq_sdk_load ''doca_verbs_cq_attr_set_cq_overrun'' env u ob (f ob overrun)"

definition sdk_cq_attr_set_cq_collapsed ::
  "('s option \<Rightarrow> 'a \<Rightarrow> doca_error \<times> 's option)
    \<Rightarrow> dl_env \<Rightarrow> dl_unit option \<Rightarrow> 's option \<Rightarrow> 'a \<Rightarrow> 's option wrapping" where
  "sdk_cq_attr_set_cq_collapsed f env u ob v =
    call_optional cq_sdk_load ''doca_verbs_cq_attr_set_cq_collapsed'' env u ob (answer (f ob v))"

section \<open>Completion queues\<close>

definition sdk_cq_create ::
  "(ptr \<Rightarrow> ptr \<Rightarrow> doca_error \<times> 's option)
    \<Rightarrow> dl_env \<Rightarrow> dl_unit option \<Rightarrow> sdk_dev option \<Rightarrow> sdk_arg option \<Rightarrow> 's option \<Rightarrow> 's option wrapping" where
  "sdk_cq_create f env u net_dev attr result =
    non_null (net_dev \<noteq> None) u result (via_sdk cq_sdk_load env u result (\<lambda>U.
      if_sdk_dev net_dev result (\<lambda>d. if_sdk attr result (\<lambda>p.
        through U ''doca_verbs_cq_create'' (answer (f (sd_context d) p))))))"

definition sdk_cq_destroy ::
  "('s option \<Rightarrow> doca_error \<times> 's option)
    \<Rightarrow> dl_env \<Rightarrow> dl_unit option \<Rightarrow> 's option \<Rightarrow> 's option wrapping" where
  "sdk_cq_destroy f env u ob = call_sdk cq_sdk_load ''doca_verbs_cq_destroy'' env u ob (f ob)"

definition sdk_cq_get_wq ::
  "('s option \<Rightarrow> 'v)
    \<Rightarrow> dl_env \<Rightarrow> dl_unit option \<Rightarrow> 's option \<Rightarrow> 'v \<Rightarrow> 'v wrapping" where
  "sdk_cq_get_wq f env u ob result = get_sdk cq_sdk_load ''doca_verbs_cq_get_wq'' env u result (f ob)"

definition sdk_cq_get_dbr_addr ::
  "('s option \<Rightarrow> 'v)
    \<Rightarrow> dl_env \<Rightarrow> dl_unit option \<Rightarrow> 's option \<Rightarrow> 'v \<Rightarrow> 'v wrapping" where
  "sdk_cq_get_dbr_addr f env u ob result =
    get_sdk cq_sdk_load ''doca_verbs_cq_get_dbr_addr'' env u result (f ob)"

definition sdk_cq_get_cqn ::
  "('s option \<Rightarrow> 'v)
    \<Rightarrow> dl_env \<Rightarrow> dl_unit option \<Rightarrow> 's option \<Rightarrow> 'v \<Rightarrow> 'v wrapping" where
  "sdk_cq_get_cqn f env u ob result = get_sdk cq_sdk_load ''doca_verbs_cq_get_cqn'' env u result (f ob)"

section \<open>Devices\<close>

text \<open>
  What the SDK does to devices changes its own state \<open>k\<close>.  The three pointers are stored in the device
  as the SDK's functions give them.
\<close>

record 'k sdk_dev_api =
  da_open :: "ptr \<Rightarrow> 'k \<Rightarrow> doca_error \<times> ptr \<times> 'k"
  da_close :: "ptr \<Rightarrow> 'k \<Rightarrow> doca_error \<times> 'k"
  da_pd_import :: "ptr \<Rightarrow> 'k \<Rightarrow> doca_error \<times> ptr \<times> 'k"
  da_pd_destroy :: "ptr \<Rightarrow> 'k \<Rightarrow> doca_error \<times> 'k"
  da_context_import :: "ptr \<Rightarrow> u32 \<Rightarrow> 'k \<Rightarrow> doca_error \<times> ptr \<times> 'k"
  da_context_destroy :: "ptr \<Rightarrow> 'k \<Rightarrow> doca_error \<times> 'k"

definition sdk_dev_open_from_pd ::
  "'k sdk_dev_api \<Rightarrow> (ptr \<Rightarrow> ptr) \<Rightarrow> dl_env \<Rightarrow> dl_unit option \<Rightarrow> ptr \<Rightarrow> sdk_dev \<Rightarrow> 'k
   \<Rightarrow> (doca_sdk_wrapper_error \<times> sdk_dev \<times> 'k) loaded" where
  "sdk_dev_open_from_pd A context_of env u pd d k =
    via_sdk dev_sdk_load env u (d, k) (\<lambda>U.
      after_call U ''doca_rdma_bridge_open_dev_from_pd'' (case da_open A pd k of (e, p, k) \<Rightarrow> (e, d\<lparr>sd_sdk := p\<rparr>, k)) (\<lambda>e (d, k).
        if e \<noteq> DOCA_SUCCESS then Ret (DOCA_SDK_WRAPPER_API_ERROR, d, k)
        else after_call U ''doca_verbs_bridge_verbs_pd_import'' (case da_pd_import A pd k of (e, p, k) \<Rightarrow> (e, d\<lparr>sd_pd := p\<rparr>, k)) (\<lambda>e (d, k).
          if e \<noteq> DOCA_SUCCESS then
            after_call U ''doca_dev_close'' (da_close A (sd_sdk d) k) (\<lambda>_ k. Ret (DOCA_SDK_WRAPPER_API_ERROR, d, k))
          else if pd = null then Misuse
          else after_call U ''doca_verbs_bridge_verbs_context_import''
              (case da_context_import A (context_of pd) 0 k of (e, p, k) \<Rightarrow> (e, d\<lparr>sd_context := p\<rparr>, k)) (\<lambda>e (d, k).
            if e \<noteq> DOCA_SUCCESS then
              after_call U ''doca_verbs_pd_destroy'' (da_pd_destroy A (sd_pd d) k) (\<lambda>_ k.
                after_call U ''doca_dev_close'' (da_close A (sd_sdk d) k) (\<lambda>_ k. Ret (DOCA_SDK_WRAPPER_API_ERROR, d, k)))
            else Ret (DOCA_SDK_WRAPPER_SUCCESS, d, k)))))"

definition sdk_dev_close ::
  "'k sdk_dev_api
    \<Rightarrow> dl_env \<Rightarrow> dl_unit option \<Rightarrow> sdk_dev option \<Rightarrow> 'k \<Rightarrow> (doca_sdk_wrapper_error \<times> 'k) loaded" where
  "sdk_dev_close A env u net_dev k =
    via_sdk dev_sdk_load env u k (\<lambda>U.
      if_sdk_dev net_dev k (\<lambda>d. if_elements (sd_pd d \<noteq> null \<and> sd_context d \<noteq> null) k
        (after_call U ''doca_verbs_pd_destroy'' (da_pd_destroy A (sd_pd d) k) (\<lambda>_ k.
          after_call U ''doca_verbs_context_destroy'' (da_context_destroy A (sd_context d) k) (\<lambda>_ k.
            through U ''doca_dev_close'' (answer (da_close A (sd_sdk d) k)))))))"

section \<open>UARs\<close>

definition sdk_uar_create ::
  "(ptr \<Rightarrow> 'a \<Rightarrow> doca_error \<times> 's option)
    \<Rightarrow> dl_env \<Rightarrow> dl_unit option \<Rightarrow> sdk_dev option \<Rightarrow> 'a \<Rightarrow> 's option \<Rightarrow> 's option wrapping" where
  "sdk_uar_create f env u net_dev allocation_type result =
    non_null (net_dev \<noteq> None) u result (via_sdk uar_sdk_load env u result (\<lambda>U.
      if_sdk_dev net_dev result (\<lambda>d. through U ''doca_uar_create'' (answer (f (sd_sdk d) allocation_type)))))"

definition sdk_uar_destroy ::
  "('s option \<Rightarrow> doca_error \<times> 's option)
    \<Rightarrow> dl_env \<Rightarrow> dl_unit option \<Rightarrow> 's option \<Rightarrow> 's option wrapping" where
  "sdk_uar_destroy f env u ob = call_sdk uar_sdk_load ''doca_uar_destroy'' env u ob (f ob)"

definition sdk_uar_get_id ::
  "('s option \<Rightarrow> doca_error \<times> 'v)
    \<Rightarrow> dl_env \<Rightarrow> dl_unit option \<Rightarrow> 's option \<Rightarrow> 'v \<Rightarrow> 'v wrapping" where
  "sdk_uar_get_id f env u ob result = call_sdk uar_sdk_load ''doca_uar_id_get'' env u result (f ob)"

definition sdk_uar_reg_addr_get ::
  "('s option \<Rightarrow> doca_error \<times> 'v)
    \<Rightarrow> dl_env \<Rightarrow> dl_unit option \<Rightarrow> 's option \<Rightarrow> 'v \<Rightarrow> 'v wrapping" where
  "sdk_uar_reg_addr_get f env u ob result = call_sdk uar_sdk_load ''doca_uar_reg_addr_get'' env u result (f ob)"

section \<open>UMEMs\<close>

text \<open>A registration by file descriptor that the SDK refuses is reported as one it does not know.\<close>

definition sdk_umem_create ::
  "(ptr \<Rightarrow> ptr \<Rightarrow> ptr \<Rightarrow> u64 \<Rightarrow> u32 \<Rightarrow> doca_error \<times> 's option) \<Rightarrow> (ptr \<Rightarrow> ptr \<Rightarrow> u64 \<Rightarrow> u32 \<Rightarrow> doca_error \<times> 's option)
   \<Rightarrow> dl_env \<Rightarrow> dl_unit option \<Rightarrow> sdk_dev option \<Rightarrow> sdk_arg option \<Rightarrow> ptr \<Rightarrow> u64 \<Rightarrow> u32 \<Rightarrow> int \<Rightarrow> 's option \<Rightarrow> 's option wrapping" where
  "sdk_umem_create f_gpu f env u net_dev gpu address sz access_flags dmabuf_fd result =
    non_null (net_dev \<noteq> None) u result (via_sdk umem_sdk_load env u result (\<lambda>U.
      if_sdk_dev net_dev result (\<lambda>d.
        if dmabuf_fd \<ge> 0 then
          (case gpu of
             None \<Rightarrow> Misuse
           | Some g \<Rightarrow> after_call U ''doca_umem_gpu_create'' (f_gpu (sa_sdk g) (sd_sdk d) address sz access_flags) (\<lambda>e p.
               if e = DOCA_SUCCESS then Ret (DOCA_SDK_WRAPPER_SUCCESS, p)
               else Ret (DOCA_SDK_WRAPPER_NOT_SUPPORTED, p)))
        else through U ''doca_umem_create'' (answer (f (sd_sdk d) address sz access_flags)))))"

definition sdk_umem_destroy ::
  "('s option \<Rightarrow> doca_error \<times> 's option)
    \<Rightarrow> dl_env \<Rightarrow> dl_unit option \<Rightarrow> 's option \<Rightarrow> 's option wrapping" where
  "sdk_umem_destroy f env u ob = call_sdk umem_sdk_load ''doca_umem_destroy'' env u ob (f ob)"

definition sdk_umem_get_id ::
  "('s option \<Rightarrow> doca_error \<times> 'v)
    \<Rightarrow> dl_env \<Rightarrow> dl_unit option \<Rightarrow> 's option \<Rightarrow> 'v \<Rightarrow> 'v wrapping" where
  "sdk_umem_get_id f env u ob result = call_sdk umem_sdk_load ''doca_umem_get_id'' env u result (f ob)"

definition sdk_umem_get_size ::
  "('s option \<Rightarrow> doca_error \<times> 'v)
    \<Rightarrow> dl_env \<Rightarrow> dl_unit option \<Rightarrow> 's option \<Rightarrow> 'v \<Rightarrow> 'v wrapping" where
  "sdk_umem_get_size f env u ob result = call_sdk umem_sdk_load ''doca_umem_get_size'' env u result (f ob)"

definition sdk_umem_get_address ::
  "('s option \<Rightarrow> doca_error \<times> 'v)
    \<Rightarrow> dl_env \<Rightarrow> dl_unit option \<Rightarrow> 's option \<Rightarrow> 'v \<Rightarrow> 'v wrapping" where
  "sdk_umem_get_address f env u ob result =
    call_sdk umem_sdk_load ''doca_umem_get_address'' env u result (f ob)"

section \<open>GPUs\<close>

definition sdk_gpu_create ::
  "('a \<Rightarrow> doca_error \<times> 's option)
    \<Rightarrow> dl_env \<Rightarrow> dl_unit option \<Rightarrow> 'a \<Rightarrow> 's option \<Rightarrow> 's option wrapping" where
  "sdk_gpu_create f env u bus_id result = call_sdk gpu_sdk_load ''doca_gpu_create'' env u result (f bus_id)"

definition sdk_gpu_destroy ::
  "('s option \<Rightarrow> doca_error \<times> 's option)
    \<Rightarrow> dl_env \<Rightarrow> dl_unit option \<Rightarrow> 's option \<Rightarrow> 's option wrapping" where
  "sdk_gpu_destroy f env u ob = call_sdk gpu_sdk_load ''doca_gpu_destroy'' env u ob (f ob)"

definition sdk_gpu_mem_alloc ::
  "('s option \<Rightarrow> 'a \<Rightarrow> 'a1 \<Rightarrow> 'a2 \<Rightarrow> doca_error \<times> 'v)
    \<Rightarrow> dl_env \<Rightarrow> dl_unit option \<Rightarrow> 's option \<Rightarrow> 'a \<Rightarrow> 'a1 \<Rightarrow> 'a2 \<Rightarrow> 'v \<Rightarrow> 'v wrapping" where
  "sdk_gpu_mem_alloc f env u ob sz alignment mtype result =
    call_sdk gpu_sdk_load ''doca_gpu_mem_alloc'' env u result (f ob sz alignment mtype)"

definition sdk_gpu_mem_free ::
  "('s option \<Rightarrow> 'a \<Rightarrow> doca_error \<times> 's option)
    \<Rightarrow> dl_env \<Rightarrow> dl_unit option \<Rightarrow> 's option \<Rightarrow> 'a \<Rightarrow> 's option wrapping" where
  "sdk_gpu_mem_free f env u ob memptr_gpu =
    call_sdk gpu_sdk_load ''doca_gpu_mem_free'' env u ob (f ob memptr_gpu)"

definition sdk_gpu_dmabuf_fd ::
  "('s option \<Rightarrow> 'a \<Rightarrow> 'a1 \<Rightarrow> doca_error \<times> 'v)
    \<Rightarrow> dl_env \<Rightarrow> dl_unit option \<Rightarrow> 's option \<Rightarrow> 'a \<Rightarrow> 'a1 \<Rightarrow> 'v \<Rightarrow> 'v wrapping" where
  "sdk_gpu_dmabuf_fd f env u ob memptr_gpu sz result =
    call_sdk gpu_sdk_load ''doca_gpu_dmabuf_fd'' env u result (f ob memptr_gpu sz)"

end
