(* ===== verification/NetWrapper.thy ===== *)
theory NetWrapper
  imports DlLoad
begin

text \<open>
  The functions of \<^verbatim>\<open>src/doca_verbs_ibv_wrapper.cpp\<close>, \<^verbatim>\<open>src/doca_verbs_mlx5dv_wrapper.cpp\<close>,
  \<^verbatim>\<open>src/doca_verbs_cuda_wrapper.cpp\<close> and \<^verbatim>\<open>src/doca_gpunetio_cuda_wrapper.cpp\<close>.  The function \<open>f\<close> of the
  library is a parameter: from the state \<open>h\<close> of what it can change, its own state and the caller's
  buffers, it gives its result and the new state.  \<open>result\<close> is what the caller's pointer holds before.
\<close>

section \<open>Results\<close>

definition from_pointer :: "ptr \<times> 'h \<Rightarrow> doca_error \<times> ptr \<times> 'h" where
  "from_pointer a = (if fst a \<noteq> null then DOCA_SUCCESS else DOCA_ERROR_DRIVER, a)"

definition from_object :: "ptr \<Rightarrow> ptr \<times> 'h \<Rightarrow> doca_error \<times> ptr \<times> 'h" where
  "from_object result a =
    (if fst a \<noteq> null then (DOCA_SUCCESS, a) else (DOCA_ERROR_DRIVER, result, snd a))"

definition from_ret :: "int \<times> 'h \<Rightarrow> doca_error \<times> 'h" where
  "from_ret a = (if fst a = 0 then DOCA_SUCCESS else DOCA_ERROR_DRIVER, snd a)"

text \<open>A function that does not load, and calls through its pointer if there is one.\<close>

definition if_loaded :: "string \<Rightarrow> dl_unit option \<Rightarrow> 'h \<Rightarrow> doca_error \<times> 'h \<Rightarrow> (doca_error \<times> 'h) loaded" where
  "if_loaded s u h r =
    (case u of
       None \<Rightarrow> Ret (DOCA_ERROR_DRIVER, h)
     | Some U \<Rightarrow> if du_sym U s \<noteq> null then through U s r else Ret (DOCA_ERROR_DRIVER, h), u)"

text \<open>The value of \<^verbatim>\<open>cuda.h\<close>.\<close>

definition CUDA_ERROR_NOT_INITIALIZED :: int where "CUDA_ERROR_NOT_INITIALIZED = 3"

section \<open>libibverbs\<close>

definition ibv_symbols :: "string list" where
  "ibv_symbols =
    [''ibv_get_device_list'', ''ibv_free_device_list'', ''ibv_get_device_name'',
     ''ibv_open_device'', ''ibv_close_device'', ''ibv_alloc_pd'',
     ''ibv_dealloc_pd'', ''ibv_reg_mr'', ''ibv_dereg_mr'',
     ''ibv_query_device'', ''ibv_query_port'', ''ibv_query_gid'',
     ''ibv_create_ah'', ''ibv_destroy_ah'', ''ibv_create_cq'',
     ''ibv_destroy_cq'', ''ibv_create_srq'', ''ibv_destroy_srq'',
     ''ibv_create_qp'', ''ibv_destroy_qp'', ''ibv_modify_qp'',
     ''ibv_query_qp'']"

definition ibv_load :: "dl_env \<Rightarrow> dl_unit" where
  "ibv_load = net_load [''libibverbs.so.1'', ''libibverbs.so''] ibv_symbols"

definition wrapper_ibv_get_device_list ::
  "('a \<Rightarrow> 'h \<Rightarrow> ptr \<times> 'h)
    \<Rightarrow> dl_env \<Rightarrow> dl_unit option \<Rightarrow> 'a \<Rightarrow> ptr \<Rightarrow> 'h \<Rightarrow> (doca_error \<times> ptr \<times> 'h) loaded" where
  "wrapper_ibv_get_device_list f env u num_devices result h =
    via_net ibv_load ''ibv_get_device_list'' env u (DOCA_ERROR_NOT_FOUND, result, h) (from_pointer (f num_devices h))"

definition wrapper_ibv_free_device_list ::
  "('a \<Rightarrow> 'h \<Rightarrow> 'h) \<Rightarrow> dl_unit option \<Rightarrow> 'a \<Rightarrow> 'h \<Rightarrow> (doca_error \<times> 'h) loaded" where
  "wrapper_ibv_free_device_list f u devices h = if_loaded ''ibv_free_device_list'' u h (DOCA_SUCCESS, f devices h)"

definition wrapper_ibv_get_device_name ::
  "('a \<Rightarrow> 'h \<Rightarrow> ptr \<times> 'h)
    \<Rightarrow> dl_env \<Rightarrow> dl_unit option \<Rightarrow> 'a \<Rightarrow> ptr \<Rightarrow> 'h \<Rightarrow> (doca_error \<times> ptr \<times> 'h) loaded" where
  "wrapper_ibv_get_device_name f env u device result h =
    via_net ibv_load ''ibv_get_device_name'' env u (DOCA_ERROR_NOT_FOUND, result, h) (from_pointer (f device h))"

definition wrapper_ibv_open_device ::
  "('a \<Rightarrow> 'h \<Rightarrow> ptr \<times> 'h)
    \<Rightarrow> dl_env \<Rightarrow> dl_unit option \<Rightarrow> 'a \<Rightarrow> ptr \<Rightarrow> 'h \<Rightarrow> (doca_error \<times> ptr \<times> 'h) loaded" where
  "wrapper_ibv_open_device f env u device result h =
    via_net ibv_load ''ibv_open_device'' env u (DOCA_ERROR_NOT_FOUND, result, h) (from_pointer (f device h))"

definition wrapper_ibv_close_device ::
  "('a \<Rightarrow> 'h \<Rightarrow> int \<times> 'h) \<Rightarrow> dl_unit option \<Rightarrow> 'a \<Rightarrow> 'h \<Rightarrow> (doca_error \<times> 'h) loaded" where
  "wrapper_ibv_close_device f u context h = if_loaded ''ibv_close_device'' u h (from_ret (f context h))"

definition wrapper_ibv_alloc_pd ::
  "('a \<Rightarrow> 'h \<Rightarrow> ptr \<times> 'h)
    \<Rightarrow> dl_env \<Rightarrow> dl_unit option \<Rightarrow> 'a \<Rightarrow> ptr \<Rightarrow> 'h \<Rightarrow> (doca_error \<times> ptr \<times> 'h) loaded" where
  "wrapper_ibv_alloc_pd f env u context result h =
    via_net ibv_load ''ibv_alloc_pd'' env u (DOCA_ERROR_NOT_FOUND, result, h) (from_pointer (f context h))"

definition wrapper_ibv_dealloc_pd ::
  "('a \<Rightarrow> 'h \<Rightarrow> int \<times> 'h) \<Rightarrow> dl_unit option \<Rightarrow> 'a \<Rightarrow> 'h \<Rightarrow> (doca_error \<times> 'h) loaded" where
  "wrapper_ibv_dealloc_pd f u pd h = if_loaded ''ibv_dealloc_pd'' u h (from_ret (f pd h))"

definition wrapper_ibv_reg_mr ::
  "('a \<Rightarrow> 'a1 \<Rightarrow> 'a2 \<Rightarrow> 'a3 \<Rightarrow> 'h \<Rightarrow> ptr \<times> 'h)
    \<Rightarrow> dl_env \<Rightarrow> dl_unit option \<Rightarrow> 'a \<Rightarrow> 'a1 \<Rightarrow> 'a2 \<Rightarrow> 'a3 \<Rightarrow> ptr \<Rightarrow> 'h \<Rightarrow> (doca_error \<times> ptr \<times> 'h) loaded" where
  "wrapper_ibv_reg_mr f env u pd addr len access result h =
    via_net ibv_load ''ibv_reg_mr'' env u (DOCA_ERROR_NOT_FOUND, result, h) (from_pointer (f pd addr len access h))"

definition wrapper_ibv_dereg_mr ::
  "('a \<Rightarrow> 'h \<Rightarrow> int \<times> 'h) \<Rightarrow> dl_unit option \<Rightarrow> 'a \<Rightarrow> 'h \<Rightarrow> (doca_error \<times> 'h) loaded" where
  "wrapper_ibv_dereg_mr f u mr h = if_loaded ''ibv_dereg_mr'' u h (from_ret (f mr h))"

definition wrapper_ibv_query_device ::
  "('a \<Rightarrow> 'a1 \<Rightarrow> 'h \<Rightarrow> int \<times> 'h)
    \<Rightarrow> dl_env \<Rightarrow> dl_unit option \<Rightarrow> 'a \<Rightarrow> 'a1 \<Rightarrow> 'h \<Rightarrow> (doca_error \<times> 'h) loaded" where
  "wrapper_ibv_query_device f env u context device_attr h =
    via_net ibv_load ''ibv_query_device'' env u (DOCA_ERROR_NOT_FOUND, h) (from_ret (f context device_attr h))"

definition wrapper_ibv_query_port ::
  "('a \<Rightarrow> 'a1 \<Rightarrow> 'a2 \<Rightarrow> 'h \<Rightarrow> int \<times> 'h)
    \<Rightarrow> dl_env \<Rightarrow> dl_unit option \<Rightarrow> 'a \<Rightarrow> 'a1 \<Rightarrow> 'a2 \<Rightarrow> 'h \<Rightarrow> (doca_error \<times> 'h) loaded" where
  "wrapper_ibv_query_port f env u context port_num port_attr h =
    via_net ibv_load ''ibv_query_port'' env u (DOCA_ERROR_NOT_FOUND, h) (from_ret (f context port_num port_attr h))"

definition wrapper_ibv_query_gid ::
  "('a \<Rightarrow> 'a1 \<Rightarrow> 'a2 \<Rightarrow> 'a3 \<Rightarrow> 'h \<Rightarrow> int \<times> 'h)
    \<Rightarrow> dl_env \<Rightarrow> dl_unit option \<Rightarrow> 'a \<Rightarrow> 'a1 \<Rightarrow> 'a2 \<Rightarrow> 'a3 \<Rightarrow> 'h \<Rightarrow> (doca_error \<times> 'h) loaded" where
  "wrapper_ibv_query_gid f env u context port_num index gid h =
    via_net ibv_load ''ibv_query_gid'' env u (DOCA_ERROR_NOT_FOUND, h) (from_ret (f context port_num index gid h))"

definition wrapper_ibv_create_ah ::
  "('a \<Rightarrow> 'a1 \<Rightarrow> 'h \<Rightarrow> ptr \<times> 'h)
    \<Rightarrow> dl_env \<Rightarrow> dl_unit option \<Rightarrow> 'a \<Rightarrow> 'a1 \<Rightarrow> ptr \<Rightarrow> 'h \<Rightarrow> (doca_error \<times> ptr \<times> 'h) loaded" where
  "wrapper_ibv_create_ah f env u pd attr result h =
    via_net ibv_load ''ibv_create_ah'' env u (DOCA_ERROR_NOT_FOUND, result, h) (from_pointer (f pd attr h))"

definition wrapper_ibv_destroy_ah ::
  "('a \<Rightarrow> 'h \<Rightarrow> int \<times> 'h) \<Rightarrow> dl_unit option \<Rightarrow> 'a \<Rightarrow> 'h \<Rightarrow> (doca_error \<times> 'h) loaded" where
  "wrapper_ibv_destroy_ah f u ah h = if_loaded ''ibv_destroy_ah'' u h (from_ret (f ah h))"

definition wrapper_ibv_create_cq ::
  "('a \<Rightarrow> 'a1 \<Rightarrow> 'a2 \<Rightarrow> 'a3 \<Rightarrow> 'a4 \<Rightarrow> 'h \<Rightarrow> ptr \<times> 'h)
    \<Rightarrow> dl_env \<Rightarrow> dl_unit option \<Rightarrow> 'a \<Rightarrow> 'a1 \<Rightarrow> 'a2 \<Rightarrow> 'a3 \<Rightarrow> 'a4 \<Rightarrow> ptr \<Rightarrow> 'h \<Rightarrow> (doca_error \<times> ptr \<times> 'h) loaded" where
  "wrapper_ibv_create_cq f env u context cqe cq_context channel comp_vector result h =
    via_net ibv_load ''ibv_create_cq'' env u (DOCA_ERROR_NOT_FOUND, result, h) (from_pointer (f context cqe cq_context channel comp_vector h))"

definition wrapper_ibv_destroy_cq ::
  "('a \<Rightarrow> 'h \<Rightarrow> int \<times> 'h) \<Rightarrow> dl_unit option \<Rightarrow> 'a \<Rightarrow> 'h \<Rightarrow> (doca_error \<times> 'h) loaded" where
  "wrapper_ibv_destroy_cq f u cq h = if_loaded ''ibv_destroy_cq'' u h (from_ret (f cq h))"

definition wrapper_ibv_create_srq ::
  "('a \<Rightarrow> 'a1 \<Rightarrow> 'h \<Rightarrow> ptr \<times> 'h)
    \<Rightarrow> dl_env \<Rightarrow> dl_unit option \<Rightarrow> 'a \<Rightarrow> 'a1 \<Rightarrow> ptr \<Rightarrow> 'h \<Rightarrow> (doca_error \<times> ptr \<times> 'h) loaded" where
  "wrapper_ibv_create_srq f env u pd srq_init_attr result h =
    via_net ibv_load ''ibv_create_srq'' env u (DOCA_ERROR_NOT_FOUND, result, h) (from_pointer (f pd srq_init_attr h))"

definition wrapper_ibv_destroy_srq ::
  "('a \<Rightarrow> 'h \<Rightarrow> int \<times> 'h) \<Rightarrow> dl_unit option \<Rightarrow> 'a \<Rightarrow> 'h \<Rightarrow> (doca_error \<times> 'h) loaded" where
  "wrapper_ibv_destroy_srq f u srq h = if_loaded ''ibv_destroy_srq'' u h (from_ret (f srq h))"

definition wrapper_ibv_create_qp ::
  "('a \<Rightarrow> 'a1 \<Rightarrow> 'h \<Rightarrow> ptr \<times> 'h)
    \<Rightarrow> dl_env \<Rightarrow> dl_unit option \<Rightarrow> 'a \<Rightarrow> 'a1 \<Rightarrow> ptr \<Rightarrow> 'h \<Rightarrow> (doca_error \<times> ptr \<times> 'h) loaded" where
  "wrapper_ibv_create_qp f env u pd qp_init_attr result h =
    via_net ibv_load ''ibv_create_qp'' env u (DOCA_ERROR_NOT_FOUND, result, h) (from_pointer (f pd qp_init_attr h))"

definition wrapper_ibv_destroy_qp ::
  "('a \<Rightarrow> 'h \<Rightarrow> int \<times> 'h) \<Rightarrow> dl_unit option \<Rightarrow> 'a \<Rightarrow> 'h \<Rightarrow> (doca_error \<times> 'h) loaded" where
  "wrapper_ibv_destroy_qp f u qp h = if_loaded ''ibv_destroy_qp'' u h (from_ret (f qp h))"

definition wrapper_ibv_modify_qp ::
  "('a \<Rightarrow> 'a1 \<Rightarrow> 'a2 \<Rightarrow> 'h \<Rightarrow> int \<times> 'h)
    \<Rightarrow> dl_env \<Rightarrow> dl_unit option \<Rightarrow> 'a \<Rightarrow> 'a1 \<Rightarrow> 'a2 \<Rightarrow> 'h \<Rightarrow> (doca_error \<times> 'h) loaded" where
  "wrapper_ibv_modify_qp f env u qp attr attr_mask h =
    via_net ibv_load ''ibv_modify_qp'' env u (DOCA_ERROR_NOT_FOUND, h) (from_ret (f qp attr attr_mask h))"

definition wrapper_ibv_query_qp ::
  "('a \<Rightarrow> 'a1 \<Rightarrow> 'a2 \<Rightarrow> 'a3 \<Rightarrow> 'h \<Rightarrow> int \<times> 'h)
    \<Rightarrow> dl_env \<Rightarrow> dl_unit option \<Rightarrow> 'a \<Rightarrow> 'a1 \<Rightarrow> 'a2 \<Rightarrow> 'a3 \<Rightarrow> 'h \<Rightarrow> (doca_error \<times> 'h) loaded" where
  "wrapper_ibv_query_qp f env u qp attr attr_mask init_attr h =
    via_net ibv_load ''ibv_query_qp'' env u (DOCA_ERROR_NOT_FOUND, h) (from_ret (f qp attr attr_mask init_attr h))"

section \<open>libmlx5\<close>

definition mlx5dv_symbols :: "string list" where
  "mlx5dv_symbols =
    [''mlx5dv_init_obj'', ''mlx5dv_devx_obj_create'', ''mlx5dv_devx_obj_destroy'',
     ''mlx5dv_devx_obj_query'', ''mlx5dv_devx_obj_modify'', ''mlx5dv_devx_general_cmd'',
     ''mlx5dv_devx_query_eqn'', ''mlx5dv_devx_umem_reg'', ''mlx5dv_devx_umem_reg_ex'',
     ''mlx5dv_devx_umem_dereg'', ''mlx5dv_devx_alloc_uar'', ''mlx5dv_devx_free_uar'',
     ''mlx5dv_query_device'']"

definition mlx5dv_load :: "dl_env \<Rightarrow> dl_unit" where
  "mlx5dv_load = net_load [''libmlx5.so.1'', ''libmlx5.so''] mlx5dv_symbols"

definition wrapper_mlx5dv_init_obj ::
  "('a \<Rightarrow> 'a1 \<Rightarrow> 'h \<Rightarrow> int \<times> 'h)
    \<Rightarrow> dl_env \<Rightarrow> dl_unit option \<Rightarrow> 'a \<Rightarrow> 'a1 \<Rightarrow> 'h \<Rightarrow> (doca_error \<times> 'h) loaded" where
  "wrapper_mlx5dv_init_obj f env u obj obj_type h =
    via_net mlx5dv_load ''mlx5dv_init_obj'' env u (DOCA_ERROR_NOT_FOUND, h) (from_ret (f obj obj_type h))"

definition wrapper_mlx5dv_devx_obj_create ::
  "('a \<Rightarrow> 'a1 \<Rightarrow> 'a2 \<Rightarrow> 'a3 \<Rightarrow> 'a4 \<Rightarrow> 'h \<Rightarrow> ptr \<times> 'h)
    \<Rightarrow> dl_env \<Rightarrow> dl_unit option \<Rightarrow> 'a \<Rightarrow> 'a1 \<Rightarrow> 'a2 \<Rightarrow> 'a3 \<Rightarrow> 'a4 \<Rightarrow> ptr \<Rightarrow> 'h \<Rightarrow> (doca_error \<times> ptr \<times> 'h) loaded" where
  "wrapper_mlx5dv_devx_obj_create f env u context input inlen output outlen result h =
    via_net mlx5dv_load ''mlx5dv_devx_obj_create'' env u (DOCA_ERROR_NOT_FOUND, result, h) (from_object result (f context input inlen output outlen h))"

definition wrapper_mlx5dv_devx_obj_destroy ::
  "('a \<Rightarrow> 'h \<Rightarrow> int \<times> 'h)
    \<Rightarrow> dl_env \<Rightarrow> dl_unit option \<Rightarrow> 'a \<Rightarrow> 'h \<Rightarrow> (doca_error \<times> 'h) loaded" where
  "wrapper_mlx5dv_devx_obj_destroy f env u obj h =
    via_net mlx5dv_load ''mlx5dv_devx_obj_destroy'' env u (DOCA_ERROR_NOT_FOUND, h) (from_ret (f obj h))"

definition wrapper_mlx5dv_devx_obj_query ::
  "('a \<Rightarrow> 'a1 \<Rightarrow> 'a2 \<Rightarrow> 'a3 \<Rightarrow> 'a4 \<Rightarrow> 'h \<Rightarrow> int \<times> 'h)
    \<Rightarrow> dl_env \<Rightarrow> dl_unit option \<Rightarrow> 'a \<Rightarrow> 'a1 \<Rightarrow> 'a2 \<Rightarrow> 'a3 \<Rightarrow> 'a4 \<Rightarrow> 'h \<Rightarrow> (doca_error \<times> 'h) loaded" where
  "wrapper_mlx5dv_devx_obj_query f env u obj input inlen output outlen h =
    via_net mlx5dv_load ''mlx5dv_devx_obj_query'' env u (DOCA_ERROR_NOT_FOUND, h) (from_ret (f obj input inlen output outlen h))"

definition wrapper_mlx5dv_devx_obj_modify ::
  "('a \<Rightarrow> 'a1 \<Rightarrow> 'a2 \<Rightarrow> 'a3 \<Rightarrow> 'a4 \<Rightarrow> 'h \<Rightarrow> int \<times> 'h)
    \<Rightarrow> dl_env \<Rightarrow> dl_unit option \<Rightarrow> 'a \<Rightarrow> 'a1 \<Rightarrow> 'a2 \<Rightarrow> 'a3 \<Rightarrow> 'a4 \<Rightarrow> 'h \<Rightarrow> (doca_error \<times> 'h) loaded" where
  "wrapper_mlx5dv_devx_obj_modify f env u obj input inlen output outlen h =
    via_net mlx5dv_load ''mlx5dv_devx_obj_modify'' env u (DOCA_ERROR_NOT_FOUND, h) (from_ret (f obj input inlen output outlen h))"

definition wrapper_mlx5dv_devx_general_cmd ::
  "('a \<Rightarrow> 'a1 \<Rightarrow> 'a2 \<Rightarrow> 'a3 \<Rightarrow> 'a4 \<Rightarrow> 'h \<Rightarrow> int \<times> 'h)
    \<Rightarrow> dl_env \<Rightarrow> dl_unit option \<Rightarrow> 'a \<Rightarrow> 'a1 \<Rightarrow> 'a2 \<Rightarrow> 'a3 \<Rightarrow> 'a4 \<Rightarrow> 'h \<Rightarrow> (doca_error \<times> 'h) loaded" where
  "wrapper_mlx5dv_devx_general_cmd f env u context input inlen output outlen h =
    via_net mlx5dv_load ''mlx5dv_devx_general_cmd'' env u (DOCA_ERROR_NOT_FOUND, h) (from_ret (f context input inlen output outlen h))"

definition wrapper_mlx5dv_devx_query_eqn ::
  "('a \<Rightarrow> 'a1 \<Rightarrow> 'a2 \<Rightarrow> 'h \<Rightarrow> int \<times> 'h)
    \<Rightarrow> dl_env \<Rightarrow> dl_unit option \<Rightarrow> 'a \<Rightarrow> 'a1 \<Rightarrow> 'a2 \<Rightarrow> 'h \<Rightarrow> (doca_error \<times> 'h) loaded" where
  "wrapper_mlx5dv_devx_query_eqn f env u context cpus eqn h =
    via_net mlx5dv_load ''mlx5dv_devx_query_eqn'' env u (DOCA_ERROR_NOT_FOUND, h) (from_ret (f context cpus eqn h))"

definition wrapper_mlx5dv_devx_umem_reg ::
  "('a \<Rightarrow> 'a1 \<Rightarrow> 'a2 \<Rightarrow> 'a3 \<Rightarrow> 'h \<Rightarrow> ptr \<times> 'h)
    \<Rightarrow> dl_env \<Rightarrow> dl_unit option \<Rightarrow> 'a \<Rightarrow> 'a1 \<Rightarrow> 'a2 \<Rightarrow> 'a3 \<Rightarrow> ptr \<Rightarrow> 'h \<Rightarrow> (doca_error \<times> ptr \<times> 'h) loaded" where
  "wrapper_mlx5dv_devx_umem_reg f env u context addr sz access result h =
    via_net mlx5dv_load ''mlx5dv_devx_umem_reg'' env u (DOCA_ERROR_NOT_FOUND, result, h) (from_object result (f context addr sz access h))"

definition wrapper_mlx5dv_devx_umem_reg_ex ::
  "('a \<Rightarrow> 'a1 \<Rightarrow> 'h \<Rightarrow> ptr \<times> 'h)
    \<Rightarrow> dl_env \<Rightarrow> dl_unit option \<Rightarrow> 'a \<Rightarrow> 'a1 \<Rightarrow> ptr \<Rightarrow> 'h \<Rightarrow> (doca_error \<times> ptr \<times> 'h) loaded" where
  "wrapper_mlx5dv_devx_umem_reg_ex f env u context umem_in result h =
    via_net mlx5dv_load ''mlx5dv_devx_umem_reg_ex'' env u (DOCA_ERROR_NOT_FOUND, result, h) (from_object result (f context umem_in h))"

definition wrapper_mlx5dv_devx_umem_dereg ::
  "('a \<Rightarrow> 'h \<Rightarrow> int \<times> 'h)
    \<Rightarrow> dl_env \<Rightarrow> dl_unit option \<Rightarrow> 'a \<Rightarrow> 'h \<Rightarrow> (doca_error \<times> 'h) loaded" where
  "wrapper_mlx5dv_devx_umem_dereg f env u umem h =
    via_net mlx5dv_load ''mlx5dv_devx_umem_dereg'' env u (DOCA_ERROR_NOT_FOUND, h) (from_ret (f umem h))"

definition wrapper_mlx5dv_devx_alloc_uar ::
  "('a \<Rightarrow> 'a1 \<Rightarrow> 'h \<Rightarrow> ptr \<times> 'h)
    \<Rightarrow> dl_env \<Rightarrow> dl_unit option \<Rightarrow> 'a \<Rightarrow> 'a1 \<Rightarrow> ptr \<Rightarrow> 'h \<Rightarrow> (doca_error \<times> ptr \<times> 'h) loaded" where
  "wrapper_mlx5dv_devx_alloc_uar f env u context uar_type result h =
    via_net mlx5dv_load ''mlx5dv_devx_alloc_uar'' env u (DOCA_ERROR_NOT_FOUND, result, h) (from_object result (f context uar_type h))"

definition wrapper_mlx5dv_devx_free_uar ::
  "('a \<Rightarrow> 'h \<Rightarrow> 'h)
    \<Rightarrow> dl_env \<Rightarrow> dl_unit option \<Rightarrow> 'a \<Rightarrow> 'h \<Rightarrow> (doca_error \<times> 'h) loaded" where
  "wrapper_mlx5dv_devx_free_uar f env u uar h =
    via_net mlx5dv_load ''mlx5dv_devx_free_uar'' env u (DOCA_ERROR_NOT_FOUND, h) (DOCA_SUCCESS, f uar h)"

definition wrapper_mlx5dv_query_device ::
  "('a \<Rightarrow> 'a1 \<Rightarrow> 'h \<Rightarrow> int \<times> 'h)
    \<Rightarrow> dl_env \<Rightarrow> dl_unit option \<Rightarrow> 'a \<Rightarrow> 'a1 \<Rightarrow> 'h \<Rightarrow> (doca_error \<times> 'h) loaded" where
  "wrapper_mlx5dv_query_device f env u context attrs_out h =
    via_net mlx5dv_load ''mlx5dv_query_device'' env u (DOCA_ERROR_NOT_FOUND, h) (from_ret (f context attrs_out h))"

section \<open>libcuda, for the verbs layer\<close>

definition cuda_symbols :: "string list" where
  "cuda_symbols =
    [''cuDeviceGetAttribute'', ''cuPointerSetAttribute'', ''cuMemGetHandleForAddressRange'',
     ''cuCtxGetCurrent'']"

definition cuda_load :: "dl_env \<Rightarrow> dl_unit" where
  "cuda_load = net_load [''libcuda.so.1'', ''libcuda.so''] cuda_symbols"

definition wrapper_cuDeviceGetAttribute ::
  "('a \<Rightarrow> 'a1 \<Rightarrow> 'a2 \<Rightarrow> 'h \<Rightarrow> int \<times> 'h)
    \<Rightarrow> dl_env \<Rightarrow> dl_unit option \<Rightarrow> 'a \<Rightarrow> 'a1 \<Rightarrow> 'a2 \<Rightarrow> 'h \<Rightarrow> (int \<times> 'h) loaded" where
  "wrapper_cuDeviceGetAttribute f env u pi attrib dev h =
    via_net cuda_load ''cuDeviceGetAttribute'' env u (CUDA_ERROR_NOT_INITIALIZED, h) (f pi attrib dev h)"

definition wrapper_cuPointerSetAttribute ::
  "('a \<Rightarrow> 'a1 \<Rightarrow> 'a2 \<Rightarrow> 'h \<Rightarrow> int \<times> 'h)
    \<Rightarrow> dl_env \<Rightarrow> dl_unit option \<Rightarrow> 'a \<Rightarrow> 'a1 \<Rightarrow> 'a2 \<Rightarrow> 'h \<Rightarrow> (int \<times> 'h) loaded" where
  "wrapper_cuPointerSetAttribute f env u value attribute ptr h =
    via_net cuda_load ''cuPointerSetAttribute'' env u (CUDA_ERROR_NOT_INITIALIZED, h) (f value attribute ptr h)"

definition wrapper_cuMemGetHandleForAddressRange ::
  "('a \<Rightarrow> 'a1 \<Rightarrow> 'a2 \<Rightarrow> 'a3 \<Rightarrow> 'a4 \<Rightarrow> 'h \<Rightarrow> int \<times> 'h)
    \<Rightarrow> dl_env \<Rightarrow> dl_unit option \<Rightarrow> 'a \<Rightarrow> 'a1 \<Rightarrow> 'a2 \<Rightarrow> 'a3 \<Rightarrow> 'a4 \<Rightarrow> 'h \<Rightarrow> (int \<times> 'h) loaded" where
  "wrapper_cuMemGetHandleForAddressRange f env u pHandle dptr sz handleType flags h =
    via_net cuda_load ''cuMemGetHandleForAddressRange'' env u (CUDA_ERROR_NOT_INITIALIZED, h) (f pHandle dptr sz handleType flags h)"

definition wrapper_cuCtxGetCurrent ::
  "('a \<Rightarrow> 'h \<Rightarrow> int \<times> 'h)
    \<Rightarrow> dl_env \<Rightarrow> dl_unit option \<Rightarrow> 'a \<Rightarrow> 'h \<Rightarrow> (int \<times> 'h) loaded" where
  "wrapper_cuCtxGetCurrent f env u pctx h =
    via_net cuda_load ''cuCtxGetCurrent'' env u (CUDA_ERROR_NOT_INITIALIZED, h) (f pctx h)"

section \<open>libcuda, for the GPU layer\<close>

definition gpu_cuda_symbols :: "string list" where
  "gpu_cuda_symbols =
    [''cuDeviceGetAttribute'', ''cuPointerSetAttribute'', ''cuMemGetHandleForAddressRange'',
     ''cuCtxGetCurrent'']"

definition gpu_cuda_load :: "dl_env \<Rightarrow> dl_unit" where
  "gpu_cuda_load = net_load [''libcuda.so.1'', ''libcuda.so''] gpu_cuda_symbols"

definition gpu_wrapper_cuDeviceGetAttribute ::
  "('a \<Rightarrow> 'a1 \<Rightarrow> 'a2 \<Rightarrow> 'h \<Rightarrow> int \<times> 'h)
    \<Rightarrow> dl_env \<Rightarrow> dl_unit option \<Rightarrow> 'a \<Rightarrow> 'a1 \<Rightarrow> 'a2 \<Rightarrow> 'h \<Rightarrow> (int \<times> 'h) loaded" where
  "gpu_wrapper_cuDeviceGetAttribute f env u pi attrib dev h =
    via_net gpu_cuda_load ''cuDeviceGetAttribute'' env u (CUDA_ERROR_NOT_INITIALIZED, h) (f pi attrib dev h)"

definition gpu_wrapper_cuPointerSetAttribute ::
  "('a \<Rightarrow> 'a1 \<Rightarrow> 'a2 \<Rightarrow> 'h \<Rightarrow> int \<times> 'h)
    \<Rightarrow> dl_env \<Rightarrow> dl_unit option \<Rightarrow> 'a \<Rightarrow> 'a1 \<Rightarrow> 'a2 \<Rightarrow> 'h \<Rightarrow> (int \<times> 'h) loaded" where
  "gpu_wrapper_cuPointerSetAttribute f env u value attribute ptr h =
    via_net gpu_cuda_load ''cuPointerSetAttribute'' env u (CUDA_ERROR_NOT_INITIALIZED, h) (f value attribute ptr h)"

definition gpu_wrapper_cuMemGetHandleForAddressRange ::
  "('a \<Rightarrow> 'a1 \<Rightarrow> 'a2 \<Rightarrow> 'a3 \<Rightarrow> 'a4 \<Rightarrow> 'h \<Rightarrow> int \<times> 'h)
    \<Rightarrow> dl_env \<Rightarrow> dl_unit option \<Rightarrow> 'a \<Rightarrow> 'a1 \<Rightarrow> 'a2 \<Rightarrow> 'a3 \<Rightarrow> 'a4 \<Rightarrow> 'h \<Rightarrow> (int \<times> 'h) loaded" where
  "gpu_wrapper_cuMemGetHandleForAddressRange f env u pHandle dptr sz handleType flags h =
    via_net gpu_cuda_load ''cuMemGetHandleForAddressRange'' env u (CUDA_ERROR_NOT_INITIALIZED, h) (f pHandle dptr sz handleType flags h)"

definition gpu_wrapper_cuCtxGetCurrent ::
  "('a \<Rightarrow> 'h \<Rightarrow> int \<times> 'h)
    \<Rightarrow> dl_env \<Rightarrow> dl_unit option \<Rightarrow> 'a \<Rightarrow> 'h \<Rightarrow> (int \<times> 'h) loaded" where
  "gpu_wrapper_cuCtxGetCurrent f env u pctx h =
    via_net gpu_cuda_load ''cuCtxGetCurrent'' env u (CUDA_ERROR_NOT_INITIALIZED, h) (f pctx h)"

end
