(* ===== verification/WrapperBase.thy ===== *)
theory WrapperBase
  imports SdkWrapper NetWrapper
begin

text \<open>What the loads of the wrappers give, and the schemes of their calls.\<close>

section \<open>Loading\<close>

lemma sdk_loads_sound:
  "sound_load (df_required qp_sdk_file) qp_sdk_load" "sound_load (df_required cq_sdk_file) cq_sdk_load"
  "sound_load (df_required dev_sdk_file) dev_sdk_load" "sound_load (df_required uar_sdk_file) uar_sdk_load"
  "sound_load (df_required umem_sdk_file) umem_sdk_load" "sound_load (df_required gpu_sdk_file) gpu_sdk_load"
  unfolding qp_sdk_load_def cq_sdk_load_def dev_sdk_load_def uar_sdk_load_def umem_sdk_load_def gpu_sdk_load_def
  by (rule sdk_load_sound; simp)+

lemma net_loads_sound:
  "sound_load ibv_symbols ibv_load" "sound_load mlx5dv_symbols mlx5dv_load"
  "sound_load cuda_symbols cuda_load" "sound_load gpu_cuda_symbols gpu_cuda_load"
  unfolding ibv_load_def mlx5dv_load_def cuda_load_def gpu_cuda_load_def
  by (rule net_load_sound)+

section \<open>Calls through the pointers\<close>

lemmas qp_sdk_defs =
  sdk_qp_init_attr_create_def
  sdk_qp_init_attr_destroy_def
  sdk_qp_init_attr_set_pd_def
  sdk_qp_init_attr_set_send_cq_def
  sdk_qp_init_attr_set_receive_cq_def
  sdk_qp_init_attr_set_sq_sig_all_def
  sdk_qp_init_attr_set_sq_wr_def
  sdk_qp_init_attr_set_rq_wr_def
  sdk_qp_init_attr_set_send_max_sges_def
  sdk_qp_init_attr_set_receive_max_sges_def
  sdk_qp_init_attr_set_max_inline_data_def
  sdk_qp_init_attr_set_user_index_def
  sdk_qp_init_attr_set_qp_type_def
  sdk_qp_init_attr_set_external_umem_def
  sdk_qp_init_attr_set_external_umem_dbr_def
  sdk_qp_init_attr_set_external_uar_def
  sdk_qp_init_attr_set_qp_context_def
  sdk_qp_init_attr_set_core_direct_master_def
  sdk_qp_init_attr_set_send_dbr_mode_def
  sdk_qp_init_attr_get_send_dbr_mode_def
  sdk_qp_init_attr_set_ordering_semantic_def
  sdk_qp_init_attr_get_ordering_semantic_def
  sdk_qp_attr_create_def
  sdk_qp_attr_destroy_def
  sdk_qp_attr_set_current_state_def
  sdk_qp_attr_get_current_state_def
  sdk_qp_attr_set_next_state_def
  sdk_qp_attr_set_path_mtu_def
  sdk_qp_attr_set_rq_psn_def
  sdk_qp_attr_set_sq_psn_def
  sdk_qp_attr_set_dest_qp_num_def
  sdk_qp_attr_set_allow_remote_write_def
  sdk_qp_attr_set_allow_remote_read_def
  sdk_qp_attr_set_atomic_mode_def
  sdk_qp_attr_set_pkey_index_def
  sdk_qp_attr_set_port_num_def
  sdk_qp_attr_set_ack_timeout_def
  sdk_qp_attr_set_retry_cnt_def
  sdk_qp_attr_set_rnr_retry_def
  sdk_qp_attr_set_min_rnr_timer_def
  sdk_qp_attr_set_max_rd_atomic_def
  sdk_qp_attr_set_max_dest_rd_atomic_def
  sdk_qp_attr_set_ah_attr_def
  sdk_ah_attr_create_def
  sdk_ah_attr_destroy_def
  sdk_ah_attr_set_gid_def
  sdk_ah_attr_set_addr_type_def
  sdk_ah_attr_set_dlid_def
  sdk_ah_attr_set_sl_def
  sdk_ah_attr_set_sgid_index_def
  sdk_ah_attr_set_static_rate_def
  sdk_ah_attr_set_hop_limit_def
  sdk_ah_attr_set_traffic_class_def
  sdk_qp_create_def
  sdk_qp_destroy_def
  sdk_qp_modify_def
  sdk_qp_query_def
  sdk_qp_get_qpn_def
  sdk_qp_get_dbr_addr_def
  sdk_qp_get_uar_addr_def
  sdk_qp_get_wq_def

lemmas cq_sdk_defs =
  sdk_cq_attr_create_def
  sdk_cq_attr_destroy_def
  sdk_cq_attr_set_cq_size_def
  sdk_cq_attr_set_cq_context_def
  sdk_cq_attr_set_external_umem_def
  sdk_cq_attr_set_external_uar_def
  sdk_cq_attr_set_cq_overrun_def
  sdk_cq_attr_set_cq_collapsed_def
  sdk_cq_create_def
  sdk_cq_destroy_def
  sdk_cq_get_wq_def
  sdk_cq_get_dbr_addr_def
  sdk_cq_get_cqn_def

lemmas uar_sdk_defs =
  sdk_uar_create_def
  sdk_uar_destroy_def
  sdk_uar_get_id_def
  sdk_uar_reg_addr_get_def

lemmas umem_sdk_defs =
  sdk_umem_create_def
  sdk_umem_destroy_def
  sdk_umem_get_id_def
  sdk_umem_get_size_def
  sdk_umem_get_address_def

lemmas gpu_sdk_defs =
  sdk_gpu_create_def
  sdk_gpu_destroy_def
  sdk_gpu_mem_alloc_def
  sdk_gpu_mem_free_def
  sdk_gpu_dmabuf_fd_def

lemmas dev_sdk_defs =
  sdk_dev_open_from_pd_def
  sdk_dev_close_def

lemmas qp_through = through_defined [OF sdk_loads_sound(1)]
lemmas cq_through = through_defined [OF sdk_loads_sound(2)]
lemmas dev_through = through_defined [OF sdk_loads_sound(3)]
lemmas uar_through = through_defined [OF sdk_loads_sound(4)]
lemmas umem_through = through_defined [OF sdk_loads_sound(5)]
lemmas gpu_through = through_defined [OF sdk_loads_sound(6)]

lemmas call_schemes =
  call_sdk_def get_sdk_def call_optional_def via_sdk_def non_null_def if_sdk_def if_sdk_dev_def if_elements_def
  after_call_def Let_def

lemma optional_defined:
  assumes "sound_load required load" "reachable_unit load u" "du_ret (call_once load env u) = 0"
    and "du_sym (call_once load env u) s \<noteq> null"
  shows "through (call_once load env u) s r = Ret r"
  using sound_call_once(1) [OF assms(1-3)] assms(4) by (simp add: through_def)

lemmas qp_optional = optional_defined [OF sdk_loads_sound(1)]
lemmas cq_optional = optional_defined [OF sdk_loads_sound(2)]

section \<open>A complete installation\<close>

text \<open>A system where the SDK is installed.\<close>

definition full_sdk :: dl_env where
  "full_sdk = \<lparr>ev_sdk_path = Some ''/opt'', ev_dlopen = \<lambda>_. 1, ev_dlsym = \<lambda>_ _. 1\<rparr>"

lemma full_sdk_look_up: "s \<in> set (map fst symbols) \<Longrightarrow> look_up full_sdk hs symbols s \<noteq> null"
  by (auto simp: look_up_def full_sdk_def map_of_eq_None_iff split: option.splits)

end
