(* ===== verification/WrapperProps.thy ===== *)
theory WrapperProps
  imports WrapperBase
begin

text \<open>
  The wrappers around the SDK's libraries: loading is all or nothing, and no call goes through a null
  pointer or into a closed library.
\<close>

text \<open>Loading is all or nothing.  The load of an SDK wrapper succeeds exactly when every library opens
  and every required symbol is found, and then as many libraries stay open as were opened and the
  pointers are the ones the linker gave; otherwise no library stays open.  A second call does not
  load again, whatever the environment has become.\<close>

theorem sdk_load_is_all_or_nothing:
  "(du_ret (sdk_load libs F env) = 0 \<longleftrightarrow>
     (\<exists>hs. open_all env libs = Some hs \<and> (\<forall>s \<in> set (df_required F). look_up env hs (df_symbols F) s \<noteq> null))) \<and>
   (du_ret (sdk_load libs F env) = 0 \<longrightarrow>
     open_all env libs = Some (du_open (sdk_load libs F env)) \<and>
     length (du_open (sdk_load libs F env)) = length libs \<and>
     du_sym (sdk_load libs F env) = look_up env (du_open (sdk_load libs F env)) (df_symbols F)) \<and>
   (du_ret (sdk_load libs F env) \<noteq> 0 \<longrightarrow> du_open (sdk_load libs F env) = []) \<and>
   call_once (sdk_load libs F) env' (Some (call_once (sdk_load libs F) env None)) = sdk_load libs F env"
  by (auto simp: sdk_load_def failed_load_def take_symbols_def Let_def list_all_iff call_once_def
      dest: open_all_length split: option.splits)

text \<open>C33: No function of the SDK wrappers calls through a null pointer or into a library that was closed, in
  whatever state its file is and whatever the environment has become since it was loaded: the
  pointers it uses without a check are among those its load requires, and it checks the others.  (Handles that a function
  follows without a check are given here; the others may be null.)\<close>

theorem sdk_wrappers_never_call_null:
  assumes "reachable_unit qp_sdk_load qp_u" and "reachable_unit cq_sdk_load cq_u"
    and "reachable_unit uar_sdk_load uar_u" and "reachable_unit umem_sdk_load umem_u"
    and "reachable_unit gpu_sdk_load gpu_u" and "reachable_unit dev_sdk_load dev_u"
  shows
   "(\<forall>f result. fst (sdk_qp_init_attr_create f env qp_u result) \<noteq> Misuse) \<and>
    (\<forall>f ob. fst (sdk_qp_init_attr_destroy f env qp_u ob) \<noteq> Misuse) \<and>
    (\<forall>f ob net_dev. fst (sdk_qp_init_attr_set_pd f env qp_u ob net_dev) \<noteq> Misuse) \<and>
    (\<forall>f ob arg. fst (sdk_qp_init_attr_set_send_cq f env qp_u ob arg) \<noteq> Misuse) \<and>
    (\<forall>f ob arg. fst (sdk_qp_init_attr_set_receive_cq f env qp_u ob arg) \<noteq> Misuse) \<and>
    (\<forall>f ob sq_sig_all. fst (sdk_qp_init_attr_set_sq_sig_all f env qp_u ob sq_sig_all) \<noteq> Misuse) \<and>
    (\<forall>f ob sq_wr. fst (sdk_qp_init_attr_set_sq_wr f env qp_u ob sq_wr) \<noteq> Misuse) \<and>
    (\<forall>f ob rq_wr. fst (sdk_qp_init_attr_set_rq_wr f env qp_u ob rq_wr) \<noteq> Misuse) \<and>
    (\<forall>f ob send_max_sges. fst (sdk_qp_init_attr_set_send_max_sges f env qp_u ob send_max_sges) \<noteq> Misuse) \<and>
    (\<forall>f ob receive_max_sges. fst (sdk_qp_init_attr_set_receive_max_sges f env qp_u ob receive_max_sges) \<noteq> Misuse) \<and>
    (\<forall>f ob max_inline_data. fst (sdk_qp_init_attr_set_max_inline_data f env qp_u ob max_inline_data) \<noteq> Misuse) \<and>
    (\<forall>f ob user_index. fst (sdk_qp_init_attr_set_user_index f env qp_u ob user_index) \<noteq> Misuse) \<and>
    (\<forall>f ob qp_type. fst (sdk_qp_init_attr_set_qp_type f env qp_u ob qp_type) \<noteq> Misuse) \<and>
    (\<forall>f datapath_en ob arg offset. fst (sdk_qp_init_attr_set_external_umem f datapath_en env qp_u ob arg offset) \<noteq> Misuse) \<and>
    (\<forall>f ob arg offset. fst (sdk_qp_init_attr_set_external_umem_dbr f env qp_u ob arg offset) \<noteq> Misuse) \<and>
    (\<forall>f ob arg. fst (sdk_qp_init_attr_set_external_uar f env qp_u ob arg) \<noteq> Misuse) \<and>
    (\<forall>f ob qp_context. fst (sdk_qp_init_attr_set_qp_context f env qp_u ob qp_context) \<noteq> Misuse) \<and>
    (\<forall>f ob core_direct_master. fst (sdk_qp_init_attr_set_core_direct_master f env qp_u ob core_direct_master) \<noteq> Misuse) \<and>
    (\<forall>f ob v. fst (sdk_qp_init_attr_set_send_dbr_mode f env qp_u ob v) \<noteq> Misuse) \<and>
    (\<forall>f ob result. fst (sdk_qp_init_attr_get_send_dbr_mode f env qp_u ob result) \<noteq> Misuse) \<and>
    (\<forall>f ob v. fst (sdk_qp_init_attr_set_ordering_semantic f env qp_u ob v) \<noteq> Misuse) \<and>
    (\<forall>f ob result. fst (sdk_qp_init_attr_get_ordering_semantic f env qp_u ob result) \<noteq> Misuse) \<and>
    (\<forall>f result. fst (sdk_qp_attr_create f env qp_u result) \<noteq> Misuse) \<and>
    (\<forall>f ob. fst (sdk_qp_attr_destroy f env qp_u ob) \<noteq> Misuse) \<and>
    (\<forall>f ob current_state. fst (sdk_qp_attr_set_current_state f env qp_u ob current_state) \<noteq> Misuse) \<and>
    (\<forall>f ob result. fst (sdk_qp_attr_get_current_state f env qp_u ob result) \<noteq> Misuse) \<and>
    (\<forall>f ob next_state. fst (sdk_qp_attr_set_next_state f env qp_u ob next_state) \<noteq> Misuse) \<and>
    (\<forall>f ob path_mtu. fst (sdk_qp_attr_set_path_mtu f env qp_u ob path_mtu) \<noteq> Misuse) \<and>
    (\<forall>f ob rq_psn. fst (sdk_qp_attr_set_rq_psn f env qp_u ob rq_psn) \<noteq> Misuse) \<and>
    (\<forall>f ob sq_psn. fst (sdk_qp_attr_set_sq_psn f env qp_u ob sq_psn) \<noteq> Misuse) \<and>
    (\<forall>f ob dest_qp_num. fst (sdk_qp_attr_set_dest_qp_num f env qp_u ob dest_qp_num) \<noteq> Misuse) \<and>
    (\<forall>f ob allow_remote_write. fst (sdk_qp_attr_set_allow_remote_write f env qp_u ob allow_remote_write) \<noteq> Misuse) \<and>
    (\<forall>f ob allow_remote_read. fst (sdk_qp_attr_set_allow_remote_read f env qp_u ob allow_remote_read) \<noteq> Misuse) \<and>
    (\<forall>f ob atomic_mode. fst (sdk_qp_attr_set_atomic_mode f env qp_u ob atomic_mode) \<noteq> Misuse) \<and>
    (\<forall>f ob pkey_index. fst (sdk_qp_attr_set_pkey_index f env qp_u ob pkey_index) \<noteq> Misuse) \<and>
    (\<forall>f ob port_num. fst (sdk_qp_attr_set_port_num f env qp_u ob port_num) \<noteq> Misuse) \<and>
    (\<forall>f ob ack_timeout. fst (sdk_qp_attr_set_ack_timeout f env qp_u ob ack_timeout) \<noteq> Misuse) \<and>
    (\<forall>f ob retry_cnt. fst (sdk_qp_attr_set_retry_cnt f env qp_u ob retry_cnt) \<noteq> Misuse) \<and>
    (\<forall>f ob rnr_retry. fst (sdk_qp_attr_set_rnr_retry f env qp_u ob rnr_retry) \<noteq> Misuse) \<and>
    (\<forall>f ob min_rnr_timer. fst (sdk_qp_attr_set_min_rnr_timer f env qp_u ob min_rnr_timer) \<noteq> Misuse) \<and>
    (\<forall>f ob max_rd_atomic. fst (sdk_qp_attr_set_max_rd_atomic f env qp_u ob max_rd_atomic) \<noteq> Misuse) \<and>
    (\<forall>f ob max_dest_rd_atomic. fst (sdk_qp_attr_set_max_dest_rd_atomic f env qp_u ob max_dest_rd_atomic) \<noteq> Misuse) \<and>
    (\<forall>f ob arg. fst (sdk_qp_attr_set_ah_attr f env qp_u ob (Some arg)) \<noteq> Misuse) \<and>
    (\<forall>f net_dev result. fst (sdk_ah_attr_create f env qp_u net_dev result) \<noteq> Misuse) \<and>
    (\<forall>f ob. fst (sdk_ah_attr_destroy f env qp_u ob) \<noteq> Misuse) \<and>
    (\<forall>f ob gid. fst (sdk_ah_attr_set_gid f env qp_u ob gid) \<noteq> Misuse) \<and>
    (\<forall>f ob addr_type. fst (sdk_ah_attr_set_addr_type f env qp_u ob addr_type) \<noteq> Misuse) \<and>
    (\<forall>f ob dlid. fst (sdk_ah_attr_set_dlid f env qp_u ob dlid) \<noteq> Misuse) \<and>
    (\<forall>f ob sl. fst (sdk_ah_attr_set_sl f env qp_u ob sl) \<noteq> Misuse) \<and>
    (\<forall>f ob sgid_index. fst (sdk_ah_attr_set_sgid_index f env qp_u ob sgid_index) \<noteq> Misuse) \<and>
    (\<forall>f ob static_rate. fst (sdk_ah_attr_set_static_rate f env qp_u ob static_rate) \<noteq> Misuse) \<and>
    (\<forall>f ob hop_limit. fst (sdk_ah_attr_set_hop_limit f env qp_u ob hop_limit) \<noteq> Misuse) \<and>
    (\<forall>f ob traffic_class. fst (sdk_ah_attr_set_traffic_class f env qp_u ob traffic_class) \<noteq> Misuse) \<and>
    (\<forall>f net_dev attr result. fst (sdk_qp_create f env qp_u net_dev attr result) \<noteq> Misuse) \<and>
    (\<forall>f ob. fst (sdk_qp_destroy f env qp_u ob) \<noteq> Misuse) \<and>
    (\<forall>f ob attr attr_mask. fst (sdk_qp_modify f env qp_u ob attr attr_mask) \<noteq> Misuse) \<and>
    (\<forall>f ob attr init_attr result. fst (sdk_qp_query f env qp_u ob attr init_attr result) \<noteq> Misuse) \<and>
    (\<forall>f ob result. fst (sdk_qp_get_qpn f env qp_u ob result) \<noteq> Misuse) \<and>
    (\<forall>f ob result. fst (sdk_qp_get_dbr_addr f env qp_u ob result) \<noteq> Misuse) \<and>
    (\<forall>f ob result. fst (sdk_qp_get_uar_addr f env qp_u ob result) \<noteq> Misuse) \<and>
    (\<forall>f ob result. fst (sdk_qp_get_wq f env qp_u ob result) \<noteq> Misuse) \<and>
    (\<forall>f result. fst (sdk_cq_attr_create f env cq_u result) \<noteq> Misuse) \<and>
    (\<forall>f ob. fst (sdk_cq_attr_destroy f env cq_u ob) \<noteq> Misuse) \<and>
    (\<forall>f ob cq_size. fst (sdk_cq_attr_set_cq_size f env cq_u ob cq_size) \<noteq> Misuse) \<and>
    (\<forall>f ob cq_context. fst (sdk_cq_attr_set_cq_context f env cq_u ob cq_context) \<noteq> Misuse) \<and>
    (\<forall>f datapath_en ob arg offset. fst (sdk_cq_attr_set_external_umem f datapath_en env cq_u ob (Some arg) offset) \<noteq> Misuse) \<and>
    (\<forall>f ob arg. fst (sdk_cq_attr_set_external_uar f env cq_u ob (Some arg)) \<noteq> Misuse) \<and>
    (\<forall>f ob overrun. fst (sdk_cq_attr_set_cq_overrun f env cq_u ob overrun) \<noteq> Misuse) \<and>
    (\<forall>f ob v. fst (sdk_cq_attr_set_cq_collapsed f env cq_u ob v) \<noteq> Misuse) \<and>
    (\<forall>f net_dev attr result. fst (sdk_cq_create f env cq_u net_dev (Some attr) result) \<noteq> Misuse) \<and>
    (\<forall>f ob. fst (sdk_cq_destroy f env cq_u ob) \<noteq> Misuse) \<and>
    (\<forall>f ob result. fst (sdk_cq_get_wq f env cq_u ob result) \<noteq> Misuse) \<and>
    (\<forall>f ob result. fst (sdk_cq_get_dbr_addr f env cq_u ob result) \<noteq> Misuse) \<and>
    (\<forall>f ob result. fst (sdk_cq_get_cqn f env cq_u ob result) \<noteq> Misuse) \<and>
    (\<forall>f net_dev allocation_type result. fst (sdk_uar_create f env uar_u net_dev allocation_type result) \<noteq> Misuse) \<and>
    (\<forall>f ob. fst (sdk_uar_destroy f env uar_u ob) \<noteq> Misuse) \<and>
    (\<forall>f ob result. fst (sdk_uar_get_id f env uar_u ob result) \<noteq> Misuse) \<and>
    (\<forall>f ob result. fst (sdk_uar_reg_addr_get f env uar_u ob result) \<noteq> Misuse) \<and>
    (\<forall>f_gpu f net_dev gpu address sz access_flags dmabuf_fd result. fst (sdk_umem_create f_gpu f env umem_u net_dev (Some gpu) address sz access_flags dmabuf_fd result) \<noteq> Misuse) \<and>
    (\<forall>f ob. fst (sdk_umem_destroy f env umem_u ob) \<noteq> Misuse) \<and>
    (\<forall>f ob result. fst (sdk_umem_get_id f env umem_u ob result) \<noteq> Misuse) \<and>
    (\<forall>f ob result. fst (sdk_umem_get_size f env umem_u ob result) \<noteq> Misuse) \<and>
    (\<forall>f ob result. fst (sdk_umem_get_address f env umem_u ob result) \<noteq> Misuse) \<and>
    (\<forall>f bus_id result. fst (sdk_gpu_create f env gpu_u bus_id result) \<noteq> Misuse) \<and>
    (\<forall>f ob. fst (sdk_gpu_destroy f env gpu_u ob) \<noteq> Misuse) \<and>
    (\<forall>f ob sz alignment mtype result. fst (sdk_gpu_mem_alloc f env gpu_u ob sz alignment mtype result) \<noteq> Misuse) \<and>
    (\<forall>f ob memptr_gpu. fst (sdk_gpu_mem_free f env gpu_u ob memptr_gpu) \<noteq> Misuse) \<and>
    (\<forall>f ob memptr_gpu sz result. fst (sdk_gpu_dmabuf_fd f env gpu_u ob memptr_gpu sz result) \<noteq> Misuse) \<and>
    (\<forall>A context_of pd d k. pd \<noteq> null \<longrightarrow> fst (sdk_dev_open_from_pd A context_of env dev_u pd d k) \<noteq> Misuse) \<and>
    (\<forall>A net_dev k. fst (sdk_dev_close A env dev_u (Some net_dev) k) \<noteq> Misuse)"
  unfolding qp_sdk_defs cq_sdk_defs uar_sdk_defs umem_sdk_defs gpu_sdk_defs dev_sdk_defs call_schemes
  by (intro conjI allI;
      auto simp: qp_through [OF assms(1)] cq_through [OF assms(2)] uar_through [OF assms(3)] umem_through [OF assms(4)] gpu_through [OF assms(5)] dev_through [OF assms(6)]
        qp_optional [OF assms(1)] cq_optional [OF assms(2)] qp_sdk_file_defs cq_sdk_file_defs uar_sdk_file_defs umem_sdk_file_defs gpu_sdk_file_defs dev_sdk_file_defs
      split: option.splits prod.splits)

section \<open>Witness\<close>

text \<open>An installation whose libraries open but have no symbols: the load fails, and the call says so.\<close>

definition empty_libraries :: dl_env where
  "empty_libraries = \<lparr>ev_sdk_path = Some ''/opt'', ev_dlopen = \<lambda>_. 1, ev_dlsym = \<lambda>_ _. null\<rparr>"

lemma full_sdk_qp_complete:
  "list_all (\<lambda>s. s \<in> set (map fst (df_symbols qp_sdk_file))) (df_required qp_sdk_file)"
  by code_simp

lemma full_sdk_qp_loaded: "du_ret (qp_sdk_load full_sdk) = 0"
proof -
  have o: "open_all full_sdk [''libdoca_common.so'', ''libdoca_verbs.so''] = Some [1, 1]"
    by (simp add: full_sdk_def Let_def)
  have "qp_sdk_load full_sdk = take_symbols qp_sdk_file full_sdk [1, 1]"
    by (simp only: qp_sdk_load_def sdk_load_def o option.case)
  moreover have "list_all (\<lambda>s. look_up full_sdk [1, 1] (df_symbols qp_sdk_file) s \<noteq> null) (df_required qp_sdk_file)"
    using full_sdk_qp_complete full_sdk_look_up by (simp add: list_all_iff)
  ultimately show ?thesis by (simp add: take_symbols_def)
qed

theorem sdk_wrappers_never_call_null_witness:
  "fst (sdk_qp_init_attr_create (DOCA_SUCCESS, Some (7 :: nat)) empty_libraries None None) \<noteq> Misuse \<and>
   fst (sdk_qp_init_attr_create (DOCA_SUCCESS, Some (7 :: nat)) full_sdk (Some (qp_sdk_load full_sdk)) None) \<noteq> Misuse \<and>
   reachable_unit qp_sdk_load (Some (qp_sdk_load full_sdk)) \<and> du_ret (qp_sdk_load full_sdk) = 0 \<and>
   reachable_unit qp_sdk_load (Some (qp_sdk_load empty_libraries))"
proof -
  have n: "reachable_unit load None" for load by (simp add: reachable_unit_def)
  have r: "reachable_unit qp_sdk_load (Some (qp_sdk_load env))" for env by (auto simp: reachable_unit_def)
  show ?thesis
    using sdk_wrappers_never_call_null [OF n n n n n n, THEN conjunct1, rule_format]
      sdk_wrappers_never_call_null [OF r n n n n n, THEN conjunct1, rule_format]
      r full_sdk_qp_loaded by blast
qed

end
