(* ===== verification/VerbsDev.thy ===== *)
theory VerbsDev
  imports SdkWrapper
begin

text \<open>
  Network devices, \<^verbatim>\<open>src/doca_verbs_dev.cpp\<close>: a device of the SDK with its imported protection domain and
  context, or a pair of pointers of this library.  The two share a union.
\<close>

record dev_open =
  m_ibv_ctx :: ptr
  m_ibv_pd :: ptr

record doca_dev =
  dv_type :: lib_type
  dv_member :: "(ptr, dev_open) member"
  dv_sdk_pd :: ptr
  dv_sdk_context :: ptr

text \<open>The constructor throws without a context or a protection domain, and so can \<^verbatim>\<open>new\<close>.\<close>

definition new_dev_open :: "bool \<Rightarrow> ptr \<Rightarrow> ptr \<Rightarrow> dev_open option" where
  "new_dev_open new_ok verbs_ctx verbs_pd =
    (if new_ok \<and> \<not> (verbs_ctx = null \<or> verbs_pd = null)
     then Some \<lparr>m_ibv_ctx = verbs_ctx, m_ibv_pd = verbs_pd\<rparr> else None)"

definition as_member :: "ptr \<Rightarrow> (ptr, dev_open) member" where
  "as_member p = (if p = null then Null else SdkPtr p)"

text \<open>
  Opening gives the error, the device, and the number of handles that stay allocated.  The error
  label frees the open pointer of the union when it is not null.
\<close>

definition dev_exit_error :: "(ptr, dev_open) member \<Rightarrow> 'k \<Rightarrow> (doca_error \<times> doca_dev option \<times> nat \<times> 'k) outcome" where
  "dev_exit_error m k =
    (case m of SdkPtr p \<Rightarrow> Misuse | _ \<Rightarrow> Ret (DOCA_ERROR_INITIALIZATION, None, 0, k))"

definition verbs_dev_open :: "'k sdk_dev_api \<Rightarrow> (ptr \<Rightarrow> ptr) \<Rightarrow> dl_env \<Rightarrow> dl_unit option \<Rightarrow> bool \<Rightarrow> bool \<Rightarrow> ptr \<Rightarrow> 'k
    \<Rightarrow> (doca_error \<times> doca_dev option \<times> nat \<times> 'k) loaded" where
  "verbs_dev_open A context_of env u calloc_ok new_ok verbs_pd k =
    (if \<not> calloc_ok then (Ret (DOCA_ERROR_NO_MEMORY, None, 0, k), u)
     else
       case sdk_dev_open_from_pd A context_of env u verbs_pd
              \<lparr>sd_type = LIB_TYPE_OPEN, sd_sdk = null, sd_pd = null, sd_context = null\<rparr> k of
         (Misuse, u) \<Rightarrow> (Misuse, u)
       | (Ret (err, d, k), u) \<Rightarrow>
           (if err = DOCA_SDK_WRAPPER_SUCCESS then
              Ret (DOCA_SUCCESS, Some \<lparr>dv_type = LIB_TYPE_SDK, dv_member = as_member (sd_sdk d),
                dv_sdk_pd = sd_pd d, dv_sdk_context = sd_context d\<rparr>, 1, k)
            else if err = DOCA_SDK_WRAPPER_API_ERROR then dev_exit_error (as_member (sd_sdk d)) k
            else if verbs_pd = null then Ret (DOCA_ERROR_INVALID_VALUE, None, 1, k)
            else case new_dev_open new_ok (context_of verbs_pd) verbs_pd of
              Some ob \<Rightarrow> Ret (DOCA_SUCCESS, Some \<lparr>dv_type = LIB_TYPE_OPEN, dv_member = OpenPtr ob,
                dv_sdk_pd = sd_pd d, dv_sdk_context = sd_context d\<rparr>, 1, k)
            | None \<Rightarrow> dev_exit_error (as_member (sd_sdk d)) k, u))"

text \<open>Closing frees the handle on every path; its exit label deletes the open pointer of the union.\<close>

definition sdk_view :: "doca_dev \<Rightarrow> ptr \<Rightarrow> sdk_dev" where
  "sdk_view v p = \<lparr>sd_type = dv_type v, sd_sdk = p, sd_pd = dv_sdk_pd v, sd_context = dv_sdk_context v\<rparr>"

definition delete_dev :: "doca_error \<Rightarrow> (ptr, dev_open) member \<Rightarrow> 'k \<Rightarrow> (doca_error \<times> 'k) outcome" where
  "delete_dev status m k = (case m of SdkPtr p \<Rightarrow> Misuse | _ \<Rightarrow> Ret (status, k))"

definition verbs_dev_close :: "'k sdk_dev_api \<Rightarrow> dl_env \<Rightarrow> dl_unit option \<Rightarrow> doca_dev option \<Rightarrow> 'k
    \<Rightarrow> (doca_error \<times> 'k) loaded" where
  "verbs_dev_close A env u net_dev k =
    (case net_dev of
       None \<Rightarrow> (Ret (DOCA_ERROR_INVALID_VALUE, k), u)
     | Some v \<Rightarrow>
         if dv_type v = LIB_TYPE_SDK then
           case sdk_obj (dv_member v) of
             Misuse \<Rightarrow> (Misuse, u)
           | Ret p \<Rightarrow>
               case sdk_dev_close A env u (Some (sdk_view v (case p of None \<Rightarrow> null | Some s \<Rightarrow> s))) k of
                 (Misuse, u) \<Rightarrow> (Misuse, u)
               | (Ret (err, k), u) \<Rightarrow>
                   (if err = DOCA_SDK_WRAPPER_SUCCESS then delete_dev DOCA_SUCCESS Null k
                    else if err = DOCA_SDK_WRAPPER_API_ERROR then delete_dev DOCA_ERROR_UNEXPECTED (dv_member v) k
                    else if dv_member v = Null then delete_dev DOCA_ERROR_INVALID_VALUE Null k
                    else delete_dev DOCA_SUCCESS (dv_member v) k, u)
         else if dv_member v = Null then (delete_dev DOCA_ERROR_INVALID_VALUE Null k, u)
         else (delete_dev DOCA_SUCCESS (dv_member v) k, u))"

section \<open>What the SDK does to devices\<close>

datatype sdk_kind = SdkDevice | SdkPd | SdkContext

type_synonym 'k sdk_live = "'k \<Rightarrow> (sdk_kind \<times> ptr) set"

definition sdk_made :: "'k sdk_live \<Rightarrow> sdk_kind \<Rightarrow> 'k \<Rightarrow> doca_error \<times> ptr \<times> 'k \<Rightarrow> bool" where
  "sdk_made live K k r \<longleftrightarrow>
    (case r of (e, p, k') \<Rightarrow>
      if e = DOCA_SUCCESS then p \<noteq> null \<and> (K, p) \<notin> live k \<and> live k' = insert (K, p) (live k)
      else p = null \<and> live k' = live k)"

definition sdk_ended :: "'k sdk_live \<Rightarrow> sdk_kind \<Rightarrow> ptr \<Rightarrow> 'k \<Rightarrow> doca_error \<times> 'k \<Rightarrow> bool" where
  "sdk_ended live K p k r \<longleftrightarrow>
    ((K, p) \<in> live k \<longrightarrow> fst r = DOCA_SUCCESS \<and> live (snd r) = live k - {(K, p)})"

text \<open>
  The documented behaviour: a creation gives a fresh object, or stores nothing and changes nothing; an
  object that is alive can be released.  (The SDK also asks that what was imported be released before
  the device.  The wrapper releases the protection domain, the context and the device in this order;
  the contract does not make the success of a release depend on it.)
\<close>

definition lawful_dev_api :: "'k sdk_dev_api \<Rightarrow> 'k sdk_live \<Rightarrow> bool" where
  "lawful_dev_api A live \<longleftrightarrow>
    (\<forall>pd k. sdk_made live SdkDevice k (da_open A pd k)) \<and>
    (\<forall>pd k. sdk_made live SdkPd k (da_pd_import A pd k)) \<and>
    (\<forall>c f k. sdk_made live SdkContext k (da_context_import A c f k)) \<and>
    (\<forall>p k. sdk_ended live SdkDevice p k (da_close A p k)) \<and>
    (\<forall>p k. sdk_ended live SdkPd p k (da_pd_destroy A p k)) \<and>
    (\<forall>p k. sdk_ended live SdkContext p k (da_context_destroy A p k))"

end
