(* ===== verification/SdkSession.thy ===== *)
theory SdkSession
  imports SdkWrapper VerbsDev NetWrapper AttrSession
begin

text \<open>The setters of QP creation attributes with the SDK's wrappers behind them.\<close>

section \<open>The wrappers as the SDK of the setters\<close>

text \<open>
  \<open>f\<close> is what the SDK's setter does to its object; \<open>dev_of\<close> and \<open>arg_of\<close> read the handles that are passed.
\<close>

type_synonym 's sdk_setters = "init_cmd \<Rightarrow> 's \<Rightarrow> doca_error \<times> 's"

definition on_object :: "('s \<Rightarrow> doca_error \<times> 's) \<Rightarrow> 's option \<Rightarrow> doca_error \<times> 's option" where
  "on_object g p = (case p of None \<Rightarrow> (DOCA_ERROR_INVALID_VALUE, None) | Some s \<Rightarrow> (case g s of (e, s) \<Rightarrow> (e, Some s)))"

fun setter_wrapper :: "'s sdk_setters \<Rightarrow> ('s \<Rightarrow> doca_error \<times> 's) \<Rightarrow> (net_dev \<Rightarrow> sdk_dev option) \<Rightarrow> (ptr \<Rightarrow> sdk_arg option)
    \<Rightarrow> dl_env \<Rightarrow> dl_unit option \<Rightarrow> init_cmd \<Rightarrow> 's option \<Rightarrow> 's option wrapping" where
  "setter_wrapper f dp dev_of arg_of env u (Set_pd v) p = sdk_qp_init_attr_set_pd (\<lambda>p _. on_object (f (Set_pd v)) p) env u p (dev_of v)"
| "setter_wrapper f dp dev_of arg_of env u (Set_send_cq v) p = sdk_qp_init_attr_set_send_cq (\<lambda>p _. on_object (f (Set_send_cq v)) p) env u p (arg_of v)"
| "setter_wrapper f dp dev_of arg_of env u (Set_receive_cq v) p = sdk_qp_init_attr_set_receive_cq (\<lambda>p _. on_object (f (Set_receive_cq v)) p) env u p (arg_of v)"
| "setter_wrapper f dp dev_of arg_of env u (Set_sq_sig_all v) p = sdk_qp_init_attr_set_sq_sig_all (\<lambda>p v. on_object (f (Set_sq_sig_all v)) p) env u p v"
| "setter_wrapper f dp dev_of arg_of env u (Set_sq_wr v) p = sdk_qp_init_attr_set_sq_wr (\<lambda>p v. on_object (f (Set_sq_wr v)) p) env u p v"
| "setter_wrapper f dp dev_of arg_of env u (Set_rq_wr v) p = sdk_qp_init_attr_set_rq_wr (\<lambda>p v. on_object (f (Set_rq_wr v)) p) env u p v"
| "setter_wrapper f dp dev_of arg_of env u (Set_send_max_sges v) p = sdk_qp_init_attr_set_send_max_sges (\<lambda>p v. on_object (f (Set_send_max_sges v)) p) env u p v"
| "setter_wrapper f dp dev_of arg_of env u (Set_receive_max_sges v) p = sdk_qp_init_attr_set_receive_max_sges (\<lambda>p v. on_object (f (Set_receive_max_sges v)) p) env u p v"
| "setter_wrapper f dp dev_of arg_of env u (Set_max_inline_data v) p = sdk_qp_init_attr_set_max_inline_data (\<lambda>p v. on_object (f (Set_max_inline_data v)) p) env u p v"
| "setter_wrapper f dp dev_of arg_of env u (Set_user_index v) p = sdk_qp_init_attr_set_user_index (\<lambda>p v. on_object (f (Set_user_index v)) p) env u p v"
| "setter_wrapper f dp dev_of arg_of env u (Set_qp_type v) p = sdk_qp_init_attr_set_qp_type (\<lambda>p v. on_object (f (Set_qp_type v)) p) env u p v"
| "setter_wrapper f dp dev_of arg_of env u (Set_external_umem v off) p = sdk_qp_init_attr_set_external_umem (\<lambda>p _ off. on_object (f (Set_external_umem v off)) p) (\<lambda>p _. on_object dp p) env u p (arg_of v) off"
| "setter_wrapper f dp dev_of arg_of env u (Set_external_umem_dbr v off) p = sdk_qp_init_attr_set_external_umem_dbr (\<lambda>p _ off. on_object (f (Set_external_umem_dbr v off)) p) env u p (arg_of v) off"
| "setter_wrapper f dp dev_of arg_of env u (Set_external_uar v) p = sdk_qp_init_attr_set_external_uar (\<lambda>p _. on_object (f (Set_external_uar v)) p) env u p (arg_of v)"
| "setter_wrapper f dp dev_of arg_of env u (Set_qp_context v) p = sdk_qp_init_attr_set_qp_context (\<lambda>p v. on_object (f (Set_qp_context v)) p) env u p v"
| "setter_wrapper f dp dev_of arg_of env u (Set_core_direct_master v) p = sdk_qp_init_attr_set_core_direct_master (\<lambda>p v. on_object (f (Set_core_direct_master v)) p) env u p v"
| "setter_wrapper f dp dev_of arg_of env u (Set_send_dbr_mode v) p = sdk_qp_init_attr_set_send_dbr_mode (\<lambda>p v. on_object (f (Set_send_dbr_mode v)) p) env u p v"
| "setter_wrapper f dp dev_of arg_of env u (Set_emulate_no_dbr_ext v) p = (Ret (DOCA_SDK_WRAPPER_NOT_SUPPORTED, p), u)"

text \<open>The wrappers never go through a null pointer, so their outcome is always a result.\<close>

definition wrapped_sdk :: "'s sdk_setters \<Rightarrow> ('s \<Rightarrow> doca_error \<times> 's) \<Rightarrow> (net_dev \<Rightarrow> sdk_dev option) \<Rightarrow> (ptr \<Rightarrow> sdk_arg option)
    \<Rightarrow> dl_env \<Rightarrow> dl_unit option \<Rightarrow> init_cmd \<Rightarrow> 's sdk_call" where
  "wrapped_sdk f dp dev_of arg_of env u c p =
    (case fst (setter_wrapper f dp dev_of arg_of env u c p) of
       Ret r \<Rightarrow> r | Misuse \<Rightarrow> (DOCA_SDK_WRAPPER_API_ERROR, p))"

section \<open>What the SDK takes\<close>

definition sdk_loaded :: "dl_env \<Rightarrow> dl_unit option \<Rightarrow> bool" where
  "sdk_loaded env u \<longleftrightarrow> get_sdk_wrapper_env_var env > 0 \<and> du_ret (call_once qp_sdk_load env u) = 0"

definition is_sdk :: "sdk_arg option \<Rightarrow> bool" where
  "is_sdk a \<longleftrightarrow> (case a of None \<Rightarrow> False | Some h \<Rightarrow> sa_type h = LIB_TYPE_SDK)"

definition is_sdk_dev :: "sdk_dev option \<Rightarrow> bool" where
  "is_sdk_dev d \<longleftrightarrow> (case d of None \<Rightarrow> False
    | Some h \<Rightarrow> sd_type h = LIB_TYPE_SDK \<and> sd_pd h \<noteq> null \<and> sd_context h \<noteq> null)"

fun sdk_takes :: "(net_dev \<Rightarrow> sdk_dev option) \<Rightarrow> (ptr \<Rightarrow> sdk_arg option) \<Rightarrow> dl_unit \<Rightarrow> init_cmd \<Rightarrow> bool" where
  "sdk_takes dev_of arg_of U (Set_pd v) = is_sdk_dev (dev_of v)"
| "sdk_takes dev_of arg_of U (Set_send_cq v) = is_sdk (arg_of v)"
| "sdk_takes dev_of arg_of U (Set_receive_cq v) = is_sdk (arg_of v)"
| "sdk_takes dev_of arg_of U (Set_external_umem v off) = is_sdk (arg_of v)"
| "sdk_takes dev_of arg_of U (Set_external_umem_dbr v off) = is_sdk (arg_of v)"
| "sdk_takes dev_of arg_of U (Set_external_uar v) = is_sdk (arg_of v)"
| "sdk_takes dev_of arg_of U (Set_send_dbr_mode v) = (du_sym U ''doca_verbs_qp_init_attr_set_send_dbr_mode'' \<noteq> null)"
| "sdk_takes dev_of arg_of U c = True"

text \<open>
  The calls that get past the checks before the SDK is asked, and the ones that the setter rejects after
  the SDK refused them and before it uses the object: a null device and one of the SDK.
\<close>

fun offered :: "init_cmd \<Rightarrow> bool" where
  "offered (Set_send_cq v) = (v \<noteq> null)"
| "offered (Set_receive_cq v) = (v \<noteq> null)"
| "offered (Set_external_umem v off) = (v \<noteq> null)"
| "offered (Set_external_umem_dbr v off) = (v \<noteq> null)"
| "offered (Set_external_uar v) = (v \<noteq> null)"
| "offered (Set_core_direct_master v) = (v = 0 \<or> v = 1)"
| "offered (Set_emulate_no_dbr_ext v) = False"
| "offered c = True"

fun rejected_late :: "init_cmd \<Rightarrow> bool" where
  "rejected_late (Set_pd v) = (net_dev_pd v = None)"
| "rejected_late c = False"

end
