(* ===== verification/SdkSessionProps.thy ===== *)
theory SdkSessionProps
  imports SdkSession WrapperBase
begin

text \<open>
  What becomes of an attribute object of the SDK: a session of setters has a defined outcome exactly when
  the SDK takes every call that is offered to it and that the setter does not reject by itself afterwards.
\<close>

lemmas setter_schemes = wrapped_sdk_def qp_sdk_defs call_schemes

lemma wrapped_taken:
  assumes "reachable_unit qp_sdk_load u" "sdk_loaded env u"
    "sdk_takes dev_of arg_of (call_once qp_sdk_load env u) c" "\<And>b. c \<noteq> Set_emulate_no_dbr_ext b"
  shows "\<exists>e s'. wrapped_sdk f dp dev_of arg_of env u c (Some s) = (e, Some s') \<and>
    (e = DOCA_SDK_WRAPPER_SUCCESS \<or> e = DOCA_SDK_WRAPPER_API_ERROR)"
  using assms(2-4)
  by (cases c)
    (auto simp: setter_schemes qp_through [OF assms(1)] qp_optional [OF assms(1)] qp_sdk_file_defs sdk_loaded_def
      is_sdk_def is_sdk_dev_def on_object_def answer_def split: option.splits prod.splits)

lemma wrapped_refused:
  assumes "reachable_unit qp_sdk_load u" "offered c"
    "\<not> (sdk_loaded env u \<and> sdk_takes dev_of arg_of (call_once qp_sdk_load env u) c)"
  shows "\<exists>e. wrapped_sdk f dp dev_of arg_of env u c (Some s) = (e, Some s) \<and>
    e \<in> {DOCA_SDK_WRAPPER_NOT_FOUND, DOCA_SDK_WRAPPER_NOT_SUPPORTED, DOCA_SDK_WRAPPER_API_INVALID_VALUE}"
  using assms(2,3)
  by (cases c)
    (auto simp: setter_schemes qp_sdk_file_defs sdk_loaded_def
      is_sdk_def is_sdk_dev_def split: option.splits prod.splits)


definition sdk_attr :: "'s \<Rightarrow> 's qp_init_attr" where
  "sdk_attr s = Some \<lparr>h_type = LIB_TYPE_SDK, h_member = SdkPtr s\<rparr>"

lemma step_taken:
  assumes "sdk c (Some s) = (e, Some s')" "e = DOCA_SDK_WRAPPER_SUCCESS \<or> e = DOCA_SDK_WRAPPER_API_ERROR" "offered c"
  shows "\<exists>err. init_attr_step sdk c (sdk_attr s) = Ret (err, sdk_attr s')"
  using assms
  by (cases c) (auto simp: init_attr_set_defs sdk_attr_def on_handle_def try_sdk_def sdk_ptr_def Let_def)

lemma step_refused:
  assumes "sdk c (Some s) = (e, Some s)" "offered c"
    "e \<in> {DOCA_SDK_WRAPPER_NOT_FOUND, DOCA_SDK_WRAPPER_NOT_SUPPORTED, DOCA_SDK_WRAPPER_API_INVALID_VALUE}"
  shows "init_attr_step sdk c (sdk_attr s) =
    (if rejected_late c then Ret (DOCA_ERROR_INVALID_VALUE, sdk_attr s) else Misuse)"
  using assms
  by (cases c) (auto simp: init_attr_set_defs sdk_attr_def on_handle_def try_sdk_def sdk_ptr_def
      past_null_def on_open_def Let_def)

lemma step_not_offered:
  assumes "\<not> offered c"
  shows "init_attr_step sdk c (sdk_attr s) = Ret (DOCA_ERROR_INVALID_VALUE, sdk_attr s)"
  using assms by (cases c) (auto simp: init_attr_set_defs sdk_attr_def on_handle_def guarded_def reject_sdk_def)

definition session_taken where
  "session_taken dev_of arg_of env u cs \<longleftrightarrow>
    (\<forall>c \<in> set cs. offered c \<and> \<not> rejected_late c \<longrightarrow>
      sdk_loaded env u \<and> sdk_takes dev_of arg_of (call_once qp_sdk_load env u) c)"

lemma run_Cons:
  assumes "init_attr_step sdk c ho = Ret (err, ho')"
  shows "init_attr_run sdk (c # cs) ho =
    (case init_attr_run sdk cs ho' of Misuse \<Rightarrow> Misuse | Ret (es, h) \<Rightarrow> Ret (err # es, h))"
  by (simp only: init_attr_run.simps assms outcome.case prod.case)

definition session_result where
  "session_result sdk cs s \<longleftrightarrow>
    (\<exists>es s'. init_attr_run sdk cs (sdk_attr s) = Ret (es, sdk_attr s') \<and> length es = length cs)"

lemma session_result_Cons:
  assumes "init_attr_step sdk c (sdk_attr s) = Ret (err, sdk_attr s1)"
  shows "session_result sdk cs s1 \<Longrightarrow> session_result sdk (c # cs) s"
    and "init_attr_run sdk cs (sdk_attr s1) = Misuse \<Longrightarrow> init_attr_run sdk (c # cs) (sdk_attr s) = Misuse"
  unfolding session_result_def run_Cons [OF assms] by auto

lemma session_run:
  assumes "reachable_unit qp_sdk_load u" and sdk_def: "sdk = wrapped_sdk f dp dev_of arg_of env u"
  shows "(session_taken dev_of arg_of env u cs \<longrightarrow> session_result sdk cs s) \<and>
    (\<not> session_taken dev_of arg_of env u cs \<longrightarrow> init_attr_run sdk cs (sdk_attr s) = Misuse)"
proof (induction cs arbitrary: s)
  case Nil
  show ?case by (auto simp: session_taken_def session_result_def)
next
  case (Cons c cs)
  let ?takes = "sdk_loaded env u \<and> sdk_takes dev_of arg_of (call_once qp_sdk_load env u) c"
  have on: ?case if "init_attr_step sdk c (sdk_attr s) = Ret (err, sdk_attr s1)"
      "session_taken dev_of arg_of env u (c # cs) \<longleftrightarrow> session_taken dev_of arg_of env u cs" for err s1
    unfolding that(2) using session_result_Cons [OF that(1), of cs] Cons.IH [of s1] by iprover
  consider "offered c" ?takes | "offered c" "\<not> ?takes" | "\<not> offered c" by blast
  then show ?case
  proof cases
    case 1
    then have "\<And>b. c \<noteq> Set_emulate_no_dbr_ext b" by auto
    then obtain e s1 where "sdk c (Some s) = (e, Some s1)" "e = DOCA_SDK_WRAPPER_SUCCESS \<or> e = DOCA_SDK_WRAPPER_API_ERROR"
      using wrapped_taken [OF assms(1), where c = c and s = s] 1(2) unfolding sdk_def by metis
    from step_taken [where sdk = sdk and c = c and s = s and s' = s1 and e = e, OF this 1(1)] obtain err where "init_attr_step sdk c (sdk_attr s) = Ret (err, sdk_attr s1)" ..
    then show ?thesis by (rule on) (use 1 in \<open>simp add: session_taken_def\<close>)
  next
    case 2
    then obtain e where "sdk c (Some s) = (e, Some s)"
      "e \<in> {DOCA_SDK_WRAPPER_NOT_FOUND, DOCA_SDK_WRAPPER_NOT_SUPPORTED, DOCA_SDK_WRAPPER_API_INVALID_VALUE}"
      using wrapped_refused [OF assms(1) 2, where s = s] unfolding sdk_def by metis
    note step = step_refused [where sdk = sdk and c = c and s = s and e = e, OF this(1) 2(1) this(2)]
    show ?thesis
    proof (cases "rejected_late c")
      case True
      then have "init_attr_step sdk c (sdk_attr s) = Ret (DOCA_ERROR_INVALID_VALUE, sdk_attr s)"
        using step by simp
      then show ?thesis by (rule on) (use True in \<open>simp add: session_taken_def\<close>)
    next
      case False
      then have "init_attr_run sdk (c # cs) (sdk_attr s) = Misuse" using step by simp
      moreover have "\<not> session_taken dev_of arg_of env u (c # cs)"
        using 2 False by (auto simp: session_taken_def)
      ultimately show ?thesis by blast
    qed
  next
    case 3
    from step_not_offered [where sdk = sdk and s = s, OF this] show ?thesis by (rule on) (use 3 in \<open>simp add: session_taken_def\<close>)
  qed
qed

text \<open>C34: A session of setters on an attribute object of the SDK, through the wrappers, gives a result
  exactly when every call that passes the setter's own checks is one the SDK takes: the library is
  loaded, a handle passed along is one of the SDK, and the setter of the doorbell mode, which older
  releases of the SDK lack, is there.  Those checks are the ones before the SDK is asked and, for the
  protection domain, the one after it that rejects a null device and a device of the SDK.  Then the
  handle stays an SDK handle.  Otherwise the setter falls through and uses the SDK's pointer as an
  object of this library.\<close>

theorem sdk_session_is_defined_iff_taken:
  assumes "reachable_unit qp_sdk_load u"
  shows "((\<exists>es s'. init_attr_run (wrapped_sdk f dp dev_of arg_of env u) cs (sdk_attr s) = Ret (es, sdk_attr s') \<and>
      length es = length cs) \<longleftrightarrow> session_taken dev_of arg_of env u cs) \<and>
    (init_attr_run (wrapped_sdk f dp dev_of arg_of env u) cs (sdk_attr s) = Misuse \<longleftrightarrow>
      \<not> session_taken dev_of arg_of env u cs)"
  using session_run [OF assms refl, of dev_of arg_of env cs f dp s] unfolding session_result_def by auto

section \<open>Witness\<close>

text \<open>An SDK that has everything but the setter of the doorbell mode.\<close>

definition older_sdk :: dl_env where
  "older_sdk = \<lparr>ev_sdk_path = Some ''/opt'', ev_dlopen = \<lambda>_. 1,
     ev_dlsym = \<lambda>_ s. if s = ''doca_verbs_qp_init_attr_set_send_dbr_mode'' then null else 1\<rparr>"

lemma older_sdk_look_up:
  "look_up older_sdk hs symbols s =
    (if s \<in> set (map fst symbols) \<and> s \<noteq> ''doca_verbs_qp_init_attr_set_send_dbr_mode'' then 1 else null)"
proof (cases "map_of symbols s")
  case None
  then have "s \<notin> set (map fst symbols)" by (simp add: map_of_eq_None_iff)
  then show ?thesis using None by (simp add: look_up_def)
next
  case (Some i)
  then have "s \<in> set (map fst symbols)" by (force dest: map_of_SomeD)
  then show ?thesis using Some by (simp add: look_up_def older_sdk_def)
qed

lemma older_sdk_complete:
  "list_all (\<lambda>s. s \<in> set (map fst (df_symbols qp_sdk_file)) \<and> s \<noteq> ''doca_verbs_qp_init_attr_set_send_dbr_mode'')
    (df_required qp_sdk_file)"
  by code_simp

lemma older_sdk_unit:
  "sdk_loaded older_sdk None"
  "du_sym (call_once qp_sdk_load older_sdk None) ''doca_verbs_qp_init_attr_set_send_dbr_mode'' = null"
proof -
  have o: "open_all older_sdk [''libdoca_common.so'', ''libdoca_verbs.so''] = Some [1, 1]"
    by (simp add: older_sdk_def Let_def)
  have "qp_sdk_load older_sdk = take_symbols qp_sdk_file older_sdk [1, 1]"
    by (simp only: qp_sdk_load_def sdk_load_def o option.case)
  moreover have "list_all (\<lambda>s. look_up older_sdk [1, 1] (df_symbols qp_sdk_file) s \<noteq> null) (df_required qp_sdk_file)"
    using older_sdk_complete by (simp add: older_sdk_look_up list_all_iff)
  ultimately show "sdk_loaded older_sdk None"
    and "du_sym (call_once qp_sdk_load older_sdk None) ''doca_verbs_qp_init_attr_set_send_dbr_mode'' = null"
    by (simp_all add: sdk_loaded_def call_once_def take_symbols_def older_sdk_look_up get_sdk_wrapper_env_var_def)
      (simp add: older_sdk_def)
qed

theorem sdk_session_is_defined_iff_taken_witness:
  "init_attr_run (wrapped_sdk (\<lambda>_ s. (DOCA_SUCCESS, s)) (\<lambda>s. (DOCA_SUCCESS, s)) (\<lambda>_. None) (\<lambda>_. None) older_sdk None)
     [Set_sq_wr 64, Set_send_dbr_mode 1] (sdk_attr (5 :: nat)) = Misuse \<and>
   init_attr_run (wrapped_sdk (\<lambda>_ s. (DOCA_SUCCESS, s)) (\<lambda>s. (DOCA_SUCCESS, s)) (\<lambda>_. None) (\<lambda>_. None) older_sdk None)
     [Set_sq_wr 64, Set_pd (OpenDev 9)] (sdk_attr (5 :: nat)) = Misuse \<and>
   (\<exists>es s'. init_attr_run (wrapped_sdk (\<lambda>_ s. (DOCA_SUCCESS, s)) (\<lambda>s. (DOCA_SUCCESS, s)) (\<lambda>_. None) (\<lambda>_. None) older_sdk None)
     [Set_sq_wr 64, Set_pd NoDev, Set_qp_type 2] (sdk_attr (5 :: nat)) = Ret (es, sdk_attr s') \<and> length es = 3)"
proof -
  have r: "reachable_unit qp_sdk_load None" by (simp add: reachable_unit_def)
  have t: "session_taken (\<lambda>_. None) (\<lambda>_. None) older_sdk None [Set_sq_wr 64, Set_pd NoDev, Set_qp_type 2]"
    using older_sdk_unit(1) by (simp add: session_taken_def)
  have n: "\<not> session_taken (\<lambda>_. None) (\<lambda>_. None) older_sdk None [Set_sq_wr 64, Set_send_dbr_mode 1]"
    "\<not> session_taken (\<lambda>_. None) (\<lambda>_. None) older_sdk None [Set_sq_wr 64, Set_pd (OpenDev 9)]"
    using older_sdk_unit(2) by (simp_all add: session_taken_def is_sdk_dev_def)
  note session = sdk_session_is_defined_iff_taken [OF r, where f = "\<lambda>_ s. (DOCA_SUCCESS, s)" and
      dp = "\<lambda>s. (DOCA_SUCCESS, s)" and s = "5 :: nat"]
  have "length [Set_sq_wr 64, Set_pd NoDev, Set_qp_type 2] = 3" by simp
  then show ?thesis
    using session [THEN conjunct2, THEN iffD2, OF n(1)] session [THEN conjunct2, THEN iffD2, OF n(2)]
      session [THEN conjunct1, THEN iffD2, OF t] by (simp only:)
qed

end
