(* ===== verification/VerbsDevProps.thy ===== *)
theory VerbsDevProps
  imports VerbsDev WrapperBase SdkSession
begin

text \<open>What opening and closing a network device leaves behind, and when opening one is undefined.\<close>

section \<open>Opening through the SDK\<close>

definition dev_sdk_on :: "dl_env \<Rightarrow> dl_unit option \<Rightarrow> bool" where
  "dev_sdk_on env u \<longleftrightarrow> get_sdk_wrapper_env_var env > 0 \<and> du_ret (call_once dev_sdk_load env u) = 0"

text \<open>The SDK gives a device, and then does not import the protection domain or its context.\<close>

definition import_fails :: "'k sdk_dev_api \<Rightarrow> (ptr \<Rightarrow> ptr) \<Rightarrow> ptr \<Rightarrow> 'k \<Rightarrow> bool" where
  "import_fails A context_of pd k \<longleftrightarrow>
    (case da_open A pd k of (e, p, k) \<Rightarrow> e = DOCA_SUCCESS \<and>
      (case da_pd_import A pd k of (e, q, k) \<Rightarrow> e \<noteq> DOCA_SUCCESS \<or> pd = null \<or>
        (case da_context_import A (context_of pd) 0 k of (e, c, k) \<Rightarrow> e \<noteq> DOCA_SUCCESS)))"

abbreviation new_handle :: sdk_dev where
  "new_handle \<equiv> \<lparr>sd_type = LIB_TYPE_OPEN, sd_sdk = null, sd_pd = null, sd_context = null\<rparr>"

lemmas dev_sdk_schemes = dev_sdk_defs call_schemes dev_sdk_on_def dev_sdk_file_defs

lemma sdk_open_off:
  assumes "\<not> dev_sdk_on env u"
  shows "\<exists>e u'. sdk_dev_open_from_pd A context_of env u pd d k = (Ret (e, d, k), u') \<and>
    e \<noteq> DOCA_SDK_WRAPPER_SUCCESS \<and> e \<noteq> DOCA_SDK_WRAPPER_API_ERROR"
  using assms by (auto simp: dev_sdk_schemes)

lemma sdk_open_refused:
  assumes "reachable_unit dev_sdk_load u" "dev_sdk_on env u" "da_open A pd k = (e, p, k1)" "e \<noteq> DOCA_SUCCESS"
  shows "\<exists>u'. sdk_dev_open_from_pd A context_of env u pd d k = (Ret (DOCA_SDK_WRAPPER_API_ERROR, d\<lparr>sd_sdk := p\<rparr>, k1), u')"
  using assms(2-4) by (simp add: dev_sdk_schemes dev_through [OF assms(1)])

lemma sdk_open_import_fails:
  assumes "reachable_unit dev_sdk_load u" "dev_sdk_on env u" "import_fails A context_of pd k"
  shows "fst (sdk_dev_open_from_pd A context_of env u pd d k) = Misuse \<or>
    (\<exists>d' k'. fst (sdk_dev_open_from_pd A context_of env u pd d k) = Ret (DOCA_SDK_WRAPPER_API_ERROR, d', k') \<and>
      sd_sdk d' = fst (snd (da_open A pd k)))"
  using assms(2,3) unfolding import_fails_def
  by (auto simp: dev_sdk_schemes dev_through [OF assms(1)] split: prod.splits)

lemma sdk_open_imported:
  assumes "reachable_unit dev_sdk_load u" "dev_sdk_on env u" "da_open A pd k = (DOCA_SUCCESS, p, k1)"
    "da_pd_import A pd k1 = (DOCA_SUCCESS, q, k2)" "pd \<noteq> null"
    "da_context_import A (context_of pd) 0 k2 = (DOCA_SUCCESS, c, k3)"
  shows "sdk_dev_open_from_pd A context_of env u pd d k =
    (Ret (DOCA_SDK_WRAPPER_SUCCESS, d\<lparr>sd_sdk := p, sd_pd := q, sd_context := c\<rparr>, k3), Some (call_once dev_sdk_load env u))"
  using assms(2-6) by (simp add: dev_sdk_schemes dev_through [OF assms(1)])

lemma sdk_close_all:
  assumes "reachable_unit dev_sdk_load u" "dev_sdk_on env u" "lawful_dev_api A live"
    "live k3 = insert (SdkContext, c) (insert (SdkPd, q) (insert (SdkDevice, p) L))"
    "(SdkContext, c) \<notin> L" "(SdkPd, q) \<notin> L" "(SdkDevice, p) \<notin> L" "q \<noteq> null" "c \<noteq> null"
  shows "\<exists>k' u'. sdk_dev_close A env u (Some \<lparr>sd_type = LIB_TYPE_SDK, sd_sdk = p, sd_pd = q, sd_context = c\<rparr>) k3 =
    (Ret (DOCA_SDK_WRAPPER_SUCCESS, k'), u') \<and> live k' = L"
proof -
  obtain e1 k4 where 1: "da_pd_destroy A q k3 = (e1, k4)" by fastforce
  obtain e2 k5 where 2: "da_context_destroy A c k4 = (e2, k5)" by fastforce
  obtain e3 k6 where 3: "da_close A p k5 = (e3, k6)" by fastforce
  have ended: "sdk_ended live SdkPd q k3 (e1, k4)" "sdk_ended live SdkContext c k4 (e2, k5)"
    "sdk_ended live SdkDevice p k5 (e3, k6)"
    using assms(3) unfolding lawful_dev_api_def 1 [symmetric] 2 [symmetric] 3 [symmetric] by blast+
  have "live k4 = insert (SdkContext, c) (insert (SdkDevice, p) L)"
    using ended(1) assms(4-7) by (auto simp: sdk_ended_def)
  moreover from this have "live k5 = insert (SdkDevice, p) L"
    using ended(2) assms(5) by (auto simp: sdk_ended_def)
  ultimately have "e3 = DOCA_SUCCESS" "live k6 = L"
    using ended(3) assms(7) by (auto simp: sdk_ended_def)
  then show ?thesis
    using assms(2,8,9) 1 2 3 by (simp add: dev_sdk_schemes dev_through [OF assms(1)] answer_def)
qed

section \<open>Devices\<close>

lemma dev_open_undefined:
  assumes "reachable_unit dev_sdk_load u" "lawful_dev_api A live"
  shows "fst (verbs_dev_open A context_of env u calloc_ok new_ok pd k) = Misuse \<longleftrightarrow>
    calloc_ok \<and> dev_sdk_on env u \<and> import_fails A context_of pd k"
proof (cases "calloc_ok \<and> dev_sdk_on env u")
  case False
  then show ?thesis
    using sdk_open_off [of env u A context_of pd new_handle k]
    by (auto simp: verbs_dev_open_def as_member_def dev_exit_error_def split: option.splits if_splits)
next
  case True
  obtain e p k1 where o: "da_open A pd k = (e, p, k1)" by (metis prod_cases3)
  have made: "sdk_made live SdkDevice k (e, p, k1)"
    using assms(2) unfolding lawful_dev_api_def o [symmetric] by blast
  show ?thesis
  proof (cases "import_fails A context_of pd k")
    case True
    then have "p \<noteq> null" using made o by (auto simp: import_fails_def sdk_made_def)
    then show ?thesis
      using True \<open>calloc_ok \<and> _\<close> o sdk_open_import_fails [OF assms(1) _ True, where env = env and
          d = new_handle]
      by (auto simp: verbs_dev_open_def as_member_def dev_exit_error_def split: prod.splits outcome.splits)
  next
    case False
    show ?thesis
    proof (cases "e = DOCA_SUCCESS")
      case True
      then obtain q k2 c k3 where "da_pd_import A pd k1 = (DOCA_SUCCESS, q, k2)" "pd \<noteq> null"
        "da_context_import A (context_of pd) 0 k2 = (DOCA_SUCCESS, c, k3)"
        using False o by (auto simp: import_fails_def split: prod.splits)
      from sdk_open_imported [where context_of = context_of and A = A, OF assms(1) _ o [unfolded True] this] show ?thesis
        using False \<open>calloc_ok \<and> _\<close> by (simp add: verbs_dev_open_def)
    next
      case e: False
      from sdk_open_refused [where env = env and context_of = context_of and d = new_handle, OF assms(1) _ o e] show ?thesis
        using False \<open>calloc_ok \<and> _\<close> made e
        by (auto simp: verbs_dev_open_def as_member_def dev_exit_error_def sdk_made_def)
    qed
  qed
qed

text \<open>C36: Opening a network device is undefined exactly when the SDK is in use, gives a device, and then does not
  import the protection domain or its context: the error path of the library frees the SDK's pointer
  as a device of its own, after the wrapper has closed it.\<close>

theorem dev_open_undefined_iff_import_fails:
  assumes "reachable_unit dev_sdk_load u" "lawful_dev_api A live"
  shows "fst (verbs_dev_open A context_of env u calloc_ok new_ok pd k) = Misuse \<longleftrightarrow>
    calloc_ok \<and> dev_sdk_on env u \<and> import_fails A context_of pd k"
  by (rule dev_open_undefined [OF assms])

text \<open>How an opening went: what it costs to fail, and that a device that was opened can be closed.\<close>

definition opened_well where
  "opened_well A live env k o' \<longleftrightarrow>
    (\<forall>err r handles k' u'. o' = (Ret (err, r, handles, k'), u') \<longrightarrow>
      (if err = DOCA_SUCCESS then
         handles = 1 \<and> r \<noteq> None \<and>
         (\<exists>k'' u''. verbs_dev_close A env u' r k' = (Ret (DOCA_SUCCESS, k''), u'') \<and> live k'' = live k)
       else r = None \<and> live k' = live k \<and> handles = (if err = DOCA_ERROR_INVALID_VALUE then 1 else 0)))"

lemma opened_well_off:
  assumes "\<not> (calloc_ok \<and> dev_sdk_on env u)"
  shows "opened_well A live env k (verbs_dev_open A context_of env u calloc_ok new_ok pd k)"
  using assms sdk_open_off [of env u A context_of pd new_handle k]
  by (auto simp: opened_well_def verbs_dev_open_def as_member_def dev_exit_error_def verbs_dev_close_def delete_dev_def
      split: option.splits if_splits)

lemma opened_wellD:
  assumes "opened_well A live env k o'" "o' = (Ret (err, r, handles, k'), u')"
  shows "if err = DOCA_SUCCESS then
      handles = 1 \<and> r \<noteq> None \<and>
      (\<exists>k'' u''. verbs_dev_close A env u' r k' = (Ret (DOCA_SUCCESS, k''), u'') \<and> live k'' = live k)
    else r = None \<and> live k' = live k \<and> handles = (if err = DOCA_ERROR_INVALID_VALUE then 1 else 0)"
  using assms(1) unfolding opened_well_def assms(2) by simp

lemma opened_well_refused:
  assumes "reachable_unit dev_sdk_load u" "dev_sdk_on env u" "da_open A pd k = (e, p, k1)" "e \<noteq> DOCA_SUCCESS"
    "sdk_made live SdkDevice k (e, p, k1)"
  shows "opened_well A live env k (verbs_dev_open A context_of env u True new_ok pd k)"
proof -
  obtain u' where o: "sdk_dev_open_from_pd A context_of env u pd new_handle k =
      (Ret (DOCA_SDK_WRAPPER_API_ERROR, new_handle\<lparr>sd_sdk := p\<rparr>, k1), u')"
    using sdk_open_refused [OF assms(1-4)] by blast
  have "verbs_dev_open A context_of env u True new_ok pd k = (Ret (DOCA_ERROR_INITIALIZATION, None, 0, k1), u')"
    using assms(4,5) by (simp add: verbs_dev_open_def o as_member_def dev_exit_error_def sdk_made_def)
  then show ?thesis using assms(4,5) by (simp add: opened_well_def sdk_made_def)
qed

lemma opened_well_imported:
  assumes "reachable_unit dev_sdk_load u" "lawful_dev_api A live" "dev_sdk_on env u"
    and o: "da_open A pd k = (DOCA_SUCCESS, p, k1)" "da_pd_import A pd k1 = (DOCA_SUCCESS, q, k2)" "pd \<noteq> null"
    "da_context_import A (context_of pd) 0 k2 = (DOCA_SUCCESS, c, k3)"
  shows "opened_well A live env k (verbs_dev_open A context_of env u True new_ok pd k)"
proof -
  have "sdk_made live SdkDevice k (DOCA_SUCCESS, p, k1)" "sdk_made live SdkPd k1 (DOCA_SUCCESS, q, k2)"
    "sdk_made live SdkContext k2 (DOCA_SUCCESS, c, k3)"
    using assms(2) unfolding lawful_dev_api_def o(1,2,4) [symmetric] by blast+
  then have L: "live k3 = insert (SdkContext, c) (insert (SdkPd, q) (insert (SdkDevice, p) (live k)))"
    "(SdkContext, c) \<notin> live k" "(SdkPd, q) \<notin> live k" "(SdkDevice, p) \<notin> live k" "p \<noteq> null" "q \<noteq> null" "c \<noteq> null"
    by (auto simp: sdk_made_def)
  have "reachable_unit dev_sdk_load (Some (call_once dev_sdk_load env u))" "dev_sdk_on env (Some (call_once dev_sdk_load env u))"
    using assms(1,3) by (simp_all add: reachable_unit_step dev_sdk_on_def)
  from sdk_close_all [OF this assms(2) L(1-4,6,7)] show ?thesis
    using L(5) sdk_open_imported [where context_of = context_of and A = A, OF assms(1,3) o]
    by (auto simp: opened_well_def verbs_dev_open_def as_member_def verbs_dev_close_def delete_dev_def sdk_view_def)
qed

text \<open>C35: A network device that was opened can be closed with success, as long as the environment in which
  the wrappers look for the SDK is the same at both calls, and then nothing the SDK made for it is
  left; an opening that fails gives no device and leaves nothing of the SDK, and frees the handle it
  allocated on every path but the one of a null protection domain.\<close>

theorem dev_open_close_balances:
  assumes "reachable_unit dev_sdk_load u" "lawful_dev_api A live"
    and "verbs_dev_open A context_of env u calloc_ok new_ok pd k = (Ret (err, r, handles, k'), u')"
  shows "if err = DOCA_SUCCESS then
      handles = 1 \<and> r \<noteq> None \<and>
      (\<exists>k'' u''. verbs_dev_close A env u' r k' = (Ret (DOCA_SUCCESS, k''), u'') \<and> live k'' = live k)
    else r = None \<and> live k' = live k \<and> handles = (if err = DOCA_ERROR_INVALID_VALUE then 1 else 0)"
proof -
  have "opened_well A live env k (verbs_dev_open A context_of env u calloc_ok new_ok pd k)"
  proof (cases "calloc_ok \<and> dev_sdk_on env u")
    case False
    then show ?thesis by (rule opened_well_off)
  next
    case True
    obtain e p k1 where o: "da_open A pd k = (e, p, k1)" by (metis prod_cases3)
    have made: "sdk_made live SdkDevice k (e, p, k1)"
      using assms(2) unfolding lawful_dev_api_def o [symmetric] by blast
    show ?thesis
    proof (cases "e = DOCA_SUCCESS")
      case e: True
      have n: "\<not> import_fails A context_of pd k"
        using True assms(3) dev_open_undefined [OF assms(1,2), of context_of env calloc_ok new_ok pd k] by auto
      then obtain q k2 c k3 where "da_pd_import A pd k1 = (DOCA_SUCCESS, q, k2)" "pd \<noteq> null"
        "da_context_import A (context_of pd) 0 k2 = (DOCA_SUCCESS, c, k3)"
        using o e by (auto simp: import_fails_def split: prod.splits)
      then show ?thesis using opened_well_imported [OF assms(1,2) _ o [unfolded e]] True by simp
    next
      case e: False
      then show ?thesis using opened_well_refused [OF assms(1) _ o e made] True by simp
    qed
  qed
  from opened_wellD [OF this assms(3)] show ?thesis .
qed

section \<open>Witness\<close>

text \<open>An SDK that hands out numbered objects, and may refuse to import a context.\<close>

type_synonym numbered = "(sdk_kind \<times> ptr) list"

definition make_next :: "sdk_kind \<Rightarrow> numbered \<Rightarrow> doca_error \<times> ptr \<times> numbered" where
  "make_next K L = (let n = Suc (sum_list (map snd L)) in (DOCA_SUCCESS, n, (K, n) # L))"

definition drop_it :: "sdk_kind \<Rightarrow> ptr \<Rightarrow> numbered \<Rightarrow> doca_error \<times> numbered" where
  "drop_it K p L = (DOCA_SUCCESS, removeAll (K, p) L)"

definition numbered_api :: "bool \<Rightarrow> numbered sdk_dev_api" where
  "numbered_api imports = \<lparr>
     da_open = (\<lambda>_. make_next SdkDevice), da_close = drop_it SdkDevice,
     da_pd_import = (\<lambda>_. make_next SdkPd), da_pd_destroy = drop_it SdkPd,
     da_context_import = (\<lambda>_ _ L. if imports then make_next SdkContext L else (DOCA_ERROR_UNEXPECTED, null, L)),
     da_context_destroy = drop_it SdkContext\<rparr>"

lemma make_next_made: "sdk_made set K L (make_next K L)"
proof -
  have "n \<le> sum_list (map snd L)" if "(K, n) \<in> set L" for n
    using that by (force intro: member_le_sum_list)
  then show ?thesis by (fastforce simp: sdk_made_def make_next_def Let_def)
qed

lemma drop_it_ended: "sdk_ended set K p L (drop_it K p L)"
  by (simp add: sdk_ended_def drop_it_def)

lemma numbered_api_lawful: "lawful_dev_api (numbered_api imports) set"
  using make_next_made drop_it_ended
  by (auto simp: lawful_dev_api_def numbered_api_def) (simp add: sdk_made_def)

lemma full_sdk_complete:
  "list_all (\<lambda>s. s \<in> set (map fst (df_symbols dev_sdk_file))) (df_required dev_sdk_file)"
  by code_simp

lemma full_sdk_on: "dev_sdk_on full_sdk None"
proof -
  have o: "open_all full_sdk [''libdoca_common.so'', ''libdoca_verbs.so''] = Some [1, 1]"
    by (simp add: full_sdk_def Let_def)
  have "dev_sdk_load full_sdk = take_symbols dev_sdk_file full_sdk [1, 1]"
    by (simp only: dev_sdk_load_def sdk_load_def o option.case)
  moreover have "list_all (\<lambda>s. look_up full_sdk [1, 1] (df_symbols dev_sdk_file) s \<noteq> null) (df_required dev_sdk_file)"
    using full_sdk_complete full_sdk_look_up by (simp add: list_all_iff)
  ultimately show ?thesis
    by (simp add: dev_sdk_on_def call_once_def take_symbols_def get_sdk_wrapper_env_var_def) (simp add: full_sdk_def)
qed

theorem dev_open_undefined_iff_import_fails_witness:
  "fst (verbs_dev_open (numbered_api False) Suc full_sdk None True True 3 []) = Misuse \<and>
   fst (verbs_dev_open (numbered_api True) Suc full_sdk None True True 3 []) \<noteq> Misuse"
proof -
  have r: "reachable_unit dev_sdk_load None" by (simp add: reachable_unit_def)
  have "import_fails (numbered_api False) Suc 3 []" "\<not> import_fails (numbered_api True) Suc 3 []"
    by (simp_all add: import_fails_def numbered_api_def make_next_def)
  then show ?thesis
    using dev_open_undefined_iff_import_fails [where context_of = Suc, OF r numbered_api_lawful] full_sdk_on by blast
qed

theorem dev_open_close_balances_witness:
  "\<exists>r k' u' k'' u''. verbs_dev_open (numbered_api True) Suc full_sdk None True True 3 [] = (Ret (DOCA_SUCCESS, r, 1, k'), u') \<and>
     set k' = {(SdkDevice, 1), (SdkPd, 2), (SdkContext, 4)} \<and>
     verbs_dev_close (numbered_api True) full_sdk u' r k' = (Ret (DOCA_SUCCESS, k''), u'') \<and> set k'' = {}"
proof -
  have r: "reachable_unit dev_sdk_load None" by (simp add: reachable_unit_def)
  have "da_open (numbered_api True) 3 [] = (DOCA_SUCCESS, 1, [(SdkDevice, 1)])"
    "da_pd_import (numbered_api True) 3 [(SdkDevice, 1)] = (DOCA_SUCCESS, 2, [(SdkPd, 2), (SdkDevice, 1)])"
    "da_context_import (numbered_api True) (Suc 3) 0 [(SdkPd, 2), (SdkDevice, 1)] =
      (DOCA_SUCCESS, 4, [(SdkContext, 4), (SdkPd, 2), (SdkDevice, 1)])"
    by (simp_all add: numbered_api_def make_next_def)
  from sdk_open_imported [where context_of = Suc, OF r full_sdk_on this(1,2) _ this(3)]
  have o: "\<exists>v u'. verbs_dev_open (numbered_api True) Suc full_sdk None True True 3 [] =
      (Ret (DOCA_SUCCESS, Some v, 1, [(SdkContext, 4), (SdkPd, 2), (SdkDevice, 1)]), u')"
    by (simp add: verbs_dev_open_def)
  then obtain v u' where o: "verbs_dev_open (numbered_api True) Suc full_sdk None True True 3 [] =
      (Ret (DOCA_SUCCESS, Some v, 1, [(SdkContext, 4), (SdkPd, 2), (SdkDevice, 1)]), u')" by blast
  have "\<exists>k'' u''. verbs_dev_close (numbered_api True) full_sdk u' (Some v) [(SdkContext, 4), (SdkPd, 2), (SdkDevice, 1)] =
      (Ret (DOCA_SUCCESS, k''), u'') \<and> set k'' = {}"
    using dev_open_close_balances [OF r numbered_api_lawful o] by simp
  moreover have "set [(SdkContext, 4), (SdkPd, 2), (SdkDevice, 1)] = {(SdkDevice, 1), (SdkPd, 2), (SdkContext, 4 :: nat)}"
    by auto
  ultimately show ?thesis using o by blast
qed

end
