(* ===== verification/NetWrapperProps.thy ===== *)
theory NetWrapperProps
  imports WrapperBase
begin

text \<open>
  The wrappers around the system's libraries: those that load first are always defined, and the
  releases of libibverbs, which do not load, are not when a load failed half way.
\<close>

lemmas net_defs =
  wrapper_ibv_get_device_list_def
  wrapper_ibv_get_device_name_def
  wrapper_ibv_open_device_def
  wrapper_ibv_alloc_pd_def
  wrapper_ibv_reg_mr_def
  wrapper_ibv_query_device_def
  wrapper_ibv_query_port_def
  wrapper_ibv_query_gid_def
  wrapper_ibv_create_ah_def
  wrapper_ibv_create_cq_def
  wrapper_ibv_create_srq_def
  wrapper_ibv_create_qp_def
  wrapper_ibv_modify_qp_def
  wrapper_ibv_query_qp_def
  wrapper_mlx5dv_init_obj_def
  wrapper_mlx5dv_devx_obj_create_def
  wrapper_mlx5dv_devx_obj_destroy_def
  wrapper_mlx5dv_devx_obj_query_def
  wrapper_mlx5dv_devx_obj_modify_def
  wrapper_mlx5dv_devx_general_cmd_def
  wrapper_mlx5dv_devx_query_eqn_def
  wrapper_mlx5dv_devx_umem_reg_def
  wrapper_mlx5dv_devx_umem_reg_ex_def
  wrapper_mlx5dv_devx_umem_dereg_def
  wrapper_mlx5dv_devx_alloc_uar_def
  wrapper_mlx5dv_devx_free_uar_def
  wrapper_mlx5dv_query_device_def
  wrapper_cuDeviceGetAttribute_def
  wrapper_cuPointerSetAttribute_def
  wrapper_cuMemGetHandleForAddressRange_def
  wrapper_cuCtxGetCurrent_def
  gpu_wrapper_cuDeviceGetAttribute_def
  gpu_wrapper_cuPointerSetAttribute_def
  gpu_wrapper_cuMemGetHandleForAddressRange_def
  gpu_wrapper_cuCtxGetCurrent_def

lemmas net_release_defs =
  wrapper_ibv_free_device_list_def
  wrapper_ibv_close_device_def
  wrapper_ibv_dealloc_pd_def
  wrapper_ibv_dereg_mr_def
  wrapper_ibv_destroy_ah_def
  wrapper_ibv_destroy_cq_def
  wrapper_ibv_destroy_srq_def
  wrapper_ibv_destroy_qp_def

text \<open>Every wrapper of libibverbs, libmlx5 and libcuda that loads its library first has a defined result,
  whatever its unit holds.\<close>

lemma net_wrappers_load_first:
  assumes "reachable_unit ibv_load ibv_u" and "reachable_unit mlx5dv_load mlx5dv_u"
    and "reachable_unit cuda_load cuda_u" and "reachable_unit gpu_cuda_load gpu_u"
  shows
   "(\<forall>f num_devices result h. fst (wrapper_ibv_get_device_list f env ibv_u num_devices result h) \<noteq> Misuse) \<and>
    (\<forall>f device result h. fst (wrapper_ibv_get_device_name f env ibv_u device result h) \<noteq> Misuse) \<and>
    (\<forall>f device result h. fst (wrapper_ibv_open_device f env ibv_u device result h) \<noteq> Misuse) \<and>
    (\<forall>f context result h. fst (wrapper_ibv_alloc_pd f env ibv_u context result h) \<noteq> Misuse) \<and>
    (\<forall>f pd addr len access result h. fst (wrapper_ibv_reg_mr f env ibv_u pd addr len access result h) \<noteq> Misuse) \<and>
    (\<forall>f context device_attr h. fst (wrapper_ibv_query_device f env ibv_u context device_attr h) \<noteq> Misuse) \<and>
    (\<forall>f context port_num port_attr h. fst (wrapper_ibv_query_port f env ibv_u context port_num port_attr h) \<noteq> Misuse) \<and>
    (\<forall>f context port_num index gid h. fst (wrapper_ibv_query_gid f env ibv_u context port_num index gid h) \<noteq> Misuse) \<and>
    (\<forall>f pd attr result h. fst (wrapper_ibv_create_ah f env ibv_u pd attr result h) \<noteq> Misuse) \<and>
    (\<forall>f context cqe cq_context channel comp_vector result h. fst (wrapper_ibv_create_cq f env ibv_u context cqe cq_context channel comp_vector result h) \<noteq> Misuse) \<and>
    (\<forall>f pd srq_init_attr result h. fst (wrapper_ibv_create_srq f env ibv_u pd srq_init_attr result h) \<noteq> Misuse) \<and>
    (\<forall>f pd qp_init_attr result h. fst (wrapper_ibv_create_qp f env ibv_u pd qp_init_attr result h) \<noteq> Misuse) \<and>
    (\<forall>f qp attr attr_mask h. fst (wrapper_ibv_modify_qp f env ibv_u qp attr attr_mask h) \<noteq> Misuse) \<and>
    (\<forall>f qp attr attr_mask init_attr h. fst (wrapper_ibv_query_qp f env ibv_u qp attr attr_mask init_attr h) \<noteq> Misuse) \<and>
    (\<forall>f obj obj_type h. fst (wrapper_mlx5dv_init_obj f env mlx5dv_u obj obj_type h) \<noteq> Misuse) \<and>
    (\<forall>f context input inlen output outlen result h. fst (wrapper_mlx5dv_devx_obj_create f env mlx5dv_u context input inlen output outlen result h) \<noteq> Misuse) \<and>
    (\<forall>f obj h. fst (wrapper_mlx5dv_devx_obj_destroy f env mlx5dv_u obj h) \<noteq> Misuse) \<and>
    (\<forall>f obj input inlen output outlen h. fst (wrapper_mlx5dv_devx_obj_query f env mlx5dv_u obj input inlen output outlen h) \<noteq> Misuse) \<and>
    (\<forall>f obj input inlen output outlen h. fst (wrapper_mlx5dv_devx_obj_modify f env mlx5dv_u obj input inlen output outlen h) \<noteq> Misuse) \<and>
    (\<forall>f context input inlen output outlen h. fst (wrapper_mlx5dv_devx_general_cmd f env mlx5dv_u context input inlen output outlen h) \<noteq> Misuse) \<and>
    (\<forall>f context cpus eqn h. fst (wrapper_mlx5dv_devx_query_eqn f env mlx5dv_u context cpus eqn h) \<noteq> Misuse) \<and>
    (\<forall>f context addr sz access result h. fst (wrapper_mlx5dv_devx_umem_reg f env mlx5dv_u context addr sz access result h) \<noteq> Misuse) \<and>
    (\<forall>f context umem_in result h. fst (wrapper_mlx5dv_devx_umem_reg_ex f env mlx5dv_u context umem_in result h) \<noteq> Misuse) \<and>
    (\<forall>f umem h. fst (wrapper_mlx5dv_devx_umem_dereg f env mlx5dv_u umem h) \<noteq> Misuse) \<and>
    (\<forall>f context uar_type result h. fst (wrapper_mlx5dv_devx_alloc_uar f env mlx5dv_u context uar_type result h) \<noteq> Misuse) \<and>
    (\<forall>f uar h. fst (wrapper_mlx5dv_devx_free_uar f env mlx5dv_u uar h) \<noteq> Misuse) \<and>
    (\<forall>f context attrs_out h. fst (wrapper_mlx5dv_query_device f env mlx5dv_u context attrs_out h) \<noteq> Misuse) \<and>
    (\<forall>f pi attrib dev h. fst (wrapper_cuDeviceGetAttribute f env cuda_u pi attrib dev h) \<noteq> Misuse) \<and>
    (\<forall>f value attribute ptr h. fst (wrapper_cuPointerSetAttribute f env cuda_u value attribute ptr h) \<noteq> Misuse) \<and>
    (\<forall>f pHandle dptr sz handleType flags h. fst (wrapper_cuMemGetHandleForAddressRange f env cuda_u pHandle dptr sz handleType flags h) \<noteq> Misuse) \<and>
    (\<forall>f pctx h. fst (wrapper_cuCtxGetCurrent f env cuda_u pctx h) \<noteq> Misuse) \<and>
    (\<forall>f pi attrib dev h. fst (gpu_wrapper_cuDeviceGetAttribute f env gpu_u pi attrib dev h) \<noteq> Misuse) \<and>
    (\<forall>f value attribute ptr h. fst (gpu_wrapper_cuPointerSetAttribute f env gpu_u value attribute ptr h) \<noteq> Misuse) \<and>
    (\<forall>f pHandle dptr sz handleType flags h. fst (gpu_wrapper_cuMemGetHandleForAddressRange f env gpu_u pHandle dptr sz handleType flags h) \<noteq> Misuse) \<and>
    (\<forall>f pctx h. fst (gpu_wrapper_cuCtxGetCurrent f env gpu_u pctx h) \<noteq> Misuse)"
  unfolding net_defs
  by (intro conjI allI via_net_defined [OF net_loads_sound(1) assms(1)] via_net_defined [OF net_loads_sound(2) assms(2)]
      via_net_defined [OF net_loads_sound(3) assms(3)] via_net_defined [OF net_loads_sound(4) assms(4)];
      simp add: ibv_symbols_def mlx5dv_symbols_def cuda_symbols_def gpu_cuda_symbols_def)

text \<open>The pointer was found by a load that failed, and that closed the library again.\<close>

definition stale :: "string \<Rightarrow> dl_unit option \<Rightarrow> bool" where
  "stale s u \<longleftrightarrow> (case u of None \<Rightarrow> False | Some U \<Rightarrow> du_ret U \<noteq> 0 \<and> du_sym U s \<noteq> null)"

lemma if_loaded_undefined:
  assumes "sound_load required load" "reachable_unit load u"
  shows "fst (if_loaded s u h r) = Misuse \<longleftrightarrow> stale s u"
  using assms
  by (auto simp: if_loaded_def stale_def through_def sound_load_def reachable_unit_def split: option.splits)

text \<open>The wrappers of libibverbs that release an object do not load, and call through their pointer when it
  is there.  They are undefined exactly when a load found that pointer and then failed: it closed the
  library and left the pointer.\<close>

lemma ibv_releases_undefined_iff_stale:
  assumes "reachable_unit ibv_load u"
  shows
   "(\<forall>f devices h. fst (wrapper_ibv_free_device_list f u devices h) = Misuse \<longleftrightarrow> stale ''ibv_free_device_list'' u) \<and>
    (\<forall>f context h. fst (wrapper_ibv_close_device f u context h) = Misuse \<longleftrightarrow> stale ''ibv_close_device'' u) \<and>
    (\<forall>f pd h. fst (wrapper_ibv_dealloc_pd f u pd h) = Misuse \<longleftrightarrow> stale ''ibv_dealloc_pd'' u) \<and>
    (\<forall>f mr h. fst (wrapper_ibv_dereg_mr f u mr h) = Misuse \<longleftrightarrow> stale ''ibv_dereg_mr'' u) \<and>
    (\<forall>f ah h. fst (wrapper_ibv_destroy_ah f u ah h) = Misuse \<longleftrightarrow> stale ''ibv_destroy_ah'' u) \<and>
    (\<forall>f cq h. fst (wrapper_ibv_destroy_cq f u cq h) = Misuse \<longleftrightarrow> stale ''ibv_destroy_cq'' u) \<and>
    (\<forall>f srq h. fst (wrapper_ibv_destroy_srq f u srq h) = Misuse \<longleftrightarrow> stale ''ibv_destroy_srq'' u) \<and>
    (\<forall>f qp h. fst (wrapper_ibv_destroy_qp f u qp h) = Misuse \<longleftrightarrow> stale ''ibv_destroy_qp'' u)"
  unfolding net_release_defs
  by (intro conjI allI if_loaded_undefined [OF net_loads_sound(1) assms])

text \<open>C37: Every wrapper of libibverbs, libmlx5 and libcuda that loads its library first has a defined result,
  whatever its unit holds.  The wrappers of libibverbs that release an object do not load: they are
  undefined exactly when a load found their pointer and then failed, which closed the library and
  left the pointer.\<close>

theorem net_wrappers_defined_unless_stale:
  assumes "reachable_unit ibv_load ibv_u" and "reachable_unit mlx5dv_load mlx5dv_u"
    and "reachable_unit cuda_load cuda_u" and "reachable_unit gpu_cuda_load gpu_u"
    and "reachable_unit ibv_load u"
  shows
   "((\<forall>f num_devices result h. fst (wrapper_ibv_get_device_list f env ibv_u num_devices result h) \<noteq> Misuse) \<and>
    (\<forall>f device result h. fst (wrapper_ibv_get_device_name f env ibv_u device result h) \<noteq> Misuse) \<and>
    (\<forall>f device result h. fst (wrapper_ibv_open_device f env ibv_u device result h) \<noteq> Misuse) \<and>
    (\<forall>f context result h. fst (wrapper_ibv_alloc_pd f env ibv_u context result h) \<noteq> Misuse) \<and>
    (\<forall>f pd addr len access result h. fst (wrapper_ibv_reg_mr f env ibv_u pd addr len access result h) \<noteq> Misuse) \<and>
    (\<forall>f context device_attr h. fst (wrapper_ibv_query_device f env ibv_u context device_attr h) \<noteq> Misuse) \<and>
    (\<forall>f context port_num port_attr h. fst (wrapper_ibv_query_port f env ibv_u context port_num port_attr h) \<noteq> Misuse) \<and>
    (\<forall>f context port_num index gid h. fst (wrapper_ibv_query_gid f env ibv_u context port_num index gid h) \<noteq> Misuse) \<and>
    (\<forall>f pd attr result h. fst (wrapper_ibv_create_ah f env ibv_u pd attr result h) \<noteq> Misuse) \<and>
    (\<forall>f context cqe cq_context channel comp_vector result h. fst (wrapper_ibv_create_cq f env ibv_u context cqe cq_context channel comp_vector result h) \<noteq> Misuse) \<and>
    (\<forall>f pd srq_init_attr result h. fst (wrapper_ibv_create_srq f env ibv_u pd srq_init_attr result h) \<noteq> Misuse) \<and>
    (\<forall>f pd qp_init_attr result h. fst (wrapper_ibv_create_qp f env ibv_u pd qp_init_attr result h) \<noteq> Misuse) \<and>
    (\<forall>f qp attr attr_mask h. fst (wrapper_ibv_modify_qp f env ibv_u qp attr attr_mask h) \<noteq> Misuse) \<and>
    (\<forall>f qp attr attr_mask init_attr h. fst (wrapper_ibv_query_qp f env ibv_u qp attr attr_mask init_attr h) \<noteq> Misuse) \<and>
    (\<forall>f obj obj_type h. fst (wrapper_mlx5dv_init_obj f env mlx5dv_u obj obj_type h) \<noteq> Misuse) \<and>
    (\<forall>f context input inlen output outlen result h. fst (wrapper_mlx5dv_devx_obj_create f env mlx5dv_u context input inlen output outlen result h) \<noteq> Misuse) \<and>
    (\<forall>f obj h. fst (wrapper_mlx5dv_devx_obj_destroy f env mlx5dv_u obj h) \<noteq> Misuse) \<and>
    (\<forall>f obj input inlen output outlen h. fst (wrapper_mlx5dv_devx_obj_query f env mlx5dv_u obj input inlen output outlen h) \<noteq> Misuse) \<and>
    (\<forall>f obj input inlen output outlen h. fst (wrapper_mlx5dv_devx_obj_modify f env mlx5dv_u obj input inlen output outlen h) \<noteq> Misuse) \<and>
    (\<forall>f context input inlen output outlen h. fst (wrapper_mlx5dv_devx_general_cmd f env mlx5dv_u context input inlen output outlen h) \<noteq> Misuse) \<and>
    (\<forall>f context cpus eqn h. fst (wrapper_mlx5dv_devx_query_eqn f env mlx5dv_u context cpus eqn h) \<noteq> Misuse) \<and>
    (\<forall>f context addr sz access result h. fst (wrapper_mlx5dv_devx_umem_reg f env mlx5dv_u context addr sz access result h) \<noteq> Misuse) \<and>
    (\<forall>f context umem_in result h. fst (wrapper_mlx5dv_devx_umem_reg_ex f env mlx5dv_u context umem_in result h) \<noteq> Misuse) \<and>
    (\<forall>f umem h. fst (wrapper_mlx5dv_devx_umem_dereg f env mlx5dv_u umem h) \<noteq> Misuse) \<and>
    (\<forall>f context uar_type result h. fst (wrapper_mlx5dv_devx_alloc_uar f env mlx5dv_u context uar_type result h) \<noteq> Misuse) \<and>
    (\<forall>f uar h. fst (wrapper_mlx5dv_devx_free_uar f env mlx5dv_u uar h) \<noteq> Misuse) \<and>
    (\<forall>f context attrs_out h. fst (wrapper_mlx5dv_query_device f env mlx5dv_u context attrs_out h) \<noteq> Misuse) \<and>
    (\<forall>f pi attrib dev h. fst (wrapper_cuDeviceGetAttribute f env cuda_u pi attrib dev h) \<noteq> Misuse) \<and>
    (\<forall>f value attribute ptr h. fst (wrapper_cuPointerSetAttribute f env cuda_u value attribute ptr h) \<noteq> Misuse) \<and>
    (\<forall>f pHandle dptr sz handleType flags h. fst (wrapper_cuMemGetHandleForAddressRange f env cuda_u pHandle dptr sz handleType flags h) \<noteq> Misuse) \<and>
    (\<forall>f pctx h. fst (wrapper_cuCtxGetCurrent f env cuda_u pctx h) \<noteq> Misuse) \<and>
    (\<forall>f pi attrib dev h. fst (gpu_wrapper_cuDeviceGetAttribute f env gpu_u pi attrib dev h) \<noteq> Misuse) \<and>
    (\<forall>f value attribute ptr h. fst (gpu_wrapper_cuPointerSetAttribute f env gpu_u value attribute ptr h) \<noteq> Misuse) \<and>
    (\<forall>f pHandle dptr sz handleType flags h. fst (gpu_wrapper_cuMemGetHandleForAddressRange f env gpu_u pHandle dptr sz handleType flags h) \<noteq> Misuse) \<and>
    (\<forall>f pctx h. fst (gpu_wrapper_cuCtxGetCurrent f env gpu_u pctx h) \<noteq> Misuse)) \<and>
    ((\<forall>f devices h. fst (wrapper_ibv_free_device_list f u devices h) = Misuse \<longleftrightarrow> stale ''ibv_free_device_list'' u) \<and>
    (\<forall>f context h. fst (wrapper_ibv_close_device f u context h) = Misuse \<longleftrightarrow> stale ''ibv_close_device'' u) \<and>
    (\<forall>f pd h. fst (wrapper_ibv_dealloc_pd f u pd h) = Misuse \<longleftrightarrow> stale ''ibv_dealloc_pd'' u) \<and>
    (\<forall>f mr h. fst (wrapper_ibv_dereg_mr f u mr h) = Misuse \<longleftrightarrow> stale ''ibv_dereg_mr'' u) \<and>
    (\<forall>f ah h. fst (wrapper_ibv_destroy_ah f u ah h) = Misuse \<longleftrightarrow> stale ''ibv_destroy_ah'' u) \<and>
    (\<forall>f cq h. fst (wrapper_ibv_destroy_cq f u cq h) = Misuse \<longleftrightarrow> stale ''ibv_destroy_cq'' u) \<and>
    (\<forall>f srq h. fst (wrapper_ibv_destroy_srq f u srq h) = Misuse \<longleftrightarrow> stale ''ibv_destroy_srq'' u) \<and>
    (\<forall>f qp h. fst (wrapper_ibv_destroy_qp f u qp h) = Misuse \<longleftrightarrow> stale ''ibv_destroy_qp'' u))"
  by (rule conjI [OF net_wrappers_load_first [OF assms(1-4)] ibv_releases_undefined_iff_stale [OF assms(5)]])

section \<open>Witness\<close>

text \<open>A libibverbs with everything but \<^verbatim>\<open>ibv_query_qp\<close>: the load fails, and the releases use the pointers it left.\<close>

definition partial_ibv :: dl_env where
  "partial_ibv = \<lparr>ev_sdk_path = None, ev_dlopen = \<lambda>_. 1, ev_dlsym = \<lambda>_ s. if s = ''ibv_query_qp'' then null else 1\<rparr>"

lemma partial_ibv_load:
  "du_ret (ibv_load partial_ibv) \<noteq> 0" "du_sym (ibv_load partial_ibv) ''ibv_destroy_cq'' \<noteq> null"
  "du_sym (ibv_load partial_ibv) ''ibv_query_qp'' = null"
proof -
  have "''ibv_query_qp'' \<in> set ibv_symbols" "''ibv_destroy_cq'' \<in> set ibv_symbols" by (simp_all add: ibv_symbols_def)
  moreover have "ibv_load partial_ibv =
      take_symbols \<lparr>df_symbols = map (\<lambda>s. (s, 0)) ibv_symbols, df_required = ibv_symbols\<rparr> partial_ibv [1]"
    by (simp add: ibv_load_def net_load_def partial_ibv_def)
  moreover have "look_up partial_ibv [1] (map (\<lambda>s. (s, 0)) ibv_symbols) s = (if s = ''ibv_query_qp'' then null else 1)"
    if "s \<in> set ibv_symbols" for s
    using that by (simp add: look_up_def map_of_map_restrict partial_ibv_def)
  ultimately show "du_ret (ibv_load partial_ibv) \<noteq> 0" "du_sym (ibv_load partial_ibv) ''ibv_destroy_cq'' \<noteq> null"
    "du_sym (ibv_load partial_ibv) ''ibv_query_qp'' = null"
    by (auto simp: take_symbols_def list_all_iff Let_def)
qed

theorem net_wrappers_defined_unless_stale_witness:
  "fst (wrapper_ibv_destroy_cq (\<lambda>_ h. (0, h)) (Some (ibv_load partial_ibv)) (1 :: nat) (5 :: nat)) = Misuse \<and>
   fst (wrapper_ibv_get_device_list (\<lambda>_ h. (0, h)) partial_ibv (Some (ibv_load partial_ibv)) (1 :: nat) null (5 :: nat)) \<noteq> Misuse"
proof -
  have n: "reachable_unit load None" for load by (simp add: reachable_unit_def)
  have r: "reachable_unit ibv_load (Some (ibv_load partial_ibv))" by (auto simp: reachable_unit_def)
  have "stale ''ibv_destroy_cq'' (Some (ibv_load partial_ibv))"
    using partial_ibv_load by (simp add: stale_def)
  then have "fst (wrapper_ibv_destroy_cq (\<lambda>_ h. (0, h)) (Some (ibv_load partial_ibv)) (1 :: nat) (5 :: nat)) = Misuse"
    by (rule net_wrappers_defined_unless_stale [OF r n n n r, THEN conjunct2, THEN conjunct2, THEN conjunct2, THEN conjunct2,
        THEN conjunct2, THEN conjunct2, THEN conjunct1, rule_format, THEN iffD2])
  moreover from net_wrappers_defined_unless_stale [OF r n n n n, THEN conjunct1, THEN conjunct1, rule_format]
  have "fst (wrapper_ibv_get_device_list (\<lambda>_ h. (0, h)) partial_ibv (Some (ibv_load partial_ibv)) (1 :: nat) null (5 :: nat)) \<noteq> Misuse" .
  ultimately show ?thesis ..
qed

end
