(* ===== verification/HighLevel.thy ===== *)
theory HighLevel
  imports VerbsRes GpuExport DevCqProofs
begin

text \<open>
  The building blocks of the high-level API, \<^verbatim>\<open>src/doca_gpunetio_high_level.cpp\<close>: the sizes of the memory
  of its queues, the initial completion ring, the doorbell register, the registration of memory with
  the NIC, and lists of queue pairs on the device.
\<close>

section \<open>Sizes\<close>

text \<open>\<open>pagesize\<close> is what \<^verbatim>\<open>sysconf\<close> answers.\<close>

definition priv_get_page_size :: "int \<Rightarrow> u64" where
  "priv_get_page_size pagesize = (if pagesize = - 1 then 4096 else of_int pagesize)"

definition hl_align_up_uint32 :: "u32 \<Rightarrow> u32 \<Rightarrow> u32" where
  "hl_align_up_uint32 value alignment =
    (let remainder = ucast (value mod alignment) :: u64
     in if remainder = 0 then value
        else ucast (ucast value + (ucast alignment - remainder)))"

definition DBR_SIZE :: u32 where "DBR_SIZE = 8"

definition calc_cq_external_umem_size :: "int \<Rightarrow> u32 \<Rightarrow> u32" where
  "calc_cq_external_umem_size pagesize queue_size =
    (let cqe_buf_size = if queue_size \<noteq> 0 then ucast (ucast queue_size * 64 :: u64) + DBR_SIZE else 0
     in hl_align_up_uint32 cqe_buf_size (ucast (priv_get_page_size pagesize)))"

definition calc_qp_external_umem_size :: "int \<Rightarrow> u32 \<Rightarrow> u32" where
  "calc_qp_external_umem_size pagesize sq_nwqes =
    (let sq_ring_size = if sq_nwqes \<noteq> 0 then ucast (ucast sq_nwqes * 64 :: u64) else 0
     in hl_align_up_uint32 sq_ring_size (ucast (priv_get_page_size pagesize)))"

section \<open>The ring of a new completion queue\<close>

definition CQE_OWNER_MASK :: u8 where "CQE_OWNER_MASK = 1"

function init_cqes_from :: "nat \<Rightarrow> cqe64 list \<Rightarrow> u32 \<Rightarrow> cqe64 list" where
  "init_cqes_from cqe_idx cqes nb_cqes =
    (if cqe_idx < unat nb_cqes
     then init_cqes_from (Suc cqe_idx)
       (cqes[cqe_idx := (cqes ! cqe_idx)\<lparr>cqe_op_own := push_bit 4 CQE_INVALID OR CQE_OWNER_MASK\<rparr>]) nb_cqes
     else cqes)"
  by pat_completeness auto
termination
  by (relation "measure (\<lambda>(cqe_idx, _, nb_cqes). unat nb_cqes - cqe_idx)") auto

declare init_cqes_from.simps [simp del]

definition mlx5_init_cqes :: "cqe64 list \<Rightarrow> u32 \<Rightarrow> cqe64 list" where
  "mlx5_init_cqes cqes nb_cqes = init_cqes_from 0 cqes nb_cqes"

text \<open>What \<^verbatim>\<open>calloc\<close> gives.\<close>

definition zero_cqe :: cqe64 where
  "zero_cqe = \<lparr>cqe_wqe_counter = 0, cqe_signature = 0, cqe_op_own = 0\<rparr>"

section \<open>The doorbell register\<close>

text \<open>
  The answers of the C library and of the SDK may differ between the attempts.  A creation that fails
  stores nothing, so \<open>None\<close> stands for what the caller's variable held.
\<close>

definition hl_create_uar :: "'h host \<Rightarrow> (uar_allocation_type \<Rightarrow> bool)
    \<Rightarrow> (uar_allocation_type \<Rightarrow> doca_sdk_wrapper_error \<times> 's option) \<Rightarrow> net_dev \<Rightarrow> nic_handler \<Rightarrow> 'h
    \<Rightarrow> (doca_error \<times> 's uar \<times> 'h) outcome" where
  "hl_create_uar H calloc_ok sdk net_dev handler h =
    (let attempt = (\<lambda>t. uar_create H True (calloc_ok t) net_dev t (sdk t)) in
     if handler \<noteq> NIC_HANDLER_GPU_SM_BF then
       (case attempt UAR_ALLOCATION_TYPE_NONCACHE_DEDICATED h of
          Misuse \<Rightarrow> Misuse
        | Ret (status, u, h) \<Rightarrow>
            if status \<noteq> DOCA_SUCCESS then
              (case attempt UAR_ALLOCATION_TYPE_NONCACHE h of
                 Misuse \<Rightarrow> Misuse
               | Ret (status, u, h) \<Rightarrow> Ret (DOCA_SUCCESS, u, h))
            else Ret (DOCA_SUCCESS, u, h))
     else attempt UAR_ALLOCATION_TYPE_BLUEFLAME h)"

section \<open>Registered memory\<close>

datatype mem_reg_type =
    MEM_REG_TYPE_DEFAULT | MEM_REG_TYPE_CUDA_DMABUF | MEM_REG_TYPE_CUDA_PEERMEM | MEM_REG_TYPE_OTHER u32

text \<open>The value of \<^verbatim>\<open>infiniband/verbs.h\<close>.\<close>

definition IBV_ACCESS_LOCAL_WRITE :: u32 where "IBV_ACCESS_LOCAL_WRITE = 1"

definition DMABUF_INVALID_FD :: int where "DMABUF_INVALID_FD = - 1"

text \<open>The calls behind the two layers, and the state: the GPU, the host, and the file descriptors that are open.\<close>

record ('g, 'c, 's, 'h) reg_env =
  re_have_dmabuf :: bool
  re_cuda :: "'c cuda"
  re_sdk_fd :: "'g option \<Rightarrow> doca_sdk_wrapper_error \<times> int option \<times> 'c"
  re_host :: "'h host"
  re_dev :: net_dev
  re_calloc :: "int \<Rightarrow> bool"
  re_sdk_umem :: "int \<Rightarrow> doca_sdk_wrapper_error \<times> 's option"
  re_sdk_release :: "'s sdk_call"

record ('g, 'c, 'h) hl_world =
  w_gpu :: "'g gpu option"
  w_gdr :: gdr_state
  w_cuda :: 'c
  w_host :: 'h
  w_fds :: "int list"

type_synonym ('s, 'g, 'c, 'h) registering = "(doca_error \<times> 's umem \<times> ('g, 'c, 'h) hl_world) outcome"

definition take_dmabuf_fd :: "('g, 'c, 's, 'h) reg_env \<Rightarrow> ptr \<Rightarrow> u32 \<Rightarrow> ('g, 'c, 'h) hl_world
    \<Rightarrow> (doca_error \<times> int \<times> ('g, 'c, 'h) hl_world) outcome" where
  "take_dmabuf_fd R umem_ptr umem_sz w =
    (case gpu_get_dmabuf_fd (re_have_dmabuf R) (re_cuda R) (re_sdk_fd R) umem_ptr (ucast umem_sz) True
            (w_gpu w) (w_gdr w) (w_cuda w) of
       Misuse \<Rightarrow> Misuse
     | Ret (e, fd, gpu, g, c) \<Rightarrow>
         let w = w\<lparr>w_gpu := gpu, w_gdr := g, w_cuda := c\<rparr>
         in case fd of
              None \<Rightarrow> Ret (e, DMABUF_INVALID_FD, w)
            | Some fd \<Rightarrow> Ret (e, fd, w\<lparr>w_fds := fd # w_fds w\<rparr>))"

definition reg_umem :: "('g, 'c, 's, 'h) reg_env \<Rightarrow> ptr \<Rightarrow> u32 \<Rightarrow> int \<Rightarrow> ('g, 'c, 'h) hl_world
    \<Rightarrow> ('s, 'g, 'c, 'h) registering" where
  "reg_umem R umem_ptr umem_sz fd w =
    (case umem_create (re_host R) True (re_calloc R fd) (re_dev R) umem_ptr (ucast umem_sz)
            IBV_ACCESS_LOCAL_WRITE fd 0 (re_sdk_umem R fd) (w_host w) of
       Misuse \<Rightarrow> Misuse
     | Ret (e, u, h) \<Rightarrow> Ret (e, u, w\<lparr>w_host := h\<rparr>))"

definition close_registered :: "int \<Rightarrow> 's umem \<Rightarrow> ('g, 'c, 'h) hl_world \<Rightarrow> ('s, 'g, 'c, 'h) registering" where
  "close_registered dmabuf_fd umem w =
    Ret (DOCA_SUCCESS, umem,
      if dmabuf_fd > 0 \<and> dmabuf_fd \<noteq> DMABUF_INVALID_FD then w\<lparr>w_fds := remove1 dmabuf_fd (w_fds w)\<rparr> else w)"

text \<open>The error label destroys what the caller's variable holds.\<close>

definition destroy_resources :: "('g, 'c, 's, 'h) reg_env \<Rightarrow> doca_error \<Rightarrow> 's umem \<Rightarrow> ('g, 'c, 'h) hl_world
    \<Rightarrow> ('s, 'g, 'c, 'h) registering" where
  "destroy_resources R status umem w =
    (if umem = None then Ret (status, umem, w)
     else case umem_destroy (re_host R) (re_sdk_release R) umem (w_host w) of
       Misuse \<Rightarrow> Misuse
     | Ret (e, h) \<Rightarrow> Ret (status, umem, w\<lparr>w_host := h\<rparr>))"

definition then_close :: "('g, 'c, 's, 'h) reg_env \<Rightarrow> int \<Rightarrow> 's umem \<Rightarrow> ('s, 'g, 'c, 'h) registering
    \<Rightarrow> ('s, 'g, 'c, 'h) registering" where
  "then_close R dmabuf_fd umem r =
    (case r of
       Misuse \<Rightarrow> Misuse
     | Ret (status, u, w) \<Rightarrow>
         if status \<noteq> DOCA_SUCCESS then destroy_resources R status umem w else close_registered dmabuf_fd u w)"

definition create_gpu_umem :: "('g, 'c, 's, 'h) reg_env \<Rightarrow> mem_reg_type \<Rightarrow> u32 \<Rightarrow> ptr \<Rightarrow> 's umem
    \<Rightarrow> ('g, 'c, 'h) hl_world \<Rightarrow> ('s, 'g, 'c, 'h) registering" where
  "create_gpu_umem R mreg_type umem_sz umem_ptr umem w =
    (case mreg_type of
       MEM_REG_TYPE_DEFAULT \<Rightarrow>
         (case take_dmabuf_fd R umem_ptr umem_sz w of
            Misuse \<Rightarrow> Misuse
          | Ret (status, dmabuf_fd, w) \<Rightarrow>
              let dmabuf_fd = if status \<noteq> DOCA_SUCCESS then DMABUF_INVALID_FD else dmabuf_fd
              in case reg_umem R umem_ptr umem_sz dmabuf_fd w of
                   Misuse \<Rightarrow> Misuse
                 | Ret (status, u, w) \<Rightarrow>
                     if status \<noteq> DOCA_SUCCESS \<and> dmabuf_fd > 0
                     then then_close R dmabuf_fd umem (reg_umem R umem_ptr umem_sz DMABUF_INVALID_FD w)
                     else then_close R dmabuf_fd umem (Ret (status, u, w)))
     | MEM_REG_TYPE_CUDA_DMABUF \<Rightarrow>
         (case take_dmabuf_fd R umem_ptr umem_sz w of
            Misuse \<Rightarrow> Misuse
          | Ret (status, dmabuf_fd, w) \<Rightarrow>
              if status \<noteq> DOCA_SUCCESS then destroy_resources R status umem w
              else then_close R dmabuf_fd umem (reg_umem R umem_ptr umem_sz dmabuf_fd w))
     | MEM_REG_TYPE_CUDA_PEERMEM \<Rightarrow>
         then_close R DMABUF_INVALID_FD umem (reg_umem R umem_ptr umem_sz DMABUF_INVALID_FD w)
     | MEM_REG_TYPE_OTHER n \<Rightarrow> close_registered DMABUF_INVALID_FD umem w)"

section \<open>Lists of queue pairs on the device\<close>

text \<open>
  \<open>qp_gpu\<close> is the address of the caller's variable, if there is one.  A list that is not null has at least
  \<open>num_elems\<close> entries with their view.  The result is the error and what is stored.
\<close>

fun copy_flat :: "'c cuda \<Rightarrow> ptr \<Rightarrow> dev_view list \<Rightarrow> 'c \<Rightarrow> bool \<times> 'c" where
  "copy_flat C p [] c = (True, c)"
| "copy_flat C p (v # vs) c =
    (case cu_copy_qps C p [v] c of (ok, c) \<Rightarrow>
       if ok then copy_flat C (p + unat DEV_QP_SIZE) vs c else (False, c))"

definition qp_flat_list_create_hl :: "'c cuda \<Rightarrow> dev_view list option \<Rightarrow> u32 \<Rightarrow> ptr \<Rightarrow> 'c
    \<Rightarrow> doca_error \<times> ptr option \<times> 'c" where
  "qp_flat_list_create_hl C qp_list num_elems qp_gpu c =
    (case qp_list of
       None \<Rightarrow> (DOCA_ERROR_INVALID_VALUE, None, c)
     | Some vs \<Rightarrow>
         if num_elems = 0 \<or> qp_gpu = null then (DOCA_ERROR_INVALID_VALUE, None, c)
         else case cu_malloc C (DEV_QP_SIZE * ucast num_elems) c of
           (False, p, c) \<Rightarrow> (DOCA_ERROR_NO_MEMORY, None, c)
         | (True, p, c) \<Rightarrow>
             (case copy_flat C p (take (unat num_elems) vs) c of
                (True, c) \<Rightarrow> (DOCA_SUCCESS, Some p, c)
              | (False, c) \<Rightarrow> (DOCA_SUCCESS, None, cu_free C qp_gpu c)))"

definition qp_flat_list_destroy_hl :: "'c cuda \<Rightarrow> ptr \<Rightarrow> 'c \<Rightarrow> doca_error \<times> 'c" where
  "qp_flat_list_destroy_hl C qp_gpu c =
    (if qp_gpu = null then (DOCA_ERROR_INVALID_VALUE, c) else (DOCA_SUCCESS, cu_free C qp_gpu c))"

end
