(* ===== verification/HighLevelProps.thy ===== *)
theory HighLevelProps
  imports HighLevel QpDemo GpuMemProps
begin

text \<open>Properties of the building blocks of the high-level API.\<close>

section \<open>Sizes\<close>

lemma hl_align_up_props:
  fixes v a :: u32
  assumes "a \<noteq> 0" "unat v + unat a \<le> 2 ^ 32"
  shows "unat a dvd unat (hl_align_up_uint32 v a)"
    and "unat v \<le> unat (hl_align_up_uint32 v a)"
    and "unat (hl_align_up_uint32 v a) < unat v + unat a"
proof -
  let ?v = "unat v" and ?a = "unat a"
  let ?r = "ucast (v mod a) :: u64"
  have a0: "0 < ?a" using assms(1) by (simp add: unat_gt_0)
  have r: "unat ?r = ?v mod ?a" by (simp add: unat_ucast_u32_u64 unat_mod_distrib)
  have e: "unat (hl_align_up_uint32 v a) = (if ?v mod ?a = 0 then ?v else ?v + (?a - ?v mod ?a))"
  proof (cases "?v mod ?a = 0")
    case True
    then have "?r = 0" using r by (simp add: unat_eq_zero)
    then show ?thesis using True by (simp add: hl_align_up_uint32_def)
  next
    case False
    have n: "?r \<noteq> 0"
    proof
      assume "?r = 0"
      then have "unat ?r = 0" by (simp only: unat_0)
      with r False show False by linarith
    qed
    have m: "?v mod ?a < ?a" using a0 by simp
    have l: "?r \<le> ucast a" using m r by (simp add: word_le_nat_alt unat_ucast_u32_u64)
    have d: "unat (ucast a - ?r) = ?a - ?v mod ?a"
      using l r by (simp add: unat_sub_if' word_le_nat_alt unat_ucast_u32_u64)
    have s: "?v + (?a - ?v mod ?a) < 2 ^ 32" using assms(2) False m by linarith
    have "unat (ucast v + (ucast a - ?r) :: u64) = ?v + (?a - ?v mod ?a)"
      using s d by (simp add: unat_word_ariths unat_ucast_u32_u64)
    then have "unat (ucast (ucast v + (ucast a - ?r) :: u64) :: u32) = ?v + (?a - ?v mod ?a)"
      using s by (simp add: unat_ucast_mod)
    then show ?thesis using False n by (simp add: hl_align_up_uint32_def)
  qed
  have m: "?v mod ?a < ?a" using a0 by simp
  have "?v + (?a - ?v mod ?a) = (?v div ?a + 1) * ?a"
    using div_mult_mod_eq [of ?v ?a] m unfolding distrib_right mult_1 by linarith
  then have d: "?a dvd ?v + (?a - ?v mod ?a)" by (metis dvd_triv_right)
  show "?a dvd unat (hl_align_up_uint32 v a)" "?v \<le> unat (hl_align_up_uint32 v a)"
    unfolding e using d by (auto simp: dvd_eq_mod_eq_0)
  show "unat (hl_align_up_uint32 v a) < ?v + ?a"
    unfolding e using a0 by auto
qed

lemma ring_bytes:
  assumes "64 * unat (n :: u32) < 2 ^ 32"
  shows "unat (ucast (ucast n * 64 :: u64) :: u32) = 64 * unat n"
proof -
  have "unat (ucast n * 64 :: u64) = 64 * unat n"
    using assms by (simp add: unat_word_ariths unat_ucast_u32_u64 mult.commute)
  then show ?thesis using assms by (simp add: unat_ucast_mod)
qed

text \<open>The memory of a completion queue holds its entries and its doorbell record, the memory of a send
  queue its entries; both are whole pages, and no page more than it takes.\<close>

theorem queue_memory_is_whole_pages:
  assumes "0 < page" "n \<noteq> 0" "64 * unat n + 8 + page \<le> 2 ^ 32"
  shows "page dvd unat (calc_cq_external_umem_size (int page) n) \<and>
    64 * unat n + 8 \<le> unat (calc_cq_external_umem_size (int page) n) \<and>
    unat (calc_cq_external_umem_size (int page) n) < 64 * unat n + 8 + page \<and>
    page dvd unat (calc_qp_external_umem_size (int page) n) \<and>
    64 * unat n \<le> unat (calc_qp_external_umem_size (int page) n) \<and>
    unat (calc_qp_external_umem_size (int page) n) < 64 * unat n + page"
proof -
  let ?a = "ucast (priv_get_page_size (int page)) :: u32"
  have p: "page < 2 ^ 32" using assms by linarith
  then have a: "unat ?a = page"
    by (simp add: priv_get_page_size_def unat_ucast_mod unat_of_nat)
  then have a0: "?a \<noteq> 0" using assms(1) by auto
  have b: "unat (ucast (ucast n * 64 :: u64) :: u32) = 64 * unat n" by (rule ring_bytes) (use assms in linarith)
  have c: "unat (ucast (ucast n * 64 :: u64) + DBR_SIZE :: u32) = 64 * unat n + 8"
    using assms(1,3) b by (simp add: unat_word_ariths DBR_SIZE_def)
  note cq = hl_align_up_props [OF a0, of "ucast (ucast n * 64 :: u64) + DBR_SIZE"]
  note qp = hl_align_up_props [OF a0, of "ucast (ucast n * 64 :: u64)"]
  show ?thesis
    using cq qp assms(2,3) unfolding a b c
    by (simp add: calc_cq_external_umem_size_def calc_qp_external_umem_size_def)
qed

theorem oversized_queue_memory_wraps:
  "calc_cq_external_umem_size 4096 (2 ^ 26) = 4096 \<and> calc_qp_external_umem_size 4096 (2 ^ 26) = 0"
  by code_simp

section \<open>A new completion queue\<close>

lemma init_entry: "push_bit 4 CQE_INVALID OR CQE_OWNER_MASK = (0xF1 :: u8)"
  by (simp add: CQE_INVALID_def CQE_OWNER_MASK_def)

lemma init_cqes_from_props:
  "length (init_cqes_from k r n) = length r"
  "i < length r \<Longrightarrow> k \<le> i \<Longrightarrow> i < unat n \<Longrightarrow> cqe_op_own (init_cqes_from k r n ! i) = 0xF1"
  "i < k \<Longrightarrow> init_cqes_from k r n ! i = r ! i"
proof (induction k r n rule: init_cqes_from.induct)
  case (1 k r n)
  {
    case 1
    show ?case by (subst init_cqes_from.simps) (use "1.IH"(1) in simp)
  next
    case 2
    then show ?case
      by (subst init_cqes_from.simps) (use "1.IH"(2,3) init_entry in \<open>cases "i = k"; simp\<close>)
  next
    case 3
    then show ?case by (subst init_cqes_from.simps) (use "1.IH"(3) in simp)
  }
qed

lemma init_cqes_all:
  assumes "length r = unat n" "e \<in> set (mlx5_init_cqes r n)"
  shows "cqe_op_own e = 0xF1"
  using assms init_cqes_from_props(1,2) [where k = 0 and n = n and r = r] unfolding mlx5_init_cqes_def
  by (auto simp: in_set_conv_nth)

text \<open>C38: The ring that \<^verbatim>\<open>create_cq\<close> writes meets what polling relies on: with it the queue keeps the contract
  of the NIC with no completion in it, so polling at any index of the 64-bit range answers that the
  completion is still to come and changes nothing, and a collapsed queue finds its one entry invalid.\<close>

theorem new_completion_queue_is_empty:
  assumes cq: "cqe_daddr cq = mlx5_init_cqes (replicate (unat (cqe_num cq)) zero_cqe) (cqe_num cq)"
    "cqe_ci cq = 0" "cqe_rsvd cq = 0"
    and n: "is_power_of_two (ucast (cqe_num cq))" "cqe_num cq \<noteq> 0"
    and ev: "\<forall>k. ev_opcode (ev k) < 15 \<and> ev_counter (ev k) = of_nat k"
  shows "nic_contract ev (cqe_daddr cq) cq \<and> cq_holds ev (cqe_daddr cq) 0 0 cq \<and>
    poll_one_cq_at hopper mode cq i = (EBUSY, cq) \<and>
    opown_opcode (cqe_op_own (cqe_daddr cq ! 0)) = CQE_INVALID"
proof -
  have len: "length (cqe_daddr cq) = unat (cqe_num cq)"
    by (simp add: cq(1) mlx5_init_cqes_def init_cqes_from_props(1))
  have all: "\<forall>e \<in> set (cqe_daddr cq). cqe_op_own e = 0xF1"
    using init_cqes_all [of "replicate (unat (cqe_num cq)) zero_cqe"] by (simp add: cq(1))
  have nc: "nic_contract ev (cqe_daddr cq) cq"
    using len all n(1) ev cq(3) by (simp add: nic_contract_def)
  have holds: "cq_holds ev (cqe_daddr cq) 0 0 cq" using cq(2,3) by (simp add: cq_holds_def)
  have pos: "0 < unat (cqe_num cq)" using n(2) by (simp add: unat_gt_0)
  have win: "i \<ge> cqe_ci cq + ucast (cqe_num cq) \<longleftrightarrow> unat (cqe_num cq) \<le> unat i"
    using index_window(2) [of "cqe_ci cq" 0 "cqe_num cq" i] unat_lt_2p [of "cqe_num cq"] cq(2) by simp
  have ld: "load_relaxed mode 0 = (0 :: u64)" by (cases mode) (simp_all add: load_relaxed_def)
  have "poll_one_cq_at hopper mode cq i = (EBUSY, cq)"
  proof (cases "unat (cqe_num cq) \<le> unat i")
    case True
    with win show ?thesis by (simp add: poll_one_cq_at_def priv_poll_one_cq_at_def Let_def ld cq(2) EBUSY_def)
  next
    case False
    have "\<not> observed_completion hopper (cqe_daddr cq ! cqe_slot cq i) i i (cqe_num cq)"
      using observe_pending [OF nc, where p = 0 and i = i and hopper = hopper] False len cq(3)
        unat_lt_2p [of i] by simp
    with False win show ?thesis
      by (simp add: poll_one_cq_at_def priv_poll_one_cq_at_def Let_def ld cq(2,3) EBUSY_def)
  qed
  moreover have "opown_opcode (cqe_op_own (cqe_daddr cq ! 0)) = CQE_INVALID"
    using all len pos by (simp add: opown_opcode_def CQE_INVALID_def)
  ultimately show ?thesis using nc holds by blast
qed

section \<open>Registered memory\<close>

text \<open>The account of a registration that may have taken two attempts.\<close>

definition registered :: "'h live_of \<Rightarrow> ('s umem \<Rightarrow> 'h \<Rightarrow> (doca_error \<times> 'h) outcome) \<Rightarrow> 'h
    \<Rightarrow> doca_error \<Rightarrow> 's umem \<Rightarrow> 'h \<Rightarrow> bool" where
  "registered live destroy h e u h' \<longleftrightarrow>
    (case u of
       None \<Rightarrow> e \<noteq> DOCA_SUCCESS \<and> live h' = live h
     | Some hn \<Rightarrow> e = DOCA_SUCCESS \<and>
         (case h_member hn of
            OpenPtr ob \<Rightarrow> live h' = live h \<union> umem_owned ob \<and> live h \<inter> umem_owned ob = {} \<and>
              (\<exists>h''. destroy u h' = Ret (DOCA_SUCCESS, h'') \<and> live h'' = live h)
          | _ \<Rightarrow> live h' = live h))"

lemma registered_same: "live h1 = live h \<Longrightarrow> registered live destroy h1 e u h' = registered live destroy h e u h'"
  by (simp add: registered_def cong: option.case_cong member.case_cong)

lemma registered_none: "registered live destroy h e u h' \<Longrightarrow> e \<noteq> DOCA_SUCCESS \<Longrightarrow> u = None \<and> live h' = live h"
  by (simp add: registered_def split: option.splits)

lemma umem_create_registered:
  assumes l: "lawful H live uses" "closed live uses h"
    and c: "umem_create H True calloc_ok dev address n flags fd off sdk h = Ret (e, u, h')"
  shows "registered live (umem_destroy H call) h e u h'" and "u = None \<Longrightarrow> closed live uses h'"
proof -
  let ?b = "new_umem address n flags fd off"
  have f: "um_umem ?b = null" by (simp add: new_umem_def)
  let ?new = "\<lambda>h. case dev of OpenDev pd \<Rightarrow>
      Ret (construct (umem_open_create H) (umem_open_destroy H) ?b h) | _ \<Rightarrow> Misuse"
  consider (no) "e \<noteq> DOCA_SUCCESS" "u = None" "h' = h"
    | (api) "api_create_h calloc_ok sdk ?new h = Ret (e, u, h')"
    using c by (auto simp: umem_create_def split: if_splits)
  then have "balanced live umem_owned (umem_destroy H call) h (e, u, h') \<and> (u = None \<longrightarrow> closed live uses h')"
  proof cases
    case no
    then show ?thesis using l(2) by (simp add: balanced_def)
  next
    case api
    have "balanced live umem_owned (umem_destroy H call) h (e, u, h')"
      unfolding umem_destroy_def by (rule umem.api_create_balanced [OF l f api]) (auto split: net_dev.splits)
    moreover have "closed live uses h'" if "u = None"
    proof -
      obtain m h1 where k: "construct (umem_open_create H) (umem_open_destroy H) ?b h = (m, h1)" by fastforce
      from umem.construct_tidy [OF l f k] api that l(2) show ?thesis
        by (auto simp: api_create_h_def k Let_def tidy_def split: if_splits prod.splits doca_sdk_wrapper_error.splits
            net_dev.splits made.splits)
    qed
    ultimately show ?thesis by blast
  qed
  then show "registered live (umem_destroy H call) h e u h'" "u = None \<Longrightarrow> closed live uses h'"
    by (auto simp: balanced_def registered_def split: option.splits member.splits)
qed

lemma reg_umem_registered:
  assumes "lawful (re_host R) live uses" "closed live uses (w_host w)" "reg_umem R p n fd w = Ret (e, u, w1)"
  shows "registered live (umem_destroy (re_host R) call) (w_host w) e u (w_host w1)"
    and "e \<noteq> DOCA_SUCCESS \<Longrightarrow> closed live uses (w_host w1) \<and> live (w_host w1) = live (w_host w)"
    and "w_fds w1 = w_fds w"
proof -
  obtain h where c: "umem_create (re_host R) True (re_calloc R fd) (re_dev R) p (ucast n) IBV_ACCESS_LOCAL_WRITE fd 0
      (re_sdk_umem R fd) (w_host w) = Ret (e, u, h)" and w1: "w1 = w\<lparr>w_host := h\<rparr>"
    using assms(3) by (auto simp: reg_umem_def split: outcome.splits)
  note r = umem_create_registered [OF assms(1,2) c]
  show "registered live (umem_destroy (re_host R) call) (w_host w) e u (w_host w1)" using r(1) w1 by simp
  show "e \<noteq> DOCA_SUCCESS \<Longrightarrow> closed live uses (w_host w1) \<and> live (w_host w1) = live (w_host w)"
    using registered_none [OF r(1)] r(2) w1 by simp
  show "w_fds w1 = w_fds w" using w1 by simp
qed

lemma then_close_registered:
  assumes "then_close R fd None (Ret (e, u, w)) = Ret (e', u', w')" "registered live destroy h e u (w_host w)"
  shows "registered live destroy h e' u' (w_host w') \<and> e' = e \<and>
    w_fds w' = (if e = DOCA_SUCCESS \<and> fd > 0 then remove1 fd (w_fds w) else w_fds w)"
  using assms registered_none [OF assms(2)]
  by (auto simp: then_close_def destroy_resources_def close_registered_def DMABUF_INVALID_FD_def split: if_splits)

lemma take_dmabuf_fd_keeps:
  assumes "take_dmabuf_fd R p n w = Ret (e, fd, v)"
  shows "w_host v = w_host w" and "0 < fd \<Longrightarrow> w_fds v = fd # w_fds w"
  using assms by (auto simp: take_dmabuf_fd_def Let_def DMABUF_INVALID_FD_def split: outcome.splits option.splits)

lemma registered_by_fd:
  assumes l: "lawful (re_host R) live uses" "closed live uses (w_host w)"
    and c: "then_close R fd None (reg_umem R p n fd' w) = Ret (e, u, w')"
  shows "registered live (umem_destroy (re_host R) call) (w_host w) e u (w_host w') \<and>
    w_fds w' = (if e = DOCA_SUCCESS \<and> fd > 0 then remove1 fd (w_fds w) else w_fds w)"
proof -
  obtain e1 u1 w1 where r: "reg_umem R p n fd' w = Ret (e1, u1, w1)"
    using c by (cases "reg_umem R p n fd' w") (auto simp: then_close_def)
  show ?thesis
    using then_close_registered [OF c [unfolded r] reg_umem_registered(1) [OF l r]] reg_umem_registered(3) [OF l r] by metis
qed

lemma registered_by_default:
  assumes l: "lawful (re_host R) live uses" "closed live uses (w_host w)"
    and c: "create_gpu_umem R MEM_REG_TYPE_DEFAULT n p None w = Ret (e, u, w')"
    and t: "take_dmabuf_fd R p n w = Ret (se, fd, v)"
  shows "registered live (umem_destroy (re_host R) call) (w_host w) e u (w_host w') \<and>
    (se = DOCA_SUCCESS \<and> 0 < fd \<longrightarrow> w_fds w' = (if e = DOCA_SUCCESS then w_fds w else fd # w_fds w))"
proof -
  define fd1 where "fd1 = (if se \<noteq> DOCA_SUCCESS then DMABUF_INVALID_FD else fd)"
  have k: "closed live uses (w_host v)" "w_host v = w_host w"
    using take_dmabuf_fd_keeps(1) [OF t] l(2) by simp_all
  obtain e1 u1 w1 where r: "reg_umem R p n fd1 v = Ret (e1, u1, w1)"
    using c unfolding create_gpu_umem_def by (cases "reg_umem R p n fd1 v") (auto simp: t fd1_def Let_def)
  note first = reg_umem_registered [OF l(1) k(1) r]
  have "registered live (umem_destroy (re_host R) call) (w_host w) e u (w_host w') \<and>
      w_fds w' = (if e = DOCA_SUCCESS \<and> fd1 > 0 then remove1 fd1 (w_fds v) else w_fds v)"
  proof (cases "e1 \<noteq> DOCA_SUCCESS \<and> fd1 > 0")
    case True
    then have c2: "then_close R fd1 None (reg_umem R p n DMABUF_INVALID_FD w1) = Ret (e, u, w')"
      using c r unfolding create_gpu_umem_def by (simp add: t fd1_def [symmetric] Let_def)
    have m: "closed live uses (w_host w1)" "live (w_host w1) = live (w_host w)" using first(2) True k(2) by auto
    show ?thesis
      using registered_by_fd [OF l(1) m(1) c2] first(3) registered_same [where live = live, OF m(2)] by metis
  next
    case False
    then have c2: "then_close R fd1 None (Ret (e1, u1, w1)) = Ret (e, u, w')"
      using c r unfolding create_gpu_umem_def by (auto simp: t fd1_def [symmetric] Let_def)
    show ?thesis using then_close_registered [OF c2 first(1)] first(3) k(2) by metis
  qed
  moreover have "w_fds v = fd # w_fds w" if "0 < fd" using take_dmabuf_fd_keeps(2) [OF t that] .
  ultimately show ?thesis by (auto simp: fd1_def)
qed

text \<open>C17: Registering memory for the NIC is balanced over its two attempts, by file descriptor and by
  address.  On a host that behaves as documented, where no live object uses a dead one, and with the
  caller's variable null: when the call reports success, the region is alive with what it owns, and
  destroying it gives that back (a region of the SDK is the SDK's to account for); when it reports an error,
  nothing is left of either attempt and no region is returned.  The file descriptor of the memory is
  closed on success only: every error after it was taken leaves it open.  Registration through peer
  memory takes none.\<close>

theorem registration_is_balanced:
  assumes l: "lawful (re_host R) live uses" "closed live uses (w_host w)"
    and m: "mreg \<in> {MEM_REG_TYPE_DEFAULT, MEM_REG_TYPE_CUDA_DMABUF, MEM_REG_TYPE_CUDA_PEERMEM}"
    and c: "create_gpu_umem R mreg n p None w = Ret (e, u, w')"
  shows "registered live (umem_destroy (re_host R) call) (w_host w) e u (w_host w') \<and>
    (\<forall>fd v. take_dmabuf_fd R p n w = Ret (DOCA_SUCCESS, fd, v) \<and> 0 < fd \<longrightarrow>
       w_fds w' = (if mreg = MEM_REG_TYPE_CUDA_PEERMEM \<or> e = DOCA_SUCCESS then w_fds w else fd # w_fds w))"
proof -
  consider (peermem) "mreg = MEM_REG_TYPE_CUDA_PEERMEM" | (default) "mreg = MEM_REG_TYPE_DEFAULT"
    | (dmabuf) "mreg = MEM_REG_TYPE_CUDA_DMABUF" using m by blast
  then show ?thesis
  proof cases
    case peermem
    then have "then_close R DMABUF_INVALID_FD None (reg_umem R p n DMABUF_INVALID_FD w) = Ret (e, u, w')"
      using c by (simp add: create_gpu_umem_def)
    from registered_by_fd [OF l this] peermem show ?thesis by (simp add: DMABUF_INVALID_FD_def)
  next
    case default
    obtain se fd v where t: "take_dmabuf_fd R p n w = Ret (se, fd, v)"
      using c default by (cases "take_dmabuf_fd R p n w") (auto simp: create_gpu_umem_def)
    from registered_by_default [OF l c [unfolded default] t] default t show ?thesis by auto
  next
    case dmabuf
    obtain se fd v where t: "take_dmabuf_fd R p n w = Ret (se, fd, v)"
      using c dmabuf by (cases "take_dmabuf_fd R p n w") (auto simp: create_gpu_umem_def)
    have k: "closed live uses (w_host v)" "w_host v = w_host w"
      using take_dmabuf_fd_keeps(1) [OF t] l(2) by simp_all
    show ?thesis
    proof (cases "se = DOCA_SUCCESS")
      case True
      then have "then_close R fd None (reg_umem R p n fd v) = Ret (e, u, w')"
        using c dmabuf t by (simp add: create_gpu_umem_def)
      from registered_by_fd [OF l(1) k(1) this] take_dmabuf_fd_keeps(2) [OF t] dmabuf t k(2) show ?thesis by auto
    next
      case False
      then have "e = se \<and> u = None \<and> w' = v"
        using c dmabuf t by (simp add: create_gpu_umem_def destroy_resources_def)
      with False t k(2) show ?thesis by (simp add: registered_def)
    qed
  qed
qed

section \<open>Lists of queue pairs\<close>

lemma copy_flat_live:
  assumes "cuda_lawful C live" "copy_flat C p vs c = (ok, c')"
  shows "live c' = live c"
proof -
  have one: "live d' = live d" if "cu_copy_qps C p q d = (ok, d')" for p q d ok d'
    using cuda_law_8 [OF assms(1), THEN conjunct1] that by blast
  show ?thesis
    using assms(2)
  proof (induction vs arbitrary: p c)
    case (Cons v vs)
    obtain ok1 c1 where o: "cu_copy_qps C p [v] c = (ok1, c1)" by fastforce
    from Cons.IH [of "p + unat DEV_QP_SIZE" c1] one [OF o] Cons.prems o show ?case by (auto split: if_splits)
  qed simp
qed

text \<open>A list of queue pairs that was stored is one device allocation, and destroying it gives that back.
  When a queue pair cannot be copied the call says that it succeeded, stores nothing, and the device
  allocation stays.  (The variable of the caller is on the host: its address is not one of the device.)\<close>

theorem flat_list_is_accounted:
  assumes l: "cuda_lawful C live"
    and host: "\<forall>m. GDev qp_gpu m \<notin> live c" "fst (snd (cu_malloc C (DEV_QP_SIZE * ucast n) c)) \<noteq> qp_gpu"
    and none: "\<forall>q. GDev q 0 \<notin> live c"
    and c: "qp_flat_list_create_hl C qp_list n qp_gpu c = (e, r, c')"
  shows "case r of
      Some p \<Rightarrow> e = DOCA_SUCCESS \<and> live c' = insert (GDev p (DEV_QP_SIZE * ucast n)) (live c) \<and>
        live (snd (qp_flat_list_destroy_hl C p c')) = live c
    | None \<Rightarrow> (if e = DOCA_SUCCESS
        then \<exists>p. GDev p (DEV_QP_SIZE * ucast n) \<notin> live c \<and> live c' = insert (GDev p (DEV_QP_SIZE * ucast n)) (live c)
        else live c' = live c)"
proof -
  let ?n = "DEV_QP_SIZE * ucast n :: u64"
  define made where "made = (case qp_list of None \<Rightarrow> (DOCA_ERROR_INVALID_VALUE, None, c)
    | Some vs \<Rightarrow> (case cu_malloc C ?n c of (ok, p, c1) \<Rightarrow>
        if ok then (case copy_flat C p (take (unat n) vs) c1 of (ok2, c2) \<Rightarrow>
          (DOCA_SUCCESS, if ok2 then Some p else None, if ok2 then c2 else cu_free C qp_gpu c2))
        else (DOCA_ERROR_NO_MEMORY, None, c1)))"
  have "(e, r, c') = (if n = 0 \<or> qp_gpu = null then (DOCA_ERROR_INVALID_VALUE, None, c) else made)"
    unfolding made_def c [symmetric] qp_flat_list_create_hl_def
    by (simp split: option.splits prod.splits bool.splits)
  then consider (bad) "e = DOCA_ERROR_INVALID_VALUE" "r = None" "c' = c"
    | (alloc) vs ok p c1 where "n \<noteq> 0" "cu_malloc C ?n c = (ok, p, c1)"
      "(e, r, c') = (if ok then (case copy_flat C p (take (unat n) vs) c1 of (ok2, c2) \<Rightarrow>
          (DOCA_SUCCESS, if ok2 then Some p else None, if ok2 then c2 else cu_free C qp_gpu c2))
        else (DOCA_ERROR_NO_MEMORY, None, c1))"
    unfolding made_def by (cases qp_list; cases "cu_malloc C ?n c") (auto split: if_splits)
  then show ?thesis
  proof cases
    case alloc
    have "unat ?n = 296 * unat n"
      using unat_lt_2p [of n] by (simp add: DEV_QP_SIZE_def unat_word_ariths unat_ucast_u32_u64)
    then have n0: "?n \<noteq> 0" using alloc(1) by (metis mult_is_0 unat_0 unat_eq_zero numeral_neq_zero)
    show ?thesis
    proof (cases ok)
      case False
      then show ?thesis using alloc cuda_law_1 [OF l, THEN conjunct1] by auto
    next
      case True
      have "cu_malloc C ?n c = (True, p, c1)" using alloc(2) True by simp
      then have g: "p \<noteq> null" "gains live c (GDev p ?n) c1"
        using cuda_law_0 [OF l, THEN conjunct1] n0 by blast+
      obtain ok2 c2 where f: "copy_flat C p (take (unat n) vs) c1 = (ok2, c2)" by fastforce
      have c2: "live c2 = insert (GDev p ?n) (live c)"
        using copy_flat_live [OF l f] g(2) by (simp add: gains_def)
      have free: "live (cu_free C q c) = live c - {GDev q m | m. True}" for q c
        using cuda_law_2 [OF l, THEN conjunct1] by blast
      have only: "GDev p m \<notin> live c" for m
      proof
        assume a: "GDev p m \<in> live c"
        then have "{p ..< p + unat m} \<inter> {p ..< p + unat ?n} = {}" using g(2) by (fastforce simp: gains_def)
        moreover have "0 < unat ?n" using n0 by (simp add: unat_gt_0)
        ultimately have "unat m = 0" by (cases "unat m = 0") auto
        then show False using a none by (simp add: unat_eq_zero)
      qed
      show ?thesis
      proof (cases ok2)
        case True
        then have "e = DOCA_SUCCESS" "r = Some p" "c' = c2" using alloc(3) \<open>ok\<close> f by auto
        then show ?thesis using c2 free [of p c2] g(1) only by (auto simp: qp_flat_list_destroy_hl_def)
      next
        case False
        then have "e = DOCA_SUCCESS" "r = None" "c' = cu_free C qp_gpu c2" using alloc(3) \<open>ok\<close> f by auto
        moreover have "live (cu_free C qp_gpu c2) = live c2" using free [of qp_gpu c2] host alloc(2) c2 by auto
        ultimately show ?thesis using c2 only by auto
      qed
    qed
  qed simp
qed

section \<open>Witnesses\<close>

theorem queue_memory_is_whole_pages_witness:
  "4096 dvd unat (calc_cq_external_umem_size 4096 100) \<and> 6408 \<le> unat (calc_cq_external_umem_size 4096 100) \<and>
   unat (calc_cq_external_umem_size 4096 100) < 10504"
  using queue_memory_is_whole_pages [of 4096 100] by simp

definition new_cq :: dev_cq where
  "new_cq = \<lparr>cqe_daddr = mlx5_init_cqes (replicate 4 zero_cqe) 4, cq_num = 7, cqe_num = 4, cq_dbrec = 0,
     cqe_ci = 0, cqe_mask = 3, cqe_size = 64, cqe_rsvd = 0\<rparr>"

theorem new_completion_queue_is_empty_witness:
  "poll_one_cq_at False SHARING_MODE_GPU new_cq 3 = (EBUSY, new_cq) \<and> cq_holds demo_ok (cqe_daddr new_cq) 0 0 new_cq"
  using new_completion_queue_is_empty [where cq = new_cq and ev = demo_ok and hopper = False and mode = SHARING_MODE_GPU
      and i = 3]
  by (simp add: new_cq_def demo_ok_def is_power_of_two_def)

text \<open>Registering by file descriptor on the hosts of the demonstrations, with memory for the handle and without.\<close>

definition demo_reg :: "bool \<Rightarrow> (unit, gres list, unit, ref_state) reg_env" where
  "demo_reg calloc_ok = \<lparr>re_have_dmabuf = True, re_cuda = ref_cuda,
     re_sdk_fd = (\<lambda>p. (DOCA_SDK_WRAPPER_NOT_FOUND, None, [])), re_host = ref_host, re_dev = OpenDev 3,
     re_calloc = (\<lambda>_. calloc_ok), re_sdk_umem = (\<lambda>_. (DOCA_SDK_WRAPPER_NOT_FOUND, None)),
     re_sdk_release = (\<lambda>p. (DOCA_SDK_WRAPPER_NOT_FOUND, p))\<rparr>"

definition demo_world :: "int list \<Rightarrow> ref_state \<Rightarrow> (unit, gres list, ref_state) hl_world" where
  "demo_world fds h = \<lparr>w_gpu = Some (open_handle (demo_gpu True)), w_gdr = gdr_loaded, w_cuda = [], w_host = h,
     w_fds = fds\<rparr>"

lemma demo_take: "take_dmabuf_fd (demo_reg ok) 4096 64 (demo_world [] []) = Ret (DOCA_SUCCESS, 3, demo_world [3] [])"
  by (simp add: take_dmabuf_fd_def demo_reg_def demo_world_def gpu_get_dmabuf_fd_def on_gpu_def open_handle_def
      dmabuf_fd_open_def demo_gpu_def ref_cuda_def Let_def)

lemma demo_registered:
  "create_gpu_umem (demo_reg False) MEM_REG_TYPE_CUDA_DMABUF 64 4096 None (demo_world [] []) =
    Ret (DOCA_ERROR_NO_MEMORY, None, demo_world [3] [])"
  "create_gpu_umem (demo_reg True) MEM_REG_TYPE_CUDA_DMABUF 64 4096 None (demo_world [] []) =
    Ret (DOCA_SUCCESS, Some (open_handle (new_umem 4096 64 1 3 0\<lparr>um_umem := 1, um_umem_id := 1\<rparr>)),
      demo_world [] [(RUmem 1, [])])"
  by (simp_all add: create_gpu_umem_def demo_take,
      simp_all add: reg_umem_def then_close_def destroy_resources_def close_registered_def demo_reg_def demo_world_def
        umem_create_def api_create_h_def construct_def umem_open_create_def ref_host_def ref_add_def fresh_ptr_def
        new_umem_def IBV_ACCESS_LOCAL_WRITE_def DMABUF_INVALID_FD_def open_handle_def Let_def)

theorem registration_is_balanced_witness:
  "w_fds (demo_world [3] []) = [3] \<and>
   registered ref_live (umem_destroy ref_host (\<lambda>p :: unit option. (DOCA_SDK_WRAPPER_NOT_FOUND, p))) [] DOCA_SUCCESS
     (Some (open_handle (new_umem 4096 64 1 3 0\<lparr>um_umem := 1, um_umem_id := 1\<rparr>))) [(RUmem 1, [])]"
proof -
  have l: "lawful (re_host (demo_reg ok)) ref_live ref_uses" "closed ref_live ref_uses (w_host (demo_world [] []))" for ok
    using ref_host_lawful by (simp_all add: demo_reg_def demo_world_def closed_def ref_live_def)
  have m: "MEM_REG_TYPE_CUDA_DMABUF \<in> {MEM_REG_TYPE_DEFAULT, MEM_REG_TYPE_CUDA_DMABUF, MEM_REG_TYPE_CUDA_PEERMEM}"
    by simp
  have "w_fds (demo_world [3] []) = 3 # w_fds (demo_world [] [])"
    using registration_is_balanced [OF l m demo_registered(1)] demo_take [of False] by auto
  moreover have "registered ref_live (umem_destroy (re_host (demo_reg True)) (\<lambda>p :: unit option. (DOCA_SDK_WRAPPER_NOT_FOUND, p)))
      (w_host (demo_world [] [])) DOCA_SUCCESS (Some (open_handle (new_umem 4096 64 1 3 0\<lparr>um_umem := 1, um_umem_id := 1\<rparr>)))
      (w_host (demo_world [] [(RUmem 1, [])]))"
    using registration_is_balanced [OF l m demo_registered(2)] by blast
  ultimately show ?thesis by (simp add: demo_world_def demo_reg_def)
qed

theorem flat_list_is_accounted_witness:
  "\<forall>v. qp_flat_list_create_hl ref_cuda (Some [v]) 1 9 [] = (DOCA_SUCCESS, Some 1, [GDev 1 296]) \<and>
     set (snd (qp_flat_list_destroy_hl ref_cuda 1 [GDev 1 296])) = {}"
proof
  fix v
  have c: "qp_flat_list_create_hl ref_cuda (Some [v]) 1 9 [] = (DOCA_SUCCESS, Some 1, [GDev 1 296])"
    by (simp add: qp_flat_list_create_hl_def ref_cuda_def DEV_QP_SIZE_def)
  have "fst (snd (cu_malloc ref_cuda (DEV_QP_SIZE * ucast (1 :: u32)) [])) \<noteq> 9"
    by (simp add: ref_cuda_def DEV_QP_SIZE_def)
  from flat_list_is_accounted [OF ref_cuda_lawful _ this _ c]
  show "qp_flat_list_create_hl ref_cuda (Some [v]) 1 9 [] = (DOCA_SUCCESS, Some 1, [GDev 1 296]) \<and>
      set (snd (qp_flat_list_destroy_hl ref_cuda 1 [GDev 1 296])) = {}"
    using c by (simp add: DEV_QP_SIZE_def)
qed

end
