(* ===== verification/Spec2Isabelle.thy ===== *)
theory Spec2Isabelle
  imports CoreProps QpProofs SqProps DevOneSidedProofs DevCounterProofs CreateProps QueueProps GpuMemProps CpuProxyProps
    WrapperProps SdkSessionProps VerbsDevProps NetWrapperProps HighLevelProps
begin

text \<open>
  A model of GPUNetIO in Isabelle/HOL: the library with which a GPU posts RDMA operations to a network
  card (NIC) on its own.  This theory imports all others; what follows is the guide to them.

  \<^bold>\<open>The program.\<close>  The host library (\<^verbatim>\<open>src/src\<close>) has two layers.  The verbs layer (\<^verbatim>\<open>doca_verbs_*.cpp\<close>) makes
  devices, doorbell registers (UARs), registered memory (UMEMs), completion queues (CQs), shared
  receive queues (SRQs) and queue pairs (QPs) with DevX commands, and moves a QP through its states.
  The GPU layer (\<^verbatim>\<open>doca_gpunetio.cpp\<close>) allocates memory, maps doorbell registers for the GPU, and exports a
  QP: it builds the structure that device code works on.  The device library (\<^verbatim>\<open>src/include/device\<close>) runs
  on the GPU: threads reserve slots of the send queue, write work queue entries (WQEs), ring the
  doorbell and poll the CQ.  When the GPU cannot reach the doorbell, a thread of the host rings it (the
  CPU proxy).  Behind both layers are libraries that are opened at run time: libibverbs, libmlx5,
  libcuda, GDRCopy, and the closed DOCA SDK, which takes every call first when it is installed.

  \<^bold>\<open>Conventions.\<close>  A C integer is a word of its width, an enumeration a datatype or a word constant, a
  structure a record.  A pointer is an address (\<open>ptr\<close>, 0 is null), or an option where only its target
  matters.  An error is a value of \<open>doca_error\<close>; \<open>Misuse\<close> is the outcome of code that has no defined one (a null
  pointer followed, the wrong member of a union read).  What is not under \<^verbatim>\<open>src\<close> is a parameter: the host
  (\<open>'h host\<close>), CUDA (\<open>'c cuda\<close>), the linker (\<open>dl_env\<close>), the functions of the SDK.  Their documented behaviour is a
  named predicate (\<open>lawful\<close>, \<open>cuda_lawful\<close>, \<open>lawful_dev_api\<close>, \<open>nic_contract\<close>, \<open>stores_context\<close>, \<open>reachable_unit\<close>), and each has a concrete
  instance (\<open>QpDemo\<close>, \<open>GpuDemo\<close>, the ends of the property theories) on which the witnesses are computed.
  A claim label (C1 to C40) stands before its theorem; the theorem \<open>x_witness\<close> applies \<open>x\<close> to a concrete input.

  \<^bold>\<open>Foundations.\<close>
  \<^item> \<open>Prelude\<close>: integer types, error codes, lemmas on words and lists.
  \<^item> \<open>Utils\<close>: the helpers of \<^verbatim>\<open>doca_internal.hpp\<close> and \<^verbatim>\<open>doca_gpunetio_dev_verbs_common.cuh\<close> (powers of two,
    alignment, byte swaps, copy loops), with a locale \<open>chunked_copy\<close> for the two loops that copy.
  \<^item> \<open>Devx\<close>: the bit-field accessors of \<^verbatim>\<open>doca_verbs_mlx5dv_wrapper.h\<close> on command buffers.
  \<^item> \<open>VerbsTypes\<close>, \<open>Handle\<close>: the data of the verbs layer, and the scheme of its API functions: a handle is a
    tag and a union of an SDK pointer and an open object; a call is offered to the SDK first.
  \<^item> \<open>CoreProps\<close>: the copy loops are block copies; powers of two, alignment, fields.

  \<^bold>\<open>Attributes.\<close>  \<open>VerbsAttr\<close> has every setter and getter of the attribute objects of \<^verbatim>\<open>doca_verbs_qp.cpp\<close> and
  \<^verbatim>\<open>doca_verbs_cq.cpp\<close>, \<open>AttrSession\<close> sequences of setters and what they store in an open object.  \<open>CoreProps\<close> shows that a
  session keeps the tag of the handle as long as the SDK implements the setters.

  \<^bold>\<open>Queue pairs.\<close>  \<open>VerbsQp\<close> is modify and query of \<^verbatim>\<open>doca_verbs_qp.cpp\<close>: masks, validation, the seven
  transitions with their commands, and the device as a step on its own state.  \<open>QpProofs\<close>: RTS is reached
  only in order, the recorded state is that of the device, a failure changes nothing, and a query after the
  step into RTR reads back what was set, on a device that keeps the context by the rules of
  \<open>stores_context\<close> (optional fields only when the command names them).  \<open>VerbsCreate\<close> is creation and destruction: queue sizes, memory, the command; \<open>HostRes\<close> has the
  account of what is alive on the host and the locale \<open>owner\<close> of classes that own resources,
  interpreted by UARs and UMEMs (\<open>VerbsRes\<close>), QPs (\<open>QpOwner\<close>), CQs (\<open>CqOwner\<close>) and SRQs (\<open>SrqOwner\<close>).  \<open>CreateProofs\<close>,
  \<open>CreateProps\<close>: the queues hold what was asked and lie apart, a failure leaves nothing and destruction
  gives everything back, the command says what was asked, and the ring of the device lies in the region.

  \<^bold>\<open>Other objects of the host.\<close>  \<open>VerbsRes\<close>: device capabilities, UARs, UMEMs.  \<open>VerbsCq\<close>, \<open>VerbsSrq\<close>: CQs and SRQs, with
  \<open>QueueProps\<close>.  \<open>VerbsDev\<close>: devices (\<^verbatim>\<open>doca_verbs_dev.cpp\<close>); \<open>VerbsDevProps\<close>: opening and closing balance, and
  opening is undefined exactly when the SDK gives a device and then fails to import.

  \<^bold>\<open>The device library.\<close>  \<open>DevCommon\<close>: atomics and the lock; every atomic is one indivisible step and memory is
  sequentially consistent.  \<open>DevCq\<close>: polling (\<^verbatim>\<open>doca_gpunetio_dev_verbs_cq.cuh\<close>); a waiting loop reads a
  history of the queue, one value for each load, and is \<open>None\<close> when it never ends.  \<open>DevCqProofs\<close> states what the NIC
  promises of a ring and shows what polling then gives, and when it returns; for a collapsed queue, whose
  entry has 16 bits of the index, \<open>posts_fit\<close> and \<open>looks_in_time\<close> say what keeps them unambiguous.  \<open>DevQp\<close>, \<open>DevWqe\<close>: the QP structure
  and the functions that write WQEs (\<^verbatim>\<open>doca_gpunetio_dev_verbs_qp.cuh\<close>); \<open>DevWqeProofs\<close> reads them back
  as the NIC does.  \<open>DevSq\<close>: reserving, marking ready, submitting.  \<open>SqConc\<close>: many threads on one queue, as a step
  relation whose steps are the atomic operations of \<open>DevCommon\<close> and \<open>DevSq\<close>; \<open>SqInv\<close> its invariant; \<open>SqProps\<close>: reservations
  are exclusive, a doorbell covers written entries only, the queue drains.  \<open>DevOneSided\<close>: put, get and signal
  (\<^verbatim>\<open>doca_gpunetio_dev_verbs_onesided.cuh\<close>); \<open>DevOneSidedProofs\<close>, with the locale \<open>chunk_writer\<close>, shows that the
  entries tile the transfer and what comes last.  \<open>DevCounter\<close>: the operations with a companion QP
  (\<^verbatim>\<open>doca_gpunetio_dev_verbs_counter.cuh\<close>), on a store from names to QPs that keeps the aliasing;
  \<open>DevCounterProofs\<close>: a joint submission is a submission of each QP and blocks for ever when one is named twice.

  \<^bold>\<open>The GPU layer.\<close>  \<open>CudaRes\<close>: CUDA, GDRCopy and the C library, and what is alive.  \<open>GdrCopy\<close>: \<^verbatim>\<open>doca_gpunetio_gdrcopy.cpp\<close>.
  \<open>GpuMem\<close>: the three kinds of memory and the table over them; \<open>GpuMemProofs\<close> has the locale \<open>mem_kind\<close> of one kind,
  interpreted four times in \<open>GpuKinds\<close>; \<open>GpuMemProps\<close>: any session of allocations and releases is accounted, and the
  leaks of the fallback.  \<open>GpuUar\<close>: doorbell registers by count, as an inductive session.  \<open>GpuExport\<close>: export, copy to the
  device, unexport, reset, query and the lists of QPs; \<open>GpuExportAccount\<close>, \<open>GpuExportProofs\<close>, \<open>GpuExportProps\<close>: the view
  is the queue of the device, and unexport undoes export.  \<open>CpuProxy\<close>: one visit of a QP and the service
  loop; \<open>CpuProxyProps\<close>: a proxied session rings as the GPU would have, and the loop ends caught up.

  \<^bold>\<open>The wrappers.\<close>  \<open>DlLoad\<close>: opening libraries and looking up symbols once (\<^verbatim>\<open>std::call_once\<close>), and calls through the
  pointers.  \<open>SdkWrapper\<close>: every function of the six \<^verbatim>\<open>*_sdk_wrapper.cpp\<close>; \<open>NetWrapper\<close>: those of libibverbs, libmlx5 and
  libcuda.  \<open>WrapperBase\<close>, \<open>WrapperProps\<close>, \<open>NetWrapperProps\<close>: loading is all or nothing, no SDK wrapper calls through a null
  pointer, and the releases of libibverbs are undefined exactly after a load that failed half way.
  \<open>SdkSession\<close>, \<open>SdkSessionProps\<close> put the wrappers behind the setters of \<open>AttrSession\<close>: a session on an SDK object has a
  result exactly when the SDK takes every call that the setters do not reject by themselves.

  \<^bold>\<open>High level.\<close>  \<open>HighLevel\<close>: the building blocks of \<^verbatim>\<open>doca_gpunetio_high_level.cpp\<close>; \<open>HighLevelProps\<close>: the ring written for a
  new CQ is what the contract of \<open>DevCqProofs\<close> starts from, registration is balanced over its two attempts, sizes are
  whole pages.

  \<^bold>\<open>Bounds and fuel.\<close>  The waiting loops of \<open>DevCq\<close> and the service loop are partial functions into options, and their
  ends are theorems.  The inline copy of \<open>Utils\<close> takes fuel, since it may not end; the theorem
  about it names the rounds it needs, the quotient of the sizes, and no fewer do.  Sizes and indices are words and wrap; a theorem that
  needs them not to wrap says so, and \<open>oversized_requests_wrap\<close> shows what happens otherwise.  In \<open>SqConc\<close> the 64-bit
  indices are assumed not to wrap in a run.

  \<^bold>\<open>Not modelled.\<close>  Of the high-level API, the functions that chain the layers (\<^verbatim>\<open>create_cq\<close>, \<^verbatim>\<open>create_qp\<close>, and the creation
  and destruction of QPs and groups): each call they make is modelled, their sequence of error paths
  is not.  \<^verbatim>\<open>mlx5_ifc.h\<close> and \<^verbatim>\<open>mlx5_prm.h\<close> are layouts without code; the fields that the commands use are constants.  Logging
  is left out everywhere.  The examples are clients of the library.  Memory orders and fences of the
  device code have no counterpart, nor have the caches of the GPU; the inline assembly of the device code
  is modelled by what it computes.
\<close>

end
